(* ===== verification/Prelude.thy ===== *)
theory Prelude
  imports Complex_Main
begin

text \<open>
  Shared vocabulary of the development.

  \<^item> Types: a \<^verbatim>\<open>datetime\<close> is an \<^typ>\<open>int\<close> counting microseconds (the resolution of
    Python's \<^verbatim>\<open>datetime\<close>), money is an \<^typ>\<open>int\<close> of cents or millicents, identifiers are
    strings, a \<^verbatim>\<open>float\<close> that the code computes with is a rational number.
  \<^item> Tables: a database table is the list of its rows in insertion order.  \<open>get_row\<close>,
    \<open>put_row\<close>, \<open>modify_row\<close> and \<open>delete_row\<close> are \<^verbatim>\<open>session.get\<close>,
    \<^verbatim>\<open>session.add\<close>, an in-place update and \<^verbatim>\<open>session.delete\<close> on the primary key;
    \<open>sum_rows\<close> is \<^verbatim>\<open>SELECT coalesce(sum(..), 0) .. WHERE ..\<close>.
  \<^item> Collections: \<open>row_simps\<close> gathers the table laws, \<open>step_inv\<close> the facts that an
    operation keeps an invariant.
  \<^item> The locales \<open>invariant_step\<close> and \<open>invariant_system\<close> are the interface every state
    machine of the development implements: a step relation, an invariant, a start state.
\<close>

named_theorems row_simps \<open>laws of the table operations\<close>
named_theorems step_inv \<open>operations that keep an invariant\<close>

type_synonym time = int
type_synonym ident = string

definition seconds :: "int \<Rightarrow> time" where
  "seconds n = n * 1000000"

lemma seconds_mono: "seconds a \<le> seconds b \<longleftrightarrow> a \<le> b"
  by (simp add: seconds_def)

lemma seconds_nonneg: "0 \<le> seconds a \<longleftrightarrow> 0 \<le> a"
  by (simp add: seconds_def)

text \<open>Truthiness of an optional string: \<^verbatim>\<open>None\<close> and the empty string are false.\<close>

fun truthy :: "string option \<Rightarrow> bool" where
  "truthy None = False"
| "truthy (Some s) = (s \<noteq> [])"

text \<open>\<^verbatim>\<open>a or b\<close> on an optional string.\<close>

definition str_or :: "string option \<Rightarrow> string option \<Rightarrow> string option" where
  "str_or a b = (if truthy a then a else b)"

lemma truthy_iff: "truthy s \<longleftrightarrow> (\<exists>c cs. s = Some (c # cs))"
  by (cases s) (auto simp: neq_Nil_conv)

subsection \<open>String operations\<close>

text \<open>\<^verbatim>\<open>str.lower\<close>, \<^verbatim>\<open>str.strip\<close> and \<^verbatim>\<open>str.isalnum\<close> on ASCII text.\<close>

definition is_upper :: "char \<Rightarrow> bool" where
  "is_upper c \<longleftrightarrow> 65 \<le> (of_char c :: nat) \<and> (of_char c :: nat) \<le> 90"

definition is_lower :: "char \<Rightarrow> bool" where
  "is_lower c \<longleftrightarrow> 97 \<le> (of_char c :: nat) \<and> (of_char c :: nat) \<le> 122"

definition is_digit :: "char \<Rightarrow> bool" where
  "is_digit c \<longleftrightarrow> 48 \<le> (of_char c :: nat) \<and> (of_char c :: nat) \<le> 57"

definition is_alnum :: "char \<Rightarrow> bool" where
  "is_alnum c \<longleftrightarrow> is_upper c \<or> is_lower c \<or> is_digit c"

definition is_space :: "char \<Rightarrow> bool" where
  "is_space c \<longleftrightarrow> (of_char c :: nat) \<in> {9, 10, 11, 12, 13, 28, 29, 30, 31, 32}"

definition lower_char :: "char \<Rightarrow> char" where
  "lower_char c = (if is_upper c then char_of ((of_char c :: nat) + 32) else c)"

definition lower :: "string \<Rightarrow> string" where
  "lower s = map lower_char s"

definition strip :: "string \<Rightarrow> string" where
  "strip s = rev (dropWhile is_space (rev (dropWhile is_space s)))"

lemma of_char_lower_char:
  "(of_char (lower_char c) :: nat) = (if is_upper c then of_char c + 32 else of_char c)"
proof (cases "is_upper c")
  case True
  then have "(of_char c :: nat) + 32 < 256" by (simp add: is_upper_def)
  with True show ?thesis by (simp add: lower_char_def of_char_of take_bit_eq_mod)
qed (simp add: lower_char_def)

lemma not_upper_lower_char: "\<not> is_upper (lower_char c)"
  using of_char_lower_char [of c] by (auto simp: is_upper_def split: if_splits)

lemma lower_lower [simp]: "lower (lower s) = lower s"
proof -
  have "lower_char (lower_char c) = lower_char c" for c
    using not_upper_lower_char [of c] by (simp add: lower_char_def)
  then show ?thesis by (simp add: lower_def)
qed

text \<open>\<^verbatim>\<open>str.split(sep)\<close> for a one-character separator, \<^verbatim>\<open>needle in text\<close>,
  \<^verbatim>\<open>text.startswith(prefix)\<close> and \<^verbatim>\<open>str(n)\<close>.\<close>

fun split_on :: "char \<Rightarrow> string \<Rightarrow> string list" where
  "split_on sep [] = [[]]"
| "split_on sep (c # cs) =
     (if c = sep then [] # split_on sep cs
      else case split_on sep cs of [] \<Rightarrow> [[c]] | w # ws \<Rightarrow> (c # w) # ws)"

fun starts_with :: "string \<Rightarrow> string \<Rightarrow> bool" where
  "starts_with [] s = True"
| "starts_with (p # ps) [] = False"
| "starts_with (p # ps) (c # cs) = (p = c \<and> starts_with ps cs)"

fun in_text :: "string \<Rightarrow> string \<Rightarrow> bool" where
  "in_text needle [] = (needle = [])"
| "in_text needle (c # cs) = (starts_with needle (c # cs) \<or> in_text needle cs)"

definition digit_char :: "nat \<Rightarrow> char" where
  "digit_char d = char_of (48 + d)"

fun show_nat :: "nat \<Rightarrow> string" where
  "show_nat n = (if n < 10 then [digit_char n] else show_nat (n div 10) @ [digit_char (n mod 10)])"

declare show_nat.simps [simp del]

definition show_int :: "int \<Rightarrow> string" where
  "show_int i = (if i < 0 then CHR ''-'' # show_nat (nat (- i)) else show_nat (nat i))"

lemma starts_with_append: "starts_with p s \<longleftrightarrow> (\<exists>rest. s = p @ rest)"
  by (induction p s rule: starts_with.induct) auto

lemma in_text_iff: "in_text needle s \<longleftrightarrow> (\<exists>pre post. s = pre @ needle @ post)"
proof (induction s)
  case (Cons c cs)
  have "(\<exists>pre post. c # cs = pre @ needle @ post) \<longleftrightarrow>
      (\<exists>rest. c # cs = needle @ rest) \<or> (\<exists>pre post. cs = pre @ needle @ post)"
    by (metis append_Cons append_Nil list.exhaust list.inject)
  with Cons show ?case by (simp add: starts_with_append)
qed simp

subsection \<open>Python's \<open>round\<close>: to the nearest integer, halves to even\<close>

definition py_round :: "rat \<Rightarrow> int" where
  "py_round x =
     (let f = \<lfloor>x\<rfloor>; d = x - of_int f
      in if d < 1 / 2 then f
         else if d > 1 / 2 then f + 1
         else if even f then f else f + 1)"

lemma py_round_error: "\<bar>of_int (py_round x) - x\<bar> \<le> 1 / 2"
proof -
  have "of_int \<lfloor>x\<rfloor> \<le> x" and "x < of_int \<lfloor>x\<rfloor> + 1"
    using floor_correct [of x] by simp_all
  then show ?thesis
    by (auto simp: py_round_def Let_def abs_le_iff)
qed

lemma py_round_of_int [simp]: "py_round (of_int n) = n"
  by (simp add: py_round_def)

lemma py_round_0 [simp]: "py_round 0 = 0"
  using py_round_of_int [of 0] by simp

lemma py_round_nonneg: "0 \<le> x \<Longrightarrow> 0 \<le> py_round x"
  by (auto simp: py_round_def Let_def)

subsection \<open>Tables\<close>

definition get_row :: "('r \<Rightarrow> 'k) \<Rightarrow> 'k \<Rightarrow> 'r list \<Rightarrow> 'r option" where
  "get_row key k rows = find (\<lambda>r. key r = k) rows"

fun put_row :: "('r \<Rightarrow> 'k) \<Rightarrow> 'r \<Rightarrow> 'r list \<Rightarrow> 'r list" where
  "put_row key r [] = [r]"
| "put_row key r (x # xs) = (if key x = key r then r # xs else x # put_row key r xs)"

fun modify_row :: "('r \<Rightarrow> 'k) \<Rightarrow> 'k \<Rightarrow> ('r \<Rightarrow> 'r) \<Rightarrow> 'r list \<Rightarrow> 'r list" where
  "modify_row key k f [] = []"
| "modify_row key k f (x # xs) = (if key x = k then f x # xs else x # modify_row key k f xs)"

definition delete_row :: "('r \<Rightarrow> 'k) \<Rightarrow> 'k \<Rightarrow> 'r list \<Rightarrow> 'r list" where
  "delete_row key k rows = filter (\<lambda>r. key r \<noteq> k) rows"

definition sum_rows :: "('r \<Rightarrow> bool) \<Rightarrow> ('r \<Rightarrow> int) \<Rightarrow> 'r list \<Rightarrow> int" where
  "sum_rows P f rows = sum_list (map f (filter P rows))"

abbreviation distinct_keys :: "('r \<Rightarrow> 'k) \<Rightarrow> 'r list \<Rightarrow> bool" where
  "distinct_keys key rows \<equiv> distinct (map key rows)"

lemma get_row_Nil [simp]: "get_row key k [] = None"
  by (simp add: get_row_def)

lemma get_row_Cons [simp]:
  "get_row key k (x # xs) = (if key x = k then Some x else get_row key k xs)"
  by (simp add: get_row_def)

lemma get_row_SomeD: "get_row key k rows = Some r \<Longrightarrow> r \<in> set rows \<and> key r = k"
  by (induction rows) (auto split: if_splits)

lemma get_row_None_iff [row_simps]: "get_row key k rows = None \<longleftrightarrow> k \<notin> key ` set rows"
  by (induction rows) auto

lemma get_row_distinct:
  "distinct_keys key rows \<Longrightarrow> r \<in> set rows \<Longrightarrow> get_row key (key r) rows = Some r"
  by (induction rows) (auto simp: rev_image_eqI)

lemma get_row_append [row_simps]:
  "get_row key k (xs @ ys) = (case get_row key k xs of None \<Rightarrow> get_row key k ys | Some r \<Rightarrow> Some r)"
  by (induction xs) auto

lemma get_row_put_row [row_simps]:
  "get_row key k (put_row key r rows) = (if k = key r then Some r else get_row key k rows)"
  by (induction rows) auto

lemma keys_put_row [row_simps]: "key ` set (put_row key r rows) = insert (key r) (key ` set rows)"
  by (induction rows) auto

lemma set_put_row_subset: "set (put_row key r rows) \<subseteq> insert r (set rows)"
  by (induction rows) auto

lemma set_put_row:
  "distinct_keys key rows \<Longrightarrow>
   set (put_row key r rows) = insert r {x \<in> set rows. key x \<noteq> key r}"
  by (induction rows) (auto, metis image_eqI)

lemma distinct_put_row [row_simps]:
  "distinct_keys key rows \<Longrightarrow> distinct_keys key (put_row key r rows)"
proof (induction rows)
  case (Cons x xs)
  then show ?case
    using keys_put_row [of key r xs] by auto
qed simp

lemma put_row_new: "k = key r \<Longrightarrow> k \<notin> key ` set rows \<Longrightarrow> put_row key r rows = rows @ [r]"
  by (induction rows) auto

lemma get_row_modify_row [row_simps]:
  assumes "\<And>r. key (f r) = key r"
  shows "get_row key k (modify_row key j f rows) =
    (if k = j then map_option f (get_row key k rows) else get_row key k rows)"
  using assms by (induction rows) auto

lemma map_key_modify_row [row_simps]:
  "(\<And>r. key (f r) = key r) \<Longrightarrow> map key (modify_row key k f rows) = map key rows"
  by (induction rows) auto

lemma length_modify_row [simp]: "length (modify_row key k f rows) = length rows"
  by (induction rows) auto

lemma set_modify_row_subset: "set (modify_row key k f rows) \<subseteq> set rows \<union> f ` set rows"
  by (induction rows) auto

lemma modify_row_absent: "k \<notin> key ` set rows \<Longrightarrow> modify_row key k f rows = rows"
  by (induction rows) auto

lemma modify_row_const:
  "get_row key k rows = Some r \<Longrightarrow> modify_row key k (\<lambda>_. f r) rows = modify_row key k f rows"
  by (induction rows) (auto split: if_splits)

lemma modify_row_cases:
  "d \<in> set (modify_row key k f rows) \<Longrightarrow> d \<in> set rows \<or> (\<exists>r \<in> set rows. key r = k \<and> d = f r)"
  by (induction rows) (auto split: if_splits)

text \<open>A bulk update that keeps the key keeps the keys of the table.\<close>

lemma keys_map_if:
  "(\<And>x. key (f x) = key x) \<Longrightarrow> map key (map (\<lambda>x. if P x then f x else x) xs) = map key xs"
  by (induction xs) auto

lemma comp_key_if [simp]:
  "(\<And>x. key (f x) = key x) \<Longrightarrow> map (key \<circ> (\<lambda>x. if P x then f x else x)) xs = map key xs"
  using keys_map_if [of key f P xs] by simp

lemma modify_row_distinct:
  "distinct_keys key rows \<Longrightarrow>
   modify_row key k f rows = map (\<lambda>x. if key x = k then f x else x) rows"
proof (induction rows)
  case (Cons x xs)
  then show ?case
    by (auto intro!: map_idI [symmetric] simp: rev_image_eqI)
qed simp

lemma get_row_delete_row [row_simps]:
  "get_row key k (delete_row key j rows) = (if k = j then None else get_row key k rows)"
  by (induction rows) (auto simp: delete_row_def)

lemma distinct_delete_row [row_simps]:
  "distinct_keys key rows \<Longrightarrow> distinct_keys key (delete_row key j rows)"
  by (simp add: delete_row_def distinct_map_filter)

lemma map_filter_snoc: "List.map_filter f (xs @ [x]) = List.map_filter f xs @ (case f x of None \<Rightarrow> [] | Some y \<Rightarrow> [y])"
  by (induction xs) (auto split: option.splits)

subsection \<open>Aggregates over a table\<close>

lemma sum_rows_Nil [simp]: "sum_rows P f [] = 0"
  by (simp add: sum_rows_def)

lemma sum_rows_Cons [simp]:
  "sum_rows P f (x # xs) = (if P x then f x else 0) + sum_rows P f xs"
  by (simp add: sum_rows_def)

lemma sum_rows_append [simp]: "sum_rows P f (xs @ ys) = sum_rows P f xs + sum_rows P f ys"
  by (simp add: sum_rows_def)

lemma sum_rows_nonneg: "(\<And>r. r \<in> set rows \<Longrightarrow> P r \<Longrightarrow> 0 \<le> f r) \<Longrightarrow> 0 \<le> sum_rows P f rows"
  by (induction rows) auto

lemma sum_rows_cong:
  "(\<And>r. r \<in> set rows \<Longrightarrow> P r = Q r) \<Longrightarrow> (\<And>r. r \<in> set rows \<Longrightarrow> P r \<Longrightarrow> f r = g r) \<Longrightarrow>
   sum_rows P f rows = sum_rows Q g rows"
  by (induction rows) auto

lemma sum_rows_mono:
  "(\<And>r. r \<in> set rows \<Longrightarrow> P r \<Longrightarrow> Q r) \<Longrightarrow> (\<And>r. r \<in> set rows \<Longrightarrow> Q r \<Longrightarrow> 0 \<le> f r) \<Longrightarrow>
   sum_rows P f rows \<le> sum_rows Q f rows"
  by (induction rows) (auto simp: add_mono)

lemma sum_rows_filter: "sum_rows P f (filter Q rows) = sum_rows (\<lambda>r. Q r \<and> P r) f rows"
  by (induction rows) auto

text \<open>Writing a row replaces its contribution to an aggregate and leaves the rest alone.\<close>

lemma sum_rows_put_row:
  assumes "distinct_keys key rows"
  shows "sum_rows P f (put_row key r rows) =
    sum_rows (\<lambda>x. P x \<and> key x \<noteq> key r) f rows + (if P r then f r else 0)"
  using assms
proof (induction rows)
  case (Cons x xs)
  show ?case
  proof (cases "key x = key r")
    case True
    with Cons.prems have "sum_rows (\<lambda>y. P y \<and> key y \<noteq> key r) f xs = sum_rows P f xs"
      by (intro sum_rows_cong) (auto simp: rev_image_eqI)
    with True show ?thesis by simp
  next
    case False
    with Cons show ?thesis by simp
  qed
qed simp

lemma sum_rows_split_key:
  assumes "distinct_keys key rows" and "get_row key k rows = Some r"
  shows "sum_rows P f rows = sum_rows (\<lambda>x. P x \<and> key x \<noteq> k) f rows + (if P r then f r else 0)"
  using assms
proof (induction rows)
  case (Cons x xs)
  show ?case
  proof (cases "key x = k")
    case True
    with Cons.prems have "sum_rows (\<lambda>y. P y \<and> key y \<noteq> k) f xs = sum_rows P f xs"
      by (intro sum_rows_cong) (auto simp: rev_image_eqI)
    with True Cons.prems show ?thesis by simp
  next
    case False
    with Cons show ?thesis by simp
  qed
qed simp

subsection \<open>Sorting\<close>

lemma sort_key_take_least:
  assumes "x \<in> set (take n (sort_key f xs))" and "y \<in> set (drop n (sort_key f xs))"
  shows "f x \<le> f y"
proof -
  have "sorted (map f (take n (sort_key f xs)) @ map f (drop n (sort_key f xs)))"
    by (metis append_take_drop_id map_append sorted_sort_key)
  with assms show ?thesis
    by (auto simp: sorted_append)
qed

subsection \<open>The interface of a state machine\<close>

text \<open>
  A machine provides a step relation (one rule per operation) and an invariant every step
  keeps; a machine with a start state also has the invariant there.  The client facts: the
  invariant is kept by every run, and holds in every reachable state.
\<close>

locale invariant_step =
  fixes step :: "'s \<Rightarrow> 's \<Rightarrow> bool"
    and inv :: "'s \<Rightarrow> bool"
  assumes step_keeps: "step s t \<Longrightarrow> inv s \<Longrightarrow> inv t"
begin

lemma run_keeps: "step\<^sup>*\<^sup>* s t \<Longrightarrow> inv s \<Longrightarrow> inv t"
  by (induction rule: rtranclp_induct) (auto intro: step_keeps)

end

locale invariant_system = invariant_step step inv
  for step :: "'s \<Rightarrow> 's \<Rightarrow> bool" and inv :: "'s \<Rightarrow> bool" +
  fixes init :: "'s"
  assumes init_inv: "inv init"
begin

lemma reachable_inv: "step\<^sup>*\<^sup>* init t \<Longrightarrow> inv t"
  by (rule run_keeps [OF _ init_inv])

end

end
