(* ===== verification/Bus.thy ===== *)
theory Bus
  imports Prelude
begin

text \<open>
  The durable message bus of \<^verbatim>\<open>packages/persistence\<close>: \<^verbatim>\<open>workflow.py\<close>
  (\<^verbatim>\<open>WorkflowEventRepository\<close>) and the class \<^verbatim>\<open>SubjectBus\<close> of \<^verbatim>\<open>bus.py\<close>.

  The state \<open>bus_db\<close> is the pair of tables \<^verbatim>\<open>workflow_events\<close> and
  \<^verbatim>\<open>bus_deliveries\<close> with the autoincrement counter of the second.  Each operation is one
  transaction; the clock is read once per operation (\<open>now\<close>), and the fresh
  \<^verbatim>\<open>uuid4()\<close> of an event is an argument.  The payload of an event is a type parameter.

  The lemmas show: the tables stay consistent (\<open>bus_inv\<close>), a claim takes only deliveries
  that are due and never one that another claim holds, claims are oldest first and bounded,
  a published event is delivered to each of its consumers, and a delivery lost to a crashed
  worker becomes claimable again.
\<close>

datatype bus_status = Pending | Processing | Completed | Failed

record 'p workflow_event =
  ev_event_id :: ident
  ev_subject :: string
  ev_payload :: 'p
  ev_status :: bus_status
  ev_attempts :: int
  ev_available_at :: time
  ev_last_error :: "string option"
  ev_created_at :: time
  ev_updated_at :: time

record delivery =
  dl_id :: int
  dl_event_id :: ident
  dl_consumer :: string
  dl_subject :: string
  dl_status :: bus_status
  dl_attempts :: int
  dl_available_at :: time
  dl_last_error :: "string option"
  dl_created_at :: time
  dl_updated_at :: time

record 'p bus_message =
  msg_delivery_id :: int
  msg_event_id :: ident
  msg_consumer :: string
  msg_subject :: string
  msg_payload :: 'p
  msg_attempts :: int
  msg_available_at :: time
  msg_last_error :: "string option"

record 'p bus_db =
  bus_events :: "'p workflow_event list"
  bus_deliveries :: "delivery list"
  bus_next_id :: int

definition empty_bus :: "'p bus_db" where
  "empty_bus = \<lparr>bus_events = [], bus_deliveries = [], bus_next_id = 1\<rparr>"

definition SUBJECT_CONSUMERS :: "(string \<times> string list) list" where
  "SUBJECT_CONSUMERS =
     [(''build.accepted'', [''builder-worker'']),
      (''build.job.progress'', [''builder-worker'']),
      (''deployment.requested'', [''control-plane-worker'']),
      (''invocation.recorded'', [''control-plane-worker'']),
      (''usage.recorded'', [''control-plane-worker'']),
      (''probe.result.recorded'', [''validator-worker'']),
      (''validator.weights.published'', [''validator-worker''])]"

definition subject_consumers :: "string \<Rightarrow> string list" where
  "subject_consumers s = (case map_of SUBJECT_CONSUMERS s of None \<Rightarrow> [] | Some cs \<Rightarrow> cs)"

subsection \<open>Publishing\<close>

definition add_event ::
  "time \<Rightarrow> ident \<Rightarrow> string \<Rightarrow> 'p \<Rightarrow> 'p bus_db \<Rightarrow> 'p workflow_event \<times> 'p bus_db" where
  "add_event now eid subject payload db =
     (let event = \<lparr>ev_event_id = eid, ev_subject = subject, ev_payload = payload,
                   ev_status = Pending, ev_attempts = 0, ev_available_at = now,
                   ev_last_error = None, ev_created_at = now, ev_updated_at = now\<rparr>
      in (event, db\<lparr>bus_events := bus_events db @ [event]\<rparr>))"

definition workflow_publish ::
  "time \<Rightarrow> ident \<Rightarrow> string \<Rightarrow> 'p \<Rightarrow> 'p bus_db \<Rightarrow> 'p workflow_event \<times> 'p bus_db" where
  "workflow_publish now eid subject payload db = add_event now eid subject payload db"

definition add_delivery :: "'p workflow_event \<Rightarrow> string \<Rightarrow> 'p bus_db \<Rightarrow> 'p bus_db" where
  "add_delivery event consumer db =
     db\<lparr>bus_deliveries := bus_deliveries db @
          [\<lparr>dl_id = bus_next_id db, dl_event_id = ev_event_id event, dl_consumer = consumer,
            dl_subject = ev_subject event, dl_status = Pending, dl_attempts = 0,
            dl_available_at = ev_available_at event, dl_last_error = None,
            dl_created_at = ev_created_at event, dl_updated_at = ev_updated_at event\<rparr>],
        bus_next_id := bus_next_id db + 1\<rparr>"

definition publish ::
  "time \<Rightarrow> ident \<Rightarrow> string \<Rightarrow> 'p \<Rightarrow> 'p bus_db \<Rightarrow> 'p workflow_event \<times> 'p bus_db" where
  "publish now eid subject payload db =
     (let (event, db1) = add_event now eid subject payload db
      in (event, fold (add_delivery event) (subject_consumers subject) db1))"

subsection \<open>Claiming\<close>

definition to_message :: "delivery \<Rightarrow> 'p workflow_event \<Rightarrow> 'p bus_message" where
  "to_message row event_row =
     \<lparr>msg_delivery_id = dl_id row, msg_event_id = dl_event_id row,
      msg_consumer = dl_consumer row, msg_subject = dl_subject row,
      msg_payload = ev_payload event_row, msg_attempts = dl_attempts row,
      msg_available_at = dl_available_at row, msg_last_error = dl_last_error row\<rparr>"

text \<open>The messages of a list of delivery rows: a row whose event is missing is skipped.\<close>

definition messages_of :: "'p workflow_event list \<Rightarrow> delivery list \<Rightarrow> 'p bus_message list" where
  "messages_of evs rows =
     List.map_filter (\<lambda>row. map_option (to_message row) (get_row ev_event_id (dl_event_id row) evs)) rows"

definition claimable :: "time \<Rightarrow> string \<Rightarrow> string list \<Rightarrow> delivery \<Rightarrow> bool" where
  "claimable now consumer subjects d \<longleftrightarrow>
     dl_consumer d = consumer \<and> dl_subject d \<in> set subjects \<and>
     dl_status d = Pending \<and> dl_available_at d \<le> now"

definition claim_row :: "time \<Rightarrow> delivery \<Rightarrow> delivery" where
  "claim_row now d = d\<lparr>dl_status := Processing, dl_attempts := dl_attempts d + 1, dl_updated_at := now\<rparr>"

definition claim_selection ::
  "time \<Rightarrow> string \<Rightarrow> string list \<Rightarrow> nat \<Rightarrow> 'p bus_db \<Rightarrow> delivery list" where
  "claim_selection now consumer subjects limit db =
     take limit (sort_key dl_created_at (filter (claimable now consumer subjects) (bus_deliveries db)))"

definition claim_pending ::
  "time \<Rightarrow> string \<Rightarrow> string list \<Rightarrow> nat \<Rightarrow> 'p bus_db \<Rightarrow> 'p bus_message list \<times> 'p bus_db" where
  "claim_pending now consumer subjects limit db =
     (let rows = claim_selection now consumer subjects limit db;
          ids = set (map dl_id rows)
      in (messages_of (bus_events db) (map (claim_row now) rows),
          db\<lparr>bus_deliveries := map (\<lambda>d. if dl_id d \<in> ids then claim_row now d else d)
                                    (bus_deliveries db)\<rparr>))"

subsection \<open>Settling a delivery\<close>

definition settle_row ::
  "time \<Rightarrow> bus_status \<Rightarrow> string option \<Rightarrow> int option \<Rightarrow> delivery \<Rightarrow> delivery" where
  "settle_row now status error retry_after row =
     row\<lparr>dl_status := status, dl_last_error := error,
         dl_available_at := (case retry_after of None \<Rightarrow> dl_available_at row | Some s \<Rightarrow> now + s),
         dl_updated_at := now\<rparr>"

definition update_status ::
  "time \<Rightarrow> int \<Rightarrow> bus_status \<Rightarrow> string option \<Rightarrow> int option \<Rightarrow> 'p bus_db
     \<Rightarrow> 'p bus_message option \<times> 'p bus_db" where
  "update_status now did status error retry_after db =
     (case get_row dl_id did (bus_deliveries db) of
        None \<Rightarrow> (None, db)
      | Some row \<Rightarrow>
          let row' = settle_row now status error retry_after row;
              db1 = db\<lparr>bus_deliveries := modify_row dl_id did (\<lambda>_. row') (bus_deliveries db)\<rparr>
          in case get_row ev_event_id (dl_event_id row) (bus_events db) of
               None \<Rightarrow> (None, db1)
             | Some ev \<Rightarrow>
                 let ev' = ev\<lparr>ev_status := status, ev_last_error := error,
                              ev_available_at := (case retry_after of None \<Rightarrow> ev_available_at ev
                                                  | Some _ \<Rightarrow> dl_available_at row'),
                              ev_updated_at := dl_updated_at row'\<rparr>
                 in (Some (to_message row' ev'),
                     db1\<lparr>bus_events := modify_row ev_event_id (ev_event_id ev) (\<lambda>_. ev') (bus_events db)\<rparr>))"

definition mark_completed :: "time \<Rightarrow> int \<Rightarrow> 'p bus_db \<Rightarrow> 'p bus_message option \<times> 'p bus_db" where
  "mark_completed now did db = update_status now did Completed None None db"

definition mark_failed ::
  "time \<Rightarrow> int \<Rightarrow> string \<Rightarrow> bool \<Rightarrow> int option \<Rightarrow> 'p bus_db \<Rightarrow> 'p bus_message option \<times> 'p bus_db" where
  "mark_failed now did error retryable retry_after db =
     update_status now did (if retryable then Pending else Failed) (Some error) retry_after db"

subsection \<open>Recovering deliveries of a worker that died\<close>

definition stale_processing :: "time \<Rightarrow> string \<Rightarrow> string list \<Rightarrow> delivery \<Rightarrow> bool" where
  "stale_processing threshold consumer subjects d \<longleftrightarrow>
     dl_consumer d = consumer \<and> dl_subject d \<in> set subjects \<and>
     dl_status d = Processing \<and> dl_updated_at d \<le> threshold"

definition requeue_row :: "time \<Rightarrow> delivery \<Rightarrow> delivery" where
  "requeue_row now d =
     d\<lparr>dl_status := Pending,
       dl_last_error := Some ''requeued after stale processing delivery'',
       dl_available_at := now, dl_updated_at := now\<rparr>"

definition requeue_event :: "time \<Rightarrow> 'p workflow_event \<Rightarrow> 'p workflow_event" where
  "requeue_event now e =
     e\<lparr>ev_status := Pending,
       ev_last_error := Some ''requeued after stale processing delivery'',
       ev_available_at := now, ev_updated_at := now\<rparr>"

definition requeue_stale_processing ::
  "time \<Rightarrow> string \<Rightarrow> string list \<Rightarrow> int \<Rightarrow> 'p bus_db \<Rightarrow> 'p bus_message list \<times> 'p bus_db" where
  "requeue_stale_processing now consumer subjects stale_after db =
     (let threshold = now - stale_after;
          rows = filter (stale_processing threshold consumer subjects) (bus_deliveries db);
          eids = set (map dl_event_id rows);
          db' = db\<lparr>bus_deliveries := map (\<lambda>d. if stale_processing threshold consumer subjects d
                                              then requeue_row now d else d) (bus_deliveries db),
                   bus_events := map (\<lambda>e. if ev_event_id e \<in> eids then requeue_event now e else e)
                                   (bus_events db)\<rparr>
      in (messages_of (bus_events db') (map (requeue_row now) rows), db'))"

subsection \<open>Listing\<close>

definition list_deliveries ::
  "string option \<Rightarrow> string list \<Rightarrow> bus_status list \<Rightarrow> 'p bus_db \<Rightarrow> 'p bus_message list" where
  "list_deliveries consumer subjects statuses db =
     messages_of (bus_events db)
       (sort_key dl_created_at
         (filter (\<lambda>d. (truthy consumer \<longrightarrow> Some (dl_consumer d) = consumer) \<and>
                      (subjects \<noteq> [] \<longrightarrow> dl_subject d \<in> set subjects) \<and>
                      (statuses \<noteq> [] \<longrightarrow> dl_status d \<in> set statuses))
           (bus_deliveries db)))"

subsection \<open>The event log on its own\<close>

text \<open>\<^verbatim>\<open>WorkflowEventRepository\<close> can also be polled directly, without deliveries.\<close>

definition workflow_claimable :: "time \<Rightarrow> string list \<Rightarrow> 'p workflow_event \<Rightarrow> bool" where
  "workflow_claimable now subjects e \<longleftrightarrow>
     ev_subject e \<in> set subjects \<and> ev_status e = Pending \<and> ev_available_at e \<le> now"

definition workflow_claim_row :: "time \<Rightarrow> 'p workflow_event \<Rightarrow> 'p workflow_event" where
  "workflow_claim_row now e =
     e\<lparr>ev_status := Processing, ev_attempts := ev_attempts e + 1, ev_updated_at := now\<rparr>"

definition workflow_claim_pending ::
  "time \<Rightarrow> string list \<Rightarrow> nat \<Rightarrow> 'p bus_db \<Rightarrow> 'p workflow_event list \<times> 'p bus_db" where
  "workflow_claim_pending now subjects limit db =
     (let rows = take limit (sort_key ev_created_at (filter (workflow_claimable now subjects) (bus_events db)));
          ids = set (map ev_event_id rows)
      in (map (workflow_claim_row now) rows,
          db\<lparr>bus_events := map (\<lambda>e. if ev_event_id e \<in> ids then workflow_claim_row now e else e)
                                (bus_events db)\<rparr>))"

definition workflow_update_status ::
  "time \<Rightarrow> ident \<Rightarrow> bus_status \<Rightarrow> string option \<Rightarrow> int option \<Rightarrow> 'p bus_db
     \<Rightarrow> 'p workflow_event option \<times> 'p bus_db" where
  "workflow_update_status now eid status error retry_after db =
     (case get_row ev_event_id eid (bus_events db) of
        None \<Rightarrow> (None, db)
      | Some ev \<Rightarrow>
          let ev' = ev\<lparr>ev_status := status, ev_last_error := error,
                       ev_available_at := (case retry_after of None \<Rightarrow> ev_available_at ev | Some s \<Rightarrow> now + s),
                       ev_updated_at := now\<rparr>
          in (Some ev', db\<lparr>bus_events := modify_row ev_event_id eid (\<lambda>_. ev') (bus_events db)\<rparr>))"

definition workflow_mark_completed ::
  "time \<Rightarrow> ident \<Rightarrow> 'p bus_db \<Rightarrow> 'p workflow_event option \<times> 'p bus_db" where
  "workflow_mark_completed now eid db = workflow_update_status now eid Completed None None db"

definition workflow_mark_failed ::
  "time \<Rightarrow> ident \<Rightarrow> string \<Rightarrow> bool \<Rightarrow> int option \<Rightarrow> 'p bus_db
     \<Rightarrow> 'p workflow_event option \<times> 'p bus_db" where
  "workflow_mark_failed now eid error retryable retry_after db =
     workflow_update_status now eid (if retryable then Pending else Failed) (Some error) retry_after db"

definition workflow_list_events ::
  "string list \<Rightarrow> bus_status list \<Rightarrow> 'p bus_db \<Rightarrow> 'p workflow_event list" where
  "workflow_list_events subjects statuses db =
     sort_key ev_created_at
       (filter (\<lambda>e. (subjects \<noteq> [] \<longrightarrow> ev_subject e \<in> set subjects) \<and>
                    (statuses \<noteq> [] \<longrightarrow> ev_status e \<in> set statuses)) (bus_events db))"

section \<open>Lemmas\<close>

subsection \<open>Table shape\<close>

definition bus_inv :: "'p bus_db \<Rightarrow> bool" where
  "bus_inv db \<longleftrightarrow>
     distinct_keys dl_id (bus_deliveries db) \<and>
     distinct_keys ev_event_id (bus_events db) \<and>
     (\<forall>d \<in> set (bus_deliveries db).
        dl_id d < bus_next_id db \<and> dl_event_id d \<in> ev_event_id ` set (bus_events db) \<and>
        0 \<le> dl_attempts d \<and> (dl_status d = Processing \<longrightarrow> 1 \<le> dl_attempts d))"

definition bus_fresh :: "ident \<Rightarrow> 'p bus_db \<Rightarrow> bool" where
  "bus_fresh eid db \<longleftrightarrow> eid \<notin> ev_event_id ` set (bus_events db)"

lemma bus_inv_empty: "bus_inv empty_bus"
  by (simp add: bus_inv_def empty_bus_def)

lemma dl_id_claim_row [simp]: "dl_id (claim_row now d) = dl_id d"
  and dl_event_id_claim_row [simp]: "dl_event_id (claim_row now d) = dl_event_id d"
  and dl_status_claim_row [simp]: "dl_status (claim_row now d) = Processing"
  by (simp_all add: claim_row_def)

lemma dl_id_requeue_row [simp]: "dl_id (requeue_row now d) = dl_id d"
  and dl_event_id_requeue_row [simp]: "dl_event_id (requeue_row now d) = dl_event_id d"
  and dl_status_requeue_row [simp]: "dl_status (requeue_row now d) = Pending"
  by (simp_all add: requeue_row_def)

lemma ev_event_id_requeue_event [simp]: "ev_event_id (requeue_event now e) = ev_event_id e"
  by (simp add: requeue_event_def)

lemma add_delivery_inv:
  assumes "bus_inv db" and "ev_event_id event \<in> ev_event_id ` set (bus_events db)"
  shows "bus_inv (add_delivery event c db)"
  using assms by (fastforce simp: bus_inv_def add_delivery_def)

lemma bus_events_add_deliveries [simp]: "bus_events (fold (add_delivery event) cs db) = bus_events db"
  by (induction cs arbitrary: db) (simp_all add: add_delivery_def)

lemma add_deliveries_inv:
  "bus_inv db \<Longrightarrow> ev_event_id event \<in> ev_event_id ` set (bus_events db) \<Longrightarrow>
   bus_inv (fold (add_delivery event) cs db)"
proof (induction cs arbitrary: db)
  case (Cons c cs)
  then have "bus_inv (add_delivery event c db)"
    by (simp add: add_delivery_inv)
  then show ?case
    using Cons by (simp add: add_delivery_def)
qed simp

lemma publish_inv [step_inv]:
  assumes "bus_inv db" and "bus_fresh eid db"
  shows "bus_inv (snd (publish now eid subject payload db))"
proof -
  define event where "event = fst (add_event now eid subject payload db)"
  define db1 where "db1 = snd (add_event now eid subject payload db)"
  have "bus_inv db1"
    using assms by (fastforce simp: db1_def add_event_def bus_inv_def bus_fresh_def Let_def)
  moreover have "ev_event_id event \<in> ev_event_id ` set (bus_events db1)"
    by (simp add: event_def db1_def add_event_def Let_def)
  ultimately have "bus_inv (fold (add_delivery event) (subject_consumers subject) db1)"
    by (rule add_deliveries_inv)
  then show ?thesis
    by (simp add: publish_def event_def db1_def case_prod_unfold Let_def)
qed

lemma claim_pending_inv [step_inv]:
  assumes "bus_inv db"
  shows "bus_inv (snd (claim_pending now consumer subjects limit db))"
  using assms by (fastforce simp: bus_inv_def claim_pending_def Let_def claim_row_def)

lemma modify_delivery_inv:
  assumes "bus_inv db" and "get_row dl_id did (bus_deliveries db) = Some row"
    and "st = Processing \<longrightarrow> dl_status row = Processing"
  shows "bus_inv (db\<lparr>bus_deliveries :=
           modify_row dl_id did (\<lambda>_. settle_row now st err ra row) (bus_deliveries db)\<rparr>)"
proof -
  have row: "row \<in> set (bus_deliveries db)" "dl_id row = did"
    using get_row_SomeD [OF assms(2)] by simp_all
  have dist: "distinct_keys dl_id (bus_deliveries db)"
    using assms(1) by (simp add: bus_inv_def)
  have "map dl_id (modify_row dl_id did (\<lambda>_. settle_row now st err ra row) (bus_deliveries db)) =
        map dl_id (bus_deliveries db)"
    using row(2) by (auto simp: modify_row_distinct [OF dist] settle_row_def)
  moreover have "0 \<le> dl_attempts row" "dl_id row < bus_next_id db"
    "dl_event_id row \<in> ev_event_id ` set (bus_events db)"
    "st = Processing \<longrightarrow> 1 \<le> dl_attempts row"
    using assms row(1) by (auto simp: bus_inv_def)
  moreover have "\<forall>d \<in> set (modify_row dl_id did (\<lambda>_. settle_row now st err ra row) (bus_deliveries db)).
        d \<in> set (bus_deliveries db) \<or> d = settle_row now st err ra row"
    using set_modify_row_subset [of dl_id did "\<lambda>_. settle_row now st err ra row" "bus_deliveries db"]
    by blast
  ultimately show ?thesis
    using assms(1) by (fastforce simp: bus_inv_def settle_row_def)
qed

lemma modify_event_inv:
  assumes "bus_inv db" and "get_row ev_event_id eid (bus_events db) = Some ev"
    and "ev_event_id ev' = eid"
  shows "bus_inv (db\<lparr>bus_events := modify_row ev_event_id eid (\<lambda>_. ev') (bus_events db)\<rparr>)"
proof -
  have dist: "distinct_keys ev_event_id (bus_events db)"
    using assms(1) by (simp add: bus_inv_def)
  have keys: "map ev_event_id (modify_row ev_event_id eid (\<lambda>_. ev') (bus_events db)) =
        map ev_event_id (bus_events db)"
    using assms(3) by (auto simp: modify_row_distinct [OF dist])
  then have "ev_event_id ` set (modify_row ev_event_id eid (\<lambda>_. ev') (bus_events db)) =
        ev_event_id ` set (bus_events db)"
    by (metis list.set_map)
  with keys assms(1) show ?thesis
    by (simp add: bus_inv_def)
qed

lemma update_status_inv [step_inv]:
  assumes "bus_inv db" and "st \<noteq> Processing"
  shows "bus_inv (snd (update_status now did st err ra db))"
proof (cases "get_row dl_id did (bus_deliveries db)")
  case None
  with assms show ?thesis by (simp add: update_status_def)
next
  case (Some row)
  let ?db1 = "db\<lparr>bus_deliveries :=
     modify_row dl_id did (\<lambda>_. settle_row now st err ra row) (bus_deliveries db)\<rparr>"
  have inv1: "bus_inv ?db1"
    using assms Some by (intro modify_delivery_inv) simp_all
  show ?thesis
  proof (cases "get_row ev_event_id (dl_event_id row) (bus_events db)")
    case None
    with Some inv1 show ?thesis by (simp add: update_status_def Let_def)
  next
    case ev: (Some ev)
    have "ev_event_id ev = dl_event_id row"
      using get_row_SomeD [OF ev] by simp
    with Some ev show ?thesis
      using modify_event_inv [OF inv1, of "ev_event_id ev" ev]
      by (simp add: update_status_def Let_def)
  qed
qed

lemma requeue_stale_inv [step_inv]:
  assumes "bus_inv db"
  shows "bus_inv (snd (requeue_stale_processing now consumer subjects stale db))"
proof -
  let ?db' = "snd (requeue_stale_processing now consumer subjects stale db)"
  have keys: "map ev_event_id (bus_events ?db') = map ev_event_id (bus_events db)"
    "map dl_id (bus_deliveries ?db') = map dl_id (bus_deliveries db)"
    by (simp_all add: requeue_stale_processing_def Let_def)
  then have "ev_event_id ` set (bus_events ?db') = ev_event_id ` set (bus_events db)"
    by (metis list.set_map)
  moreover have "bus_next_id ?db' = bus_next_id db"
    by (simp add: requeue_stale_processing_def Let_def)
  moreover have "\<forall>d \<in> set (bus_deliveries ?db').
        dl_id d < bus_next_id db \<and> dl_event_id d \<in> ev_event_id ` set (bus_events db) \<and>
        0 \<le> dl_attempts d \<and> (dl_status d = Processing \<longrightarrow> 1 \<le> dl_attempts d)"
    using assms by (auto simp: bus_inv_def requeue_stale_processing_def Let_def requeue_row_def)
  ultimately show ?thesis
    using assms keys by (simp add: bus_inv_def)
qed

subsection \<open>What a claim takes\<close>

lemma set_claim_selection:
  "set (claim_selection now c ss n db) \<subseteq> {d \<in> set (bus_deliveries db). claimable now c ss d}"
  by (auto simp: claim_selection_def dest: in_set_takeD)

lemma messages_of_Nil [simp]: "messages_of evs [] = []"
  by (simp add: messages_of_def)

lemma messages_of_Cons [simp]:
  "messages_of evs (d # ds) =
     (case get_row ev_event_id (dl_event_id d) evs of
        None \<Rightarrow> messages_of evs ds | Some e \<Rightarrow> to_message d e # messages_of evs ds)"
  by (simp add: messages_of_def split: option.splits)

lemma length_messages_of: "length (messages_of evs ds) \<le> length ds"
  by (induction ds) (auto split: option.splits)

lemma messages_of_all:
  assumes "\<And>d. d \<in> set ds \<Longrightarrow> dl_event_id d \<in> ev_event_id ` set evs"
  shows "map msg_delivery_id (messages_of evs ds) = map dl_id ds"
  using assms
proof (induction ds)
  case (Cons d ds)
  from Cons.prems [of d] obtain e where "get_row ev_event_id (dl_event_id d) evs = Some e"
    by (metis get_row_None_iff list.set_intros(1) option.exhaust)
  with Cons show ?case
    by (simp add: to_message_def)
qed simp

text \<open>Under the invariant a claim answers with exactly the deliveries it selects, in order.\<close>

lemma claim_pending_ids:
  assumes "bus_inv db"
  shows "map msg_delivery_id (fst (claim_pending now c ss n db)) =
         map dl_id (claim_selection now c ss n db)"
proof -
  have "dl_event_id d \<in> ev_event_id ` set (bus_events db)"
    if d: "d \<in> set (map (claim_row now) (claim_selection now c ss n db))" for d
  proof -
    from d obtain d0 where "d0 \<in> set (bus_deliveries db)" "dl_event_id d = dl_event_id d0"
      using set_claim_selection by force
    with assms show ?thesis by (auto simp: bus_inv_def)
  qed
  then have "map msg_delivery_id (messages_of (bus_events db) (map (claim_row now) (claim_selection now c ss n db)))
      = map dl_id (map (claim_row now) (claim_selection now c ss n db))"
    by (rule messages_of_all)
  also have "\<dots> = map dl_id (claim_selection now c ss n db)"
    by simp
  finally show ?thesis
    by (simp add: claim_pending_def Let_def)
qed

lemma claim_pending_claimed:
  assumes "bus_inv db"
  shows "set (map msg_delivery_id (fst (claim_pending now c ss n db))) =
         dl_id ` set (claim_selection now c ss n db)"
  by (simp only: claim_pending_ids [OF assms] list.set_map)

lemma claim_pending_status:
  assumes "bus_inv db" and "d \<in> set (bus_deliveries (snd (claim_pending now c ss n db)))"
    and "dl_id d \<in> set (map msg_delivery_id (fst (claim_pending now c ss n db)))"
  shows "dl_status d = Processing"
proof -
  have "dl_id d \<in> dl_id ` set (claim_selection now c ss n db)"
    using assms(3) claim_pending_claimed [OF assms(1)] by blast
  with assms(2) show ?thesis
    by (auto simp: claim_pending_def Let_def split: if_splits)
qed

text \<open>A claim leaves every delivery it does not take exactly as it was.\<close>

lemma claim_pending_others:
  assumes "bus_inv db" and "did \<notin> set (map msg_delivery_id (fst (claim_pending now c ss n db)))"
  shows "get_row dl_id did (bus_deliveries (snd (claim_pending now c ss n db))) =
         get_row dl_id did (bus_deliveries db)"
proof -
  have "did \<notin> dl_id ` set (claim_selection now c ss n db)"
    using assms(2) claim_pending_claimed [OF assms(1)] by blast
  then have "get_row dl_id did (map (\<lambda>d. if dl_id d \<in> dl_id ` set (claim_selection now c ss n db)
                                        then claim_row now d else d) rows) = get_row dl_id did rows" for rows
    by (induction rows) auto
  then show ?thesis
    by (simp add: claim_pending_def Let_def)
qed

subsection \<open>The bus as a work queue\<close>

text \<open>
  What a worker relies on: \<open>open q\<close> is the set of delivery ids a claim may still return,
  \<open>claim\<close> returns distinct open ids and closes them, \<open>settle\<close> opens nothing.  Then any
  series of claims and settlements hands out each delivery at most once, whichever worker
  claims and in whatever order: retries come only from the operations that reopen a delivery.
\<close>

locale work_queue =
  fixes claim :: "'c \<Rightarrow> 'q \<Rightarrow> 'i list \<times> 'q"
    and settle :: "'a \<Rightarrow> 'q \<Rightarrow> 'q"
    and open_ids :: "'q \<Rightarrow> 'i set"
    and ok :: "'q \<Rightarrow> bool"
  assumes claim_open: "ok q \<Longrightarrow> set (fst (claim c q)) \<subseteq> open_ids q"
    and claim_distinct: "ok q \<Longrightarrow> distinct (fst (claim c q))"
    and claim_closes: "ok q \<Longrightarrow> open_ids (snd (claim c q)) = open_ids q - set (fst (claim c q))"
    and claim_ok: "ok q \<Longrightarrow> ok (snd (claim c q))"
    and settle_open: "ok q \<Longrightarrow> open_ids (settle a q) \<subseteq> open_ids q"
    and settle_ok: "ok q \<Longrightarrow> ok (settle a q)"
begin

fun handed_out :: "('c + 'a) list \<Rightarrow> 'q \<Rightarrow> 'i list" where
  "handed_out [] q = []"
| "handed_out (Inl c # ops) q = fst (claim c q) @ handed_out ops (snd (claim c q))"
| "handed_out (Inr a # ops) q = handed_out ops (settle a q)"

lemma handed_out_open: "ok q \<Longrightarrow> set (handed_out ops q) \<subseteq> open_ids q"
proof (induction ops q rule: handed_out.induct)
  case (2 c ops q)
  then show ?case
    using claim_open [OF 2(2), of c] claim_closes [OF 2(2), of c] claim_ok [OF 2(2), of c] by auto
next
  case (3 a ops q)
  then show ?case
    using settle_open [OF 3(2), of a] settle_ok [OF 3(2), of a] by auto
qed simp

lemma handed_out_distinct: "ok q \<Longrightarrow> distinct (handed_out ops q)"
proof (induction ops q rule: handed_out.induct)
  case (2 c ops q)
  then have ok': "ok (snd (claim c q))" by (simp add: claim_ok)
  have "set (handed_out ops (snd (claim c q))) \<subseteq> open_ids q - set (fst (claim c q))"
    using handed_out_open [OF ok', of ops] claim_closes [OF 2(2), of c] by simp
  then show ?case
    using 2 ok' claim_distinct [OF 2(2), of c] by auto
qed (simp_all add: settle_ok)

lemma handed_out_settles: "handed_out (map Inr as @ ops) q = handed_out ops (fold settle as q)"
  by (induction as arbitrary: q) simp_all

lemma claims_disjoint:
  assumes "ok q"
  shows "set (fst (claim c q)) \<inter> set (fst (claim c' (fold settle as (snd (claim c q))))) = {}"
  using handed_out_distinct [OF assms, of "Inl c # map Inr as @ [Inl c']"]
  by (auto simp: handed_out_settles)

end

definition open_deliveries :: "'p bus_db \<Rightarrow> int set" where
  "open_deliveries db = dl_id ` {d \<in> set (bus_deliveries db). dl_status d = Pending}"

definition bus_claim_ids ::
  "time \<times> string \<times> string list \<times> nat \<Rightarrow> 'p bus_db \<Rightarrow> int list \<times> 'p bus_db" where
  "bus_claim_ids a db =
     (case a of (now, c, ss, n) \<Rightarrow>
        (map msg_delivery_id (fst (claim_pending now c ss n db)), snd (claim_pending now c ss n db)))"

text \<open>Settlements that end a delivery: completion, or a failure that is not retryable.\<close>

definition bus_finish :: "time \<times> int \<times> string option \<Rightarrow> 'p bus_db \<Rightarrow> 'p bus_db" where
  "bus_finish a db =
     (case a of (now, did, None) \<Rightarrow> snd (mark_completed now did db)
      | (now, did, Some err) \<Rightarrow> snd (mark_failed now did err False None db))"

lemma distinct_claim_selection:
  assumes "bus_inv db"
  shows "distinct_keys dl_id (claim_selection now c ss n db)"
proof -
  have "distinct_keys dl_id (filter (claimable now c ss) (bus_deliveries db))"
    using assms by (simp add: bus_inv_def distinct_map_filter)
  then have "inj_on dl_id (set (filter (claimable now c ss) (bus_deliveries db)))"
    and "distinct (filter (claimable now c ss) (bus_deliveries db))"
    by (simp_all add: distinct_map)
  moreover have "set (claim_selection now c ss n db) \<subseteq> set (filter (claimable now c ss) (bus_deliveries db))"
    using set_claim_selection by fastforce
  ultimately show ?thesis
    unfolding distinct_map by (auto simp: claim_selection_def intro: inj_on_subset)
qed

lemma claim_closes_deliveries:
  assumes "bus_inv db"
  shows "open_deliveries (snd (claim_pending now c ss n db)) =
         open_deliveries db - dl_id ` set (claim_selection now c ss n db)"
  by (auto simp: open_deliveries_def claim_pending_def Let_def split: if_splits)

lemma update_status_deliveries:
  "bus_deliveries (snd (update_status now did st err ra db)) =
     modify_row dl_id did (settle_row now st err ra) (bus_deliveries db)"
proof (cases "get_row dl_id did (bus_deliveries db)")
  case None
  then have "did \<notin> dl_id ` set (bus_deliveries db)"
    by (simp add: get_row_None_iff)
  with None show ?thesis
    by (simp add: update_status_def modify_row_absent)
next
  case (Some row)
  with modify_row_const [OF Some, of "settle_row now st err ra"] show ?thesis
    by (simp add: update_status_def Let_def split: option.splits)
qed

lemma finish_opens_nothing:
  assumes "st \<noteq> Pending"
  shows "open_deliveries (snd (update_status now did st err ra db)) \<subseteq> open_deliveries db"
proof
  fix i assume "i \<in> open_deliveries (snd (update_status now did st err ra db))"
  then obtain d where d: "d \<in> set (modify_row dl_id did (settle_row now st err ra) (bus_deliveries db))"
    "dl_status d = Pending" "dl_id d = i"
    by (auto simp: open_deliveries_def update_status_deliveries)
  from modify_row_cases [OF d(1)] d(2) assms have "d \<in> set (bus_deliveries db)"
    by (auto simp: settle_row_def)
  with d(2,3) show "i \<in> open_deliveries db"
    by (auto simp: open_deliveries_def)
qed

interpretation bus_queue: work_queue bus_claim_ids bus_finish open_deliveries bus_inv
proof unfold_locales
  fix a :: "time \<times> string \<times> string list \<times> nat" and db :: "'p bus_db"
  assume inv: "bus_inv db"
  obtain now c ss n where a: "a = (now, c, ss, n)" by (cases a)
  have ids: "fst (bus_claim_ids a db) = map dl_id (claim_selection now c ss n db)"
    by (simp add: bus_claim_ids_def a claim_pending_ids [OF inv])
  show "set (fst (bus_claim_ids a db)) \<subseteq> open_deliveries db"
    using set_claim_selection [of now c ss n db]
    by (auto simp: ids open_deliveries_def claimable_def)
  show "distinct (fst (bus_claim_ids a db))"
    by (simp only: ids distinct_claim_selection [OF inv])
  show "open_deliveries (snd (bus_claim_ids a db)) = open_deliveries db - set (fst (bus_claim_ids a db))"
    unfolding ids list.set_map using claim_closes_deliveries [OF inv, of now c ss n]
    by (simp add: bus_claim_ids_def a)
  show "bus_inv (snd (bus_claim_ids a db))"
    using inv by (simp add: bus_claim_ids_def a claim_pending_inv)
next
  fix a :: "time \<times> int \<times> string option" and db :: "'p bus_db"
  assume inv: "bus_inv db"
  show "open_deliveries (bus_finish a db) \<subseteq> open_deliveries db"
    by (auto simp: bus_finish_def mark_completed_def mark_failed_def split: prod.splits option.splits
        dest: finish_opens_nothing [THEN subsetD, rotated])
  show "bus_inv (bus_finish a db)"
    using inv by (auto simp: bus_finish_def mark_completed_def mark_failed_def update_status_inv
        split: prod.splits option.splits)
qed

subsection \<open>The bus as a state machine\<close>

inductive bus_step :: "'p bus_db \<Rightarrow> 'p bus_db \<Rightarrow> bool" where
  publish_step: "bus_fresh eid db \<Longrightarrow> bus_step db (snd (publish now eid subject payload db))"
| claim_step: "bus_step db (snd (claim_pending now c ss n db))"
| complete_step: "bus_step db (snd (mark_completed now did db))"
| fail_step: "bus_step db (snd (mark_failed now did err retryable ra db))"
| requeue_step: "bus_step db (snd (requeue_stale_processing now c ss stale db))"

lemma bus_step_inv: "bus_step s t \<Longrightarrow> bus_inv s \<Longrightarrow> bus_inv t"
  by (induction rule: bus_step.induct)
    (simp_all add: mark_completed_def mark_failed_def step_inv)

interpretation bus_machine: invariant_system bus_step bus_inv empty_bus
  by unfold_locales (simp_all add: bus_inv_empty bus_step_inv)

text \<open>
  The tables stay consistent: in every state the bus can reach by publishing, claiming,
  settling and requeueing, delivery ids and event ids are unique, every delivery has its
  event, and a delivery that is being processed has been attempted at least once.
\<close>

theorem bus_reachable_inv: "bus_step\<^sup>*\<^sup>* empty_bus db \<Longrightarrow> bus_inv db"
  by (rule bus_machine.reachable_inv)

theorem bus_reachable_inv_witness:
  "bus_inv (snd (publish 5 ''e1'' ''usage.recorded'' (7::int) empty_bus))"
proof -
  have "bus_step empty_bus (snd (publish 5 ''e1'' ''usage.recorded'' (7::int) empty_bus))"
    by (rule publish_step) (simp add: bus_fresh_def empty_bus_def)
  then show ?thesis
    using bus_reachable_inv [OF r_into_rtranclp] by blast
qed

subsection \<open>Handing out once\<close>

text \<open>
  The steps of the bus other than the two that put the delivery \<open>did\<close> back: a retryable
  failure of \<open>did\<close>, and a recovery pass over stale deliveries that returns \<open>did\<close>.
\<close>

inductive undisturbed_step :: "int \<Rightarrow> 'p bus_db \<Rightarrow> 'p bus_db \<Rightarrow> bool" for did where
  still_publish: "bus_fresh eid db \<Longrightarrow> undisturbed_step did db (snd (publish now eid subject payload db))"
| still_claim: "undisturbed_step did db (snd (claim_pending now c ss n db))"
| still_complete: "undisturbed_step did db (snd (mark_completed now d db))"
| still_fail: "undisturbed_step did db (snd (mark_failed now d err False ra db))"
| still_retry: "d \<noteq> did \<Longrightarrow> undisturbed_step did db (snd (mark_failed now d err retryable ra db))"
| still_requeue: "did \<notin> set (map msg_delivery_id (fst (requeue_stale_processing now c ss stale db))) \<Longrightarrow>
    undisturbed_step did db (snd (requeue_stale_processing now c ss stale db))"

lemma undisturbed_is_bus_step: "undisturbed_step did s t \<Longrightarrow> bus_step s t"
  by (induction rule: undisturbed_step.induct) (auto intro: bus_step.intros)

text \<open>A delivery that exists and is not waiting to be claimed.\<close>

definition taken_delivery :: "int \<Rightarrow> 'p bus_db \<Rightarrow> bool" where
  "taken_delivery did db \<longleftrightarrow> did < bus_next_id db \<and> did \<notin> open_deliveries db"

lemma open_deliveries_cong: "bus_deliveries db' = bus_deliveries db \<Longrightarrow> open_deliveries db' = open_deliveries db"
  by (simp add: open_deliveries_def)

lemma add_deliveries_open:
  "bus_next_id db \<le> bus_next_id (fold (add_delivery event) cs db) \<and>
   open_deliveries (fold (add_delivery event) cs db) \<subseteq> open_deliveries db \<union> {bus_next_id db..}"
proof (induction cs arbitrary: db)
  case (Cons c cs)
  have "bus_next_id (add_delivery event c db) = bus_next_id db + 1"
    "open_deliveries (add_delivery event c db) \<subseteq> open_deliveries db \<union> {bus_next_id db..}"
    by (auto simp: add_delivery_def open_deliveries_def)
  with Cons.IH [of "add_delivery event c db"] show ?case by force
qed simp

lemma publish_open:
  "bus_next_id db \<le> bus_next_id (snd (publish now eid subject payload db)) \<and>
   open_deliveries (snd (publish now eid subject payload db)) \<subseteq> open_deliveries db \<union> {bus_next_id db..}"
proof -
  let ?db1 = "snd (add_event now eid subject payload db)"
  have "bus_next_id ?db1 = bus_next_id db" "open_deliveries ?db1 = open_deliveries db"
    by (simp_all add: add_event_def Let_def open_deliveries_def)
  with add_deliveries_open [of ?db1 "fst (add_event now eid subject payload db)" "subject_consumers subject"]
  show ?thesis by (simp add: publish_def case_prod_unfold Let_def)
qed

lemma update_status_next_id [simp]: "bus_next_id (snd (update_status now did st err ra db)) = bus_next_id db"
  by (simp add: update_status_def Let_def split: option.split)

lemma retry_opens_only:
  "open_deliveries (snd (update_status now d st err ra db)) \<subseteq> insert d (open_deliveries db)"
proof
  fix i assume "i \<in> open_deliveries (snd (update_status now d st err ra db))"
  then obtain x where x: "x \<in> set (modify_row dl_id d (settle_row now st err ra) (bus_deliveries db))"
    "dl_status x = Pending" "dl_id x = i"
    by (auto simp: open_deliveries_def update_status_deliveries)
  from modify_row_cases [OF x(1)] x(2,3) show "i \<in> insert d (open_deliveries db)"
    by (auto simp: settle_row_def open_deliveries_def)
qed

lemma requeue_returns:
  assumes "bus_inv db" and "d \<in> set (bus_deliveries db)" and "stale_processing (now - stale) c ss d"
  shows "dl_id d \<in> set (map msg_delivery_id (fst (requeue_stale_processing now c ss stale db)))"
proof -
  let ?db = "snd (requeue_stale_processing now c ss stale db)"
  let ?rows = "map (requeue_row now) (filter (stale_processing (now - stale) c ss) (bus_deliveries db))"
  have keys: "map ev_event_id (bus_events ?db) = map ev_event_id (bus_events db)"
    by (simp add: requeue_stale_processing_def Let_def)
  have "ev_event_id ` set (bus_events ?db) = ev_event_id ` set (bus_events db)"
    using arg_cong [OF keys, of set] by simp
  moreover have "dl_event_id r \<in> ev_event_id ` set (bus_events db)" if "r \<in> set ?rows" for r
    using that assms(1) by (auto simp: bus_inv_def)
  ultimately have "map msg_delivery_id (messages_of (bus_events ?db) ?rows) = map dl_id ?rows"
    by (intro messages_of_all) simp
  moreover have "fst (requeue_stale_processing now c ss stale db) = messages_of (bus_events ?db) ?rows"
    by (simp add: requeue_stale_processing_def Let_def)
  moreover have "dl_id d \<in> set (map dl_id ?rows)"
    using assms(2,3) by auto
  ultimately show ?thesis by metis
qed

lemma requeue_opens_returned:
  assumes "bus_inv db"
  shows "open_deliveries (snd (requeue_stale_processing now c ss stale db)) \<subseteq>
    open_deliveries db \<union> set (map msg_delivery_id (fst (requeue_stale_processing now c ss stale db)))"
proof
  fix i assume "i \<in> open_deliveries (snd (requeue_stale_processing now c ss stale db))"
  then obtain d where "d \<in> set (bus_deliveries db)" "dl_id d = i"
    "stale_processing (now - stale) c ss d \<or> dl_status d = Pending"
    by (auto simp: open_deliveries_def requeue_stale_processing_def Let_def split: if_splits)
  with requeue_returns [OF assms] show "i \<in> open_deliveries db \<union>
      set (map msg_delivery_id (fst (requeue_stale_processing now c ss stale db)))"
    by (auto simp: open_deliveries_def)
qed

lemma undisturbed_keeps_taken:
  assumes "undisturbed_step did s t" and "bus_inv s" and "taken_delivery did s"
  shows "taken_delivery did t"
  using assms
proof (induction rule: undisturbed_step.induct)
  case (still_publish eid db now subject payload)
  with publish_open [of db now eid subject payload] show ?case by (force simp: taken_delivery_def)
next
  case (still_claim db now c ss n)
  then show ?case
    using claim_closes_deliveries [OF still_claim(1), of now c ss n]
    by (simp add: taken_delivery_def claim_pending_def Let_def)
next
  case (still_complete db now d)
  then show ?case
    using finish_opens_nothing [of Completed now d None None db] by (auto simp: taken_delivery_def mark_completed_def)
next
  case (still_fail db now d err ra)
  then show ?case
    using finish_opens_nothing [of Failed now d "Some err" ra db] by (auto simp: taken_delivery_def mark_failed_def)
next
  case (still_retry d db now err retryable ra)
  then show ?case
    using retry_opens_only [of now d "if retryable then Pending else Failed" "Some err" ra db]
    by (auto simp: taken_delivery_def mark_failed_def)
next
  case (still_requeue now c ss stale db)
  have "bus_next_id (snd (requeue_stale_processing now c ss stale db)) = bus_next_id db"
    by (simp add: requeue_stale_processing_def Let_def)
  with still_requeue requeue_opens_returned [OF still_requeue(2), of now c ss stale] show ?case
    by (auto simp: taken_delivery_def)
qed

lemma claim_takes:
  assumes "bus_inv db" and "did \<in> set (map msg_delivery_id (fst (claim_pending now c ss n db)))"
  shows "taken_delivery did (snd (claim_pending now c ss n db))"
proof -
  have "did \<in> dl_id ` set (claim_selection now c ss n db)"
    using assms(2) by (simp only: claim_pending_claimed [OF assms(1)])
  with set_claim_selection [of now c ss n db] assms(1) claim_closes_deliveries [OF assms(1), of now c ss n]
  show ?thesis by (auto simp: taken_delivery_def bus_inv_def claim_pending_def Let_def)
qed

text \<open>
  (C15) A delivery is never handed to two workers: once a claim has returned it, then whatever the
  bus does afterwards (publishing, claims by any consumer, completions, failures, recovery passes,
  in any number and order) no later claim returns it, unless in between it was itself reported
  as a retryable failure or returned by a recovery pass over stale deliveries.  So a handler such
  as the lease assignment of \<^verbatim>\<open>deployment.requested\<close> is not run twice for one delivery
  without one of these two.
\<close>

theorem claimed_at_most_once:
  assumes "bus_inv db"
    and "did \<in> set (map msg_delivery_id (fst (claim_pending t1 c1 ss1 n1 db)))"
    and "(undisturbed_step did)\<^sup>*\<^sup>* (snd (claim_pending t1 c1 ss1 n1 db)) db'"
  shows "did \<notin> set (map msg_delivery_id (fst (claim_pending t2 c2 ss2 n2 db')))"
proof -
  have "bus_inv db' \<and> taken_delivery did db'"
    using assms(3)
  proof (induction rule: rtranclp_induct)
    case base
    show ?case using assms(1,2) claim_takes claim_pending_inv by blast
  next
    case (step s t)
    then show ?case using undisturbed_keeps_taken bus_step_inv undisturbed_is_bus_step by blast
  qed
  then have inv: "bus_inv db'" and "did \<notin> open_deliveries db'" by (simp_all add: taken_delivery_def)
  moreover have "set (map msg_delivery_id (fst (claim_pending t2 c2 ss2 n2 db'))) \<subseteq> open_deliveries db'"
    using bus_queue.claim_open [OF inv, of "(t2, c2, ss2, n2)"] by (simp add: bus_claim_ids_def)
  ultimately show ?thesis by blast
qed

definition demo_bus :: "int bus_db" where
  "demo_bus = snd (publish 6 ''e2'' ''usage.recorded'' 8
                (snd (publish 5 ''e1'' ''deployment.requested'' 7 empty_bus)))"

lemmas demo_bus_eval = demo_bus_def publish_def add_event_def add_delivery_def empty_bus_def
  subject_consumers_def SUBJECT_CONSUMERS_def Let_def

lemma demo_bus_inv: "bus_inv demo_bus"
  unfolding demo_bus_def
  by (intro publish_inv bus_inv_empty) (simp_all add: bus_fresh_def demo_bus_eval)

text \<open>A worker claims the older of two deliveries, a new event comes in, another claim takes the
  second delivery and its failure is retried: the first delivery is not handed out again.\<close>

definition demo_claim :: "time \<Rightarrow> int bus_db \<Rightarrow> int bus_message list \<times> int bus_db" where
  "demo_claim now db = claim_pending now ''control-plane-worker'' [''deployment.requested'', ''usage.recorded''] 1 db"

definition demo_bus_later :: "int bus_db" where
  "demo_bus_later = snd (mark_failed 11 2 ''busy'' True None (snd (demo_claim 11
     (snd (publish 10 ''e3'' ''usage.recorded'' 9 (snd (demo_claim 9 demo_bus)))))))"

theorem claimed_at_most_once_witness:
  "map msg_delivery_id (fst (demo_claim 9 demo_bus)) = [1] \<and>
   (undisturbed_step 1)\<^sup>*\<^sup>* (snd (demo_claim 9 demo_bus)) demo_bus_later \<and>
   1 \<notin> set (map msg_delivery_id (fst (demo_claim 12 demo_bus_later)))"
proof -
  have ids: "map msg_delivery_id (fst (demo_claim 9 demo_bus)) = [1]"
    by (simp add: demo_claim_def claim_pending_def claim_selection_def claimable_def claim_row_def to_message_def
        demo_bus_eval)
  then have first: "1 \<in> set (map msg_delivery_id (fst (demo_claim 9 demo_bus)))" by simp
  let ?s1 = "snd (publish 10 ''e3'' ''usage.recorded'' 9 (snd (demo_claim 9 demo_bus)))"
  have "undisturbed_step 1 (snd (demo_claim 9 demo_bus)) ?s1"
    by (rule still_publish) (simp add: demo_claim_def bus_fresh_def claim_pending_def demo_bus_eval)
  moreover have "undisturbed_step 1 ?s1 (snd (demo_claim 11 ?s1))" unfolding demo_claim_def by (rule still_claim)
  moreover have "undisturbed_step 1 (snd (demo_claim 11 ?s1)) demo_bus_later"
    unfolding demo_bus_later_def by (rule still_retry) simp
  ultimately have run: "(undisturbed_step 1)\<^sup>*\<^sup>* (snd (demo_claim 9 demo_bus)) demo_bus_later"
    by (meson converse_rtranclp_into_rtranclp rtranclp.rtrancl_refl)
  with ids claimed_at_most_once [OF demo_bus_inv first [unfolded demo_claim_def] run [unfolded demo_claim_def]]
  show ?thesis unfolding demo_claim_def by blast
qed

lemma claim_selected_row:
  assumes "bus_inv db" and "d \<in> set (bus_deliveries db)"
    and "dl_id d \<in> dl_id ` set (claim_selection now c ss n db)"
  shows "d \<in> set (claim_selection now c ss n db)"
proof -
  from assms(3) obtain d' where d': "d' \<in> set (claim_selection now c ss n db)" "dl_id d' = dl_id d"
    by auto
  then have "d' \<in> set (bus_deliveries db)" using set_claim_selection by blast
  with assms d'(2) have "d' = d"
    by (auto simp: bus_inv_def distinct_map inj_on_def)
  with d'(1) show ?thesis by simp
qed

lemma claim_left_behind:
  assumes "e \<in> set (bus_deliveries db)" and "claimable now c ss e"
    and "dl_id e \<notin> dl_id ` set (claim_selection now c ss n db)"
  shows "e \<in> set (drop n (sort_key dl_created_at (filter (claimable now c ss) (bus_deliveries db))))"
proof -
  let ?all = "sort_key dl_created_at (filter (claimable now c ss) (bus_deliveries db))"
  have "e \<in> set ?all" using assms(1,2) by simp
  then have "e \<in> set (take n ?all) \<union> set (drop n ?all)"
    by (metis append_take_drop_id set_append)
  with assms(3) show ?thesis
    by (auto simp: claim_selection_def)
qed

text \<open>
  A claim returns at most \<open>limit\<close> messages, only deliveries that are due for that
  consumer, oldest first: nothing it leaves behind is older than something it takes, and it
  leaves a due delivery behind only when the limit is reached.
\<close>

theorem claim_pending_fifo:
  assumes "bus_inv db"
  shows "length (fst (claim_pending now c ss limit db)) \<le> limit \<and>
    (\<forall>d \<in> set (bus_deliveries db).
       dl_id d \<in> set (map msg_delivery_id (fst (claim_pending now c ss limit db))) \<longrightarrow>
         claimable now c ss d \<and>
         (\<forall>e \<in> set (bus_deliveries db). claimable now c ss e \<longrightarrow>
            dl_id e \<notin> set (map msg_delivery_id (fst (claim_pending now c ss limit db))) \<longrightarrow>
            dl_created_at d \<le> dl_created_at e)) \<and>
    (\<forall>e \<in> set (bus_deliveries db). claimable now c ss e \<longrightarrow>
       dl_id e \<notin> set (map msg_delivery_id (fst (claim_pending now c ss limit db))) \<longrightarrow>
       length (fst (claim_pending now c ss limit db)) = limit)"
proof -
  let ?all = "sort_key dl_created_at (filter (claimable now c ss) (bus_deliveries db))"
  let ?sel = "claim_selection now c ss limit db"
  have sel: "?sel = take limit ?all"
    by (simp add: claim_selection_def)
  have ids: "set (map msg_delivery_id (fst (claim_pending now c ss limit db))) = dl_id ` set ?sel"
    by (rule claim_pending_claimed [OF assms])
  have len: "length (fst (claim_pending now c ss limit db)) = length ?sel"
    using arg_cong [OF claim_pending_ids [OF assms, of now c ss limit], of length] by simp
  note row = claim_selected_row [OF assms]
  have "length ?sel \<le> limit" by (simp add: sel)
  moreover have "claimable now c ss d" if "d \<in> set (bus_deliveries db)" "dl_id d \<in> dl_id ` set ?sel" for d
    using row [OF that] set_claim_selection by blast
  moreover have "dl_created_at d \<le> dl_created_at e"
    if "d \<in> set (bus_deliveries db)" "dl_id d \<in> dl_id ` set ?sel"
       "e \<in> set (bus_deliveries db)" "claimable now c ss e" "dl_id e \<notin> dl_id ` set ?sel" for d e
    using sort_key_take_least [of d limit dl_created_at _ e] row [OF that(1,2)] claim_left_behind [OF that(3-5)] sel
    by simp
  moreover have "length ?sel = limit"
    if "e \<in> set (bus_deliveries db)" "claimable now c ss e" "dl_id e \<notin> dl_id ` set ?sel" for e
    using claim_left_behind [OF that] length_pos_if_in_set [of e "drop limit ?all"] by (simp add: sel min_def)
  ultimately show ?thesis
    unfolding ids len by blast
qed

theorem claim_pending_fifo_witness:
  "length (fst (claim_pending 9 ''control-plane-worker'' [''deployment.requested'', ''usage.recorded''] 1 demo_bus)) \<le> 1 \<and>
   map msg_event_id (fst (claim_pending 9 ''control-plane-worker'' [''deployment.requested'', ''usage.recorded''] 1 demo_bus)) = [''e1'']"
  using claim_pending_fifo [OF demo_bus_inv, of 9 "''control-plane-worker''" "[''deployment.requested'', ''usage.recorded'']" 1]
  by (simp add: claim_pending_def claim_selection_def claimable_def claim_row_def to_message_def
      demo_bus_eval)

subsection \<open>Nothing published is lost\<close>

lemma add_delivery_bus:
  "bus_deliveries (add_delivery event consumer db) = bus_deliveries db @
     [\<lparr>dl_id = bus_next_id db, dl_event_id = ev_event_id event, dl_consumer = consumer,
       dl_subject = ev_subject event, dl_status = Pending, dl_attempts = 0,
       dl_available_at = ev_available_at event, dl_last_error = None,
       dl_created_at = ev_created_at event, dl_updated_at = ev_updated_at event\<rparr>]"
  by (simp add: add_delivery_def)

lemma add_deliveries_keep: "d \<in> set (bus_deliveries db) \<Longrightarrow> d \<in> set (bus_deliveries (fold (add_delivery event) cs db))"
  by (induction cs arbitrary: db) (simp_all add: add_delivery_bus)

lemma add_deliveries_new:
  "c \<in> set cs \<Longrightarrow>
   \<exists>d \<in> set (bus_deliveries (fold (add_delivery event) cs db)).
     dl_event_id d = ev_event_id event \<and> dl_consumer d = c \<and> dl_subject d = ev_subject event \<and>
     dl_status d = Pending \<and> dl_available_at d = ev_available_at event"
proof (induction cs arbitrary: db)
  case (Cons c' cs)
  show ?case
  proof (cases "c = c'")
    case True
    let ?d = "last (bus_deliveries (add_delivery event c' db))"
    have "?d \<in> set (bus_deliveries (fold (add_delivery event) cs (add_delivery event c' db)))"
      by (rule add_deliveries_keep) (simp add: add_delivery_bus)
    with True show ?thesis
      by (intro bexI [of _ ?d]) (simp_all add: add_delivery_bus)
  next
    case False
    with Cons show ?thesis by simp
  qed
qed simp

lemma publish_event_row:
  "bus_fresh eid db \<Longrightarrow>
   get_row ev_event_id eid (bus_events (snd (publish now eid subject payload db))) =
     Some (fst (publish now eid subject payload db))"
  by (auto simp: publish_def add_event_def Let_def bus_fresh_def row_simps split: option.splits
      dest: get_row_SomeD)

lemma messages_of_mem:
  "d \<in> set ds \<Longrightarrow> get_row ev_event_id (dl_event_id d) evs = Some e \<Longrightarrow>
   to_message d e \<in> set (messages_of evs ds)"
  by (induction ds) (auto split: option.splits)

text \<open>
  An event reaches each of its consumers: after \<open>publish\<close>, a claim by any consumer of
  the subject, at that moment or later, returns a message with the event's id and payload,
  provided the limit leaves room for the deliveries that are due.
\<close>

theorem publish_delivers:
  assumes "bus_fresh eid db" and "c \<in> set (subject_consumers subject)" and "subject \<in> set ss"
    and "now \<le> now'"
    and "length (filter (claimable now' c ss) (bus_deliveries (snd (publish now eid subject payload db)))) \<le> limit"
  shows "\<exists>m \<in> set (fst (claim_pending now' c ss limit (snd (publish now eid subject payload db)))).
           msg_event_id m = eid \<and> msg_payload m = payload \<and> msg_consumer m = c"
proof -
  let ?db = "snd (publish now eid subject payload db)" and ?ev = "fst (publish now eid subject payload db)"
  have ev: "ev_event_id ?ev = eid" "ev_subject ?ev = subject" "ev_available_at ?ev = now" "ev_payload ?ev = payload"
    by (simp_all add: publish_def add_event_def Let_def)
  have "bus_deliveries ?db = bus_deliveries (fold (add_delivery ?ev) (subject_consumers subject)
      (snd (add_event now eid subject payload db)))"
    by (simp add: publish_def case_prod_unfold Let_def)
  with add_deliveries_new [OF assms(2), of ?ev] ev obtain d where d: "d \<in> set (bus_deliveries ?db)"
    "dl_event_id d = eid" "dl_consumer d = c" "dl_subject d = subject" "dl_status d = Pending" "dl_available_at d = now"
    by metis
  then have "claimable now' c ss d"
    using assms(3,4) by (simp add: claimable_def)
  with d(1) assms(5) have sel: "d \<in> set (claim_selection now' c ss limit ?db)"
    by (simp add: claim_selection_def)
  have "to_message (claim_row now' d) ?ev \<in> set (fst (claim_pending now' c ss limit ?db))"
    unfolding claim_pending_def Let_def fst_conv
    by (rule messages_of_mem) (use sel publish_event_row [OF assms(1)] d(2) in simp_all)
  then show ?thesis
    using d(2,3) ev(4) by (intro bexI [of _ "to_message (claim_row now' d) ?ev"]) (simp_all add: to_message_def claim_row_def)
qed

theorem publish_delivers_witness:
  "\<exists>m \<in> set (fst (claim_pending 6 ''validator-worker'' [''probe.result.recorded''] 10
        (snd (publish 5 ''e1'' ''probe.result.recorded'' (7::int) empty_bus)))).
     msg_event_id m = ''e1'' \<and> msg_payload m = 7 \<and> msg_consumer m = ''validator-worker''"
  by (rule publish_delivers)
    (simp_all add: bus_fresh_def claimable_def demo_bus_eval)

text \<open>
  Crash recovery: a delivery left in \<open>Processing\<close> by a worker that died is claimable
  again right after \<open>requeue_stale_processing\<close> once it is older than the threshold, with its
  attempt count kept; every other delivery is left exactly as it was.
\<close>

theorem requeue_recovers:
  assumes "get_row dl_id did (bus_deliveries db) = Some d"
  shows "get_row dl_id did (bus_deliveries (snd (requeue_stale_processing now c ss stale db))) =
           Some (if stale_processing (now - stale) c ss d then requeue_row now d else d) \<and>
         (stale_processing (now - stale) c ss d \<longrightarrow>
            claimable now c ss (requeue_row now d) \<and> dl_attempts (requeue_row now d) = dl_attempts d)"
proof -
  have "get_row dl_id did (map (\<lambda>d. if P d then requeue_row now d else d) rows) =
        map_option (\<lambda>d. if P d then requeue_row now d else d) (get_row dl_id did rows)" for P rows
    by (induction rows) auto
  with assms show ?thesis
    by (simp add: requeue_stale_processing_def Let_def claimable_def stale_processing_def requeue_row_def)
qed

theorem requeue_recovers_witness:
  "get_row dl_id 1 (bus_deliveries (snd (requeue_stale_processing 100 ''control-plane-worker''
       [''deployment.requested''] 60
       (snd (claim_pending 9 ''control-plane-worker'' [''deployment.requested''] 10 demo_bus))))) \<noteq> None"
proof -
  let ?db = "snd (claim_pending 9 ''control-plane-worker'' [''deployment.requested''] 10 demo_bus)"
  obtain d where d: "get_row dl_id 1 (bus_deliveries ?db) = Some d"
    by (simp add: claim_pending_def claim_selection_def claimable_def claim_row_def demo_bus_eval)
  from requeue_recovers [OF d, of 100 "''control-plane-worker''" "[''deployment.requested'']" 60]
  show ?thesis by simp
qed

text \<open>
  A retryable failure with a delay backs off: the delivery returns to the queue and is
  not claimable by anyone before the delay has passed, and is claimable by its consumer from
  then on; a failure that is not retryable is final and is never claimable again.
\<close>

theorem mark_failed_backoff:
  assumes "get_row dl_id did (bus_deliveries db) = Some d"
  shows "\<exists>d'. get_row dl_id did (bus_deliveries (snd (mark_failed now did err retryable (Some delay) db))) = Some d' \<and>
           dl_last_error d' = Some err \<and> dl_attempts d' = dl_attempts d \<and>
           (\<forall>t c ss. claimable t c ss d' \<longleftrightarrow>
              retryable \<and> now + delay \<le> t \<and> dl_consumer d = c \<and> dl_subject d \<in> set ss)"
proof -
  let ?st = "if retryable then Pending else Failed"
  have "get_row dl_id did (bus_deliveries (snd (mark_failed now did err retryable (Some delay) db))) =
        Some (settle_row now ?st (Some err) (Some delay) d)"
    unfolding mark_failed_def update_status_deliveries
    by (subst get_row_modify_row) (simp_all add: settle_row_def assms)
  then show ?thesis
    by (auto simp: settle_row_def claimable_def)
qed

theorem mark_failed_backoff_witness:
  "\<exists>d'. get_row dl_id 1 (bus_deliveries (snd (mark_failed 9 1 ''boom'' True (Some 30) demo_bus))) = Some d' \<and>
     claimable 39 ''control-plane-worker'' [''deployment.requested''] d' \<and>
     \<not> claimable 38 ''control-plane-worker'' [''deployment.requested''] d'"
proof -
  obtain d where d: "get_row dl_id 1 (bus_deliveries demo_bus) = Some d"
      "dl_consumer d = ''control-plane-worker''" "dl_subject d = ''deployment.requested''"
    by (simp add: demo_bus_eval)
  from mark_failed_backoff [OF d(1), of 9 "''boom''" True 30] d(2,3) show ?thesis
    by fastforce
qed

end
