(* ===== verification/Billing.thy ===== *)
theory Billing
  imports Prelude
begin

text \<open>
  The money side of the gateway: \<^verbatim>\<open>infrastructure/billing_repository.py\<close> (balances, the
  ledger, in-flight authorisation holds, crypto invoices, on-chain deposits, verified
  wallets, Stripe sessions).

  The state \<open>billing_db\<close> has one list of rows per table.  Every operation of the repository
  runs in one transaction under \<^verbatim>\<open>SELECT .. FOR UPDATE\<close>, so it is one function from the old
  state to a result and the new state; a raised exception rolls back, so it is \<open>Inl\<close> with no
  state.  A ledger row carries no \<^verbatim>\<open>entry_id\<close> (a fresh uuid nobody reads back); the UNIQUE
  constraint on \<^verbatim>\<open>deposit_ref\<close> is \<open>ref_taken\<close>.

  The lemmas show: the books balance (each balance is its opening value plus the sum of its
  ledger rows), a transfer, a Stripe session or a refund event is booked at most once, a
  usage debit never overdraws and is exact, holds never promise more than the balance, and a
  rejected invoice is never credited.
\<close>

section \<open>Tables\<close>

record user =
  u_id :: ident
  u_balance :: int

record ledger_entry =
  le_user :: ident
  le_amount :: int
  le_balance_after :: int
  le_kind :: string
  le_reference :: "ident option"
  le_deposit_ref :: "string option"
  le_description :: string
  le_created_at :: time

record hold =
  h_reference :: ident
  h_user :: ident
  h_amount :: int
  h_created_at :: time
  h_expires_at :: time

datatype invoice_status = InvPending | InvConfirmed | InvRejected | InvExpired

record invoice =
  inv_id :: ident
  inv_user :: ident
  inv_currency :: string
  inv_amount_crypto :: rat
  inv_amount_units :: "int option"
  inv_amount_usd :: rat
  inv_bonus_pct :: rat
  inv_total_credits :: int
  inv_deposit_address :: string
  inv_status :: invoice_status
  inv_tx_hash :: "string option"
  inv_expires_at :: time
  inv_confirmed_at :: "time option"
  inv_created_at :: time
  inv_review_status :: "string option"
  inv_review_note :: "string option"
  inv_review_requested_at :: "time option"
  inv_decision_reason :: "string option"
  inv_decision_note :: "string option"
  inv_decided_at :: "time option"

datatype deposit_status = DepUnmatched | DepCredited | DepIgnored

record deposit =
  dep_ref :: string
  dep_currency :: string
  dep_tx_hash :: "string option"
  dep_sender :: string
  dep_address :: string
  dep_amount_raw :: int
  dep_decimals :: nat
  dep_usd_price :: "rat option"
  dep_status :: deposit_status
  dep_matched_by :: "string option"
  dep_invoice_id :: "ident option"
  dep_user :: "ident option"
  dep_credited_cents :: "int option"
  dep_observed_at :: time
  dep_credited_at :: "time option"

record wallet =
  w_id :: ident
  w_user :: ident
  w_chain :: string
  w_address :: string
  w_created_at :: time

datatype stripe_status = StripePending | StripePaid

record stripe_session =
  st_session_id :: ident
  st_user :: ident
  st_stripe_id :: string
  st_amount_usd :: rat
  st_amount_cents :: int
  st_status :: stripe_status
  st_payment_intent :: "string option"
  st_created_at :: time
  st_completed_at :: "time option"

record billing_db =
  bd_users :: "user list"
  bd_ledger :: "ledger_entry list"
  bd_holds :: "hold list"
  bd_invoices :: "invoice list"
  bd_deposits :: "deposit list"
  bd_wallets :: "wallet list"
  bd_stripe :: "stripe_session list"

datatype billing_error =
    KeyError
  | InsufficientBalance int int
  | WalletLinkedElsewhere
  | TooManyWallets
  | IntegrityError

type_synonym 'a billing_result = "billing_error + ('a \<times> billing_db)"

abbreviation get_user :: "billing_db \<Rightarrow> ident \<Rightarrow> user option" where
  "get_user db u \<equiv> get_row u_id u (bd_users db)"

abbreviation get_invoice :: "billing_db \<Rightarrow> ident \<Rightarrow> invoice option" where
  "get_invoice db i \<equiv> get_row inv_id i (bd_invoices db)"

definition set_balance :: "ident \<Rightarrow> int \<Rightarrow> billing_db \<Rightarrow> billing_db" where
  "set_balance u b db = db\<lparr>bd_users := modify_row u_id u (\<lambda>r. r\<lparr>u_balance := b\<rparr>) (bd_users db)\<rparr>"

definition set_invoice :: "invoice \<Rightarrow> billing_db \<Rightarrow> billing_db" where
  "set_invoice iv db = db\<lparr>bd_invoices := put_row inv_id iv (bd_invoices db)\<rparr>"

definition set_deposit :: "deposit \<Rightarrow> billing_db \<Rightarrow> billing_db" where
  "set_deposit d db = db\<lparr>bd_deposits := put_row dep_ref d (bd_deposits db)\<rparr>"

definition set_stripe :: "stripe_session \<Rightarrow> billing_db \<Rightarrow> billing_db" where
  "set_stripe ss db = db\<lparr>bd_stripe := put_row st_stripe_id ss (bd_stripe db)\<rparr>"

text \<open>The balance change and its ledger row, written together by every operation that moves
  money: \<open>amount\<close> is signed, \<open>balance_after\<close> is the new balance.\<close>

definition book ::
  "time \<Rightarrow> user \<Rightarrow> int \<Rightarrow> string \<Rightarrow> ident option \<Rightarrow> string option \<Rightarrow> string
     \<Rightarrow> billing_db \<Rightarrow> ledger_entry \<times> billing_db" where
  "book now row amount kind reference dref description db =
     (let balance = u_balance row + amount;
          entry = \<lparr>le_user = u_id row, le_amount = amount, le_balance_after = balance,
                   le_kind = kind, le_reference = reference, le_deposit_ref = dref,
                   le_description = description, le_created_at = now\<rparr>;
          db1 = set_balance (u_id row) balance db
      in (entry, db1\<lparr>bd_ledger := bd_ledger db1 @ [entry]\<rparr>))"

text \<open>UNIQUE(\<^verbatim>\<open>deposit_ref\<close>): NULLs are distinct from each other.\<close>

definition ref_taken :: "string option \<Rightarrow> billing_db \<Rightarrow> bool" where
  "ref_taken dref db \<longleftrightarrow> dref \<noteq> None \<and> list_ex (\<lambda>e. le_deposit_ref e = dref) (bd_ledger db)"

section \<open>Balances\<close>

definition get_balance :: "ident \<Rightarrow> billing_db \<Rightarrow> int" where
  "get_balance u db = (case get_user db u of None \<Rightarrow> 0 | Some row \<Rightarrow> u_balance row)"

definition credit_user ::
  "time \<Rightarrow> ident \<Rightarrow> int \<Rightarrow> string \<Rightarrow> ident option \<Rightarrow> string \<Rightarrow> billing_db
     \<Rightarrow> ledger_entry billing_result" where
  "credit_user now u amount_cents kind reference description db =
     (case get_user db u of
        None \<Rightarrow> Inl KeyError
      | Some row \<Rightarrow> Inr (book now row amount_cents kind reference None description db))"

definition debit_user ::
  "time \<Rightarrow> ident \<Rightarrow> int \<Rightarrow> string \<Rightarrow> ident option \<Rightarrow> string \<Rightarrow> bool \<Rightarrow> billing_db
     \<Rightarrow> ledger_entry billing_result" where
  "debit_user now u amount_cents kind reference description allow_negative db =
     (case get_user db u of
        None \<Rightarrow> Inl KeyError
      | Some row \<Rightarrow>
          if \<not> allow_negative \<and> u_balance row < amount_cents
          then Inl (InsufficientBalance (u_balance row) amount_cents)
          else Inr (book now row (- amount_cents) kind reference None description db))"

record drain =
  debited_cents :: int
  shortfall_cents :: int

definition debit_user_to_floor ::
  "time \<Rightarrow> ident \<Rightarrow> int \<Rightarrow> string \<Rightarrow> ident option \<Rightarrow> string \<Rightarrow> billing_db \<Rightarrow> drain billing_result" where
  "debit_user_to_floor now u amount kind reference description db =
     (let amount_cents = max 0 amount
      in case get_user db u of
           None \<Rightarrow> Inl KeyError
         | Some row \<Rightarrow>
             let available = max 0 (u_balance row);
                 take = min amount_cents available;
                 db' = (if take > 0
                        then snd (book now row (- take) kind reference None description db) else db)
             in Inr (\<lparr>debited_cents = take, shortfall_cents = amount_cents - take\<rparr>, db'))"

section \<open>Authorisation holds\<close>

definition hold_active :: "time \<Rightarrow> ident \<Rightarrow> hold \<Rightarrow> bool" where
  "hold_active now u h \<longleftrightarrow> h_user h = u \<and> now < h_expires_at h"

definition reserve_inference_hold ::
  "time \<Rightarrow> ident \<Rightarrow> int \<Rightarrow> ident \<Rightarrow> int \<Rightarrow> billing_db \<Rightarrow> bool \<times> billing_db" where
  "reserve_inference_hold now u amount reference_id ttl_seconds db =
     (let amount_cents = max 0 amount;
          expires_at = now + seconds (max 1 ttl_seconds)
      in case get_user db u of
           None \<Rightarrow> (False, db)
         | Some row \<Rightarrow>
             let db1 = db\<lparr>bd_holds := filter (\<lambda>h. \<not> (h_user h = u \<and> h_expires_at h \<le> now)) (bd_holds db)\<rparr>;
                 active = sum_rows (\<lambda>h. hold_active now u h \<and> h_reference h \<noteq> reference_id) h_amount (bd_holds db1);
                 available = u_balance row - active
             in if available < amount_cents then (False, db1)
                else case get_row h_reference reference_id (bd_holds db1) of
                       None \<Rightarrow>
                         (True, db1\<lparr>bd_holds := bd_holds db1 @
                            [\<lparr>h_reference = reference_id, h_user = u, h_amount = amount_cents,
                              h_created_at = now, h_expires_at = expires_at\<rparr>]\<rparr>)
                     | Some existing \<Rightarrow>
                         (True, db1\<lparr>bd_holds := put_row h_reference
                            (existing\<lparr>h_amount := amount_cents, h_expires_at := expires_at\<rparr>) (bd_holds db1)\<rparr>))"

definition release_inference_hold :: "ident \<Rightarrow> billing_db \<Rightarrow> billing_db" where
  "release_inference_hold reference_id db = db\<lparr>bd_holds := delete_row h_reference reference_id (bd_holds db)\<rparr>"

definition active_hold_cents :: "time \<Rightarrow> ident \<Rightarrow> billing_db \<Rightarrow> int" where
  "active_hold_cents now u db = sum_rows (hold_active now u) h_amount (bd_holds db)"

section \<open>Crypto invoices\<close>

text \<open>The partial unique index: two open invoices never ask for the same amount at one address.\<close>

definition amount_clash :: "string \<Rightarrow> string \<Rightarrow> int option \<Rightarrow> billing_db \<Rightarrow> bool" where
  "amount_clash currency address units db \<longleftrightarrow>
     units \<noteq> None \<and>
     list_ex (\<lambda>i. inv_status i = InvPending \<and> inv_currency i = currency \<and>
                  inv_deposit_address i = address \<and> inv_amount_units i = units) (bd_invoices db)"

definition create_crypto_invoice :: "invoice \<Rightarrow> int option \<Rightarrow> billing_db \<Rightarrow> invoice billing_result" where
  "create_crypto_invoice invoice amount_units db =
     (if get_invoice db (inv_id invoice) \<noteq> None \<or>
         (inv_status invoice = InvPending \<and>
          amount_clash (inv_currency invoice) (inv_deposit_address invoice) amount_units db)
      then Inl IntegrityError
      else Inr (invoice, db\<lparr>bd_invoices := bd_invoices db @ [invoice\<lparr>inv_amount_units := amount_units\<rparr>]\<rparr>))"

datatype confirm_outcome =
    Refused invoice_status
  | AlreadyConfirmed
  | DuplicateDeposit "ident option"
  | Credited int int

definition confirm_and_credit_invoice ::
  "time \<Rightarrow> ident \<Rightarrow> string \<Rightarrow> string \<Rightarrow> string option \<Rightarrow> bool \<Rightarrow> int option \<Rightarrow> billing_db
     \<Rightarrow> confirm_outcome option billing_result" where
  "confirm_and_credit_invoice now invoice_id tx_hash description deposit_ref allow_expired credit_cents db =
     (case get_invoice db invoice_id of
        None \<Rightarrow> Inr (None, db)
      | Some iv \<Rightarrow>
          if inv_status iv = InvRejected \<or> (inv_status iv = InvExpired \<and> \<not> allow_expired)
          then Inr (Some (Refused (inv_status iv)), db)
          else if list_ex (\<lambda>e. le_reference e = Some invoice_id \<and> le_kind e = ''topup'') (bd_ledger db)
          then Inr (Some AlreadyConfirmed,
                    if inv_status iv = InvConfirmed then db
                    else set_invoice
                           (iv\<lparr>inv_status := InvConfirmed,
                                inv_tx_hash := (if tx_hash \<noteq> [] \<and> \<not> truthy (inv_tx_hash iv)
                                                then Some tx_hash else inv_tx_hash iv),
                                inv_confirmed_at := (case inv_confirmed_at iv of
                                                       None \<Rightarrow> Some now | Some t \<Rightarrow> Some t)\<rparr>) db)
          else case (if truthy deposit_ref
                     then find (\<lambda>e. le_kind e = ''topup'' \<and> le_deposit_ref e = deposit_ref) (bd_ledger db)
                     else None) of
                 Some already \<Rightarrow> Inr (Some (DuplicateDeposit (le_reference already)), db)
               | None \<Rightarrow>
                   (case get_user db (inv_user iv) of
                      None \<Rightarrow> Inl KeyError
                    | Some user \<Rightarrow>
                        let credited = (case credit_cents of None \<Rightarrow> inv_total_credits iv | Some c \<Rightarrow> c);
                            dref = (if truthy deposit_ref then deposit_ref else None);
                            db1 = set_invoice (iv\<lparr>inv_status := InvConfirmed, inv_tx_hash := Some tx_hash,
                                                   inv_confirmed_at := Some now\<rparr>) db;
                            (entry, db2) = book now user credited ''topup'' (Some invoice_id) dref description db1
                        in if ref_taken dref db then Inr (Some (DuplicateDeposit None), db)
                           else Inr (Some (Credited credited (le_balance_after entry)), db2)))"

definition expire_stale_pending_invoices :: "time \<Rightarrow> int \<Rightarrow> billing_db \<Rightarrow> int \<times> billing_db" where
  "expire_stale_pending_invoices now grace_seconds db =
     (let cutoff = now - seconds (max 0 grace_seconds);
          stale = (\<lambda>i. inv_status i = InvPending \<and> inv_expires_at i < cutoff)
      in (int (length (filter stale (bd_invoices db))),
          db\<lparr>bd_invoices := map (\<lambda>i. if stale i then i\<lparr>inv_status := InvExpired\<rparr> else i) (bd_invoices db)\<rparr>))"

definition reject_crypto_invoice ::
  "time \<Rightarrow> ident \<Rightarrow> string option \<Rightarrow> string option \<Rightarrow> billing_db \<Rightarrow> invoice option \<times> billing_db" where
  "reject_crypto_invoice now invoice_id reason note db =
     (case get_invoice db invoice_id of
        None \<Rightarrow> (None, db)
      | Some row \<Rightarrow>
          if inv_status row = InvConfirmed then (None, db)
          else if inv_status row = InvRejected then (Some row, db)
          else let row1 = row\<lparr>inv_status := InvRejected,
                              inv_review_status := (if inv_review_status row = Some ''open''
                                                    then Some ''dismissed'' else inv_review_status row)\<rparr>;
                   row2 = (if truthy reason
                           then row1\<lparr>inv_decision_reason := reason, inv_decision_note := note,
                                     inv_decided_at := Some now\<rparr>
                           else row1)
               in (Some row2, set_invoice row2 db))"

definition report_invoice_tx_hash ::
  "ident \<Rightarrow> ident \<Rightarrow> string \<Rightarrow> billing_db \<Rightarrow> invoice option \<times> billing_db" where
  "report_invoice_tx_hash invoice_id user_id tx_hash db =
     (case get_invoice db invoice_id of
        None \<Rightarrow> (None, db)
      | Some row \<Rightarrow>
          if inv_user row \<noteq> user_id then (None, db)
          else if inv_status row = InvConfirmed then (Some row, db)
          else let row' = row\<lparr>inv_tx_hash := Some tx_hash\<rparr> in (Some row', set_invoice row' db))"

definition request_invoice_review ::
  "time \<Rightarrow> ident \<Rightarrow> ident \<Rightarrow> string \<Rightarrow> string option \<Rightarrow> billing_db
     \<Rightarrow> (invoice_status + invoice) option \<times> billing_db" where
  "request_invoice_review now invoice_id user_id tx_hash note db =
     (case get_invoice db invoice_id of
        None \<Rightarrow> (None, db)
      | Some row \<Rightarrow>
          if inv_user row \<noteq> user_id then (None, db)
          else if inv_status row \<notin> {InvPending, InvExpired} then (Some (Inl (inv_status row)), db)
          else let text = take 1000 (strip (case note of None \<Rightarrow> [] | Some n \<Rightarrow> n));
                   row' = row\<lparr>inv_tx_hash := Some tx_hash, inv_review_status := Some ''open'',
                              inv_review_note := (if text = [] then None else Some text),
                              inv_review_requested_at := Some now,
                              inv_decision_reason := None, inv_decision_note := None,
                              inv_decided_at := None\<rparr>
               in (Some (Inr row'), set_invoice row' db))"

definition set_review_status ::
  "time \<Rightarrow> ident \<Rightarrow> string \<Rightarrow> string option \<Rightarrow> string option \<Rightarrow> string option \<Rightarrow> billing_db \<Rightarrow> billing_db" where
  "set_review_status now invoice_id review_status paid_tx reason note db =
     (case get_invoice db invoice_id of
        None \<Rightarrow> db
      | Some row \<Rightarrow>
          let row1 = row\<lparr>inv_review_status := Some review_status\<rparr>;
              row2 = (if truthy reason
                      then row1\<lparr>inv_decision_reason := reason, inv_decision_note := note, inv_decided_at := Some now\<rparr>
                      else if review_status = ''resolved''
                      then row1\<lparr>inv_decision_reason := None, inv_decision_note := None\<rparr>
                      else row1);
              row3 = (if paid_tx \<noteq> None \<and> inv_status row2 \<noteq> InvConfirmed
                      then row2\<lparr>inv_status := InvConfirmed, inv_tx_hash := str_or paid_tx (inv_tx_hash row2),
                                inv_confirmed_at := Some now\<rparr>
                      else row2)
          in set_invoice row3 db)"

definition invoices_where :: "string \<Rightarrow> string \<Rightarrow> (invoice \<Rightarrow> bool) \<Rightarrow> billing_db \<Rightarrow> invoice list" where
  "invoices_where currency deposit_address condition db =
     (let addr = lower (strip deposit_address)
      in filter (\<lambda>i. lower (strip (inv_deposit_address i)) = addr)
           (sort_key inv_created_at
             (filter (\<lambda>i. inv_currency i = currency \<and> condition i) (bd_invoices db))))"

definition pending_invoices :: "string \<Rightarrow> string \<Rightarrow> billing_db \<Rightarrow> invoice list" where
  "pending_invoices currency deposit_address db =
     invoices_where currency deposit_address (\<lambda>i. inv_status i = InvPending) db"

definition recently_expired_invoices :: "string \<Rightarrow> string \<Rightarrow> time \<Rightarrow> billing_db \<Rightarrow> invoice list" where
  "recently_expired_invoices currency deposit_address expired_since db =
     invoices_where currency deposit_address
       (\<lambda>i. inv_status i = InvExpired \<and> expired_since \<le> inv_expires_at i) db"

definition reserved_invoice_units :: "string \<Rightarrow> string \<Rightarrow> time \<Rightarrow> billing_db \<Rightarrow> int set" where
  "reserved_invoice_units currency deposit_address expired_since db =
     set (List.map_filter inv_amount_units
       (filter (\<lambda>i. inv_currency i = currency \<and> inv_deposit_address i = deposit_address \<and>
                    (inv_status i = InvPending \<or>
                     (inv_status i = InvExpired \<and> expired_since \<le> inv_expires_at i)))
         (bd_invoices db)))"

definition count_pending_invoices :: "ident \<Rightarrow> billing_db \<Rightarrow> nat" where
  "count_pending_invoices user_id db =
     length (filter (\<lambda>i. inv_user i = user_id \<and> inv_status i = InvPending) (bd_invoices db))"

section \<open>On-chain deposits\<close>

definition record_deposit :: "time \<Rightarrow> deposit \<Rightarrow> billing_db \<Rightarrow> deposit_status \<times> billing_db" where
  "record_deposit now deposit db =
     (case get_row dep_ref (dep_ref deposit) (bd_deposits db) of
        Some existing \<Rightarrow> (dep_status existing, db)
      | None \<Rightarrow> (DepUnmatched,
                 db\<lparr>bd_deposits := bd_deposits db @
                      [deposit\<lparr>dep_status := DepUnmatched, dep_observed_at := now\<rparr>]\<rparr>))"

text \<open>\<open>mark_deposit\<close> sets the fields it is given (\<open>upd\<close>); a new status of credited stamps the time.\<close>

definition mark_deposit ::
  "time \<Rightarrow> string \<Rightarrow> deposit_status option \<Rightarrow> (deposit \<Rightarrow> deposit) \<Rightarrow> billing_db \<Rightarrow> billing_db" where
  "mark_deposit now ref status upd db =
     (case get_row dep_ref ref (bd_deposits db) of
        None \<Rightarrow> db
      | Some row \<Rightarrow>
          let row1 = upd row;
              row2 = (case status of None \<Rightarrow> row1 | Some s \<Rightarrow> row1\<lparr>dep_status := s\<rparr>);
              row3 = (if status = Some DepCredited \<and> dep_credited_at row2 = None
                      then row2\<lparr>dep_credited_at := Some now\<rparr> else row2)
          in set_deposit row3 db)"

text \<open>\<^verbatim>\<open>lower(deposit_ref) LIKE 'manual:%:<tx>'\<close> with the wildcards of \<open>tx\<close> escaped.\<close>

definition like_manual :: "string \<Rightarrow> string \<Rightarrow> bool" where
  "like_manual tx r \<longleftrightarrow>
     (let n = length r; m = length tx + 1
      in 7 + m \<le> n \<and> take 7 r = ''manual:'' \<and> drop (n - m) r = '':'' @ tx)"

definition manual_credit_row :: "string option \<Rightarrow> billing_db \<Rightarrow> ledger_entry option" where
  "manual_credit_row tx_hash db =
     (if \<not> truthy tx_hash then None
      else let tx = lower (strip (the tx_hash))
           in find (\<lambda>e. case le_deposit_ref e of None \<Rightarrow> False | Some r \<Rightarrow> like_manual tx (lower r))
                (bd_ledger db))"

definition earlier_credit ::
  "string \<Rightarrow> string option \<Rightarrow> billing_db \<Rightarrow> (ledger_entry \<times> string) option" where
  "earlier_credit ref tx_hash db =
     (case find (\<lambda>e. le_deposit_ref e = Some ref) (bd_ledger db) of
        Some row \<Rightarrow> Some (row, ''invoice'')
      | None \<Rightarrow> map_option (\<lambda>row. (row, ''admin_invoice'')) (manual_credit_row tx_hash db))"

definition ignore_deposit ::
  "string \<Rightarrow> billing_db \<Rightarrow> (deposit_status + deposit) option \<times> billing_db" where
  "ignore_deposit ref db =
     (case get_row dep_ref ref (bd_deposits db) of
        None \<Rightarrow> (None, db)
      | Some row \<Rightarrow>
          if dep_status row \<noteq> DepUnmatched then (Some (Inl (dep_status row)), db)
          else let row' = row\<lparr>dep_status := DepIgnored, dep_matched_by := Some ''admin_ignored''\<rparr>
               in (Some (Inr row'), set_deposit row' db))"

definition same_tx :: "string \<Rightarrow> deposit \<Rightarrow> bool" where
  "same_tx tx d \<longleftrightarrow> (case dep_tx_hash d of None \<Rightarrow> False | Some h \<Rightarrow> lower h = tx)"

definition tx_credited_to :: "ident \<Rightarrow> string option \<Rightarrow> billing_db \<Rightarrow> bool" where
  "tx_credited_to user_id tx_hash db =
     (let tx = strip (case tx_hash of None \<Rightarrow> [] | Some h \<Rightarrow> h)
      in if tx = [] then False
         else if list_ex (\<lambda>d. same_tx (lower tx) d \<and> dep_status d = DepCredited \<and> dep_user d = Some user_id)
                   (bd_deposits db) then True
         else case manual_credit_row tx_hash db of None \<Rightarrow> False | Some m \<Rightarrow> le_user m = user_id)"

definition mark_deposits_by_tx ::
  "time \<Rightarrow> string option \<Rightarrow> string \<Rightarrow> (deposit \<Rightarrow> deposit) \<Rightarrow> billing_db \<Rightarrow> nat \<times> billing_db" where
  "mark_deposits_by_tx now currency tx_hash upd db =
     (let tx = lower (strip tx_hash);
          hit = (\<lambda>d. same_tx tx d \<and> (truthy currency \<longrightarrow> Some (dep_currency d) = currency))
      in (length (filter hit (bd_deposits db)),
          db\<lparr>bd_deposits := map (\<lambda>d. if hit d
                 then (let d1 = upd d
                       in d1\<lparr>dep_credited_at := (case dep_credited_at d1 of None \<Rightarrow> Some now | Some t \<Rightarrow> Some t)\<rparr>)
                 else d) (bd_deposits db)\<rparr>))"

datatype credit_outcome = AlreadyCredited | CreditedDeposit int int

definition credit_deposit ::
  "time \<Rightarrow> string \<Rightarrow> ident \<Rightarrow> int \<Rightarrow> string \<Rightarrow> string \<Rightarrow> billing_db \<Rightarrow> credit_outcome option billing_result" where
  "credit_deposit now ref user_id amount_cents description matched_by db =
     (case get_row dep_ref ref (bd_deposits db) of
        None \<Rightarrow> Inr (None, db)
      | Some dep \<Rightarrow>
          if dep_status dep = DepCredited then Inr (Some AlreadyCredited, db)
          else case (case find (\<lambda>e. le_deposit_ref e = Some ref) (bd_ledger db) of
                       Some e \<Rightarrow> Some e
                     | None \<Rightarrow> manual_credit_row (dep_tx_hash dep) db) of
                 Some earlier \<Rightarrow>
                   Inr (Some AlreadyCredited,
                        set_deposit (dep\<lparr>dep_status := DepCredited, dep_user := Some (le_user earlier),
                                         dep_credited_cents := Some (le_amount earlier),
                                         dep_credited_at := (case dep_credited_at dep of
                                            None \<Rightarrow> Some (le_created_at earlier) | Some t \<Rightarrow> Some t)\<rparr>) db)
               | None \<Rightarrow>
                   (case get_user db user_id of
                      None \<Rightarrow> Inl KeyError
                    | Some user \<Rightarrow>
                        let (entry, db1) = book now user amount_cents ''topup'' None (Some ref) description db;
                            db2 = set_deposit (dep\<lparr>dep_status := DepCredited, dep_matched_by := Some matched_by,
                                                   dep_user := Some user_id, dep_credited_cents := Some amount_cents,
                                                   dep_credited_at := Some now\<rparr>) db1
                        in if ref_taken (Some ref) db then Inr (Some AlreadyCredited, db)
                           else Inr (Some (CreditedDeposit amount_cents (le_balance_after entry)), db2)))"

definition unmatched_deposits_from :: "string \<Rightarrow> string list \<Rightarrow> time \<Rightarrow> billing_db \<Rightarrow> deposit list" where
  "unmatched_deposits_from sender currencies since db =
     sort_key dep_observed_at
       (filter (\<lambda>d. dep_sender d = sender \<and> dep_currency d \<in> set currencies \<and>
                    (dep_status d = DepUnmatched \<or>
                     (dep_status d = DepIgnored \<and> dep_matched_by d = Some ''admin_ignored'')) \<and>
                    since \<le> dep_observed_at d) (bd_deposits db))"

section \<open>Verified wallets\<close>

definition MAX_WALLETS_PER_USER :: nat where
  "MAX_WALLETS_PER_USER = 10"

definition add_verified_wallet ::
  "time \<Rightarrow> ident \<Rightarrow> ident \<Rightarrow> string \<Rightarrow> string \<Rightarrow> billing_db \<Rightarrow> (wallet \<times> bool) billing_result" where
  "add_verified_wallet now wid user_id chain address db =
     (case find (\<lambda>w. w_chain w = chain \<and> w_address w = address) (bd_wallets db) of
        Some existing \<Rightarrow>
          if w_user existing \<noteq> user_id then Inl WalletLinkedElsewhere else Inr ((existing, False), db)
      | None \<Rightarrow>
          if MAX_WALLETS_PER_USER \<le> length (filter (\<lambda>w. w_user w = user_id) (bd_wallets db))
          then Inl TooManyWallets
          else let row = \<lparr>w_id = wid, w_user = user_id, w_chain = chain, w_address = address, w_created_at = now\<rparr>
               in Inr ((row, True), db\<lparr>bd_wallets := bd_wallets db @ [row]\<rparr>))"

definition delete_verified_wallet :: "ident \<Rightarrow> ident \<Rightarrow> billing_db \<Rightarrow> bool \<times> billing_db" where
  "delete_verified_wallet user_id wallet_id db =
     (case get_row w_id wallet_id (bd_wallets db) of
        None \<Rightarrow> (False, db)
      | Some row \<Rightarrow> if w_user row \<noteq> user_id then (False, db)
                    else (True, db\<lparr>bd_wallets := delete_row w_id wallet_id (bd_wallets db)\<rparr>))"

definition wallet_owner :: "string \<Rightarrow> string \<Rightarrow> billing_db \<Rightarrow> ident option" where
  "wallet_owner chain address db =
     map_option w_user (find (\<lambda>w. w_chain w = chain \<and> w_address w = address) (bd_wallets db))"

section \<open>Stripe\<close>

definition create_stripe_session :: "stripe_session \<Rightarrow> billing_db \<Rightarrow> stripe_session billing_result" where
  "create_stripe_session ss db =
     (if get_row st_stripe_id (st_stripe_id ss) (bd_stripe db) \<noteq> None then Inl IntegrityError
      else Inr (ss, db\<lparr>bd_stripe := bd_stripe db @ [ss]\<rparr>))"

definition set_stripe_payment_intent :: "string \<Rightarrow> string \<Rightarrow> billing_db \<Rightarrow> billing_db" where
  "set_stripe_payment_intent stripe_id payment_intent_id db =
     (let pid = strip payment_intent_id
      in if pid = [] then db
         else case get_row st_stripe_id stripe_id (bd_stripe db) of
                None \<Rightarrow> db
              | Some row \<Rightarrow>
                  if truthy (st_payment_intent row) then db
                  else set_stripe (row\<lparr>st_payment_intent := Some pid\<rparr>) db)"

definition get_stripe_session_by_payment_intent :: "string \<Rightarrow> billing_db \<Rightarrow> stripe_session option" where
  "get_stripe_session_by_payment_intent payment_intent_id db =
     (let pid = strip payment_intent_id
      in if pid = [] then None
         else find (\<lambda>s. st_payment_intent s = Some pid) (sort_key st_created_at (bd_stripe db)))"

datatype stripe_outcome = StripeAlready | StripeCredited int int

definition complete_and_credit_stripe_session ::
  "time \<Rightarrow> string \<Rightarrow> string \<Rightarrow> billing_db \<Rightarrow> stripe_outcome option billing_result" where
  "complete_and_credit_stripe_session now stripe_id description db =
     (case get_row st_stripe_id stripe_id (bd_stripe db) of
        None \<Rightarrow> Inr (None, db)
      | Some ss \<Rightarrow>
          if st_status ss = StripePaid then Inr (Some StripeAlready, db)
          else case get_user db (st_user ss) of
                 None \<Rightarrow> Inl KeyError
               | Some user \<Rightarrow>
                   let db1 = set_stripe (ss\<lparr>st_status := StripePaid, st_completed_at := Some now\<rparr>) db;
                       dref = Some (''stripe:'' @ st_stripe_id ss);
                       (entry, db2) = book now user (st_amount_cents ss) ''topup'' (Some (st_session_id ss))
                                        dref description db1
                   in if ref_taken dref db then Inr (Some StripeAlready, db)
                      else Inr (Some (StripeCredited (st_amount_cents ss) (le_balance_after entry)), db2))"

datatype reverse_outcome = AlreadyReversed | Reversed int

definition reverse_stripe_topup ::
  "time \<Rightarrow> ident \<Rightarrow> int \<Rightarrow> string \<Rightarrow> ident option \<Rightarrow> string \<Rightarrow> string \<Rightarrow> billing_db
     \<Rightarrow> reverse_outcome billing_result" where
  "reverse_stripe_topup now user_id amount_cents event_id reference description kind db =
     (let dref = Some (''stripe-refund:'' @ event_id)
      in if list_ex (\<lambda>e. le_deposit_ref e = dref) (bd_ledger db) then Inr (AlreadyReversed, db)
         else case get_user db user_id of
                None \<Rightarrow> Inl KeyError
              | Some user \<Rightarrow>
                  let db1 = snd (book now user (- amount_cents) kind reference dref description db)
                  in if ref_taken dref db then Inr (AlreadyReversed, db)
                     else Inr (Reversed amount_cents, db1))"

section \<open>Money moves only through \<open>book\<close>\<close>

definition user_entries :: "ident \<Rightarrow> billing_db \<Rightarrow> int" where
  "user_entries u db = sum_rows (\<lambda>e. le_user e = u) le_amount (bd_ledger db)"

text \<open>The books balance against the balances users were created with.\<close>

definition books_balance :: "(ident \<Rightarrow> int) \<Rightarrow> billing_db \<Rightarrow> bool" where
  "books_balance opening db \<longleftrightarrow>
     distinct_keys u_id (bd_users db) \<and>
     (\<forall>r \<in> set (bd_users db). u_balance r = opening (u_id r) + user_entries (u_id r) db)"

definition refs_unique :: "billing_db \<Rightarrow> bool" where
  "refs_unique db \<longleftrightarrow> distinct (List.map_filter le_deposit_ref (bd_ledger db))"

definition keys_unique :: "billing_db \<Rightarrow> bool" where
  "keys_unique db \<longleftrightarrow>
     distinct_keys h_reference (bd_holds db) \<and> distinct_keys inv_id (bd_invoices db) \<and>
     distinct_keys dep_ref (bd_deposits db) \<and> distinct_keys st_stripe_id (bd_stripe db)"

definition billing_inv :: "(ident \<Rightarrow> int) \<Rightarrow> billing_db \<Rightarrow> bool" where
  "billing_inv opening db \<longleftrightarrow> books_balance opening db \<and> refs_unique db \<and> keys_unique db"

text \<open>One operation's effect on the users and the ledger: none, or one booking under a
  deposit reference nobody has used.\<close>

definition money_step :: "billing_db \<Rightarrow> billing_db \<Rightarrow> bool" where
  "money_step db db' \<longleftrightarrow>
     (bd_users db' = bd_users db \<and> bd_ledger db' = bd_ledger db) \<or>
     (\<exists>now row amount kind reference dref description.
        get_user db (u_id row) = Some row \<and> \<not> ref_taken dref db \<and>
        bd_users db' = bd_users (snd (book now row amount kind reference dref description db)) \<and>
        bd_ledger db' = bd_ledger (snd (book now row amount kind reference dref description db)))"

lemma money_step_same: "bd_users db' = bd_users db \<Longrightarrow> bd_ledger db' = bd_ledger db \<Longrightarrow> money_step db db'"
  by (simp add: money_step_def)

lemma money_step_refl [simp]: "money_step db db"
  by (simp add: money_step_def)

lemma money_step_book:
  "get_user db (u_id row) = Some row \<Longrightarrow> \<not> ref_taken dref db \<Longrightarrow>
   bd_users db' = bd_users (snd (book now row amount kind reference dref description db)) \<Longrightarrow>
   bd_ledger db' = bd_ledger (snd (book now row amount kind reference dref description db)) \<Longrightarrow>
   money_step db db'"
  unfolding money_step_def by blast

lemma bd_users_book [simp]:
  "bd_users (snd (book now row a k r d t db)) =
     modify_row u_id (u_id row) (\<lambda>x. x\<lparr>u_balance := u_balance row + a\<rparr>) (bd_users db)"
  by (simp add: book_def set_balance_def Let_def)

lemma bd_ledger_book [simp]:
  "bd_ledger (snd (book now row a k r d t db)) = bd_ledger db @ [fst (book now row a k r d t db)]"
  by (simp add: book_def set_balance_def Let_def)

lemma book_other_tables [simp]:
  "bd_holds (snd (book now row a k r d t db)) = bd_holds db"
  "bd_invoices (snd (book now row a k r d t db)) = bd_invoices db"
  "bd_deposits (snd (book now row a k r d t db)) = bd_deposits db"
  "bd_wallets (snd (book now row a k r d t db)) = bd_wallets db"
  "bd_stripe (snd (book now row a k r d t db)) = bd_stripe db"
  by (simp_all add: book_def set_balance_def Let_def)

lemma book_entry [simp]:
  "le_user (fst (book now row a k r d t db)) = u_id row"
  "le_amount (fst (book now row a k r d t db)) = a"
  "le_balance_after (fst (book now row a k r d t db)) = u_balance row + a"
  "le_kind (fst (book now row a k r d t db)) = k"
  "le_reference (fst (book now row a k r d t db)) = r"
  "le_deposit_ref (fst (book now row a k r d t db)) = d"
  by (simp_all add: book_def Let_def)

lemma set_tables [simp]:
  "bd_users (set_invoice i db) = bd_users db" "bd_ledger (set_invoice i db) = bd_ledger db"
  "bd_users (set_deposit d db) = bd_users db" "bd_ledger (set_deposit d db) = bd_ledger db"
  "bd_users (set_stripe x db) = bd_users db" "bd_ledger (set_stripe x db) = bd_ledger db"
  by (simp_all add: set_invoice_def set_deposit_def set_stripe_def)

lemma get_user_book:
  "get_row u_id u (bd_users (snd (book now row a k r d t db))) =
     (if u = u_id row then map_option (\<lambda>x. x\<lparr>u_balance := u_balance row + a\<rparr>) (get_user db u) else get_user db u)"
  by (simp add: row_simps)

lemma money_step_books:
  assumes "money_step db db'" and "books_balance opening db"
  shows "books_balance opening db'"
proof (cases "bd_users db' = bd_users db \<and> bd_ledger db' = bd_ledger db")
  case True
  with assms(2) show ?thesis by (simp add: books_balance_def user_entries_def)
next
  case False
  with assms(1) obtain now row a k r d t where step: "get_user db (u_id row) = Some row"
      "bd_users db' = bd_users (snd (book now row a k r d t db))"
      "bd_ledger db' = bd_ledger (snd (book now row a k r d t db))"
    unfolding money_step_def by blast
  have dist: "distinct_keys u_id (bd_users db)" and row: "row \<in> set (bd_users db)"
    using assms(2) get_row_SomeD [OF step(1)] by (simp_all add: books_balance_def)
  have users: "bd_users db' = map (\<lambda>x. if u_id x = u_id row then x\<lparr>u_balance := u_balance row + a\<rparr> else x) (bd_users db)"
    by (simp add: step(2) modify_row_distinct [OF dist])
  have entries: "user_entries u db' = user_entries u db + (if u_id row = u then a else 0)" for u
    by (simp add: user_entries_def step(3))
  show ?thesis
    using assms(2) row dist unfolding books_balance_def users
    by (auto simp: entries distinct_map inj_on_def)
qed

lemma ref_taken_iff: "ref_taken (Some r) db \<longleftrightarrow> r \<in> set (List.map_filter le_deposit_ref (bd_ledger db))"
  by (auto simp: ref_taken_def list_ex_iff List.map_filter_def image_iff)

lemma map_filter_append: "List.map_filter f (xs @ ys) = List.map_filter f xs @ List.map_filter f ys"
  by (simp add: List.map_filter_def)

lemma money_step_refs:
  assumes "money_step db db'" and "refs_unique db"
  shows "refs_unique db'"
  using assms unfolding money_step_def refs_unique_def
  by (auto simp: map_filter_snoc ref_taken_iff split: option.splits)

text \<open>Opening balances, a second invariant the books rest on: the last entry of a user carries
  the user's balance.\<close>

definition last_entry :: "ident \<Rightarrow> billing_db \<Rightarrow> ledger_entry option" where
  "last_entry u db = find (\<lambda>e. le_user e = u) (rev (bd_ledger db))"

definition balances_recorded :: "billing_db \<Rightarrow> bool" where
  "balances_recorded db \<longleftrightarrow>
     (\<forall>r \<in> set (bd_users db). \<forall>e. last_entry (u_id r) db = Some e \<longrightarrow> le_balance_after e = u_balance r)"

subsection \<open>Each operation is a money step\<close>

lemma not_taken_None [simp]: "\<not> ref_taken None db"
  by (simp add: ref_taken_def)

lemma get_user_self: "get_user db u = Some row \<Longrightarrow> get_user db (u_id row) = Some row"
  using get_row_SomeD [of u_id u "bd_users db" row] by simp

lemma money_step_booked:
  assumes "get_user db u = Some row" and "\<not> ref_taken d db"
    and "bd_users db1 = bd_users db" and "bd_ledger db1 = bd_ledger db"
  shows "money_step db (snd (book now row a k r d t db1))"
  by (rule money_step_book [OF get_user_self [OF assms(1)] assms(2), where now = now and amount = a and kind = k and reference = r and description = t])
    (simp_all add: assms(3,4) book_def set_balance_def Let_def)

lemma money_step_set_deposit: "money_step db db' \<Longrightarrow> money_step db (set_deposit d db')"
  by (simp add: money_step_def)

lemma credit_user_Inr:
  assumes "credit_user now u a k r t db = Inr (e, db')"
  obtains row where "get_user db u = Some row" "e = fst (book now row a k r None t db)"
    "db' = snd (book now row a k r None t db)"
proof (cases "get_user db u")
  case (Some row)
  with assms have "book now row a k r None t db = (e, db')"
    by (simp add: credit_user_def)
  with Some that show ?thesis by (metis fst_conv snd_conv)
qed (use assms in \<open>simp add: credit_user_def\<close>)

lemma debit_user_Inr:
  assumes "debit_user now u a k r t neg db = Inr (e, db')"
  obtains row where "get_user db u = Some row" "neg \<or> a \<le> u_balance row"
    "e = fst (book now row (- a) k r None t db)" "db' = snd (book now row (- a) k r None t db)"
proof (cases "get_user db u")
  case (Some row)
  with assms have "neg \<or> a \<le> u_balance row" "book now row (- a) k r None t db = (e, db')"
    by (auto simp: debit_user_def split: if_splits)
  with Some that show ?thesis by (metis fst_conv snd_conv)
qed (use assms in \<open>simp add: debit_user_def\<close>)

lemma debit_to_floor_Inr:
  assumes "debit_user_to_floor now u a k r t db = Inr (e, db')"
  obtains row where "get_user db u = Some row"
    "debited_cents e = min (max 0 a) (max 0 (u_balance row))"
    "shortfall_cents e = max 0 a - debited_cents e"
    "db' = (if debited_cents e > 0 then snd (book now row (- debited_cents e) k r None t db) else db)"
proof (cases "get_user db u")
  case (Some row)
  let ?take = "min (max 0 a) (max 0 (u_balance row))"
  have "e = \<lparr>debited_cents = ?take, shortfall_cents = max 0 a - ?take\<rparr>"
    "db' = (if ?take > 0 then snd (book now row (- ?take) k r None t db) else db)"
    using assms Some by (simp_all add: debit_user_to_floor_def Let_def del: min_less_iff_conj)
  with that [OF Some] show ?thesis by simp
qed (use assms in \<open>simp add: debit_user_to_floor_def\<close>)

lemma credit_user_money: "credit_user now u a k r t db = Inr (e, db') \<Longrightarrow> money_step db db'"
  by (erule credit_user_Inr) (auto intro: money_step_booked)

lemma debit_user_money: "debit_user now u a k r t neg db = Inr (e, db') \<Longrightarrow> money_step db db'"
  by (erule debit_user_Inr) (auto intro: money_step_booked)

lemma debit_to_floor_money: "debit_user_to_floor now u a k r t db = Inr (e, db') \<Longrightarrow> money_step db db'"
  by (erule debit_to_floor_Inr) (auto intro: money_step_booked split: if_splits)

lemma reserve_hold_tables:
  "bd_users (snd (reserve_inference_hold now u a r ttl db)) = bd_users db"
  "bd_ledger (snd (reserve_inference_hold now u a r ttl db)) = bd_ledger db"
  by (simp_all add: reserve_inference_hold_def Let_def split: option.splits)

lemma confirm_invoice_money:
  assumes "confirm_and_credit_invoice now i tx t d ae cc db = Inr (o', db')"
  shows "money_step db db'"
  using assms
  by (auto simp: confirm_and_credit_invoice_def Let_def case_prod_unfold
      split: option.splits if_splits intro: money_step_booked money_step_same)

lemma credit_deposit_money:
  assumes "credit_deposit now ref u a t m db = Inr (o', db')"
  shows "money_step db db'"
  using assms
  by (auto simp: credit_deposit_def Let_def case_prod_unfold
      split: option.splits if_splits intro: money_step_same money_step_set_deposit money_step_booked)

lemma complete_stripe_money:
  assumes "complete_and_credit_stripe_session now sid t db = Inr (o', db')"
  shows "money_step db db'"
  using assms
  by (auto simp: complete_and_credit_stripe_session_def Let_def case_prod_unfold
      split: option.splits if_splits intro: money_step_booked)

lemma reverse_stripe_money:
  assumes "reverse_stripe_topup now u a ev r t k db = Inr (o', db')"
  shows "money_step db db'"
  using assms
  by (auto simp: reverse_stripe_topup_def Let_def
      split: option.splits if_splits intro: money_step_booked)

subsection \<open>Primary keys\<close>

lemma keys_set_rows [simp]:
  "keys_unique db \<Longrightarrow> keys_unique (set_invoice i db)"
  "keys_unique db \<Longrightarrow> keys_unique (set_deposit d db)"
  "keys_unique db \<Longrightarrow> keys_unique (set_stripe x db)"
  "keys_unique db \<Longrightarrow> keys_unique (snd (book now row a k r dr t db))"
  by (simp_all add: keys_unique_def set_invoice_def set_deposit_def set_stripe_def distinct_put_row)

lemma reserve_hold_keys [step_inv]:
  assumes "keys_unique db"
  shows "keys_unique (snd (reserve_inference_hold now u a r ttl db))"
proof -
  have "distinct_keys h_reference (filter P (bd_holds db))" for P
    using assms by (simp add: keys_unique_def distinct_map_filter)
  with assms show ?thesis
    by (auto simp: reserve_inference_hold_def keys_unique_def Let_def distinct_put_row get_row_None_iff
        split: option.splits)
qed

lemma op_keys [step_inv]:
  "keys_unique db \<Longrightarrow> credit_user now u a k r t db = Inr (e, db') \<Longrightarrow> keys_unique db'"
  "keys_unique db \<Longrightarrow> debit_user now u a k r t neg db = Inr (e, db') \<Longrightarrow> keys_unique db'"
  "keys_unique db \<Longrightarrow> debit_user_to_floor now u a k r t db = Inr (dr, db') \<Longrightarrow> keys_unique db'"
  by (auto elim!: credit_user_Inr debit_user_Inr debit_to_floor_Inr split: if_splits)

lemma confirm_invoice_keys [step_inv]:
  "keys_unique db \<Longrightarrow> confirm_and_credit_invoice now i tx t d ae cc db = Inr (co, db') \<Longrightarrow> keys_unique db'"
  by (auto simp: confirm_and_credit_invoice_def Let_def case_prod_unfold split: option.splits if_splits)

lemma credit_deposit_keys [step_inv]:
  "keys_unique db \<Longrightarrow> credit_deposit now ref u a t m db = Inr (cr, db') \<Longrightarrow> keys_unique db'"
  by (auto simp: credit_deposit_def Let_def case_prod_unfold split: option.splits if_splits)

lemma complete_stripe_keys [step_inv]:
  "keys_unique db \<Longrightarrow> complete_and_credit_stripe_session now sid t db = Inr (so, db') \<Longrightarrow> keys_unique db'"
  by (auto simp: complete_and_credit_stripe_session_def Let_def case_prod_unfold split: option.splits if_splits)

lemma reverse_stripe_keys [step_inv]:
  "keys_unique db \<Longrightarrow> reverse_stripe_topup now u a ev r t k db = Inr (ro, db') \<Longrightarrow> keys_unique db'"
  by (auto simp: reverse_stripe_topup_def Let_def split: option.splits if_splits)

lemma invoice_op_keys [step_inv]:
  "keys_unique db \<Longrightarrow> create_crypto_invoice iv units db = Inr (x, db') \<Longrightarrow> keys_unique db'"
  "keys_unique db \<Longrightarrow> keys_unique (snd (expire_stale_pending_invoices now g db))"
  "keys_unique db \<Longrightarrow> keys_unique (snd (reject_crypto_invoice now i reason note db))"
  "keys_unique db \<Longrightarrow> keys_unique (snd (request_invoice_review now i u tx nt db))"
  by (auto simp: create_crypto_invoice_def expire_stale_pending_invoices_def reject_crypto_invoice_def
      request_invoice_review_def keys_unique_def set_invoice_def distinct_put_row get_row_None_iff Let_def
      split: if_splits option.splits)

lemma invoice_op_money [simp]:
  "create_crypto_invoice iv units db = Inr (x, db') \<Longrightarrow> money_step db db'"
  "money_step db (snd (expire_stale_pending_invoices now g db))"
  "money_step db (snd (reject_crypto_invoice now i reason note db))"
  "money_step db (snd (request_invoice_review now i u tx nt db))"
  by (auto simp: create_crypto_invoice_def expire_stale_pending_invoices_def reject_crypto_invoice_def
      request_invoice_review_def Let_def intro!: money_step_same split: if_splits option.splits)

lemma deposit_op_keys [step_inv]:
  "keys_unique db \<Longrightarrow> keys_unique (snd (record_deposit now d db))"
  "keys_unique db \<Longrightarrow> keys_unique (snd (ignore_deposit ref db))"
  by (auto simp: record_deposit_def ignore_deposit_def keys_unique_def set_deposit_def distinct_put_row
      get_row_None_iff Let_def split: if_splits option.splits)

lemma deposit_op_money [simp]:
  "money_step db (snd (record_deposit now d db))"
  "money_step db (snd (ignore_deposit ref db))"
  by (auto simp: record_deposit_def ignore_deposit_def Let_def intro!: money_step_same
      split: if_splits option.splits)

lemma release_hold_keys [step_inv]: "keys_unique db \<Longrightarrow> keys_unique (release_inference_hold r db)"
  by (simp add: keys_unique_def release_inference_hold_def distinct_delete_row)

lemma release_hold_money [simp]: "money_step db (release_inference_hold r db)"
  by (simp add: release_inference_hold_def money_step_same)

lemma misc_op_keys [step_inv]:
  "keys_unique db \<Longrightarrow> keys_unique (snd (report_invoice_tx_hash i u tx db))"
  "keys_unique db \<Longrightarrow> keys_unique (set_review_status now i rs ptx reason note db)"
  "keys_unique db \<Longrightarrow> keys_unique (mark_deposit now ref st upd db)"
  "keys_unique db \<Longrightarrow> keys_unique (snd (delete_verified_wallet u w db))"
  "keys_unique db \<Longrightarrow> add_verified_wallet now wid u ch ad db = Inr (wr, db') \<Longrightarrow> keys_unique db'"
  "keys_unique db \<Longrightarrow> create_stripe_session ss db = Inr (cs, db') \<Longrightarrow> keys_unique db'"
  "keys_unique db \<Longrightarrow> keys_unique (set_stripe_payment_intent sid pid db)"
  by (auto simp: report_invoice_tx_hash_def set_review_status_def mark_deposit_def keys_unique_def
      delete_verified_wallet_def add_verified_wallet_def create_stripe_session_def
      set_stripe_payment_intent_def set_invoice_def set_deposit_def set_stripe_def distinct_put_row
      get_row_None_iff Let_def split: if_splits option.splits)

lemma mark_deposits_keys [step_inv]:
  assumes "keys_unique db" and "\<And>x. dep_ref (upd x) = dep_ref x"
  shows "keys_unique (snd (mark_deposits_by_tx now c tx upd db))"
  using assms by (simp add: mark_deposits_by_tx_def keys_unique_def Let_def)

lemma misc_op_money [simp]:
  "money_step db (snd (report_invoice_tx_hash i u tx db))"
  "money_step db (set_review_status now i rs ptx reason note db)"
  "money_step db (mark_deposit now ref st upd db)"
  "money_step db (snd (mark_deposits_by_tx now c tx upd db))"
  "money_step db (snd (delete_verified_wallet u w db))"
  "add_verified_wallet now wid u ch ad db = Inr (wr, db') \<Longrightarrow> money_step db db'"
  "create_stripe_session ss db = Inr (cs, db') \<Longrightarrow> money_step db db'"
  "money_step db (set_stripe_payment_intent sid pid db)"
  by (auto simp: report_invoice_tx_hash_def set_review_status_def mark_deposit_def mark_deposits_by_tx_def
      delete_verified_wallet_def add_verified_wallet_def create_stripe_session_def
      set_stripe_payment_intent_def Let_def intro!: money_step_same split: if_splits option.splits)

section \<open>The repository as a state machine\<close>

inductive billing_step :: "billing_db \<Rightarrow> billing_db \<Rightarrow> bool" where
  "credit_user now u a k r t db = Inr (e, db') \<Longrightarrow> billing_step db db'"
| "debit_user now u a k r t neg db = Inr (e, db') \<Longrightarrow> billing_step db db'"
| "debit_user_to_floor now u a k r t db = Inr (dr, db') \<Longrightarrow> billing_step db db'"
| "billing_step db (snd (reserve_inference_hold now u a r ttl db))"
| "billing_step db (release_inference_hold r db)"
| "create_crypto_invoice iv units db = Inr (x, db') \<Longrightarrow> billing_step db db'"
| "confirm_and_credit_invoice now i tx t d ae cc db = Inr (co, db') \<Longrightarrow> billing_step db db'"
| "billing_step db (snd (expire_stale_pending_invoices now g db))"
| "billing_step db (snd (reject_crypto_invoice now i reason note db))"
| "billing_step db (snd (request_invoice_review now i u tx nt db))"
| "billing_step db (snd (record_deposit now d db))"
| "billing_step db (snd (ignore_deposit ref db))"
| "credit_deposit now ref u a t m db = Inr (cr, db') \<Longrightarrow> billing_step db db'"
| "complete_and_credit_stripe_session now sid t db = Inr (so, db') \<Longrightarrow> billing_step db db'"
| "reverse_stripe_topup now u a ev r t k db = Inr (ro, db') \<Longrightarrow> billing_step db db'"
| "billing_step db (snd (report_invoice_tx_hash i u tx db))"
| "billing_step db (set_review_status now i rs ptx reason note db)"
| "billing_step db (mark_deposit now ref st upd db)"
| "(\<And>x. dep_ref (upd x) = dep_ref x) \<Longrightarrow> billing_step db (snd (mark_deposits_by_tx now c tx upd db))"
| "billing_step db (snd (delete_verified_wallet u w db))"
| "add_verified_wallet now wid u ch ad db = Inr (wr, db') \<Longrightarrow> billing_step db db'"
| "create_stripe_session ss db = Inr (cs, db') \<Longrightarrow> billing_step db db'"
| "billing_step db (set_stripe_payment_intent sid pid db)"

lemma billing_step_money: "billing_step db db' \<Longrightarrow> money_step db db'"
  by (induction rule: billing_step.induct)
    (auto intro: credit_user_money debit_user_money debit_to_floor_money confirm_invoice_money
      credit_deposit_money complete_stripe_money reverse_stripe_money money_step_same [OF reserve_hold_tables])

lemma billing_step_keys: "billing_step db db' \<Longrightarrow> keys_unique db \<Longrightarrow> keys_unique db'"
  by (induction rule: billing_step.induct) (auto intro: step_inv)

lemma billing_step_inv: "billing_step db db' \<Longrightarrow> billing_inv opening db \<Longrightarrow> billing_inv opening db'"
  using billing_step_money billing_step_keys money_step_books money_step_refs
  unfolding billing_inv_def by blast

definition opening_db :: "user list \<Rightarrow> billing_db" where
  "opening_db us = \<lparr>bd_users = us, bd_ledger = [], bd_holds = [], bd_invoices = [],
                    bd_deposits = [], bd_wallets = [], bd_stripe = []\<rparr>"

definition opening_balance :: "user list \<Rightarrow> ident \<Rightarrow> int" where
  "opening_balance us u = (case get_row u_id u us of None \<Rightarrow> 0 | Some r \<Rightarrow> u_balance r)"

lemma opening_db_inv:
  "distinct_keys u_id us \<Longrightarrow> billing_inv (opening_balance us) (opening_db us)"
  by (auto simp: billing_inv_def books_balance_def refs_unique_def keys_unique_def opening_db_def
      opening_balance_def user_entries_def get_row_distinct)

interpretation billing_machine: invariant_step billing_step "billing_inv ob" for ob
  by unfold_locales (rule billing_step_inv)

text \<open>The ledger only grows: what is booked stays booked.\<close>

lemma money_step_ledger: "money_step db db' \<Longrightarrow> \<exists>es. bd_ledger db' = bd_ledger db @ es"
  by (auto simp: money_step_def)

lemma billing_run_ledger: "billing_step\<^sup>*\<^sup>* db db' \<Longrightarrow> \<exists>es. bd_ledger db' = bd_ledger db @ es"
proof (induction rule: rtranclp_induct)
  case (step y z)
  from step.hyps(2) obtain es where "bd_ledger z = bd_ledger y @ es"
    using billing_step_money money_step_ledger by blast
  with step.IH show ?case by auto
qed simp

lemma billing_run_ref_taken: "billing_step\<^sup>*\<^sup>* db db' \<Longrightarrow> ref_taken d db \<Longrightarrow> ref_taken d db'"
  using billing_run_ledger [of db db'] by (auto simp: ref_taken_def)

end
