(* ===== verification/Billing_Properties.thy ===== *)
theory Billing_Properties
  imports Billing
begin

text \<open>
  What the money side of the gateway guarantees, proved over the state machine of the theory
  Billing: the ledger explains every balance, one deposit reference is booked once, draining debits are
  exact and never overdraw, and inference holds never promise more than the balance.
\<close>

section \<open>Properties\<close>

subsection \<open>The books\<close>

text \<open>
  (C2) The books balance: after any series of repository operations (credits, strict and
  draining debits, invoice confirmations, deposits, Stripe completions and refunds, in any
  order and interleaving), every user's balance is exactly the balance the account was
  opened with plus the sum of the user's ledger rows.
\<close>

theorem ledger_explains_balance:
  assumes "distinct_keys u_id us" and "billing_step\<^sup>*\<^sup>* (opening_db us) db"
    and "get_user db u = Some row"
  shows "u_balance row = opening_balance us u + sum_rows (\<lambda>e. le_user e = u) le_amount (bd_ledger db)"
proof -
  have "billing_inv (opening_balance us) db"
    by (rule billing_machine.run_keeps [OF assms(2) opening_db_inv [OF assms(1)]])
  then show ?thesis
    using get_row_SomeD [OF assms(3)] by (auto simp: billing_inv_def books_balance_def user_entries_def)
qed

definition demo_users :: "user list" where
  "demo_users = [\<lparr>u_id = ''ann'', u_balance = 30\<rparr>, \<lparr>u_id = ''bob'', u_balance = 0\<rparr>]"

lemma demo_users_distinct: "distinct_keys u_id demo_users"
  by (simp add: demo_users_def)

lemmas demo_eval = demo_users_def opening_db_def opening_balance_def book_def set_balance_def Let_def

theorem ledger_explains_balance_witness:
  "\<exists>db row. billing_step\<^sup>*\<^sup>* (opening_db demo_users) db \<and> get_user db ''ann'' = Some row \<and>
     u_balance row = 5 \<and> sum_rows (\<lambda>e. le_user e = ''ann'') le_amount (bd_ledger db) = - 25"
proof -
  define db where "db = snd (book 7 \<lparr>u_id = ''ann'', u_balance = 30\<rparr> (- 25) ''usage'' None None [] (opening_db demo_users))"
  have "debit_user 7 ''ann'' 25 ''usage'' None [] False (opening_db demo_users) =
      Inr (book 7 \<lparr>u_id = ''ann'', u_balance = 30\<rparr> (- 25) ''usage'' None None [] (opening_db demo_users))"
    by (simp add: debit_user_def demo_users_def opening_db_def)
  then have "billing_step (opening_db demo_users) db"
    unfolding db_def by (metis billing_step.intros(2) prod.collapse)
  then have run: "billing_step\<^sup>*\<^sup>* (opening_db demo_users) db" by simp
  moreover have row: "get_user db ''ann'' = Some \<lparr>u_id = ''ann'', u_balance = 5\<rparr>"
    by (simp add: db_def demo_users_def opening_db_def)
  moreover have "sum_rows (\<lambda>e. le_user e = ''ann'') le_amount (bd_ledger db) = - 25"
    using ledger_explains_balance [OF demo_users_distinct run row] by (simp add: opening_balance_def demo_users_def)
  ultimately show ?thesis by auto
qed

text \<open>
  One payment, one booking: in every reachable state no two ledger rows carry the same
  deposit reference, so an on-chain transfer, a Stripe session or a refund event is booked at
  most once however often its notification is delivered and whichever paths race for it.
\<close>

theorem deposit_ref_once:
  assumes "distinct_keys u_id us" and "billing_step\<^sup>*\<^sup>* (opening_db us) db"
    and "i < j" and "j < length (bd_ledger db)"
    and "le_deposit_ref (bd_ledger db ! i) = Some r"
  shows "le_deposit_ref (bd_ledger db ! j) \<noteq> Some r"
proof
  assume j: "le_deposit_ref (bd_ledger db ! j) = Some r"
  have "refs_unique db"
    using billing_machine.run_keeps [OF assms(2) opening_db_inv [OF assms(1)]] by (simp add: billing_inv_def)
  moreover have "bd_ledger db = take j (bd_ledger db) @ bd_ledger db ! j # drop (Suc j) (bd_ledger db)"
    using assms(4) by (simp add: id_take_nth_drop)
  ultimately have "distinct (List.map_filter le_deposit_ref (take j (bd_ledger db) @ [bd_ledger db ! j]) @
      List.map_filter le_deposit_ref (drop (Suc j) (bd_ledger db)))"
    unfolding refs_unique_def by (metis append_assoc append_Cons append_Nil map_filter_append)
  then have "r \<notin> set (List.map_filter le_deposit_ref (take j (bd_ledger db)))"
    using j by (auto simp: map_filter_snoc)
  moreover have "bd_ledger db ! i \<in> set (take j (bd_ledger db))"
    using assms(3,4) by (auto simp: in_set_conv_nth intro!: exI [of _ i])
  ultimately show False
    using assms(5) by (auto simp: List.map_filter_def image_iff)
qed

lemma demo_paid_steps:
  defines "s0 \<equiv> \<lparr>st_session_id = ''s'', st_user = ''ann'', st_stripe_id = ''cs'', st_amount_usd = 5, st_amount_cents = 500,
      st_status = StripePending, st_payment_intent = None, st_created_at = 0, st_completed_at = None\<rparr>"
  shows "\<exists>db. billing_step\<^sup>*\<^sup>* (opening_db demo_users) db \<and>
     map le_deposit_ref (bd_ledger db) = [Some ''stripe:cs'', Some ''stripe-refund:ev'']"
proof -
  define db1 where "db1 = (opening_db demo_users)\<lparr>bd_stripe := [s0]\<rparr>"
  have "create_stripe_session s0 (opening_db demo_users) = Inr (s0, db1)"
    by (simp add: create_stripe_session_def opening_db_def db1_def)
  then have 1: "billing_step (opening_db demo_users) db1" by (rule billing_step.intros)
  obtain so db2 where c: "complete_and_credit_stripe_session 1 ''cs'' [] db1 = Inr (so, db2)"
    and l2: "map le_deposit_ref (bd_ledger db2) = [Some ''stripe:cs'']"
    and u2: "get_user db2 ''ann'' \<noteq> None"
    by (simp add: complete_and_credit_stripe_session_def db1_def s0_def opening_db_def demo_users_def
        ref_taken_def set_stripe_def book_def set_balance_def Let_def)
  have 2: "billing_step db1 db2" using c by (rule billing_step.intros)
  obtain row where row: "get_user db2 ''ann'' = Some row" using u2 by auto
  have none: "\<not> list_ex (\<lambda>e. le_deposit_ref e = Some ''stripe-refund:ev'') (bd_ledger db2)"
    using l2 by (auto simp: list_ex_iff map_eq_Cons_conv)
  define db3 where "db3 = snd (book 2 row (- 100) ''refund'' None (Some ''stripe-refund:ev'') [] db2)"
  have "reverse_stripe_topup 2 ''ann'' 100 ''ev'' None [] ''refund'' db2 = Inr (Reversed 100, db3)"
    using none row by (simp add: reverse_stripe_topup_def ref_taken_def db3_def)
  then have 3: "billing_step db2 db3" by (rule billing_step.intros)
  have "map le_deposit_ref (bd_ledger db3) = [Some ''stripe:cs'', Some ''stripe-refund:ev'']"
    using l2 by (simp add: db3_def)
  with 1 2 3 show ?thesis by (meson rtranclp.rtrancl_into_rtrancl rtranclp.rtrancl_refl)
qed

theorem deposit_ref_once_witness:
  "\<exists>db. billing_step\<^sup>*\<^sup>* (opening_db demo_users) db \<and>
     le_deposit_ref (bd_ledger db ! 0) = Some ''stripe:cs'' \<and> le_deposit_ref (bd_ledger db ! 1) \<noteq> Some ''stripe:cs''"
proof -
  obtain db where run: "billing_step\<^sup>*\<^sup>* (opening_db demo_users) db"
    and refs: "map le_deposit_ref (bd_ledger db) = [Some ''stripe:cs'', Some ''stripe-refund:ev'']"
    using demo_paid_steps by (elim exE conjE)
  have len: "1 < length (bd_ledger db)" using arg_cong [OF refs, of length] by simp
  have first: "le_deposit_ref (bd_ledger db ! 0) = Some ''stripe:cs''"
    using arg_cong [OF refs, of hd] len by (cases "bd_ledger db") simp_all
  from run first deposit_ref_once [OF demo_users_distinct run _ len first] show ?thesis by auto
qed

subsection \<open>Debits\<close>

text \<open>
  What the hourly meter and the per-token charge rely on: a draining debit splits the amount
  exactly into what it took and what it could not take, the balance falls by what it took and
  by nothing else, it never goes below its floor, a shortfall means the balance is used up,
  and other accounts are untouched.
\<close>

locale floor_debit =
  fixes balance :: "'db \<Rightarrow> ident \<Rightarrow> int option"
    and debit :: "ident \<Rightarrow> int \<Rightarrow> 'db \<Rightarrow> ((int \<times> int) \<times> 'db) option"
  assumes debit_defined: "balance db u \<noteq> None \<longleftrightarrow> debit u a db \<noteq> None"
    and debit_split: "debit u a db = Some ((taken, short), db') \<Longrightarrow>
          0 \<le> taken \<and> 0 \<le> short \<and> taken + short = max 0 a"
    and debit_balance: "debit u a db = Some ((taken, short), db') \<Longrightarrow> balance db u = Some b \<Longrightarrow>
          balance db' u = Some (b - taken)"
    and debit_floor: "debit u a db = Some ((taken, short), db') \<Longrightarrow> balance db u = Some b \<Longrightarrow>
          (0 \<le> b \<longrightarrow> taken \<le> b) \<and> (b < 0 \<longrightarrow> taken = 0) \<and> (0 < short \<longrightarrow> b - taken \<le> 0)"
    and debit_others: "debit u a db = Some (r, db') \<Longrightarrow> v \<noteq> u \<Longrightarrow> balance db' v = balance db v"
begin

text \<open>A series of charges to one account: totals and final state.\<close>

fun charges :: "ident \<Rightarrow> int list \<Rightarrow> 'db \<Rightarrow> (int \<times> int \<times> 'db) option" where
  "charges u [] db = Some (0, 0, db)"
| "charges u (a # as) db =
     (case debit u a db of None \<Rightarrow> None
      | Some ((taken, short), db1) \<Rightarrow>
          map_option (\<lambda>(t, s, db2). (taken + t, short + s, db2)) (charges u as db1))"

lemma charges_exact:
  "charges u as db = Some (t, s, db') \<Longrightarrow> balance db u = Some b \<Longrightarrow>
   t + s = sum_list (map (max 0) as) \<and> 0 \<le> t \<and> 0 \<le> s \<and> balance db' u = Some (b - t)"
proof (induction as arbitrary: db b t s)
  case (Cons a as)
  from Cons.prems obtain taken short db1 t1 s1 where d: "debit u a db = Some ((taken, short), db1)"
    and c: "charges u as db1 = Some (t1, s1, db')" and ts: "t = taken + t1" "s = short + s1"
    by (auto split: option.splits)
  have "balance db1 u = Some (b - taken)"
    using debit_balance [OF d Cons.prems(2)] .
  from Cons.IH [OF c this] debit_split [OF d] ts show ?case
    by auto
qed simp

lemma charges_nonneg:
  "charges u as db = Some (t, s, db') \<Longrightarrow> balance db u = Some b \<Longrightarrow> 0 \<le> b \<Longrightarrow> t \<le> b"
proof (induction as arbitrary: db b t s)
  case (Cons a as)
  from Cons.prems obtain taken short db1 t1 s1 where d: "debit u a db = Some ((taken, short), db1)"
    and c: "charges u as db1 = Some (t1, s1, db')" and t: "t = taken + t1"
    by (auto split: option.splits)
  have "taken \<le> b" and bal: "balance db1 u = Some (b - taken)"
    using debit_floor [OF d Cons.prems(2)] Cons.prems(3) debit_balance [OF d Cons.prems(2)] by auto
  then have "t1 \<le> b - taken"
    using Cons.IH [OF c bal] by simp
  with t show ?case by simp
qed simp

lemma charges_defined: "balance db u \<noteq> None \<Longrightarrow> charges u as db \<noteq> None"
proof (induction as arbitrary: db)
  case (Cons a as)
  then obtain b where b: "balance db u = Some b" by auto
  from Cons.prems debit_defined obtain taken short db1 where d: "debit u a db = Some ((taken, short), db1)"
    by (metis not_None_eq prod.exhaust)
  have "balance db1 u \<noteq> None"
    using debit_balance [OF d b] by simp
  with Cons.IH d show ?case by auto
qed simp

end

definition user_balance :: "billing_db \<Rightarrow> ident \<Rightarrow> int option" where
  "user_balance db u = map_option u_balance (get_user db u)"

definition drain_user :: "time \<Rightarrow> string \<Rightarrow> ident option \<Rightarrow> string \<Rightarrow> ident \<Rightarrow> int \<Rightarrow> billing_db
    \<Rightarrow> ((int \<times> int) \<times> billing_db) option" where
  "drain_user now kind reference description u a db =
     (case debit_user_to_floor now u a kind reference description db of
        Inl _ \<Rightarrow> None
      | Inr (d, db') \<Rightarrow> Some ((debited_cents d, shortfall_cents d), db'))"

lemma user_balance_book:
  "get_user db (u_id row) = Some row \<Longrightarrow>
   user_balance (snd (book now row a k r d t db)) v =
     (if v = u_id row then Some (u_balance row + a) else user_balance db v)"
  by (simp add: user_balance_def get_row_modify_row)

lemma drain_user_cases:
  assumes "drain_user now k r t u a db = Some ((taken, short), db')"
  obtains row where "get_user db u = Some row" "u_id row = u"
    "taken = min (max 0 a) (max 0 (u_balance row))" "short = max 0 a - taken"
    "db' = (if taken > 0 then snd (book now row (- taken) k r None t db) else db)"
proof -
  from assms obtain d where d: "debit_user_to_floor now u a k r t db = Inr (d, db')"
    and ts: "taken = debited_cents d" "short = shortfall_cents d"
    by (auto simp: drain_user_def split: sum.splits)
  from d show ?thesis
  proof (rule debit_to_floor_Inr)
    fix row
    assume row: "get_user db u = Some row"
      and r: "debited_cents d = min (max 0 a) (max 0 (u_balance row))"
        "shortfall_cents d = max 0 a - debited_cents d"
        "db' = (if debited_cents d > 0 then snd (book now row (- debited_cents d) k r None t db) else db)"
    have "u_id row = u" using get_row_SomeD [OF row] by simp
    from row this r show ?thesis
      by (intro that [of row]) (simp_all only: ts)
  qed
qed

lemma drain_user_balance:
  assumes "drain_user now k r t u a db = Some ((taken, short), db')"
  shows "user_balance db' v = (if v = u then map_option (\<lambda>b. b - taken) (user_balance db u) else user_balance db v)"
  using assms
proof (rule drain_user_cases)
  fix row
  assume row: "get_user db u = Some row" "u_id row = u" and taken: "taken = min (max 0 a) (max 0 (u_balance row))"
    and db': "db' = (if taken > 0 then snd (book now row (- taken) k r None t db) else db)"
  show ?thesis
  proof (cases "taken > 0")
    case True
    with row db' show ?thesis
      using user_balance_book [where db = db and row = row and a = "- taken" and v = v]
      by (simp add: user_balance_def)
  next
    case False
    with taken have "taken = 0" by auto
    with db' show ?thesis by (simp add: option.map_ident)
  qed
qed

interpretation metered: floor_debit user_balance "drain_user now kind reference description"
  for now kind reference description
proof unfold_locales
  fix db u a
  show "(user_balance db u \<noteq> None) = (drain_user now kind reference description u a db \<noteq> None)"
    by (auto simp: user_balance_def drain_user_def debit_user_to_floor_def Let_def split: option.splits)
next
  fix u a db taken short db'
  assume d: "drain_user now kind reference description u a db = Some ((taken, short), db')"
  then show "0 \<le> taken \<and> 0 \<le> short \<and> taken + short = max 0 a"
    by (rule drain_user_cases) auto
  fix b assume b: "user_balance db u = Some b"
  with drain_user_balance [OF d, of u] show "user_balance db' u = Some (b - taken)" by simp
  from d show "(0 \<le> b \<longrightarrow> taken \<le> b) \<and> (b < 0 \<longrightarrow> taken = 0) \<and> (0 < short \<longrightarrow> b - taken \<le> 0)"
  proof (rule drain_user_cases)
    fix row
    assume "get_user db u = Some row" "taken = min (max 0 a) (max 0 (u_balance row))" "short = max 0 a - taken"
    with b show ?thesis by (simp add: user_balance_def min_def max_def)
  qed
next
  fix u a db r db' v
  assume "drain_user now kind reference description u a db = Some (r, db')" and "v \<noteq> u"
  then show "user_balance db' v = user_balance db v"
    using drain_user_balance by (cases r) auto
qed

text \<open>
  Usage is charged exactly and never overdraws: a series of draining debits against one
  account takes and leaves over exactly what was asked for, lowers the balance by precisely
  what it took, and takes no more than the balance there was (so an account in credit never
  goes negative); it never fails on an existing account.
\<close>

theorem usage_charges_exact:
  assumes "user_balance db u = Some b"
  shows "\<exists>t s db'. metered.charges now kind reference description u as db = Some (t, s, db') \<and>
           t + s = sum_list (map (max 0) as) \<and> 0 \<le> t \<and> 0 \<le> s \<and>
           user_balance db' u = Some (b - t) \<and> (0 \<le> b \<longrightarrow> t \<le> b)"
proof -
  obtain t s db' where c: "metered.charges now kind reference description u as db = Some (t, s, db')"
    using metered.charges_defined [of db u now kind reference description as] assms
    by (metis not_None_eq option.distinct(1) prod.exhaust)
  then show ?thesis
    using metered.charges_exact [OF c assms] metered.charges_nonneg [OF c assms] by auto
qed

theorem usage_charges_exact_witness:
  "user_balance (opening_db demo_users) ''ann'' = Some 30 \<and>
   (\<exists>t s db'. metered.charges 7 ''usage'' None [] ''ann'' [20, 25] (opening_db demo_users) = Some (t, s, db') \<and>
      t + s = 45 \<and> t \<le> 30)"
proof -
  have b: "user_balance (opening_db demo_users) ''ann'' = Some 30"
    by (simp add: user_balance_def opening_db_def demo_users_def)
  from usage_charges_exact [OF b, of 7 "''usage''" None "[]" "[20, 25]"] b show ?thesis by auto
qed

text \<open>
  A strict debit is all or nothing: on an existing account it either books exactly the
  amount, or, when the balance is smaller and overdrawing is not allowed, reports the two
  numbers and books nothing; it fails with a key error exactly on an unknown account.
\<close>

theorem debit_user_strict:
  "debit_user now u amount kind reference description allow_negative db =
     (case user_balance db u of
        None \<Rightarrow> Inl KeyError
      | Some b \<Rightarrow>
          if \<not> allow_negative \<and> b < amount then Inl (InsufficientBalance b amount)
          else Inr (book now \<lparr>u_id = u, u_balance = b\<rparr> (- amount) kind reference None description db)) \<and>
   (\<forall>e db'. debit_user now u amount kind reference description False db = Inr (e, db') \<longrightarrow>
      0 \<le> le_balance_after e \<and> user_balance db' u = Some (le_balance_after e))"
proof
  show "debit_user now u amount kind reference description allow_negative db =
     (case user_balance db u of
        None \<Rightarrow> Inl KeyError
      | Some b \<Rightarrow>
          if \<not> allow_negative \<and> b < amount then Inl (InsufficientBalance b amount)
          else Inr (book now \<lparr>u_id = u, u_balance = b\<rparr> (- amount) kind reference None description db))"
  proof (cases "get_user db u")
    case (Some row)
    then have "row = \<lparr>u_id = u, u_balance = u_balance row\<rparr>"
      using get_row_SomeD [OF Some] by simp
    with Some show ?thesis
      by (simp add: debit_user_def user_balance_def)
  qed (simp add: debit_user_def user_balance_def)
next
  show "\<forall>e db'. debit_user now u amount kind reference description False db = Inr (e, db') \<longrightarrow>
      0 \<le> le_balance_after e \<and> user_balance db' u = Some (le_balance_after e)"
  proof (intro allI impI)
    fix e db'
    assume "debit_user now u amount kind reference description False db = Inr (e, db')"
    then show "0 \<le> le_balance_after e \<and> user_balance db' u = Some (le_balance_after e)"
    proof (rule debit_user_Inr)
      fix row
      assume row: "get_user db u = Some row" and "False \<or> amount \<le> u_balance row"
        and e: "e = fst (book now row (- amount) kind reference None description db)"
        and db': "db' = snd (book now row (- amount) kind reference None description db)"
      moreover have "u = u_id row" using get_row_SomeD [OF row] by simp
      ultimately show ?thesis
        using user_balance_book [OF get_user_self [OF row], of now "- amount" kind reference None description u]
        by simp
    qed
  qed
qed

theorem debit_user_strict_witness:
  "debit_user 7 ''bob'' 1 ''usage'' None [] False (opening_db demo_users) = Inl (InsufficientBalance 0 1)"
  using debit_user_strict [of 7 "''bob''" 1 "''usage''" None "[]" False "opening_db demo_users"]
  by (simp add: user_balance_def opening_db_def demo_users_def)

subsection \<open>Holds\<close>

text \<open>
  The concurrent-spend gate: a request is admitted exactly when the account exists and
  its other unexpired holds plus the request fit under the balance, and after an admission
  all unexpired holds of the account together are covered by its balance, so any number of
  simultaneous requests cannot be promised more than there is.
\<close>

theorem hold_gate:
  assumes "keys_unique db"
  shows "(fst (reserve_inference_hold now u a r ttl db) \<longleftrightarrow>
            (\<exists>b. user_balance db u = Some b \<and>
               sum_rows (\<lambda>h. hold_active now u h \<and> h_reference h \<noteq> r) h_amount (bd_holds db) + max 0 a \<le> b)) \<and>
         (fst (reserve_inference_hold now u a r ttl db) \<longrightarrow>
            active_hold_cents now u (snd (reserve_inference_hold now u a r ttl db)) \<le>
            get_balance u (snd (reserve_inference_hold now u a r ttl db)))"
proof (cases "get_user db u")
  case None
  then show ?thesis by (simp add: reserve_inference_hold_def user_balance_def)
next
  case (Some row)
  let ?live = "filter (\<lambda>h. \<not> (h_user h = u \<and> h_expires_at h \<le> now)) (bd_holds db)"
  let ?others = "sum_rows (\<lambda>h. hold_active now u h \<and> h_reference h \<noteq> r) h_amount"
  let ?res = "reserve_inference_hold now u a r ttl db"
  have same: "?others ?live = ?others (bd_holds db)"
    unfolding sum_rows_filter by (rule sum_rows_cong) (auto simp: hold_active_def)
  have keys: "distinct_keys h_reference ?live"
    using assms by (simp add: keys_unique_def distinct_map_filter)
  have adm: "fst ?res \<longleftrightarrow> max 0 a \<le> u_balance row - ?others ?live"
    by (auto simp: reserve_inference_hold_def Some Let_def not_less max_def split: option.splits if_splits)
  have "active_hold_cents now u (snd ?res) \<le> ?others ?live + max 0 a" if "fst ?res"
  proof (cases "get_row h_reference r ?live")
    case None
    then have "?others ?live = sum_rows (hold_active now u) h_amount ?live"
      by (intro sum_rows_cong) (auto simp: get_row_None_iff)
    with that None Some show ?thesis
      by (simp add: reserve_inference_hold_def Let_def active_hold_cents_def split: if_splits)
  next
    case old: (Some h)
    have ref: "h_reference h = r" using get_row_SomeD [OF old] by simp
    let ?h' = "h\<lparr>h_amount := max 0 a, h_expires_at := now + seconds (max 1 ttl)\<rparr>"
    have "sum_rows (hold_active now u) h_amount (put_row h_reference ?h' ?live) \<le> ?others ?live + max 0 a"
      using sum_rows_put_row [OF keys, of "hold_active now u" h_amount ?h'] by (simp add: ref)
    with that old Some show ?thesis
      by (simp add: reserve_inference_hold_def Let_def active_hold_cents_def split: if_splits)
  qed
  moreover have "get_balance u (snd ?res) = u_balance row"
    using Some by (simp add: get_balance_def reserve_hold_tables)
  ultimately show ?thesis
    using adm same Some by (auto simp: user_balance_def)
qed

theorem hold_gate_witness:
  "fst (reserve_inference_hold 0 ''ann'' 20 ''r1'' 300 (opening_db demo_users)) \<and>
   \<not> fst (reserve_inference_hold 1 ''ann'' 20 ''r2'' 300
        (snd (reserve_inference_hold 0 ''ann'' 20 ''r1'' 300 (opening_db demo_users))))"
proof -
  let ?db1 = "snd (reserve_inference_hold 0 ''ann'' 20 ''r1'' 300 (opening_db demo_users))"
  have k: "keys_unique (opening_db demo_users)"
    by (simp add: keys_unique_def opening_db_def)
  then have k1: "keys_unique ?db1" by (rule reserve_hold_keys)
  have "bd_holds ?db1 = [\<lparr>h_reference = ''r1'', h_user = ''ann'', h_amount = 20, h_created_at = 0, h_expires_at = seconds 300\<rparr>]"
    by (simp add: reserve_inference_hold_def opening_db_def demo_users_def)
  moreover have "user_balance ?db1 ''ann'' = Some 30"
    by (simp add: user_balance_def reserve_hold_tables) (simp add: opening_db_def demo_users_def)
  ultimately show ?thesis
    using hold_gate [OF k, of 0 "''ann''" 20 "''r1''" 300] hold_gate [OF k1, of 1 "''ann''" 20 "''r2''" 300]
    by (auto simp: user_balance_def opening_db_def demo_users_def hold_active_def seconds_def)
qed

subsection \<open>Credits\<close>

text \<open>What an operation that books nothing leaves as it was.\<close>

definition same_money :: "billing_db \<Rightarrow> billing_db \<Rightarrow> bool" where
  "same_money db db' \<longleftrightarrow> bd_users db' = bd_users db \<and> bd_ledger db' = bd_ledger db"

lemma ref_taken_SomeI: "le_deposit_ref e = Some d \<Longrightarrow> e \<in> set (bd_ledger db) \<Longrightarrow> ref_taken (Some d) db"
  by (auto simp: ref_taken_def list_ex_iff)

lemma book_pair:
  "book now row a k r d t db = (e, db') \<Longrightarrow>
     le_deposit_ref e = d \<and> bd_ledger db' = bd_ledger db @ [e] \<and> le_balance_after e = u_balance row + a"
  by (metis book_entry(3,6) bd_ledger_book fst_conv snd_conv)

lemma confirm_taken_same:
  assumes taken: "ref_taken (Some d) db" and d: "d \<noteq> []"
    and run: "confirm_and_credit_invoice now i tx t (Some d) ae cc db = Inr (out, db')"
  shows "same_money db db'"
  using run d taken unfolding confirm_and_credit_invoice_def same_money_def
  by (simp add: Let_def case_prod_unfold split: option.split_asm if_split_asm) (auto split: if_splits)

lemma credit_deposit_taken_same:
  assumes taken: "ref_taken (Some d) db" and run: "credit_deposit now d u a t m db = Inr (out, db')"
  shows "same_money db db'"
  using run taken unfolding credit_deposit_def same_money_def
  by (auto simp: Let_def case_prod_unfold split: option.split_asm if_split_asm)

lemma credit_deposit_takes:
  assumes "credit_deposit now d u a t m db = Inr (Some (CreditedDeposit c b), db')"
  shows "ref_taken (Some d) db'"
  using assms unfolding credit_deposit_def
  by (auto simp: Let_def case_prod_unfold ref_taken_def split: option.split_asm if_split_asm)

lemma confirm_takes:
  assumes "confirm_and_credit_invoice now i tx t (Some d) ae cc db = Inr (Some (Credited c b), db')" and "d \<noteq> []"
  shows "ref_taken (Some d) db'"
  using assms unfolding confirm_and_credit_invoice_def
  by (auto simp: Let_def case_prod_unfold ref_taken_def split: option.split_asm if_split_asm)

lemma complete_stripe_takes:
  assumes "complete_and_credit_stripe_session now sid t db = Inr (Some (StripeCredited c b), db')"
  shows "ref_taken (Some (''stripe:'' @ sid)) db'"
proof (cases "get_row st_stripe_id sid (bd_stripe db)")
  case (Some ss)
  then have "st_stripe_id ss = sid" using get_row_SomeD [OF Some] by simp
  with assms Some show ?thesis
    unfolding complete_and_credit_stripe_session_def
    by (auto simp: Let_def case_prod_unfold ref_taken_def split: option.split_asm if_split_asm)
qed (use assms in \<open>simp add: complete_and_credit_stripe_session_def\<close>)

text \<open>
  (C3) One deposit reference, one credit.  Once an invoice has been confirmed under a deposit
  reference, or the deposit of that reference has been credited directly, then after any further
  operations of the repository neither confirming any invoice under that same reference nor
  crediting the deposit of that same reference moves a balance or adds a ledger row.  References
  are compared as they are spelled: the same transfer under another spelling is another
  reference, which is what the padded hash of a staff confirmation is
  (\<open>padded_hash_is_not_recognised\<close> in the theory of the payment properties).
\<close>

theorem transfer_credited_once:
  assumes "(\<exists>now i tx t ae cc. confirm_and_credit_invoice now i tx t (Some d) ae cc db0 = Inr (Some (Credited c b), db1)) \<or>
           (\<exists>now u a t m. credit_deposit now d u a t m db0 = Inr (Some (CreditedDeposit c b), db1))"
    and "d \<noteq> []" and "billing_step\<^sup>*\<^sup>* db1 db2"
  shows "(confirm_and_credit_invoice now' i' tx' t' (Some d) ae' cc' db2 = Inr (out', db3) \<longrightarrow> same_money db2 db3) \<and>
         (credit_deposit now' d u' a' t' m' db2 = Inr (res', db4) \<longrightarrow> same_money db2 db4)"
proof -
  have "ref_taken (Some d) db1"
    using assms(1,2) by (auto intro: credit_deposit_takes confirm_takes)
  then have "ref_taken (Some d) db2"
    using assms(3) billing_run_ref_taken by blast
  with assms(2) show ?thesis
    using confirm_taken_same credit_deposit_taken_same by blast
qed

definition demo_deposit :: deposit where
  "demo_deposit = \<lparr>dep_ref = ''tx:0'', dep_currency = ''usdt'', dep_tx_hash = None, dep_sender = ''a'',
     dep_address = ''b'', dep_amount_raw = 5, dep_decimals = 6, dep_usd_price = None, dep_status = DepUnmatched,
     dep_matched_by = None, dep_invoice_id = None, dep_user = None, dep_credited_cents = None,
     dep_observed_at = 0, dep_credited_at = None\<rparr>"

definition demo_paid_db :: billing_db where
  "demo_paid_db = (opening_db demo_users)\<lparr>bd_deposits := [demo_deposit]\<rparr>"

theorem transfer_credited_once_witness:
  "\<exists>db1 out db2. credit_deposit 1 ''tx:0'' ''ann'' 500 [] ''sender'' demo_paid_db = Inr (Some (CreditedDeposit 500 530), db1) \<and>
     credit_deposit 2 ''tx:0'' ''bob'' 500 [] ''admin'' db1 = Inr (out, db2) \<and> same_money db1 db2"
proof -
  obtain db1 where first: "credit_deposit 1 ''tx:0'' ''ann'' 500 [] ''sender'' demo_paid_db = Inr (Some (CreditedDeposit 500 530), db1)"
    and dep: "map_option dep_status (get_row dep_ref ''tx:0'' (bd_deposits db1)) = Some DepCredited"
    by (simp add: credit_deposit_def demo_paid_db_def demo_deposit_def opening_db_def demo_users_def ref_taken_def
        manual_credit_row_def set_deposit_def book_def set_balance_def Let_def)
  from dep have "\<exists>out db2. credit_deposit 2 ''tx:0'' ''bob'' 500 [] ''admin'' db1 = Inr (out, db2)"
    by (auto simp: credit_deposit_def)
  then obtain out db2 where second: "credit_deposit 2 ''tx:0'' ''bob'' 500 [] ''admin'' db1 = Inr (out, db2)"
    by blast
  from first have "(\<exists>now i tx t ae cc. confirm_and_credit_invoice now i tx t (Some ''tx:0'') ae cc demo_paid_db
        = Inr (Some (Credited 500 530), db1)) \<or>
      (\<exists>now u a t m. credit_deposit now ''tx:0'' u a t m demo_paid_db = Inr (Some (CreditedDeposit 500 530), db1))"
    by blast
  from first second transfer_credited_once [OF this, of db1] show ?thesis by blast
qed

text \<open>
  A Stripe checkout is credited once: after a completion has credited it, a redelivered
  webhook, in any later state, reports it as done already (or finds no such session or user)
  and changes nothing at all.
\<close>

theorem stripe_credited_once:
  assumes "complete_and_credit_stripe_session now sid t db0 = Inr (Some (StripeCredited c b), db1)"
    and "billing_step\<^sup>*\<^sup>* db1 db2"
    and "complete_and_credit_stripe_session now' sid t' db2 = Inr (out, db3)"
  shows "db3 = db2 \<and> (out = None \<or> out = Some StripeAlready)"
proof -
  have taken: "ref_taken (Some (''stripe:'' @ sid)) db2"
    using assms(1,2) complete_stripe_takes billing_run_ref_taken by blast
  show ?thesis
  proof (cases "get_row st_stripe_id sid (bd_stripe db2)")
    case (Some ss)
    then have "st_stripe_id ss = sid" using get_row_SomeD [OF Some] by simp
    with assms(3) Some taken show ?thesis
      unfolding complete_and_credit_stripe_session_def
      by (simp add: Let_def case_prod_unfold split: option.split_asm if_split_asm)
  qed (use assms(3) in \<open>simp add: complete_and_credit_stripe_session_def\<close>)
qed

definition demo_session :: stripe_session where
  "demo_session = \<lparr>st_session_id = ''s'', st_user = ''ann'', st_stripe_id = ''cs'', st_amount_usd = 5, st_amount_cents = 500,
      st_status = StripePending, st_payment_intent = None, st_created_at = 0, st_completed_at = None\<rparr>"

theorem stripe_credited_once_witness:
  "\<exists>db1. complete_and_credit_stripe_session 1 ''cs'' [] ((opening_db demo_users)\<lparr>bd_stripe := [demo_session]\<rparr>) =
      Inr (Some (StripeCredited 500 530), db1) \<and>
    complete_and_credit_stripe_session 9 ''cs'' [] db1 = Inr (Some StripeAlready, db1)"
proof -
  obtain db1 where first: "complete_and_credit_stripe_session 1 ''cs'' []
        ((opening_db demo_users)\<lparr>bd_stripe := [demo_session]\<rparr>) = Inr (Some (StripeCredited 500 530), db1)"
    and paid: "map_option st_status (get_row st_stripe_id ''cs'' (bd_stripe db1)) = Some StripePaid"
    by (simp add: complete_and_credit_stripe_session_def demo_session_def opening_db_def demo_users_def
        ref_taken_def set_stripe_def book_def set_balance_def Let_def)
  obtain out db2 where second: "complete_and_credit_stripe_session 9 ''cs'' [] db1 = Inr (out, db2)"
    and "out \<noteq> None"
    using paid by (auto simp: complete_and_credit_stripe_session_def)
  with first stripe_credited_once [OF first _ second] show ?thesis by auto
qed

subsection \<open>Wallets\<close>

text \<open>One owner per verified address, at most \<open>MAX_WALLETS_PER_USER\<close> addresses per user.\<close>

definition wallets_ok :: "billing_db \<Rightarrow> bool" where
  "wallets_ok db \<longleftrightarrow>
     distinct (map (\<lambda>w. (w_chain w, w_address w)) (bd_wallets db)) \<and>
     (\<forall>u. length (filter (\<lambda>w. w_user w = u) (bd_wallets db)) \<le> MAX_WALLETS_PER_USER)"

lemma wallets_ok_add:
  assumes ok: "wallets_ok db" and add: "add_verified_wallet now wid u ch ad db = Inr (r, db')"
  shows "wallets_ok db'"
proof (cases "find (\<lambda>w. w_chain w = ch \<and> w_address w = ad) (bd_wallets db)")
  case None
  then have "(ch, ad) \<notin> (\<lambda>w. (w_chain w, w_address w)) ` set (bd_wallets db)"
    by (auto simp: find_None_iff)
  with None ok add show ?thesis
    by (auto simp: add_verified_wallet_def wallets_ok_def Let_def not_le split: if_split_asm)
next
  case (Some w)
  with ok add show ?thesis
    by (auto simp: add_verified_wallet_def split: if_splits)
qed

lemma length_filter_filter: "length (filter P (filter Q xs)) \<le> length (filter P xs)"
  by (induction xs) auto

lemma wallets_ok_delete: "wallets_ok db \<Longrightarrow> wallets_ok (snd (delete_verified_wallet u w db))"
  by (auto simp: delete_verified_wallet_def wallets_ok_def delete_row_def distinct_map_filter
      simp del: filter_filter split: option.splits intro: le_trans [OF length_filter_filter])

lemma wallets_ok_same: "bd_wallets db' = bd_wallets db \<Longrightarrow> wallets_ok db' \<longleftrightarrow> wallets_ok db"
  by (simp add: wallets_ok_def)

lemma money_op_wallets:
  "credit_user now u a k r t db = Inr (e, db') \<Longrightarrow> bd_wallets db' = bd_wallets db"
  "debit_user now u a k r t neg db = Inr (e, db') \<Longrightarrow> bd_wallets db' = bd_wallets db"
  "debit_user_to_floor now u a k r t db = Inr (dr, db') \<Longrightarrow> bd_wallets db' = bd_wallets db"
  by (auto elim!: credit_user_Inr debit_user_Inr debit_to_floor_Inr)

lemma set_row_wallets [simp]:
  "bd_wallets (set_invoice i db) = bd_wallets db" "bd_wallets (set_deposit d db) = bd_wallets db"
  "bd_wallets (set_stripe x db) = bd_wallets db"
  by (simp_all add: set_invoice_def set_deposit_def set_stripe_def)

lemma credit_op_wallets:
  "confirm_and_credit_invoice now i tx t d ae cc db = Inr (co, db') \<Longrightarrow> bd_wallets db' = bd_wallets db"
  "credit_deposit now ref u a t m db = Inr (cr, db') \<Longrightarrow> bd_wallets db' = bd_wallets db"
  "complete_and_credit_stripe_session now sid t db = Inr (so, db') \<Longrightarrow> bd_wallets db' = bd_wallets db"
  "reverse_stripe_topup now u a ev r t k db = Inr (ro, db') \<Longrightarrow> bd_wallets db' = bd_wallets db"
  unfolding confirm_and_credit_invoice_def credit_deposit_def complete_and_credit_stripe_session_def
    reverse_stripe_topup_def
  by (auto simp: Let_def case_prod_unfold split: option.split_asm if_split_asm)

lemma table_op_wallets [simp]:
  "bd_wallets (snd (reserve_inference_hold now u a r ttl db)) = bd_wallets db"
  "bd_wallets (release_inference_hold r db) = bd_wallets db"
  "bd_wallets (snd (expire_stale_pending_invoices now g db)) = bd_wallets db"
  "bd_wallets (snd (reject_crypto_invoice now i reason note db)) = bd_wallets db"
  "bd_wallets (snd (request_invoice_review now i u tx nt db)) = bd_wallets db"
  "bd_wallets (snd (record_deposit now d db)) = bd_wallets db"
  "bd_wallets (snd (ignore_deposit ref db)) = bd_wallets db"
  "bd_wallets (snd (report_invoice_tx_hash i u tx db)) = bd_wallets db"
  "bd_wallets (set_review_status now i rs ptx reason note db) = bd_wallets db"
  "bd_wallets (mark_deposit now ref st upd db) = bd_wallets db"
  "bd_wallets (snd (mark_deposits_by_tx now c tx upd db)) = bd_wallets db"
  "bd_wallets (set_stripe_payment_intent sid pid db) = bd_wallets db"
  by (simp_all add: reserve_inference_hold_def release_inference_hold_def expire_stale_pending_invoices_def
      reject_crypto_invoice_def request_invoice_review_def record_deposit_def ignore_deposit_def
      report_invoice_tx_hash_def set_review_status_def mark_deposit_def mark_deposits_by_tx_def
      set_stripe_payment_intent_def Let_def split: option.splits)

lemma create_op_wallets:
  "create_crypto_invoice iv units db = Inr (x, db') \<Longrightarrow> bd_wallets db' = bd_wallets db"
  "create_stripe_session ss db = Inr (cs, db') \<Longrightarrow> bd_wallets db' = bd_wallets db"
  by (auto simp: create_crypto_invoice_def create_stripe_session_def split: if_splits)

lemma billing_step_wallets: "billing_step db db' \<Longrightarrow> wallets_ok db \<Longrightarrow> wallets_ok db'"
  by (induction rule: billing_step.induct)
    (auto simp: wallets_ok_same [OF money_op_wallets(1)] wallets_ok_same [OF money_op_wallets(2)]
      wallets_ok_same [OF money_op_wallets(3)] wallets_ok_same [OF credit_op_wallets(1)]
      wallets_ok_same [OF credit_op_wallets(2)] wallets_ok_same [OF credit_op_wallets(3)]
      wallets_ok_same [OF credit_op_wallets(4)] wallets_ok_same [OF create_op_wallets(1)]
      wallets_ok_same [OF create_op_wallets(2)] wallets_ok_same [OF table_op_wallets(1)]
      wallets_ok_same [OF table_op_wallets(2)] wallets_ok_same [OF table_op_wallets(3)]
      wallets_ok_same [OF table_op_wallets(4)] wallets_ok_same [OF table_op_wallets(5)]
      wallets_ok_same [OF table_op_wallets(6)] wallets_ok_same [OF table_op_wallets(7)]
      wallets_ok_same [OF table_op_wallets(8)] wallets_ok_same [OF table_op_wallets(9)]
      wallets_ok_same [OF table_op_wallets(10)] wallets_ok_same [OF table_op_wallets(11)]
      wallets_ok_same [OF table_op_wallets(12)] intro: wallets_ok_delete wallets_ok_add)

interpretation wallet_machine: invariant_step billing_step wallets_ok
  by unfold_locales (rule billing_step_wallets)

text \<open>
  Sender attribution is unambiguous: in every reachable state an address is verified for
  at most one account (two links of one address on one chain are the same row) and no account
  holds more than ten, so a transfer from a verified address is credited to one account only.
\<close>

theorem wallet_has_one_owner:
  assumes "billing_step\<^sup>*\<^sup>* (opening_db us) db"
    and "w \<in> set (bd_wallets db)" "w' \<in> set (bd_wallets db)"
    and "w_chain w = w_chain w'" "w_address w = w_address w'"
  shows "w = w' \<and> wallet_owner (w_chain w) (w_address w) db = Some (w_user w) \<and>
         length (filter (\<lambda>x. w_user x = w_user w) (bd_wallets db)) \<le> MAX_WALLETS_PER_USER"
proof -
  have ok: "wallets_ok db"
    using wallet_machine.run_keeps [OF assms(1)] by (simp add: wallets_ok_def opening_db_def)
  then have uniq: "x = w" if "x \<in> set (bd_wallets db)" "w_chain x = w_chain w" "w_address x = w_address w" for x
    using that assms(2) unfolding wallets_ok_def by (auto dest: inj_onD simp: distinct_map)
  obtain x where x: "find (\<lambda>x. w_chain x = w_chain w \<and> w_address x = w_address w) (bd_wallets db) = Some x"
    using assms(2) by (cases "find (\<lambda>x. w_chain x = w_chain w \<and> w_address x = w_address w) (bd_wallets db)")
      (auto simp: find_None_iff)
  then have "x = w" using uniq by (auto simp: find_Some_iff)
  with x uniq [of w'] assms ok show ?thesis
    by (simp add: wallet_owner_def wallets_ok_def)
qed

theorem wallet_has_one_owner_witness:
  "\<exists>db w. add_verified_wallet 1 ''w'' ''ann'' ''bsc'' ''0xa'' (opening_db demo_users) = Inr ((w, True), db) \<and>
     wallet_owner ''bsc'' ''0xa'' db = Some ''ann'' \<and>
     add_verified_wallet 2 ''w2'' ''bob'' ''bsc'' ''0xa'' db = Inl WalletLinkedElsewhere"
proof -
  define w where "w = \<lparr>w_id = ''w'', w_user = ''ann'', w_chain = ''bsc'', w_address = ''0xa'', w_created_at = 1\<rparr>"
  define db where "db = (opening_db demo_users)\<lparr>bd_wallets := [w]\<rparr>"
  have first: "add_verified_wallet 1 ''w'' ''ann'' ''bsc'' ''0xa'' (opening_db demo_users) = Inr ((w, True), db)"
    by (simp add: add_verified_wallet_def opening_db_def MAX_WALLETS_PER_USER_def Let_def db_def w_def)
  have "billing_step (opening_db demo_users) db" using first by (rule billing_step.intros)
  then have run: "billing_step\<^sup>*\<^sup>* (opening_db demo_users) db" by simp
  have "wallet_owner ''bsc'' ''0xa'' db = Some ''ann''"
    using wallet_has_one_owner [OF run, of w w] by (simp add: db_def w_def)
  moreover have "add_verified_wallet 2 ''w2'' ''bob'' ''bsc'' ''0xa'' db = Inl WalletLinkedElsewhere"
    by (simp add: add_verified_wallet_def db_def w_def)
  ultimately show ?thesis using first by blast
qed

end
