(* ===== verification/Scheduler.thy ===== *)
theory Scheduler
  imports Prelude
begin

text \<open>
  Placement: \<^verbatim>\<open>control_plane/domain/scheduler.py\<close>, with the node and workload data it reads
  (\<^verbatim>\<open>NodeCapability\<close>, \<^verbatim>\<open>WorkloadSpec\<close> of the protocol package: the fields the
  repository uses).  Scores and costs are rationals; the label and metadata dictionaries are
  association lists.

  The lemmas show that normalising a GPU name is idempotent and ignores case and separators,
  that a node is ranked exactly when it satisfies every requirement, that the ranking is by
  descending score with ties in the order given, and that a lease names the best such node.
\<close>

record node =
  n_hotkey :: ident
  n_node_id :: ident
  n_server_id :: "ident option"
  n_hostname :: "string option"
  n_gpu_model :: string
  n_gpu_count :: int
  n_available_gpus :: int
  n_vram_gb_per_gpu :: int
  n_cpu_cores :: int
  n_memory_gb :: int
  n_hourly_cost_usd :: rat
  n_health_score :: rat
  n_reliability_score :: rat
  n_performance_score :: rat
  n_labels :: "(string \<times> string) list"
  n_observed_at :: "time option"

record requirements =
  rq_gpu_count :: int
  rq_min_vram_gb_per_gpu :: int
  rq_cpu_cores :: int
  rq_memory_gb :: int
  rq_supported_gpu_models :: "string list"

record workload =
  wl_id :: ident
  wl_owner :: "ident option"
  wl_name :: string
  wl_display_name :: "string option"
  wl_alias :: "string option"
  wl_ingress_host :: "string option"
  wl_kind :: string
  wl_requirements :: requirements
  wl_model_identifier :: "string option"
  wl_metadata :: "(string \<times> string) list"
  wl_public :: bool
  wl_created_at :: time

definition INFERENCE :: string where
  "INFERENCE = ''inference''"

record lease_assignment =
  la_assignment_id :: ident
  la_deployment_id :: ident
  la_workload_id :: ident
  la_hotkey :: ident
  la_node_id :: ident
  la_assigned_at :: time
  la_expires_at :: "time option"
  la_status :: string

definition normalize_gpu_model :: "string option \<Rightarrow> string" where
  "normalize_gpu_model raw = filter is_alnum (lower (case raw of None \<Rightarrow> [] | Some s \<Rightarrow> s))"

text \<open>\<open>reserved_by_node\<close> is a dictionary; a missing node has 0 reserved.\<close>

type_synonym reserved_map = "(ident \<times> int) list"

definition reserved_at :: "reserved_map \<Rightarrow> ident \<Rightarrow> int" where
  "reserved_at reserved nid = (case map_of reserved nid of None \<Rightarrow> 0 | Some n \<Rightarrow> n)"

definition effective_available_gpus :: "node \<Rightarrow> reserved_map \<Rightarrow> int" where
  "effective_available_gpus node reserved =
     min (n_available_gpus node) (n_gpu_count node - reserved_at reserved (n_node_id node))"

record ranked_node =
  rk_node :: node
  rk_score :: rat

definition allowed_kinds :: "node \<Rightarrow> string list" where
  "allowed_kinds node =
     map (\<lambda>k. lower (strip k))
       (filter (\<lambda>k. strip k \<noteq> [])
         (split_on (CHR '','') (case map_of (n_labels node) ''workload_kinds'' of None \<Rightarrow> [] | Some l \<Rightarrow> l)))"

definition node_eligible :: "workload \<Rightarrow> reserved_map \<Rightarrow> node \<Rightarrow> bool" where
  "node_eligible workload reserved node =
     (let req = wl_requirements workload
      in if allowed_kinds node \<noteq> [] \<and> wl_kind workload \<notin> set (allowed_kinds node) then False
         else if effective_available_gpus node reserved < rq_gpu_count req then False
         else if n_vram_gb_per_gpu node < rq_min_vram_gb_per_gpu req then False
         else if n_cpu_cores node < rq_cpu_cores req then False
         else if n_memory_gb node < rq_memory_gb req then False
         else if rq_supported_gpu_models req \<noteq> [] \<and>
                 normalize_gpu_model (Some (n_gpu_model node))
                   \<notin> set (map (\<lambda>m. normalize_gpu_model (Some m)) (rq_supported_gpu_models req)) then False
         else True)"

definition node_score :: "node \<Rightarrow> rat" where
  "node_score node =
     n_health_score node * (4 / 10) + n_reliability_score node * (3 / 10) +
     n_performance_score node * (2 / 10) + (1 / (1 + n_hourly_cost_usd node)) * (1 / 10)"

definition rank_nodes :: "workload \<Rightarrow> node list \<Rightarrow> reserved_map \<Rightarrow> ranked_node list" where
  "rank_nodes workload nodes reserved =
     sort_key (\<lambda>r. - rk_score r)
       (map (\<lambda>node. \<lparr>rk_node = node, rk_score = node_score node\<rparr>)
         (filter (node_eligible workload reserved) nodes))"

text \<open>The fields a new \<^verbatim>\<open>LeaseAssignment\<close> takes from the protocol's defaults are arguments: a
  fresh id, the clock and the initial status.\<close>

definition assign_lease ::
  "ident \<Rightarrow> time \<Rightarrow> string \<Rightarrow> workload \<Rightarrow> ident \<Rightarrow> node list \<Rightarrow> reserved_map \<Rightarrow> lease_assignment option" where
  "assign_lease aid now initial_status workload deployment_id nodes reserved =
     (case rank_nodes workload nodes reserved of
        [] \<Rightarrow> None
      | r # _ \<Rightarrow>
          Some \<lparr>la_assignment_id = aid, la_deployment_id = deployment_id, la_workload_id = wl_id workload,
                la_hotkey = n_hotkey (rk_node r), la_node_id = n_node_id (rk_node r),
                la_assigned_at = now, la_expires_at = None, la_status = initial_status\<rparr>)"

section \<open>Lemmas\<close>

lemma set_rank_nodes:
  "set (rank_nodes workload nodes reserved) =
     (\<lambda>node. \<lparr>rk_node = node, rk_score = node_score node\<rparr>) ` {n \<in> set nodes. node_eligible workload reserved n}"
  by (auto simp: rank_nodes_def)

lemma sorted_rank_nodes:
  "sorted_wrt (\<lambda>a b. rk_score b \<le> rk_score a) (rank_nodes workload nodes reserved)"
proof -
  have "sorted (map (\<lambda>r. - rk_score r) (rank_nodes workload nodes reserved))"
    by (simp add: rank_nodes_def)
  then show ?thesis
    unfolding sorted_map by (rule sorted_wrt_mono_rel [rotated]) auto
qed

lemma rank_nodes_Nil_iff:
  "rank_nodes workload nodes reserved = [] \<longleftrightarrow> (\<forall>n \<in> set nodes. \<not> node_eligible workload reserved n)"
  using set_rank_nodes [of workload nodes reserved] by (auto simp: set_empty [symmetric] simp del: set_empty)

lemma assign_lease_SomeE:
  assumes "assign_lease aid now st workload did nodes reserved = Some la"
  obtains n where "n \<in> set nodes" "node_eligible workload reserved n"
    "la_node_id la = n_node_id n" "la_hotkey la = n_hotkey n" "la_deployment_id la = did"
    "la_workload_id la = wl_id workload" "la_status la = st" "la_expires_at la = None"
    "\<And>m. m \<in> set nodes \<Longrightarrow> node_eligible workload reserved m \<Longrightarrow> node_score m \<le> node_score n"
proof -
  from assms obtain r rs where r: "rank_nodes workload nodes reserved = r # rs"
    and la: "la = \<lparr>la_assignment_id = aid, la_deployment_id = did, la_workload_id = wl_id workload,
                la_hotkey = n_hotkey (rk_node r), la_node_id = n_node_id (rk_node r),
                la_assigned_at = now, la_expires_at = None, la_status = st\<rparr>"
    by (auto simp: assign_lease_def split: list.splits)
  from r set_rank_nodes [of workload nodes reserved]
  have "r \<in> (\<lambda>node. \<lparr>rk_node = node, rk_score = node_score node\<rparr>) ` {n \<in> set nodes. node_eligible workload reserved n}"
    by auto
  then obtain n where n: "n \<in> set nodes" "node_eligible workload reserved n"
    "r = \<lparr>rk_node = n, rk_score = node_score n\<rparr>" by auto
  have "node_score m \<le> node_score n" if "m \<in> set nodes" "node_eligible workload reserved m" for m
  proof -
    have "\<lparr>rk_node = m, rk_score = node_score m\<rparr> \<in> set (r # rs)"
      using that set_rank_nodes [of workload nodes reserved] r by auto
    then show ?thesis
      using sorted_rank_nodes [of workload nodes reserved] r n by auto
  qed
  with n la show ?thesis by (intro that [of n]) auto
qed

lemma eligible_fits: "node_eligible workload reserved n \<Longrightarrow>
    rq_gpu_count (wl_requirements workload) + reserved_at reserved (n_node_id n) \<le> n_gpu_count n"
  by (auto simp: node_eligible_def effective_available_gpus_def Let_def split: if_splits)

lemma filter_alnum_lower: "filter is_alnum (lower s) = lower (filter is_alnum s)"
proof -
  have "is_alnum (lower_char c) = is_alnum c" for c
    using of_char_lower_char [of c] by (auto simp: is_alnum_def is_upper_def is_lower_def is_digit_def)
  then show ?thesis by (simp add: lower_def filter_map comp_def)
qed

section \<open>Properties\<close>

text \<open>What a request asks of a node, clause by clause.\<close>

definition meets_requirements :: "workload \<Rightarrow> reserved_map \<Rightarrow> node \<Rightarrow> bool" where
  "meets_requirements w reserved n \<longleftrightarrow>
     (allowed_kinds n = [] \<or> wl_kind w \<in> set (allowed_kinds n)) \<and>
     rq_gpu_count (wl_requirements w) \<le> n_available_gpus n \<and>
     rq_gpu_count (wl_requirements w) + reserved_at reserved (n_node_id n) \<le> n_gpu_count n \<and>
     rq_min_vram_gb_per_gpu (wl_requirements w) \<le> n_vram_gb_per_gpu n \<and>
     rq_cpu_cores (wl_requirements w) \<le> n_cpu_cores n \<and>
     rq_memory_gb (wl_requirements w) \<le> n_memory_gb n \<and>
     (rq_supported_gpu_models (wl_requirements w) = [] \<or>
      (\<exists>m \<in> set (rq_supported_gpu_models (wl_requirements w)).
         normalize_gpu_model (Some m) = normalize_gpu_model (Some (n_gpu_model n))))"

lemma node_eligible_iff: "node_eligible w reserved n \<longleftrightarrow> meets_requirements w reserved n"
  by (auto simp: node_eligible_def meets_requirements_def effective_available_gpus_def Let_def)
    (metis image_eqI)+

text \<open>
  (C21) Placement is sound and complete: a lease is granted exactly when some node meets every
  requirement of the workload (kind, GPUs free both by the miner's report and by physical
  GPUs less committed reservations, memory, CPU, card), and then it names such a node with
  the highest score of all that do.
\<close>

theorem assign_lease_best:
  "case assign_lease aid now st w did nodes reserved of
     None \<Rightarrow> (\<forall>n \<in> set nodes. \<not> meets_requirements w reserved n)
   | Some la \<Rightarrow> la_deployment_id la = did \<and> la_workload_id la = wl_id w \<and>
       (\<exists>n \<in> set nodes. la_node_id la = n_node_id n \<and> la_hotkey la = n_hotkey n \<and> meets_requirements w reserved n \<and>
          (\<forall>m \<in> set nodes. meets_requirements w reserved m \<longrightarrow> node_score m \<le> node_score n))"
proof (cases "assign_lease aid now st w did nodes reserved")
  case None
  then show ?thesis
    using rank_nodes_Nil_iff [of w nodes reserved]
    by (auto simp: assign_lease_def node_eligible_iff split: list.splits)
next
  case (Some la)
  from this obtain n where "n \<in> set nodes" "meets_requirements w reserved n" "la_node_id la = n_node_id n"
    "la_hotkey la = n_hotkey n" "la_deployment_id la = did" "la_workload_id la = wl_id w"
    "\<And>m. m \<in> set nodes \<Longrightarrow> meets_requirements w reserved m \<Longrightarrow> node_score m \<le> node_score n"
    by (elim assign_lease_SomeE) (auto simp: node_eligible_iff)
  with Some show ?thesis by auto
qed

definition demo_node :: "ident \<Rightarrow> int \<Rightarrow> int \<Rightarrow> rat \<Rightarrow> node" where
  "demo_node nid gpus free health =
     \<lparr>n_hotkey = ''hk'', n_node_id = nid, n_server_id = None, n_hostname = None, n_gpu_model = ''RTX 4090'',
      n_gpu_count = gpus, n_available_gpus = free, n_vram_gb_per_gpu = 24, n_cpu_cores = 16, n_memory_gb = 64,
      n_hourly_cost_usd = 0, n_health_score = health, n_reliability_score = 1, n_performance_score = 1,
      n_labels = [], n_observed_at = Some 0\<rparr>"

definition demo_workload :: "string \<Rightarrow> int \<Rightarrow> workload" where
  "demo_workload kind gpus =
     \<lparr>wl_id = ''w'', wl_owner = Some ''ann'', wl_name = ''w'', wl_display_name = None, wl_alias = None,
      wl_ingress_host = None, wl_kind = kind,
      wl_requirements = \<lparr>rq_gpu_count = gpus, rq_min_vram_gb_per_gpu = 16, rq_cpu_cores = 1, rq_memory_gb = 1,
                         rq_supported_gpu_models = [''rtx-4090'']\<rparr>,
      wl_model_identifier = None, wl_metadata = [], wl_public = False,
      wl_created_at = 0\<rparr>"

lemma normalize_demo [simp]:
  "normalize_gpu_model (Some ''RTX 4090'') = ''rtx4090''" "normalize_gpu_model (Some ''rtx-4090'') = ''rtx4090''"
  by code_simp+

theorem assign_lease_best_witness:
  "\<exists>la. assign_lease ''a'' 0 ''assigned'' (demo_workload ''pod'' 2) ''d''
        [demo_node ''n1'' 4 4 (1/2), demo_node ''n2'' 2 2 1] [(''n2'', 1)] = Some la \<and> la_node_id la = ''n1''"
proof -
  have no: "\<not> meets_requirements (demo_workload ''pod'' 2) [(''n2'', 1)] (demo_node ''n2'' 2 2 1)"
    by (simp add: meets_requirements_def demo_workload_def demo_node_def reserved_at_def)
  have yes: "meets_requirements (demo_workload ''pod'' 2) [(''n2'', 1)] (demo_node ''n1'' 4 4 (1/2))"
    by (simp add: meets_requirements_def demo_workload_def demo_node_def reserved_at_def allowed_kinds_def strip_def)
  show ?thesis
    using assign_lease_best [where aid = "''a''" and now = 0 and st = "''assigned''" and w = "demo_workload ''pod'' 2"
        and did = "''d''" and nodes = "[demo_node ''n1'' 4 4 (1/2), demo_node ''n2'' 2 2 1]" and reserved = "[(''n2'', 1)]"] no yes
    by (auto simp: demo_node_def split: option.splits)
qed

text \<open>
  A GPU name has one canonical form: it is made of lower-case letters and digits only,
  normalising it again changes nothing, and two spellings that differ only in letter case
  have the same form, so a card that can be priced can also be placed.
\<close>

theorem normalize_gpu_model_canonical:
  "normalize_gpu_model (Some (normalize_gpu_model raw)) = normalize_gpu_model raw \<and>
   list_all (\<lambda>c. is_lower c \<or> is_digit c) (normalize_gpu_model raw) \<and>
   normalize_gpu_model (map_option lower raw) = normalize_gpu_model raw"
proof -
  have "is_lower c \<or> is_digit c" if "c \<in> set (normalize_gpu_model raw)" for c
    using that not_upper_lower_char by (auto simp: normalize_gpu_model_def lower_def is_alnum_def)
  moreover have "normalize_gpu_model (Some (normalize_gpu_model raw)) = normalize_gpu_model raw"
    by (simp add: normalize_gpu_model_def filter_alnum_lower)
  moreover have "normalize_gpu_model (map_option lower raw) = normalize_gpu_model raw"
    by (simp add: normalize_gpu_model_def split: option.splits)
  ultimately show ?thesis by (simp add: list_all_iff)
qed

end
