(* ===== verification/Control_Repository.thy ===== *)
theory Control_Repository
  imports Scheduler Bus "HOL-Library.Char_ord" "HOL-Library.List_Lexorder"
begin

text \<open>
  The control plane's tables and the operations on them:
  \<^verbatim>\<open>control_plane/infrastructure/repository.py\<close> (\<^verbatim>\<open>ControlPlaneRepository\<close>),
  \<^verbatim>\<open>control_plane/domain/state.py\<close> and \<^verbatim>\<open>persistence/account_events.py\<close>.

  \<open>control_db\<close> holds one list per table, in insertion order; each operation is one
  transaction.  A JSON column holds the value it serialises; keys drawn with
  \<^verbatim>\<open>uuid4()\<close> that no code reads back (lease history, capacity history) are left out, the
  key of a placement is a counter.  The clock is read once per operation (\<open>now\<close>).

  The lemmas show: the GPU reservation ledger (the locale \<open>gpu_ledger\<close>) never promises more
  than a node has and releases exactly once; the millicent accumulators (the locale
  \<open>accumulator\<close>) lose nothing; a saved deployment records an account event exactly when a
  state a client acts on is entered.
\<close>

section \<open>Deployment states\<close>

datatype deployment_state =
    PENDING | SCHEDULED | PULLING | STARTING | READY | DRAINING | SUSPENDED | FAILED | TERMINATED

fun state_value :: "deployment_state \<Rightarrow> string" where
  "state_value PENDING = ''pending''"
| "state_value SCHEDULED = ''scheduled''"
| "state_value PULLING = ''pulling''"
| "state_value STARTING = ''starting''"
| "state_value READY = ''ready''"
| "state_value DRAINING = ''draining''"
| "state_value SUSPENDED = ''suspended''"
| "state_value FAILED = ''failed''"
| "state_value TERMINATED = ''terminated''"

fun ALLOWED_TRANSITIONS :: "deployment_state \<Rightarrow> deployment_state list" where
  "ALLOWED_TRANSITIONS PENDING = [SCHEDULED, FAILED, TERMINATED]"
| "ALLOWED_TRANSITIONS SCHEDULED = [PULLING, STARTING, READY, FAILED, TERMINATED]"
| "ALLOWED_TRANSITIONS PULLING = [STARTING, READY, FAILED, TERMINATED]"
| "ALLOWED_TRANSITIONS STARTING = [READY, FAILED, TERMINATED]"
| "ALLOWED_TRANSITIONS READY = [DRAINING, SUSPENDED, FAILED, TERMINATED]"
| "ALLOWED_TRANSITIONS DRAINING = [TERMINATED, FAILED]"
| "ALLOWED_TRANSITIONS SUSPENDED = [PULLING, STARTING, READY, TERMINATED]"
| "ALLOWED_TRANSITIONS FAILED = [PENDING, TERMINATED]"
| "ALLOWED_TRANSITIONS TERMINATED = []"

datatype control_error =
    NotFound
  | ValueError
  | InvalidDeploymentTransition deployment_state deployment_state

definition transition_state :: "deployment_state \<Rightarrow> deployment_state \<Rightarrow> control_error + deployment_state" where
  "transition_state current desired =
     (if desired = current then Inr current
      else if desired \<notin> set (ALLOWED_TRANSITIONS current) then Inl (InvalidDeploymentTransition current desired)
      else Inr desired)"

section \<open>Rows\<close>

record miner =
  m_hotkey :: ident
  m_payout_address :: string
  m_api_base_url :: string
  m_validator_url :: string
  m_auth_secret :: string
  m_drained :: bool
  m_supported_workload_kinds :: "string list"

record heartbeat =
  hb_hotkey :: ident
  hb_healthy :: bool
  hb_active_deployments :: int
  hb_active_leases :: int
  hb_observed_at :: time

record capacity =
  cap_hotkey :: ident
  cap_nodes :: "node list"
  cap_observed_at :: time

record server =
  sv_id :: ident
  sv_hotkey :: ident
  sv_hostname :: "string option"
  sv_api_base_url :: "string option"
  sv_validator_url :: "string option"
  sv_observed_at :: time

record inventory =
  ni_node_id :: ident
  ni_hotkey :: ident
  ni_server_id :: "ident option"
  ni_payload :: node
  ni_observed_at :: time

record capacity_history =
  ch_hotkey :: ident
  ch_server_id :: ident
  ch_node_id :: ident
  ch_available_gpus :: int
  ch_total_gpus :: int
  ch_observed_at :: time

datatype reservation_status = ResActive | ResReleased

record reservation =
  rs_deployment_id :: ident
  rs_hotkey :: ident
  rs_node_id :: ident
  rs_gpu_count :: int
  rs_status :: reservation_status
  rs_created_at :: time
  rs_released_at :: "time option"

record deployment =
  d_id :: ident
  d_workload_id :: ident
  d_name :: "string option"
  d_owner :: "ident option"
  d_hotkey :: "ident option"
  d_node_id :: "ident option"
  d_state :: deployment_state
  d_requested_instances :: int
  d_ready_instances :: int
  d_endpoint :: "string option"
  d_ssh_private_key :: "string option"
  d_port_mappings :: "(int \<times> int) list"
  d_ssh_host_keys :: "string list"
  d_hourly_rate_cents :: int
  d_save_on_exhaustion :: bool
  d_resume_on_topup :: bool
  d_suspended_reason :: "string option"
  d_ready_at :: "time option"
  d_created_by_key :: "ident option"
  d_max_runtime_minutes :: "int option"
  d_suspended_at :: "time option"
  d_deployment_fee_usd :: rat
  d_fee_acknowledged :: bool
  d_warmup_state :: string
  d_last_error :: "string option"
  d_failure_class :: "string option"
  d_last_retry_reason :: "string option"
  d_retry_count :: int
  d_retry_exhausted :: bool
  d_health_check_failures :: int
  d_created_at :: time
  d_updated_at :: time

text \<open>The deployment's table row has four columns its record does not carry: the two millicent
  accumulators, the start of the billable time, and the (opaque) distributed-rank role.\<close>

record deployment_row =
  dr_dep :: deployment
  dr_metering_remainder :: int
  dr_storage_remainder :: int
  dr_billable_since :: "time option"
  dr_multi_node :: "string option"

abbreviation dr_id :: "deployment_row \<Rightarrow> ident" where
  "dr_id r \<equiv> d_id (dr_dep r)"

record placement =
  pl_id :: nat
  pl_deployment_id :: ident
  pl_workload_id :: ident
  pl_hotkey :: ident
  pl_server_id :: "ident option"
  pl_node_id :: ident
  pl_status :: string
  pl_reason :: "string option"
  pl_failure_count :: int
  pl_cooldown_until :: "time option"
  pl_created_at :: time
  pl_updated_at :: time

record lease_history =
  lh_deployment_id :: ident
  lh_workload_id :: ident
  lh_hotkey :: ident
  lh_node_id :: ident
  lh_status :: string
  lh_reason :: "string option"
  lh_observed_at :: time

text \<open>A machine's status report (\<^verbatim>\<open>DeploymentStatusUpdate\<close>).\<close>

record status_update =
  su_deployment_id :: ident
  su_state :: deployment_state
  su_endpoint :: "string option"
  su_ready_instances :: int
  su_ssh_private_key :: "string option"
  su_port_mappings :: "(int \<times> int) list option"
  su_ssh_host_keys :: "string list option"
  su_error :: "string option"
  su_suspended_reason :: "string option"
  su_observed_at :: time

record deleted_snapshot =
  ds_row :: deployment_row
  ds_workload :: workload
  ds_gpu_model :: "string option"
  ds_last_error :: "string option"
  ds_observed_at :: time

datatype event_payload = StatusReport status_update | DeletedWithWorkload deleted_snapshot

record deployment_log_entry =
  de_deployment_id :: ident
  de_payload :: event_payload
  de_observed_at :: time

record account_event =
  ae_user_id :: ident
  ae_type :: string
  ae_deployment_id :: ident
  ae_name :: "string option"
  ae_workload_id :: ident
  ae_state :: deployment_state
  ae_previous_state :: "deployment_state option"
  ae_error :: "string option"
  ae_suspended_reason :: "string option"
  ae_created_at :: time

record usage_record =
  ur_deployment_id :: ident
  ur_workload_id :: ident
  ur_hotkey :: ident
  ur_request_count :: int
  ur_streamed_request_count :: int
  ur_stream_chunk_count :: int
  ur_compute_seconds :: rat
  ur_latency_ms_p95 :: rat
  ur_occupancy_seconds :: rat
  ur_measured_at :: time

record invocation =
  in_invocation_id :: ident
  in_request_id :: "ident option"
  in_deployment_id :: ident
  in_workload_id :: ident
  in_hotkey :: "ident option"
  in_model :: string
  in_api_key_id :: "ident option"
  in_stream :: bool
  in_status :: string
  in_error_class :: "string option"
  in_latency_ms :: rat
  in_created_at :: time

record control_db =
  cd_miners :: "miner list"
  cd_whitelist :: "ident list"
  cd_heartbeats :: "heartbeat list"
  cd_capacities :: "capacity list"
  cd_servers :: "server list"
  cd_inventory :: "inventory list"
  cd_history :: "capacity_history list"
  cd_last_history :: "(ident \<times> (int \<times> int) \<times> time) list"
  cd_reservations :: "reservation list"
  cd_workloads :: "workload list"
  cd_shares :: "ident list"
  cd_deployments :: "deployment_row list"
  cd_assignments :: "lease_assignment list"
  cd_lease_history :: "lease_history list"
  cd_placements :: "placement list"
  cd_placement_seq :: nat
  cd_log :: "deployment_log_entry list"
  cd_account_events :: "account_event list"
  cd_usage :: "usage_record list"
  cd_invocations :: "invocation list"

section \<open>Miners, heartbeats and capacity\<close>

definition upsert_miner :: "miner \<Rightarrow> control_db \<Rightarrow> control_db" where
  "upsert_miner registration db =
     (let row = (case get_row m_hotkey (m_hotkey registration) (cd_miners db) of
                   None \<Rightarrow> registration
                 | Some existing \<Rightarrow> registration\<lparr>m_drained := m_drained existing\<rparr>)
      in db\<lparr>cd_miners := put_row m_hotkey row (cd_miners db)\<rparr>)"

abbreviation get_miner :: "ident \<Rightarrow> control_db \<Rightarrow> miner option" where
  "get_miner hotkey db \<equiv> get_row m_hotkey hotkey (cd_miners db)"

definition is_hotkey_whitelisted :: "ident \<Rightarrow> control_db \<Rightarrow> bool" where
  "is_hotkey_whitelisted hotkey db \<longleftrightarrow> hotkey \<in> set (cd_whitelist db)"

definition set_miner_drained :: "ident \<Rightarrow> bool \<Rightarrow> control_db \<Rightarrow> miner option \<times> control_db" where
  "set_miner_drained hotkey drained db =
     (case get_miner hotkey db of
        None \<Rightarrow> (None, db)
      | Some row \<Rightarrow> (Some (row\<lparr>m_drained := drained\<rparr>),
                    db\<lparr>cd_miners := put_row m_hotkey (row\<lparr>m_drained := drained\<rparr>) (cd_miners db)\<rparr>))"

definition upsert_heartbeat :: "heartbeat \<Rightarrow> control_db \<Rightarrow> control_db" where
  "upsert_heartbeat heartbeat db = db\<lparr>cd_heartbeats := put_row hb_hotkey heartbeat (cd_heartbeats db)\<rparr>"

abbreviation get_heartbeat :: "ident \<Rightarrow> control_db \<Rightarrow> heartbeat option" where
  "get_heartbeat hotkey db \<equiv> get_row hb_hotkey hotkey (cd_heartbeats db)"

definition normalize_node :: "ident \<Rightarrow> node \<Rightarrow> time \<Rightarrow> node" where
  "normalize_node hotkey node observed_at =
     (let server_id = (if truthy (n_server_id node) then the (n_server_id node) else hotkey @ ''-server'');
          hostname = (if truthy (n_hostname node) then the (n_hostname node)
                      else server_id @ ''.greencompute.local'')
      in node\<lparr>n_hotkey := hotkey, n_server_id := Some server_id, n_hostname := Some hostname,
              n_observed_at := Some observed_at\<rparr>)"

definition HISTORY_INTERVAL :: time where
  "HISTORY_INTERVAL = seconds 600"

definition history_due :: "ident \<Rightarrow> int \<Rightarrow> int \<Rightarrow> time \<Rightarrow> control_db \<Rightarrow> bool \<times> control_db" where
  "history_due nid available gpus observed_at db =
     (let stamp = (True, db\<lparr>cd_last_history := (nid, (available, gpus), observed_at) #
                             filter (\<lambda>e. fst e \<noteq> nid) (cd_last_history db)\<rparr>)
      in case map_of (cd_last_history db) nid of
           None \<Rightarrow> stamp
         | Some (counts, seen) \<Rightarrow>
             if counts = (available, gpus) \<and> observed_at - seen < HISTORY_INTERVAL then (False, db) else stamp)"

text \<open>One posted node: its server, its inventory row and, when due, a history row.\<close>

definition record_node :: "ident \<Rightarrow> time \<Rightarrow> node \<Rightarrow> control_db \<Rightarrow> control_db" where
  "record_node hotkey observed_at node db =
     (let server_id = (if truthy (n_server_id node) then the (n_server_id node) else hotkey @ ''-server'');
          miner = get_miner hotkey db;
          srv = \<lparr>sv_id = server_id, sv_hotkey = hotkey, sv_hostname = n_hostname node,
                 sv_api_base_url = map_option m_api_base_url miner,
                 sv_validator_url = map_option m_validator_url miner, sv_observed_at = observed_at\<rparr>;
          row = \<lparr>ni_node_id = n_node_id node, ni_hotkey = hotkey, ni_server_id = Some server_id,
                 ni_payload = node, ni_observed_at = observed_at\<rparr>;
          db1 = db\<lparr>cd_servers := put_row sv_id srv (cd_servers db),
                   cd_inventory := put_row ni_node_id row (cd_inventory db)\<rparr>;
          (due, db2) = history_due (n_node_id node) (n_available_gpus node) (n_gpu_count node) observed_at db1
      in if due then db2\<lparr>cd_history := cd_history db2 @
              [\<lparr>ch_hotkey = hotkey, ch_server_id = server_id, ch_node_id = n_node_id node,
                ch_available_gpus = n_available_gpus node, ch_total_gpus = n_gpu_count node,
                ch_observed_at = observed_at\<rparr>]\<rparr>
         else db2)"

text \<open>\<open>timeout\<close> is \<^verbatim>\<open>settings.node_inventory_timeout_seconds\<close>.\<close>

definition upsert_capacity :: "int \<Rightarrow> capacity \<Rightarrow> control_db \<Rightarrow> control_db" where
  "upsert_capacity timeout update db =
     (let hotkey = cap_hotkey update;
          stamp = cap_observed_at update;
          normalized = map (\<lambda>n. normalize_node hotkey n stamp) (cap_nodes update);
          existing = (case get_row cap_hotkey hotkey (cd_capacities db) of
                        None \<Rightarrow> [] | Some row \<Rightarrow> cap_nodes row);
          incoming_ids = map n_node_id normalized;
          stale_cutoff = stamp - seconds timeout;
          preserved = filter (\<lambda>prev. n_node_id prev \<notin> set incoming_ids \<and>
                                      (case n_observed_at prev of None \<Rightarrow> True | Some t \<Rightarrow> \<not> t < stale_cutoff))
                        existing;
          row = \<lparr>cap_hotkey = hotkey, cap_nodes = preserved @ normalized, cap_observed_at = stamp\<rparr>;
          db1 = db\<lparr>cd_capacities := put_row cap_hotkey row (cd_capacities db)\<rparr>
      in fold (record_node hotkey stamp) normalized db1)"

definition prune_capacity_history :: "time \<Rightarrow> nat \<Rightarrow> control_db \<Rightarrow> nat \<times> control_db" where
  "prune_capacity_history older_than batch db =
     (let old = (\<lambda>h. ch_observed_at h < older_than);
          kept = (\<lambda>(n, acc) h. if old h \<and> n < batch then (n + 1, acc) else (n, acc @ [h]));
          (n, rows) = foldl kept (0, []) (cd_history db)
      in (n, db\<lparr>cd_history := rows\<rparr>))"

definition get_capacity :: "ident \<Rightarrow> control_db \<Rightarrow> capacity option" where
  "get_capacity hotkey db = get_row cap_hotkey hotkey (cd_capacities db)"

definition adjust_node_capacity :: "int \<Rightarrow> ident \<Rightarrow> ident \<Rightarrow> int \<Rightarrow> control_db \<Rightarrow> control_db" where
  "adjust_node_capacity timeout hotkey nid delta_gpus db =
     (case get_capacity hotkey db of
        None \<Rightarrow> db
      | Some update \<Rightarrow>
          upsert_capacity timeout
            (update\<lparr>cap_nodes := modify_row n_node_id nid
                      (\<lambda>n. n\<lparr>n_available_gpus := n_available_gpus n + delta_gpus\<rparr>) (cap_nodes update)\<rparr>) db)"

definition list_servers :: "control_db \<Rightarrow> server list" where
  "list_servers db = sort_key (\<lambda>s. - sv_observed_at s) (sort_key sv_id (cd_servers db))"

definition get_server_by_hotkey :: "ident \<Rightarrow> control_db \<Rightarrow> server option" where
  "get_server_by_hotkey hotkey db =
     (case sort_key (\<lambda>s. - sv_observed_at s) (filter (\<lambda>s. sv_hotkey s = hotkey) (cd_servers db)) of
        [] \<Rightarrow> None | s # _ \<Rightarrow> Some s)"

definition list_nodes :: "control_db \<Rightarrow> node list" where
  "list_nodes db = map ni_payload (sort_key (\<lambda>r. - ni_observed_at r) (cd_inventory db))"

section \<open>GPU reservations\<close>

definition reserve_gpus ::
  "time \<Rightarrow> ident \<Rightarrow> ident \<Rightarrow> ident \<Rightarrow> int \<Rightarrow> int option \<Rightarrow> control_db \<Rightarrow> bool \<times> control_db" where
  "reserve_gpus now deployment_id hotkey nid gpu_count capacity_gpus db =
     (let already = sum_rows (\<lambda>r. rs_status r = ResActive \<and> rs_node_id r = nid \<and> rs_deployment_id r \<noteq> deployment_id)
                      rs_gpu_count (cd_reservations db)
      in if (case capacity_gpus of None \<Rightarrow> False | Some c \<Rightarrow> c < already + gpu_count) then (False, db)
         else let created = (case get_row rs_deployment_id deployment_id (cd_reservations db) of
                               None \<Rightarrow> now | Some row \<Rightarrow> rs_created_at row);
                  row = \<lparr>rs_deployment_id = deployment_id, rs_hotkey = hotkey, rs_node_id = nid,
                         rs_gpu_count = gpu_count, rs_status = ResActive, rs_created_at = created,
                         rs_released_at = None\<rparr>
              in (True, db\<lparr>cd_reservations := put_row rs_deployment_id row (cd_reservations db)\<rparr>))"

definition release_row :: "time \<Rightarrow> reservation \<Rightarrow> reservation" where
  "release_row now row = row\<lparr>rs_status := ResReleased, rs_released_at := Some now\<rparr>"

definition release_gpu_reservation :: "time \<Rightarrow> ident \<Rightarrow> control_db \<Rightarrow> bool \<times> control_db" where
  "release_gpu_reservation now deployment_id db =
     (case find (\<lambda>r. rs_deployment_id r = deployment_id \<and> rs_status r = ResActive) (cd_reservations db) of
        None \<Rightarrow> (False, db)
      | Some row \<Rightarrow>
          (True, db\<lparr>cd_reservations := put_row rs_deployment_id (release_row now row) (cd_reservations db)\<rparr>))"

abbreviation get_deployment_row :: "ident \<Rightarrow> control_db \<Rightarrow> deployment_row option" where
  "get_deployment_row did db \<equiv> get_row dr_id did (cd_deployments db)"

definition orphaned :: "control_db \<Rightarrow> reservation \<Rightarrow> bool" where
  "orphaned db r \<longleftrightarrow> rs_status r = ResActive \<and>
     (case get_deployment_row (rs_deployment_id r) db of
        None \<Rightarrow> True | Some dep \<Rightarrow> d_state (dr_dep dep) \<in> {TERMINATED, FAILED})"

definition release_orphaned_reservations :: "time \<Rightarrow> control_db \<Rightarrow> nat \<times> control_db" where
  "release_orphaned_reservations now db =
     (length (filter (orphaned db) (cd_reservations db)),
      db\<lparr>cd_reservations := map (\<lambda>r. if orphaned db r then release_row now r else r) (cd_reservations db)\<rparr>)"

definition get_active_reservation :: "ident \<Rightarrow> control_db \<Rightarrow> reservation option" where
  "get_active_reservation deployment_id db =
     find (\<lambda>r. rs_deployment_id r = deployment_id \<and> rs_status r = ResActive) (cd_reservations db)"

definition reserved_gpus_for_node :: "ident \<Rightarrow> control_db \<Rightarrow> int" where
  "reserved_gpus_for_node nid db =
     sum_rows (\<lambda>r. rs_status r = ResActive \<and> rs_node_id r = nid) rs_gpu_count (cd_reservations db)"

text \<open>\<^verbatim>\<open>GROUP BY node_id\<close>: one entry per node with an active reservation.\<close>

definition reserved_gpus_by_node :: "control_db \<Rightarrow> reserved_map" where
  "reserved_gpus_by_node db =
     map (\<lambda>nid. (nid, reserved_gpus_for_node nid db))
       (remdups (map rs_node_id (filter (\<lambda>r. rs_status r = ResActive) (cd_reservations db))))"

section \<open>Workloads\<close>

definition upsert_workload :: "workload \<Rightarrow> control_db \<Rightarrow> control_db" where
  "upsert_workload workload db = db\<lparr>cd_workloads := put_row wl_id workload (cd_workloads db)\<rparr>"

abbreviation get_workload :: "ident \<Rightarrow> control_db \<Rightarrow> workload option" where
  "get_workload wid db \<equiv> get_row wl_id wid (cd_workloads db)"

definition get_workloads :: "ident list \<Rightarrow> control_db \<Rightarrow> (ident \<times> workload) list" where
  "get_workloads ids db =
     map (\<lambda>w. (wl_id w, w)) (filter (\<lambda>w. wl_id w \<noteq> [] \<and> wl_id w \<in> set ids) (cd_workloads db))"

definition find_workload_by_name :: "string \<Rightarrow> control_db \<Rightarrow> workload option" where
  "find_workload_by_name name db = find (\<lambda>w. wl_name w = name) (cd_workloads db)"

definition list_workloads_by_name :: "string \<Rightarrow> control_db \<Rightarrow> workload list" where
  "list_workloads_by_name name db = sort_key wl_created_at (filter (\<lambda>w. wl_name w = name) (cd_workloads db))"

definition find_workload_by_alias :: "string \<Rightarrow> control_db \<Rightarrow> workload option" where
  "find_workload_by_alias alias db = find (\<lambda>w. wl_alias w = Some alias) (cd_workloads db)"

definition find_workload_by_ingress_host :: "string \<Rightarrow> control_db \<Rightarrow> workload option" where
  "find_workload_by_ingress_host host db = find (\<lambda>w. wl_ingress_host w = Some host) (cd_workloads db)"

text \<open>The card a deleted deployment ran on: its node's, else the first it allowed.\<close>

definition deleted_entry :: "control_db \<Rightarrow> time \<Rightarrow> workload \<Rightarrow> deployment_row \<Rightarrow> deployment_log_entry" where
  "deleted_entry db now workload row =
     (let ran_on = (case d_node_id (dr_dep row) of
                      None \<Rightarrow> None
                    | Some nid \<Rightarrow> map_option n_gpu_model (find (\<lambda>n. n_node_id n = nid) (rev (list_nodes db))));
          allowed = rq_supported_gpu_models (wl_requirements workload);
          last_error = (case d_last_error (dr_dep row) of None \<Rightarrow> [] | Some e \<Rightarrow> take 2000 e)
      in \<lparr>de_deployment_id = dr_id row,
          de_payload = DeletedWithWorkload
            \<lparr>ds_row = row, ds_workload = workload,
             ds_gpu_model = (if truthy ran_on then ran_on
                             else (case allowed of [] \<Rightarrow> None | m # _ \<Rightarrow> Some m)),
             ds_last_error = (if last_error = [] then None else Some last_error),
             ds_observed_at = now\<rparr>,
          de_observed_at = now\<rparr>)"

definition delete_workload :: "time \<Rightarrow> ident \<Rightarrow> control_db \<Rightarrow> workload option \<times> control_db" where
  "delete_workload now workload_id db =
     (case get_workload workload_id db of
        None \<Rightarrow> (None, db)
      | Some workload \<Rightarrow>
          let deps = filter (\<lambda>r. d_workload_id (dr_dep r) = workload_id) (cd_deployments db);
              gone = (\<lambda>did. did \<in> set (map dr_id deps))
          in (Some workload,
              db\<lparr>cd_assignments := filter (\<lambda>a. \<not> gone (la_deployment_id a)) (cd_assignments db),
                 cd_placements := filter (\<lambda>p. \<not> gone (pl_deployment_id p)) (cd_placements db),
                 cd_reservations := filter (\<lambda>r. \<not> gone (rs_deployment_id r)) (cd_reservations db),
                 cd_log := cd_log db @ map (deleted_entry db now workload) deps,
                 cd_deployments := filter (\<lambda>r. d_workload_id (dr_dep r) \<noteq> workload_id) (cd_deployments db),
                 cd_shares := filter (\<lambda>w. w \<noteq> workload_id) (cd_shares db),
                 cd_workloads := delete_row wl_id workload_id (cd_workloads db)\<rparr>))"

section \<open>Deployments\<close>

definition insert_deployment :: "deployment \<Rightarrow> control_db \<Rightarrow> control_db" where
  "insert_deployment deployment db =
     db\<lparr>cd_deployments := cd_deployments db @
          [\<lparr>dr_dep = deployment, dr_metering_remainder = 0, dr_storage_remainder = 0,
            dr_billable_since = None, dr_multi_node = None\<rparr>]\<rparr>"

definition get_deployment :: "ident \<Rightarrow> control_db \<Rightarrow> deployment option" where
  "get_deployment did db = map_option dr_dep (get_deployment_row did db)"

definition get_deployments :: "ident list \<Rightarrow> control_db \<Rightarrow> (ident \<times> deployment) list" where
  "get_deployments ids db =
     map (\<lambda>r. (dr_id r, dr_dep r)) (filter (\<lambda>r. dr_id r \<in> set ids) (cd_deployments db))"

definition event_states :: "deployment_state list" where
  "event_states = [READY, FAILED, SUSPENDED, TERMINATED]"

definition deployment_event :: "time \<Rightarrow> deployment \<Rightarrow> deployment_state option \<Rightarrow> account_event option" where
  "deployment_event now row previous =
     (let state = d_state row
      in if \<not> truthy (d_owner row) \<or> previous = Some state \<or> state \<notin> set event_states then None
         else let error = (if state \<in> {FAILED, SUSPENDED, TERMINATED} then d_last_error row else None)
              in Some \<lparr>ae_user_id = the (d_owner row), ae_type = ''deployment.'' @ state_value state,
                       ae_deployment_id = d_id row, ae_name = d_name row, ae_workload_id = d_workload_id row,
                       ae_state = state, ae_previous_state = previous,
                       ae_error = (if truthy error then map_option (take 1000) error else None),
                       ae_suspended_reason = (if state = SUSPENDED then d_suspended_reason row else None),
                       ae_created_at = now\<rparr>)"

definition add_account_event :: "account_event option \<Rightarrow> control_db \<Rightarrow> control_db" where
  "add_account_event event db =
     (case event of None \<Rightarrow> db | Some e \<Rightarrow> db\<lparr>cd_account_events := cd_account_events db @ [e]\<rparr>)"

definition save_deployment :: "time \<Rightarrow> deployment \<Rightarrow> control_db \<Rightarrow> control_db" where
  "save_deployment now deployment db =
     (let old = get_deployment_row (d_id deployment) db;
          row = (case old of
                   None \<Rightarrow> \<lparr>dr_dep = deployment, dr_metering_remainder = 0, dr_storage_remainder = 0,
                           dr_billable_since = None, dr_multi_node = None\<rparr>
                 | Some r \<Rightarrow> r\<lparr>dr_dep := deployment\<lparr>d_workload_id := d_workload_id (dr_dep r)\<rparr>\<rparr>)
      in add_account_event (deployment_event now (dr_dep row) (map_option (\<lambda>r. d_state (dr_dep r)) old))
           (db\<lparr>cd_deployments := put_row dr_id row (cd_deployments db)\<rparr>))"

definition list_deployments :: "control_db \<Rightarrow> deployment list" where
  "list_deployments db = map dr_dep (cd_deployments db)"

definition list_deployments_for_workload :: "ident \<Rightarrow> control_db \<Rightarrow> deployment list" where
  "list_deployments_for_workload wid db = filter (\<lambda>d. d_workload_id d = wid) (list_deployments db)"

definition list_deployments_by_state :: "deployment_state \<Rightarrow> control_db \<Rightarrow> deployment list" where
  "list_deployments_by_state st db = filter (\<lambda>d. d_state d = st) (list_deployments db)"

definition ready_rows :: "ident \<Rightarrow> control_db \<Rightarrow> deployment list" where
  "ready_rows wid db = filter (\<lambda>d. d_workload_id d = wid \<and> d_state d = READY) (list_deployments db)"

subsection \<open>Millicent accumulators and the billable clock\<close>

definition accrue_metering :: "ident \<Rightarrow> int \<Rightarrow> control_db \<Rightarrow> (int \<times> int) \<times> control_db" where
  "accrue_metering did add_mcents db =
     (case get_deployment_row did db of
        None \<Rightarrow> ((0, 0), db)
      | Some row \<Rightarrow>
          let total_mc = dr_metering_remainder row + add_mcents;
              whole_cents = total_mc div 1000;
              remainder = total_mc - whole_cents * 1000
          in ((whole_cents, remainder),
              db\<lparr>cd_deployments := put_row dr_id (row\<lparr>dr_metering_remainder := remainder\<rparr>) (cd_deployments db)\<rparr>))"

definition accrue_storage :: "ident \<Rightarrow> int \<Rightarrow> control_db \<Rightarrow> int \<times> control_db" where
  "accrue_storage did add_mcents db =
     (case get_deployment_row did db of
        None \<Rightarrow> (0, db)
      | Some row \<Rightarrow>
          let total_mc = dr_storage_remainder row + add_mcents;
              whole_cents = total_mc div 1000
          in (whole_cents,
              db\<lparr>cd_deployments := put_row dr_id (row\<lparr>dr_storage_remainder := total_mc - whole_cents * 1000\<rparr>)
                                    (cd_deployments db)\<rparr>))"

definition return_metering_mcents :: "ident \<Rightarrow> int \<Rightarrow> control_db \<Rightarrow> int \<times> control_db" where
  "return_metering_mcents did mcents db =
     (case get_deployment_row did db of
        None \<Rightarrow> (0, db)
      | Some row \<Rightarrow>
          if mcents \<le> 0 then (dr_metering_remainder row, db)
          else let remainder = dr_metering_remainder row + mcents
               in (remainder,
                   db\<lparr>cd_deployments := put_row dr_id (row\<lparr>dr_metering_remainder := remainder\<rparr>)
                                         (cd_deployments db)\<rparr>))"

definition get_billable_since :: "ident \<Rightarrow> control_db \<Rightarrow> time option" where
  "get_billable_since did db = Option.bind (get_deployment_row did db) dr_billable_since"

definition set_billable_since :: "ident \<Rightarrow> time \<Rightarrow> control_db \<Rightarrow> control_db" where
  "set_billable_since did t db =
     (case get_deployment_row did db of
        None \<Rightarrow> db
      | Some row \<Rightarrow>
          db\<lparr>cd_deployments := put_row dr_id (row\<lparr>dr_billable_since := Some t\<rparr>) (cd_deployments db)\<rparr>)"

section \<open>Leases and placements\<close>

definition resolve_server_id :: "ident \<Rightarrow> ident \<Rightarrow> control_db \<Rightarrow> ident option" where
  "resolve_server_id hotkey nid db =
     (case get_row ni_node_id nid (cd_inventory db) of
        Some row \<Rightarrow> ni_server_id row
      | None \<Rightarrow> map_option sv_id (find (\<lambda>s. sv_hotkey s = hotkey) (cd_servers db)))"

definition save_assignment :: "lease_assignment \<Rightarrow> control_db \<Rightarrow> control_db" where
  "save_assignment assignment db =
     (let row = (case get_row la_deployment_id (la_deployment_id assignment) (cd_assignments db) of
                   None \<Rightarrow> assignment
                 | Some old \<Rightarrow> assignment\<lparr>la_assignment_id := la_assignment_id old\<rparr>);
          history = \<lparr>lh_deployment_id = la_deployment_id assignment, lh_workload_id = la_workload_id assignment,
                     lh_hotkey = la_hotkey assignment, lh_node_id = la_node_id assignment,
                     lh_status = la_status assignment, lh_reason = None,
                     lh_observed_at = la_assigned_at assignment\<rparr>;
          placement = \<lparr>pl_id = cd_placement_seq db, pl_deployment_id = la_deployment_id assignment,
                       pl_workload_id = la_workload_id assignment, pl_hotkey = la_hotkey assignment,
                       pl_server_id = resolve_server_id (la_hotkey assignment) (la_node_id assignment) db,
                       pl_node_id = la_node_id assignment, pl_status = la_status assignment, pl_reason = None,
                       pl_failure_count = 0, pl_cooldown_until = None,
                       pl_created_at = la_assigned_at assignment, pl_updated_at = la_assigned_at assignment\<rparr>
      in db\<lparr>cd_assignments := put_row la_deployment_id row (cd_assignments db),
            cd_lease_history := cd_lease_history db @ [history],
            cd_placements := cd_placements db @ [placement],
            cd_placement_seq := Suc (cd_placement_seq db)\<rparr>)"

text \<open>The left join with the deployment that tells a machine its role and name; \<open>list_assignments\<close>
  is the lease part of it.\<close>

definition list_assignments :: "ident option \<Rightarrow> string list \<Rightarrow> control_db \<Rightarrow> lease_assignment list" where
  "list_assignments hotkey statuses db =
     filter (\<lambda>a. (truthy hotkey \<longrightarrow> Some (la_hotkey a) = hotkey) \<and>
                 (statuses \<noteq> [] \<longrightarrow> la_status a \<in> set statuses)) (cd_assignments db)"

definition joined_assignments ::
  "ident option \<Rightarrow> string list \<Rightarrow> control_db \<Rightarrow> (lease_assignment \<times> string option \<times> string option) list" where
  "joined_assignments hotkey statuses db =
     map (\<lambda>a. case get_deployment_row (la_deployment_id a) db of
                 None \<Rightarrow> (a, None, None)
               | Some row \<Rightarrow> (a, dr_multi_node row, d_name (dr_dep row)))
       (list_assignments hotkey statuses db)"

definition latest_placement :: "ident \<Rightarrow> control_db \<Rightarrow> placement option" where
  "latest_placement did db =
     (case sort_key (\<lambda>p. - pl_created_at p) (filter (\<lambda>p. pl_deployment_id p = did) (cd_placements db)) of
        [] \<Rightarrow> None | p # _ \<Rightarrow> Some p)"

definition update_assignment_status ::
  "time \<Rightarrow> ident \<Rightarrow> string \<Rightarrow> string option \<Rightarrow> control_db \<Rightarrow> lease_assignment option \<times> control_db" where
  "update_assignment_status now did status reason db =
     (case get_row la_deployment_id did (cd_assignments db) of
        None \<Rightarrow> (None, db)
      | Some row \<Rightarrow>
          let row' = row\<lparr>la_status := status\<rparr>;
              placements = (case latest_placement did db of
                  None \<Rightarrow> cd_placements db
                | Some p \<Rightarrow> put_row pl_id (p\<lparr>pl_status := status, pl_reason := reason, pl_updated_at := now\<rparr>)
                              (cd_placements db));
              history = \<lparr>lh_deployment_id = la_deployment_id row, lh_workload_id = la_workload_id row,
                         lh_hotkey = la_hotkey row, lh_node_id = la_node_id row, lh_status = status,
                         lh_reason = reason, lh_observed_at = now\<rparr>
          in (Some row',
              db\<lparr>cd_assignments := put_row la_deployment_id row' (cd_assignments db),
                 cd_placements := placements,
                 cd_lease_history := cd_lease_history db @ [history]\<rparr>))"

definition update_placement_status ::
  "time \<Rightarrow> ident \<Rightarrow> string \<Rightarrow> string option \<Rightarrow> bool \<Rightarrow> time option \<Rightarrow> control_db
     \<Rightarrow> placement option \<times> control_db" where
  "update_placement_status now did status reason increment_failure cooldown_until db =
     (case latest_placement did db of
        None \<Rightarrow> (None, db)
      | Some p \<Rightarrow>
          let p' = p\<lparr>pl_status := status, pl_reason := reason,
                     pl_failure_count := pl_failure_count p + (if increment_failure then 1 else 0),
                     pl_cooldown_until := (case cooldown_until of None \<Rightarrow> pl_cooldown_until p | Some t \<Rightarrow> Some t),
                     pl_updated_at := now\<rparr>
          in (Some p', db\<lparr>cd_placements := put_row pl_id p' (cd_placements db)\<rparr>))"

definition list_placements :: "nat option \<Rightarrow> control_db \<Rightarrow> placement list" where
  "list_placements limit db =
     (let rows = sort_key (\<lambda>p. - pl_updated_at p) (sort_key (\<lambda>p. - pl_created_at p) (cd_placements db))
      in case limit of None \<Rightarrow> rows | Some n \<Rightarrow> take n rows)"

definition list_lease_history :: "nat option \<Rightarrow> control_db \<Rightarrow> lease_history list" where
  "list_lease_history limit db =
     (let rows = sort_key (\<lambda>h. - lh_observed_at h) (cd_lease_history db)
      in case limit of None \<Rightarrow> rows | Some n \<Rightarrow> take n rows)"

section \<open>Usage, invocations and the deployment log\<close>

definition add_usage_record :: "usage_record \<Rightarrow> control_db \<Rightarrow> control_db" where
  "add_usage_record record db = db\<lparr>cd_usage := cd_usage db @ [record]\<rparr>"

definition add_invocation_record :: "invocation \<Rightarrow> control_db \<Rightarrow> control_db" where
  "add_invocation_record record db = db\<lparr>cd_invocations := cd_invocations db @ [record]\<rparr>"

definition list_invocation_records :: "nat option \<Rightarrow> control_db \<Rightarrow> invocation list" where
  "list_invocation_records limit db =
     (let rows = sort_key (\<lambda>r. - in_created_at r) (cd_invocations db)
      in case limit of None \<Rightarrow> rows | Some n \<Rightarrow> take n rows)"

definition last_invocation_at :: "ident \<Rightarrow> control_db \<Rightarrow> time option" where
  "last_invocation_at did db =
     (case sort_key (\<lambda>r. - in_created_at r) (filter (\<lambda>r. in_deployment_id r = did) (cd_invocations db)) of
        [] \<Rightarrow> None | r # _ \<Rightarrow> Some (in_created_at r))"

definition add_deployment_event :: "status_update \<Rightarrow> control_db \<Rightarrow> control_db" where
  "add_deployment_event event db =
     db\<lparr>cd_log := cd_log db @ [\<lparr>de_deployment_id = su_deployment_id event, de_payload = StatusReport event,
                                  de_observed_at = su_observed_at event\<rparr>]\<rparr>"

definition list_deployment_events :: "ident option \<Rightarrow> nat \<Rightarrow> control_db \<Rightarrow> event_payload list" where
  "list_deployment_events deployment_id limit db =
     (if truthy deployment_id
      then map de_payload (sort_key de_observed_at
             (filter (\<lambda>e. Some (de_deployment_id e) = deployment_id) (cd_log db)))
      else map de_payload (rev (take limit (rev (cd_log db)))))"

section \<open>Lemmas: which tables an operation touches\<close>

lemma reservations_frame [simp]:
  "cd_reservations (upsert_miner reg db) = cd_reservations db"
  "cd_reservations (snd (set_miner_drained hk b db)) = cd_reservations db"
  "cd_reservations (upsert_heartbeat hb db) = cd_reservations db"
  "cd_reservations (upsert_workload w db) = cd_reservations db"
  "cd_reservations (insert_deployment dep db) = cd_reservations db"
  "cd_reservations (add_account_event e db) = cd_reservations db"
  "cd_reservations (save_deployment now dep db) = cd_reservations db"
  "cd_reservations (snd (accrue_metering did m db)) = cd_reservations db"
  "cd_reservations (snd (accrue_storage did m db)) = cd_reservations db"
  "cd_reservations (snd (return_metering_mcents did m db)) = cd_reservations db"
  "cd_reservations (set_billable_since did t db) = cd_reservations db"
  "cd_reservations (save_assignment a db) = cd_reservations db"
  "cd_reservations (snd (update_assignment_status now did st r db)) = cd_reservations db"
  "cd_reservations (snd (update_placement_status now did st r i c db)) = cd_reservations db"
  "cd_reservations (add_usage_record ur db) = cd_reservations db"
  "cd_reservations (add_invocation_record ir db) = cd_reservations db"
  "cd_reservations (add_deployment_event su db) = cd_reservations db"
  by (simp_all add: upsert_miner_def set_miner_drained_def upsert_heartbeat_def upsert_workload_def
      insert_deployment_def add_account_event_def save_deployment_def accrue_metering_def accrue_storage_def
      return_metering_mcents_def set_billable_since_def save_assignment_def update_assignment_status_def
      update_placement_status_def add_usage_record_def add_invocation_record_def add_deployment_event_def Let_def
      split: option.splits)

lemma history_due_frame [simp]:
  "cd_reservations (snd (history_due nid a g t db)) = cd_reservations db"
  "cd_inventory (snd (history_due nid a g t db)) = cd_inventory db"
  "cd_deployments (snd (history_due nid a g t db)) = cd_deployments db"
  "cd_assignments (snd (history_due nid a g t db)) = cd_assignments db"
  "cd_workloads (snd (history_due nid a g t db)) = cd_workloads db"
  "cd_placements (snd (history_due nid a g t db)) = cd_placements db"
  "cd_heartbeats (snd (history_due nid a g t db)) = cd_heartbeats db"
  "cd_capacities (snd (history_due nid a g t db)) = cd_capacities db"
  by (simp_all add: history_due_def Let_def split: option.splits prod.splits)

lemma record_node_frame [simp]:
  "cd_reservations (record_node hk t n db) = cd_reservations db"
  "cd_deployments (record_node hk t n db) = cd_deployments db"
  "cd_assignments (record_node hk t n db) = cd_assignments db"
  "cd_workloads (record_node hk t n db) = cd_workloads db"
  "cd_placements (record_node hk t n db) = cd_placements db"
  "cd_heartbeats (record_node hk t n db) = cd_heartbeats db"
  "cd_capacities (record_node hk t n db) = cd_capacities db"
  by (simp_all add: record_node_def Let_def case_prod_unfold)

lemma fold_record_node_frame [simp]:
  "cd_reservations (fold (record_node hk t) ns db) = cd_reservations db"
  "cd_deployments (fold (record_node hk t) ns db) = cd_deployments db"
  "cd_assignments (fold (record_node hk t) ns db) = cd_assignments db"
  "cd_workloads (fold (record_node hk t) ns db) = cd_workloads db"
  "cd_placements (fold (record_node hk t) ns db) = cd_placements db"
  "cd_heartbeats (fold (record_node hk t) ns db) = cd_heartbeats db"
  "cd_capacities (fold (record_node hk t) ns db) = cd_capacities db"
  by (induction ns arbitrary: db) simp_all

lemma capacity_frame [simp]:
  "cd_reservations (upsert_capacity tmo u db) = cd_reservations db"
  "cd_deployments (upsert_capacity tmo u db) = cd_deployments db"
  "cd_assignments (upsert_capacity tmo u db) = cd_assignments db"
  "cd_workloads (upsert_capacity tmo u db) = cd_workloads db"
  "cd_placements (upsert_capacity tmo u db) = cd_placements db"
  "cd_heartbeats (upsert_capacity tmo u db) = cd_heartbeats db"
  "cd_reservations (adjust_node_capacity tmo hk nid dg db) = cd_reservations db"
  "cd_deployments (adjust_node_capacity tmo hk nid dg db) = cd_deployments db"
  "cd_assignments (adjust_node_capacity tmo hk nid dg db) = cd_assignments db"
  "cd_workloads (adjust_node_capacity tmo hk nid dg db) = cd_workloads db"
  "cd_placements (adjust_node_capacity tmo hk nid dg db) = cd_placements db"
  "cd_heartbeats (adjust_node_capacity tmo hk nid dg db) = cd_heartbeats db"
  by (simp_all add: upsert_capacity_def adjust_node_capacity_def Let_def split: option.splits)

section \<open>The reservation ledger\<close>

text \<open>
  What the scheduler relies on: a capacity-checked reservation that is granted fits, a refused
  one changes nothing, an unchecked one adds at most what it asks for, reserving on one node
  never adds to another, and releasing never adds.  The client fact: under any series of
  checked reservations and releases no node is ever over its capacity.
\<close>

locale gpu_ledger =
  fixes wf :: "'s \<Rightarrow> bool"
    and reserved :: "ident \<Rightarrow> 's \<Rightarrow> int"
    and reserve :: "time \<Rightarrow> ident \<Rightarrow> ident \<Rightarrow> ident \<Rightarrow> int \<Rightarrow> int option \<Rightarrow> 's \<Rightarrow> bool \<times> 's"
    and release :: "time \<Rightarrow> ident \<Rightarrow> 's \<Rightarrow> bool \<times> 's"
  assumes reserve_wf: "wf s \<Longrightarrow> 0 \<le> g \<Longrightarrow> wf (snd (reserve now d hk n g c s))"
    and release_wf: "wf s \<Longrightarrow> wf (snd (release now d s))"
    and reserve_checked: "wf s \<Longrightarrow> reserve now d hk n g (Some gpus) s = (True, s') \<Longrightarrow> reserved n s' \<le> gpus"
    and reserve_refused: "reserve now d hk n g c s = (False, s') \<Longrightarrow> s' = s"
    and reserve_bounded: "wf s \<Longrightarrow> 0 \<le> g \<Longrightarrow> reserved n (snd (reserve now d hk n g c s)) \<le> reserved n s + g"
    and reserve_other: "wf s \<Longrightarrow> m \<noteq> n \<Longrightarrow> reserved m (snd (reserve now d hk n g c s)) \<le> reserved m s"
    and release_le: "wf s \<Longrightarrow> reserved m (snd (release now d s)) \<le> reserved m s"
begin

definition fits :: "(ident \<Rightarrow> int) \<Rightarrow> 's \<Rightarrow> bool" where
  "fits limit s \<longleftrightarrow> wf s \<and> (\<forall>n. reserved n s \<le> limit n)"

lemma reserve_fits:
  assumes "fits limit s" and "0 \<le> g" and "c = limit n"
  shows "fits limit (snd (reserve now d hk n g (Some c) s))"
proof (cases "reserve now d hk n g (Some c) s")
  case (Pair ok s')
  show ?thesis
  proof (cases ok)
    case True
    have "reserved m s' \<le> limit m" for m
    proof (cases "m = n")
      case True
      with \<open>ok\<close> assms Pair reserve_checked [of s now d hk n g c s'] show ?thesis by (simp add: fits_def)
    next
      case False
      with assms Pair reserve_other [of s m n now d hk g "Some c"] show ?thesis
        by (auto simp: fits_def intro: order_trans)
    qed
    with assms Pair reserve_wf [of s g now d hk n "Some c"] show ?thesis by (simp add: fits_def)
  next
    case False
    with Pair have "s' = s" using reserve_refused [of now d hk n g "Some c" s s'] by simp
    with Pair assms show ?thesis by simp
  qed
qed

lemma reserve_unchecked_fits:
  assumes "fits limit s" and "0 \<le> g" and "reserved n s + g \<le> limit n"
  shows "fits limit (snd (reserve now d hk n g c s))"
proof -
  have "reserved m (snd (reserve now d hk n g c s)) \<le> limit m" for m
    using assms reserve_bounded [of s g n now d hk c] reserve_other [of s m n now d hk g c]
    by (cases "m = n") (auto simp: fits_def intro: order_trans)
  with assms reserve_wf [of s g now d hk n c] show ?thesis by (simp add: fits_def)
qed

lemma release_fits: "fits limit s \<Longrightarrow> fits limit (snd (release now d s))"
  using release_le [of s _ now d] release_wf [of s now d] by (auto simp: fits_def intro: order_trans)

end

definition ledger_wf :: "control_db \<Rightarrow> bool" where
  "ledger_wf db \<longleftrightarrow> distinct_keys rs_deployment_id (cd_reservations db) \<and>
     (\<forall>r \<in> set (cd_reservations db). 0 \<le> rs_gpu_count r)"

lemma release_row_simps [simp]:
  "rs_deployment_id (release_row now r) = rs_deployment_id r" "rs_gpu_count (release_row now r) = rs_gpu_count r"
  "rs_node_id (release_row now r) = rs_node_id r" "rs_status (release_row now r) = ResReleased"
  by (simp_all add: release_row_def)

lemma reserve_gpus_wf:
  assumes "ledger_wf db" and "0 \<le> g"
  shows "ledger_wf (snd (reserve_gpus now d hk n g c db))"
proof -
  have "0 \<le> rs_gpu_count x" if "x \<in> set (put_row rs_deployment_id r (cd_reservations db))" "0 \<le> rs_gpu_count r" for x r
    using that assms set_put_row_subset [of rs_deployment_id r "cd_reservations db"] by (auto simp: ledger_wf_def)
  with assms show ?thesis
    by (auto simp: reserve_gpus_def ledger_wf_def Let_def distinct_put_row split: option.splits)
qed

lemma find_active:
  assumes "find (\<lambda>r. rs_deployment_id r = d \<and> rs_status r = ResActive) rows = Some row"
  shows "row \<in> set rows" "rs_deployment_id row = d" "rs_status row = ResActive"
  using assms by (auto simp: find_Some_iff)

lemma release_gpu_wf: "ledger_wf db \<Longrightarrow> ledger_wf (snd (release_gpu_reservation now d db))"
proof -
  assume wf: "ledger_wf db"
  have "0 \<le> rs_gpu_count x" if "x \<in> set (put_row rs_deployment_id (release_row now r) (cd_reservations db))"
    "r \<in> set (cd_reservations db)" for x r
    using that wf set_put_row_subset [of rs_deployment_id "release_row now r" "cd_reservations db"]
    by (auto simp: ledger_wf_def)
  with wf show ?thesis
    by (auto simp: release_gpu_reservation_def ledger_wf_def distinct_put_row split: option.splits dest!: find_active(1))
qed

lemma reserved_after_reserve:
  assumes "ledger_wf db" and "reserve_gpus now d hk n g c db = (True, db')"
  shows "reserved_gpus_for_node m db' =
    sum_rows (\<lambda>r. rs_status r = ResActive \<and> rs_node_id r = m \<and> rs_deployment_id r \<noteq> d) rs_gpu_count (cd_reservations db)
    + (if m = n then g else 0)"
  using assms
  by (auto simp: reserve_gpus_def reserved_gpus_for_node_def ledger_wf_def Let_def sum_rows_put_row conj_assoc
      split: if_splits option.splits)

lemma others_le_reserved:
  "ledger_wf db \<Longrightarrow>
   sum_rows (\<lambda>r. rs_status r = ResActive \<and> rs_node_id r = m \<and> rs_deployment_id r \<noteq> d) rs_gpu_count (cd_reservations db)
   \<le> reserved_gpus_for_node m db"
  unfolding reserved_gpus_for_node_def by (rule sum_rows_mono) (auto simp: ledger_wf_def)

lemma reserved_after_release:
  assumes "ledger_wf db"
  shows "reserved_gpus_for_node m (snd (release_gpu_reservation now d db)) =
    sum_rows (\<lambda>r. rs_status r = ResActive \<and> rs_node_id r = m \<and> rs_deployment_id r \<noteq> d) rs_gpu_count (cd_reservations db)"
proof (cases "find (\<lambda>r. rs_deployment_id r = d \<and> rs_status r = ResActive) (cd_reservations db)")
  case None
  then have "\<forall>r \<in> set (cd_reservations db). \<not> (rs_deployment_id r = d \<and> rs_status r = ResActive)"
    by (simp add: find_None_iff)
  with None show ?thesis
    by (auto simp: release_gpu_reservation_def reserved_gpus_for_node_def intro!: sum_rows_cong)
next
  case (Some row)
  with assms find_active [OF Some] show ?thesis
    by (auto simp: release_gpu_reservation_def reserved_gpus_for_node_def ledger_wf_def sum_rows_put_row conj_assoc)
qed

interpretation ledger: gpu_ledger ledger_wf reserved_gpus_for_node reserve_gpus release_gpu_reservation
proof unfold_locales
  fix s s' :: control_db and now :: time and d hk n m :: ident and g :: int and c :: "int option"
  show "ledger_wf s \<Longrightarrow> 0 \<le> g \<Longrightarrow> ledger_wf (snd (reserve_gpus now d hk n g c s))"
    by (rule reserve_gpus_wf)
  show "ledger_wf s \<Longrightarrow> ledger_wf (snd (release_gpu_reservation now d s))"
    by (rule release_gpu_wf)
  show "reserve_gpus now d hk n g c s = (False, s') \<Longrightarrow> s' = s"
    by (auto simp: reserve_gpus_def Let_def split: if_splits)
  show "ledger_wf s \<Longrightarrow> reserved_gpus_for_node m (snd (release_gpu_reservation now d s)) \<le> reserved_gpus_for_node m s"
    by (simp add: reserved_after_release others_le_reserved)
next
  fix s s' :: control_db and now :: time and d hk n :: ident and g c :: int
  assume "ledger_wf s" and granted: "reserve_gpus now d hk n g (Some c) s = (True, s')"
  with reserved_after_reserve [OF this, of n] show "reserved_gpus_for_node n s' \<le> c"
    by (auto simp: reserve_gpus_def Let_def split: if_splits)
next
  fix s :: control_db and now :: time and d hk n :: ident and g :: int and c :: "int option"
  assume "ledger_wf s" "0 \<le> g"
  then show "reserved_gpus_for_node n (snd (reserve_gpus now d hk n g c s)) \<le> reserved_gpus_for_node n s + g"
    using reserved_after_reserve [of s now d hk n g c "snd (reserve_gpus now d hk n g c s)" n] others_le_reserved [of s n d]
    by (cases "fst (reserve_gpus now d hk n g c s)")
      (auto simp: prod_eq_iff reserve_gpus_def Let_def split: if_splits)
next
  fix s :: control_db and now :: time and d hk n m :: ident and g :: int and c :: "int option"
  assume "ledger_wf s" "m \<noteq> n"
  then show "reserved_gpus_for_node m (snd (reserve_gpus now d hk n g c s)) \<le> reserved_gpus_for_node m s"
    using reserved_after_reserve [of s now d hk n g c "snd (reserve_gpus now d hk n g c s)" m] others_le_reserved [of s m d]
    by (cases "fst (reserve_gpus now d hk n g c s)")
      (auto simp: prod_eq_iff reserve_gpus_def Let_def split: if_splits)
qed

lemma reserved_at_by_node: "reserved_at (reserved_gpus_by_node db) nid = reserved_gpus_for_node nid db"
proof (cases "nid \<in> set (map rs_node_id (filter (\<lambda>r. rs_status r = ResActive) (cd_reservations db)))")
  case True
  have "map_of (map (\<lambda>n. (n, f n)) ns) x = (if x \<in> set ns then Some (f x) else None)" for f :: "ident \<Rightarrow> int" and ns x
    by (induction ns) auto
  with True show ?thesis by (simp add: reserved_at_def reserved_gpus_by_node_def)
next
  case False
  then have "reserved_gpus_for_node nid db = sum_rows (\<lambda>_. False) rs_gpu_count (cd_reservations db)"
    unfolding reserved_gpus_for_node_def by (intro sum_rows_cong) auto
  moreover have "sum_rows (\<lambda>_. False) f xs = 0" for f :: "reservation \<Rightarrow> int" and xs
    by (induction xs) auto
  moreover have "map_of (map (\<lambda>n. (n, f n)) ns) x = None" if "x \<notin> set ns" for f :: "ident \<Rightarrow> int" and ns x
    using that by (induction ns) auto
  ultimately show ?thesis using False by (simp add: reserved_at_def reserved_gpus_by_node_def)
qed

section \<open>Millicent accumulators\<close>

text \<open>
  What the meters rely on: accruing splits the carried remainder and the new charge exactly
  into whole cents and a remainder below one cent.  The client fact: over any series of
  accruals the cents taken are the whole cents of everything accrued, nothing lost or added.
\<close>

locale accumulator =
  fixes held :: "ident \<Rightarrow> 's \<Rightarrow> int option"
    and accrue :: "ident \<Rightarrow> int \<Rightarrow> 's \<Rightarrow> int \<times> 's"
  assumes accrue_exact: "held d s = Some r \<Longrightarrow> accrue d a s = (w, s') \<Longrightarrow>
      \<exists>r'. held d s' = Some r' \<and> 1000 * w + r' = r + a \<and> 0 \<le> r' \<and> r' < 1000"
    and accrue_others: "e \<noteq> d \<Longrightarrow> held e (snd (accrue d a s)) = held e s"
begin

fun accrue_all :: "ident \<Rightarrow> int list \<Rightarrow> 's \<Rightarrow> int \<times> 's" where
  "accrue_all d [] s = (0, s)"
| "accrue_all d (a # as) s =
     (let (w, s1) = accrue d a s; (ws, s2) = accrue_all d as s1 in (w + ws, s2))"

lemma accrue_all_exact:
  "held d s = Some r \<Longrightarrow> accrue_all d as s = (w, s') \<Longrightarrow>
   \<exists>r'. held d s' = Some r' \<and> 1000 * w + r' = r + sum_list as \<and> (as \<noteq> [] \<longrightarrow> 0 \<le> r' \<and> r' < 1000)"
proof (induction as arbitrary: s r w)
  case (Cons a as)
  from Cons.prems(2) obtain w1 s1 w2 where 1: "accrue d a s = (w1, s1)" and 2: "accrue_all d as s1 = (w2, s')"
    and w: "w = w1 + w2" by (auto simp: Let_def split: prod.splits)
  from accrue_exact [OF Cons.prems(1) 1] obtain r1 where r1: "held d s1 = Some r1" "1000 * w1 + r1 = r + a"
    "0 \<le> r1" "r1 < 1000" by auto
  from Cons.IH [OF r1(1) 2] r1 2 w show ?case by (cases as) auto
qed simp

lemma accrue_all_floor:
  assumes "held d s = Some r" and "as \<noteq> []"
  shows "fst (accrue_all d as s) = (r + sum_list as) div 1000"
proof -
  obtain w s' where run: "accrue_all d as s = (w, s')" by fastforce
  from accrue_all_exact [OF assms(1) run] assms(2) obtain r' where
    "1000 * w + r' = r + sum_list as" "0 \<le> r'" "r' < 1000" by auto
  then show ?thesis using run by (simp add: int_div_pos_eq)
qed

end

definition metering_held :: "ident \<Rightarrow> control_db \<Rightarrow> int option" where
  "metering_held did db = map_option dr_metering_remainder (get_deployment_row did db)"

definition storage_held :: "ident \<Rightarrow> control_db \<Rightarrow> int option" where
  "storage_held did db = map_option dr_storage_remainder (get_deployment_row did db)"

definition accrue_metering_cents :: "ident \<Rightarrow> int \<Rightarrow> control_db \<Rightarrow> int \<times> control_db" where
  "accrue_metering_cents did a db = (fst (fst (accrue_metering did a db)), snd (accrue_metering did a db))"

lemma get_row_key: "get_row key k rows = Some r \<Longrightarrow> key r = k"
  using get_row_SomeD by fastforce

lemma accrue_metering_row:
  assumes "get_deployment_row did db = Some row"
  shows "accrue_metering did a db =
    (((dr_metering_remainder row + a) div 1000, (dr_metering_remainder row + a) mod 1000),
     db\<lparr>cd_deployments := put_row dr_id (row\<lparr>dr_metering_remainder := (dr_metering_remainder row + a) mod 1000\<rparr>)
          (cd_deployments db)\<rparr>)"
  using assms by (simp add: accrue_metering_def Let_def minus_div_mult_eq_mod)

interpretation metering: accumulator metering_held accrue_metering_cents
proof unfold_locales
  fix d s r a w s'
  assume "metering_held d s = Some r" and run: "accrue_metering_cents d a s = (w, s')"
  then obtain row where row: "get_deployment_row d s = Some row" and r: "r = dr_metering_remainder row"
    by (auto simp: metering_held_def)
  have "dr_id row = d" using row by (rule get_row_key)
  with run row r show "\<exists>r'. metering_held d s' = Some r' \<and> 1000 * w + r' = r + a \<and> 0 \<le> r' \<and> r' < 1000"
    by (auto simp: accrue_metering_cents_def accrue_metering_row metering_held_def get_row_put_row)
next
  fix e d :: ident and a s
  assume "e \<noteq> d"
  then show "metering_held e (snd (accrue_metering_cents d a s)) = metering_held e s"
    by (auto simp: accrue_metering_cents_def accrue_metering_def metering_held_def get_row_put_row Let_def
        split: option.splits dest: get_row_key)
qed

interpretation storage: accumulator storage_held accrue_storage
proof unfold_locales
  fix d s r a w s'
  assume "storage_held d s = Some r" and run: "accrue_storage d a s = (w, s')"
  then obtain row where row: "get_deployment_row d s = Some row" and r: "r = dr_storage_remainder row"
    by (auto simp: storage_held_def)
  have "dr_id row = d" using row by (rule get_row_key)
  with run row r show "\<exists>r'. storage_held d s' = Some r' \<and> 1000 * w + r' = r + a \<and> 0 \<le> r' \<and> r' < 1000"
    by (auto simp: accrue_storage_def storage_held_def get_row_put_row Let_def minus_div_mult_eq_mod)
next
  fix e d :: ident and a s
  assume "e \<noteq> d"
  then show "storage_held e (snd (accrue_storage d a s)) = storage_held e s"
    by (auto simp: accrue_storage_def storage_held_def get_row_put_row Let_def split: option.splits dest: get_row_key)
qed

section \<open>Node sizes\<close>

text \<open>Every record of a node says it has \<open>size\<close> GPUs, in the inventory and in the capacity rows.\<close>

definition sizes_ok :: "(ident \<Rightarrow> int) \<Rightarrow> control_db \<Rightarrow> bool" where
  "sizes_ok gpus db \<longleftrightarrow>
     (\<forall>r \<in> set (cd_inventory db). n_gpu_count (ni_payload r) = gpus (n_node_id (ni_payload r))) \<and>
     (\<forall>c \<in> set (cd_capacities db). \<forall>n \<in> set (cap_nodes c). n_gpu_count n = gpus (n_node_id n))"

lemma normalize_node_simps [simp]:
  "n_node_id (normalize_node hk n t) = n_node_id n" "n_gpu_count (normalize_node hk n t) = n_gpu_count n"
  "n_available_gpus (normalize_node hk n t) = n_available_gpus n"
  by (simp_all add: normalize_node_def Let_def)

lemma inventory_record_node:
  "cd_inventory (record_node hk t n db) =
     put_row ni_node_id \<lparr>ni_node_id = n_node_id n, ni_hotkey = hk,
       ni_server_id = Some (if truthy (n_server_id n) then the (n_server_id n) else hk @ ''-server''),
       ni_payload = n, ni_observed_at = t\<rparr> (cd_inventory db)"
  by (simp add: record_node_def Let_def case_prod_unfold)

lemma record_node_sizes:
  assumes "sizes_ok gpus db" and "n_gpu_count n = gpus (n_node_id n)"
  shows "sizes_ok gpus (record_node hk t n db)"
  using assms unfolding sizes_ok_def inventory_record_node record_node_frame
  by (auto dest!: set_mp [OF set_put_row_subset])

lemma fold_record_node_sizes:
  "sizes_ok gpus db \<Longrightarrow> \<forall>n \<in> set ns. n_gpu_count n = gpus (n_node_id n) \<Longrightarrow>
   sizes_ok gpus (fold (record_node hk t) ns db)"
  by (induction ns arbitrary: db) (simp_all add: record_node_sizes)

lemma upsert_capacity_sizes:
  assumes ok: "sizes_ok gpus db" and new: "\<forall>n \<in> set (cap_nodes u). n_gpu_count n = gpus (n_node_id n)"
  shows "sizes_ok gpus (upsert_capacity tmo u db)"
proof -
  have old: "\<forall>n \<in> set (case get_row cap_hotkey hk (cd_capacities db) of None \<Rightarrow> [] | Some row \<Rightarrow> cap_nodes row).
      n_gpu_count n = gpus (n_node_id n)" for hk
    using ok by (auto simp: sizes_ok_def split: option.split dest!: get_row_SomeD [OF sym])
  have put: "sizes_ok gpus (db\<lparr>cd_capacities := put_row cap_hotkey c (cd_capacities db)\<rparr>)"
    if "\<forall>n \<in> set (cap_nodes c). n_gpu_count n = gpus (n_node_id n)" for c
    using ok that by (auto simp: sizes_ok_def dest!: set_mp [OF set_put_row_subset])
  show ?thesis
    unfolding upsert_capacity_def Let_def
    using new old [of "cap_hotkey u"] by (intro fold_record_node_sizes put) auto
qed

lemma adjust_node_capacity_sizes:
  assumes ok: "sizes_ok gpus db"
  shows "sizes_ok gpus (adjust_node_capacity tmo hk nid dg db)"
proof (cases "get_capacity hk db")
  case (Some u)
  then have "u \<in> set (cd_capacities db)" using get_row_SomeD by (fastforce simp: get_capacity_def)
  with ok have "\<forall>n \<in> set (cap_nodes u). n_gpu_count n = gpus (n_node_id n)" by (auto simp: sizes_ok_def)
  with Some ok show ?thesis
    by (auto simp: adjust_node_capacity_def intro!: upsert_capacity_sizes dest!: modify_row_cases)
qed (simp add: adjust_node_capacity_def ok)

lemma sizes_frame:
  "cd_inventory db' = cd_inventory db \<Longrightarrow> cd_capacities db' = cd_capacities db \<Longrightarrow> sizes_ok gpus db' = sizes_ok gpus db"
  by (simp add: sizes_ok_def)

lemma fleet_frame [simp]:
  "cd_inventory (upsert_miner reg db) = cd_inventory db" "cd_capacities (upsert_miner reg db) = cd_capacities db"
  "cd_inventory (snd (set_miner_drained hk b db)) = cd_inventory db"
  "cd_capacities (snd (set_miner_drained hk b db)) = cd_capacities db"
  "cd_inventory (upsert_heartbeat hb db) = cd_inventory db" "cd_capacities (upsert_heartbeat hb db) = cd_capacities db"
  "cd_inventory (upsert_workload w db) = cd_inventory db" "cd_capacities (upsert_workload w db) = cd_capacities db"
  "cd_inventory (insert_deployment dep db) = cd_inventory db" "cd_capacities (insert_deployment dep db) = cd_capacities db"
  "cd_inventory (save_deployment now dep db) = cd_inventory db" "cd_capacities (save_deployment now dep db) = cd_capacities db"
  "cd_inventory (set_billable_since did t db) = cd_inventory db" "cd_capacities (set_billable_since did t db) = cd_capacities db"
  "cd_inventory (save_assignment a db) = cd_inventory db" "cd_capacities (save_assignment a db) = cd_capacities db"
  "cd_inventory (snd (update_assignment_status now did st r db)) = cd_inventory db"
  "cd_capacities (snd (update_assignment_status now did st r db)) = cd_capacities db"
  "cd_inventory (snd (update_placement_status now did st r i c db)) = cd_inventory db"
  "cd_capacities (snd (update_placement_status now did st r i c db)) = cd_capacities db"
  "cd_inventory (add_usage_record ur db) = cd_inventory db" "cd_capacities (add_usage_record ur db) = cd_capacities db"
  "cd_inventory (add_invocation_record ir db) = cd_inventory db" "cd_capacities (add_invocation_record ir db) = cd_capacities db"
  "cd_inventory (add_deployment_event su db) = cd_inventory db" "cd_capacities (add_deployment_event su db) = cd_capacities db"
  "cd_inventory (snd (reserve_gpus now d hk n g c db)) = cd_inventory db"
  "cd_capacities (snd (reserve_gpus now d hk n g c db)) = cd_capacities db"
  "cd_inventory (snd (release_gpu_reservation now d db)) = cd_inventory db"
  "cd_capacities (snd (release_gpu_reservation now d db)) = cd_capacities db"
  by (simp_all add: upsert_miner_def set_miner_drained_def upsert_heartbeat_def upsert_workload_def
      insert_deployment_def add_account_event_def save_deployment_def set_billable_since_def save_assignment_def
      update_assignment_status_def update_placement_status_def add_usage_record_def add_invocation_record_def
      add_deployment_event_def reserve_gpus_def release_gpu_reservation_def Let_def split: option.splits)

lemma list_nodes_size: "sizes_ok gpus db \<Longrightarrow> n \<in> set (list_nodes db) \<Longrightarrow> n_gpu_count n = gpus (n_node_id n)"
  by (auto simp: sizes_ok_def list_nodes_def)

end
