(* ===== verification/Control_Plane.thy ===== *)
theory Control_Plane
  imports Control_Repository
begin

text \<open>
  The control plane's service: scheduling, status reports, recovery and event processing of
  \<^verbatim>\<open>control_plane/application/services.py\<close> (\<^verbatim>\<open>ControlPlaneService\<close>).

  \<open>control\<close> is the database, the message bus and the number of \<^verbatim>\<open>uuid4()\<close> values drawn so
  far.  \<open>env\<close> holds the settings (\<^verbatim>\<open>config.py\<close>) and what the service takes from the
  protocol package: GPU rates, the VRAM table, the defaults of a new lease and a new
  deployment, and the text of an exception.  A service call returns the new state with its
  value or the exception it raised, because its repository calls commit one by one: what was
  written before an exception stays written.

  Logging, metrics and the operator webhook are not modelled; the clock is read once per call.
\<close>

section \<open>State and environment\<close>

datatype payload =
    DeploymentRequested ident ident int
  | DeploymentChanged ident deployment_state "ident option" "string option" "string option"
  | DeploymentPlaced ident ident "ident option" "ident option"
  | DeploymentReassigned ident ident ident string
  | UsageRecorded usage_record
  | InvocationRecorded invocation

record control =
  c_db :: control_db
  c_bus :: "payload bus_db"
  c_draws :: nat

record env =
  default_lease_ttl_seconds :: int
  miner_heartbeat_timeout_seconds :: int
  node_inventory_timeout_seconds :: int
  server_observed_timeout_seconds :: int
  pod_offline_end_after_seconds :: int
  inference_requeue_after_seconds :: int
  deployment_request_retry_limit :: int
  deployment_reassign_retry_limit :: int
  deployment_request_retry_delay_seconds :: int
  deployment_health_failure_threshold :: int
  placement_failure_cooldown_seconds :: int
  idle_private_endpoint_timeout_seconds :: int
  pod_storage_billing_enabled :: bool
  pod_exhaustion_reaper_enabled :: bool
  pod_unsaved_grace_minutes :: int
  pod_saved_retention_days :: int
  public_rental_gpu_families :: "string list"
  rate_for_gpu :: "string option \<Rightarrow> int"
  gpu_rates :: "int list"
  canonical_vram_gb :: "string \<Rightarrow> int \<Rightarrow> int option"
  storage_cents_per_day :: int
  storage_mcents_per_minute :: int
  initial_lease_status :: string
  blank_deployment :: deployment
  new_uuid :: "nat \<Rightarrow> ident"
  exc_text :: "control_error \<Rightarrow> string"

type_synonym 'a outcome = "(control_error + 'a) \<times> control"

definition on_db :: "(control_db \<Rightarrow> control_db) \<Rightarrow> control \<Rightarrow> control" where
  "on_db f s = s\<lparr>c_db := f (c_db s)\<rparr>"

definition emit :: "env \<Rightarrow> time \<Rightarrow> string \<Rightarrow> payload \<Rightarrow> control \<Rightarrow> control" where
  "emit env now subject payload s =
     s\<lparr>c_bus := snd (publish now (new_uuid env (c_draws s)) subject payload (c_bus s)),
       c_draws := Suc (c_draws s)\<rparr>"

definition settle :: "(payload bus_db \<Rightarrow> payload bus_message option \<times> payload bus_db) \<Rightarrow> control \<Rightarrow> control" where
  "settle f s = s\<lparr>c_bus := snd (f (c_bus s))\<rparr>"

definition em_dash :: string where
  "em_dash = [CHR 0xE2, CHR 0x80, CHR 0x94]"

section \<open>Miners and capacity\<close>

definition drain_miner :: "ident \<Rightarrow> bool \<Rightarrow> control \<Rightarrow> miner outcome" where
  "drain_miner hotkey drained s =
     (case set_miner_drained hotkey drained (c_db s) of
        (None, db) \<Rightarrow> (Inl NotFound, s\<lparr>c_db := db\<rparr>)
      | (Some m, db) \<Rightarrow> (Inr m, s\<lparr>c_db := db\<rparr>))"

definition correct_vram :: "env \<Rightarrow> node \<Rightarrow> node" where
  "correct_vram env node =
     (case canonical_vram_gb env (n_gpu_model node) (n_vram_gb_per_gpu node) of
        None \<Rightarrow> node
      | Some canonical \<Rightarrow> if canonical \<noteq> n_vram_gb_per_gpu node then node\<lparr>n_vram_gb_per_gpu := canonical\<rparr> else node)"

definition update_capacity :: "env \<Rightarrow> capacity \<Rightarrow> control \<Rightarrow> control" where
  "update_capacity env update s =
     on_db (upsert_capacity (node_inventory_timeout_seconds env)
              (update\<lparr>cap_nodes := map (correct_vram env) (cap_nodes update)\<rparr>)) s"

section \<open>Which nodes may be used\<close>

definition is_node_stale :: "env \<Rightarrow> time \<Rightarrow> node \<Rightarrow> bool" where
  "is_node_stale env now node =
     (case n_observed_at node of
        None \<Rightarrow> False
      | Some t \<Rightarrow> now - t > seconds (node_inventory_timeout_seconds env))"

definition is_server_stale :: "env \<Rightarrow> time \<Rightarrow> time \<Rightarrow> bool" where
  "is_server_stale env now observed_at \<longleftrightarrow> now - observed_at > seconds (server_observed_timeout_seconds env)"

definition server_for_node :: "node \<Rightarrow> control_db \<Rightarrow> server option" where
  "server_for_node node db =
     (if truthy (n_server_id node) then get_row sv_id (the (n_server_id node)) (list_servers db) else None)"

definition is_server_for_node_stale :: "env \<Rightarrow> time \<Rightarrow> node \<Rightarrow> control_db \<Rightarrow> bool" where
  "is_server_for_node_stale env now node db =
     (case server_for_node node db of None \<Rightarrow> False | Some srv \<Rightarrow> is_server_stale env now (sv_observed_at srv))"

definition is_node_in_cooldown :: "time \<Rightarrow> ident \<Rightarrow> ident option \<Rightarrow> control_db \<Rightarrow> bool" where
  "is_node_in_cooldown now nid deployment_id db =
     list_ex (\<lambda>p. pl_node_id p = nid \<and>
                  (deployment_id = None \<or> deployment_id = Some (pl_deployment_id p)) \<and>
                  (case pl_cooldown_until p of None \<Rightarrow> False | Some t \<Rightarrow> t > now))
       (list_placements (Some 1000) db)"

definition skip_reasons :: "env \<Rightarrow> time \<Rightarrow> ident option \<Rightarrow> control_db \<Rightarrow> node \<Rightarrow> string list" where
  "skip_reasons env now deployment_id db node =
     (case get_miner (n_hotkey node) db of None \<Rightarrow> [] | Some m \<Rightarrow> if m_drained m then [''drained''] else []) @
     (case get_heartbeat (n_hotkey node) db of
        None \<Rightarrow> [''heartbeat_missing'']
      | Some hb \<Rightarrow>
          (if hb_healthy hb then [] else [''unhealthy'']) @
          (if now - hb_observed_at hb > seconds (miner_heartbeat_timeout_seconds env)
           then [''heartbeat_stale''] else [])) @
     (if is_node_stale env now node then [''stale''] else []) @
     (if is_server_for_node_stale env now node db then [''server_stale''] else []) @
     (if deployment_id \<noteq> None \<and> is_node_in_cooldown now (n_node_id node) deployment_id db
      then [''cooldown''] else [])"

definition schedulable_nodes :: "env \<Rightarrow> time \<Rightarrow> ident option \<Rightarrow> control_db \<Rightarrow> node list" where
  "schedulable_nodes env now deployment_id db =
     (let all_nodes = list_nodes db;
          nodes = filter (\<lambda>n. skip_reasons env now deployment_id db n = []) all_nodes;
          cooldown_only = filter (\<lambda>n. skip_reasons env now deployment_id db n = [''cooldown'']) all_nodes
      in if nodes = [] \<and> cooldown_only \<noteq> [] then cooldown_only else nodes)"

definition schedulable_capacity :: "env \<Rightarrow> time \<Rightarrow> control_db \<Rightarrow> (node \<times> int) list" where
  "schedulable_capacity env now db =
     map (\<lambda>n. (n, max 0 (effective_available_gpus n (reserved_gpus_by_node db))))
       (schedulable_nodes env now None db)"

record model_capacity =
  mc_available_gpus :: int
  mc_max_gpus_per_deployment :: int

fun by_model :: "(node \<times> int) list \<Rightarrow> (string \<times> model_capacity) list \<Rightarrow> (string \<times> model_capacity) list" where
  "by_model [] out = out"
| "by_model ((node, free) # rest) out =
     (let key = normalize_gpu_model (Some (n_gpu_model node));
          entry = (case map_of out key of
                     None \<Rightarrow> \<lparr>mc_available_gpus = 0, mc_max_gpus_per_deployment = 0\<rparr> | Some e \<Rightarrow> e);
          entry' = \<lparr>mc_available_gpus = mc_available_gpus entry + free,
                    mc_max_gpus_per_deployment = max (mc_max_gpus_per_deployment entry) free\<rparr>
      in by_model rest (put_row fst (key, entry') out))"

definition capacity_by_model :: "env \<Rightarrow> time \<Rightarrow> control_db \<Rightarrow> (string \<times> model_capacity) list" where
  "capacity_by_model env now db = by_model (schedulable_capacity env now db) []"

definition placement_preview :: "env \<Rightarrow> time \<Rightarrow> workload \<Rightarrow> control_db \<Rightarrow> bool \<times> (string \<times> model_capacity) list" where
  "placement_preview env now workload db =
     (let nodes = schedulable_nodes env now None db
      in (nodes \<noteq> [] \<and> rank_nodes workload nodes (reserved_gpus_by_node db) \<noteq> [], capacity_by_model env now db))"

definition online_gpu_models :: "env \<Rightarrow> time \<Rightarrow> control_db \<Rightarrow> string list" where
  "online_gpu_models env now db =
     (let families = public_rental_gpu_families env;
          live = remdups (map (\<lambda>n. normalize_gpu_model (Some (n_gpu_model n))) (schedulable_nodes env now None db))
      in sort (filter (\<lambda>m. m \<noteq> [] \<and> (families = [] \<or> list_ex (\<lambda>f. in_text f m) families)) live))"

section \<open>Placement\<close>

definition assign_deployment :: "env \<Rightarrow> time \<Rightarrow> workload \<Rightarrow> ident \<Rightarrow> control \<Rightarrow> lease_assignment option \<times> control" where
  "assign_deployment env now workload deployment_id s =
     (let db = c_db s;
          nodes = schedulable_nodes env now (Some deployment_id) db;
          aid = new_uuid env (c_draws s);
          gpus = rq_gpu_count (wl_requirements workload)
      in case assign_lease aid now (initial_lease_status env) workload deployment_id nodes (reserved_gpus_by_node db) of
           None \<Rightarrow> (None, s)
         | Some a \<Rightarrow>
             let capacity_gpus = map_option n_gpu_count (find (\<lambda>n. n_node_id n = la_node_id a) nodes);
                 (ok, db1) = reserve_gpus now deployment_id (la_hotkey a) (la_node_id a) gpus capacity_gpus db
             in if \<not> ok then (None, s)
                else let db2 = adjust_node_capacity (node_inventory_timeout_seconds env) (la_hotkey a) (la_node_id a)
                                 (- gpus) db1
                     in (Some (a\<lparr>la_expires_at := Some (now + seconds (default_lease_ttl_seconds env))\<rparr>),
                         s\<lparr>c_db := db2, c_draws := Suc (c_draws s)\<rparr>))"

definition reclaim_orphaned_reservations :: "time \<Rightarrow> control \<Rightarrow> nat \<times> control" where
  "reclaim_orphaned_reservations now s =
     (let (n, db) = release_orphaned_reservations now (c_db s) in (n, s\<lparr>c_db := db\<rparr>))"

definition list_leases :: "ident \<Rightarrow> control \<Rightarrow> (lease_assignment \<times> string option \<times> string option) list" where
  "list_leases hotkey s =
     joined_assignments (Some hotkey) [''assigned'', ''activating'', ''active'', ''suspended''] (c_db s)"

section \<open>Creating and changing a deployment\<close>

record create_request =
  rq_workload_id :: ident
  rq_name :: "string option"
  rq_owner :: "ident option"
  rq_key_id :: "ident option"
  rq_instances :: int
  rq_save_on_exhaustion :: bool
  rq_resume_on_topup :: bool
  rq_max_runtime_minutes :: "int option"
  rq_accept_fee :: bool

definition max_list :: "int list \<Rightarrow> int" where
  "max_list xs = (case xs of [] \<Rightarrow> 0 | x # rest \<Rightarrow> fold max rest x)"

definition estimate_deployment_fee :: "workload \<Rightarrow> int \<Rightarrow> rat" where
  "estimate_deployment_fee workload instances = 0"

definition quoted_hourly_rate_cents :: "env \<Rightarrow> workload \<Rightarrow> string list \<Rightarrow> int" where
  "quoted_hourly_rate_cents env workload live_models =
     (let allowed = rq_supported_gpu_models (wl_requirements workload)
      in if allowed \<noteq> [] then max_list (map (\<lambda>m. rate_for_gpu env (Some m)) allowed)
         else if live_models \<noteq> [] then max_list (map (\<lambda>m. rate_for_gpu env (Some m)) live_models)
         else max_list (gpu_rates env))"

definition create_deployment :: "env \<Rightarrow> time \<Rightarrow> create_request \<Rightarrow> control \<Rightarrow> deployment outcome" where
  "create_deployment env now request s =
     (case get_workload (rq_workload_id request) (c_db s) of
        None \<Rightarrow> (Inl NotFound, s)
      | Some workload \<Rightarrow>
          let deployment = (blank_deployment env)
                \<lparr>d_id := new_uuid env (c_draws s), d_workload_id := rq_workload_id request,
                 d_name := rq_name request, d_owner := rq_owner request,
                 d_requested_instances := rq_instances request,
                 d_save_on_exhaustion := rq_save_on_exhaustion request,
                 d_resume_on_topup := rq_resume_on_topup request,
                 d_max_runtime_minutes := rq_max_runtime_minutes request,
                 d_created_by_key := rq_key_id request,
                 d_deployment_fee_usd := estimate_deployment_fee workload (rq_instances request),
                 d_fee_acknowledged := rq_accept_fee request,
                 d_hourly_rate_cents := quoted_hourly_rate_cents env workload (online_gpu_models env now (c_db s)),
                 d_created_at := now, d_updated_at := now\<rparr>;
              s1 = on_db (insert_deployment deployment) (s\<lparr>c_draws := Suc (c_draws s)\<rparr>);
              s2 = emit env now ''deployment.requested''
                     (DeploymentRequested (d_id deployment) (d_workload_id deployment) (d_requested_instances deployment)) s1
          in (Inr deployment, s2))"

record update_request =
  up_requested_instances :: "int option"
  up_fee_acknowledged :: "bool option"
  up_resume_on_topup :: "bool option"
  up_name :: "string option"

definition update_deployment :: "time \<Rightarrow> ident \<Rightarrow> update_request \<Rightarrow> control \<Rightarrow> deployment outcome" where
  "update_deployment now did request s =
     (case get_deployment did (c_db s) of
        None \<Rightarrow> (Inl NotFound, s)
      | Some d \<Rightarrow>
          (case get_workload (d_workload_id d) (c_db s) of
             None \<Rightarrow> (Inl NotFound, s)
           | Some workload \<Rightarrow>
               let d1 = (case up_requested_instances request of
                           None \<Rightarrow> d
                         | Some n \<Rightarrow> d\<lparr>d_requested_instances := n,
                                       d_deployment_fee_usd := estimate_deployment_fee workload n\<rparr>);
                   d2 = (case up_fee_acknowledged request of None \<Rightarrow> d1 | Some b \<Rightarrow> d1\<lparr>d_fee_acknowledged := b\<rparr>);
                   d3 = (case up_resume_on_topup request of None \<Rightarrow> d2 | Some b \<Rightarrow> d2\<lparr>d_resume_on_topup := b\<rparr>);
                   d4 = (case up_name request of
                           None \<Rightarrow> d3
                         | Some nm \<Rightarrow> d3\<lparr>d_name := (if nm = [] then None else Some nm)\<rparr>);
                   d5 = d4\<lparr>d_updated_at := now\<rparr>
               in (Inr d5, on_db (save_deployment now d5) s)))"

section \<open>Status reports\<close>

definition classify_deployment_failure ::
  "string option \<Rightarrow> deployment_state \<Rightarrow> string option \<Rightarrow> string option" where
  "classify_deployment_failure error state existing =
     (if state = READY then None
      else if state \<notin> {FAILED, TERMINATED} then existing
      else let message = lower (case error of None \<Rightarrow> [] | Some e \<Rightarrow> e)
           in if in_text ''machine lost'' message \<or> in_text ''machine_loss'' message then Some ''machine_loss''
              else if in_text ''lease'' message then Some ''lease_loss''
              else if in_text ''capacity'' message \<or> in_text ''scheduler'' message then Some ''scheduler_failure''
              else if in_text ''health'' message then Some ''health_check_failure''
              else if in_text ''heartbeat'' message \<or> in_text ''miner'' message then Some ''miner_failure''
              else if in_text ''upstream'' message \<or> in_text ''timeout'' message then Some ''upstream_failure''
              else str_or existing (Some ''deployment_failure''))"

fun assignment_status :: "deployment_state \<Rightarrow> string option" where
  "assignment_status PULLING = Some ''activating''"
| "assignment_status STARTING = Some ''activating''"
| "assignment_status READY = Some ''active''"
| "assignment_status SUSPENDED = Some ''suspended''"
| "assignment_status FAILED = Some ''failed''"
| "assignment_status TERMINATED = Some ''terminated''"
| "assignment_status _ = None"

fun status_subject :: "deployment_state \<Rightarrow> string" where
  "status_subject READY = ''deployment.ready''"
| "status_subject SUSPENDED = ''deployment.suspended''"
| "status_subject FAILED = ''deployment.failed''"
| "status_subject TERMINATED = ''deployment.terminated''"
| "status_subject _ = ''deployment.status.updated''"

text \<open>The record after an accepted report (before it is saved).\<close>

definition apply_report :: "time \<Rightarrow> status_update \<Rightarrow> deployment_state \<Rightarrow> deployment \<Rightarrow> deployment" where
  "apply_report now upd new_state d =
     (let st = su_state upd;
          d1 = d\<lparr>d_state := new_state,
                 d_ready_instances := (if st = READY then su_ready_instances upd else 0),
                 d_endpoint := str_or (su_endpoint upd) (d_endpoint d)\<rparr>;
          d2 = (if truthy (su_ssh_private_key upd) then d1\<lparr>d_ssh_private_key := su_ssh_private_key upd\<rparr> else d1);
          d3 = (case su_port_mappings upd of None \<Rightarrow> d2 | Some pm \<Rightarrow> d2\<lparr>d_port_mappings := pm\<rparr>);
          d4 = (case su_ssh_host_keys upd of None \<Rightarrow> d3 | Some ks \<Rightarrow> d3\<lparr>d_ssh_host_keys := ks\<rparr>);
          d5 = (if st = SUSPENDED \<and> su_error upd = None \<and> truthy (d_last_error d4) then d4
                else d4\<lparr>d_last_error := su_error upd\<rparr>);
          d6 = d5\<lparr>d_failure_class := classify_deployment_failure (su_error upd) st (d_failure_class d5)\<rparr>;
          d7 = (if st = READY
                then d6\<lparr>d_health_check_failures := 0, d_retry_exhausted := False, d_warmup_state := ''ready'',
                        d_ready_at := (case d_ready_at d6 of None \<Rightarrow> Some now | Some t \<Rightarrow> Some t)\<rparr>
                else if st \<in> {PULLING, STARTING} then d6\<lparr>d_warmup_state := ''warming''\<rparr>
                else if st \<in> {FAILED, TERMINATED} then d6\<lparr>d_warmup_state := ''stopped''\<rparr>
                else d6);
          d8 = d7\<lparr>d_updated_at := su_observed_at upd\<rparr>
      in if st = SUSPENDED
         then let d9 = d8\<lparr>d_suspended_at := (case d_suspended_at d8 of
                                               None \<Rightarrow> Some (su_observed_at upd) | Some t \<Rightarrow> Some t)\<rparr>
              in if truthy (su_suspended_reason upd) then d9\<lparr>d_suspended_reason := su_suspended_reason upd\<rparr> else d9
         else if st \<in> {PULLING, STARTING, READY}
         then d8\<lparr>d_suspended_at := None, d_suspended_reason := None\<rparr>
         else d8)"

definition update_deployment_status :: "env \<Rightarrow> time \<Rightarrow> status_update \<Rightarrow> control \<Rightarrow> deployment outcome" where
  "update_deployment_status env now upd s =
     (case get_deployment (su_deployment_id upd) (c_db s) of
        None \<Rightarrow> (Inl NotFound, s)
      | Some d \<Rightarrow>
          if d_state d \<in> {TERMINATED, FAILED} then (Inr d, s)
          else case transition_state (d_state d) (su_state upd) of
                 Inl err \<Rightarrow> (Inl err, s)
               | Inr new_state \<Rightarrow>
                   let st = su_state upd;
                       became_ready = (st = READY \<and> d_state d \<noteq> READY);
                       d' = apply_report now upd new_state d;
                       db1 = add_deployment_event upd (c_db s);
                       db2 = (case assignment_status st of
                                None \<Rightarrow> db1
                              | Some ls \<Rightarrow> snd (update_assignment_status now (su_deployment_id upd) ls (su_error upd) db1));
                       db3 = (if st \<in> {SUSPENDED, FAILED, TERMINATED}
                              then snd (release_gpu_reservation now (su_deployment_id upd) db2) else db2);
                       db4 = save_deployment now d' db3;
                       db5 = (if became_ready then set_billable_since (d_id d') now db4 else db4)
                   in (Inr d', emit env now (status_subject st)
                         (DeploymentChanged (d_id d') (d_state d') (d_hotkey d') (d_endpoint d') (d_last_error d'))
                         (s\<lparr>c_db := db5\<rparr>)))"

text \<open>A report the control plane makes itself: a state, a reason, nothing else.\<close>

definition own_report :: "ident \<Rightarrow> deployment_state \<Rightarrow> string \<Rightarrow> string option \<Rightarrow> time \<Rightarrow> status_update" where
  "own_report did state error suspended_reason observed_at =
     \<lparr>su_deployment_id = did, su_state = state, su_endpoint = None, su_ready_instances = 0,
      su_ssh_private_key = None, su_port_mappings = None, su_ssh_host_keys = None, su_error = Some error,
      su_suspended_reason = suspended_reason, su_observed_at = observed_at\<rparr>"

section \<open>Routing and health\<close>

definition find_node :: "ident \<Rightarrow> control_db \<Rightarrow> node option" where
  "find_node nid db = find (\<lambda>n. n_node_id n = nid) (list_nodes db)"

definition list_ready_deployments :: "env \<Rightarrow> time \<Rightarrow> ident \<Rightarrow> control_db \<Rightarrow> deployment list" where
  "list_ready_deployments env now workload_id db =
     sort_key (\<lambda>d. - d_updated_at d)
       (filter (\<lambda>d. case d_node_id d of
                      None \<Rightarrow> False
                    | Some nid \<Rightarrow>
                        (case find_node nid db of
                           None \<Rightarrow> False
                         | Some node \<Rightarrow>
                             \<not> is_node_stale env now node \<and>
                             (case get_heartbeat (case d_hotkey d of None \<Rightarrow> [] | Some hk \<Rightarrow> hk) db of
                                None \<Rightarrow> True | Some hb \<Rightarrow> hb_healthy hb)))
         (ready_rows workload_id db))"

definition resolve_ready_deployment :: "env \<Rightarrow> time \<Rightarrow> ident \<Rightarrow> control_db \<Rightarrow> deployment option" where
  "resolve_ready_deployment env now workload_id db =
     (case list_ready_deployments env now workload_id db of [] \<Rightarrow> None | d # _ \<Rightarrow> Some d)"

definition record_deployment_health_failure ::
  "env \<Rightarrow> time \<Rightarrow> ident \<Rightarrow> string \<Rightarrow> control \<Rightarrow> deployment outcome" where
  "record_deployment_health_failure env now did error s =
     (case get_deployment did (c_db s) of
        None \<Rightarrow> (Inl NotFound, s)
      | Some d \<Rightarrow>
          let d' = d\<lparr>d_health_check_failures := d_health_check_failures d + 1, d_last_error := Some error,
                     d_failure_class := Some ''health_check_failure'', d_updated_at := now\<rparr>;
              s1 = on_db (save_deployment now d') s
          in if d_health_check_failures d' \<ge> deployment_health_failure_threshold env
             then update_deployment_status env now (own_report did FAILED error None now) s1
             else (Inr d', s1))"

definition clear_deployment_health_failures :: "time \<Rightarrow> ident \<Rightarrow> control \<Rightarrow> deployment outcome" where
  "clear_deployment_health_failures now did s =
     (case get_deployment did (c_db s) of
        None \<Rightarrow> (Inl NotFound, s)
      | Some d \<Rightarrow>
          if d_health_check_failures d = 0 \<and> d_last_error d = None then (Inr d, s)
          else let d' = d\<lparr>d_health_check_failures := 0, d_last_error := None, d_updated_at := now\<rparr>
               in (Inr d', on_db (save_deployment now d') s))"

definition record_usage :: "env \<Rightarrow> time \<Rightarrow> usage_record \<Rightarrow> control \<Rightarrow> control" where
  "record_usage env now record s = emit env now ''usage.recorded'' (UsageRecorded record) s"

definition record_invocation :: "env \<Rightarrow> time \<Rightarrow> invocation \<Rightarrow> control \<Rightarrow> control" where
  "record_invocation env now record s = emit env now ''invocation.recorded'' (InvocationRecorded record) s"

definition worker_subjects :: "string list" where
  "worker_subjects = [''deployment.requested'', ''usage.recorded'', ''invocation.recorded'']"

definition recover_inflight_events :: "time \<Rightarrow> int \<Rightarrow> control \<Rightarrow> payload bus_message list \<times> control" where
  "recover_inflight_events now stale_after s =
     (let (requeued, bus) = requeue_stale_processing now ''control-plane-worker'' worker_subjects stale_after (c_bus s)
      in (requeued, s\<lparr>c_bus := bus\<rparr>))"

section \<open>Moving, resuming and ending deployments\<close>

definition live_lease :: "ident \<Rightarrow> control_db \<Rightarrow> lease_assignment option" where
  "live_lease did db =
     find (\<lambda>a. la_deployment_id a = did) (list_assignments None [''assigned'', ''activating'', ''active''] db)"

definition requeue_assignment ::
  "env \<Rightarrow> time \<Rightarrow> lease_assignment \<Rightarrow> string \<Rightarrow> time \<Rightarrow> control \<Rightarrow> deployment option \<times> control" where
  "requeue_assignment env now assignment reason observed_at s =
     (let did = la_deployment_id assignment
      in case get_deployment did (c_db s) of
           None \<Rightarrow> (None, s)
         | Some d \<Rightarrow>
             if d_state d \<in> {FAILED, TERMINATED} then (None, s)
             else case get_workload (d_workload_id d) (c_db s) of
                    None \<Rightarrow> (None, s)
                  | Some workload \<Rightarrow>
                      let db1 = snd (release_gpu_reservation now did (c_db s));
                          db2 = adjust_node_capacity (node_inventory_timeout_seconds env) (la_hotkey assignment)
                                  (la_node_id assignment) (rq_gpu_count (wl_requirements workload)) db1;
                          db3 = snd (update_assignment_status now did ''reassigned'' (Some reason) db2);
                          db4 = snd (update_placement_status now did ''failed'' (Some reason) True
                                  (Some (observed_at + seconds (placement_failure_cooldown_seconds env))) db3);
                          d' = d\<lparr>d_state := PENDING, d_hotkey := None, d_node_id := None, d_endpoint := None,
                                 d_ssh_host_keys := [], d_ready_instances := 0, d_health_check_failures := 0,
                                 d_retry_count := d_retry_count d + 1, d_last_error := Some reason,
                                 d_last_retry_reason := Some reason, d_failure_class := Some ''miner_failure'',
                                 d_retry_exhausted := False, d_updated_at := observed_at\<rparr>;
                          s1 = s\<lparr>c_db := save_deployment now d' db4\<rparr>;
                          s2 = emit env now ''deployment.requested''
                                 (DeploymentRequested (d_id d') (d_workload_id d') (d_requested_instances d')) s1;
                          s3 = emit env now ''deployment.reassigned''
                                 (DeploymentReassigned (d_id d') (la_hotkey assignment) (la_node_id assignment) reason) s2
                      in (Some d', s3))"

definition requeue_deployment :: "env \<Rightarrow> time \<Rightarrow> ident \<Rightarrow> control \<Rightarrow> deployment outcome" where
  "requeue_deployment env now did s =
     (case get_deployment did (c_db s) of
        None \<Rightarrow> (Inl NotFound, s)
      | Some d \<Rightarrow>
          let reason = ''operator requested requeue'';
              (moved, s1) = (case live_lease did (c_db s) of
                               None \<Rightarrow> (None, s) | Some a \<Rightarrow> requeue_assignment env now a reason now s)
          in case moved of
               Some r \<Rightarrow> (Inr r, s1)
             | None \<Rightarrow>
                 let d' = d\<lparr>d_state := PENDING, d_hotkey := None, d_node_id := None, d_endpoint := None,
                            d_ssh_host_keys := [], d_ready_instances := 0, d_retry_count := 0,
                            d_retry_exhausted := False, d_last_error := Some reason,
                            d_last_retry_reason := Some reason, d_updated_at := now\<rparr>;
                     s2 = on_db (save_deployment now d') s1
                 in (Inr d', emit env now ''deployment.requested''
                       (DeploymentRequested (d_id d') (d_workload_id d') (d_requested_instances d')) s2))"

definition resume_deployment :: "env \<Rightarrow> time \<Rightarrow> ident \<Rightarrow> control \<Rightarrow> deployment outcome" where
  "resume_deployment env now did s =
     (case get_deployment did (c_db s) of
        None \<Rightarrow> (Inl NotFound, s)
      | Some d \<Rightarrow>
          if d_state d \<noteq> SUSPENDED then (Inl ValueError, s)
          else if \<not> truthy (d_hotkey d) \<or> \<not> truthy (d_node_id d) then (Inl ValueError, s)
          else let hotkey = the (d_hotkey d); nid = the (d_node_id d)
               in case get_workload (d_workload_id d) (c_db s) of
                    None \<Rightarrow> (Inl NotFound, s)
                  | Some workload \<Rightarrow>
                      (case find_node nid (c_db s) of
                         None \<Rightarrow> (Inl ValueError, s)
                       | Some node \<Rightarrow>
                           let gpus = rq_gpu_count (wl_requirements workload);
                               available = effective_available_gpus node (reserved_gpus_by_node (c_db s))
                           in if available < gpus then (Inl ValueError, s)
                              else let db1 = snd (reserve_gpus now did hotkey nid gpus None (c_db s));
                                       db2 = adjust_node_capacity (node_inventory_timeout_seconds env) hotkey nid
                                               (- gpus) db1;
                                       db3 = snd (update_assignment_status now did ''active''
                                               (Some ''resume requested'') db2);
                                       d' = d\<lparr>d_last_error := None, d_failure_class := None, d_updated_at := now\<rparr>;
                                       s1 = s\<lparr>c_db := save_deployment now d' db3\<rparr>
                                   in (Inr d', emit env now ''deployment.resumed''
                                         (DeploymentPlaced (d_id d') (d_workload_id d') (d_hotkey d') (d_node_id d')) s1)))"

text \<open>What \<open>fail_deployment\<close> and \<open>cleanup_deployment\<close> do with a live lease: free the GPUs, end the
  lease, mark the placement.\<close>

definition end_lease ::
  "env \<Rightarrow> time \<Rightarrow> deployment \<Rightarrow> lease_assignment \<Rightarrow> string \<Rightarrow> string \<Rightarrow> bool \<Rightarrow> time option \<Rightarrow> control_db \<Rightarrow> control_db" where
  "end_lease env now d a reason placement_status count_failure cooldown db =
     (let db1 = snd (release_gpu_reservation now (d_id d) db);
          db2 = (case get_workload (d_workload_id d) db of
                   None \<Rightarrow> db1
                 | Some workload \<Rightarrow>
                     adjust_node_capacity (node_inventory_timeout_seconds env) (la_hotkey a) (la_node_id a)
                       (rq_gpu_count (wl_requirements workload)) db1);
          db3 = snd (update_assignment_status now (d_id d) ''terminated'' (Some reason) db2)
      in snd (update_placement_status now (d_id d) placement_status (Some reason) count_failure cooldown db3))"

definition fail_deployment :: "env \<Rightarrow> time \<Rightarrow> ident \<Rightarrow> control \<Rightarrow> deployment outcome" where
  "fail_deployment env now did s =
     (case get_deployment did (c_db s) of
        None \<Rightarrow> (Inl NotFound, s)
      | Some d \<Rightarrow>
          let reason = ''operator forced failure'';
              s1 = (case live_lease did (c_db s) of
                      None \<Rightarrow> s
                    | Some a \<Rightarrow>
                        on_db (end_lease env now d a reason ''failed'' True
                                 (Some (now + seconds (placement_failure_cooldown_seconds env)))) s)
          in update_deployment_status env now (own_report did FAILED reason None now) s1)"

text \<open>\<open>long_ago\<close> is \<^verbatim>\<open>datetime.min\<close>, which ends a cooldown.\<close>

definition cleanup_deployment :: "env \<Rightarrow> time \<Rightarrow> time \<Rightarrow> ident \<Rightarrow> string \<Rightarrow> control \<Rightarrow> deployment outcome" where
  "cleanup_deployment env now long_ago did reason s =
     (case get_deployment did (c_db s) of
        None \<Rightarrow> (Inl NotFound, s)
      | Some d \<Rightarrow>
          let s1 = (case live_lease did (c_db s) of
                      Some a \<Rightarrow> on_db (end_lease env now d a reason ''terminated'' False (Some long_ago)) s
                    | None \<Rightarrow>
                        if d_state d = SUSPENDED
                        then on_db (\<lambda>db. snd (update_assignment_status now did ''terminated'' (Some reason) db)) s
                        else s);
              d' = d\<lparr>d_state := TERMINATED, d_ready_instances := 0, d_endpoint := None, d_ssh_host_keys := [],
                     d_last_error := Some reason, d_failure_class := Some ''operator_cleanup'', d_updated_at := now\<rparr>
          in (Inr d', on_db (\<lambda>db. add_deployment_event (own_report did TERMINATED reason None now)
                                     (save_deployment now d' db)) s1))"

section \<open>The worker's periodic passes\<close>

subsection \<open>Leases that expired before the deployment was ready\<close>

definition lease_timed_out :: "time \<Rightarrow> lease_assignment \<Rightarrow> control_db \<Rightarrow> bool" where
  "lease_timed_out now a db =
     (case la_expires_at a of
        None \<Rightarrow> False
      | Some t \<Rightarrow>
          if t > now then False
          else case get_deployment (la_deployment_id a) db of
                 None \<Rightarrow> False | Some d \<Rightarrow> d_state d \<notin> {READY, FAILED, TERMINATED})"

fun time_out_leases :: "env \<Rightarrow> time \<Rightarrow> lease_assignment list \<Rightarrow> deployment list \<Rightarrow> control \<Rightarrow> deployment list outcome" where
  "time_out_leases env now [] expired s = (Inr expired, s)"
| "time_out_leases env now (a # rest) expired s =
     (if lease_timed_out now a (c_db s)
      then case update_deployment_status env now
                  (own_report (la_deployment_id a) FAILED ''lease expired before deployment became ready'' None now) s of
             (Inl err, s1) \<Rightarrow> (Inl err, s1)
           | (Inr d, s1) \<Rightarrow> time_out_leases env now rest (expired @ [d]) s1
      else time_out_leases env now rest expired s)"

definition process_timeouts :: "env \<Rightarrow> time \<Rightarrow> control \<Rightarrow> deployment list outcome" where
  "process_timeouts env now s =
     time_out_leases env now (list_assignments None [''assigned'', ''activating''] (c_db s)) [] s"

subsection \<open>Machines that stopped reporting\<close>

definition any_miner_reporting :: "env \<Rightarrow> time \<Rightarrow> control_db \<Rightarrow> bool" where
  "any_miner_reporting env now db =
     list_ex (\<lambda>hb. now - hb_observed_at hb \<le> seconds (miner_heartbeat_timeout_seconds env)) (cd_heartbeats db)"

text \<open>Why a machine looks gone and for how long (in microseconds) it has been silent.\<close>

definition assignment_problem ::
  "env \<Rightarrow> time \<Rightarrow> lease_assignment \<Rightarrow> control_db \<Rightarrow> (string \<times> time option) option" where
  "assignment_problem env now a db =
     (let hk = la_hotkey a
      in case get_heartbeat hk db of
           None \<Rightarrow> Some (''miner heartbeat missing for hotkey='' @ hk, None)
         | Some hb \<Rightarrow>
             let age = now - hb_observed_at hb
             in if age > seconds (miner_heartbeat_timeout_seconds env)
                then Some (''miner heartbeat stale after '' @ show_int (age div 1000000) @ '' seconds for hotkey='' @ hk,
                           Some age)
                else if \<not> hb_healthy hb then Some (''miner marked unhealthy for hotkey='' @ hk, None)
                else case find_node (la_node_id a) db of
                       None \<Rightarrow> Some (''node '' @ la_node_id a @ '' inventory missing for hotkey='' @ hk
                                     @ '' (per-node staleness)'', None)
                     | Some node \<Rightarrow>
                         if is_node_stale env now node
                         then Some (''node '' @ la_node_id a @ '' inventory stale beyond ''
                                    @ show_int (node_inventory_timeout_seconds env) @ ''s for hotkey='' @ hk
                                    @ '' (per-node staleness)'',
                                    map_option (\<lambda>t. now - t) (n_observed_at node))
                         else None)"

definition box_silent :: "env \<Rightarrow> time \<Rightarrow> deployment \<Rightarrow> control_db \<Rightarrow> bool" where
  "box_silent env now d db =
     (if \<not> truthy (d_hotkey d) then False
      else case get_heartbeat (the (d_hotkey d)) db of
             None \<Rightarrow> True
           | Some hb \<Rightarrow>
               if now - hb_observed_at hb > seconds (miner_heartbeat_timeout_seconds env) then True
               else case (if truthy (d_node_id d) then find_node (the (d_node_id d)) db else None) of
                      None \<Rightarrow> False | Some node \<Rightarrow> is_node_stale env now node)"

definition end_offline_pod :: "env \<Rightarrow> time \<Rightarrow> deployment \<Rightarrow> time \<Rightarrow> control \<Rightarrow> control" where
  "end_offline_pod env now d silent_for s =
     snd (update_deployment_status env now
            (own_report (d_id d) TERMINATED
               (''ended: the machine running it stopped reporting '' @ show_int (silent_for div seconds 3600) @ '' hours ago'')
               None now) s)"

text \<open>One assignment of the pass: what happens to it, and the deployment it requeued, if any.\<close>

definition handle_assignment ::
  "env \<Rightarrow> time \<Rightarrow> lease_assignment \<Rightarrow> control \<Rightarrow> deployment option \<times> control" where
  "handle_assignment env now a s =
     (case assignment_problem env now a (c_db s) of
        None \<Rightarrow> (None, s)
      | Some (reason, silent_for) \<Rightarrow>
          let requeue = requeue_assignment env now a reason now s
          in case get_deployment (la_deployment_id a) (c_db s) of
               None \<Rightarrow> requeue
             | Some d \<Rightarrow>
                 if d_state d \<noteq> READY then requeue
                 else let rental = (case get_workload (d_workload_id d) (c_db s) of
                                      None \<Rightarrow> True | Some w \<Rightarrow> wl_kind w \<noteq> INFERENCE)
                      in if rental
                         then (None, case silent_for of
                                       None \<Rightarrow> s
                                     | Some t \<Rightarrow> if t \<ge> seconds (pod_offline_end_after_seconds env)
                                                 then end_offline_pod env now d t s else s)
                         else case silent_for of
                                None \<Rightarrow> requeue
                              | Some t \<Rightarrow> if t < seconds (inference_requeue_after_seconds env) then (None, s)
                                          else requeue)"

fun handle_assignments ::
  "env \<Rightarrow> time \<Rightarrow> lease_assignment list \<Rightarrow> deployment list \<Rightarrow> control \<Rightarrow> deployment list \<times> control" where
  "handle_assignments env now [] reassigned s = (reassigned, s)"
| "handle_assignments env now (a # rest) reassigned s =
     (case handle_assignment env now a s of
        (None, s1) \<Rightarrow> handle_assignments env now rest reassigned s1
      | (Some d, s1) \<Rightarrow> handle_assignments env now rest (reassigned @ [d]) s1)"

definition process_unhealthy_miners :: "env \<Rightarrow> time \<Rightarrow> control \<Rightarrow> deployment list \<times> control" where
  "process_unhealthy_miners env now s =
     (let assignments = list_assignments None [''assigned'', ''activating'', ''active''] (c_db s)
      in if assignments \<noteq> [] \<and> \<not> any_miner_reporting env now (c_db s) then ([], s)
         else handle_assignments env now assignments [] s)"

subsection \<open>Idle private models\<close>

definition idle_private :: "env \<Rightarrow> time \<Rightarrow> deployment \<Rightarrow> control_db \<Rightarrow> bool" where
  "idle_private env now d db =
     (case get_workload (d_workload_id d) db of
        None \<Rightarrow> False
      | Some w \<Rightarrow>
          if wl_kind w \<noteq> INFERENCE then False
          else if map_of (wl_metadata w) ''managed_by'' = Some ''flux'' then False
          else let last_activity = (case last_invocation_at (d_id d) db of None \<Rightarrow> d_updated_at d | Some t \<Rightarrow> t)
               in \<not> (now - last_activity < seconds (idle_private_endpoint_timeout_seconds env)))"

fun suspend_idle :: "env \<Rightarrow> time \<Rightarrow> deployment list \<Rightarrow> ident list \<Rightarrow> control \<Rightarrow> ident list \<times> control" where
  "suspend_idle env now [] suspended s = (suspended, s)"
| "suspend_idle env now (d # rest) suspended s =
     (if idle_private env now d (c_db s)
      then let reason = ''idle '' @ em_dash @ '' no invocations in ''
                        @ show_int (idle_private_endpoint_timeout_seconds env div 60) @ '' min''
           in case update_deployment_status env now (own_report (d_id d) SUSPENDED reason (Some ''idle'') now) s of
                (Inl _, s1) \<Rightarrow> suspend_idle env now rest suspended s1
              | (Inr _, s1) \<Rightarrow> suspend_idle env now rest (suspended @ [d_id d]) s1
      else suspend_idle env now rest suspended s)"

definition process_idle_inference_deployments :: "env \<Rightarrow> time \<Rightarrow> control \<Rightarrow> ident list \<times> control" where
  "process_idle_inference_deployments env now s =
     suspend_idle env now (list_deployments_by_state READY (c_db s)) [] s"

section \<open>Processing the queue\<close>

definition MAX_EVENT_ATTEMPTS :: int where
  "MAX_EVENT_ATTEMPTS = 5"

fun payload_deployment_id :: "payload \<Rightarrow> ident" where
  "payload_deployment_id (DeploymentRequested did _ _) = did"
| "payload_deployment_id (DeploymentChanged did _ _ _ _) = did"
| "payload_deployment_id (DeploymentPlaced did _ _ _) = did"
| "payload_deployment_id (DeploymentReassigned did _ _ _) = did"
| "payload_deployment_id (UsageRecorded r) = ur_deployment_id r"
| "payload_deployment_id (InvocationRecorded r) = in_deployment_id r"

text \<open>No node for it: count the attempt, then retry later or give up.\<close>

definition no_capacity :: string where
  "no_capacity = ''no compatible miner capacity available''"

definition count_attempt :: "time \<Rightarrow> int \<Rightarrow> deployment \<Rightarrow> deployment" where
  "count_attempt now attempts d =
     d\<lparr>d_retry_count := max (d_retry_count d) attempts, d_last_error := Some no_capacity,
       d_last_retry_reason := Some no_capacity, d_failure_class := Some ''scheduler_failure'', d_updated_at := now\<rparr>"

definition give_up_reason :: "env \<Rightarrow> int \<Rightarrow> deployment \<Rightarrow> string" where
  "give_up_reason env attempts d =
     (if d_retry_count d \<ge> deployment_reassign_retry_limit env \<and> \<not> attempts \<ge> deployment_request_retry_limit env
      then no_capacity @ '' after '' @ show_int (d_retry_count d) @ '' reassignments''
      else no_capacity @ '' after '' @ show_int (deployment_request_retry_limit env) @ '' attempts'')"

definition placement_failed ::
  "env \<Rightarrow> time \<Rightarrow> payload bus_message \<Rightarrow> deployment \<Rightarrow> control \<Rightarrow> deployment option outcome" where
  "placement_failed env now event d s =
     (let d1 = count_attempt now (msg_attempts event) d;
          s1 = on_db (save_deployment now d1) s
      in if msg_attempts event \<ge> deployment_request_retry_limit env \<or>
            d_retry_count d1 \<ge> deployment_reassign_retry_limit env
         then let d2 = d1\<lparr>d_retry_exhausted := True\<rparr>;
                  s2 = on_db (save_deployment now d2) s1;
                  reason = give_up_reason env (msg_attempts event) d2
              in case update_deployment_status env now (own_report (d_id d) FAILED reason None now) s2 of
                   (Inl err, s3) \<Rightarrow> (Inl err, s3)
                 | (Inr failed, s3) \<Rightarrow>
                     (Inr None, settle (mark_failed now (msg_delivery_id event)
                        (the (str_or (d_last_error failed) (Some ''deployment scheduling failed''))) False None) s3)
         else (Inr None, settle (mark_failed now (msg_delivery_id event) no_capacity True
                 (Some (seconds (deployment_request_retry_delay_seconds env)))) s1))"

definition place_deployment ::
  "env \<Rightarrow> time \<Rightarrow> payload bus_message \<Rightarrow> deployment \<Rightarrow> lease_assignment \<Rightarrow> control \<Rightarrow> deployment option outcome" where
  "place_deployment env now event d a s =
     (let granted_rate = rate_for_gpu env
            (map_option n_gpu_model (find (\<lambda>n. n_node_id n = la_node_id a) (list_nodes (c_db s))));
          quoted_rate = (if d_hourly_rate_cents d \<noteq> 0 then d_hourly_rate_cents d else granted_rate);
          d' = d\<lparr>d_hotkey := Some (la_hotkey a), d_node_id := Some (la_node_id a),
                 d_hourly_rate_cents := min granted_rate quoted_rate, d_state := SCHEDULED,
                 d_retry_count := max (d_retry_count d) (max 0 (msg_attempts event - 1)),
                 d_health_check_failures := 0, d_last_error := None, d_last_retry_reason := None,
                 d_failure_class := None, d_retry_exhausted := False, d_updated_at := now\<rparr>;
          s1 = on_db (save_assignment a) s;
          s2 = on_db (save_deployment now d') s1;
          s3 = emit env now ''deployment.scheduled''
                 (DeploymentPlaced (d_id d') (d_workload_id d') (d_hotkey d') (d_node_id d')) s2
      in (Inr (Some d'), settle (mark_completed now (msg_delivery_id event)) s3))"

definition process_deployment_request ::
  "env \<Rightarrow> time \<Rightarrow> payload bus_message \<Rightarrow> control \<Rightarrow> deployment option outcome" where
  "process_deployment_request env now event s =
     (case get_deployment (payload_deployment_id (msg_payload event)) (c_db s) of
        None \<Rightarrow> (Inr None, settle (mark_failed now (msg_delivery_id event) ''deployment not found'' False None) s)
      | Some d \<Rightarrow>
          if d_state d \<noteq> PENDING then (Inr None, settle (mark_completed now (msg_delivery_id event)) s)
          else case get_workload (d_workload_id d) (c_db s) of
                 None \<Rightarrow> (Inr None, settle (mark_failed now (msg_delivery_id event) ''workload not found'' False None) s)
               | Some workload \<Rightarrow>
                   (case assign_deployment env now workload (d_id d) s of
                      (None, s1) \<Rightarrow> placement_failed env now event d s1
                    | (Some a, s1) \<Rightarrow> place_deployment env now event d a s1))"

definition process_usage_record :: "time \<Rightarrow> payload bus_message \<Rightarrow> control \<Rightarrow> usage_record outcome" where
  "process_usage_record now event s =
     (case msg_payload event of
        UsageRecorded r \<Rightarrow> (Inr r, settle (mark_completed now (msg_delivery_id event)) (on_db (add_usage_record r) s))
      | _ \<Rightarrow> (Inl ValueError, s))"

definition process_invocation_record :: "time \<Rightarrow> payload bus_message \<Rightarrow> control \<Rightarrow> invocation outcome" where
  "process_invocation_record now event s =
     (case msg_payload event of
        InvocationRecorded r \<Rightarrow>
          (Inr r, settle (mark_completed now (msg_delivery_id event)) (on_db (add_invocation_record r) s))
      | _ \<Rightarrow> (Inl ValueError, s))"

record processed =
  pr_deployments :: "deployment list"
  pr_usage :: "usage_record list"
  pr_invocations :: "invocation list"

definition event_failed :: "env \<Rightarrow> time \<Rightarrow> payload bus_message \<Rightarrow> control_error \<Rightarrow> control \<Rightarrow> control" where
  "event_failed env now event err s =
     settle (mark_failed now (msg_delivery_id event) (exc_text env err)
               (msg_attempts event < MAX_EVENT_ATTEMPTS)
               (Some (min (seconds (30 * msg_attempts event)) (seconds 300)))) s"

definition handle_event :: "env \<Rightarrow> time \<Rightarrow> payload bus_message \<Rightarrow> processed \<times> control \<Rightarrow> processed \<times> control" where
  "handle_event env now event ps =
     (let (p, s) = ps
      in if msg_subject event = ''deployment.requested'' then
           (case process_deployment_request env now event s of
              (Inl err, s1) \<Rightarrow> (p, event_failed env now event err s1)
            | (Inr None, s1) \<Rightarrow> (p, s1)
            | (Inr (Some d), s1) \<Rightarrow> (p\<lparr>pr_deployments := pr_deployments p @ [d]\<rparr>, s1))
         else if msg_subject event = ''usage.recorded'' then
           (case process_usage_record now event s of
              (Inl err, s1) \<Rightarrow> (p, event_failed env now event err s1)
            | (Inr r, s1) \<Rightarrow> (p\<lparr>pr_usage := pr_usage p @ [r]\<rparr>, s1))
         else if msg_subject event = ''invocation.recorded'' then
           (case process_invocation_record now event s of
              (Inl err, s1) \<Rightarrow> (p, event_failed env now event err s1)
            | (Inr r, s1) \<Rightarrow> (p\<lparr>pr_invocations := pr_invocations p @ [r]\<rparr>, s1))
         else (p, settle (mark_failed now (msg_delivery_id event)
                            (''unsupported workflow subject='' @ msg_subject event) False None) s))"

definition process_pending_events :: "env \<Rightarrow> time \<Rightarrow> nat \<Rightarrow> control \<Rightarrow> processed \<times> control" where
  "process_pending_events env now limit s =
     (let (events, bus) = claim_pending now ''control-plane-worker'' worker_subjects limit (c_bus s)
      in fold (handle_event env now) events
           (\<lparr>pr_deployments = [], pr_usage = [], pr_invocations = []\<rparr>, s\<lparr>c_bus := bus\<rparr>))"

end
