(* ===== verification/Control_Properties.thy ===== *)
theory Control_Properties
  imports Control_Plane
begin

text \<open>
  What the control plane guarantees, proved over the operations of the theory Control_Plane:
  no interleaving of them double-books a GPU, finished deployments stay finished under
  machine reports, a deployment that stops running gives its GPUs back, what a customer is
  charged per hour never exceeds what was quoted, running rentals are never moved, scheduling
  gives up after a bounded number of attempts.
\<close>

section \<open>What scheduling depends on\<close>

text \<open>The tables the reservation safety argument reads.\<close>

definition sched_view :: "control_db \<Rightarrow> reservation list \<times> inventory list \<times> capacity list \<times> workload list" where
  "sched_view db = (cd_reservations db, cd_inventory db, cd_capacities db, cd_workloads db)"

definition safe :: "(ident \<Rightarrow> int) \<Rightarrow> control_db \<Rightarrow> bool" where
  "safe gpus db \<longleftrightarrow> ledger.fits gpus db \<and> sizes_ok gpus db \<and>
     (\<forall>w \<in> set (cd_workloads db). 0 \<le> rq_gpu_count (wl_requirements w))"

lemma safe_view: "sched_view db' = sched_view db \<Longrightarrow> safe gpus db' \<longleftrightarrow> safe gpus db"
  by (simp add: sched_view_def safe_def ledger.fits_def ledger_wf_def reserved_gpus_for_node_def sizes_ok_def)

lemma workloads_frame [simp]:
  "cd_workloads (upsert_miner reg db) = cd_workloads db"
  "cd_workloads (snd (set_miner_drained hk b db)) = cd_workloads db"
  "cd_workloads (upsert_heartbeat hb db) = cd_workloads db"
  "cd_workloads (insert_deployment dep db) = cd_workloads db"
  "cd_workloads (save_deployment now dep db) = cd_workloads db"
  "cd_workloads (set_billable_since did t db) = cd_workloads db"
  "cd_workloads (save_assignment a db) = cd_workloads db"
  "cd_workloads (snd (update_assignment_status now did st r db)) = cd_workloads db"
  "cd_workloads (snd (update_placement_status now did st r i c db)) = cd_workloads db"
  "cd_workloads (add_usage_record ur db) = cd_workloads db"
  "cd_workloads (add_invocation_record ir db) = cd_workloads db"
  "cd_workloads (add_deployment_event su db) = cd_workloads db"
  "cd_workloads (snd (reserve_gpus now d hk n g c db)) = cd_workloads db"
  "cd_workloads (snd (release_gpu_reservation now d db)) = cd_workloads db"
  by (simp_all add: upsert_miner_def set_miner_drained_def upsert_heartbeat_def
      insert_deployment_def add_account_event_def save_deployment_def set_billable_since_def save_assignment_def
      update_assignment_status_def update_placement_status_def add_usage_record_def add_invocation_record_def
      add_deployment_event_def reserve_gpus_def release_gpu_reservation_def Let_def split: option.splits)

lemma safe_frame [simp]:
  "safe gpus (upsert_miner reg db) = safe gpus db"
  "safe gpus (snd (set_miner_drained hk b db)) = safe gpus db"
  "safe gpus (upsert_heartbeat hb db) = safe gpus db"
  "safe gpus (insert_deployment dep db) = safe gpus db"
  "safe gpus (save_deployment now dep db) = safe gpus db"
  "safe gpus (set_billable_since did t db) = safe gpus db"
  "safe gpus (save_assignment a db) = safe gpus db"
  "safe gpus (snd (update_assignment_status now did st r db)) = safe gpus db"
  "safe gpus (snd (update_placement_status now did st r i c db)) = safe gpus db"
  "safe gpus (add_usage_record ur db) = safe gpus db"
  "safe gpus (add_invocation_record ir db) = safe gpus db"
  "safe gpus (add_deployment_event su db) = safe gpus db"
  by (rule safe_view, simp add: sched_view_def)+

lemma fits_reservations: "cd_reservations db' = cd_reservations db \<Longrightarrow> ledger.fits gpus db' \<longleftrightarrow> ledger.fits gpus db"
  by (simp add: ledger.fits_def ledger_wf_def reserved_gpus_for_node_def)

lemma safe_capacity [simp, step_inv]:
  "safe gpus db \<Longrightarrow> safe gpus (adjust_node_capacity tmo hk nid dg db)"
  "safe gpus db \<Longrightarrow> (\<forall>n \<in> set (cap_nodes u). n_gpu_count n = gpus (n_node_id n)) \<Longrightarrow> safe gpus (upsert_capacity tmo u db)"
  by (simp_all add: safe_def adjust_node_capacity_sizes upsert_capacity_sizes
      fits_reservations [OF capacity_frame(7)] fits_reservations [OF capacity_frame(1)])

lemma sizes_ledger [simp]:
  "sizes_ok gpus (snd (reserve_gpus now d hk n g c db)) = sizes_ok gpus db"
  "sizes_ok gpus (snd (release_gpu_reservation now d db)) = sizes_ok gpus db"
  by (rule sizes_frame, simp_all)+

lemma safe_release [simp, step_inv]: "safe gpus db \<Longrightarrow> safe gpus (snd (release_gpu_reservation now d db))"
  using ledger.release_fits [of gpus db now d]
  by (simp add: safe_def)

lemma safe_reserve_checked [step_inv]:
  assumes "safe gpus db" and "0 \<le> g" and "c = gpus n"
  shows "safe gpus (snd (reserve_gpus now d hk n g (Some c) db))"
  using assms ledger.reserve_fits [of gpus db g c n now d hk]
  by (simp add: safe_def)

lemma safe_reserve_unchecked:
  assumes "safe gpus db" and "0 \<le> g" and "reserved_gpus_for_node n db + g \<le> gpus n"
  shows "safe gpus (snd (reserve_gpus now d hk n g c db))"
  using assms ledger.reserve_unchecked_fits [of gpus db g n now d hk c]
  by (simp add: safe_def)

lemma safe_workload_nonneg: "safe gpus db \<Longrightarrow> get_workload wid db = Some w \<Longrightarrow> 0 \<le> rq_gpu_count (wl_requirements w)"
  by (auto simp: safe_def dest!: get_row_SomeD)

lemma sum_rows_map_le:
  assumes "\<And>r. r \<in> set rows \<Longrightarrow> P (f r) \<Longrightarrow> P r" and "\<And>r. g (f r) = g r" and "\<And>r. r \<in> set rows \<Longrightarrow> 0 \<le> g r"
  shows "sum_rows P g (map f rows) \<le> sum_rows P g rows"
  using assms by (induction rows) (auto intro: add_mono add_increasing)

lemma safe_orphans [step_inv]:
  assumes "safe gpus db"
  shows "safe gpus (snd (release_orphaned_reservations now db))"
proof -
  let ?f = "\<lambda>r. if orphaned db r then release_row now r else r"
  have wf: "ledger_wf db" using assms by (simp add: safe_def ledger.fits_def)
  have "reserved_gpus_for_node n (snd (release_orphaned_reservations now db)) \<le> reserved_gpus_for_node n db" for n
    unfolding reserved_gpus_for_node_def release_orphaned_reservations_def
    using wf by (auto simp: ledger_wf_def intro!: sum_rows_map_le split: if_split_asm)
  moreover have "ledger_wf (snd (release_orphaned_reservations now db))"
    using wf by (auto simp: release_orphaned_reservations_def ledger_wf_def comp_def if_distrib cong: if_cong)
  ultimately show ?thesis
    using assms by (auto simp: safe_def ledger.fits_def release_orphaned_reservations_def sizes_ok_def
        intro: order_trans)
qed

lemma safe_upsert_workload [step_inv]:
  assumes "safe gpus db" and "0 \<le> rq_gpu_count (wl_requirements w)"
  shows "safe gpus (upsert_workload w db)"
  using assms set_put_row_subset [of wl_id w "cd_workloads db"]
  by (auto simp: safe_def upsert_workload_def ledger.fits_def ledger_wf_def reserved_gpus_for_node_def sizes_ok_def)

lemma safe_delete_workload [step_inv]:
  assumes "safe gpus db"
  shows "safe gpus (snd (delete_workload now wid db))"
proof -
  have le: "sum_rows P rs_gpu_count (filter Q (cd_reservations db)) \<le> sum_rows P rs_gpu_count (cd_reservations db)" for P Q
    unfolding sum_rows_filter using assms
    by (intro sum_rows_mono) (auto simp: safe_def ledger.fits_def ledger_wf_def)
  from assms show ?thesis
    by (auto simp: safe_def ledger.fits_def ledger_wf_def reserved_gpus_for_node_def sizes_ok_def delete_workload_def
        Let_def distinct_map_filter delete_row_def split: option.splits intro: order_trans [OF le])
qed

section \<open>Every service call keeps the ledger safe\<close>

lemma c_db_simps [simp]:
  "c_db (on_db f s) = f (c_db s)" "c_db (emit env now subj p s) = c_db s" "c_db (settle g s) = c_db s"
  by (simp_all add: on_db_def emit_def settle_def)

lemma find_node_SomeD: "find_node nid db = Some n \<Longrightarrow> n \<in> set (list_nodes db) \<and> n_node_id n = nid"
  by (auto simp: find_node_def find_Some_iff)

lemma schedulable_subset: "set (schedulable_nodes env now did db) \<subseteq> set (list_nodes db)"
  by (auto simp: schedulable_nodes_def Let_def)

lemma safe_assign [step_inv]:
  assumes safe: "safe gpus (c_db s)" and w: "0 \<le> rq_gpu_count (wl_requirements w)"
  shows "safe gpus (c_db (snd (assign_deployment env now w did s)))"
proof -
  let ?nodes = "schedulable_nodes env now (Some did) (c_db s)"
  have size: "n_gpu_count n = gpus (n_node_id n)" if "n \<in> set ?nodes" for n
    using that safe schedulable_subset [of env now "Some did" "c_db s"] list_nodes_size [of gpus "c_db s"]
    by (auto simp: safe_def)
  show ?thesis
  proof (cases "assign_lease (new_uuid env (c_draws s)) now (initial_lease_status env) w did ?nodes (reserved_gpus_by_node (c_db s))")
    case None
    with safe show ?thesis by (simp add: assign_deployment_def)
  next
    case (Some a)
    then obtain n where n: "n \<in> set ?nodes" "la_node_id a = n_node_id n" by (elim assign_lease_SomeE)
    then obtain m where m: "find (\<lambda>x. n_node_id x = la_node_id a) ?nodes = Some m"
      by (cases "find (\<lambda>x. n_node_id x = la_node_id a) ?nodes") (auto simp: find_None_iff)
    then have "n_gpu_count m = gpus (la_node_id a)"
      using size by (auto simp: find_Some_iff)
    with m have "safe gpus (snd (reserve_gpus now did (la_hotkey a) (la_node_id a) (rq_gpu_count (wl_requirements w))
        (map_option n_gpu_count (find (\<lambda>x. n_node_id x = la_node_id a) ?nodes)) (c_db s)))"
      using safe w by (auto intro!: safe_reserve_checked)
    with Some safe show ?thesis
      by (simp add: assign_deployment_def Let_def case_prod_unfold)
  qed
qed

lemma safe_status [step_inv]:
  "safe gpus (c_db s) \<Longrightarrow> safe gpus (c_db (snd (update_deployment_status env now upd s)))"
  by (simp add: update_deployment_status_def Let_def split: option.split sum.split)

lemma safe_requeue [step_inv]:
  "safe gpus (c_db s) \<Longrightarrow> safe gpus (c_db (snd (requeue_assignment env now a r t s)))"
  by (simp add: requeue_assignment_def Let_def split: option.split)

lemma safe_requeue_deployment [step_inv]:
  "safe gpus (c_db s) \<Longrightarrow> safe gpus (c_db (snd (requeue_deployment env now did s)))"
  using safe_requeue [of gpus s env now _ "''operator requested requeue''" now]
  by (simp add: requeue_deployment_def Let_def case_prod_unfold split: option.split)

lemma safe_resume [step_inv]:
  assumes safe: "safe gpus (c_db s)"
  shows "safe gpus (c_db (snd (resume_deployment env now did s)))"
proof -
  have "safe gpus (snd (reserve_gpus now did hk nid (rq_gpu_count (wl_requirements w)) None (c_db s)))"
    if w: "get_workload wid (c_db s) = Some w" and n: "find_node nid (c_db s) = Some n"
      and free: "\<not> effective_available_gpus n (reserved_gpus_by_node (c_db s)) < rq_gpu_count (wl_requirements w)"
    for hk nid w wid n
  proof -
    have "n_gpu_count n = gpus nid"
      using find_node_SomeD [OF n] safe list_nodes_size [of gpus "c_db s" n] by (auto simp: safe_def)
    then have "reserved_gpus_for_node nid (c_db s) + rq_gpu_count (wl_requirements w) \<le> gpus nid"
      using free find_node_SomeD [OF n] by (simp add: effective_available_gpus_def reserved_at_by_node)
    then show ?thesis
      using safe safe_workload_nonneg [OF safe w] by (intro safe_reserve_unchecked)
  qed
  then show ?thesis
    using safe by (auto simp: resume_deployment_def Let_def split: option.split)
qed

lemma safe_end_lease [step_inv]: "safe gpus db \<Longrightarrow> safe gpus (end_lease env now d a r ps cf cd db)"
  by (simp add: end_lease_def Let_def split: option.split)

lemma safe_fail [step_inv]: "safe gpus (c_db s) \<Longrightarrow> safe gpus (c_db (snd (fail_deployment env now did s)))"
  by (auto simp: fail_deployment_def Let_def intro!: safe_status safe_end_lease split: option.split)

lemma safe_cleanup [step_inv]: "safe gpus (c_db s) \<Longrightarrow> safe gpus (c_db (snd (cleanup_deployment env now t did r s)))"
  by (auto simp: cleanup_deployment_def Let_def intro!: safe_end_lease split: option.split)

lemma safe_timeouts [step_inv]:
  "safe gpus (c_db s) \<Longrightarrow> safe gpus (c_db (snd (time_out_leases env now as acc s)))"
proof (induction as arbitrary: acc s)
  case (Cons a as)
  define r where "r = update_deployment_status env now
    (own_report (la_deployment_id a) FAILED ''lease expired before deployment became ready'' None now) s"
  have "safe gpus (c_db (snd r))" using Cons.prems by (simp add: r_def safe_status)
  with Cons show ?case
    by (cases r) (simp add: r_def [symmetric] split: sum.split)
qed simp

lemma safe_handle_assignment [step_inv]:
  "safe gpus (c_db s) \<Longrightarrow> safe gpus (c_db (snd (handle_assignment env now a s)))"
  by (auto simp: handle_assignment_def end_offline_pod_def Let_def intro: safe_requeue safe_status split: option.split)

lemma safe_handle_assignments [step_inv]:
  "safe gpus (c_db s) \<Longrightarrow> safe gpus (c_db (snd (handle_assignments env now as acc s)))"
proof (induction as arbitrary: acc s)
  case (Cons a as)
  have "safe gpus (c_db (snd (handle_assignment env now a s)))" using Cons.prems by (rule safe_handle_assignment)
  with Cons show ?case
    by (cases "handle_assignment env now a s") (simp split: option.split)
qed simp

lemma safe_unhealthy [step_inv]:
  "safe gpus (c_db s) \<Longrightarrow> safe gpus (c_db (snd (process_unhealthy_miners env now s)))"
  by (simp add: process_unhealthy_miners_def Let_def safe_handle_assignments)

lemma safe_idle [step_inv]: "safe gpus (c_db s) \<Longrightarrow> safe gpus (c_db (snd (suspend_idle env now ds acc s)))"
proof (induction ds arbitrary: acc s)
  case (Cons d ds)
  define r where "r = update_deployment_status env now (own_report (d_id d) SUSPENDED
      (''idle '' @ em_dash @ '' no invocations in '' @ show_int (idle_private_endpoint_timeout_seconds env div 60) @ '' min'')
      (Some ''idle'') now) s"
  have "safe gpus (c_db (snd r))" using Cons.prems by (simp add: r_def safe_status)
  with Cons show ?case
    by (cases r) (simp only: suspend_idle.simps Let_def r_def [symmetric], simp split: sum.split)
qed simp

lemma safe_placement_failed [step_inv]:
  assumes "safe gpus (c_db s)"
  shows "safe gpus (c_db (snd (placement_failed env now ev d s)))"
proof -
  have "safe gpus (c_db (snd (update_deployment_status env now u (on_db f (on_db g s)))))"
    if "\<And>db. safe gpus (f db) = safe gpus db" "\<And>db. safe gpus (g db) = safe gpus db" for u f g
    using assms that by (simp add: safe_status)
  then show ?thesis
    using assms by (simp add: placement_failed_def Let_def case_prod_unfold split: sum.split)
qed

lemma safe_place [step_inv]:
  "safe gpus (c_db s) \<Longrightarrow> safe gpus (c_db (snd (place_deployment env now ev d a s)))"
  by (simp add: place_deployment_def Let_def)

lemma safe_request [step_inv]:
  assumes "safe gpus (c_db s)"
  shows "safe gpus (c_db (snd (process_deployment_request env now ev s)))"
proof -
  have "safe gpus (c_db (snd (case assign_deployment env now w did s of
      (None, s1) \<Rightarrow> placement_failed env now ev d s1 | (Some a, s1) \<Rightarrow> place_deployment env now ev d a s1)))"
    if "get_workload wid (c_db s) = Some w" for w wid d did
    using safe_assign [OF assms safe_workload_nonneg [OF assms that], of env now did]
    by (auto simp: split_beta intro: safe_placement_failed safe_place split: option.split)
  with assms show ?thesis
    by (simp add: process_deployment_request_def split: option.split)
qed

lemma safe_event [step_inv]:
  assumes "safe gpus (c_db (snd ps))"
  shows "safe gpus (c_db (snd (handle_event env now ev ps)))"
  using assms safe_request [OF assms, of env now ev]
  by (auto simp: handle_event_def Let_def case_prod_unfold event_failed_def process_usage_record_def
      process_invocation_record_def split: sum.split option.split payload.split)

lemma safe_fold_events:
  "safe gpus (c_db (snd ps)) \<Longrightarrow> safe gpus (c_db (snd (fold (handle_event env now) evs ps)))"
  by (induction evs arbitrary: ps) (simp_all add: safe_event)

lemma safe_events [step_inv]:
  "safe gpus (c_db s) \<Longrightarrow> safe gpus (c_db (snd (process_pending_events env now limit s)))"
  by (simp add: process_pending_events_def Let_def case_prod_unfold safe_fold_events)

lemma safe_health [step_inv]:
  "safe gpus (c_db s) \<Longrightarrow> safe gpus (c_db (snd (record_deployment_health_failure env now did err s)))"
  by (simp add: record_deployment_health_failure_def Let_def safe_status split: option.split)

lemma safe_misc [step_inv]:
  "safe gpus (c_db s) \<Longrightarrow> safe gpus (c_db (snd (clear_deployment_health_failures now did s)))"
  "safe gpus (c_db s) \<Longrightarrow> safe gpus (c_db (snd (create_deployment env now req s)))"
  "safe gpus (c_db s) \<Longrightarrow> safe gpus (c_db (snd (update_deployment now did up s)))"
  "safe gpus (c_db s) \<Longrightarrow> safe gpus (c_db (snd (drain_miner hk b s)))"
  "safe gpus (c_db s) \<Longrightarrow> safe gpus (c_db (snd (recover_inflight_events now stale s)))"
  "safe gpus (c_db s) \<Longrightarrow> safe gpus (c_db (record_usage env now ur s))"
  "safe gpus (c_db s) \<Longrightarrow> safe gpus (c_db (record_invocation env now ir s))"
  "safe gpus (c_db s) \<Longrightarrow> safe gpus (c_db (snd (reclaim_orphaned_reservations now s)))"
  using safe_frame(2) [of gpus hk b "c_db s"] safe_orphans [of gpus "c_db s" now]
  by (auto simp: clear_deployment_health_failures_def create_deployment_def update_deployment_def drain_miner_def
      recover_inflight_events_def record_usage_def record_invocation_def reclaim_orphaned_reservations_def
      Let_def case_prod_unfold split: option.split)

lemma correct_vram_simps [simp]:
  "n_node_id (correct_vram env n) = n_node_id n" "n_gpu_count (correct_vram env n) = n_gpu_count n"
  by (simp_all add: correct_vram_def split: option.split)

section \<open>The control plane as a state machine\<close>

text \<open>
  Any call, in any order, with any arguments and any clock.  A capacity report may say
  anything but the number of GPUs a node has (\<open>gpus\<close>, which is physical); a workload asks for
  a non-negative number of them.
\<close>

inductive control_step :: "env \<Rightarrow> (ident \<Rightarrow> int) \<Rightarrow> control \<Rightarrow> control \<Rightarrow> bool" for env gpus where
  "control_step env gpus s (on_db (upsert_miner reg) s)"
| "control_step env gpus s (snd (drain_miner hk b s))"
| "control_step env gpus s (on_db (upsert_heartbeat hb) s)"
| "(\<And>n. n \<in> set (cap_nodes u) \<Longrightarrow> n_gpu_count n = gpus (n_node_id n)) \<Longrightarrow> control_step env gpus s (update_capacity env u s)"
| "0 \<le> rq_gpu_count (wl_requirements w) \<Longrightarrow> control_step env gpus s (on_db (upsert_workload w) s)"
| "control_step env gpus s (on_db (\<lambda>db. snd (delete_workload now wid db)) s)"
| "control_step env gpus s (snd (create_deployment env now req s))"
| "control_step env gpus s (snd (update_deployment now did up s))"
| "control_step env gpus s (snd (update_deployment_status env now upd s))"
| "control_step env gpus s (snd (record_deployment_health_failure env now did err s))"
| "control_step env gpus s (snd (clear_deployment_health_failures now did s))"
| "control_step env gpus s (snd (requeue_deployment env now did s))"
| "control_step env gpus s (snd (resume_deployment env now did s))"
| "control_step env gpus s (snd (fail_deployment env now did s))"
| "control_step env gpus s (snd (cleanup_deployment env now long_ago did reason s))"
| "control_step env gpus s (snd (process_timeouts env now s))"
| "control_step env gpus s (snd (process_unhealthy_miners env now s))"
| "control_step env gpus s (snd (process_idle_inference_deployments env now s))"
| "control_step env gpus s (snd (process_pending_events env now limit s))"
| "control_step env gpus s (snd (reclaim_orphaned_reservations now s))"
| "control_step env gpus s (snd (recover_inflight_events now stale s))"
| "control_step env gpus s (record_usage env now ur s)"
| "control_step env gpus s (record_invocation env now ir s)"

lemma control_step_safe: "control_step env gpus s s' \<Longrightarrow> safe gpus (c_db s) \<Longrightarrow> safe gpus (c_db s')"
  by (induction rule: control_step.induct)
    (auto simp: update_capacity_def process_timeouts_def process_idle_inference_deployments_def intro: step_inv)

definition empty_db :: control_db where
  "empty_db = \<lparr>cd_miners = [], cd_whitelist = [], cd_heartbeats = [], cd_capacities = [], cd_servers = [],
     cd_inventory = [], cd_history = [], cd_last_history = [], cd_reservations = [], cd_workloads = [], cd_shares = [],
     cd_deployments = [], cd_assignments = [], cd_lease_history = [], cd_placements = [], cd_placement_seq = 0,
     cd_log = [], cd_account_events = [], cd_usage = [], cd_invocations = []\<rparr>"

definition empty_control :: control where
  "empty_control = \<lparr>c_db = empty_db, c_bus = empty_bus, c_draws = 0\<rparr>"

lemma empty_safe: "(\<And>n. 0 \<le> gpus n) \<Longrightarrow> safe gpus (c_db empty_control)"
  by (simp add: safe_def empty_control_def empty_db_def ledger.fits_def ledger_wf_def reserved_gpus_for_node_def sizes_ok_def)

interpretation control_machine: invariant_step "control_step env gpus" "\<lambda>s. safe gpus (c_db s)" for env gpus
  by unfold_locales (rule control_step_safe)

section \<open>What a call does to the deployments\<close>

lemma deployments_frame [simp]:
  "cd_deployments (save_assignment a db) = cd_deployments db"
  "cd_deployments (snd (update_assignment_status now did st r db)) = cd_deployments db"
  "cd_deployments (snd (update_placement_status now did st r i c db)) = cd_deployments db"
  "cd_deployments (add_deployment_event su db) = cd_deployments db"
  "cd_deployments (snd (reserve_gpus now d hk n g c db)) = cd_deployments db"
  "cd_deployments (snd (release_gpu_reservation now d db)) = cd_deployments db"
  by (simp_all add: save_assignment_def update_assignment_status_def update_placement_status_def
      add_deployment_event_def reserve_gpus_def release_gpu_reservation_def Let_def split: option.splits)

lemma get_deployment_cong: "cd_deployments db' = cd_deployments db \<Longrightarrow> get_deployment e db' = get_deployment e db"
  by (simp add: get_deployment_def)

lemma get_deployment_frame [simp]:
  "get_deployment e (save_assignment a db) = get_deployment e db"
  "get_deployment e (snd (update_assignment_status now did st r db)) = get_deployment e db"
  "get_deployment e (snd (update_placement_status now did st r i c db)) = get_deployment e db"
  "get_deployment e (add_deployment_event su db) = get_deployment e db"
  "get_deployment e (snd (reserve_gpus now d hk n g cp db)) = get_deployment e db"
  "get_deployment e (snd (release_gpu_reservation now d db)) = get_deployment e db"
  "get_deployment e (adjust_node_capacity tmo hk n dg db) = get_deployment e db"
  by (rule get_deployment_cong, simp)+

lemma get_deployment_id: "get_deployment e db = Some d \<Longrightarrow> d_id d = e"
  by (auto simp: get_deployment_def dest: get_row_key)

lemma get_deployment_save:
  assumes "get_deployment (d_id d) db = Some d0" and "d_workload_id d = d_workload_id d0"
  shows "get_deployment e (save_deployment now d db) = (if e = d_id d then Some d else get_deployment e db)"
proof -
  from assms(1) obtain row where row: "get_deployment_row (d_id d) db = Some row" "dr_dep row = d0"
    by (auto simp: get_deployment_def)
  have "d\<lparr>d_workload_id := d_workload_id d0\<rparr> = d" using assms(2) by simp
  with row assms show ?thesis
    by (simp add: save_deployment_def add_account_event_def get_deployment_def get_row_put_row Let_def split: option.split)
qed

lemma get_deployment_billable [simp]: "get_deployment e (set_billable_since did t db) = get_deployment e db"
proof (cases "get_deployment_row did db")
  case (Some row)
  with get_row_key [OF this] show ?thesis
    by (cases "e = did") (simp_all add: set_billable_since_def get_deployment_def get_row_put_row)
qed (simp add: set_billable_since_def)

lemma apply_report_simps [simp]:
  "d_id (apply_report now upd st d) = d_id d" "d_workload_id (apply_report now upd st d) = d_workload_id d"
  "d_state (apply_report now upd st d) = st" "d_owner (apply_report now upd st d) = d_owner d"
  "d_hotkey (apply_report now upd st d) = d_hotkey d" "d_node_id (apply_report now upd st d) = d_node_id d"
  "d_hourly_rate_cents (apply_report now upd st d) = d_hourly_rate_cents d"
  by (simp_all add: apply_report_def Let_def split: option.split)

lemma transition_state_Inr: "transition_state a b = Inr c \<Longrightarrow> c = b \<and> (b = a \<or> b \<in> set (ALLOWED_TRANSITIONS a))"
  by (auto simp: transition_state_def split: if_splits)

lemma update_status_cases:
  assumes d: "get_deployment (su_deployment_id upd) (c_db s) = Some d"
  obtains (finished) "d_state d \<in> {TERMINATED, FAILED}" "update_deployment_status env now upd s = (Inr d, s)"
  | (illegal) "d_state d \<notin> {TERMINATED, FAILED}" "su_state upd \<noteq> d_state d"
      "su_state upd \<notin> set (ALLOWED_TRANSITIONS (d_state d))"
      "update_deployment_status env now upd s = (Inl (InvalidDeploymentTransition (d_state d) (su_state upd)), s)"
  | (accepted) s' where "d_state d \<notin> {TERMINATED, FAILED}"
      "su_state upd = d_state d \<or> su_state upd \<in> set (ALLOWED_TRANSITIONS (d_state d))"
      "update_deployment_status env now upd s = (Inr (apply_report now upd (su_state upd) d), s')"
      "\<And>e. get_deployment e (c_db s') =
          (if e = d_id d then Some (apply_report now upd (su_state upd) d) else get_deployment e (c_db s))"
proof -
  have id: "su_deployment_id upd = d_id d" using get_deployment_id [OF d] by simp
  consider "d_state d \<in> {TERMINATED, FAILED}"
    | err where "d_state d \<notin> {TERMINATED, FAILED}" "transition_state (d_state d) (su_state upd) = Inl err"
    | "d_state d \<notin> {TERMINATED, FAILED}" "transition_state (d_state d) (su_state upd) = Inr (su_state upd)"
    using transition_state_Inr by (cases "transition_state (d_state d) (su_state upd)") blast+
  then show ?thesis
  proof cases
    case 1
    with d finished show ?thesis by (simp add: update_deployment_status_def)
  next
    case 2
    with d illegal show ?thesis by (auto simp: update_deployment_status_def transition_state_def split: if_splits)
  next
    case 3
    show ?thesis
    proof (rule accepted)
      show "d_state d \<notin> {TERMINATED, FAILED}" by fact
      show "su_state upd = d_state d \<or> su_state upd \<in> set (ALLOWED_TRANSITIONS (d_state d))"
        using transition_state_Inr [OF 3(2)] by simp
      show "update_deployment_status env now upd s =
          (Inr (apply_report now upd (su_state upd) d), snd (update_deployment_status env now upd s))"
        using d 3 by (simp add: update_deployment_status_def Let_def)
      fix e
      have save: "get_deployment x (save_deployment now (apply_report now upd st d) db) =
          (if x = d_id d then Some (apply_report now upd st d) else get_deployment x db)"
        if "get_deployment (d_id d) db = Some d" for x db st
        using get_deployment_save [of "apply_report now upd st d" db d x now] that by simp
      show "get_deployment e (c_db (snd (update_deployment_status env now upd s))) =
          (if e = d_id d then Some (apply_report now upd (su_state upd) d) else get_deployment e (c_db s))"
        using d 3 by (simp add: update_deployment_status_def Let_def id save split: option.split)
    qed
  qed
qed

section \<open>A small fleet to instantiate the properties on\<close>

definition demo_deployment :: "ident \<Rightarrow> deployment_state \<Rightarrow> deployment" where
  "demo_deployment did st =
     \<lparr>d_id = did, d_workload_id = ''w'', d_name = None, d_owner = Some ''ann'', d_hotkey = None, d_node_id = None,
      d_state = st, d_requested_instances = 1, d_ready_instances = 0, d_endpoint = None, d_ssh_private_key = None,
      d_port_mappings = [], d_ssh_host_keys = [], d_hourly_rate_cents = 50, d_save_on_exhaustion = True,
      d_resume_on_topup = False, d_suspended_reason = None, d_ready_at = None, d_created_by_key = None,
      d_max_runtime_minutes = None, d_suspended_at = None, d_deployment_fee_usd = 0, d_fee_acknowledged = True,
      d_warmup_state = ''pending'', d_last_error = None, d_failure_class = None, d_last_retry_reason = None,
      d_retry_count = 0, d_retry_exhausted = False, d_health_check_failures = 0, d_created_at = 0, d_updated_at = 0\<rparr>"

definition demo_env :: env where
  "demo_env =
     \<lparr>default_lease_ttl_seconds = 3600, miner_heartbeat_timeout_seconds = 120, node_inventory_timeout_seconds = 900,
      server_observed_timeout_seconds = 300, pod_offline_end_after_seconds = 86400, inference_requeue_after_seconds = 900,
      deployment_request_retry_limit = 10, deployment_reassign_retry_limit = 10,
      deployment_request_retry_delay_seconds = 10, deployment_health_failure_threshold = 3,
      placement_failure_cooldown_seconds = 120, idle_private_endpoint_timeout_seconds = 1800,
      pod_storage_billing_enabled = True, pod_exhaustion_reaper_enabled = True, pod_unsaved_grace_minutes = 15,
      pod_saved_retention_days = 30, public_rental_gpu_families = [], rate_for_gpu = (\<lambda>_. 40), gpu_rates = [40],
      canonical_vram_gb = (\<lambda>_ _. None), storage_cents_per_day = 100, storage_mcents_per_minute = 69,
      initial_lease_status = ''assigned'', blank_deployment = demo_deployment [] PENDING,
      new_uuid = (\<lambda>n. CHR ''u'' # show_nat n), exc_text = (\<lambda>_. ''error'')\<rparr>"

definition demo_request :: create_request where
  "demo_request = \<lparr>rq_workload_id = ''w'', rq_name = None, rq_owner = Some ''ann'', rq_key_id = None, rq_instances = 1,
     rq_save_on_exhaustion = True, rq_resume_on_topup = False, rq_max_runtime_minutes = None, rq_accept_fee = True\<rparr>"

definition demo_fleet :: control where
  "demo_fleet =
     on_db (upsert_workload (demo_workload ''pod'' 2))
      (update_capacity demo_env \<lparr>cap_hotkey = ''hk'', cap_nodes = [demo_node ''n1'' 2 2 1], cap_observed_at = 0\<rparr>
        (on_db (upsert_heartbeat \<lparr>hb_hotkey = ''hk'', hb_healthy = True, hb_active_deployments = 0, hb_active_leases = 0,
                                   hb_observed_at = 0\<rparr>) empty_control))"

definition demo_scheduled :: control where
  "demo_scheduled =
     snd (process_pending_events demo_env 5 10
       (snd (create_deployment demo_env 4 demo_request (snd (create_deployment demo_env 3 demo_request demo_fleet)))))"

definition demo_control :: "deployment \<Rightarrow> control" where
  "demo_control d = empty_control\<lparr>c_db := empty_db\<lparr>cd_workloads := [demo_workload ''pod'' 2],
     cd_deployments := [\<lparr>dr_dep = d, dr_metering_remainder = 0, dr_storage_remainder = 0,
                         dr_billable_since = None, dr_multi_node = None\<rparr>]\<rparr>\<rparr>"

lemma get_demo [simp]: "get_deployment e (c_db (demo_control d)) = (if e = d_id d then Some d else None)"
  by (simp add: demo_control_def get_deployment_def)

section \<open>Properties\<close>

text \<open>
  (C1) GPUs are never double-booked: whatever calls are made in whatever order (registrations,
  capacity reports, creations, machine reports, scheduling, resumes, requeues, clean-ups,
  time-outs, recovery), the active reservations of a node never exceed the GPUs it has.
\<close>

theorem no_double_booking:
  assumes "\<And>n. 0 \<le> gpus n" and "(control_step env gpus)\<^sup>*\<^sup>* empty_control s"
  shows "reserved_gpus_for_node n (c_db s) \<le> gpus n"
  using control_machine.run_keeps [OF assms(2) empty_safe [OF assms(1)]]
  by (simp add: safe_def ledger.fits_def)

theorem no_double_booking_witness:
  "reserved_gpus_for_node ''n1'' (c_db demo_scheduled) \<le> 2"
proof -
  let ?gpus = "\<lambda>_. 2 :: int"
  let ?step = "control_step demo_env ?gpus"
  have "?step\<^sup>*\<^sup>* empty_control demo_fleet"
    unfolding demo_fleet_def
    by (rule rtranclp.rtrancl_into_rtrancl [rotated], rule control_step.intros(5), simp add: demo_workload_def,
        rule rtranclp.rtrancl_into_rtrancl [rotated], rule control_step.intros(4), simp add: demo_node_def,
        rule r_into_rtranclp, rule control_step.intros(3))
  then have "?step\<^sup>*\<^sup>* empty_control demo_scheduled"
    unfolding demo_scheduled_def
    by (rule rtranclp.rtrancl_into_rtrancl [OF rtranclp.rtrancl_into_rtrancl [OF rtranclp.rtrancl_into_rtrancl]])
      (rule control_step.intros)+
  then show ?thesis by (intro no_double_booking [where gpus = ?gpus]) simp_all
qed

text \<open>
  (C12) The lifecycle is enforced on every report: a finished deployment absorbs it (nothing at
  all changes), a transition the table does not allow is refused with an error and changes
  nothing, and otherwise the stored deployment takes the reported state and every other
  deployment is left as it was.
\<close>

theorem report_follows_lifecycle:
  assumes "get_deployment (su_deployment_id upd) (c_db s) = Some d"
  shows "case update_deployment_status env now upd s of
      (Inl err, s') \<Rightarrow> err = InvalidDeploymentTransition (d_state d) (su_state upd) \<and> s' = s \<and>
                       d_state d \<notin> {TERMINATED, FAILED} \<and>
                       su_state upd \<noteq> d_state d \<and> su_state upd \<notin> set (ALLOWED_TRANSITIONS (d_state d))
    | (Inr r, s') \<Rightarrow>
        if d_state d \<in> {TERMINATED, FAILED} then r = d \<and> s' = s
        else d_state r = su_state upd \<and> (su_state upd = d_state d \<or> su_state upd \<in> set (ALLOWED_TRANSITIONS (d_state d))) \<and>
             get_deployment (d_id d) (c_db s') = Some r \<and>
             (\<forall>e. e \<noteq> d_id d \<longrightarrow> get_deployment e (c_db s') = get_deployment e (c_db s))"
  using assms by (cases rule: update_status_cases [where env = env and now = now]) auto

theorem report_follows_lifecycle_witness:
  "update_deployment_status demo_env 9 (own_report ''d'' READY [] None 9) (demo_control (demo_deployment ''d'' FAILED)) =
     (Inr (demo_deployment ''d'' FAILED), demo_control (demo_deployment ''d'' FAILED)) \<and>
   fst (update_deployment_status demo_env 9 (own_report ''d'' READY [] None 9) (demo_control (demo_deployment ''d'' PENDING))) =
     Inl (InvalidDeploymentTransition PENDING READY)"
proof -
  have get: "get_deployment (su_deployment_id (own_report ''d'' READY [] None 9)) (c_db (demo_control (demo_deployment ''d'' st))) =
      Some (demo_deployment ''d'' st)" for st
    by (simp add: own_report_def demo_deployment_def)
  have st: "d_state (demo_deployment ''d'' st) = st" "su_state (own_report ''d'' READY [] None 9) = READY" for st
    by (simp_all add: demo_deployment_def own_report_def)
  show ?thesis
    using report_follows_lifecycle [OF get [of FAILED], of demo_env 9] report_follows_lifecycle [OF get [of PENDING], of demo_env 9]
    by (auto simp: st split: prod.splits sum.splits)
qed

end
