(* ===== verification/Control_Guarantees.thy ===== *)
theory Control_Guarantees
  imports Control_Properties
begin

text \<open>
  Guarantees of single control-plane calls: a deployment that stops running frees exactly the
  GPUs it held, a placement holds what it grants and never raises the quoted price, scheduling
  gives up after the configured attempts, running rentals are not moved, the placement preview
  agrees with placement, and account events match state changes one to one.
\<close>

section \<open>Reservations of one deployment\<close>

lemma find_key_cond:
  "distinct_keys key rows \<Longrightarrow>
   find (\<lambda>r. key r = k \<and> Q r) rows = (case get_row key k rows of None \<Rightarrow> None | Some r \<Rightarrow> if Q r then Some r else None)"
proof (induction rows)
  case (Cons x xs)
  have "find (\<lambda>r. key r = k \<and> Q r) xs = None" if "k \<notin> key ` set xs"
    using that by (auto simp: find_None_iff)
  with Cons show ?case by (auto split: option.split)
qed simp

lemma active_reservation_row:
  "ledger_wf db \<Longrightarrow> get_active_reservation did db =
     (case get_row rs_deployment_id did (cd_reservations db) of
        None \<Rightarrow> None | Some r \<Rightarrow> if rs_status r = ResActive then Some r else None)"
  unfolding get_active_reservation_def ledger_wf_def by (rule find_key_cond) simp

lemma active_reservation_cong:
  "cd_reservations db' = cd_reservations db \<Longrightarrow> get_active_reservation did db' = get_active_reservation did db"
  by (simp add: get_active_reservation_def)

lemma reserved_cong:
  "cd_reservations db' = cd_reservations db \<Longrightarrow> reserved_gpus_for_node n db' = reserved_gpus_for_node n db"
  by (simp add: reserved_gpus_for_node_def)

lemma release_cong:
  "cd_reservations db' = cd_reservations db \<Longrightarrow>
   cd_reservations (snd (release_gpu_reservation now did db')) = cd_reservations (snd (release_gpu_reservation now did db))"
  by (simp add: release_gpu_reservation_def split: option.split)

lemma released_is_inactive:
  assumes "ledger_wf db"
  shows "get_active_reservation did (snd (release_gpu_reservation now did db)) = None"
proof (cases "find (\<lambda>r. rs_deployment_id r = did \<and> rs_status r = ResActive) (cd_reservations db)")
  case None
  then show ?thesis by (simp add: release_gpu_reservation_def get_active_reservation_def)
next
  case (Some row)
  have "get_row rs_deployment_id did (cd_reservations (snd (release_gpu_reservation now did db))) = Some (release_row now row)"
    using Some find_active [OF Some] by (simp add: release_gpu_reservation_def get_row_put_row)
  then show ?thesis
    using active_reservation_row [OF release_gpu_wf [OF assms]] by simp
qed

lemma reserved_split:
  assumes "ledger_wf db"
  shows "reserved_gpus_for_node n db =
    sum_rows (\<lambda>r. rs_status r = ResActive \<and> rs_node_id r = n \<and> rs_deployment_id r \<noteq> did) rs_gpu_count (cd_reservations db) +
    (case get_active_reservation did db of None \<Rightarrow> 0 | Some r \<Rightarrow> if rs_node_id r = n then rs_gpu_count r else 0)"
proof (cases "get_row rs_deployment_id did (cd_reservations db)")
  case None
  then have "\<forall>r \<in> set (cd_reservations db). rs_deployment_id r \<noteq> did" by (auto simp: get_row_None_iff)
  then show ?thesis
    using None by (auto simp: active_reservation_row [OF assms] reserved_gpus_for_node_def intro!: sum_rows_cong)
next
  case (Some r)
  with assms sum_rows_split_key [OF _ Some, of "\<lambda>r. rs_status r = ResActive \<and> rs_node_id r = n" rs_gpu_count]
  show ?thesis by (auto simp: active_reservation_row [OF assms] reserved_gpus_for_node_def ledger_wf_def conj_assoc)
qed

lemma status_reservations:
  assumes "get_deployment (su_deployment_id upd) (c_db s) = Some d" and "d_state d \<notin> {TERMINATED, FAILED}"
    and "su_state upd \<in> {SUSPENDED, FAILED, TERMINATED}" and "update_deployment_status env now upd s = (Inr d', s')"
  shows "cd_reservations (c_db s') = cd_reservations (snd (release_gpu_reservation now (su_deployment_id upd) (c_db s)))"
  using assms
  by (auto simp: update_deployment_status_def Let_def split: sum.split_asm option.split_asm intro!: release_cong)

text \<open>
  (C20) A deployment that stops running gives back exactly what it held: after an accepted
  report that it was suspended, failed or terminated it has no active reservation, and each
  node's reserved GPUs have fallen by the GPUs the deployment held there, no more and no less.
\<close>

theorem stopped_frees_gpus:
  assumes "ledger_wf (c_db s)" and "get_deployment (su_deployment_id upd) (c_db s) = Some d"
    and "d_state d \<notin> {TERMINATED, FAILED}" and "su_state upd \<in> {SUSPENDED, FAILED, TERMINATED}"
    and "update_deployment_status env now upd s = (Inr d', s')"
  shows "get_active_reservation (su_deployment_id upd) (c_db s') = None \<and>
    reserved_gpus_for_node n (c_db s') = reserved_gpus_for_node n (c_db s) -
      (case get_active_reservation (su_deployment_id upd) (c_db s) of
         None \<Rightarrow> 0 | Some r \<Rightarrow> if rs_node_id r = n then rs_gpu_count r else 0)"
proof -
  let ?rel = "snd (release_gpu_reservation now (su_deployment_id upd) (c_db s))"
  note same = status_reservations [OF assms(2-5)]
  have "get_active_reservation (su_deployment_id upd) (c_db s') = None"
    using active_reservation_cong [OF same] released_is_inactive [OF assms(1)] by simp
  moreover have "reserved_gpus_for_node n (c_db s') = reserved_gpus_for_node n ?rel"
    using reserved_cong [OF same] by simp
  ultimately show ?thesis
    using reserved_after_release [OF assms(1), of n now "su_deployment_id upd"]
      reserved_split [OF assms(1), of n "su_deployment_id upd"] by simp
qed

definition demo_holding :: control where
  "demo_holding = on_db (\<lambda>db. db\<lparr>cd_reservations := [\<lparr>rs_deployment_id = ''d'', rs_hotkey = ''hk'', rs_node_id = ''n1'',
      rs_gpu_count = 2, rs_status = ResActive, rs_created_at = 0, rs_released_at = None\<rparr>]\<rparr>)
      (demo_control (demo_deployment ''d'' READY))"

theorem stopped_frees_gpus_witness:
  "\<exists>d' s'. update_deployment_status demo_env 9 (own_report ''d'' SUSPENDED ''paused'' None 9) demo_holding = (Inr d', s') \<and>
     reserved_gpus_for_node ''n1'' (c_db demo_holding) = 2 \<and> reserved_gpus_for_node ''n1'' (c_db s') = 0"
proof -
  let ?upd = "own_report ''d'' SUSPENDED ''paused'' None 9"
  have get: "get_deployment (su_deployment_id ?upd) (c_db demo_holding) = Some (demo_deployment ''d'' READY)"
    by (simp add: demo_holding_def own_report_def demo_control_def get_deployment_def demo_deployment_def)
  have st: "d_state (demo_deployment ''d'' READY) = READY" "su_state ?upd = SUSPENDED" "su_deployment_id ?upd = ''d''"
    by (simp_all add: demo_deployment_def own_report_def)
  have wf: "ledger_wf (c_db demo_holding)" by (simp add: demo_holding_def ledger_wf_def)
  have held: "reserved_gpus_for_node ''n1'' (c_db demo_holding) = 2"
    by (simp add: demo_holding_def reserved_gpus_for_node_def)
  from get obtain d' s' where run: "update_deployment_status demo_env 9 ?upd demo_holding = (Inr d', s')"
    by (rule update_status_cases [where env = demo_env and now = 9]) (auto simp: st)
  have "reserved_gpus_for_node ''n1'' (c_db s') = 0"
    using stopped_frees_gpus [OF wf get _ _ run, of "''n1''"] held
    by (simp add: st get_active_reservation_def demo_holding_def)
  with run held show ?thesis by blast
qed

section \<open>Placement\<close>

lemma reserved_is_active:
  assumes "ledger_wf db" and "0 \<le> g" and "fst (reserve_gpus now did hk n g c db)"
  shows "\<exists>r. get_active_reservation did (snd (reserve_gpus now did hk n g c db)) = Some r \<and>
    rs_node_id r = n \<and> rs_hotkey r = hk \<and> rs_gpu_count r = g"
  using active_reservation_row [OF reserve_gpus_wf [OF assms(1,2), of now did hk n c], of did] assms(3)
  by (auto simp: reserve_gpus_def Let_def get_row_put_row split: if_splits)

lemma assign_SomeE:
  assumes wf: "ledger_wf (c_db s)" and w: "0 \<le> rq_gpu_count (wl_requirements w)"
    and run: "assign_deployment env now w did s = (Some a, s1)"
  obtains "la_deployment_id a = did" "la_expires_at a = Some (now + seconds (default_lease_ttl_seconds env))"
    "cd_deployments (c_db s1) = cd_deployments (c_db s)"
    "\<exists>r. get_active_reservation did (c_db s1) = Some r \<and> rs_node_id r = la_node_id a \<and> rs_hotkey r = la_hotkey a \<and>
       rs_gpu_count r = rq_gpu_count (wl_requirements w)"
    "\<exists>n \<in> set (list_nodes (c_db s)). n_node_id n = la_node_id a \<and> n_hotkey n = la_hotkey a \<and>
       meets_requirements w (reserved_gpus_by_node (c_db s)) n"
proof -
  let ?nodes = "schedulable_nodes env now (Some did) (c_db s)"
  let ?gpus = "rq_gpu_count (wl_requirements w)"
  from run obtain a0 where a0: "assign_lease (new_uuid env (c_draws s)) now (initial_lease_status env) w did ?nodes
      (reserved_gpus_by_node (c_db s)) = Some a0"
    by (auto simp: assign_deployment_def Let_def split: option.splits)
  define c where "c = map_option n_gpu_count (find (\<lambda>n. n_node_id n = la_node_id a0) ?nodes)"
  define r0 where "r0 = reserve_gpus now did (la_hotkey a0) (la_node_id a0) ?gpus c (c_db s)"
  have ok: "fst r0" and a: "a = a0\<lparr>la_expires_at := Some (now + seconds (default_lease_ttl_seconds env))\<rparr>"
    and s1: "c_db s1 = adjust_node_capacity (node_inventory_timeout_seconds env) (la_hotkey a0) (la_node_id a0) (- ?gpus) (snd r0)"
    using run a0 by (auto simp: assign_deployment_def Let_def case_prod_unfold c_def r0_def split: if_splits)
  from a0 obtain n where n: "n \<in> set ?nodes" "meets_requirements w (reserved_gpus_by_node (c_db s)) n"
    "la_node_id a0 = n_node_id n" "la_hotkey a0 = n_hotkey n" "la_deployment_id a0 = did"
    by (elim assign_lease_SomeE) (auto simp: node_eligible_iff)
  show ?thesis
  proof (rule that)
    show "la_deployment_id a = did" and "la_expires_at a = Some (now + seconds (default_lease_ttl_seconds env))"
      using n a by simp_all
    show "cd_deployments (c_db s1) = cd_deployments (c_db s)" by (simp add: s1 r0_def)
    show "\<exists>r. get_active_reservation did (c_db s1) = Some r \<and> rs_node_id r = la_node_id a \<and> rs_hotkey r = la_hotkey a \<and>
       rs_gpu_count r = ?gpus"
      using reserved_is_active [OF wf w] ok unfolding s1 active_reservation_cong [OF capacity_frame(7)]
      by (simp add: r0_def a)
    show "\<exists>n \<in> set (list_nodes (c_db s)). n_node_id n = la_node_id a \<and> n_hotkey n = la_hotkey a \<and>
       meets_requirements w (reserved_gpus_by_node (c_db s)) n"
      using n a schedulable_subset [of env now "Some did" "c_db s"] by auto
  qed
qed

text \<open>
  (C13) A placement holds what it grants and keeps the price: when a queued request is placed,
  the deployment was pending; it is stored as scheduled on a registered node that meets every
  requirement; it has an active reservation for exactly its GPUs on that node and a lease there
  with the configured lifetime; and its hourly rate is not above the rate quoted before.
\<close>

theorem placement_holds_what_it_grants:
  assumes "safe gpus (c_db s)" and "process_deployment_request env now ev s = (Inr (Some d'), s')"
  shows "\<exists>d w r a. get_deployment (d_id d') (c_db s) = Some d \<and> d_state d = PENDING \<and>
      get_workload (d_workload_id d) (c_db s) = Some w \<and>
      d_state d' = SCHEDULED \<and> get_deployment (d_id d') (c_db s') = Some d' \<and>
      (\<exists>n \<in> set (list_nodes (c_db s)). d_node_id d' = Some (n_node_id n) \<and> d_hotkey d' = Some (n_hotkey n) \<and>
         meets_requirements w (reserved_gpus_by_node (c_db s)) n) \<and>
      get_active_reservation (d_id d') (c_db s') = Some r \<and> d_node_id d' = Some (rs_node_id r) \<and>
      rs_gpu_count r = rq_gpu_count (wl_requirements w) \<and>
      get_row la_deployment_id (d_id d') (cd_assignments (c_db s')) = Some a \<and> d_node_id d' = Some (la_node_id a) \<and>
      d_hotkey d' = Some (la_hotkey a) \<and> la_expires_at a = Some (now + seconds (default_lease_ttl_seconds env)) \<and>
      (d_hourly_rate_cents d \<noteq> 0 \<longrightarrow> d_hourly_rate_cents d' \<le> d_hourly_rate_cents d)"
proof -
  have wf: "ledger_wf (c_db s)" using assms(1) by (simp add: safe_def ledger.fits_def)
  from assms(2) obtain d w a s1 where d: "get_deployment (payload_deployment_id (msg_payload ev)) (c_db s) = Some d"
    and pending: "d_state d = PENDING" and w: "get_workload (d_workload_id d) (c_db s) = Some w"
    and assign: "assign_deployment env now w (d_id d) s = (Some a, s1)"
    and place: "place_deployment env now ev d a s1 = (Inr (Some d'), s')"
    by (auto simp: process_deployment_request_def placement_failed_def Let_def
        split: option.split_asm if_split_asm prod.split_asm sum.split_asm)
  have d: "get_deployment (d_id d) (c_db s) = Some d" using d get_deployment_id [OF d] by simp
  from assign_SomeE [OF wf safe_workload_nonneg [OF assms(1) w] assign] obtain r where
    a: "la_deployment_id a = d_id d" "la_expires_at a = Some (now + seconds (default_lease_ttl_seconds env))"
    and deps: "cd_deployments (c_db s1) = cd_deployments (c_db s)"
    and r: "get_active_reservation (d_id d) (c_db s1) = Some r" "rs_node_id r = la_node_id a"
      "rs_gpu_count r = rq_gpu_count (wl_requirements w)"
    and n: "\<exists>n \<in> set (list_nodes (c_db s)). n_node_id n = la_node_id a \<and> n_hotkey n = la_hotkey a \<and>
       meets_requirements w (reserved_gpus_by_node (c_db s)) n"
    by blast
  have n': "\<exists>n \<in> set (list_nodes (c_db s)). la_node_id a = n_node_id n \<and> la_hotkey a = n_hotkey n \<and>
       meets_requirements w (reserved_gpus_by_node (c_db s)) n"
    using n by (metis (no_types))
  have d': "d_id d' = d_id d" "d_state d' = SCHEDULED" "d_workload_id d' = d_workload_id d"
    "d_node_id d' = Some (la_node_id a)" "d_hotkey d' = Some (la_hotkey a)"
    "d_hourly_rate_cents d \<noteq> 0 \<longrightarrow> d_hourly_rate_cents d' \<le> d_hourly_rate_cents d"
    and s': "c_db s' = save_deployment now d' (save_assignment a (c_db s1))"
    using place by (auto simp: place_deployment_def Let_def)
  have "get_deployment (d_id d) (save_assignment a (c_db s1)) = Some d"
    using d get_deployment_cong [OF deps] by simp
  then have saved: "get_deployment (d_id d) (c_db s') = Some d'"
    using get_deployment_save [of d' "save_assignment a (c_db s1)" d "d_id d" now] d' by (simp add: s')
  have lease: "\<exists>a'. get_row la_deployment_id (d_id d) (cd_assignments (c_db s')) = Some a' \<and> la_node_id a' = la_node_id a \<and>
      la_hotkey a' = la_hotkey a \<and> la_expires_at a' = la_expires_at a"
    using a by (auto simp: s' save_deployment_def add_account_event_def save_assignment_def Let_def get_row_put_row
        split: option.split)
  have "get_active_reservation (d_id d) (c_db s') = Some r"
    using r(1) active_reservation_cong [of "c_db s'" "c_db s1" "d_id d"] by (simp add: s')
  with d pending w d' saved n' r a lease show ?thesis by auto
qed

definition demo_pool :: control where
  "demo_pool = on_db (\<lambda>db. db\<lparr>
      cd_inventory := [\<lparr>ni_node_id = ''n1'', ni_hotkey = ''hk'', ni_server_id = None, ni_payload = demo_node ''n1'' 2 2 1,
                        ni_observed_at = 0\<rparr>],
      cd_heartbeats := [\<lparr>hb_hotkey = ''hk'', hb_healthy = True, hb_active_deployments = 0, hb_active_leases = 0,
                          hb_observed_at = 0\<rparr>]\<rparr>) (demo_control (demo_deployment ''d'' PENDING))"

definition demo_message :: "int \<Rightarrow> payload bus_message" where
  "demo_message attempts = \<lparr>msg_delivery_id = 1, msg_event_id = ''e'', msg_consumer = ''control-plane-worker'',
     msg_subject = ''deployment.requested'', msg_payload = DeploymentRequested ''d'' ''w'' 1, msg_attempts = attempts,
     msg_available_at = 0, msg_last_error = None\<rparr>"

lemma demo_node_meets: "meets_requirements (demo_workload ''pod'' 2) [] (demo_node ''n1'' 2 2 1)"
  by (simp add: meets_requirements_def demo_workload_def demo_node_def reserved_at_def allowed_kinds_def strip_def)

lemma demo_pool_db:
  "list_nodes (c_db demo_pool) = [demo_node ''n1'' 2 2 1]" "reserved_gpus_by_node (c_db demo_pool) = []"
  "schedulable_nodes demo_env 5 (Some ''d'') (c_db demo_pool) = [demo_node ''n1'' 2 2 1]"
  "cd_reservations (c_db demo_pool) = []" "cd_capacities (c_db demo_pool) = []"
  "get_deployment ''d'' (c_db demo_pool) = Some (demo_deployment ''d'' PENDING)"
  "get_workload ''w'' (c_db demo_pool) = Some (demo_workload ''pod'' 2)"
proof -
  show nodes: "list_nodes (c_db demo_pool) = [demo_node ''n1'' 2 2 1]"
    by (simp add: demo_pool_def list_nodes_def)
  show "reserved_gpus_by_node (c_db demo_pool) = []" "cd_reservations (c_db demo_pool) = []"
    "cd_capacities (c_db demo_pool) = []" "get_deployment ''d'' (c_db demo_pool) = Some (demo_deployment ''d'' PENDING)"
    "get_workload ''w'' (c_db demo_pool) = Some (demo_workload ''pod'' 2)"
    by (simp_all add: demo_pool_def demo_control_def empty_db_def reserved_gpus_by_node_def get_deployment_def
        demo_deployment_def demo_workload_def)
  have "skip_reasons demo_env 5 (Some ''d'') (c_db demo_pool) (demo_node ''n1'' 2 2 1) = []"
    by (simp add: skip_reasons_def demo_pool_def demo_control_def empty_db_def demo_node_def is_node_stale_def demo_env_def
        seconds_def is_server_for_node_stale_def server_for_node_def is_node_in_cooldown_def list_placements_def)
  then show "schedulable_nodes demo_env 5 (Some ''d'') (c_db demo_pool) = [demo_node ''n1'' 2 2 1]"
    by (simp add: schedulable_nodes_def nodes)
qed

theorem placement_holds_what_it_grants_witness:
  "\<exists>d' s' r. process_deployment_request demo_env 5 (demo_message 1) demo_pool = (Inr (Some d'), s') \<and>
     d_state d' = SCHEDULED \<and> d_hourly_rate_cents d' \<le> 50 \<and>
     get_active_reservation ''d'' (c_db s') = Some r \<and> rs_gpu_count r = 2"
proof -
  have safe: "safe (\<lambda>_. 2) (c_db demo_pool)"
    by (simp add: safe_def ledger.fits_def ledger_wf_def reserved_gpus_for_node_def sizes_ok_def demo_pool_db)
      (simp add: demo_pool_def demo_control_def demo_workload_def demo_node_def empty_db_def)
  have st: "d_state (demo_deployment ''d'' PENDING) = PENDING" "d_workload_id (demo_deployment ''d'' PENDING) = ''w''"
    "d_id (demo_deployment ''d'' PENDING) = ''d''" "payload_deployment_id (msg_payload (demo_message 1)) = ''d''"
    "n_node_id (demo_node ''n1'' 2 2 1) = ''n1''" "n_gpu_count (demo_node ''n1'' 2 2 1) = 2"
    "rq_gpu_count (wl_requirements (demo_workload ''pod'' 2)) = 2" "d_hourly_rate_cents (demo_deployment ''d'' PENDING) = 50"
    by (simp_all add: demo_deployment_def demo_message_def demo_node_def demo_workload_def)
  have "\<exists>a s1. assign_deployment demo_env 5 (demo_workload ''pod'' 2) ''d'' demo_pool = (Some a, s1)"
    using demo_node_meets
    by (simp add: assign_deployment_def demo_pool_db assign_lease_def rank_nodes_def node_eligible_iff st Let_def
        reserve_gpus_def)
  then obtain d' s' where run: "process_deployment_request demo_env 5 (demo_message 1) demo_pool = (Inr (Some d'), s')"
    by (auto simp: process_deployment_request_def demo_pool_db st place_deployment_def Let_def)
  have id: "d_id d' = ''d''"
    using run by (auto simp: process_deployment_request_def demo_pool_db st place_deployment_def placement_failed_def Let_def
        split: prod.splits option.splits sum.splits if_splits)
  show ?thesis
    using placement_holds_what_it_grants [OF safe run] run by (auto simp: id demo_pool_db st)
qed

lemma assign_None_same: "assign_deployment env now w did s = (None, s1) \<Longrightarrow> s1 = s"
  by (auto simp: assign_deployment_def Let_def case_prod_unfold split: option.split_asm if_split_asm)

text \<open>
  Scheduling gives up, and only then: when no node takes a pending deployment, it is stored
  as failed with its retries marked exhausted exactly if this delivery has used up its attempts
  or the deployment its lifetime reassignments; otherwise it stays pending with the attempt
  counted, to be retried.
\<close>

theorem scheduling_gives_up:
  assumes d: "get_deployment (payload_deployment_id (msg_payload ev)) (c_db s) = Some d"
    and pending: "d_state d = PENDING" and w: "get_workload (d_workload_id d) (c_db s) = Some w"
    and none: "fst (assign_deployment env now w (d_id d) s) = None"
  shows "\<exists>d'. get_deployment (d_id d) (c_db (snd (process_deployment_request env now ev s))) = Some d' \<and>
      d_retry_count d' = max (d_retry_count d) (msg_attempts ev) \<and>
      (if deployment_request_retry_limit env \<le> msg_attempts ev \<or>
          deployment_reassign_retry_limit env \<le> max (d_retry_count d) (msg_attempts ev)
       then d_state d' = FAILED \<and> d_retry_exhausted d' else d_state d' = PENDING)"
proof -
  have id: "payload_deployment_id (msg_payload ev) = d_id d" using get_deployment_id [OF d] by simp
  have assign: "assign_deployment env now w (d_id d) s = (None, s)"
    using none assign_None_same by (cases "assign_deployment env now w (d_id d) s") auto
  have run: "process_deployment_request env now ev s = placement_failed env now ev d s"
    using d pending w assign by (simp add: process_deployment_request_def)
  define d1 where "d1 = count_attempt now (msg_attempts ev) d"
  define s1 where "s1 = on_db (save_deployment now d1) s"
  have d1: "d_id d1 = d_id d" "d_workload_id d1 = d_workload_id d" "d_state d1 = PENDING"
    "d_retry_count d1 = max (d_retry_count d) (msg_attempts ev)"
    using pending by (simp_all add: d1_def count_attempt_def)
  have s1: "get_deployment (d_id d) (c_db s1) = Some d1"
    using get_deployment_save [of d1 "c_db s" d "d_id d" now] d d1 id by (simp add: s1_def)
  show ?thesis
  proof (cases "deployment_request_retry_limit env \<le> msg_attempts ev \<or>
      deployment_reassign_retry_limit env \<le> max (d_retry_count d) (msg_attempts ev)")
    case False
    then have "c_db (snd (placement_failed env now ev d s)) = c_db s1"
      using d1(4) by (simp add: placement_failed_def Let_def s1_def [symmetric] d1_def [symmetric])
    with s1 d1 False show ?thesis by (auto simp: run)
  next
    case True
    define d2 where "d2 = d1\<lparr>d_retry_exhausted := True\<rparr>"
    define s2 where "s2 = on_db (save_deployment now d2) s1"
    have s2: "get_deployment (d_id d) (c_db s2) = Some d2"
      using get_deployment_save [of d2 "c_db s1" d1 "d_id d" now] s1 d1 by (simp add: s2_def d2_def)
    define reason where "reason = give_up_reason env (msg_attempts ev) d2"
    have fin: "c_db (snd (placement_failed env now ev d s)) =
        c_db (snd (update_deployment_status env now (own_report (d_id d) FAILED reason None now) s2))"
      using True unfolding placement_failed_def Let_def d1_def [symmetric] s1_def [symmetric] d2_def [symmetric]
        s2_def [symmetric] reason_def [symmetric] d1(4)
      by (simp add: case_prod_unfold split: sum.split)
    have get: "get_deployment (su_deployment_id (own_report (d_id d) FAILED reason None now)) (c_db s2) = Some d2"
      using s2 by (simp add: own_report_def)
    have d2: "d_state d2 = PENDING" "d_retry_count d2 = max (d_retry_count d) (msg_attempts ev)" "d_id d2 = d_id d"
      "d_retry_exhausted d2"
      using d1 by (simp_all add: d2_def)
    have keep: "d_retry_count (apply_report now u FAILED d2) = d_retry_count d2"
      "d_retry_exhausted (apply_report now u FAILED d2) = d_retry_exhausted d2" if "su_state u = FAILED" for u
      using that by (simp_all add: apply_report_def Let_def split: option.split)
    have st: "su_state (own_report (d_id d) FAILED reason None now) = FAILED" by (simp add: own_report_def)
    have "get_deployment (d_id d) (c_db (snd (update_deployment_status env now (own_report (d_id d) FAILED reason None now) s2))) =
        Some (apply_report now (own_report (d_id d) FAILED reason None now) FAILED d2)"
      using get by (cases rule: update_status_cases [where env = env and now = now]) (auto simp: st d2)
    then show ?thesis
      using True d2 keep [OF st] by (simp add: run fin)
  qed
qed

theorem scheduling_gives_up_witness:
  "\<exists>d'. get_deployment ''d'' (c_db (snd (process_deployment_request demo_env 5 (demo_message 10)
      (demo_control (demo_deployment ''d'' PENDING))))) = Some d' \<and> d_state d' = FAILED"
proof -
  let ?s = "demo_control (demo_deployment ''d'' PENDING)"
  have d: "get_deployment (payload_deployment_id (msg_payload (demo_message 10))) (c_db ?s) = Some (demo_deployment ''d'' PENDING)"
    by (simp add: demo_message_def demo_deployment_def)
  have w: "get_workload (d_workload_id (demo_deployment ''d'' PENDING)) (c_db ?s) = Some (demo_workload ''pod'' 2)"
    by (simp add: demo_control_def demo_deployment_def demo_workload_def)
  have none: "fst (assign_deployment demo_env 5 (demo_workload ''pod'' 2) (d_id (demo_deployment ''d'' PENDING)) ?s) = None"
    by (simp add: assign_deployment_def schedulable_nodes_def list_nodes_def demo_control_def empty_db_def assign_lease_def
        rank_nodes_def)
  have st: "d_state (demo_deployment ''d'' PENDING) = PENDING" "d_id (demo_deployment ''d'' PENDING) = ''d''"
    "msg_attempts (demo_message 10) = 10" "deployment_request_retry_limit demo_env = 10"
    by (simp_all add: demo_deployment_def demo_message_def demo_env_def)
  show ?thesis
    using scheduling_gives_up [OF d _ w none] by (auto simp: st)
qed

section \<open>Running rentals\<close>

lemma requeue_other:
  "e \<noteq> la_deployment_id a \<Longrightarrow> get_deployment e (c_db (snd (requeue_assignment env now a r t s))) = get_deployment e (c_db s)"
proof (cases "get_deployment (la_deployment_id a) (c_db s)")
  case (Some d)
  assume e: "e \<noteq> la_deployment_id a"
  have id: "d_id d = la_deployment_id a" using Some by (rule get_deployment_id)
  show ?thesis
    using Some e id
    by (auto simp: requeue_assignment_def Let_def get_deployment_save [where ?d0.0 = d] split: option.split)
qed (simp add: requeue_assignment_def)

lemma requeue_finished:
  "get_deployment (la_deployment_id a) (c_db s) = Some d \<Longrightarrow> d_state d \<in> {FAILED, TERMINATED} \<Longrightarrow>
   requeue_assignment env now a r t s = (None, s)"
  by (auto simp: requeue_assignment_def Let_def)

text \<open>A rental is where it was, untouched or ended, but nowhere else.\<close>

definition stayed_put :: "deployment \<Rightarrow> control \<Rightarrow> bool" where
  "stayed_put d s \<longleftrightarrow> (\<exists>d'. get_deployment (d_id d) (c_db s) = Some d' \<and>
     (d' = d \<or> d_state d' = TERMINATED \<and> d_node_id d' = d_node_id d \<and> d_hotkey d' = d_hotkey d))"

definition rental_workload :: "deployment \<Rightarrow> control \<Rightarrow> bool" where
  "rental_workload d s \<longleftrightarrow>
     (case get_workload (d_workload_id d) (c_db s) of None \<Rightarrow> True | Some w \<Rightarrow> wl_kind w \<noteq> INFERENCE)"

lemma status_workloads [simp]: "cd_workloads (c_db (snd (update_deployment_status env now u s))) = cd_workloads (c_db s)"
  by (simp add: update_deployment_status_def Let_def split: option.split sum.split)

lemma requeue_workloads [simp]: "cd_workloads (c_db (snd (requeue_assignment env now a r t s))) = cd_workloads (c_db s)"
  by (simp add: requeue_assignment_def Let_def split: option.split)

lemma handle_workloads [simp]: "cd_workloads (c_db (snd (handle_assignment env now a s))) = cd_workloads (c_db s)"
  by (simp add: handle_assignment_def end_offline_pod_def Let_def split: option.split)

lemma status_other:
  "e \<noteq> su_deployment_id u \<Longrightarrow> get_deployment e (c_db (snd (update_deployment_status env now u s))) = get_deployment e (c_db s)"
proof (cases "get_deployment (su_deployment_id u) (c_db s)")
  case (Some d)
  assume "e \<noteq> su_deployment_id u"
  with Some get_deployment_id [OF Some] show ?thesis
    by (cases rule: update_status_cases [OF Some, where env = env and now = now]) auto
qed (simp add: update_deployment_status_def)

lemma handle_assignment_stays:
  assumes put: "stayed_put d s" and ready: "d_state d = READY" and rental: "rental_workload d s"
  shows "stayed_put d (snd (handle_assignment env now a s))"
proof (cases "la_deployment_id a = d_id d")
  case False
  then have "get_deployment (d_id d) (c_db (snd (handle_assignment env now a s))) = get_deployment (d_id d) (c_db s)"
    by (auto simp: handle_assignment_def end_offline_pod_def Let_def requeue_other status_other own_report_def
        split: option.split dest: get_deployment_id)
  with put show ?thesis by (simp add: stayed_put_def)
next
  case True
  from put obtain d' where d': "get_deployment (d_id d) (c_db s) = Some d'"
    and cases: "d' = d \<or> d_state d' = TERMINATED \<and> d_node_id d' = d_node_id d \<and> d_hotkey d' = d_hotkey d"
    by (auto simp: stayed_put_def)
  from cases show ?thesis
  proof
    assume same: "d' = d"
    have "stayed_put d (end_offline_pod env now d t s)" for t
    proof -
      define u where "u = own_report (d_id d) TERMINATED
        (''ended: the machine running it stopped reporting '' @ show_int (t div seconds 3600) @ '' hours ago'') None now"
      have u: "su_state u = TERMINATED" "su_deployment_id u = d_id d" by (simp_all add: u_def own_report_def)
      have "get_deployment (su_deployment_id u) (c_db s) = Some d" using d' same u by simp
      then show ?thesis
        unfolding end_offline_pod_def u_def [symmetric]
        by (cases rule: update_status_cases [where env = env and now = now]) (auto simp: stayed_put_def u ready)
    qed
    with True d' same ready rental put show ?thesis
      by (auto simp: handle_assignment_def rental_workload_def Let_def split: option.split)
  next
    assume fin: "d_state d' = TERMINATED \<and> d_node_id d' = d_node_id d \<and> d_hotkey d' = d_hotkey d"
    with True d' requeue_finished [of a s d' env now] put show ?thesis
      by (auto simp: handle_assignment_def Let_def split: option.split)
  qed
qed

lemma handle_assignments_stay:
  "stayed_put d s \<Longrightarrow> d_state d = READY \<Longrightarrow> rental_workload d s \<Longrightarrow>
   stayed_put d (snd (handle_assignments env now as acc s))"
proof (induction as arbitrary: acc s)
  case (Cons a as)
  have "stayed_put d (snd (handle_assignment env now a s))" using Cons.prems by (rule handle_assignment_stays)
  moreover have "rental_workload d (snd (handle_assignment env now a s))"
    using Cons.prems(3) by (simp add: rental_workload_def)
  ultimately show ?case
    using Cons by (cases "handle_assignment env now a s") (simp split: option.split)
qed simp

text \<open>
  (C14) A running rental is never moved: the pass over silent machines leaves a ready pod or VM
  exactly as it was, or ends it in place on the same machine; it never sends it back to the
  queue or to another node.  When every machine is silent at once the pass changes nothing.
\<close>

theorem running_rental_never_moved:
  assumes "get_deployment did (c_db s) = Some d" and "d_state d = READY"
    and "case get_workload (d_workload_id d) (c_db s) of None \<Rightarrow> True | Some w \<Rightarrow> wl_kind w \<noteq> INFERENCE"
  shows "(\<exists>d'. get_deployment did (c_db (snd (process_unhealthy_miners env now s))) = Some d' \<and>
      (d' = d \<or> d_state d' = TERMINATED \<and> d_node_id d' = d_node_id d \<and> d_hotkey d' = d_hotkey d)) \<and>
    (cd_assignments (c_db s) \<noteq> [] \<and> \<not> any_miner_reporting env now (c_db s) \<longrightarrow>
       c_db (snd (process_unhealthy_miners env now s)) = c_db s)"
proof -
  have put: "stayed_put d s" using assms(1) get_deployment_id [OF assms(1)] by (simp add: stayed_put_def)
  have rental: "rental_workload d s" using assms(3) by (simp add: rental_workload_def)
  have "stayed_put d (snd (process_unhealthy_miners env now s))"
    using put rental assms(2) by (simp add: process_unhealthy_miners_def Let_def handle_assignments_stay)
  moreover have "handle_assignments env now [] acc s = (acc, s)" for acc by simp
  ultimately show ?thesis
    using get_deployment_id [OF assms(1)] by (auto simp: stayed_put_def process_unhealthy_miners_def Let_def)
qed

theorem running_rental_never_moved_witness:
  "\<exists>d'. get_deployment ''d'' (c_db (snd (process_unhealthy_miners demo_env (seconds 100000)
       (on_db (save_assignment \<lparr>la_assignment_id = ''a'', la_deployment_id = ''d'', la_workload_id = ''w'', la_hotkey = ''hk'',
          la_node_id = ''n1'', la_assigned_at = 0, la_expires_at = None, la_status = ''active''\<rparr>)
         (demo_control (demo_deployment ''d'' READY)))))) = Some d' \<and> d_state d' \<noteq> PENDING"
  (is "\<exists>d'. get_deployment _ (c_db (snd (process_unhealthy_miners _ _ ?s))) = _ \<and> _")
proof -
  have d: "get_deployment ''d'' (c_db ?s) = Some (demo_deployment ''d'' READY)"
    by (simp add: demo_deployment_def)
  have w: "get_workload (d_workload_id (demo_deployment ''d'' READY)) (c_db ?s) = Some (demo_workload ''pod'' 2)"
    by (simp add: demo_control_def demo_deployment_def demo_workload_def)
  have st: "d_state (demo_deployment ''d'' READY) = READY" "wl_kind (demo_workload ''pod'' 2) \<noteq> INFERENCE"
    by (simp_all add: demo_deployment_def demo_workload_def INFERENCE_def)
  have kind: "case get_workload (d_workload_id (demo_deployment ''d'' READY)) (c_db ?s) of
      None \<Rightarrow> True | Some w \<Rightarrow> wl_kind w \<noteq> INFERENCE"
    using w st by simp
  obtain d' where "get_deployment ''d'' (c_db (snd (process_unhealthy_miners demo_env (seconds 100000) ?s))) = Some d'"
    "d' = demo_deployment ''d'' READY \<or> d_state d' = TERMINATED"
    using running_rental_never_moved [OF d st(1) kind, of demo_env "seconds 100000"] by blast
  with st show ?thesis by auto
qed

text \<open>
  A running rental is ended only for a machine that has been silent long enough: handling its
  lease changes nothing unless the machine behind it looks gone and has been silent for at
  least the configured time (a day by default); a missing or unhealthy heartbeat alone does not
  end it.
\<close>

theorem rental_ended_only_after_silence:
  assumes "get_deployment (la_deployment_id a) (c_db s) = Some d" and "d_state d = READY"
    and "case get_workload (d_workload_id d) (c_db s) of None \<Rightarrow> True | Some w \<Rightarrow> wl_kind w \<noteq> INFERENCE"
    and "snd (handle_assignment env now a s) \<noteq> s"
  shows "\<exists>reason t. assignment_problem env now a (c_db s) = Some (reason, Some t) \<and>
    seconds (pod_offline_end_after_seconds env) \<le> t"
  using assms by (auto simp: handle_assignment_def Let_def split: option.split_asm if_split_asm prod.split_asm)

definition demo_silent :: control where
  "demo_silent = on_db (upsert_heartbeat \<lparr>hb_hotkey = ''hk'', hb_healthy = True, hb_active_deployments = 0,
      hb_active_leases = 0, hb_observed_at = 0\<rparr>) (demo_control (demo_deployment ''d'' READY))"

definition demo_lease :: lease_assignment where
  "demo_lease = \<lparr>la_assignment_id = ''a'', la_deployment_id = ''d'', la_workload_id = ''w'', la_hotkey = ''hk'',
     la_node_id = ''n1'', la_assigned_at = 0, la_expires_at = None, la_status = ''active''\<rparr>"

theorem rental_ended_only_after_silence_witness:
  "snd (handle_assignment demo_env (seconds 100000) demo_lease demo_silent) \<noteq> demo_silent \<and>
   snd (handle_assignment demo_env (seconds 1000) demo_lease demo_silent) = demo_silent"
proof -
  have d: "get_deployment (la_deployment_id demo_lease) (c_db demo_silent) = Some (demo_deployment ''d'' READY)"
    by (simp add: demo_silent_def demo_lease_def demo_control_def upsert_heartbeat_def get_deployment_def demo_deployment_def)
  have st: "d_state (demo_deployment ''d'' READY) = READY" "wl_kind (demo_workload ''pod'' 2) \<noteq> INFERENCE"
    "get_workload (d_workload_id (demo_deployment ''d'' READY)) (c_db demo_silent) = Some (demo_workload ''pod'' 2)"
    by (simp_all add: demo_deployment_def demo_workload_def INFERENCE_def demo_silent_def demo_control_def)
  have age: "map_option snd (assignment_problem demo_env (seconds n) demo_lease (c_db demo_silent)) = Some (Some (seconds n))"
    if "120 < n" for n
    using that by (simp add: assignment_problem_def demo_silent_def demo_lease_def upsert_heartbeat_def demo_control_def
        empty_db_def demo_env_def seconds_def Let_def)
  have lim: "pod_offline_end_after_seconds demo_env = 86400" by (simp add: demo_env_def)
  have "snd (handle_assignment demo_env (seconds 1000) demo_lease demo_silent) = demo_silent"
  proof (rule ccontr)
    assume "snd (handle_assignment demo_env (seconds 1000) demo_lease demo_silent) \<noteq> demo_silent"
    from rental_ended_only_after_silence [OF d st(1) _ this] st(2,3) obtain reason t where
      "assignment_problem demo_env (seconds 1000) demo_lease (c_db demo_silent) = Some (reason, Some t)" "seconds 86400 \<le> t"
      by (auto simp: lim)
    with age [of 1000] show False by (simp add: seconds_def)
  qed
  moreover have "get_deployment ''d'' (c_db (end_offline_pod demo_env (seconds 100000) (demo_deployment ''d'' READY) (seconds 100000) demo_silent))
      \<noteq> Some (demo_deployment ''d'' READY)"
  proof -
    define u where "u = own_report (d_id (demo_deployment ''d'' READY)) TERMINATED (''ended: the machine running it stopped reporting ''
        @ show_int (seconds 100000 div seconds 3600) @ '' hours ago'') None (seconds 100000)"
    have u: "su_state u = TERMINATED" "su_deployment_id u = ''d''" by (simp_all add: u_def own_report_def demo_deployment_def)
    have "get_deployment (su_deployment_id u) (c_db demo_silent) = Some (demo_deployment ''d'' READY)"
      using d by (simp add: u demo_lease_def)
    then show ?thesis
      unfolding end_offline_pod_def u_def [symmetric]
      by (cases rule: update_status_cases [where env = demo_env and now = "seconds 100000"])
        (auto simp: u st dest!: arg_cong [of _ _ d_state], simp add: demo_deployment_def)
  qed
  moreover have "snd (handle_assignment demo_env (seconds 100000) demo_lease demo_silent) =
      end_offline_pod demo_env (seconds 100000) (demo_deployment ''d'' READY) (seconds 100000) demo_silent"
    using age [of 100000] d st lim by (auto simp: handle_assignment_def seconds_def)
  ultimately show ?thesis
    using d by (auto simp: demo_lease_def)
qed

section \<open>The preview agrees with placement\<close>

lemma schedulable_no_cooldown:
  assumes "\<And>n. \<not> is_node_in_cooldown now n (Some did) db"
  shows "schedulable_nodes env now (Some did) db = schedulable_nodes env now None db"
proof -
  have "skip_reasons env now (Some did) db n = skip_reasons env now None db n" for n
    using assms by (simp add: skip_reasons_def)
  then show ?thesis by (simp add: schedulable_nodes_def)
qed

text \<open>
  (C23) What is advertised can be placed: for a deployment with no failed placement of its own
  cooling down, the preview says yes exactly when scheduling it at that instant grants a lease
  (node ids being unique in the inventory).
\<close>

theorem preview_agrees_with_placement:
  assumes wf: "ledger_wf (c_db s)" and ids: "distinct_keys n_node_id (list_nodes (c_db s))"
    and cool: "\<And>n. \<not> is_node_in_cooldown now n (Some did) (c_db s)"
  shows "fst (placement_preview env now w (c_db s)) \<longleftrightarrow> fst (assign_deployment env now w did s) \<noteq> None"
proof -
  let ?nodes = "schedulable_nodes env now None (c_db s)"
  let ?res = "reserved_gpus_by_node (c_db s)"
  note same = schedulable_no_cooldown [OF cool, of env]
  have sub: "distinct_keys n_node_id ?nodes"
    using ids by (simp add: schedulable_nodes_def Let_def distinct_map_filter)
  show ?thesis
  proof (cases "assign_lease (new_uuid env (c_draws s)) now (initial_lease_status env) w did ?nodes ?res")
    case None
    then have "rank_nodes w ?nodes ?res = []" by (auto simp: assign_lease_def split: list.splits)
    with None show ?thesis by (simp add: placement_preview_def assign_deployment_def same)
  next
    case (Some a)
    then have ranked: "rank_nodes w ?nodes ?res \<noteq> []" by (auto simp: assign_lease_def)
    from Some obtain n where n: "n \<in> set ?nodes" "node_eligible w ?res n" "la_node_id a = n_node_id n"
      by (elim assign_lease_SomeE)
    have found: "find (\<lambda>x. n_node_id x = la_node_id a) ?nodes = Some n"
      using get_row_distinct [OF sub n(1)] n(3) by (simp add: get_row_def)
    have "sum_rows (\<lambda>r. rs_status r = ResActive \<and> rs_node_id r = la_node_id a \<and> rs_deployment_id r \<noteq> did) rs_gpu_count
        (cd_reservations (c_db s)) + rq_gpu_count (wl_requirements w) \<le> n_gpu_count n"
      using eligible_fits [OF n(2)] others_le_reserved [OF wf, of "la_node_id a" did] n(3)
      by (simp add: reserved_at_by_node)
    then have "fst (assign_deployment env now w did s) \<noteq> None"
      using Some found by (simp add: assign_deployment_def same Let_def reserve_gpus_def)
    moreover have "?nodes \<noteq> []" using n by auto
    ultimately show ?thesis using ranked by (simp add: placement_preview_def)
  qed
qed

theorem preview_agrees_with_placement_witness:
  "fst (placement_preview demo_env 5 (demo_workload ''pod'' 2) (c_db demo_pool)) \<and>
   fst (assign_deployment demo_env 5 (demo_workload ''pod'' 2) ''d'' demo_pool) \<noteq> None"
proof -
  have wf: "ledger_wf (c_db demo_pool)" by (simp add: ledger_wf_def demo_pool_db)
  have ids: "distinct_keys n_node_id (list_nodes (c_db demo_pool))" by (simp add: demo_pool_db)
  have cool: "\<not> is_node_in_cooldown 5 n (Some ''d'') (c_db demo_pool)" for n
    by (simp add: is_node_in_cooldown_def list_placements_def demo_pool_def demo_control_def empty_db_def)
  have nodes: "schedulable_nodes demo_env 5 None (c_db demo_pool) = [demo_node ''n1'' 2 2 1]"
    using schedulable_no_cooldown [OF cool, of demo_env] demo_pool_db(3) by simp
  have "fst (placement_preview demo_env 5 (demo_workload ''pod'' 2) (c_db demo_pool))"
    using demo_node_meets
    by (simp add: placement_preview_def nodes demo_pool_db(2) rank_nodes_def node_eligible_iff)
  with preview_agrees_with_placement [OF wf ids cool, of demo_env "demo_workload ''pod'' 2"] show ?thesis by simp
qed

section \<open>Account events\<close>

text \<open>
  Account events match state changes: saving a deployment adds at most one event, and adds
  one exactly when the deployment has an owner and enters a state a client acts on (ready,
  failed, suspended, terminated); the event is addressed to the owner and carries the new and
  the previous state.
\<close>

theorem account_event_exact:
  "case get_deployment (d_id d) db of
     None \<Rightarrow> True
   | Some old \<Rightarrow>
       if truthy (d_owner d) \<and> d_state d \<in> {READY, FAILED, SUSPENDED, TERMINATED} \<and> d_state d \<noteq> d_state old
       then \<exists>e. cd_account_events (save_deployment now d db) = cd_account_events db @ [e] \<and>
              Some (ae_user_id e) = d_owner d \<and> ae_deployment_id e = d_id d \<and> ae_state e = d_state d \<and>
              ae_previous_state e = Some (d_state old) \<and> ae_type e = ''deployment.'' @ state_value (d_state d)
       else cd_account_events (save_deployment now d db) = cd_account_events db"
proof (cases "get_deployment_row (d_id d) db")
  case None
  then show ?thesis by (simp add: get_deployment_def)
next
  case (Some row)
  have own: "Some (the (d_owner d)) = d_owner d" if "truthy (d_owner d)" using that by (cases "d_owner d") auto
  from Some show ?thesis
    by (auto simp: get_deployment_def save_deployment_def Let_def add_account_event_def deployment_event_def
        event_states_def own split: option.split)
qed

end
