(* ===== verification/Metering.thy ===== *)
theory Metering
  imports Control_Guarantees Billing_Properties
begin

text \<open>
  Charging for running time: the metering half of \<^verbatim>\<open>control_plane/application/services.py\<close>
  (\<^verbatim>\<open>meter_usage\<close>, \<^verbatim>\<open>meter_pod_storage\<close>, the reapers),
  \<^verbatim>\<open>control_plane/domain/metering.py\<close> and \<^verbatim>\<open>persistence/key_limits.py\<close>.

  \<open>world\<close> is the control plane together with the billing tables it charges; the seconds of a
  cycle and the amounts before rounding are rationals.

  The lemmas show that a metering pass loses nothing and invents nothing (what is taken from
  balances plus what is carried is what accrued), that it never overdraws, that the hourly
  forecast and the meter agree, and that rentals are ended only at their deadlines.
\<close>

section \<open>What is charged how\<close>

definition is_catalog_workload :: "ident \<Rightarrow> (string \<times> string) list \<Rightarrow> bool" where
  "is_catalog_workload workload_id metadata \<longleftrightarrow>
     map_of metadata ''managed_by'' = Some ''flux'' \<or> starts_with ''catalog-'' workload_id"

definition is_private_model :: "ident option \<Rightarrow> string \<Rightarrow> ident \<Rightarrow> (string \<times> string) list \<Rightarrow> bool" where
  "is_private_model owner kind workload_id metadata \<longleftrightarrow>
     truthy owner \<and> kind = ''inference'' \<and> \<not> is_catalog_workload workload_id metadata"

text \<open>Dollars with two decimals, as \<^verbatim>\<open>f"{cents / 100:.2f}"\<close> prints a non-negative amount.\<close>

definition dollars :: "int \<Rightarrow> string" where
  "dollars cents =
     show_int (cents div 100) @ ''.'' @ show_int (cents mod 100 div 10) @ show_int (cents mod 100 mod 10)"

definition times_sign :: string where
  "times_sign = [CHR 0xC3, CHR 0x97]"

definition middle_dot :: string where
  "middle_dot = [CHR 0xC2, CHR 0xB7]"

definition rental_charge_description :: "int \<Rightarrow> int \<Rightarrow> string" where
  "rental_charge_description gpu_count hourly_cents =
     ''GPU usage '' @ show_int gpu_count @ times_sign @ '' GPU @ $'' @ dollars hourly_cents @ ''/hr''"

text \<open>\<^verbatim>\<open>rsplit("/", 1)[-1]\<close>: what follows the last slash.\<close>

definition last_segment :: "string \<Rightarrow> string" where
  "last_segment path = last (split_on (CHR ''/'') path)"

definition private_model_charge_description :: "workload option \<Rightarrow> int \<Rightarrow> int \<Rightarrow> string" where
  "private_model_charge_description w gpu_count hourly_cents =
     (let name = (case w of
            None \<Rightarrow> None
          | Some wl \<Rightarrow>
              str_or (wl_display_name wl)
                (str_or (if truthy (wl_model_identifier wl)
                         then Some (last_segment (the (wl_model_identifier wl))) else None)
                   (Some (wl_name wl))));
          gpus = (if gpu_count = 1 then ''1 GPU'' else show_int gpu_count @ '' GPUs'');
          each = (if gpu_count = 1 then [] else '' each'')
      in ''Private model '' @ (if truthy name then the name else ''deployment'') @ '' '' @ middle_dot @ '' '' @ gpus
         @ '' at $'' @ dollars hourly_cents @ ''/hr'' @ each)"

record world =
  wd_control :: control
  wd_billing :: billing_db

abbreviation wdb :: "world \<Rightarrow> control_db" where
  "wdb x \<equiv> c_db (wd_control x)"

definition or_lookup :: "workload option \<Rightarrow> deployment \<Rightarrow> control_db \<Rightarrow> workload option" where
  "or_lookup w d db = (case w of Some wl \<Rightarrow> Some wl | None \<Rightarrow> get_workload (d_workload_id d) db)"

definition deployment_is_private_model :: "deployment \<Rightarrow> workload option \<Rightarrow> control_db \<Rightarrow> bool" where
  "deployment_is_private_model d w db =
     (if \<not> truthy (d_owner d) then False
      else case or_lookup w d db of
             None \<Rightarrow> False
           | Some wl \<Rightarrow> is_private_model (d_owner d) (wl_kind wl) (wl_id wl) (wl_metadata wl))"

definition is_rental :: "deployment \<Rightarrow> workload option \<Rightarrow> control_db \<Rightarrow> bool" where
  "is_rental d w db = (case or_lookup w d db of None \<Rightarrow> False | Some wl \<Rightarrow> wl_kind wl \<noteq> INFERENCE)"

definition hourly_charge_cents :: "env \<Rightarrow> time \<Rightarrow> deployment \<Rightarrow> workload option \<Rightarrow> control_db \<Rightarrow> int option" where
  "hourly_charge_cents env now d w db =
     (if \<not> truthy (d_owner d) then None
      else let wl = or_lookup w d db
           in if (case wl of None \<Rightarrow> False
                  | Some x \<Rightarrow> wl_kind x = INFERENCE \<and> \<not> deployment_is_private_model d wl db) then None
              else if box_silent env now d db then Some 0
              else let n = (case wl of None \<Rightarrow> 1 | Some x \<Rightarrow> rq_gpu_count (wl_requirements x));
                       gpu_count = (if n = 0 then 1 else n);
                       rate = (if d_hourly_rate_cents d = 0 then 10 else d_hourly_rate_cents d)
                   in Some (rate * gpu_count * max (d_ready_instances d) 1))"

section \<open>The hourly meter\<close>

text \<open>What a cycle of \<open>cycle\<close> seconds charges a ready deployment, in millicents: \<open>Skip\<close> when it is not
  billed this cycle, \<open>StartClock\<close> for a private model whose billing starts now.\<close>

datatype cycle_verdict = Skip | StartClock | Charge int

definition billed_seconds :: "time \<Rightarrow> rat \<Rightarrow> time option \<Rightarrow> rat" where
  "billed_seconds now cycle since =
     (case since of None \<Rightarrow> cycle | Some t \<Rightarrow> min cycle (max 0 (of_int (now - t) / 1000000)))"

definition cycle_charge :: "env \<Rightarrow> time \<Rightarrow> rat \<Rightarrow> deployment \<Rightarrow> control_db \<Rightarrow> cycle_verdict" where
  "cycle_charge env now cycle d db =
     (if \<not> truthy (d_owner d) then Skip
      else let w = get_workload (d_workload_id d) db;
               private_model = deployment_is_private_model d w db
           in if (case w of None \<Rightarrow> False | Some x \<Rightarrow> wl_kind x = INFERENCE) \<and> \<not> private_model then Skip
              else if box_silent env now d db then Skip
              else let since = get_billable_since (d_id d) db
                   in if since = None \<and> private_model then StartClock
                      else let gpu_count = (case w of None \<Rightarrow> 1 | Some x \<Rightarrow> rq_gpu_count (wl_requirements x));
                               hourly_cents = (if d_hourly_rate_cents d = 0 then 10 else d_hourly_rate_cents d);
                               instances = max (d_ready_instances d) 1
                           in Charge (py_round (of_int (hourly_cents * 1000 * gpu_count * instances)
                                                * billed_seconds now cycle since / 3600)))"

definition charge_text :: "deployment \<Rightarrow> control_db \<Rightarrow> string" where
  "charge_text d db =
     (let w = get_workload (d_workload_id d) db;
          gpu_count = (case w of None \<Rightarrow> 1 | Some x \<Rightarrow> rq_gpu_count (wl_requirements x));
          hourly_cents = (if d_hourly_rate_cents d = 0 then 10 else d_hourly_rate_cents d)
      in if deployment_is_private_model d w db then private_model_charge_description w gpu_count hourly_cents
         else rental_charge_description gpu_count hourly_cents)"

definition balance_exhausted :: string where
  "balance_exhausted = ''Insufficient balance '' @ em_dash @ '' top up your credits to resume''"

definition meter_deployment :: "env \<Rightarrow> time \<Rightarrow> rat \<Rightarrow> deployment \<Rightarrow> world \<Rightarrow> int \<times> world" where
  "meter_deployment env now cycle d x =
     (case cycle_charge env now cycle d (wdb x) of
        Skip \<Rightarrow> (0, x)
      | StartClock \<Rightarrow> (0, x\<lparr>wd_control := on_db (set_billable_since (d_id d) now) (wd_control x)\<rparr>)
      | Charge add_mcents \<Rightarrow>
          let ((whole_cents, _), db1) = accrue_metering (d_id d) add_mcents (wdb x);
              x1 = x\<lparr>wd_control := (wd_control x)\<lparr>c_db := db1\<rparr>\<rparr>
          in if whole_cents \<le> 0 then (0, x1)
             else case debit_user_to_floor now (the (d_owner d)) whole_cents ''usage'' (Some (d_id d))
                         (charge_text d (wdb x)) (wd_billing x1) of
                    Inl _ \<Rightarrow> (0, x1)
                  | Inr (dr, billing) \<Rightarrow>
                      let x2 = x1\<lparr>wd_billing := billing\<rparr>
                      in if shortfall_cents dr > 0
                         then let c1 = on_db (\<lambda>db. snd (return_metering_mcents (d_id d) (shortfall_cents dr * 1000) db))
                                         (wd_control x2);
                                  c2 = snd (update_deployment_status env now
                                         (own_report (d_id d) SUSPENDED balance_exhausted (Some ''balance'') now) c1)
                              in (debited_cents dr, x2\<lparr>wd_control := c2\<rparr>)
                         else (debited_cents dr, x2))"

fun meter_deployments :: "env \<Rightarrow> time \<Rightarrow> rat \<Rightarrow> deployment list \<Rightarrow> world \<Rightarrow> (ident \<times> int) list \<times> world" where
  "meter_deployments env now cycle [] x = ([], x)"
| "meter_deployments env now cycle (d # ds) x =
     (let (debited, x1) = meter_deployment env now cycle d x;
          (result, x2) = meter_deployments env now cycle ds x1
      in (if debited > 0 then (d_id d, debited) # result else result, x2))"

definition cycle_seconds :: "rat option \<Rightarrow> rat" where
  "cycle_seconds elapsed = (case elapsed of None \<Rightarrow> 60 | Some e \<Rightarrow> max 0 (min e 3600))"

definition meter_usage :: "env \<Rightarrow> time \<Rightarrow> rat option \<Rightarrow> world \<Rightarrow> (ident \<times> int) list \<times> world" where
  "meter_usage env now elapsed x =
     meter_deployments env now (cycle_seconds elapsed) (list_deployments_by_state READY (wdb x)) x"

section \<open>Saved pods\<close>

definition suspension_terms :: "env \<Rightarrow> deployment \<Rightarrow> workload option \<Rightarrow> control_db \<Rightarrow> int \<times> time option" where
  "suspension_terms env d w db =
     (case d_suspended_at d of
        None \<Rightarrow> (0, None)
      | Some since \<Rightarrow>
          if d_state d \<noteq> SUSPENDED \<or> \<not> is_rental d w db then (0, None)
          else let saved = d_save_on_exhaustion d;
                   cents = (if saved \<and> pod_storage_billing_enabled env then storage_cents_per_day env else 0);
                   deletes_at = (if pod_exhaustion_reaper_enabled env
                                 then Some (since + (if saved then seconds (pod_saved_retention_days env * 86400)
                                                     else seconds (pod_unsaved_grace_minutes env * 60)))
                                 else None)
               in (cents, deletes_at))"

definition charge_storage :: "env \<Rightarrow> time \<Rightarrow> deployment \<Rightarrow> world \<Rightarrow> int \<times> world" where
  "charge_storage env now d x =
     (if \<not> truthy (d_owner d) \<or> \<not> d_save_on_exhaustion d then (0, x)
      else if d_suspended_at d = None then (0, x)
      else if \<not> is_rental d None (wdb x) then (0, x)
      else let (whole_cents, db1) = accrue_storage (d_id d) (storage_mcents_per_minute env) (wdb x);
               x1 = x\<lparr>wd_control := (wd_control x)\<lparr>c_db := db1\<rparr>\<rparr>
           in if whole_cents \<le> 0 then (0, x1)
              else case debit_user now (the (d_owner d)) whole_cents ''storage'' (Some (d_id d))
                          (''Saved-pod storage $'' @ dollars (storage_cents_per_day env) @ ''/day'') True (wd_billing x1) of
                     Inl _ \<Rightarrow> (0, x1)
                   | Inr (_, billing) \<Rightarrow> (whole_cents, x1\<lparr>wd_billing := billing\<rparr>))"

fun charge_storages :: "env \<Rightarrow> time \<Rightarrow> deployment list \<Rightarrow> world \<Rightarrow> (ident \<times> int) list \<times> world" where
  "charge_storages env now [] x = ([], x)"
| "charge_storages env now (d # ds) x =
     (let (cents, x1) = charge_storage env now d x; (result, x2) = charge_storages env now ds x1
      in (if cents > 0 then (d_id d, cents) # result else result, x2))"

definition meter_pod_storage :: "env \<Rightarrow> time \<Rightarrow> world \<Rightarrow> (ident \<times> int) list \<times> world" where
  "meter_pod_storage env now x =
     (if \<not> pod_storage_billing_enabled env then ([], x)
      else charge_storages env now (list_deployments_by_state SUSPENDED (wdb x)) x)"

section \<open>Ending deployments at their deadlines\<close>

text \<open>The shape all three passes share: for each listed deployment that is due, report it
  terminated with a reason; a report that fails is logged and skipped.\<close>

fun terminate_due ::
  "env \<Rightarrow> time \<Rightarrow> (deployment \<Rightarrow> control \<Rightarrow> string option) \<Rightarrow> deployment list \<Rightarrow> ident list \<Rightarrow> control \<Rightarrow> ident list \<times> control" where
  "terminate_due env now due [] ended s = (ended, s)"
| "terminate_due env now due (d # ds) ended s =
     (case due d s of
        None \<Rightarrow> terminate_due env now due ds ended s
      | Some reason \<Rightarrow>
          (case update_deployment_status env now (own_report (d_id d) TERMINATED reason None now) s of
             (Inl _, s1) \<Rightarrow> terminate_due env now due ds ended s1
           | (Inr _, s1) \<Rightarrow> terminate_due env now due ds (ended @ [d_id d]) s1))"

definition reap_due :: "env \<Rightarrow> time \<Rightarrow> deployment \<Rightarrow> control \<Rightarrow> string option" where
  "reap_due env now d s =
     (case d_suspended_at d of
        None \<Rightarrow> None
      | Some since \<Rightarrow>
          if \<not> is_rental d None (c_db s) then None
          else let deadline = (if d_save_on_exhaustion d then pod_saved_retention_days env * 86400
                               else pod_unsaved_grace_minutes env * 60)
               in if now - since < seconds deadline then None
                  else Some (if d_save_on_exhaustion d
                             then ''saved-pod retention expired ('' @ show_int (pod_saved_retention_days env) @ ''d)''
                             else ''unsaved pod removed '' @ show_int (pod_unsaved_grace_minutes env)
                                  @ ''min after credits ran out''))"

definition reap_exhausted_pods :: "env \<Rightarrow> time \<Rightarrow> control \<Rightarrow> ident list \<times> control" where
  "reap_exhausted_pods env now s =
     (if \<not> pod_exhaustion_reaper_enabled env then ([], s)
      else terminate_due env now (reap_due env now) (list_deployments_by_state SUSPENDED (c_db s)) [] s)"

definition runtime_due :: "time \<Rightarrow> deployment \<Rightarrow> control \<Rightarrow> string option" where
  "runtime_due now d s =
     (case (d_max_runtime_minutes d, d_ready_at d) of
        (Some limit, Some ready_at) \<Rightarrow>
          if limit = 0 \<or> now - ready_at < seconds (limit * 60) then None
          else Some (''stopped automatically after max_runtime_minutes='' @ show_int limit)
      | _ \<Rightarrow> None)"

definition stop_expired_runtimes :: "env \<Rightarrow> time \<Rightarrow> control \<Rightarrow> ident list \<times> control" where
  "stop_expired_runtimes env now s =
     terminate_due env now (runtime_due now) (list_deployments_by_state READY (c_db s)) [] s"

section \<open>Limits of an API key\<close>

definition SPEND_WINDOW :: time where
  "SPEND_WINDOW = seconds 86400"

definition key_spend_cents :: "ident \<Rightarrow> time \<Rightarrow> control_db \<Rightarrow> billing_db \<Rightarrow> int" where
  "key_spend_cents key_id since db billing =
     (let rentals = sum_list
            [le_amount e. e \<leftarrow> bd_ledger billing, row \<leftarrow> cd_deployments db,
               le_reference e = Some (dr_id row) \<and> d_created_by_key (dr_dep row) = Some key_id \<and>
               le_amount e < 0 \<and> since \<le> le_created_at e];
          inference = sum_list
            [le_amount e. e \<leftarrow> bd_ledger billing, r \<leftarrow> cd_invocations db,
               in_request_id r \<noteq> None \<and> le_reference e = in_request_id r \<and> in_api_key_id r = Some key_id \<and>
               le_kind e = ''inference'' \<and> le_amount e < 0 \<and> since \<le> le_created_at e]
      in - (rentals + inference))"

definition key_active_rentals :: "ident \<Rightarrow> control_db \<Rightarrow> int" where
  "key_active_rentals key_id db =
     int (length (filter (\<lambda>d. d_created_by_key d = Some key_id \<and> d_state d \<notin> {TERMINATED, FAILED}) (list_deployments db)))"

datatype room_reason = ActiveLimit | SpendLimit

definition key_rental_room ::
  "time \<Rightarrow> ident \<Rightarrow> int option \<Rightarrow> rat option \<Rightarrow> control_db \<Rightarrow> billing_db \<Rightarrow> int option \<times> room_reason option" where
  "key_rental_room now key_id max_active_rentals daily_spend_limit_usd db billing =
     (let room = map_option (\<lambda>m. m - key_active_rentals key_id db) max_active_rentals
      in if (case room of None \<Rightarrow> False | Some r \<Rightarrow> r \<le> 0) then (Some 0, Some ActiveLimit)
         else if (case daily_spend_limit_usd of
                    None \<Rightarrow> False
                  | Some limit \<Rightarrow> key_spend_cents key_id (now - SPEND_WINDOW) db billing \<ge> py_round (limit * 100))
         then (Some 0, Some SpendLimit)
         else (room, None))"

text \<open>\<open>limits\<close> is \<^verbatim>\<open>keys_with_spend_limits\<close>: the daily limit in cents of each key that has one.\<close>

definition key_due :: "time \<Rightarrow> (ident \<times> int) list \<Rightarrow> billing_db \<Rightarrow> deployment \<Rightarrow> control \<Rightarrow> string option" where
  "key_due now limits billing d s =
     (case d_created_by_key d of
        None \<Rightarrow> None
      | Some key_id \<Rightarrow>
          (case map_of limits key_id of
             None \<Rightarrow> None
           | Some limit \<Rightarrow>
               if key_spend_cents key_id (now - SPEND_WINDOW) (c_db s) billing < limit then None
               else Some (''stopped: its API key reached its spend limit of $'' @ dollars limit
                          @ '' for the last 24 hours'')))"

definition stop_rentals_over_key_limits :: "env \<Rightarrow> time \<Rightarrow> (ident \<times> int) list \<Rightarrow> billing_db \<Rightarrow> control \<Rightarrow> ident list \<times> control" where
  "stop_rentals_over_key_limits env now limits billing s =
     (if limits = [] then ([], s)
      else terminate_due env now (key_due now limits billing) (list_deployments_by_state READY (c_db s)) [] s)"

section \<open>Lemmas\<close>

lemma metering_held_cong: "cd_deployments db' = cd_deployments db \<Longrightarrow> metering_held e db' = metering_held e db"
  by (simp add: metering_held_def)

lemma metering_held_save [simp]:
  "get_deployment (d_id d) db \<noteq> None \<Longrightarrow> metering_held e (save_deployment now d db) = metering_held e db"
  by (auto simp: metering_held_def save_deployment_def add_account_event_def get_deployment_def get_row_put_row Let_def
      split: option.split)

lemma metering_held_billable [simp]: "metering_held e (set_billable_since did t db) = metering_held e db"
proof (cases "get_deployment_row did db")
  case (Some row)
  with get_row_key [OF this] show ?thesis
    by (cases "e = did") (simp_all add: set_billable_since_def metering_held_def get_row_put_row)
qed (simp add: set_billable_since_def)

lemma metering_held_frame [simp]:
  "metering_held e (snd (update_assignment_status now did st r db)) = metering_held e db"
  "metering_held e (add_deployment_event su db) = metering_held e db"
  "metering_held e (snd (release_gpu_reservation now did db)) = metering_held e db"
  by (rule metering_held_cong, simp)+

lemma metering_held_status [simp]:
  "metering_held e (c_db (snd (update_deployment_status env now u s))) = metering_held e (c_db s)"
proof (cases "get_deployment (su_deployment_id u) (c_db s)")
  case (Some d)
  have "get_deployment (d_id d) (c_db s) = Some d" using Some get_deployment_id [OF Some] by simp
  with Some show ?thesis
    by (simp add: update_deployment_status_def Let_def split: option.split sum.split)
qed (simp add: update_deployment_status_def)

lemma metering_held_return:
  assumes "metering_held did db = Some r" and "0 < m"
  shows "metering_held did (snd (return_metering_mcents did m db)) = Some (r + m)"
proof -
  from assms(1) obtain row where row: "get_deployment_row did db = Some row" "r = dr_metering_remainder row"
    by (auto simp: metering_held_def)
  with get_row_key [OF row(1)] assms(2) show ?thesis
    by (simp add: return_metering_mcents_def metering_held_def get_row_put_row Let_def)
qed

lemma cycle_charge_nonneg:
  assumes "cycle_charge env now cycle d db = Charge m" and "0 \<le> cycle" and "0 \<le> d_hourly_rate_cents d"
    and "\<And>w. get_workload (d_workload_id d) db = Some w \<Longrightarrow> 0 \<le> rq_gpu_count (wl_requirements w)"
  shows "0 \<le> m"
proof -
  have "0 \<le> billed_seconds now cycle since" for since
    using assms(2) by (simp add: billed_seconds_def split: option.split)
  with assms show ?thesis
    by (auto simp: cycle_charge_def Let_def simp del: of_int_mult split: if_splits option.splits
        intro!: py_round_nonneg divide_nonneg_nonneg mult_nonneg_nonneg)
qed

text \<open>The three things one deployment's turn can be: nothing due, whole cents debited, or a user that is
  gone; \<open>drain_user\<close> is the debit as the locale \<open>floor_debit\<close> sees it.\<close>

lemma meter_deployment_cases:
  assumes "meter_deployment env now cycle d x = (taken, x')"
  obtains (same) "\<And>m. cycle_charge env now cycle d (wdb x) \<noteq> Charge m" "taken = 0" "wd_billing x' = wd_billing x"
      "\<And>e. metering_held e (wdb x') = metering_held e (wdb x)"
      "\<And>e. get_deployment e (wdb x') = get_deployment e (wdb x)"
  | (carried) m where "cycle_charge env now cycle d (wdb x) = Charge m" "taken = 0" "wd_billing x' = wd_billing x"
      "wdb x' = snd (accrue_metering_cents (d_id d) m (wdb x))"
      "fst (accrue_metering_cents (d_id d) m (wdb x)) \<le> 0 \<or> user_balance (wd_billing x) (the (d_owner d)) = None"
  | (debited) m short where "cycle_charge env now cycle d (wdb x) = Charge m"
      "0 < fst (accrue_metering_cents (d_id d) m (wdb x))"
      "drain_user now ''usage'' (Some (d_id d)) (charge_text d (wdb x)) (the (d_owner d))
         (fst (accrue_metering_cents (d_id d) m (wdb x))) (wd_billing x) = Some ((taken, short), wd_billing x')"
      "if 0 < short
       then wdb x' = c_db (snd (update_deployment_status env now
              (own_report (d_id d) SUSPENDED balance_exhausted (Some ''balance'') now)
              (on_db (\<lambda>db. snd (return_metering_mcents (d_id d) (short * 1000) db))
                 ((wd_control x)\<lparr>c_db := snd (accrue_metering_cents (d_id d) m (wdb x))\<rparr>))))
       else wdb x' = snd (accrue_metering_cents (d_id d) m (wdb x))"
proof (cases "cycle_charge env now cycle d (wdb x)")
  case Skip
  with assms same show ?thesis by (simp add: meter_deployment_def)
next
  case StartClock
  with assms same show ?thesis by (auto simp: meter_deployment_def)
next
  case (Charge m)
  define acc where "acc = accrue_metering_cents (d_id d) m (wdb x)"
  have acc: "fst (fst (accrue_metering (d_id d) m (wdb x))) = fst acc" "snd (accrue_metering (d_id d) m (wdb x)) = snd acc"
    by (simp_all add: acc_def accrue_metering_cents_def)
  show ?thesis
  proof (cases "fst acc \<le> 0")
    case True
    with assms Charge acc carried [of m] show ?thesis
      by (auto simp: meter_deployment_def case_prod_unfold Let_def acc_def)
  next
    case pos: False
    show ?thesis
    proof (cases "debit_user_to_floor now (the (d_owner d)) (fst acc) ''usage'' (Some (d_id d)) (charge_text d (wdb x)) (wd_billing x)")
      case (Inl err)
      then have "drain_user now ''usage'' (Some (d_id d)) (charge_text d (wdb x)) (the (d_owner d)) (fst acc) (wd_billing x) = None"
        by (simp add: drain_user_def)
      then have "user_balance (wd_billing x) (the (d_owner d)) = None"
        using metered.debit_defined by (metis not_None_eq)
      with assms Charge acc pos Inl carried [of m] show ?thesis
        by (auto simp: meter_deployment_def case_prod_unfold Let_def acc_def)
    next
      case (Inr r)
      have drain: "drain_user now ''usage'' (Some (d_id d)) (charge_text d (wdb x)) (the (d_owner d)) (fst acc) (wd_billing x) =
          Some ((debited_cents (fst r), shortfall_cents (fst r)), snd r)"
        using Inr by (simp add: drain_user_def case_prod_unfold)
      show ?thesis
        by (rule debited [of m "shortfall_cents (fst r)"])
          (use assms Charge acc pos Inr drain in \<open>auto simp: meter_deployment_def case_prod_unfold Let_def acc_def
            split: if_splits\<close>)
    qed
  qed
qed

section \<open>Properties\<close>

text \<open>
  (C6) The hourly meter is exact, and where money is lost is stated: for a deployment on record whose
  accumulator, rate, GPU count and cycle are not negative, one metering turn takes some whole
  cents, carries the rest, and what it takes, what it loses and what it carries are together
  precisely what was carried before plus what the cycle charges.  If the owner has an account
  nothing is lost, also when the balance runs out half way: the cents taken are those that left
  the balance, which is never taken below zero.  If the owner has no account nothing is taken,
  the billing state is unchanged, and the whole cents due are what is lost.
\<close>

theorem meter_conserves:
  assumes "meter_deployment env now cycle d x = (taken, x')"
    and "metering_held (d_id d) (wdb x) = Some r" and "0 \<le> r"
    and "0 \<le> cycle" and "0 \<le> d_hourly_rate_cents d"
    and "\<And>w. get_workload (d_workload_id d) (wdb x) = Some w \<Longrightarrow> 0 \<le> rq_gpu_count (wl_requirements w)"
  shows "\<exists>r' lost. metering_held (d_id d) (wdb x') = Some r' \<and>
      1000 * taken + 1000 * lost + r' = r + (case cycle_charge env now cycle d (wdb x) of Charge m \<Rightarrow> m | _ \<Rightarrow> 0) \<and>
      (case user_balance (wd_billing x) (the (d_owner d)) of
         None \<Rightarrow> taken = 0 \<and> wd_billing x' = wd_billing x \<and>
           lost = (case cycle_charge env now cycle d (wdb x) of Charge m \<Rightarrow> (r + m) div 1000 | _ \<Rightarrow> 0)
       | Some b \<Rightarrow> lost = 0 \<and> 0 \<le> taken \<and> (0 \<le> b \<longrightarrow> taken \<le> b) \<and>
           user_balance (wd_billing x') (the (d_owner d)) = Some (b - taken))"
  using assms(1)
proof (cases rule: meter_deployment_cases)
  case same
  then show ?thesis using assms(2) by (intro exI [of _ r] exI [of _ 0]) (auto split: cycle_verdict.split option.split)
next
  case (carried m)
  obtain w db1 where acc: "accrue_metering_cents (d_id d) m (wdb x) = (w, db1)" by fastforce
  from metering.accrue_exact [OF assms(2) acc] obtain r' where r': "metering_held (d_id d) db1 = Some r'"
    "1000 * w + r' = r + m" "0 \<le> r'" "r' < 1000" by auto
  have "0 \<le> m" using cycle_charge_nonneg [OF carried(1) assms(4-6)] .
  with r' have w: "w = (r + m) div 1000" by linarith
  show ?thesis
  proof (cases "user_balance (wd_billing x) (the (d_owner d))")
    case None
    with carried r' acc w show ?thesis by (intro exI [of _ r'] exI [of _ w]) auto
  next
    case (Some b)
    with carried(5) acc w \<open>0 \<le> m\<close> assms(3) have "w = 0" by simp
    with carried r' acc Some show ?thesis by (intro exI [of _ r'] exI [of _ 0]) auto
  qed
next
  case (debited m short)
  obtain w db1 where acc: "accrue_metering_cents (d_id d) m (wdb x) = (w, db1)" by fastforce
  from metering.accrue_exact [OF assms(2) acc] obtain r1 where r1: "metering_held (d_id d) db1 = Some r1"
    "1000 * w + r1 = r + m" by auto
  have w: "0 < w" using debited(2) acc by simp
  note drain = debited(3) [unfolded acc fst_conv]
  have split: "0 \<le> taken" "0 \<le> short" "taken + short = w" using metered.debit_split [OF drain] w by auto
  have "user_balance (wd_billing x) (the (d_owner d)) \<noteq> None"
    using drain metered.debit_defined by (metis option.distinct(1))
  then obtain b where b: "user_balance (wd_billing x) (the (d_owner d)) = Some b" by blast
  have bal: "user_balance (wd_billing x') (the (d_owner d)) = Some (b - taken)"
    using metered.debit_balance [OF drain b] .
  have "metering_held (d_id d) (wdb x') = Some (r1 + 1000 * short)"
    using debited(4) acc r1 split metering_held_return [OF r1(1), of "short * 1000"]
    by (auto simp: mult.commute split: if_splits)
  with r1 split bal b metered.debit_floor [OF drain b] debited(1) show ?thesis
    by (intro exI [of _ "r1 + 1000 * short"] exI [of _ 0]) auto
qed

definition demo_world :: world where
  "demo_world = \<lparr>wd_control = demo_control (demo_deployment ''d'' READY), wd_billing = opening_db demo_users\<rparr>"

lemma demo_charge: "cycle_charge demo_env 5 36 (demo_deployment ''d'' READY) (wdb demo_world) = Charge 1000"
proof -
  have "py_round 1000 = 1000" using py_round_of_int [of 1000] by simp
  then show ?thesis
    by (simp add: cycle_charge_def demo_world_def demo_control_def demo_deployment_def demo_workload_def INFERENCE_def
        box_silent_def get_billable_since_def billed_seconds_def deployment_is_private_model_def or_lookup_def
        is_private_model_def)
qed

lemma demo_world_facts:
  "metering_held (d_id (demo_deployment ''d'' READY)) (wdb demo_world) = Some 0"
  "user_balance (wd_billing demo_world) (the (d_owner (demo_deployment ''d'' READY))) = Some 30"
  "0 \<le> d_hourly_rate_cents (demo_deployment ''d'' READY)"
  "get_workload (d_workload_id (demo_deployment ''d'' READY)) (wdb demo_world) = Some w \<Longrightarrow> 0 \<le> rq_gpu_count (wl_requirements w)"
  by (auto simp: metering_held_def user_balance_def demo_world_def demo_control_def demo_deployment_def opening_db_def
      demo_users_def demo_workload_def)

theorem meter_conserves_witness:
  "\<exists>taken x' r'. meter_deployment demo_env 5 36 (demo_deployment ''d'' READY) demo_world = (taken, x') \<and>
     metering_held ''d'' (wdb x') = Some r' \<and> 1000 * taken + r' = 1000 \<and> user_balance (wd_billing x') ''ann'' = Some (30 - taken)"
proof -
  obtain taken x' where run: "meter_deployment demo_env 5 36 (demo_deployment ''d'' READY) demo_world = (taken, x')"
    by fastforce
  have "d_id (demo_deployment ''d'' READY) = ''d''" "the (d_owner (demo_deployment ''d'' READY)) = ''ann''"
    by (simp_all add: demo_deployment_def)
  moreover note demo_world_facts(2)
  ultimately show ?thesis
    using meter_conserves [OF run demo_world_facts(1) _ _ demo_world_facts(3,4)] run
    by (auto simp: demo_charge)
qed

lemma meter_deployment_balance:
  assumes "meter_deployment env now cycle d x = (taken, x')" and "user_balance (wd_billing x) u = Some b"
  shows "\<exists>b'. user_balance (wd_billing x') u = Some b' \<and> b' \<le> b \<and> (0 \<le> b \<longrightarrow> 0 \<le> b')"
  using assms(1)
proof (cases rule: meter_deployment_cases)
  case (debited m short)
  show ?thesis
  proof (cases "u = the (d_owner d)")
    case True
    then have b: "user_balance (wd_billing x) (the (d_owner d)) = Some b" using assms(2) by simp
    show ?thesis
      using True metered.debit_balance [OF debited(3) b] metered.debit_floor [OF debited(3) b] metered.debit_split [OF debited(3)]
      by auto
  next
    case False
    then show ?thesis using metered.debit_others [OF debited(3), of u] assms(2) by simp
  qed
qed (use assms(2) in simp_all)

text \<open>
  A metering pass never overdraws: over all ready deployments and whatever it finds, no
  account's balance rises, and an account that was not in debt is not in debt afterwards.
\<close>

theorem metering_never_overdraws:
  assumes "user_balance (wd_billing x) u = Some b"
  shows "\<exists>b'. user_balance (wd_billing (snd (meter_usage env now elapsed x))) u = Some b' \<and> b' \<le> b \<and> (0 \<le> b \<longrightarrow> 0 \<le> b')"
proof -
  have "\<exists>b'. user_balance (wd_billing (snd (meter_deployments env now c ds x))) u = Some b' \<and> b' \<le> b \<and> (0 \<le> b \<longrightarrow> 0 \<le> b')"
    if "user_balance (wd_billing x) u = Some b" for c ds x b
    using that
  proof (induction ds arbitrary: x b)
    case (Cons d ds)
    obtain taken x1 where run: "meter_deployment env now c d x = (taken, x1)" by fastforce
    from meter_deployment_balance [OF run Cons.prems] obtain b1 where
      b1: "user_balance (wd_billing x1) u = Some b1" "b1 \<le> b" "0 \<le> b \<longrightarrow> 0 \<le> b1" by auto
    from Cons.IH [OF b1(1)] b1(2,3) run show ?case by (auto simp: Let_def case_prod_unfold)
  qed simp
  with assms show ?thesis by (simp add: meter_usage_def)
qed

theorem metering_never_overdraws_witness:
  "\<exists>b'. user_balance (wd_billing (snd (meter_usage demo_env 5 None demo_world))) ''ann'' = Some b' \<and> 0 \<le> b' \<and> b' \<le> 30"
proof -
  have "user_balance (wd_billing demo_world) ''ann'' = Some 30"
    by (simp add: user_balance_def demo_world_def opening_db_def demo_users_def)
  from metering_never_overdraws [OF this, of demo_env 5 None] show ?thesis by auto
qed

lemma get_deployment_accrue [simp]:
  "get_deployment e (snd (accrue_metering_cents did m db)) = get_deployment e db"
  "get_deployment e (snd (return_metering_mcents did m db)) = get_deployment e db"
proof -
  show "get_deployment e (snd (accrue_metering_cents did m db)) = get_deployment e db"
  proof (cases "get_deployment_row did db")
    case (Some row)
    with get_row_key [OF this] show ?thesis
      by (cases "e = did") (simp_all add: accrue_metering_cents_def accrue_metering_row get_deployment_def get_row_put_row)
  qed (simp add: accrue_metering_cents_def accrue_metering_def)
  show "get_deployment e (snd (return_metering_mcents did m db)) = get_deployment e db"
  proof (cases "get_deployment_row did db")
    case (Some row)
    with get_row_key [OF this] show ?thesis
      by (cases "e = did") (simp_all add: return_metering_mcents_def get_deployment_def get_row_put_row Let_def)
  qed (simp add: return_metering_mcents_def)
qed

text \<open>
  A deployment is suspended for lack of credit only when there is none left: if a metering
  turn changes the stored deployment at all, then the owner's balance is used up afterwards,
  and a ready deployment that was changed is now suspended with the reason recorded.
\<close>

theorem suspended_only_when_exhausted:
  assumes "meter_deployment env now cycle d x = (taken, x')"
    and "get_deployment (d_id d) (wdb x) = Some d" and "d_state d = READY"
    and "user_balance (wd_billing x) (the (d_owner d)) = Some b"
    and "get_deployment (d_id d) (wdb x') \<noteq> Some d"
  shows "\<exists>b' d'. user_balance (wd_billing x') (the (d_owner d)) = Some b' \<and> b' \<le> 0 \<and>
     get_deployment (d_id d) (wdb x') = Some d' \<and> d_state d' = SUSPENDED \<and> d_suspended_reason d' = Some ''balance''"
  using assms(1)
proof (cases rule: meter_deployment_cases)
  case (debited m short)
  have short: "0 < short"
    using debited(4) assms(2,5) by (auto split: if_splits)
  define u where "u = own_report (d_id d) SUSPENDED balance_exhausted (Some ''balance'') now"
  define s1 where "s1 = on_db (\<lambda>db. snd (return_metering_mcents (d_id d) (short * 1000) db))
                 ((wd_control x)\<lparr>c_db := snd (accrue_metering_cents (d_id d) m (wdb x))\<rparr>)"
  have u: "su_state u = SUSPENDED" "su_deployment_id u = d_id d" "su_suspended_reason u = Some ''balance''"
    by (simp_all add: u_def own_report_def)
  have x': "wdb x' = c_db (snd (update_deployment_status env now u s1))"
    using debited(4) short by (simp add: u_def s1_def)
  have "get_deployment (su_deployment_id u) (c_db s1) = Some d" using assms(2) u by (simp add: s1_def)
  then have "get_deployment (d_id d) (wdb x') = Some (apply_report now u SUSPENDED d)"
    unfolding x' by (cases rule: update_status_cases [where env = env and now = now]) (auto simp: u assms(3))
  moreover have "d_suspended_reason (apply_report now u SUSPENDED d) = Some ''balance''"
    by (simp add: apply_report_def Let_def u)
  ultimately show ?thesis
    using metered.debit_balance [OF debited(3) assms(4)] metered.debit_floor [OF debited(3) assms(4)] short by auto
qed (use assms(2,5) in auto)

definition demo_broke :: world where
  "demo_broke = demo_world\<lparr>wd_billing := opening_db [\<lparr>u_id = ''ann'', u_balance = 0\<rparr>]\<rparr>"

theorem suspended_only_when_exhausted_witness:
  "\<exists>taken x' d'. meter_deployment demo_env 5 36 (demo_deployment ''d'' READY) demo_broke = (taken, x') \<and>
     get_deployment ''d'' (wdb x') = Some d' \<and> d_state d' = SUSPENDED"
proof -
  let ?d = "demo_deployment ''d'' READY"
  have st: "d_id ?d = ''d''" "d_state ?d = READY" "the (d_owner ?d) = ''ann''" by (simp_all add: demo_deployment_def)
  have wdb: "wdb demo_broke = wdb demo_world" by (simp add: demo_broke_def)
  have charge: "cycle_charge demo_env 5 36 ?d (wdb demo_broke) = Charge 1000" using demo_charge by (simp only: wdb)
  have bal: "user_balance (wd_billing demo_broke) (the (d_owner ?d)) = Some 0"
    by (simp add: st demo_broke_def user_balance_def opening_db_def)
  have get: "get_deployment (d_id ?d) (wdb demo_broke) = Some ?d" by (simp add: wdb demo_world_def)
  obtain taken x' where run: "meter_deployment demo_env 5 36 ?d demo_broke = (taken, x')" by fastforce
  have acc: "accrue_metering_cents (d_id ?d) 1000 (wdb demo_broke) = (1, snd (accrue_metering_cents (d_id ?d) 1000 (wdb demo_broke)))"
    by (simp add: accrue_metering_cents_def accrue_metering_def wdb demo_world_def demo_control_def Let_def)
  have whole: "fst (accrue_metering_cents (d_id ?d) 1000 (wdb demo_broke)) = 1" by (subst acc) simp
  have "get_deployment (d_id ?d) (wdb x') \<noteq> Some ?d"
    using run
  proof (cases rule: meter_deployment_cases)
    case (debited m short)
    have m: "m = 1000" using debited(1) charge by simp
    have one: "fst (accrue_metering_cents (d_id ?d) m (wdb demo_broke)) = 1" using whole m by simp
    have "taken \<le> 0" "taken + short = 1"
      using metered.debit_floor [OF debited(3) bal] metered.debit_split [OF debited(3)] one by auto
    then have short: "0 < short" by simp
    define u where "u = own_report (d_id ?d) SUSPENDED balance_exhausted (Some ''balance'') 5"
    define s1 where "s1 = on_db (\<lambda>db. snd (return_metering_mcents (d_id ?d) (short * 1000) db))
                 ((wd_control demo_broke)\<lparr>c_db := snd (accrue_metering_cents (d_id ?d) m (wdb demo_broke))\<rparr>)"
    have u: "su_state u = SUSPENDED" "su_deployment_id u = d_id ?d" by (simp_all add: u_def own_report_def)
    have "get_deployment (su_deployment_id u) (c_db s1) = Some ?d" using get u by (simp add: s1_def)
    then have "get_deployment (d_id ?d) (wdb x') = Some (apply_report 5 u SUSPENDED ?d)"
      using debited(4) short unfolding u_def [symmetric] s1_def [symmetric]
      by (cases rule: update_status_cases [where env = demo_env and now = 5]) (auto simp: u st)
    then show ?thesis by (auto dest!: arg_cong [of _ _ d_state] simp: st)
  qed (use charge whole bal in auto)
  with run suspended_only_when_exhausted [OF run get st(2) bal] show ?thesis by (auto simp: st)
qed

text \<open>
  The forecast is the meter: for a deployment that has been billable for at least an hour,
  what one full hour's cycle charges is exactly the hourly charge shown to the customer, and
  one is not billed exactly when the other says it is not (the machine reporting, the workload
  asking for at least one GPU).
\<close>

theorem forecast_matches_meter:
  assumes "get_billable_since (d_id d) db = Some t" and "seconds 3600 \<le> now - t"
    and "\<not> box_silent env now d db"
    and "case get_workload (d_workload_id d) db of None \<Rightarrow> True | Some w \<Rightarrow> rq_gpu_count (wl_requirements w) \<noteq> 0"
  shows "cycle_charge env now 3600 d db =
    (case hourly_charge_cents env now d None db of None \<Rightarrow> Skip | Some cents \<Rightarrow> Charge (1000 * cents))"
proof -
  have bs: "billed_seconds now 3600 (Some t) = 3600"
  proof -
    have "(of_int (seconds 3600) :: rat) \<le> of_int (now - t)" using assms(2) by (rule of_int_le_iff [THEN iffD2])
    then show ?thesis by (simp add: billed_seconds_def seconds_def min_def max_def field_simps)
  qed
  have "py_round (of_int (a * 1000 * b * c) * 3600 / 3600) = 1000 * (a * b * c)" for a b c
    using py_round_of_int [of "a * 1000 * b * c"] by (simp add: mult_ac)
  with assms bs show ?thesis
    by (auto simp: cycle_charge_def hourly_charge_cents_def or_lookup_def Let_def simp del: of_int_mult split: option.split)
qed

definition demo_billable :: control_db where
  "demo_billable = set_billable_since ''d'' 0 (wdb demo_world)"

theorem forecast_matches_meter_witness:
  "hourly_charge_cents demo_env (seconds 7200) (demo_deployment ''d'' READY) None demo_billable = Some 100 \<and>
   cycle_charge demo_env (seconds 7200) 3600 (demo_deployment ''d'' READY) demo_billable = Charge 100000"
proof -
  let ?d = "demo_deployment ''d'' READY"
  have db: "demo_billable = empty_db\<lparr>cd_workloads := [demo_workload ''pod'' 2],
     cd_deployments := [\<lparr>dr_dep = ?d, dr_metering_remainder = 0, dr_storage_remainder = 0,
                         dr_billable_since = Some 0, dr_multi_node = None\<rparr>]\<rparr>"
    by (simp add: demo_billable_def set_billable_since_def demo_world_def demo_control_def demo_deployment_def)
  have since: "get_billable_since (d_id ?d) demo_billable = Some 0" by (simp add: db get_billable_since_def)
  have lively: "\<not> box_silent demo_env (seconds 7200) ?d demo_billable" by (simp add: box_silent_def demo_deployment_def)
  have w: "get_workload (d_workload_id ?d) demo_billable = Some (demo_workload ''pod'' 2)"
    by (simp add: db demo_deployment_def demo_workload_def)
  have gpus: "rq_gpu_count (wl_requirements (demo_workload ''pod'' 2)) = 2" by (simp add: demo_workload_def)
  have "hourly_charge_cents demo_env (seconds 7200) ?d None demo_billable = Some 100"
    using lively w gpus by (simp add: hourly_charge_cents_def or_lookup_def)
      (simp add: demo_deployment_def demo_workload_def INFERENCE_def)
  moreover have "seconds 3600 \<le> seconds 7200 - 0" by (simp add: seconds_def)
  ultimately show ?thesis
    using forecast_matches_meter [OF since _ lively] w gpus by simp
qed

section \<open>Deadlines\<close>

text \<open>
  The contract of the passes that end deployments: whether one is due is not changed by ending
  another.  The client fact: a pass ends exactly the listed deployments that are due and
  leaves the others as they were.
\<close>

locale deadline_pass =
  fixes env :: env and now :: time and due :: "deployment \<Rightarrow> control \<Rightarrow> string option"
  assumes due_stable: "due d (snd (update_deployment_status env now u s)) = due d s"
begin

lemma pass_keeps_unlisted:
  "e \<notin> d_id ` set ds \<Longrightarrow> get_deployment e (c_db (snd (terminate_due env now due ds acc s))) = get_deployment e (c_db s)"
proof (induction ds arbitrary: acc s)
  case (Cons d ds)
  have "get_deployment e (c_db (snd (update_deployment_status env now (own_report (d_id d) TERMINATED r None now) s))) =
      get_deployment e (c_db s)" for r
    using Cons.prems by (intro status_other) (simp add: own_report_def)
  with Cons show ?case
    by (simp split: option.split prod.split sum.split) (metis snd_conv)
qed simp

lemma pass_ends_due:
  assumes "distinct (map d_id ds)" and "\<And>d. d \<in> set ds \<Longrightarrow> get_deployment (d_id d) (c_db s) = Some d"
    and "\<And>d. d \<in> set ds \<Longrightarrow> d_state d \<in> {READY, SUSPENDED}" and "d \<in> set ds"
  shows "get_deployment (d_id d) (c_db (snd (terminate_due env now due ds acc s))) =
    (case due d s of None \<Rightarrow> Some d
     | Some r \<Rightarrow> Some (apply_report now (own_report (d_id d) TERMINATED r None now) TERMINATED d))"
  using assms
proof (induction ds arbitrary: acc s)
  case (Cons c ds)
  define s1 where "s1 = (case due c s of None \<Rightarrow> s
    | Some r \<Rightarrow> snd (update_deployment_status env now (own_report (d_id c) TERMINATED r None now) s))"
  have "\<exists>acc1. terminate_due env now due (c # ds) acc s = terminate_due env now due ds acc1 s1"
  proof (cases "due c s")
    case (Some r)
    show ?thesis
    proof (cases "update_deployment_status env now (own_report (d_id c) TERMINATED r None now) s")
      case (Pair res s')
      with Some show ?thesis by (cases res) (auto simp: s1_def)
    qed
  qed (auto simp: s1_def)
  then obtain acc1 where step: "terminate_due env now due (c # ds) acc s = terminate_due env now due ds acc1 s1" by blast
  have due1: "due x s1 = due x s" for x by (simp add: s1_def due_stable split: option.split)
  have c: "get_deployment (d_id c) (c_db s) = Some c" "d_state c \<in> {READY, SUSPENDED}" using Cons.prems(2,3) by auto
  have others: "get_deployment e (c_db s1) = get_deployment e (c_db s)" if "e \<noteq> d_id c" for e
    using that by (simp add: s1_def own_report_def status_other split: option.split)
  show ?case
  proof (cases "d = c")
    case True
    then have "d_id d \<notin> d_id ` set ds" using Cons.prems(1) by auto
    then have "get_deployment (d_id d) (c_db (snd (terminate_due env now due (c # ds) acc s))) = get_deployment (d_id d) (c_db s1)"
      unfolding step by (rule pass_keeps_unlisted)
    also have "\<dots> = (case due d s of None \<Rightarrow> Some d
     | Some r \<Rightarrow> Some (apply_report now (own_report (d_id d) TERMINATED r None now) TERMINATED d))"
    proof (cases "due d s")
      case (Some r)
      let ?u = "own_report (d_id c) TERMINATED r None now"
      have u: "su_state ?u = TERMINATED" "su_deployment_id ?u = d_id c" by (simp_all add: own_report_def)
      have "get_deployment (su_deployment_id ?u) (c_db s) = Some c" using c u by simp
      then have "get_deployment (d_id c) (c_db (snd (update_deployment_status env now ?u s))) =
          Some (apply_report now ?u TERMINATED c)"
        using c(2) by (cases rule: update_status_cases [where env = env and now = now]) (auto simp: u)
      with True Some show ?thesis by (simp add: s1_def)
    qed (use True c in \<open>simp add: s1_def\<close>)
    finally show ?thesis .
  next
    case False
    with Cons.prems(4) have d: "d \<in> set ds" by simp
    have "get_deployment (d_id x) (c_db s1) = Some x" if "x \<in> set ds" for x
    proof -
      have "d_id c \<notin> d_id ` set ds" using Cons.prems(1) by simp
      then have "d_id x \<noteq> d_id c" using imageI [OF that, of d_id] by metis
      moreover have "get_deployment (d_id x) (c_db s) = Some x" using that Cons.prems(2) by simp
      ultimately show ?thesis by (simp add: others)
    qed
    then show ?thesis
      unfolding step due1 [of d, symmetric] using Cons.IH [of s1 acc1] Cons.prems(1,3) d by simp
  qed
qed simp

end

lemma is_rental_frame: "cd_workloads db' = cd_workloads db \<Longrightarrow> is_rental d w db' = is_rental d w db"
  by (cases w) (simp_all add: is_rental_def or_lookup_def)

interpretation reaper: deadline_pass env now "reap_due env now" for env now
  by unfold_locales (simp add: reap_due_def is_rental_frame [OF status_workloads] cong: option.case_cong)

interpretation runtime_cap: deadline_pass env now "runtime_due now" for env now
  by unfold_locales (simp add: runtime_due_def)

lemma by_state_facts:
  assumes "distinct_keys dr_id (cd_deployments db)"
  shows "distinct (map d_id (list_deployments_by_state st db))"
    and "d \<in> set (list_deployments_by_state st db) \<Longrightarrow> get_deployment (d_id d) db = Some d \<and> d_state d = st"
proof -
  show "distinct (map d_id (list_deployments_by_state st db))"
    using assms by (simp add: list_deployments_by_state_def list_deployments_def distinct_map_filter comp_def)
  assume "d \<in> set (list_deployments_by_state st db)"
  then obtain row where "row \<in> set (cd_deployments db)" "dr_dep row = d" "d_state d = st"
    by (auto simp: list_deployments_by_state_def list_deployments_def)
  with get_row_distinct [OF assms this(1)] show "get_deployment (d_id d) db = Some d \<and> d_state d = st"
    by (simp add: get_deployment_def)
qed

text \<open>
  A suspended pod is deleted exactly when its customer was told it would be: after the
  reaper's pass a suspended deployment is terminated if the deadline shown with its suspension
  terms has come, and otherwise (no deadline, or not yet) its record is exactly what it was.
\<close>

theorem reaper_keeps_terms:
  assumes "distinct_keys dr_id (cd_deployments (c_db s))"
    and "d \<in> set (list_deployments (c_db s))" and "d_state d = SUSPENDED"
  shows "case snd (suspension_terms env d None (c_db s)) of
      Some t \<Rightarrow> if t \<le> now
        then \<exists>d'. get_deployment (d_id d) (c_db (snd (reap_exhausted_pods env now s))) = Some d' \<and> d_state d' = TERMINATED
        else get_deployment (d_id d) (c_db (snd (reap_exhausted_pods env now s))) = Some d
    | None \<Rightarrow> get_deployment (d_id d) (c_db (snd (reap_exhausted_pods env now s))) = Some d"
proof -
  have listed: "d \<in> set (list_deployments_by_state SUSPENDED (c_db s))"
    using assms(2,3) by (simp add: list_deployments_by_state_def)
  note facts = by_state_facts [OF assms(1), where st = SUSPENDED]
  have pass: "pod_exhaustion_reaper_enabled env \<Longrightarrow>
      get_deployment (d_id d) (c_db (snd (reap_exhausted_pods env now s))) =
      (case reap_due env now d s of None \<Rightarrow> Some d
       | Some r \<Rightarrow> Some (apply_report now (own_report (d_id d) TERMINATED r None now) TERMINATED d))"
    unfolding reap_exhausted_pods_def
    using reaper.pass_ends_due [OF facts(1) _ _ listed, of s env now "[]"] facts(2) by auto
  have off: "\<not> pod_exhaustion_reaper_enabled env \<Longrightarrow> get_deployment (d_id d) (c_db (snd (reap_exhausted_pods env now s))) = Some d"
    using facts(2) [OF listed] by (simp add: reap_exhausted_pods_def)
  show ?thesis
    using pass off assms(3)
    by (cases "pod_exhaustion_reaper_enabled env")
      (auto simp: suspension_terms_def reap_due_def Let_def split: option.split if_splits)
qed

definition demo_suspended :: deployment where
  "demo_suspended = (demo_deployment ''d'' SUSPENDED)\<lparr>d_suspended_at := Some 0, d_suspended_reason := Some ''balance''\<rparr>"

theorem reaper_keeps_terms_witness:
  "snd (suspension_terms demo_env demo_suspended None (c_db (demo_control demo_suspended))) = Some (seconds 2592000) \<and>
   get_deployment ''d'' (c_db (snd (reap_exhausted_pods demo_env (seconds 2591999) (demo_control demo_suspended)))) = Some demo_suspended \<and>
   (\<exists>d'. get_deployment ''d'' (c_db (snd (reap_exhausted_pods demo_env (seconds 2592000) (demo_control demo_suspended)))) = Some d' \<and>
     d_state d' = TERMINATED)"
proof -
  let ?s = "demo_control demo_suspended"
  have terms: "snd (suspension_terms demo_env demo_suspended None (c_db ?s)) = Some (seconds 2592000)"
    by (simp add: suspension_terms_def demo_suspended_def is_rental_def or_lookup_def demo_control_def demo_env_def
        demo_deployment_def demo_workload_def INFERENCE_def)
  have id: "d_id demo_suspended = ''d''" "d_state demo_suspended = SUSPENDED"
    by (simp_all add: demo_suspended_def demo_deployment_def)
  have rows: "distinct_keys dr_id (cd_deployments (c_db ?s))" "demo_suspended \<in> set (list_deployments (c_db ?s))"
    by (simp_all add: demo_control_def list_deployments_def)
  show ?thesis
    using reaper_keeps_terms [OF rows id(2), of demo_env "seconds 2591999"]
      reaper_keeps_terms [OF rows id(2), of demo_env "seconds 2592000"] terms id
    by (simp add: seconds_def)
qed

text \<open>
  A runtime cap stops a deployment no earlier and no later: after the pass a ready deployment
  with a cap is terminated exactly when it has been ready for at least that many minutes, and
  one without a cap, or not yet there, is exactly what it was.
\<close>

theorem runtime_cap_exact:
  assumes "distinct_keys dr_id (cd_deployments (c_db s))"
    and "d \<in> set (list_deployments (c_db s))" and "d_state d = READY"
  shows "let after = get_deployment (d_id d) (c_db (snd (stop_expired_runtimes env now s)))
    in if \<exists>limit ready. d_max_runtime_minutes d = Some limit \<and> limit \<noteq> 0 \<and> d_ready_at d = Some ready \<and>
            seconds (limit * 60) \<le> now - ready
       then \<exists>d'. after = Some d' \<and> d_state d' = TERMINATED
       else after = Some d"
proof -
  have listed: "d \<in> set (list_deployments_by_state READY (c_db s))"
    using assms(2,3) by (simp add: list_deployments_by_state_def)
  note facts = by_state_facts [OF assms(1), where st = READY]
  have pass: "get_deployment (d_id d) (c_db (snd (stop_expired_runtimes env now s))) =
      (case runtime_due now d s of None \<Rightarrow> Some d
       | Some r \<Rightarrow> Some (apply_report now (own_report (d_id d) TERMINATED r None now) TERMINATED d))"
    unfolding stop_expired_runtimes_def
    using runtime_cap.pass_ends_due [OF facts(1) _ _ listed, of s env now "[]"] facts(2) by auto
  show ?thesis
    unfolding pass Let_def by (auto simp: runtime_due_def split: option.split)
qed

definition demo_capped :: deployment where
  "demo_capped = (demo_deployment ''d'' READY)\<lparr>d_max_runtime_minutes := Some 10, d_ready_at := Some 0\<rparr>"

theorem runtime_cap_exact_witness:
  "get_deployment ''d'' (c_db (snd (stop_expired_runtimes demo_env (seconds 599) (demo_control demo_capped)))) = Some demo_capped \<and>
   (\<exists>d'. get_deployment ''d'' (c_db (snd (stop_expired_runtimes demo_env (seconds 600) (demo_control demo_capped)))) = Some d' \<and>
     d_state d' = TERMINATED)"
proof -
  let ?s = "demo_control demo_capped"
  have capped: "d_id demo_capped = ''d''" "d_state demo_capped = READY" "d_max_runtime_minutes demo_capped = Some 10"
    "d_ready_at demo_capped = Some 0"
    by (simp_all add: demo_capped_def demo_deployment_def)
  have rows: "distinct_keys dr_id (cd_deployments (c_db ?s))" "demo_capped \<in> set (list_deployments (c_db ?s))"
    by (simp_all add: demo_control_def list_deployments_def)
  show ?thesis
    using runtime_cap_exact [OF rows capped(2), of demo_env "seconds 599"]
      runtime_cap_exact [OF rows capped(2), of demo_env "seconds 600"]
    by (simp add: capped seconds_def Let_def)
qed

end
