(* ===== verification/Numbers_Text.thy ===== *)
theory Numbers_Text
  imports Prelude
begin

text \<open>
  Numbers in texts and rounding to decimals, shared by the validator and gateway components:
  \<open>round_to n x\<close> is Python's \<^verbatim>\<open>round(x, n)\<close> and \<open>show_fixed n x\<close> its \<^verbatim>\<open>f"{x:.nf}"\<close>, both on the exact
  value with halves to even; \<open>show_general\<close> is \<^verbatim>\<open>f"{x:g}"\<close>, six significant digits, the 400 steps of
  \<open>decimal_exponent\<close> being more than the decimal exponents a float has; \<open>upper\<close> is \<^verbatim>\<open>str.upper\<close>.
\<close>

definition round_to :: "nat \<Rightarrow> rat \<Rightarrow> rat" where
  "round_to n x = of_int (py_round (x * 10 ^ n)) / 10 ^ n"

definition show_fixed :: "nat \<Rightarrow> rat \<Rightarrow> string" where
  "show_fixed n x =
     (let k = py_round (x * 10 ^ n); digits = show_nat (nat \<bar>k\<bar>);
          padded = replicate (Suc n - length digits) CHR ''0'' @ digits;
          m = length padded - n
      in (if x < 0 then ''-'' else []) @ take m padded @ (if n = 0 then [] else CHR ''.'' # drop m padded))"

fun decimal_exponent :: "nat \<Rightarrow> rat \<Rightarrow> int" where
  "decimal_exponent 0 x = 0"
| "decimal_exponent (Suc n) x =
     (if 10 \<le> x then decimal_exponent n (x / 10) + 1
      else if x < 1 then decimal_exponent n (x * 10) - 1 else 0)"

definition pow10 :: "int \<Rightarrow> rat" where
  "pow10 e = (if 0 \<le> e then 10 ^ nat e else 1 / 10 ^ nat (- e))"

definition strip_zeros :: "string \<Rightarrow> string" where
  "strip_zeros s =
     (if CHR ''.'' \<notin> set s then s
      else let kept = dropWhile (\<lambda>c. c = CHR ''0'') (rev s)
           in rev (if hd kept = CHR ''.'' then tl kept else kept))"

definition show_general :: "rat \<Rightarrow> string" where
  "show_general x =
     (if x = 0 then ''0''
      else let a = \<bar>x\<bar>; e0 = decimal_exponent 400 a;
               e = (if py_round (a * 100000 / pow10 e0) = 1000000 then e0 + 1 else e0);
               body = (if - 4 \<le> e \<and> e < 6 then strip_zeros (show_fixed (nat (5 - e)) a)
                       else let digits = show_nat (nat \<bar>e\<bar>)
                            in strip_zeros (show_fixed 5 (a / pow10 e)) @ ''e'' @ (if e < 0 then ''-'' else ''+'')
                               @ replicate (2 - length digits) CHR ''0'' @ digits)
           in (if x < 0 then ''-'' else []) @ body)"

definition upper_char :: "char \<Rightarrow> char" where
  "upper_char c = (if is_lower c then char_of (of_char c - 32 :: nat) else c)"

definition upper :: "string \<Rightarrow> string" where
  "upper s = map upper_char s"

lemma py_round_mono: "x \<le> y \<Longrightarrow> py_round x \<le> py_round y"
proof -
  assume le: "x \<le> y"
  have fx: "of_int \<lfloor>x\<rfloor> \<le> x" "x < of_int \<lfloor>x\<rfloor> + 1" and fy: "of_int \<lfloor>y\<rfloor> \<le> y" "y < of_int \<lfloor>y\<rfloor> + 1"
    using floor_correct [of x] floor_correct [of y] by simp_all
  from le have "\<lfloor>x\<rfloor> \<le> \<lfloor>y\<rfloor>" by (rule floor_mono)
  then consider "\<lfloor>x\<rfloor> = \<lfloor>y\<rfloor>" | "\<lfloor>x\<rfloor> + 1 \<le> \<lfloor>y\<rfloor>" by linarith
  then show ?thesis
  proof cases
    case 1
    with le show ?thesis by (auto simp: py_round_def Let_def)
  next
    case 2
    moreover have "py_round x \<le> \<lfloor>x\<rfloor> + 1" "\<lfloor>y\<rfloor> \<le> py_round y" by (auto simp: py_round_def Let_def)
    ultimately show ?thesis by linarith
  qed
qed

lemma round_to_mono: "x \<le> y \<Longrightarrow> round_to n x \<le> round_to n y"
  by (simp add: round_to_def divide_right_mono py_round_mono)

lemma round_to_nonneg: "0 \<le> x \<Longrightarrow> 0 \<le> round_to n x"
  using round_to_mono [of 0 x n] by (simp add: round_to_def)

lemma round_to_error: "\<bar>round_to n x - x\<bar> \<le> 1 / (2 * 10 ^ n)"
proof -
  have "\<bar>round_to n x - x\<bar> = \<bar>of_int (py_round (x * 10 ^ n)) - x * 10 ^ n\<bar> / 10 ^ n"
    by (simp add: round_to_def divide_simps)
  also have "\<dots> \<le> (1 / 2) / 10 ^ n" by (intro divide_right_mono py_round_error) simp
  finally show ?thesis by simp
qed

lemma round_to_exact: "x * 10 ^ n = of_int k \<Longrightarrow> round_to n x = x"
  by (simp add: round_to_def divide_simps)

section \<open>Decimal numerals\<close>

lemma is_digit_digit_char: "d < 10 \<Longrightarrow> is_digit (digit_char d)"
  by (simp add: is_digit_def digit_char_def of_char_of)

lemma of_char_digit_char: "d < 10 \<Longrightarrow> of_char (digit_char d) = 48 + d"
  by (simp add: digit_char_def of_char_of)

lemma show_nat_not_Nil [simp]: "show_nat n \<noteq> []"
  by (simp add: show_nat.simps [of n])

lemma show_nat_digit: "c \<in> set (show_nat n) \<Longrightarrow> is_digit c"
proof (induction n rule: show_nat.induct)
  case (1 n)
  then show ?case
    by (cases "n < 10") (auto simp: show_nat.simps [of n] is_digit_digit_char)
qed

lemma digit_char_inj: "digit_char a = digit_char b \<Longrightarrow> a < 10 \<Longrightarrow> b < 10 \<Longrightarrow> a = b"
  by (metis of_char_digit_char add_left_cancel)

lemma show_nat_inj: "show_nat m = show_nat n \<Longrightarrow> m = n"
proof (induction m arbitrary: n rule: less_induct)
  case (less m)
  show ?case
  proof (cases "m < 10 \<or> n < 10")
    case True
    moreover have "length (show_nat k) = 1 \<longleftrightarrow> k < 10" for k by (simp add: show_nat.simps [of k])
    ultimately have "m < 10" "n < 10" using less.prems by metis+
    with less.prems show ?thesis using digit_char_inj [of m n] by (simp add: show_nat.simps [of m] show_nat.simps [of n])
  next
    case False
    with less.prems have "show_nat (m div 10) = show_nat (n div 10)" "digit_char (m mod 10) = digit_char (n mod 10)"
      by (simp_all add: show_nat.simps [of m] show_nat.simps [of n])
    with less.IH [of "m div 10" "n div 10"] False have "m div 10 = n div 10" "m mod 10 = n mod 10"
      by (auto dest: digit_char_inj)
    then show ?thesis by (metis div_mod_decomp)
  qed
qed

lemma minus_no_digit: "\<not> is_digit (CHR ''-'')"
  by (simp add: is_digit_def)

lemma show_int_inj: "show_int i = show_int j \<Longrightarrow> i = j"
proof -
  have minus: "CHR ''-'' # show_nat m \<noteq> show_nat n" for m n
    using show_nat_digit [of "CHR ''-''" n] by (metis list.set_intros(1) minus_no_digit)
  assume "show_int i = show_int j"
  with minus minus [symmetric] show ?thesis by (auto simp: show_int_def dest: show_nat_inj split: if_splits)
qed

end
