(* ===== verification/Grouping.thy ===== *)
theory Grouping
  imports Prelude
begin

text \<open>
  Grouping a list into a dictionary in order of first use, as the placement planner, the replica
  reconciler and the statements do; a group is the sublist of the elements with its key.
\<close>

text \<open>\<^verbatim>\<open>groups.setdefault(key, []).append(x)\<close> for every \<^verbatim>\<open>x\<close>: a dictionary in order of first use.\<close>

fun append_to :: "'k \<Rightarrow> 'a \<Rightarrow> ('k \<times> 'a list) list \<Rightarrow> ('k \<times> 'a list) list" where
  "append_to k x [] = [(k, [x])]"
| "append_to k x ((j, xs) # groups) = (if j = k then (j, xs @ [x]) # groups else (j, xs) # append_to k x groups)"

definition group_by :: "('a \<Rightarrow> 'k) \<Rightarrow> 'a list \<Rightarrow> ('k \<times> 'a list) list" where
  "group_by key xs = foldl (\<lambda>groups x. append_to (key x) x groups) [] xs"

lemma keys_append_to: "fst ` set (append_to k x gs) = insert k (fst ` set gs)"
  by (induction k x gs rule: append_to.induct) auto

lemma distinct_append_to: "distinct (map fst gs) \<Longrightarrow> distinct (map fst (append_to k x gs))"
proof (induction k x gs rule: append_to.induct)
  case (2 k x j xs gs)
  then show ?case using keys_append_to [of k x gs] by auto
qed simp

lemma in_append_to:
  "distinct (map fst gs) \<Longrightarrow> (j, ys) \<in> set (append_to k x gs) \<longleftrightarrow>
     (if j = k then (\<exists>xs. (k, xs) \<in> set gs \<and> ys = xs @ [x]) \<or> k \<notin> fst ` set gs \<and> ys = [x] else (j, ys) \<in> set gs)"
proof (induction k x gs rule: append_to.induct)
  case (2 k x i xs gs)
  then show ?case by (cases "i = k") (auto simp: rev_image_eqI)
qed auto

text \<open>Grouping is filtering: the group of a key is the sublist of its elements, in order.\<close>

lemma group_by_set:
  "distinct (map fst (group_by key xs)) \<and> (\<forall>k ys. (k, ys) \<in> set (group_by key xs) \<longleftrightarrow> ys = filter (\<lambda>x. key x = k) xs \<and> ys \<noteq> [])"
proof (induction xs rule: rev_induct)
  case Nil
  then show ?case by (simp add: group_by_def)
next
  case (snoc x xs)
  have step: "group_by key (xs @ [x]) = append_to (key x) x (group_by key xs)" by (simp add: group_by_def)
  have "key x \<notin> fst ` set (group_by key xs) \<longleftrightarrow> filter (\<lambda>y. key y = key x) xs = []"
    using snoc by (force simp: image_iff)
  with snoc show ?case
    unfolding step by (auto simp: distinct_append_to in_append_to)
qed

lemma group_by_iff: "(k, ys) \<in> set (group_by key xs) \<longleftrightarrow> ys = filter (\<lambda>x. key x = k) xs \<and> ys \<noteq> []"
  using group_by_set by fastforce

lemma distinct_group_by: "distinct (map fst (group_by key xs))"
  using group_by_set by fastforce

lemma group_by_const: "xs \<noteq> [] \<Longrightarrow> \<forall>x \<in> set xs. key x = k \<Longrightarrow> group_by key xs = [(k, xs)]"
proof (induction xs rule: rev_induct)
  case (snoc x xs)
  then show ?case by (cases "xs = []") (auto simp: group_by_def)
qed simp

lemma sum_append_to:
  fixes f :: "'a \<Rightarrow> int"
  shows "sum_list (map (\<lambda>g. sum_list (map f (snd g))) (append_to k x gs)) = sum_list (map (\<lambda>g. sum_list (map f (snd g))) gs) + f x"
  by (induction k x gs rule: append_to.induct) auto

lemma sum_group_by:
  fixes f :: "'a \<Rightarrow> int"
  shows "sum_list (map (\<lambda>g. sum_list (map f (snd g))) (group_by key xs)) = sum_list (map f xs)"
  by (induction xs rule: rev_induct) (simp_all add: group_by_def sum_append_to)

end
