(* ===== verification/Statements.thy ===== *)
theory Statements
  imports Metering Grouping Numbers_Text "HOL-Library.Char_ord" "HOL-Library.List_Lexorder" "HOL-Library.Product_Lexorder"
begin

text \<open>
  Readable billing: \<^verbatim>\<open>gateway/application/statements.py\<close> and the grouped ledger query
  \<^verbatim>\<open>BillingRepository.spending_rows\<close>.

  A UTC calendar day is its number of days since 1970-01-01; the text \<^verbatim>\<open>YYYY-MM-DD\<close> of a day is a
  presentation of that number and sorts like it.  Texts are the bytes of their UTF-8 encoding, so
  \<^verbatim>\<open>\d\<close> is an ASCII digit.  Hours, days and dollar amounts are exact rationals.
  The rows of a \<^verbatim>\<open>GROUP BY\<close> come in order of first appearance.

  The lemmas show that a statement reconciles (opening balance, lines and closing balance add up to
  the cent, and so do the totals), that consecutive periods chain, that the rate a charge text
  carries is read back exactly, and that no CSV cell starts a spreadsheet formula.
\<close>

section \<open>Rates in charge texts\<close>

text \<open>The three patterns have no ambiguity, so matching without backtracking is matching: after the
  digits comes a literal that starts with a non-digit, and after the amount a slash.\<close>

definition read_nat :: "string \<Rightarrow> nat" where
  "read_nat ds = foldl (\<lambda>n c. n * 10 + (of_char c - 48)) 0 ds"

definition match_digits :: "string \<Rightarrow> (string \<times> string) option" where
  "match_digits s =
     (if takeWhile is_digit s = [] then None else Some (takeWhile is_digit s, dropWhile is_digit s))"

fun match_text :: "string \<Rightarrow> string \<Rightarrow> string option" where
  "match_text [] s = Some s"
| "match_text (p # ps) [] = None"
| "match_text (p # ps) (c # cs) = (if p = c then match_text ps cs else None)"

definition match_amount :: "string \<Rightarrow> (rat \<times> string) option" where
  "match_amount s =
     (case match_digits s of
        None \<Rightarrow> None
      | Some (ds, rest) \<Rightarrow>
          (case rest of
             CHR ''.'' # rest1 \<Rightarrow>
               (case match_digits rest1 of
                  None \<Rightarrow> Some (of_nat (read_nat ds), rest)
                | Some (fs, rest2) \<Rightarrow> Some (of_nat (read_nat ds) + of_nat (read_nat fs) / 10 ^ length fs, rest2))
           | _ \<Rightarrow> Some (of_nat (read_nat ds), rest)))"

definition match_count_rate :: "string \<Rightarrow> string \<Rightarrow> (nat \<times> rat) option" where
  "match_count_rate sep s =
     (case match_digits s of
        None \<Rightarrow> None
      | Some (ds, rest) \<Rightarrow>
          (case match_text sep rest of
             None \<Rightarrow> None
           | Some rest1 \<Rightarrow>
               (case match_amount rest1 of
                  None \<Rightarrow> None
                | Some (x, rest2) \<Rightarrow> (case match_text ''/hr'' rest2 of None \<Rightarrow> None | Some _ \<Rightarrow> Some (read_nat ds, x)))))"

text \<open>\<^verbatim>\<open>re.search\<close>: the leftmost match.\<close>

fun search :: "(string \<Rightarrow> 'a option) \<Rightarrow> string \<Rightarrow> 'a option" where
  "search f [] = f []"
| "search f (c # cs) = (case f (c # cs) of Some r \<Rightarrow> Some r | None \<Rightarrow> search f cs)"

fun first_of :: "'a option \<Rightarrow> 'a option \<Rightarrow> 'a option" where
  "first_of (Some x) _ = Some x"
| "first_of None y = y"

definition RENTAL_RATE :: "string \<Rightarrow> (nat \<times> rat) option" where
  "RENTAL_RATE = match_count_rate (times_sign @ '' GPU @ $'')"

definition MODEL_RATE :: "string \<Rightarrow> (nat \<times> rat) option" where
  "MODEL_RATE s = first_of (match_count_rate '' GPUs at $'' s) (match_count_rate '' GPU at $'' s)"

definition STORAGE_RATE :: "string \<Rightarrow> rat option" where
  "STORAGE_RATE s =
     (case s of
        CHR ''$'' # rest \<Rightarrow>
          (case match_amount rest of
             None \<Rightarrow> None | Some (x, rest1) \<Rightarrow> (case match_text ''/day'' rest1 of None \<Rightarrow> None | Some _ \<Rightarrow> Some x))
      | _ \<Rightarrow> None)"

definition cents_per_hour :: "string \<Rightarrow> int option" where
  "cents_per_hour description =
     map_option (\<lambda>(n, x). int n * py_round (x * 100)) (first_of (search RENTAL_RATE description) (search MODEL_RATE description))"

definition storage_cents_per_day :: "string \<Rightarrow> int option" where
  "storage_cents_per_day description = map_option (\<lambda>x. py_round (x * 100)) (search STORAGE_RATE description)"

definition usd :: "int \<Rightarrow> rat" where
  "usd cents = round_to 2 (of_int cents / 100)"

section \<open>What a deployment was\<close>

datatype label_kind = RentalLabel | ModelLabel | SharedLabel

record label =
  lb_name :: string
  lb_kind :: label_kind
  lb_state :: "string option"
  lb_gpu_model :: "string option"
  lb_gpu_count :: "int option"

type_synonym labels = "(ident \<times> label) list"

definition node_gpu :: "control_db \<Rightarrow> ident option \<Rightarrow> string option" where
  "node_gpu db nid =
     (if truthy nid then map_option n_gpu_model (find (\<lambda>n. Some (n_node_id n) = nid) (rev (list_nodes db))) else None)"

fun label_state :: "deployment_state \<Rightarrow> string" where
  "label_state SUSPENDED = ''paused''"
| "label_state TERMINATED = ''ended''"
| "label_state FAILED = ''ended''"
| "label_state _ = ''running''"

definition deployment_label :: "control_db \<Rightarrow> label \<Rightarrow> deployment \<Rightarrow> label" where
  "deployment_label db info dep =
     (let info1 = info\<lparr>lb_state := Some (label_state (d_state dep))\<rparr>
      in case get_workload (d_workload_id dep) db of
           None \<Rightarrow> info1
         | Some wl \<Rightarrow>
             let allowed = rq_supported_gpu_models (wl_requirements wl); gpu = node_gpu db (d_node_id dep)
             in info1\<lparr>lb_name := the (str_or (d_name dep) (str_or (wl_display_name wl) (Some (wl_name wl)))),
                      lb_kind := (if wl_kind wl = INFERENCE then ModelLabel else RentalLabel),
                      lb_gpu_model := (if truthy gpu then gpu else case allowed of [] \<Rightarrow> None | m # _ \<Rightarrow> Some m),
                      lb_gpu_count := Some (rq_gpu_count (wl_requirements wl))\<rparr>)"

fun deleted_snapshots :: "event_payload list \<Rightarrow> deleted_snapshot list" where
  "deleted_snapshots [] = []"
| "deleted_snapshots (DeletedWithWorkload s # es) = s # deleted_snapshots es"
| "deleted_snapshots (StatusReport u # es) = deleted_snapshots es"

definition snapshot_label :: "label \<Rightarrow> deleted_snapshot \<Rightarrow> label" where
  "snapshot_label info s =
     (let wl = ds_workload s
      in info\<lparr>lb_name := the (str_or (d_name (dr_dep (ds_row s)))
                   (str_or (str_or (wl_display_name wl) (Some (wl_name wl))) (Some (lb_name info)))),
              lb_kind := (if wl_kind wl = INFERENCE then ModelLabel else RentalLabel),
              lb_gpu_model := ds_gpu_model s, lb_gpu_count := Some (rq_gpu_count (wl_requirements wl))\<rparr>)"

definition make_label :: "control_db \<Rightarrow> ident \<Rightarrow> string \<Rightarrow> label" where
  "make_label db did description =
     (let info = \<lparr>lb_name = ''Deployment '' @ take 8 did, lb_kind = RentalLabel, lb_state = Some ''deleted'',
                  lb_gpu_model = None, lb_gpu_count = None\<rparr>
      in case get_deployment did db of
           Some dep \<Rightarrow> deployment_label db info dep
         | None \<Rightarrow>
             (case rev (deleted_snapshots (list_deployment_events (Some did) 500 db)) of
                s # _ \<Rightarrow> snapshot_label info s
              | [] \<Rightarrow> if search MODEL_RATE description \<noteq> None then info\<lparr>lb_kind := ModelLabel\<rparr> else info))"

definition labels_get :: "control_db \<Rightarrow> ident \<Rightarrow> string \<Rightarrow> labels \<Rightarrow> label \<times> labels" where
  "labels_get db did description cache =
     (case map_of cache did of
        Some info \<Rightarrow> (info, cache)
      | None \<Rightarrow> let info = make_label db did description in (info, (did, info) # cache))"

datatype category = GpuRentals | PrivateModels | Storage | SharedModels

definition category_of :: "string \<Rightarrow> label_kind \<Rightarrow> category" where
  "category_of kind k =
     (if kind = ''storage'' then Storage
      else if kind = ''inference'' then SharedModels
      else if k = ModelLabel then PrivateModels else GpuRentals)"

fun TYPE_NAMES :: "category \<Rightarrow> string" where
  "TYPE_NAMES GpuRentals = ''GPU rental''"
| "TYPE_NAMES PrivateModels = ''Private model''"
| "TYPE_NAMES Storage = ''Saved-pod storage''"
| "TYPE_NAMES SharedModels = ''Shared models''"

section \<open>Periods\<close>

datatype statement_error = BadDate | RangeReversed | RangeTooLong | BadMonth | YearOutOfRange

definition MAX_RANGE_DAYS :: int where "MAX_RANGE_DAYS = 400"

type_synonym day = int

text \<open>\<^verbatim>\<open>date.fromisoformat\<close> is an argument that gives the day number of a text it accepts.\<close>

definition parse_range ::
  "(string \<Rightarrow> day option) \<Rightarrow> string option \<Rightarrow> string option \<Rightarrow> day \<Rightarrow> statement_error + day \<times> day" where
  "parse_range fromisoformat start stop today =
     (case (if truthy stop then fromisoformat (the stop) else Some today) of
        None \<Rightarrow> Inl BadDate
      | Some final \<Rightarrow>
          (case (if truthy start then fromisoformat (the start) else Some (final - 29)) of
             None \<Rightarrow> Inl BadDate
           | Some initial \<Rightarrow>
               if initial > final then Inl RangeReversed
               else if final - initial + 1 > MAX_RANGE_DAYS then Inl RangeTooLong
               else Inr (initial, final)))"

text \<open>The proleptic Gregorian calendar of \<^verbatim>\<open>datetime.date\<close>: a date is (year, month, day).\<close>

type_synonym date = "int \<times> int \<times> int"

definition is_leap :: "int \<Rightarrow> bool" where
  "is_leap y \<longleftrightarrow> y mod 4 = 0 \<and> (y mod 100 \<noteq> 0 \<or> y mod 400 = 0)"

definition days_before_year :: "int \<Rightarrow> int" where
  "days_before_year y = (y - 1) * 365 + (y - 1) div 4 - (y - 1) div 100 + (y - 1) div 400"

definition days_in_month :: "int \<Rightarrow> int \<Rightarrow> int" where
  "days_in_month y m = (if m = 2 then (if is_leap y then 29 else 28) else if m \<in> {4, 6, 9, 11} then 30 else 31)"

definition days_before_month :: "int \<Rightarrow> int \<Rightarrow> int" where
  "days_before_month y m = sum_list (map (days_in_month y) [1..m - 1])"

definition day_number :: "date \<Rightarrow> day" where
  "day_number d = (case d of (y, m, k) \<Rightarrow> days_before_year y + days_before_month y m + k - 719163)"

definition make_date :: "int \<Rightarrow> int \<Rightarrow> date option" where
  "make_date y m = (if 1 \<le> y \<and> y \<le> 9999 \<and> 1 \<le> m \<and> m \<le> 12 then Some (y, m, 1) else None)"

definition is_month_text :: "string \<Rightarrow> bool" where
  "is_month_text s \<longleftrightarrow> length s = 7 \<and> s ! 4 = CHR ''-'' \<and> list_all is_digit (take 4 s @ drop 5 s)"

definition next_month :: "date \<Rightarrow> statement_error + date" where
  "next_month d =
     (case d of (y, m, _) \<Rightarrow>
        (case make_date (y + (if m = 12 then 1 else 0)) (m mod 12 + 1) of None \<Rightarrow> Inl YearOutOfRange | Some n \<Rightarrow> Inr n))"

definition parse_month :: "string option \<Rightarrow> date \<Rightarrow> statement_error + date \<times> date" where
  "parse_month month today =
     (case (if \<not> truthy month then (case today of (y, m, _) \<Rightarrow> Inr (y, m, 1))
            else if \<not> is_month_text (the month) then Inl BadMonth
            else case make_date (int (read_nat (take 4 (the month)))) (int (read_nat (drop 5 (the month)))) of
                   None \<Rightarrow> Inl BadMonth | Some d \<Rightarrow> Inr d) of
        Inl e \<Rightarrow> Inl e
      | Inr first \<Rightarrow> (case next_month first of Inl e \<Rightarrow> Inl e | Inr nxt \<Rightarrow> Inr (first, nxt)))"

definition day_start :: "day \<Rightarrow> time" where
  "day_start d = d * seconds 86400"

definition day_of :: "time \<Rightarrow> day" where
  "day_of t = t div seconds 86400"

section \<open>The grouped ledger\<close>

definition METERED_KINDS :: "string list" where
  "METERED_KINDS = [''usage'', ''storage'', ''inference'']"

record metered_row =
  mr_ref :: "ident option"
  mr_kind :: string
  mr_day :: day
  mr_description :: string
  mr_cents :: int
  mr_rows :: nat
  mr_first_at :: time
  mr_last_at :: time

record spending =
  sp_metered :: "metered_row list"
  sp_entries :: "ledger_entry list"
  sp_opening :: int
  sp_closing :: int

definition metered_key :: "ledger_entry \<Rightarrow> ident option \<times> string \<times> day \<times> string" where
  "metered_key e =
     (if le_kind e = ''inference'' then None else le_reference e, le_kind e, day_of (le_created_at e),
      if le_kind e = ''inference'' then [] else le_description e)"

definition metered_row_of :: "(ident option \<times> string \<times> day \<times> string) \<times> ledger_entry list \<Rightarrow> metered_row" where
  "metered_row_of g =
     (case g of ((rf, k, d, ds), es) \<Rightarrow>
        \<lparr>mr_ref = rf, mr_kind = k, mr_day = d, mr_description = ds, mr_cents = sum_list (map le_amount es), mr_rows = length es,
         mr_first_at = Min (set (map le_created_at es)), mr_last_at = Max (set (map le_created_at es))\<rparr>)"

definition in_period :: "ident \<Rightarrow> time \<Rightarrow> time \<Rightarrow> ledger_entry \<Rightarrow> bool" where
  "in_period user since until e \<longleftrightarrow> le_user e = user \<and> since \<le> le_created_at e \<and> le_created_at e < until"

definition spending_rows :: "ident \<Rightarrow> time \<Rightarrow> time \<Rightarrow> billing_db \<Rightarrow> spending" where
  "spending_rows user since until db =
     (let base = filter (in_period user since until) (bd_ledger db);
          metered = map metered_row_of (group_by metered_key (filter (\<lambda>e. le_kind e \<in> set METERED_KINDS) base));
          entries = sort_key le_created_at (filter (\<lambda>e. le_kind e \<notin> set METERED_KINDS) base);
          balance_now = (case get_user db user of None \<Rightarrow> 0 | Some u \<Rightarrow> u_balance u);
          closing = balance_now - sum_rows (\<lambda>e. le_user e = user \<and> le_created_at e \<ge> until) le_amount (bd_ledger db);
          before = closing - sum_rows (in_period user since until) le_amount (bd_ledger db)
      in \<lparr>sp_metered = metered, sp_entries = entries, sp_opening = before, sp_closing = closing\<rparr>)"

section \<open>Groups of charges\<close>

record charge_group =
  cg_ref :: "ident option"
  cg_kind :: string
  cg_day :: day
  cg_info :: label
  cg_category :: category
  cg_cents :: int
  cg_rows :: nat
  cg_hours :: rat
  cg_hours_known :: bool
  cg_days :: rat
  cg_first_at :: time
  cg_last_at :: time

abbreviation cg_key :: "charge_group \<Rightarrow> ident option \<times> string \<times> day" where
  "cg_key g \<equiv> (cg_ref g, cg_kind g, cg_day g)"

definition shared_label :: label where
  "shared_label = \<lparr>lb_name = ''Shared models'', lb_kind = SharedLabel, lb_state = None, lb_gpu_model = None, lb_gpu_count = None\<rparr>"

definition new_group :: "metered_row \<Rightarrow> label \<Rightarrow> charge_group" where
  "new_group r info =
     \<lparr>cg_ref = mr_ref r, cg_kind = mr_kind r, cg_day = mr_day r, cg_info = info,
      cg_category = category_of (mr_kind r) (lb_kind info), cg_cents = 0, cg_rows = 0, cg_hours = 0, cg_hours_known = True,
      cg_days = 0, cg_first_at = mr_first_at r, cg_last_at = mr_last_at r\<rparr>"

definition add_charge :: "metered_row \<Rightarrow> charge_group \<Rightarrow> charge_group" where
  "add_charge r g =
     (let charged = - mr_cents r;
          g1 = g\<lparr>cg_cents := cg_cents g + charged, cg_rows := cg_rows g + mr_rows r,
                 cg_first_at := min (cg_first_at g) (mr_first_at r), cg_last_at := max (cg_last_at g) (mr_last_at r)\<rparr>
      in if mr_kind r = ''usage''
         then (case cents_per_hour (mr_description r) of
                 None \<Rightarrow> g1\<lparr>cg_hours_known := False\<rparr>
               | Some rate \<Rightarrow> if rate = 0 then g1\<lparr>cg_hours_known := False\<rparr>
                             else g1\<lparr>cg_hours := cg_hours g1 + of_int charged / of_int rate\<rparr>)
         else if mr_kind r = ''storage''
         then (case storage_cents_per_day (mr_description r) of
                 None \<Rightarrow> g1
               | Some per_day \<Rightarrow> if per_day = 0 then g1
                                else g1\<lparr>cg_days := cg_days g1 + of_int charged / of_int per_day\<rparr>)
         else g1)"

fun groups_loop :: "control_db \<Rightarrow> metered_row list \<Rightarrow> charge_group list \<Rightarrow> labels \<Rightarrow> charge_group list" where
  "groups_loop cdb [] out cache = out"
| "groups_loop cdb (r # rs) out cache =
     (case get_row cg_key (mr_ref r, mr_kind r, mr_day r) out of
        Some g \<Rightarrow> groups_loop cdb rs (modify_row cg_key (cg_key g) (add_charge r) out) cache
      | None \<Rightarrow>
          let (info, cache1) = (if truthy (mr_ref r) then labels_get cdb (the (mr_ref r)) (mr_description r) cache
                                else (shared_label, cache))
          in groups_loop cdb rs (out @ [add_charge r (new_group r info)]) cache1)"

definition groups :: "control_db \<Rightarrow> metered_row list \<Rightarrow> charge_group list" where
  "groups cdb metered = groups_loop cdb metered [] []"

definition plural :: "bool \<Rightarrow> string" where
  "plural one = (if one then [] else ''s'')"

definition quantity :: "charge_group \<Rightarrow> string option" where
  "quantity g =
     (if cg_kind g = ''usage'' \<and> cg_hours_known g then Some (show_fixed 1 (cg_hours g) @ '' h'')
      else if cg_kind g = ''storage'' \<and> cg_days g \<noteq> 0
      then Some (show_fixed 0 (cg_days g) @ '' day'' @ plural (py_round (cg_days g) = 1))
      else if cg_kind g = ''inference'' then Some (show_nat (cg_rows g) @ '' request'' @ plural (cg_rows g = 1))
      else None)"

section \<open>The spending summary\<close>

definition CREDIT_KINDS :: "string list" where
  "CREDIT_KINDS = [''topup'', ''bonus'']"

record day_total =
  dt_charged :: int
  dt_topped_up :: int
  dt_adjustments :: int
  dt_by_category :: "category \<Rightarrow> int"

definition blank :: day_total where
  "blank = \<lparr>dt_charged = 0, dt_topped_up = 0, dt_adjustments = 0, dt_by_category = (\<lambda>_. 0)\<rparr>"

type_synonym day_totals = "(day \<times> day_total) list"

fun on_day :: "day \<Rightarrow> (day_total \<Rightarrow> day_total) \<Rightarrow> day_totals \<Rightarrow> day_totals" where
  "on_day k f [] = [(k, f blank)]"
| "on_day k f ((j, v) # days) = (if j = k then (j, f v) # days else (j, v) # on_day k f days)"

definition note_entry :: "ledger_entry \<Rightarrow> day_totals \<Rightarrow> day_totals" where
  "note_entry e days =
     on_day (day_of (le_created_at e))
       (\<lambda>d. if le_kind e \<in> set CREDIT_KINDS then d\<lparr>dt_topped_up := dt_topped_up d + le_amount e\<rparr>
            else d\<lparr>dt_adjustments := dt_adjustments d + le_amount e\<rparr>) days"

definition note_group :: "charge_group \<Rightarrow> day_totals \<Rightarrow> day_totals" where
  "note_group g days =
     on_day (cg_day g)
       (\<lambda>d. d\<lparr>dt_by_category := (dt_by_category d)(cg_category g := dt_by_category d (cg_category g) + cg_cents g),
              dt_charged := dt_charged d + cg_cents g\<rparr>) days"

definition day_sum :: "(day_total \<Rightarrow> int) \<Rightarrow> day_totals \<Rightarrow> int" where
  "day_sum field_of days = sum_list (map (\<lambda>p. field_of (snd p)) days)"

record deployment_total =
  dpt_deployment_id :: "ident option"
  dpt_info :: label
  dpt_gpu_cents :: int
  dpt_storage_cents :: int
  dpt_hours :: rat
  dpt_first_at :: time
  dpt_last_at :: time

definition add_to_deployment :: "charge_group \<Rightarrow> deployment_total \<Rightarrow> deployment_total" where
  "add_to_deployment g e =
     (let e1 = (if cg_kind g = ''storage'' then e\<lparr>dpt_storage_cents := dpt_storage_cents e + cg_cents g\<rparr>
                else e\<lparr>dpt_gpu_cents := dpt_gpu_cents e + cg_cents g, dpt_hours := dpt_hours e + cg_hours g\<rparr>)
      in e1\<lparr>dpt_first_at := min (dpt_first_at e1) (cg_first_at g), dpt_last_at := max (dpt_last_at e1) (cg_last_at g)\<rparr>)"

definition note_deployment :: "charge_group \<Rightarrow> deployment_total list \<Rightarrow> deployment_total list" where
  "note_deployment g deployments =
     (if get_row dpt_deployment_id (cg_ref g) deployments \<noteq> None
      then modify_row dpt_deployment_id (cg_ref g) (add_to_deployment g) deployments
      else deployments @ [add_to_deployment g
             \<lparr>dpt_deployment_id = cg_ref g, dpt_info = cg_info g, dpt_gpu_cents = 0, dpt_storage_cents = 0, dpt_hours = 0,
              dpt_first_at = cg_first_at g, dpt_last_at = cg_last_at g\<rparr>])"

record summary =
  sm_from :: day
  sm_to :: day
  sm_opening_usd :: rat
  sm_closing_usd :: rat
  sm_charged_usd :: rat
  sm_topped_up_usd :: rat
  sm_adjustments_usd :: rat
  sm_shared_models_usd :: rat
  sm_shared_requests :: nat
  sm_days :: "(day \<times> day_total) list"
  sm_deployments :: "deployment_total list"

definition dpt_total :: "deployment_total \<Rightarrow> int" where
  "dpt_total e = dpt_gpu_cents e + dpt_storage_cents e"

definition spending_summary :: "ident \<Rightarrow> day \<Rightarrow> day \<Rightarrow> billing_db \<Rightarrow> control_db \<Rightarrow> summary" where
  "spending_summary user initial final db cdb =
     (let rows = spending_rows user (day_start initial) (day_start (final + 1)) db;
          gs = groups cdb (sp_metered rows);
          shared = filter (\<lambda>g. cg_kind g = ''inference'') gs;
          days = fold note_group gs (fold note_entry (sp_entries rows) []);
          deployments = fold note_deployment (filter (\<lambda>g. cg_kind g \<noteq> ''inference'') gs) []
      in \<lparr>sm_from = initial, sm_to = final, sm_opening_usd = usd (sp_opening rows), sm_closing_usd = usd (sp_closing rows),
          sm_charged_usd = usd (day_sum dt_charged days),
          sm_topped_up_usd = usd (day_sum dt_topped_up days),
          sm_adjustments_usd = usd (day_sum dt_adjustments days),
          sm_shared_models_usd = usd (sum_list (map cg_cents shared)),
          sm_shared_requests = sum_list (map cg_rows shared),
          sm_days = sort_key fst days,
          sm_deployments = sort_key (\<lambda>e. (- dpt_total e, lb_name (dpt_info e))) deployments\<rparr>)"

section \<open>The monthly statement\<close>

definition capitalize :: "string \<Rightarrow> string" where
  "capitalize s = (case s of [] \<Rightarrow> [] | c # cs \<Rightarrow> upper_char c # lower cs)"

definition ENTRY_TYPES :: "(string \<times> string) list" where
  "ENTRY_TYPES = [(''topup'', ''Top-up''), (''refund'', ''Refund''), (''adjustment'', ''Adjustment''),
     (''chargeback'', ''Chargeback''), (''bonus'', ''Bonus'')]"

record statement_line =
  ln_day :: day
  ln_type :: string
  ln_description :: string
  ln_quantity :: "string option"
  ln_deployment_id :: "ident option"
  ln_amount :: int

type_synonym line_sort = "day \<times> nat \<times> time \<times> string \<times> string"

definition group_text :: "charge_group \<Rightarrow> string" where
  "group_text g =
     (if cg_kind g = ''inference'' then ''Requests to shared models''
      else let info = cg_info g;
               gpus = (if truthy (lb_gpu_model info) \<and> lb_gpu_count info \<notin> {None, Some 0}
                       then '', '' @ show_int (the (lb_gpu_count info)) @ times_sign @ '' '' @ the (lb_gpu_model info) else []);
               gone = (if lb_state info = Some ''deleted'' then '' (deleted)'' else [])
           in lb_name info @ gpus @ gone)"

definition group_line :: "charge_group \<Rightarrow> line_sort \<times> statement_line" where
  "group_line g =
     ((cg_day g, 1, 0, TYPE_NAMES (cg_category g), group_text g),
      \<lparr>ln_day = cg_day g, ln_type = TYPE_NAMES (cg_category g), ln_description = group_text g, ln_quantity = quantity g,
       ln_deployment_id = cg_ref g, ln_amount = - cg_cents g\<rparr>)"

definition entry_line :: "ledger_entry \<Rightarrow> line_sort \<times> statement_line" where
  "entry_line e =
     ((day_of (le_created_at e), 0, le_created_at e, [], []),
      \<lparr>ln_day = day_of (le_created_at e),
       ln_type = (case map_of ENTRY_TYPES (le_kind e) of Some t \<Rightarrow> t | None \<Rightarrow> capitalize (le_kind e)),
       ln_description = le_description e, ln_quantity = None, ln_deployment_id = None, ln_amount = le_amount e\<rparr>)"

fun add_type :: "statement_line \<Rightarrow> (string \<times> int) list \<Rightarrow> (string \<times> int) list" where
  "add_type x [] = [(ln_type x, - ln_amount x)]"
| "add_type x ((t, n) # ts) = (if t = ln_type x then (t, n - ln_amount x) # ts else (t, n) # add_type x ts)"

record statement =
  sn_month :: date
  sn_from :: day
  sn_to :: day
  sn_opening :: int
  sn_closing :: int
  sn_credits :: int
  sn_charges :: int
  sn_by_type :: "(string \<times> int) list"
  sn_lines :: "statement_line list"

definition statement_lines :: "spending \<Rightarrow> control_db \<Rightarrow> statement_line list" where
  "statement_lines rows cdb =
     map snd (sort_key fst (map group_line (groups cdb (sp_metered rows)) @ map entry_line (sp_entries rows)))"

definition monthly_statement ::
  "ident \<Rightarrow> string option \<Rightarrow> date \<Rightarrow> billing_db \<Rightarrow> control_db \<Rightarrow> statement_error + statement" where
  "monthly_statement user month today db cdb =
     (case parse_month month today of
        Inl e \<Rightarrow> Inl e
      | Inr (first, nxt) \<Rightarrow>
          let rows = spending_rows user (day_start (day_number first)) (day_start (day_number nxt)) db;
              lns = statement_lines rows cdb
          in Inr \<lparr>sn_month = first, sn_from = day_number first, sn_to = day_number nxt - 1,
                  sn_opening = sp_opening rows, sn_closing = sp_closing rows,
                  sn_credits = sum_list (map ln_amount (filter (\<lambda>x. ln_amount x > 0) lns)),
                  sn_charges = - sum_list (map ln_amount (filter (\<lambda>x. ln_amount x < 0) lns)),
                  sn_by_type = sort_key (\<lambda>kv. - snd kv) (fold add_type (filter (\<lambda>x. ln_amount x < 0) lns) []),
                  sn_lines = lns\<rparr>)"

section \<open>CSV\<close>

definition FORMULA_STARTS :: string where
  "FORMULA_STARTS = ''=+-@'' @ [CHR 0x09, CHR 0x0D]"

definition cell :: "string \<Rightarrow> string" where
  "cell s = (case s of [] \<Rightarrow> [] | c # _ \<Rightarrow> if c \<in> set FORMULA_STARTS then CHR 0x27 # s else s)"

text \<open>\<^verbatim>\<open>csv.writer\<close> with its defaults: a field with a comma, a quote or a line break is quoted and its
  quotes doubled; a row ends in CR LF; a row of one empty field would be quoted, but none is written.\<close>

definition csv_field :: "string \<Rightarrow> string" where
  "csv_field s =
     (if list_ex (\<lambda>c. c \<in> {CHR '','', CHR 0x22, CHR 0x0D, CHR 0x0A}) s
      then CHR 0x22 # concat (map (\<lambda>c. if c = CHR 0x22 then [c, c] else [c]) s) @ [CHR 0x22] else s)"

fun csv_row :: "string list \<Rightarrow> string" where
  "csv_row [] = [CHR 0x0D, CHR 0x0A]"
| "csv_row [f] = csv_field f @ [CHR 0x0D, CHR 0x0A]"
| "csv_row (f # fs) = csv_field f @ '','' @ csv_row fs"

definition csv_amount :: "int \<Rightarrow> string" where
  "csv_amount cents = show_fixed 2 (of_int cents / 100)"

definition or_empty :: "string option \<Rightarrow> string" where
  "or_empty s = (if truthy s then the s else [])"

text \<open>\<^verbatim>\<open>isoformat\<close> of a day and \<^verbatim>\<open>strftime("%Y-%m")\<close> of a month are arguments.\<close>

definition line_cells :: "(day \<Rightarrow> string) \<Rightarrow> statement_line \<Rightarrow> string list" where
  "line_cells isoformat x =
     [isoformat (ln_day x), cell (ln_type x), cell (ln_description x), or_empty (ln_quantity x), or_empty (ln_deployment_id x),
      csv_amount (ln_amount x)]"

definition statement_csv :: "(day \<Rightarrow> string) \<Rightarrow> (date \<Rightarrow> string) \<Rightarrow> statement \<Rightarrow> string" where
  "statement_csv isoformat month_text st =
     concat (map csv_row
       ([[''Green Compute statement'', month_text (sn_month st)],
         [''Period'', isoformat (sn_from st) @ '' to '' @ isoformat (sn_to st) @ '' (UTC)''],
         [],
         [''date'', ''type'', ''description'', ''quantity'', ''deployment_id'', ''amount_usd''],
         [isoformat (sn_from st), ''Opening balance'', [], [], [], csv_amount (sn_opening st)]]
        @ map (line_cells isoformat) (sn_lines st)
        @ [[isoformat (sn_to st), ''Closing balance'', [], [], [], csv_amount (sn_closing st)],
           [],
           [''Total added'', [], [], [], [], csv_amount (sn_credits st)],
           [''Total charged'', [], [], [], [], csv_amount (- sn_charges st)]]))"

section \<open>A statement adds up\<close>

lemma sum_list_sort_key: "sum_list (map f (sort_key k xs)) = sum_list (map f xs)" for f :: "'a \<Rightarrow> int"
proof -
  have "sum_list (map f (insort_key k x ys)) = f x + sum_list (map f ys)" for x ys by (induction ys) auto
  then show ?thesis by (induction xs) auto
qed

lemma sum_list_partition: "sum_list (map f (filter P xs)) + sum_list (map f (filter (\<lambda>x. \<not> P x) xs)) = sum_list (map f xs)"
  for f :: "'a \<Rightarrow> int"
  by (induction xs) auto

lemma sum_modify_row:
  fixes f :: "'r \<Rightarrow> int"
  assumes "get_row key k rows = Some r" and "\<And>x. f (g x) = f x + c"
  shows "sum_list (map f (modify_row key k g rows)) = sum_list (map f rows) + c"
  using assms by (induction rows) (auto split: if_splits)

lemma cg_cents_add_charge [simp]: "cg_cents (add_charge r g) = cg_cents g - mr_cents r"
  by (simp add: add_charge_def Let_def split: option.split)

lemma sum_groups_loop: "sum_list (map cg_cents (groups_loop cdb rs out cache)) = sum_list (map cg_cents out) - sum_list (map mr_cents rs)"
proof (induction rs arbitrary: out cache)
  case (Cons r rs)
  show ?case
  proof (cases "get_row cg_key (mr_ref r, mr_kind r, mr_day r) out")
    case None
    with Cons.IH show ?thesis by (simp add: new_group_def Let_def split: prod.split)
  next
    case (Some g)
    then have "cg_key g = (mr_ref r, mr_kind r, mr_day r)" using get_row_SomeD [OF Some] by simp
    then have "sum_list (map cg_cents (modify_row cg_key (cg_key g) (add_charge r) out)) = sum_list (map cg_cents out) + - mr_cents r"
      using Some by (intro sum_modify_row [where r = g]) simp_all
    with Cons.IH Some show ?thesis by simp
  qed
qed simp

lemma sum_groups: "sum_list (map cg_cents (groups cdb ms)) = - sum_list (map mr_cents ms)"
  by (simp add: groups_def sum_groups_loop)

lemma mr_cents_metered_row: "mr_cents (metered_row_of g) = sum_list (map le_amount (snd g))"
  by (simp add: metered_row_of_def split: prod.split)

text \<open>What a period's rows sum to is the period's ledger.\<close>

lemma spending_rows_total:
  "sum_list (map mr_cents (sp_metered (spending_rows user a b db))) + sum_list (map le_amount (sp_entries (spending_rows user a b db))) =
   sum_rows (in_period user a b) le_amount (bd_ledger db)"
proof -
  let ?base = "filter (in_period user a b) (bd_ledger db)"
  have "sum_list (map mr_cents (sp_metered (spending_rows user a b db))) =
      sum_list (map le_amount (filter (\<lambda>e. le_kind e \<in> set METERED_KINDS) ?base))"
    using sum_group_by [of le_amount metered_key] by (simp add: spending_rows_def Let_def comp_def mr_cents_metered_row)
  moreover have "sum_list (map le_amount (sp_entries (spending_rows user a b db))) =
      sum_list (map le_amount (filter (\<lambda>e. le_kind e \<notin> set METERED_KINDS) ?base))"
    by (simp add: spending_rows_def Let_def sum_list_sort_key)
  ultimately show ?thesis
    using sum_list_partition [of le_amount "\<lambda>e. le_kind e \<in> set METERED_KINDS" ?base] by (simp add: sum_rows_def)
qed

lemma spending_rows_balance:
  "sp_closing (spending_rows user a b db) = sp_opening (spending_rows user a b db) + sum_rows (in_period user a b) le_amount (bd_ledger db)"
  by (simp add: spending_rows_def Let_def)

lemma spending_rows_chain:
  assumes "b \<le> c"
  shows "sp_closing (spending_rows user a b db) = sp_opening (spending_rows user b c db)"
proof -
  have "sum_rows (\<lambda>e. le_user e = user \<and> le_created_at e \<ge> b) le_amount es =
      sum_rows (in_period user b c) le_amount es + sum_rows (\<lambda>e. le_user e = user \<and> le_created_at e \<ge> c) le_amount es" for es
    using assms by (induction es) (auto simp: in_period_def)
  then show ?thesis by (simp add: spending_rows_def Let_def)
qed

lemma sum_statement_lines:
  "sum_list (map ln_amount (statement_lines rows cdb)) = sum_list (map mr_cents (sp_metered rows)) + sum_list (map le_amount (sp_entries rows))"
proof -
  have "sum_list (map (\<lambda>p. ln_amount (snd p)) (map group_line gs)) = - sum_list (map cg_cents gs)" for gs
    by (induction gs) (auto simp: group_line_def)
  moreover have "map (\<lambda>p. ln_amount (snd p)) (map entry_line es) = map le_amount es" for es by (simp add: entry_line_def)
  moreover have "sum_list (map ln_amount (statement_lines rows cdb)) =
      sum_list (map (\<lambda>p. ln_amount (snd p)) (map group_line (groups cdb (sp_metered rows)) @ map entry_line (sp_entries rows)))"
    unfolding statement_lines_def map_map comp_def by (rule sum_list_sort_key)
  ultimately show ?thesis by (simp only: map_append sum_list_append sum_groups)
qed

lemma sum_add_type: "sum_list (map snd (add_type x ts)) = sum_list (map snd ts) - ln_amount x"
  by (induction x ts rule: add_type.induct) auto

lemma sum_fold_add_type: "sum_list (map snd (fold add_type xs ts)) = sum_list (map snd ts) - sum_list (map ln_amount xs)"
  by (induction xs arbitrary: ts) (simp_all add: sum_add_type)

lemma sum_signs: "sum_list (map f (filter (\<lambda>x. f x > 0) xs)) + sum_list (map f (filter (\<lambda>x. f x < 0) xs)) = sum_list (map f xs)"
  for f :: "'a \<Rightarrow> int"
  by (induction xs) auto

section \<open>Months\<close>

lemma days_before_month_Suc: "1 \<le> m \<Longrightarrow> days_before_month y (m + 1) = days_before_month y m + days_in_month y m"
  by (simp add: days_before_month_def upto_rec2)

lemma div_step:
  fixes y k :: int
  assumes "0 < k"
  shows "y div k = (y - 1) div k + (if y mod k = 0 then 1 else 0)"
proof (cases "y mod k = 0")
  case True
  then have "y - 1 = k * (y div k - 1) + (k - 1)" using mult_div_mod_eq [of k y] by (simp add: algebra_simps)
  then have "(y - 1) div k = y div k - 1" by (rule int_div_pos_eq) (use assms in simp_all)
  with True show ?thesis by simp
next
  case False
  have "y - 1 = k * (y div k) + (y mod k - 1)" using mult_div_mod_eq [of k y] by simp
  moreover have "0 \<le> y mod k - 1" "y mod k - 1 < k" using False assms pos_mod_bound [of k y] pos_mod_sign [of k y] by linarith+
  ultimately have "(y - 1) div k = y div k" by (rule int_div_pos_eq)
  with False show ?thesis by simp
qed

lemma days_before_year_Suc: "days_before_year (y + 1) = days_before_year y + 365 + (if is_leap y then 1 else 0)"
proof -
  have sums: "y * 365 + p - q + r = (y - 1) * 365 + a - b + c + 365 + i - j + k" if "p = a + i" "q = b + j" "r = c + k"
    for p q r a b c i j k using that by simp
  have "days_before_year (y + 1) = y * 365 + y div 4 - y div 100 + y div 400" by (simp add: days_before_year_def)
  also have "\<dots> = days_before_year y + 365 + (if y mod 4 = 0 then 1 else 0) - (if y mod 100 = 0 then 1 else 0) +
      (if y mod 400 = 0 then 1 else 0)"
    unfolding days_before_year_def by (rule sums) (rule div_step, simp)+
  also have "\<dots> = days_before_year y + 365 + (if is_leap y then 1 else 0)"
  proof -
    have "y mod 400 = 0 \<Longrightarrow> y mod 100 = 0" using mod_mod_cancel [of 100 400 y] by simp
    moreover have "y mod 100 = 0 \<Longrightarrow> y mod 4 = 0" using mod_mod_cancel [of 4 100 y] by simp
    ultimately show ?thesis unfolding is_leap_def by presburger
  qed
  finally show ?thesis .
qed

lemma days_before_month_12: "days_before_month y 12 = 334 + (if is_leap y then 1 else 0)"
  by (simp add: days_before_month_def days_in_month_def upto.simps)

text \<open>The first of the next month is one month's length later.\<close>

lemma day_number_next_month:
  assumes "next_month (y, m, 1) = Inr d" and "1 \<le> m" and "m \<le> 12"
  shows "day_number d = day_number (y, m, 1) + days_in_month y m"
proof (cases "m = 12")
  case True
  with assms(1) have "d = (y + 1, 1, 1)" by (auto simp: next_month_def make_date_def split: if_splits)
  with True show ?thesis
    by (simp add: day_number_def days_before_year_Suc days_before_month_12 days_in_month_def) (simp add: days_before_month_def)
next
  case False
  with assms have "m mod 12 = m" by simp
  with assms(1) False have "d = (y, m + 1, 1)" by (auto simp: next_month_def make_date_def split: if_splits)
  with assms(2) show ?thesis by (simp add: day_number_def days_before_month_Suc)
qed

lemma parse_month_facts:
  assumes "parse_month month today = Inr (first, nxt)" and "1 \<le> fst (snd today)" and "fst (snd today) \<le> 12"
  shows "next_month first = Inr nxt" and "day_number first < day_number nxt"
proof -
  obtain y m where first: "first = (y, m, 1)" "1 \<le> m" "m \<le> 12"
    using assms by (auto simp: parse_month_def make_date_def Let_def split: if_splits option.splits prod.splits sum.splits)
  show n: "next_month first = Inr nxt"
    using assms(1) by (auto simp: parse_month_def split: sum.splits)
  have "0 < days_in_month y m" by (simp add: days_in_month_def)
  with day_number_next_month [of y m nxt] n first show "day_number first < day_number nxt" by simp
qed

text \<open>
  (C26) A monthly statement adds up to the cent.  The opening balance plus every line is the closing balance, money added
  less money charged is the change over the month, the charges by type are the charges, and the next month's
  statement opens with the balance this one closes with.
\<close>

theorem monthly_statement_reconciles:
  assumes "monthly_statement user month today db cdb = Inr st" and "monthly_statement user month' today db cdb = Inr st'"
    and "sn_from st' = sn_to st + 1" and "1 \<le> fst (snd today)" and "fst (snd today) \<le> 12"
  shows "sn_opening st + sum_list (map ln_amount (sn_lines st)) = sn_closing st \<and>
    sn_credits st - sn_charges st = sn_closing st - sn_opening st \<and>
    sum_list (map snd (sn_by_type st)) = sn_charges st \<and> sn_opening st' = sn_closing st"
proof -
  obtain first nxt where pm: "parse_month month today = Inr (first, nxt)"
    using assms(1) by (auto simp: monthly_statement_def split: sum.splits)
  obtain first' nxt' where pm': "parse_month month' today = Inr (first', nxt')"
    using assms(2) by (auto simp: monthly_statement_def split: sum.splits)
  let ?rows = "spending_rows user (day_start (day_number first)) (day_start (day_number nxt)) db"
  let ?rows' = "spending_rows user (day_start (day_number first')) (day_start (day_number nxt')) db"
  have st: "sn_lines st = statement_lines ?rows cdb" "sn_opening st = sp_opening ?rows" "sn_closing st = sp_closing ?rows"
    "sn_to st = day_number nxt - 1" "sn_credits st = sum_list (map ln_amount (filter (\<lambda>x. ln_amount x > 0) (statement_lines ?rows cdb)))"
    "sn_charges st = - sum_list (map ln_amount (filter (\<lambda>x. ln_amount x < 0) (statement_lines ?rows cdb)))"
    "sn_by_type st = sort_key (\<lambda>kv. - snd kv) (fold add_type (filter (\<lambda>x. ln_amount x < 0) (statement_lines ?rows cdb)) [])"
    using assms(1) pm by (auto simp: monthly_statement_def Let_def)
  have st': "sn_opening st' = sp_opening ?rows'" "sn_from st' = day_number first'"
    using assms(2) pm' by (auto simp: monthly_statement_def Let_def)
  have adds: "sn_opening st + sum_list (map ln_amount (sn_lines st)) = sn_closing st"
    by (simp add: st sum_statement_lines spending_rows_total spending_rows_balance)
  have "sn_credits st - sn_charges st = sum_list (map ln_amount (sn_lines st))"
    using sum_signs [of ln_amount "statement_lines ?rows cdb"] by (simp add: st)
  with adds have "sn_credits st - sn_charges st = sn_closing st - sn_opening st" by simp
  moreover have "sum_list (map snd (sn_by_type st)) = sn_charges st"
    by (simp add: st sum_list_sort_key sum_fold_add_type)
  moreover have "sn_opening st' = sn_closing st"
  proof -
    have "day_number nxt = day_number first'" using assms(3) st(4) st'(2) by simp
    moreover have "day_start (day_number first') \<le> day_start (day_number nxt')"
      using parse_month_facts(2) [OF pm' assms(4,5)] by (simp add: day_start_def seconds_def)
    ultimately show ?thesis by (simp add: st(3) st'(1) spending_rows_chain)
  qed
  ultimately show ?thesis using adds by blast
qed

definition no_control :: control_db where
  "no_control = \<lparr>cd_miners = [], cd_whitelist = [], cd_heartbeats = [], cd_capacities = [], cd_servers = [], cd_inventory = [],
     cd_history = [], cd_last_history = [], cd_reservations = [], cd_workloads = [], cd_shares = [], cd_deployments = [],
     cd_assignments = [], cd_lease_history = [], cd_placements = [], cd_placement_seq = 0, cd_log = [], cd_account_events = [],
     cd_usage = [], cd_invocations = []\<rparr>"

definition demo_ledger :: billing_db where
  "demo_ledger = \<lparr>bd_users = [\<lparr>u_id = ''u'', u_balance = 460\<rparr>],
     bd_ledger = [\<lparr>le_user = ''u'', le_amount = 500, le_balance_after = 500, le_kind = ''topup'', le_reference = None, le_deposit_ref = None,
                   le_description = ''card'', le_created_at = day_start (day_number (2026, 1, 31))\<rparr>,
                  \<lparr>le_user = ''u'', le_amount = -40, le_balance_after = 460, le_kind = ''usage'', le_reference = Some ''d'', le_deposit_ref = None,
                   le_description = rental_charge_description 1 40, le_created_at = day_start (day_number (2026, 2, 1))\<rparr>],
     bd_holds = [], bd_invoices = [], bd_deposits = [], bd_wallets = [], bd_stripe = []\<rparr>"

lemma demo_months:
  "parse_month (Some ''2026-01'') (2026, 7, 4) = Inr ((2026, 1, 1), (2026, 2, 1))"
  "parse_month (Some ''2026-02'') (2026, 7, 4) = Inr ((2026, 2, 1), (2026, 3, 1))"
  by (simp_all add: parse_month_def is_month_text_def read_nat_def make_date_def next_month_def is_digit_def eval_nat_numeral)

lemma demo_days: "day_number (2026, 1, 31) = 20484" "day_number (2026, 2, 1) = 20485" "day_number (2026, 3, 1) = 20513"
  by (simp_all add: day_number_def days_before_year_def days_before_month_def days_in_month_def is_leap_def upto.simps)

lemma spending_rows_closing:
  "sp_closing (spending_rows user a b db) = (case get_user db user of None \<Rightarrow> 0 | Some u \<Rightarrow> u_balance u) -
     sum_rows (\<lambda>e. le_user e = user \<and> le_created_at e \<ge> b) le_amount (bd_ledger db)"
  by (simp add: spending_rows_def Let_def)

theorem monthly_statement_reconciles_witness:
  "\<exists>st st'. monthly_statement ''u'' (Some ''2026-01'') (2026, 7, 4) demo_ledger no_control = Inr st \<and>
     monthly_statement ''u'' (Some ''2026-02'') (2026, 7, 4) demo_ledger no_control = Inr st' \<and>
     sn_closing st = 500 \<and> sn_opening st' = 500 \<and> sn_closing st' = 460"
proof -
  obtain st where st: "monthly_statement ''u'' (Some ''2026-01'') (2026, 7, 4) demo_ledger no_control = Inr st"
    by (simp add: monthly_statement_def demo_months Let_def)
  obtain st' where st': "monthly_statement ''u'' (Some ''2026-02'') (2026, 7, 4) demo_ledger no_control = Inr st'"
    by (simp add: monthly_statement_def demo_months Let_def)
  have consecutive: "sn_from st' = sn_to st + 1" using st st' by (auto simp: monthly_statement_def demo_months Let_def)
  have "sn_closing st = sp_closing (spending_rows ''u'' (day_start (day_number (2026, 1, 1))) (day_start (day_number (2026, 2, 1))) demo_ledger)"
    "sn_closing st' = sp_closing (spending_rows ''u'' (day_start (day_number (2026, 2, 1))) (day_start (day_number (2026, 3, 1))) demo_ledger)"
    using st st' by (auto simp: monthly_statement_def demo_months Let_def)
  then have "sn_closing st = 500" "sn_closing st' = 460"
    by (simp_all add: spending_rows_closing demo_ledger_def demo_days day_start_def seconds_def)
  moreover from this(1) have "sn_opening st' = 500"
    using monthly_statement_reconciles [OF st st' consecutive] by simp
  ultimately show ?thesis using st st' by blast
qed

section \<open>Rates are read back\<close>

lemma read_nat_snoc [simp]: "read_nat (ds @ [c]) = read_nat ds * 10 + (of_char c - 48)"
  by (simp add: read_nat_def)

lemma show_nat_facts: "(\<forall>c \<in> set (show_nat n). is_digit c) \<and> show_nat n \<noteq> [] \<and> read_nat (show_nat n) = n"
proof (induction n rule: show_nat.induct)
  case (1 n)
  show ?case
  proof (cases "n < 10")
    case True
    then show ?thesis by (simp add: show_nat.simps [of n] is_digit_digit_char of_char_digit_char read_nat_def)
  next
    case False
    with 1 show ?thesis by (simp add: show_nat.simps [of n] is_digit_digit_char of_char_digit_char)
  qed
qed

lemma match_digits_show: "\<not> is_digit c \<Longrightarrow> match_digits (show_nat n @ c # s) = Some (show_nat n, c # s)"
  using show_nat_facts [of n] by (simp add: match_digits_def takeWhile_append dropWhile_append)

lemma match_text_append [simp]: "match_text p (p @ s) = Some s"
  by (induction p) auto

lemma match_amount_dollars:
  assumes "0 \<le> c"
  shows "match_amount (dollars c @ CHR ''/'' # s) = Some (of_int c / 100, CHR ''/'' # s)"
proof -
  define a where "a = c mod 100"
  have a: "0 \<le> a" "a < 100" by (simp_all add: a_def)
  have one: "show_int k = [digit_char (nat k)]" if "0 \<le> k" "k < 10" for k
  proof -
    have "nat k < 10" using that by simp
    then show ?thesis using that by (simp add: show_int_def show_nat.simps [of "nat k"])
  qed
  let ?fs = "[digit_char (nat (a div 10)), digit_char (nat (a mod 10))]"
  have text1: "dollars c @ CHR ''/'' # s = show_nat (nat (c div 100)) @ CHR ''.'' # ?fs @ CHR ''/'' # s"
    using a assms by (simp add: dollars_def a_def [symmetric] one) (simp add: show_int_def pos_imp_zdiv_neg_iff)
  have digits: "match_digits (?fs @ CHR ''/'' # s) = Some (?fs, CHR ''/'' # s)"
    using a by (simp add: match_digits_def is_digit_digit_char) (simp add: is_digit_def)
  have "read_nat ?fs = nat (a div 10) * 10 + nat (a mod 10)"
    using a by (simp add: read_nat_def of_char_digit_char)
  also have "\<dots> = nat a" using a by (simp add: nat_div_distrib nat_mod_distrib)
  finally have frac: "read_nat ?fs = nat a" .
  have pos: "0 \<le> c div 100" using assms by (simp add: pos_imp_zdiv_nonneg_iff)
  have "(of_int c :: rat) = of_int (c div 100 * 100 + a)" unfolding a_def by simp
  then have "of_int c / 100 = (of_int (c div 100) + of_int a / 100 :: rat)" by (simp add: field_simps)
  with digits frac pos a show ?thesis
    unfolding text1 match_amount_def
    by (subst match_digits_show) (simp_all add: is_digit_def show_nat_facts power2_eq_square)
qed

lemma skip_non_digit: "\<not> is_digit c \<Longrightarrow> search RENTAL_RATE (c # s) = search RENTAL_RATE s"
  by (simp add: RENTAL_RATE_def match_count_rate_def match_digits_def)

lemma rental_rate_text:
  assumes "0 \<le> n" and "0 \<le> c"
  shows "RENTAL_RATE (show_int n @ times_sign @ '' GPU @ $'' @ dollars c @ ''/hr'') = Some (nat n, of_int c / 100)"
proof -
  have "match_digits (show_int n @ times_sign @ '' GPU @ $'' @ dollars c @ ''/hr'') =
      Some (show_nat (nat n), times_sign @ '' GPU @ $'' @ dollars c @ ''/hr'')"
  proof -
    have "\<not> is_digit (CHR 0xC3)" by (simp add: is_digit_def)
    from match_digits_show [OF this, of "nat n"] assms(1) show ?thesis by (simp add: show_int_def times_sign_def)
  qed
  moreover have "match_text (times_sign @ '' GPU @ $'') (times_sign @ '' GPU @ $'' @ dollars c @ ''/hr'') = Some (dollars c @ ''/hr'')"
    using match_text_append [of "times_sign @ '' GPU @ $''" "dollars c @ ''/hr''"] by simp
  ultimately show ?thesis
    using match_amount_dollars [OF assms(2), of "''hr''"] show_nat_facts [of "nat n"]
    by (simp add: RENTAL_RATE_def match_count_rate_def)
qed

lemma search_here: "f s = Some r \<Longrightarrow> search f s = Some r"
  by (cases s) auto

text \<open>
  The rate on a rental's charge text is read back exactly: from the text the meter writes for a number of
  GPUs and an hourly price, the statement recovers their product, for every count and price that is not
  negative; so the hours of a charge are its cents over that rate.
\<close>

theorem cents_per_hour_reads_meter:
  assumes "0 \<le> gpu_count" and "0 \<le> hourly_cents"
  shows "cents_per_hour (rental_charge_description gpu_count hourly_cents) = Some (gpu_count * hourly_cents)"
proof -
  let ?rest = "show_int gpu_count @ times_sign @ '' GPU @ $'' @ dollars hourly_cents @ ''/hr''"
  have "search RENTAL_RATE (rental_charge_description gpu_count hourly_cents) = search RENTAL_RATE ?rest"
    unfolding rental_charge_description_def by (simp add: skip_non_digit is_digit_def del: search.simps)
  also have "\<dots> = Some (nat gpu_count, of_int hourly_cents / 100)"
    by (rule search_here) (rule rental_rate_text [OF assms])
  finally show ?thesis using assms(1) by (simp add: cents_per_hour_def)
qed

theorem cents_per_hour_reads_meter_witness: "cents_per_hour (rental_charge_description 2 40) = Some 80"
  using cents_per_hour_reads_meter [of 2 40] by simp

text \<open>A private model's text starts with a name its owner chooses, and the search takes the leftmost rate, so a
  name that looks like a rate decides the hours on the statement.\<close>

lemma name_decides_rate:
  assumes "wl_display_name w = Some ''1 GPU at $9/hr''"
  shows "cents_per_hour (private_model_charge_description (Some w) 2 40) = Some 900"
proof -
  have desc: "private_model_charge_description (Some w) 2 40 = ''Private model 1 GPU at $9/hr '' @ middle_dot @ '' 2 GPUs at $0.40/hr each''"
    using assms by (simp add: private_model_charge_description_def str_or_def dollars_def show_int_def show_nat.simps digit_char_def
        char_of_eq_iff take_bit_eq_mod)
  show ?thesis
    unfolding desc cents_per_hour_def
    by (simp add: RENTAL_RATE_def MODEL_RATE_def match_count_rate_def match_digits_def match_amount_def middle_dot_def times_sign_def
        is_digit_def read_nat_def py_round_def)
qed

lemma cell_is_no_formula: "cell s = c # cs \<Longrightarrow> c \<notin> set FORMULA_STARTS"
  by (auto simp: cell_def FORMULA_STARTS_def split: list.splits if_splits)

section \<open>The summary adds up\<close>

lemma sum_on_day:
  fixes g :: "day_total \<Rightarrow> int"
  assumes "g blank = 0" and "\<And>d. g (f d) = g d + c"
  shows "day_sum g (on_day k f days) = day_sum g days + c"
  using assms by (induction k f days rule: on_day.induct) (auto simp: day_sum_def)

lemma day_total_fields: "dt_charged blank = 0" "dt_topped_up blank = 0" "dt_adjustments blank = 0"
  by (simp_all add: blank_def)

lemma note_group_sums [simp]:
  "day_sum dt_charged (note_group g days) = day_sum dt_charged days + cg_cents g"
  "day_sum dt_topped_up (note_group g days) = day_sum dt_topped_up days"
  "day_sum dt_adjustments (note_group g days) = day_sum dt_adjustments days"
  unfolding note_group_def by (simp_all add: sum_on_day [where c = "cg_cents g"] sum_on_day [where c = 0] day_total_fields)

lemma note_entry_sums [simp]:
  "day_sum dt_charged (note_entry e days) = day_sum dt_charged days"
  "day_sum dt_topped_up (note_entry e days) = day_sum dt_topped_up days + (if le_kind e \<in> set CREDIT_KINDS then le_amount e else 0)"
  "day_sum dt_adjustments (note_entry e days) = day_sum dt_adjustments days + (if le_kind e \<in> set CREDIT_KINDS then 0 else le_amount e)"
  unfolding note_entry_def
  by (simp_all add: sum_on_day [where c = "if le_kind e \<in> set CREDIT_KINDS then le_amount e else 0"]
      sum_on_day [where c = "if le_kind e \<in> set CREDIT_KINDS then 0 else le_amount e"] sum_on_day [where c = 0] day_total_fields)

lemma sum_note_group [simp]:
  "day_sum dt_charged (fold note_group gs days) = day_sum dt_charged days + sum_list (map cg_cents gs)"
  "day_sum dt_topped_up (fold note_group gs days) = day_sum dt_topped_up days"
  "day_sum dt_adjustments (fold note_group gs days) = day_sum dt_adjustments days"
  by (induction gs arbitrary: days) simp_all

lemma sum_note_entry:
  "day_sum dt_charged (fold note_entry es days) = day_sum dt_charged days"
  "day_sum dt_topped_up (fold note_entry es days) + day_sum dt_adjustments (fold note_entry es days) =
   day_sum dt_topped_up days + day_sum dt_adjustments days + sum_list (map le_amount es)"
  by (induction es arbitrary: days) simp_all

lemma usd_exact: "usd n = of_int n / 100"
  unfolding usd_def by (rule round_to_exact [of _ _ n]) simp

text \<open>The figures of a summary, in dollars, add up as well.\<close>

lemma spending_summary_reconciles:
  "sm_opening_usd (spending_summary user a b db cdb) + sm_topped_up_usd (spending_summary user a b db cdb)
     + sm_adjustments_usd (spending_summary user a b db cdb) - sm_charged_usd (spending_summary user a b db cdb)
   = sm_closing_usd (spending_summary user a b db cdb)"
proof -
  define rows where "rows = spending_rows user (day_start a) (day_start (b + 1)) db"
  define gs where "gs = groups cdb (sp_metered rows)"
  define days where "days = fold note_group gs (fold note_entry (sp_entries rows) [])"
  have fields1: "sm_opening_usd (spending_summary user a b db cdb) = usd (sp_opening rows)"
    "sm_closing_usd (spending_summary user a b db cdb) = usd (sp_closing rows)"
    "sm_charged_usd (spending_summary user a b db cdb) = usd (day_sum dt_charged days)"
    "sm_topped_up_usd (spending_summary user a b db cdb) = usd (day_sum dt_topped_up days)"
    "sm_adjustments_usd (spending_summary user a b db cdb) = usd (day_sum dt_adjustments days)"
    by (simp_all add: spending_summary_def Let_def rows_def gs_def days_def)
  have "day_sum dt_topped_up days + day_sum dt_adjustments days - day_sum dt_charged days =
      sum_rows (in_period user (day_start a) (day_start (b + 1))) le_amount (bd_ledger db)"
    using sum_note_entry(2) [of "sp_entries rows" "[]"] spending_rows_total [of user "day_start a" "day_start (b + 1)" db]
    by (simp add: days_def sum_note_group sum_note_entry(1) gs_def sum_groups rows_def day_sum_def [of _ "[]"])
  then have "sp_opening rows + day_sum dt_topped_up days + day_sum dt_adjustments days
      - day_sum dt_charged days = sp_closing rows"
    using spending_rows_balance [of user "day_start a" "day_start (b + 1)" db] by (simp add: rows_def)
  from arg_cong [OF this, of "\<lambda>n. of_int n / (100 :: rat)"] show ?thesis
    by (simp add: fields1 usd_exact add_divide_distrib diff_divide_distrib)
qed

end
