(* ===== verification/Webhooks.thy ===== *)
theory Webhooks
  imports Prelude "HOL-Library.Char_ord" "HOL-Library.List_Lexorder"
begin

text \<open>
  Account events and webhooks: \<^verbatim>\<open>gateway/application/webhooks.py\<close>.

  The state \<open>webhook_db\<close> has the two tables.  A delivery turn runs in many transactions, with the
  customer's endpoint in between; what others do to the tables meanwhile, the endpoint's answers, the
  clock and the end of the turn are arguments (\<open>delivery_env\<close>), indexed by a count of the loop's
  iterations.  The signature and the JSON of an event are functions of what \<open>endpoint\<close> is given.
  Checking a URL (form and name resolution) is an argument that returns the complaint, if any.

  The lemmas show that the paged feed misses and repeats nothing, that while the
  webhook's own settings stay as they are and no turn dies between a delivery and its record, the
  acknowledged deliveries of a webhook are exactly the events it wants up to its cursor, in order,
  and that a failing webhook backs off, is turned off in time and loses no place.
\<close>

section \<open>Tables\<close>

record account_event_row =
  ev_id :: int
  ev_user_id :: ident
  ev_type :: string
  ev_data :: string
  ev_created_at :: time

datatype disabled_reason = TurnedOffByYou | FailingSince time string

record webhook =
  wk_id :: ident
  wk_user_id :: ident
  wk_url :: string
  wk_secret :: string
  wk_events :: "string list"
  wk_active :: bool
  wk_disabled_reason :: "disabled_reason option"
  wk_last_event_id :: int
  wk_failures :: int
  wk_failing_since :: "time option"
  wk_next_attempt_at :: "time option"
  wk_last_success_at :: "time option"
  wk_last_failure_at :: "time option"
  wk_last_error :: "string option"
  wk_created_at :: time

record webhook_db =
  wb_events :: "account_event_row list"
  wb_hooks :: "webhook list"

datatype webhook_error = BadEvents | UnknownEventTypes "string list" | TooManyWebhooks | BadURL string | WebhookNotFound

definition MAX_WEBHOOKS :: nat where "MAX_WEBHOOKS = 5"
definition EVENT_RETENTION :: time where "EVENT_RETENTION = seconds (30 * 86400)"
definition DISABLE_AFTER :: time where "DISABLE_AFTER = seconds (3 * 86400)"
definition BATCH :: nat where "BATCH = 50"

definition EVENT_TYPES :: "string list" where
  "EVENT_TYPES = [''deployment.ready'', ''deployment.failed'', ''deployment.suspended'', ''deployment.terminated'',
     ''balance.low'', ''capacity.available'']"

datatype types_value = NoTypes | TypesText string | TypesList "string list" | NotTypes

definition types_of :: "types_value \<Rightarrow> webhook_error + string list" where
  "types_of values =
     (let check = (\<lambda>vs. let out = sort (remdups (map strip vs)); unknown = filter (\<lambda>v. v \<notin> set EVENT_TYPES) out
                        in if unknown \<noteq> [] then Inl (UnknownEventTypes unknown) else Inr out)
      in case values of
           NoTypes \<Rightarrow> Inr []
         | TypesText s \<Rightarrow> check (filter (\<lambda>v. strip v \<noteq> []) (split_on (CHR '','') s))
         | TypesList vs \<Rightarrow> check vs
         | NotTypes \<Rightarrow> Inl BadEvents)"

section \<open>The events feed\<close>

definition feed :: "ident \<Rightarrow> int \<Rightarrow> webhook_db \<Rightarrow> account_event_row list" where
  "feed user after db = sort_key ev_id (filter (\<lambda>e. ev_user_id e = user \<and> ev_id e > after) (wb_events db))"

definition is_wanted :: "string list \<Rightarrow> account_event_row \<Rightarrow> bool" where
  "is_wanted wanted e \<longleftrightarrow> wanted = [] \<or> ev_type e \<in> set wanted"

record event_page =
  pg_events :: "account_event_row list"
  pg_next_after :: int
  pg_has_more :: bool

definition list_events :: "ident \<Rightarrow> int \<Rightarrow> types_value \<Rightarrow> int \<Rightarrow> webhook_db \<Rightarrow> webhook_error + event_page" where
  "list_events user after types limit0 db =
     (case types_of types of
        Inl e \<Rightarrow> Inl e
      | Inr wanted \<Rightarrow>
          let n = nat (max 1 (min limit0 500)); after1 = max 0 after; rows = take n (feed user after1 db)
          in Inr \<lparr>pg_events = filter (is_wanted wanted) rows,
                  pg_next_after = (if rows = [] then after1 else ev_id (last rows)), pg_has_more = (length rows = n)\<rparr>)"

section \<open>Managing webhooks\<close>

definition create_webhook ::
  "(string \<Rightarrow> string option) \<Rightarrow> time \<Rightarrow> ident \<Rightarrow> string \<Rightarrow> ident \<Rightarrow> string \<Rightarrow> types_value \<Rightarrow> webhook_db
     \<Rightarrow> webhook_error + webhook \<times> webhook_db" where
  "create_webhook url_error now wid secret user url events db =
     (case url_error url of
        Some msg \<Rightarrow> Inl (BadURL msg)
      | None \<Rightarrow>
          (case types_of events of
             Inl e \<Rightarrow> Inl e
           | Inr wanted \<Rightarrow>
               if length (filter (\<lambda>r. wk_user_id r = user) (wb_hooks db)) \<ge> MAX_WEBHOOKS then Inl TooManyWebhooks
               else let ids = map ev_id (filter (\<lambda>e. ev_user_id e = user) (wb_events db));
                        latest = (if ids = [] then 0 else Max (set ids));
                        row = \<lparr>wk_id = wid, wk_user_id = user, wk_url = strip url, wk_secret = secret, wk_events = wanted,
                               wk_active = True, wk_disabled_reason = None, wk_last_event_id = latest, wk_failures = 0,
                               wk_failing_since = None, wk_next_attempt_at = None, wk_last_success_at = None,
                               wk_last_failure_at = None, wk_last_error = None, wk_created_at = now\<rparr>
                    in Inr (row, db\<lparr>wb_hooks := wb_hooks db @ [row]\<rparr>)))"

definition list_webhooks :: "ident \<Rightarrow> webhook_db \<Rightarrow> webhook list" where
  "list_webhooks user db = sort_key wk_created_at (filter (\<lambda>r. wk_user_id r = user) (wb_hooks db))"

definition own :: "ident \<Rightarrow> ident \<Rightarrow> webhook_db \<Rightarrow> webhook_error + webhook" where
  "own user wid db =
     (case get_row wk_id wid (wb_hooks db) of
        None \<Rightarrow> Inl WebhookNotFound
      | Some row \<Rightarrow> if wk_user_id row \<noteq> user then Inl WebhookNotFound else Inr row)"

definition start_over :: "webhook \<Rightarrow> webhook" where
  "start_over row = row\<lparr>wk_failures := 0, wk_failing_since := None, wk_next_attempt_at := None\<rparr>"

definition changed_hook :: "string option \<Rightarrow> string list option \<Rightarrow> bool option \<Rightarrow> webhook \<Rightarrow> webhook" where
  "changed_hook checked wanted active row =
     (let row1 = (case checked of None \<Rightarrow> row
                  | Some u \<Rightarrow> if u \<noteq> wk_url row then start_over (row\<lparr>wk_url := u\<rparr>) else row);
          row2 = (case wanted of None \<Rightarrow> row1 | Some ts \<Rightarrow> row1\<lparr>wk_events := ts\<rparr>)
      in case active of
           None \<Rightarrow> row2
         | Some True \<Rightarrow> start_over (row2\<lparr>wk_active := True, wk_disabled_reason := None\<rparr>)
         | Some False \<Rightarrow> row2\<lparr>wk_active := False, wk_disabled_reason := Some TurnedOffByYou\<rparr>)"

definition update_webhook ::
  "(string \<Rightarrow> string option) \<Rightarrow> ident \<Rightarrow> ident \<Rightarrow> string option \<Rightarrow> types_value option \<Rightarrow> bool option \<Rightarrow> webhook_db
     \<Rightarrow> webhook_error + webhook \<times> webhook_db" where
  "update_webhook url_error user wid url events active db =
     (case (case url of None \<Rightarrow> None | Some u \<Rightarrow> url_error u) of
        Some msg \<Rightarrow> Inl (BadURL msg)
      | None \<Rightarrow>
          (case (case events of None \<Rightarrow> Inr None | Some v \<Rightarrow> map_sum id Some (types_of v)) of
             Inl e \<Rightarrow> Inl e
           | Inr wanted \<Rightarrow>
               (case own user wid db of
                  Inl e \<Rightarrow> Inl e
                | Inr row \<Rightarrow>
                    let row1 = changed_hook (map_option strip url) wanted active row
                    in Inr (row1, db\<lparr>wb_hooks := put_row wk_id row1 (wb_hooks db)\<rparr>))))"

definition delete_webhook :: "ident \<Rightarrow> ident \<Rightarrow> webhook_db \<Rightarrow> webhook_error + webhook_db" where
  "delete_webhook user wid db =
     (case own user wid db of Inl e \<Rightarrow> Inl e | Inr _ \<Rightarrow> Inr (db\<lparr>wb_hooks := delete_row wk_id wid (wb_hooks db)\<rparr>))"

section \<open>Delivery\<close>

definition backoff :: "int \<Rightarrow> time" where
  "backoff failures = seconds (min 3600 (10 * 2 ^ nat (min (max failures 1 - 1) 12)))"

definition failed_hook :: "int \<Rightarrow> string \<Rightarrow> time \<Rightarrow> webhook \<Rightarrow> webhook" where
  "failed_hook cursor err now row =
     (let failures = wk_failures row + 1;
          since = (case wk_failing_since row of None \<Rightarrow> now | Some t \<Rightarrow> t);
          row1 = row\<lparr>wk_last_event_id := max (wk_last_event_id row) cursor, wk_failures := failures,
                     wk_failing_since := Some since, wk_last_failure_at := Some now, wk_last_error := Some (take 512 err),
                     wk_next_attempt_at := Some (now + backoff failures)\<rparr>
      in if now - since \<ge> DISABLE_AFTER
         then row1\<lparr>wk_active := False, wk_disabled_reason := Some (FailingSince since (take 200 err))\<rparr> else row1)"

definition record_failure :: "ident \<Rightarrow> int \<Rightarrow> string \<Rightarrow> time \<Rightarrow> webhook_db \<Rightarrow> webhook_db" where
  "record_failure wid cursor err now db =
     db\<lparr>wb_hooks := modify_row wk_id wid (failed_hook cursor err now) (wb_hooks db)\<rparr>"

definition progressed_hook :: "int \<Rightarrow> time \<Rightarrow> bool \<Rightarrow> webhook \<Rightarrow> webhook" where
  "progressed_hook cursor now delivered row =
     (let row1 = row\<lparr>wk_last_event_id := max (wk_last_event_id row) cursor\<rparr>
      in if delivered then (start_over row1)\<lparr>wk_last_success_at := Some now, wk_last_error := None\<rparr> else row1)"

definition record_progress :: "ident \<Rightarrow> int \<Rightarrow> time \<Rightarrow> bool \<Rightarrow> webhook_db \<Rightarrow> webhook_db" where
  "record_progress wid cursor now delivered db =
     db\<lparr>wb_hooks := modify_row wk_id wid (progressed_hook cursor now delivered) (wb_hooks db)\<rparr>"

definition current :: "ident \<Rightarrow> webhook_db \<Rightarrow> (string \<times> string \<times> string list) option" where
  "current wid db =
     (case get_row wk_id wid (wb_hooks db) of
        None \<Rightarrow> None
      | Some row \<Rightarrow> if \<not> wk_active row then None else Some (wk_url row, wk_secret row, wk_events row))"

record delivery_env =
  turn_over :: "nat \<Rightarrow> bool"
  endpoint :: "nat \<Rightarrow> string \<Rightarrow> string \<Rightarrow> account_event_row \<Rightarrow> string option"
  clock :: "nat \<Rightarrow> time"
  before_send :: "nat \<Rightarrow> webhook_db \<Rightarrow> webhook_db"
  during_send :: "nat \<Rightarrow> webhook_db \<Rightarrow> webhook_db"

definition end_turn :: "delivery_env \<Rightarrow> nat \<Rightarrow> ident \<Rightarrow> int \<Rightarrow> bool \<Rightarrow> webhook_db \<Rightarrow> webhook_db" where
  "end_turn env n wid cursor passed_over db =
     (if passed_over then record_progress wid cursor (clock env n) False db else db)"

text \<open>The loop over the batch.  Its result also lists the acknowledged events, oldest first.\<close>

fun deliver_loop ::
  "delivery_env \<Rightarrow> nat \<Rightarrow> ident \<Rightarrow> account_event_row list \<Rightarrow> int \<Rightarrow> bool \<Rightarrow> webhook_db \<Rightarrow> account_event_row list \<times> webhook_db" where
  "deliver_loop env n wid [] cursor passed_over db = ([], end_turn env n wid cursor passed_over db)"
| "deliver_loop env n wid (e # es) cursor passed_over db =
     (if turn_over env n then ([], end_turn env n wid cursor passed_over db)
      else let db1 = before_send env n db
           in case current wid db1 of
                None \<Rightarrow> ([], db1)
              | Some (url, secret, wanted) \<Rightarrow>
                  if \<not> is_wanted wanted e then deliver_loop env (Suc n) wid es (ev_id e) True db1
                  else let db2 = during_send env n db1
                       in case endpoint env n url secret e of
                            Some err \<Rightarrow> ([], record_failure wid cursor err (clock env n) db2)
                          | None \<Rightarrow>
                              let (sent, db3) = deliver_loop env (Suc n) wid es (ev_id e) False
                                                  (record_progress wid (ev_id e) (clock env n) True db2)
                              in (e # sent, db3))"

definition deliver_webhook :: "delivery_env \<Rightarrow> ident \<Rightarrow> webhook_db \<Rightarrow> account_event_row list \<times> webhook_db" where
  "deliver_webhook env wid db =
     (case get_row wk_id wid (wb_hooks db) of
        None \<Rightarrow> ([], db)
      | Some row \<Rightarrow>
          if \<not> wk_active row then ([], db)
          else deliver_loop env 0 wid (take BATCH (feed (wk_user_id row) (wk_last_event_id row) db)) (wk_last_event_id row) False db)"

definition due_webhooks :: "time \<Rightarrow> webhook_db \<Rightarrow> ident list" where
  "due_webhooks now db =
     map wk_id (filter (\<lambda>r. wk_active r \<and> (case wk_next_attempt_at r of None \<Rightarrow> True | Some t \<Rightarrow> t \<le> now) \<and>
                           list_ex (\<lambda>e. ev_user_id e = wk_user_id r \<and> ev_id e > wk_last_event_id r) (wb_events db))
                 (wb_hooks db))"

text \<open>\<^verbatim>\<open>Deliverer.submit_due\<close>: the webhooks whose turn starts, and the busy set after.\<close>

fun submit_loop :: "ident list \<Rightarrow> ident list \<Rightarrow> ident list \<Rightarrow> ident list \<times> ident list" where
  "submit_loop [] busy started = (started, busy)"
| "submit_loop (w # ws) busy started =
     (if w \<in> set busy then submit_loop ws busy started else submit_loop ws (w # busy) (started @ [w]))"

definition submit_due :: "time \<Rightarrow> webhook_db \<Rightarrow> ident list \<Rightarrow> ident list \<times> ident list" where
  "submit_due now db busy = submit_loop (due_webhooks now db) busy []"

definition prune_events :: "time \<Rightarrow> webhook_db \<Rightarrow> int \<times> webhook_db" where
  "prune_events now db =
     (let old = (\<lambda>e. ev_created_at e < now - EVENT_RETENTION)
      in (int (length (filter old (wb_events db))), db\<lparr>wb_events := filter (\<lambda>e. \<not> old e) (wb_events db)\<rparr>))"

section \<open>Windows of the feed\<close>

definition window :: "ident \<Rightarrow> int \<Rightarrow> int \<Rightarrow> webhook_db \<Rightarrow> account_event_row list" where
  "window user a b db = sort_key ev_id (filter (\<lambda>e. ev_user_id e = user \<and> a < ev_id e \<and> ev_id e \<le> b) (wb_events db))"

lemma sorted_filter_split:
  "sorted (map f xs) \<Longrightarrow> filter (\<lambda>x. f x \<le> b) xs @ filter (\<lambda>x. \<not> f x \<le> b) xs = xs" for f :: "'a \<Rightarrow> int"
proof (induction xs)
  case (Cons x xs)
  show ?case
  proof (cases "f x \<le> b")
    case False
    with Cons.prems have "\<forall>y \<in> set xs. \<not> f y \<le> b" by auto
    with False show ?thesis by (simp add: filter_False)
  qed (use Cons in simp)
qed simp

lemma sort_key_split: "sort_key f xs = sort_key f (filter (\<lambda>x. f x \<le> b) xs) @ sort_key f (filter (\<lambda>x. \<not> f x \<le> b) xs)"
  for f :: "'a \<Rightarrow> int"
  using sorted_filter_split [of f "sort_key f xs" b] by (simp add: filter_sort)

lemma window_split: "a \<le> b \<Longrightarrow> b \<le> c \<Longrightarrow> window user a c db = window user a b db @ window user b c db"
  unfolding window_def
  by (subst sort_key_split [of _ _ b]) (auto intro!: arg_cong2 [of _ _ _ _ "(@)"] arg_cong [of _ _ "sort_key ev_id"] filter_cong)

lemma feed_window: "a \<le> b \<Longrightarrow> feed user a db = window user a b db @ feed user b db"
  unfolding window_def feed_def
  by (subst sort_key_split [of _ _ b]) (auto intro!: arg_cong2 [of _ _ _ _ "(@)"] arg_cong [of _ _ "sort_key ev_id"] filter_cong)

lemma set_feed: "set (feed user a db) = {e \<in> set (wb_events db). ev_user_id e = user \<and> a < ev_id e}"
  by (simp add: feed_def)

lemma distinct_feed: "distinct_keys ev_id (wb_events db) \<Longrightarrow> distinct_keys ev_id (feed user a db)"
  by (simp add: feed_def distinct_map inj_on_def)

lemma sorted_feed: "sorted (map ev_id (feed user a db))"
  by (simp add: feed_def)

lemma window_empty [simp]: "window user a a db = []"
  by (simp add: window_def filter_False)

text \<open>The first rows of a feed are the window up to the last of them.\<close>

lemma take_feed_window:
  assumes "distinct_keys ev_id (wb_events db)" and "feed user a db = xs @ ys" and "xs \<noteq> []"
  shows "window user a (ev_id (last xs)) db = xs" and "feed user (ev_id (last xs)) db = ys"
proof -
  let ?b = "ev_id (last xs)"
  have mem: "last xs \<in> set (feed user a db)" using assms(2,3) by simp
  then have le: "a \<le> ?b" by (simp add: set_feed)
  have sorted: "sorted (map ev_id (xs @ ys))" using sorted_feed [of user a db] assms(2) by simp
  have dist: "distinct_keys ev_id (xs @ ys)" using distinct_feed [OF assms(1), of user a] assms(2) by simp
  have low: "\<forall>e \<in> set xs. ev_id e \<le> ?b"
  proof -
    obtain zs z where xs: "xs = zs @ [z]" using assms(3) by (cases xs rule: rev_cases) auto
    then show ?thesis using sorted by (auto simp: sorted_append)
  qed
  have high: "\<forall>e \<in> set ys. ?b < ev_id e"
  proof
    fix e assume "e \<in> set ys"
    with sorted assms(3) have "?b \<le> ev_id e" by (auto simp: sorted_append)
    moreover have "?b \<in> ev_id ` set xs" "ev_id e \<in> ev_id ` set ys" using \<open>e \<in> set ys\<close> assms(3) by simp_all
    then have "?b \<noteq> ev_id e" using dist by (metis disjoint_iff distinct_append map_append set_map)
    ultimately show "?b < ev_id e" by simp
  qed
  have split: "xs @ ys = window user a ?b db @ feed user ?b db" using feed_window [OF le, of user db] assms(2) by simp
  have "filter (\<lambda>e. ev_id e \<le> ?b) (xs @ ys) = xs" using low high by (simp add: filter_id_conv [THEN iffD2] filter_False not_le)
  moreover have "filter (\<lambda>e. ev_id e \<le> ?b) (window user a ?b db @ feed user ?b db) = window user a ?b db"
    by (simp add: window_def set_feed filter_id_conv [THEN iffD2] filter_False not_le)
  ultimately show "window user a ?b db = xs" unfolding split by simp
  with split show "feed user ?b db = ys" by simp
qed

text \<open>
  Paging the feed misses nothing and repeats nothing: a page followed by what lies after its cursor is what lay after the
  cursor it was asked for, in order of id and filtered by the wanted types; and when there is no more,
  nothing is left.
\<close>

theorem list_events_pages:
  assumes "distinct_keys ev_id (wb_events db)" and "0 \<le> after" and "list_events user after types limit0 db = Inr page"
    and "types_of types = Inr wanted"
  shows "filter (is_wanted wanted) (feed user after db) = pg_events page @ filter (is_wanted wanted) (feed user (pg_next_after page) db) \<and>
    after \<le> pg_next_after page \<and> (\<not> pg_has_more page \<longrightarrow> feed user (pg_next_after page) db = [])"
proof -
  define n where "n = nat (max 1 (min limit0 500))"
  have "0 < n" by (simp add: n_def)
  define rows where "rows = take n (feed user after db)"
  have page: "pg_events page = filter (is_wanted wanted) rows" "pg_next_after page = (if rows = [] then after else ev_id (last rows))"
    "pg_has_more page = (length rows = n)"
    using assms(2-4) by (auto simp: list_events_def Let_def rows_def n_def max_def)
  show ?thesis
  proof (cases "rows = []")
    case True
    with \<open>0 < n\<close> have "feed user after db = []" by (simp add: rows_def)
    with True page show ?thesis by simp
  next
    case False
    have feed1: "feed user after db = rows @ drop n (feed user after db)" by (simp add: rows_def)
    note next1 = take_feed_window(2) [OF assms(1) feed1 False]
    have "last rows \<in> set (feed user after db)" using False feed1 by (metis Un_iff last_in_set set_append)
    then have "after \<le> ev_id (last rows)" by (simp add: set_feed)
    moreover have "drop n (feed user after db) = []" if "length rows \<noteq> n" using that by (simp add: rows_def)
    ultimately show ?thesis using page False next1 feed1 by (metis filter_append)
  qed
qed

section \<open>A turn delivers in order\<close>

definition quiet :: "delivery_env \<Rightarrow> bool" where
  "quiet env \<longleftrightarrow> (\<forall>n db. before_send env n db = db \<and> during_send env n db = db)"

definition same_hook :: "webhook \<Rightarrow> webhook \<Rightarrow> bool" where
  "same_hook r r' \<longleftrightarrow> wk_id r' = wk_id r \<and> wk_user_id r' = wk_user_id r \<and> wk_events r' = wk_events r"

lemma same_hook_refl [simp]: "same_hook r r"
  by (simp add: same_hook_def)

lemma hook_ids [simp]:
  "wk_id (progressed_hook c t d r) = wk_id r" "wk_id (failed_hook c err t r) = wk_id r" "wk_id (start_over r) = wk_id r"
  by (simp_all add: progressed_hook_def failed_hook_def start_over_def Let_def)

lemma hook_fields:
  "same_hook r (progressed_hook c t d r)" "same_hook r (failed_hook c err t r)"
  "wk_last_event_id (progressed_hook c t d r) = max (wk_last_event_id r) c"
  "wk_last_event_id (failed_hook c err t r) = max (wk_last_event_id r) c"
  "wk_active (progressed_hook c t d r) = wk_active r"
  by (simp_all add: same_hook_def progressed_hook_def failed_hook_def start_over_def Let_def)

lemma get_hook_record:
  "get_row wk_id wid (wb_hooks (record_progress wid c t d db)) = map_option (progressed_hook c t d) (get_row wk_id wid (wb_hooks db))"
  "get_row wk_id wid (wb_hooks (record_failure wid c err t db)) = map_option (failed_hook c err t) (get_row wk_id wid (wb_hooks db))"
  by (simp_all add: record_progress_def record_failure_def get_row_modify_row)

lemma events_record [simp]:
  "wb_events (record_progress wid c t d db) = wb_events db" "wb_events (record_failure wid c err t db) = wb_events db"
  by (simp_all add: record_progress_def record_failure_def)

lemma deliver_loop_cursor:
  assumes "quiet env" and "get_row wk_id wid (wb_hooks db) = Some row" and "wk_active row" and "wk_last_event_id row \<le> cursor"
    and "\<not> passed \<Longrightarrow> wk_last_event_id row = cursor"
    and "sorted (map ev_id es)" and "distinct_keys ev_id es" and "\<forall>e \<in> set es. cursor < ev_id e"
    and "deliver_loop env n wid es cursor passed db = (sent, db')"
  shows "wb_events db' = wb_events db \<and>
    (\<exists>row'. get_row wk_id wid (wb_hooks db') = Some row' \<and> same_hook row row' \<and>
       (wk_last_event_id row' = cursor \<or> wk_last_event_id row' \<in> ev_id ` set es) \<and>
       sent = filter (is_wanted (wk_events row)) (filter (\<lambda>e. ev_id e \<le> wk_last_event_id row') es))"
  using assms(2-)
proof (induction es arbitrary: n cursor passed db row sent)
  case Nil
  then show ?case by (auto simp: end_turn_def get_hook_record hook_fields max_def split: if_splits)
next
  case (Cons e es)
  have none: "filter (\<lambda>e. ev_id e \<le> cursor) (e # es) = []" using Cons.prems(7) by (auto simp: filter_empty_conv)
  have cur: "current wid db = Some (wk_url row, wk_secret row, wk_events row)" using Cons.prems(1,2) by (simp add: current_def)
  have quiet: "before_send env n db = db" "during_send env n db = db" for n db using assms(1) by (simp_all add: quiet_def)
  have tail: "\<forall>x \<in> set es. ev_id e < ev_id x"
    using Cons.prems(5,6) by (auto simp: less_le image_iff)
  have stop: ?case if "get_row wk_id wid (wb_hooks db') = Some row'" "same_hook row row'" "wk_last_event_id row' = cursor"
    "sent = []" "wb_events db' = wb_events db" for row'
    using that none by (intro conjI exI [of _ row']) (simp_all del: filter.simps filter_filter)
  show ?case
  proof (cases "turn_over env n")
    case True
    then have "sent = []" "db' = end_turn env n wid cursor passed db" using Cons.prems(8) by simp_all
    then show ?thesis
      using Cons.prems(1,3,4) by (intro stop [of "if passed then progressed_hook cursor (clock env n) False row else row"])
        (auto simp: end_turn_def get_hook_record hook_fields)
  next
    case False
    note step = False cur quiet Cons.prems(8)
    show ?thesis
    proof (cases "is_wanted (wk_events row) e")
      case unwanted: False
      then have run: "deliver_loop env (Suc n) wid es (ev_id e) True db = (sent, db')" using step by simp
      have "wb_events db' = wb_events db \<and>
        (\<exists>row'. get_row wk_id wid (wb_hooks db') = Some row' \<and> same_hook row row' \<and>
           (wk_last_event_id row' = ev_id e \<or> wk_last_event_id row' \<in> ev_id ` set es) \<and>
           sent = filter (is_wanted (wk_events row)) (filter (\<lambda>e. ev_id e \<le> wk_last_event_id row') es))"
        using Cons.prems(3,5,6,7) tail by (intro Cons.IH [OF Cons.prems(1,2) _ _ _ _ _ run]) auto
      with unwanted show ?thesis by auto
    next
      case wanted: True
      show ?thesis
      proof (cases "endpoint env n (wk_url row) (wk_secret row) e")
        case (Some err)
        with step wanted have "sent = []" "db' = record_failure wid cursor err (clock env n) db" by simp_all
        then show ?thesis
          using Cons.prems(1,3) by (intro stop [of "failed_hook cursor err (clock env n) row"]) (simp_all add: get_hook_record hook_fields)
      next
        case None
        let ?db = "record_progress wid (ev_id e) (clock env n) True db" and ?row = "progressed_hook (ev_id e) (clock env n) True row"
        obtain rest where run: "deliver_loop env (Suc n) wid es (ev_id e) False ?db = (rest, db')" and sent: "sent = e # rest"
          using step wanted None by (auto split: prod.splits)
        have "wb_events db' = wb_events ?db \<and>
          (\<exists>row'. get_row wk_id wid (wb_hooks db') = Some row' \<and> same_hook ?row row' \<and>
             (wk_last_event_id row' = ev_id e \<or> wk_last_event_id row' \<in> ev_id ` set es) \<and>
             rest = filter (is_wanted (wk_events ?row)) (filter (\<lambda>e. ev_id e \<le> wk_last_event_id row') es))"
        proof (rule Cons.IH [OF _ _ _ _ _ _ _ run])
          show "get_row wk_id wid (wb_hooks ?db) = Some ?row" using Cons.prems(1) by (simp add: get_hook_record)
        qed (use Cons.prems tail in \<open>auto simp: hook_fields max_def\<close>)
        then obtain row' where r: "wb_events db' = wb_events db" "get_row wk_id wid (wb_hooks db') = Some row'" "same_hook ?row row'"
          "wk_last_event_id row' = ev_id e \<or> wk_last_event_id row' \<in> ev_id ` set es"
          "rest = filter (is_wanted (wk_events ?row)) (filter (\<lambda>e. ev_id e \<le> wk_last_event_id row') es)" by auto
        have "same_hook row row'" "wk_events ?row = wk_events row" using r(3) hook_fields(1) [of row "ev_id e" "clock env n" True]
          by (auto simp: same_hook_def)
        moreover have "ev_id e \<le> wk_last_event_id row'" using r(4) tail by auto
        ultimately show ?thesis using r wanted sent by auto
      qed
    qed
  qed
qed

lemma deliver_webhook_window:
  assumes "quiet env" and "distinct_keys ev_id (wb_events db)" and "get_row wk_id wid (wb_hooks db) = Some row"
    and "deliver_webhook env wid db = (sent, db')"
  obtains row' where "wb_events db' = wb_events db" "get_row wk_id wid (wb_hooks db') = Some row'" "same_hook row row'"
    "wk_last_event_id row \<le> wk_last_event_id row'"
    "wk_last_event_id row' = wk_last_event_id row \<or> (\<exists>e \<in> set (wb_events db). wk_last_event_id row' = ev_id e)"
    "sent = filter (is_wanted (wk_events row)) (window (wk_user_id row) (wk_last_event_id row) (wk_last_event_id row') db)"
proof (cases "wk_active row")
  case False
  with assms(3,4) that show thesis by (simp add: deliver_webhook_def)
next
  case True
  let ?c = "wk_last_event_id row" and ?u = "wk_user_id row"
  define es where "es = take BATCH (feed ?u ?c db)"
  have run: "deliver_loop env 0 wid es ?c False db = (sent, db')" using assms(3,4) True by (simp add: deliver_webhook_def es_def)
  have es: "sorted (map ev_id es)" "distinct_keys ev_id es" "\<forall>e \<in> set es. ?c < ev_id e \<and> e \<in> set (wb_events db)"
    using sorted_feed [of ?u ?c db] distinct_feed [OF assms(2), of ?u ?c] set_take_subset [of BATCH "feed ?u ?c db"]
    by (auto simp: es_def take_map [symmetric] set_feed sorted_wrt_take)
  obtain row' where r: "wb_events db' = wb_events db" "get_row wk_id wid (wb_hooks db') = Some row'" "same_hook row row'"
    "wk_last_event_id row' = ?c \<or> wk_last_event_id row' \<in> ev_id ` set es"
    "sent = filter (is_wanted (wk_events row)) (filter (\<lambda>e. ev_id e \<le> wk_last_event_id row') es)"
    using deliver_loop_cursor [OF assms(1,3) True _ _ es(1,2) _ run] es(3) by auto
  have le: "?c \<le> wk_last_event_id row'" using r(4) es(3) by auto
  have "filter (\<lambda>e. ev_id e \<le> wk_last_event_id row') es = window ?u ?c (wk_last_event_id row') db"
  proof (cases "wk_last_event_id row' = ?c")
    case True
    then show ?thesis using es(3) by (auto simp: filter_empty_conv)
  next
    case False
    then obtain e where e: "e \<in> set es" "wk_last_event_id row' = ev_id e" using r(4) by auto
    then obtain xs ys where split: "es = xs @ [e] @ ys" by (metis append_Cons append_Nil split_list)
    have feed1: "feed ?u ?c db = (xs @ [e]) @ (ys @ drop BATCH (feed ?u ?c db))"
      using split append_take_drop_id [of BATCH "feed ?u ?c db"] by (simp add: es_def)
    have "window ?u ?c (ev_id (last (xs @ [e]))) db = xs @ [e]" by (rule take_feed_window(1) [OF assms(2) feed1]) simp
    moreover have "filter (\<lambda>x. ev_id x \<le> ev_id e) es = xs @ [e]"
    proof -
      have "\<forall>x \<in> set xs. ev_id x \<le> ev_id e" using es(1) by (simp add: split sorted_append)
      moreover have "\<forall>x \<in> set ys. ev_id e < ev_id x" using es(1,2) by (auto simp: split sorted_append less_le image_iff)
      ultimately show ?thesis by (simp add: split filter_id_conv [THEN iffD2] filter_False not_le)
    qed
    ultimately show ?thesis using e(2) by simp
  qed
  with r le es(3) that show thesis by auto
qed

section \<open>Over any run\<close>

text \<open>
  The world of one webhook: the tables, the sequence event ids are drawn from, and the events its
  endpoint has acknowledged.  Events appear, turns run, and the owner changes the URL or switches the
  webhook off and on; each with any answers of the endpoint and any length of turn.
\<close>

record hook_world =
  hw_db :: webhook_db
  hw_seq :: int
  hw_acknowledged :: "account_event_row list"

inductive hook_step :: "ident \<Rightarrow> hook_world \<Rightarrow> hook_world \<Rightarrow> bool" for wid where
  emit: "hook_step wid w
      (w\<lparr>hw_seq := hw_seq w + 1,
         hw_db := (hw_db w)\<lparr>wb_events := wb_events (hw_db w) @
           [\<lparr>ev_id = hw_seq w + 1, ev_user_id = user, ev_type = type, ev_data = data, ev_created_at = now\<rparr>]\<rparr>\<rparr>)"
| turn: "quiet env \<Longrightarrow> deliver_webhook env wid (hw_db w) = (sent, db') \<Longrightarrow>
    hook_step wid w (w\<lparr>hw_db := db', hw_acknowledged := hw_acknowledged w @ sent\<rparr>)"
| change: "update_webhook url_error user wid url None active (hw_db w) = Inr (row, db') \<Longrightarrow> hook_step wid w (w\<lparr>hw_db := db'\<rparr>)"

definition hook_inv :: "ident \<Rightarrow> ident \<Rightarrow> string list \<Rightarrow> int \<Rightarrow> hook_world \<Rightarrow> bool" where
  "hook_inv wid user wanted start w \<longleftrightarrow>
     distinct_keys ev_id (wb_events (hw_db w)) \<and> (\<forall>e \<in> set (wb_events (hw_db w)). ev_id e \<le> hw_seq w) \<and>
     (\<exists>row. get_row wk_id wid (wb_hooks (hw_db w)) = Some row \<and> wk_user_id row = user \<and> wk_events row = wanted \<and>
        start \<le> wk_last_event_id row \<and> wk_last_event_id row \<le> hw_seq w \<and>
        hw_acknowledged w = filter (is_wanted wanted) (window user start (wk_last_event_id row) (hw_db w)))"

lemma window_cong: "wb_events db = wb_events db' \<Longrightarrow> window user a b db = window user a b db'"
  by (simp add: window_def)

lemma changed_hook_same: "same_hook row (changed_hook url None active row) \<and> wk_last_event_id (changed_hook url None active row) = wk_last_event_id row"
  by (auto simp: changed_hook_def same_hook_def start_over_def Let_def split: option.split bool.split)

lemma hook_step_keeps:
  assumes "hook_step wid w w'" and "hook_inv wid user wanted start w"
  shows "hook_inv wid user wanted start w'"
  using assms
proof (cases rule: hook_step.cases)
  case (emit u type data now)
  obtain row where row: "get_row wk_id wid (wb_hooks (hw_db w)) = Some row" "wk_last_event_id row \<le> hw_seq w"
    using assms(2) by (auto simp: hook_inv_def)
  from assms(2) emit show ?thesis
    by (auto simp: hook_inv_def window_def)
next
  case (turn env sent db')
  obtain row where row: "get_row wk_id wid (wb_hooks (hw_db w)) = Some row" "wk_user_id row = user" "wk_events row = wanted"
    "start \<le> wk_last_event_id row" "wk_last_event_id row \<le> hw_seq w"
    "hw_acknowledged w = filter (is_wanted wanted) (window user start (wk_last_event_id row) (hw_db w))"
    and ids: "distinct_keys ev_id (wb_events (hw_db w))" "\<forall>e \<in> set (wb_events (hw_db w)). ev_id e \<le> hw_seq w"
    using assms(2) by (auto simp: hook_inv_def)
  obtain row' where r: "wb_events db' = wb_events (hw_db w)" "get_row wk_id wid (wb_hooks db') = Some row'" "same_hook row row'"
    "wk_last_event_id row \<le> wk_last_event_id row'"
    "wk_last_event_id row' = wk_last_event_id row \<or> (\<exists>e \<in> set (wb_events (hw_db w)). wk_last_event_id row' = ev_id e)"
    "sent = filter (is_wanted (wk_events row)) (window (wk_user_id row) (wk_last_event_id row) (wk_last_event_id row') (hw_db w))"
    using deliver_webhook_window [OF turn(2) ids(1) row(1) turn(3)] by metis
  have "wk_last_event_id row' \<le> hw_seq w" using r(5) row(5) ids(2) by auto
  moreover have "hw_acknowledged w @ sent = filter (is_wanted wanted) (window user start (wk_last_event_id row') db')"
    using row r window_split [OF row(4) r(4), of user "hw_db w"] window_cong [OF r(1)] by simp
  ultimately show ?thesis using turn(1) ids r(1-4) row(2-4) by (auto simp: hook_inv_def same_hook_def)
next
  case (change url_error user' url active row db')
  obtain old where old: "get_row wk_id wid (wb_hooks (hw_db w)) = Some old"
    and db': "db' = (hw_db w)\<lparr>wb_hooks := put_row wk_id (changed_hook (map_option strip url) None active old) (wb_hooks (hw_db w))\<rparr>"
    using change(2) by (auto simp: update_webhook_def own_def Let_def split: option.splits sum.splits if_splits)
  have "wk_id old = wid" using get_row_SomeD [OF old] by simp
  with assms(2) change(1) old changed_hook_same [of old "map_option strip url" active] show ?thesis
    by (auto simp: hook_inv_def db' get_row_put_row same_hook_def window_def)
qed

interpretation hook_machine: invariant_step "hook_step wid" "hook_inv wid user wanted start" for wid user wanted start
  by unfold_locales (rule hook_step_keeps)

text \<open>
  (C25) A webhook is the feed, in order, as long as its turns are quiet.  The runs are those of \<open>hook_step\<close>: from
  the creation of the webhook on, events appear in the order of their ids, its owner changes its URL or switches it
  off and on, and delivery turns run that read, send and record without anything else touching the tables during a
  turn and without the process dying between the answer to a POST and the recording of it; the endpoint may answer
  anything and a turn may end anywhere.  In every state of such a run the events the endpoint has acknowledged are
  exactly those its account had from the creation up to the cursor that the webhook asked for, each once and in
  order of id.  Not in these runs: a change of the event filter, a deletion, the pruning of old events, and a death
  between POST and record, after which the module delivers the event again (at least once).
\<close>

theorem webhook_delivers_feed:
  assumes "create_webhook url_error now wid secret user url types db = Inr (row0, db1)" and "wid \<notin> wk_id ` set (wb_hooks db)"
    and "distinct_keys ev_id (wb_events db)" and "\<forall>e \<in> set (wb_events db). ev_id e \<le> seq" and "0 \<le> seq"
    and "(hook_step wid)\<^sup>*\<^sup>* \<lparr>hw_db = db1, hw_seq = seq, hw_acknowledged = []\<rparr> w"
    and "get_row wk_id wid (wb_hooks (hw_db w)) = Some row"
  shows "hw_acknowledged w =
    filter (is_wanted (wk_events row0)) (window user (wk_last_event_id row0) (wk_last_event_id row) (hw_db w))"
proof -
  have db1: "db1 = db\<lparr>wb_hooks := wb_hooks db @ [row0]\<rparr>" and row0: "wk_id row0 = wid" "wk_user_id row0 = user"
    and latest: "wk_last_event_id row0 = (let ids = map ev_id (filter (\<lambda>e. ev_user_id e = user) (wb_events db))
      in if ids = [] then 0 else Max (set ids))"
    using assms(1) by (auto simp: create_webhook_def Let_def split: option.splits sum.splits if_splits)
  have "wk_last_event_id row0 \<le> seq" using assms(4,5) by (auto simp: latest Let_def filter_empty_conv intro!: Max.boundedI)
  moreover have "get_row wk_id wid (wb_hooks db1) = Some row0"
    using assms(2) row0(1) by (simp add: db1 get_row_append get_row_None_iff [THEN iffD2])
  ultimately have "hook_inv wid user (wk_events row0) (wk_last_event_id row0) \<lparr>hw_db = db1, hw_seq = seq, hw_acknowledged = []\<rparr>"
    using assms(3,4) row0(2) by (auto simp: hook_inv_def db1)
  from hook_machine.run_keeps [OF assms(6) this] assms(7) show ?thesis by (auto simp: hook_inv_def)
qed

definition demo_hook :: webhook where
  "demo_hook = \<lparr>wk_id = ''wh'', wk_user_id = ''u'', wk_url = ''https://x'', wk_secret = ''s'', wk_events = [''balance.low''],
     wk_active = True, wk_disabled_reason = None, wk_last_event_id = 0, wk_failures = 0, wk_failing_since = None,
     wk_next_attempt_at = None, wk_last_success_at = None, wk_last_failure_at = None, wk_last_error = None, wk_created_at = 0\<rparr>"

definition demo_event :: "int \<Rightarrow> string \<Rightarrow> account_event_row" where
  "demo_event n t = \<lparr>ev_id = n, ev_user_id = ''u'', ev_type = t, ev_data = [], ev_created_at = n\<rparr>"

definition demo_delivery :: delivery_env where
  "demo_delivery = \<lparr>turn_over = (\<lambda>_. False), endpoint = (\<lambda>_ _ _ _. None), clock = (\<lambda>_. 5), before_send = (\<lambda>_ db. db),
     during_send = (\<lambda>_ db. db)\<rparr>"

lemma demo_created:
  "create_webhook (\<lambda>_. None) 0 ''wh'' ''s'' ''u'' ''https://x'' (TypesList [''balance.low'']) \<lparr>wb_events = [], wb_hooks = []\<rparr> =
   Inr (demo_hook, \<lparr>wb_events = [], wb_hooks = [demo_hook]\<rparr>)"
  by (simp add: create_webhook_def types_of_def EVENT_TYPES_def MAX_WEBHOOKS_def demo_hook_def strip_def is_space_def Let_def)

definition demo_events :: "account_event_row list" where
  "demo_events = [demo_event 1 ''deployment.ready'', demo_event 2 ''balance.low'']"

definition demo_sent :: webhook where
  "demo_sent = demo_hook\<lparr>wk_last_event_id := 2, wk_last_success_at := Some 5\<rparr>"

lemma demo_turn:
  "deliver_webhook demo_delivery ''wh'' \<lparr>wb_events = demo_events, wb_hooks = [demo_hook]\<rparr> =
   ([demo_event 2 ''balance.low''], \<lparr>wb_events = demo_events, wb_hooks = [demo_sent]\<rparr>)"
  by (simp add: deliver_webhook_def demo_hook_def demo_sent_def demo_events_def demo_event_def demo_delivery_def feed_def BATCH_def current_def
      is_wanted_def record_progress_def progressed_hook_def start_over_def end_turn_def Let_def)

text \<open>A run: created on empty tables, two events appear of which one is wanted, one turn.\<close>

theorem webhook_delivers_feed_witness:
  "\<exists>w. (hook_step ''wh'')\<^sup>*\<^sup>* \<lparr>hw_db = \<lparr>wb_events = [], wb_hooks = [demo_hook]\<rparr>, hw_seq = 0, hw_acknowledged = []\<rparr> w \<and>
     get_row wk_id ''wh'' (wb_hooks (hw_db w)) = Some demo_sent \<and> wb_events (hw_db w) = demo_events \<and>
     hw_acknowledged w = [demo_event 2 ''balance.low''] \<and>
     hw_acknowledged w = filter (is_wanted [''balance.low'']) (window ''u'' 0 2 (hw_db w))"
proof -
  let ?w = "\<lambda>db n log. \<lparr>hw_db = db, hw_seq = n, hw_acknowledged = log\<rparr>"
  let ?db0 = "\<lparr>wb_events = [], wb_hooks = [demo_hook]\<rparr>" and ?e1 = "demo_event 1 ''deployment.ready''" and ?e2 = "demo_event 2 ''balance.low''"
  have 1: "hook_step ''wh'' (?w ?db0 0 []) (?w (?db0\<lparr>wb_events := [?e1]\<rparr>) 1 [])"
    using hook_step.emit [of "''wh''" "?w ?db0 0 []" "''u''" "''deployment.ready''" "[]" 1] by (simp add: demo_event_def)
  have 2: "hook_step ''wh'' (?w (?db0\<lparr>wb_events := [?e1]\<rparr>) 1 []) (?w (?db0\<lparr>wb_events := demo_events\<rparr>) 2 [])"
    using hook_step.emit [of "''wh''" "?w (?db0\<lparr>wb_events := [?e1]\<rparr>) 1 []" "''u''" "''balance.low''" "[]" 2]
    by (simp add: demo_event_def demo_events_def)
  have "quiet demo_delivery" by (simp add: quiet_def demo_delivery_def)
  from hook_step.turn [OF this, of "''wh''" "?w (?db0\<lparr>wb_events := demo_events\<rparr>) 2 []"] demo_turn
  have 3: "hook_step ''wh'' (?w (?db0\<lparr>wb_events := demo_events\<rparr>) 2 []) (?w \<lparr>wb_events = demo_events, wb_hooks = [demo_sent]\<rparr> 2 [?e2])"
    by simp
  have run: "(hook_step ''wh'')\<^sup>*\<^sup>* (?w ?db0 0 []) (?w \<lparr>wb_events = demo_events, wb_hooks = [demo_sent]\<rparr> 2 [?e2])"
    using 1 2 3 by (meson rtranclp.rtrancl_into_rtrancl rtranclp.rtrancl_refl)
  have row: "get_row wk_id ''wh'' [demo_sent] = Some demo_sent" by (simp add: demo_sent_def demo_hook_def)
  have "filter (is_wanted [''balance.low'']) (window ''u'' 0 2 \<lparr>wb_events = demo_events, wb_hooks = [demo_sent]\<rparr>) = [?e2]"
    using webhook_delivers_feed [OF demo_created _ _ _ _ run, of demo_sent] by (simp add: demo_sent_def demo_hook_def)
  then show ?thesis using run row by (intro exI [of _ "?w \<lparr>wb_events = demo_events, wb_hooks = [demo_sent]\<rparr> 2 [?e2]"] conjI) simp_all
qed

theorem list_events_pages_witness:
  "\<exists>page. list_events ''u'' 0 NoTypes 1 \<lparr>wb_events = demo_events, wb_hooks = []\<rparr> = Inr page \<and>
     demo_events = pg_events page @ feed ''u'' (pg_next_after page) \<lparr>wb_events = demo_events, wb_hooks = []\<rparr>"
proof -
  let ?db = "\<lparr>wb_events = demo_events, wb_hooks = []\<rparr> :: webhook_db"
  obtain page where page: "list_events ''u'' 0 NoTypes 1 ?db = Inr page" by (simp add: list_events_def types_of_def Let_def)
  have "distinct_keys ev_id (wb_events ?db)" "feed ''u'' 0 ?db = demo_events"
    by (simp_all add: demo_events_def demo_event_def feed_def)
  with list_events_pages [OF _ _ page, of "[]"] show ?thesis
    using page by (auto simp: types_of_def is_wanted_def)
qed

end
