(* ===== verification/Flux.thy ===== *)
theory Flux
  imports Numbers_Text "HOL-Library.Multiset" "HOL-Library.Char_ord" "HOL-Library.List_Lexorder"
begin

text \<open>
  The validator's GPU allocation: \<^verbatim>\<open>validator/domain/flux.py\<close> (the split of a machine's GPUs between
  inference and rental, and the packing of catalog models onto the inference GPUs),
  \<^verbatim>\<open>demand.py\<close> (the demand signals it reads), \<^verbatim>\<open>wait_estimator.py\<close> and \<^verbatim>\<open>metagraph.py\<close>.

  A Python dict with insertion order is a list of pairs; a set that is iterated
  (\<^verbatim>\<open>pinned_model_ids\<close>) is a list of distinct elements in an arbitrary order.  The packing
  loop need not end for every catalog (an entry asking for no GPU is chosen forever), so it is
  a partial function and \<open>None\<close> means that it does not return.
\<close>

section \<open>Demand signals\<close>

record inference_signal =
  is_hotkey :: ident
  is_pending_requests :: int
  is_avg_queue_depth :: rat

record rental_signal =
  rsg_hotkey :: ident
  rsg_pending_deployments :: int
  rsg_queued_users :: int

record demand_collector =
  dc_inference :: "inference_signal list"
  dc_rental :: "rental_signal list"

definition inference_signal_score :: "inference_signal \<Rightarrow> rat" where
  "inference_signal_score sig = of_int (is_pending_requests sig) + is_avg_queue_depth sig"

definition rental_signal_score :: "rental_signal \<Rightarrow> rat" where
  "rental_signal_score sig = of_int (rsg_pending_deployments sig + rsg_queued_users sig)"

definition update_inference :: "inference_signal \<Rightarrow> demand_collector \<Rightarrow> demand_collector" where
  "update_inference sig dc = dc\<lparr>dc_inference := put_row is_hotkey sig (dc_inference dc)\<rparr>"

definition update_rental :: "rental_signal \<Rightarrow> demand_collector \<Rightarrow> demand_collector" where
  "update_rental sig dc = dc\<lparr>dc_rental := put_row rsg_hotkey sig (dc_rental dc)\<rparr>"

definition inference_score :: "ident \<Rightarrow> demand_collector \<Rightarrow> rat" where
  "inference_score hk dc =
     (case get_row is_hotkey hk (dc_inference dc) of None \<Rightarrow> 0 | Some sig \<Rightarrow> inference_signal_score sig)"

definition rental_score :: "ident \<Rightarrow> demand_collector \<Rightarrow> rat" where
  "rental_score hk dc =
     (case get_row rsg_hotkey hk (dc_rental dc) of None \<Rightarrow> 0 | Some sig \<Rightarrow> rental_signal_score sig)"

section \<open>Packing catalog models onto inference GPUs\<close>

record catalog_entry =
  ce_model_id :: ident
  ce_min_vram_gb_per_gpu :: int
  ce_gpu_count :: int

type_synonym assignments = "(ident \<times> int list) list"

definition gpu_block :: "int \<Rightarrow> catalog_entry \<Rightarrow> int list" where
  "gpu_block cursor e = [cursor..cursor + ce_gpu_count e - 1]"

definition set_block :: "ident \<Rightarrow> int list \<Rightarrow> assignments \<Rightarrow> assignments" where
  "set_block m block as = modify_row fst m (\<lambda>(k, _). (k, block)) as"

definition extend_block :: "ident \<Rightarrow> int list \<Rightarrow> assignments \<Rightarrow> assignments" where
  "extend_block m block as = modify_row fst m (\<lambda>(k, v). (k, v @ block)) as"

definition eligible_entries :: "int \<Rightarrow> int \<Rightarrow> catalog_entry list \<Rightarrow> catalog_entry list" where
  "eligible_entries n vram catalog =
     filter (\<lambda>e. ce_min_vram_gb_per_gpu e \<le> vram \<and> ce_gpu_count e \<le> n) catalog"

definition by_id :: "catalog_entry list \<Rightarrow> ident \<Rightarrow> catalog_entry option" where
  "by_id eligible m = get_row ce_model_id m (rev eligible)"

definition blank_assignments :: "catalog_entry list \<Rightarrow> assignments" where
  "blank_assignments eligible = foldl (\<lambda>as e. put_row fst (ce_model_id e, []) as) [] eligible"

fun pin_models :: "int \<Rightarrow> catalog_entry list \<Rightarrow> ident list \<Rightarrow> int \<Rightarrow> assignments \<Rightarrow> int \<times> assignments" where
  "pin_models n eligible [] cursor as = (cursor, as)"
| "pin_models n eligible (m # ms) cursor as =
     (case by_id eligible m of
        None \<Rightarrow> pin_models n eligible ms cursor as
      | Some e \<Rightarrow>
          if cursor + ce_gpu_count e > n then pin_models n eligible ms cursor as
          else pin_models n eligible ms (cursor + ce_gpu_count e) (set_block m (gpu_block cursor e) as))"

definition assigned_to :: "ident \<Rightarrow> assignments \<Rightarrow> int list" where
  "assigned_to m as = (case get_row fst m as of None \<Rightarrow> [] | Some (_, v) \<Rightarrow> v)"

definition target_of :: "(ident \<times> int) list \<Rightarrow> ident \<Rightarrow> int" where
  "target_of targets m = (case map_of targets m of None \<Rightarrow> 0 | Some t \<Rightarrow> t)"

definition deficit :: "(ident \<times> int) list \<Rightarrow> assignments \<Rightarrow> catalog_entry \<Rightarrow> int" where
  "deficit targets as e =
     target_of targets (ce_model_id e) -
     int (length (assigned_to (ce_model_id e) as)) div max 1 (ce_gpu_count e)"

text \<open>\<^verbatim>\<open>sorted(eligible, key=lambda e: (-_deficit(e), e.model_id))\<close>: the stable sort on the second
  component, then on the first.\<close>

definition by_deficit :: "(ident \<times> int) list \<Rightarrow> assignments \<Rightarrow> catalog_entry list \<Rightarrow> catalog_entry list" where
  "by_deficit targets as eligible = sort_key (\<lambda>e. - deficit targets as e) (sort_key ce_model_id eligible)"

fun rotate_pick :: "nat \<Rightarrow> int \<Rightarrow> catalog_entry list \<Rightarrow> nat \<Rightarrow> catalog_entry option \<times> nat" where
  "rotate_pick 0 free eligible i = (None, i)"
| "rotate_pick (Suc tries) free eligible i =
     (let c = eligible ! (i mod length eligible)
      in if ce_gpu_count c \<le> free then (Some c, Suc i) else rotate_pick tries free eligible (Suc i))"

definition next_candidate ::
  "(ident \<times> int) list \<Rightarrow> catalog_entry list \<Rightarrow> int \<Rightarrow> assignments \<Rightarrow> nat \<Rightarrow> catalog_entry option \<times> nat" where
  "next_candidate targets eligible free as i =
     (if targets \<noteq> []
      then (find (\<lambda>c. ce_gpu_count c \<le> free \<and> deficit targets as c > 0) (by_deficit targets as eligible), i)
      else rotate_pick (length eligible) free eligible i)"

partial_function (option) fill_models ::
  "int \<Rightarrow> (ident \<times> int) list \<Rightarrow> catalog_entry list \<Rightarrow> int \<Rightarrow> nat \<Rightarrow> assignments \<Rightarrow> (int \<times> assignments) option" where
  "fill_models n targets eligible cursor i as =
     (if cursor < n
      then (case next_candidate targets eligible (n - cursor) as i of
              (None, _) \<Rightarrow> Some (cursor, as)
            | (Some c, j) \<Rightarrow>
                fill_models n targets eligible (cursor + ce_gpu_count c) j
                  (extend_block (ce_model_id c) (gpu_block cursor c) as))
      else Some (cursor, as))"

declare fill_models.simps [code]

definition assign_catalog_models ::
  "int \<Rightarrow> int \<Rightarrow> catalog_entry list \<Rightarrow> (ident \<times> int) list \<Rightarrow> ident list \<Rightarrow> assignments option" where
  "assign_catalog_models n vram catalog targets pinned =
     (if n \<le> 0 \<or> catalog = [] then Some []
      else let eligible = eligible_entries n vram catalog
           in if eligible = [] then Some []
              else let (cursor, as) = pin_models n eligible pinned 0 (blank_assignments eligible)
                   in map_option (\<lambda>(_, as'). filter (\<lambda>(_, v). v \<noteq> []) as')
                        (fill_models n targets eligible cursor 0 as))"

section \<open>Rebalancing one machine\<close>

datatype gpu_mode = Idle | Inference | Rental

record flux_state =
  fx_hotkey :: ident
  fx_node_id :: ident
  fx_total_gpus :: int
  fx_inference_gpus :: int
  fx_rental_gpus :: int
  fx_idle_gpus :: int
  fx_inference_demand_score :: rat
  fx_rental_demand_score :: rat
  fx_inference_assignments :: assignments
  fx_last_rebalanced_at :: "time option"

record flux_event =
  fe_hotkey :: ident
  fe_node_id :: ident
  fe_gpu_index :: int
  fe_from :: gpu_mode
  fe_to :: gpu_mode
  fe_reason :: string
  fe_model_id :: "ident option"
  fe_created_at :: time

record flux_targets =
  ft_inference_floor :: int
  ft_rental_floor :: int
  ft_inference :: int
  ft_rental :: int

definition flux_target :: "rat \<Rightarrow> rat \<Rightarrow> flux_state \<Rightarrow> flux_targets" where
  "flux_target inference_floor_pct rental_floor_pct s =
     (let tot = fx_total_gpus s;
          inference_floor = max 1 \<lceil>of_int tot * inference_floor_pct\<rceil>;
          rental_floor = max 1 \<lceil>of_int tot * rental_floor_pct\<rceil>;
          flex_pool = max 0 (tot - inference_floor - rental_floor);
          inference_demand = fx_inference_demand_score s;
          total_demand = inference_demand + fx_rental_demand_score s;
          flex_to_inference = (if total_demand > 0 then \<lfloor>of_int flex_pool * (inference_demand / total_demand)\<rfloor>
                               else flex_pool div 2);
          flex_to_rental = flex_pool - flex_to_inference
      in \<lparr>ft_inference_floor = inference_floor, ft_rental_floor = rental_floor,
          ft_inference = inference_floor + flex_to_inference, ft_rental = rental_floor + flex_to_rental\<rparr>)"

definition move_events :: "flux_state \<Rightarrow> time \<Rightarrow> gpu_mode \<Rightarrow> rat \<Rightarrow> int \<Rightarrow> int \<Rightarrow> flux_event list" where
  "move_events s now mode demand locked k =
     map (\<lambda>i. \<lparr>fe_hotkey = fx_hotkey s, fe_node_id = fx_node_id s, fe_gpu_index = locked + i, fe_from = Idle,
               fe_to = mode, fe_reason = ''flux_rebalance: demand='' @ show_fixed 2 demand, fe_model_id = None,
               fe_created_at = now\<rparr>) [0..k - 1]"

definition index_to_model :: "assignments \<Rightarrow> int \<Rightarrow> ident option" where
  "index_to_model as = map_of (rev (concat (map (\<lambda>(m, idxs). map (\<lambda>i. (i, m)) idxs) as)))"

definition backfill :: "assignments \<Rightarrow> flux_event \<Rightarrow> flux_event" where
  "backfill as evt =
     (if fe_to evt = Inference
      then case index_to_model as (fe_gpu_index evt) of None \<Rightarrow> evt | Some m \<Rightarrow> evt\<lparr>fe_model_id := Some m\<rparr>
      else evt)"

definition rebalance ::
  "rat \<Rightarrow> rat \<Rightarrow> time \<Rightarrow> catalog_entry list \<Rightarrow> int option \<Rightarrow> (ident \<times> int) list \<Rightarrow> ident list \<Rightarrow> flux_state
     \<Rightarrow> (flux_state \<times> flux_event list) option" where
  "rebalance inference_floor_pct rental_floor_pct now catalog vram targets pinned s =
     (if fx_total_gpus s = 0 then Some (s, [])
      else let t = flux_target inference_floor_pct rental_floor_pct s;
               locked_inference = min (fx_inference_gpus s) (fx_total_gpus s);
               locked_rental = min (fx_rental_gpus s) (fx_total_gpus s);
               inference_add = min (max 0 (ft_inference t - locked_inference)) (fx_idle_gpus s);
               idle = fx_idle_gpus s - inference_add;
               rental_add = min (max 0 (ft_rental t - locked_rental)) idle;
               events = move_events s now Inference (fx_inference_demand_score s) locked_inference inference_add @
                        move_events s now Rental (fx_rental_demand_score s) locked_rental rental_add;
               new_inference = locked_inference + inference_add
           in map_option (\<lambda>as.
                (s\<lparr>fx_inference_gpus := new_inference, fx_rental_gpus := locked_rental + rental_add,
                   fx_idle_gpus := idle - rental_add, fx_inference_assignments := as,
                   fx_last_rebalanced_at := Some now\<rparr>,
                 map (backfill as) events))
               (case vram of
                  Some v \<Rightarrow> if catalog \<noteq> [] \<and> new_inference > 0
                            then assign_catalog_models new_inference v catalog targets pinned else Some []
                | None \<Rightarrow> Some []))"

section \<open>Waiting for a rental\<close>

definition DEFAULT_INFERENCE_DURATION_SECONDS :: rat where
  "DEFAULT_INFERENCE_DURATION_SECONDS = 120"

record wait_estimator =
  we_completion_medians :: "(ident \<times> rat) list"
  we_queue :: "(ident \<times> int) list"
  we_next_position :: int

record wait_estimate =
  wq_deployment_id :: ident
  wq_estimated_wait_seconds :: rat
  wq_gpu_currently_serving :: "string option"
  wq_position_in_queue :: int
  wq_created_at :: time

definition new_estimator :: wait_estimator where
  "new_estimator = \<lparr>we_completion_medians = [], we_queue = [], we_next_position = 1\<rparr>"

definition median_of :: "ident \<Rightarrow> wait_estimator \<Rightarrow> rat" where
  "median_of hk w =
     (case get_row fst hk (we_completion_medians w) of None \<Rightarrow> DEFAULT_INFERENCE_DURATION_SECONDS | Some (_, d) \<Rightarrow> d)"

definition record_completion :: "ident \<Rightarrow> rat \<Rightarrow> wait_estimator \<Rightarrow> wait_estimator" where
  "record_completion hk duration_seconds w =
     w\<lparr>we_completion_medians :=
         put_row fst (hk, median_of hk w * (7 / 10) + duration_seconds * (3 / 10)) (we_completion_medians w)\<rparr>"

definition enqueue :: "ident \<Rightarrow> wait_estimator \<Rightarrow> int \<times> wait_estimator" where
  "enqueue did w =
     (case get_row fst did (we_queue w) of
        Some (_, p) \<Rightarrow> (p, w)
      | None \<Rightarrow> (we_next_position w,
                 w\<lparr>we_queue := we_queue w @ [(did, we_next_position w)], we_next_position := we_next_position w + 1\<rparr>))"

definition dequeue :: "ident \<Rightarrow> wait_estimator \<Rightarrow> wait_estimator" where
  "dequeue did w = w\<lparr>we_queue := delete_row fst did (we_queue w)\<rparr>"

definition estimate :: "time \<Rightarrow> ident \<Rightarrow> flux_state \<Rightarrow> wait_estimator \<Rightarrow> wait_estimate" where
  "estimate now did s w =
     (let position = (case get_row fst did (we_queue w) of None \<Rightarrow> 0 | Some (_, p) \<Rightarrow> p)
      in if fx_idle_gpus s > 0
         then \<lparr>wq_deployment_id = did, wq_estimated_wait_seconds = 0, wq_gpu_currently_serving = None,
               wq_position_in_queue = position, wq_created_at = now\<rparr>
         else let inference_gpus = max (fx_inference_gpus s) 1;
                  gpu_free_interval = median_of (fx_hotkey s) w / of_int inference_gpus;
                  estimated = gpu_free_interval * of_int (max position 1)
              in \<lparr>wq_deployment_id = did, wq_estimated_wait_seconds = round_to 1 estimated,
                  wq_gpu_currently_serving = Some (show_int inference_gpus @ '' inference GPU(s)''),
                  wq_position_in_queue = position, wq_created_at = now\<rparr>)"

section \<open>The metagraph cache\<close>

record metagraph_entry =
  mg_hotkey :: ident
  mg_uid :: int

record metagraph_cache =
  mc_entries :: "metagraph_entry list"
  mc_by_uid :: "metagraph_entry list"
  mc_last_synced_at :: "time option"

text \<open>A dict comprehension \<^verbatim>\<open>{key(e): e for e in entries}\<close>: the last entry of a key stays, at the place of
  the first.\<close>

definition dict_by :: "('r \<Rightarrow> 'k) \<Rightarrow> 'r list \<Rightarrow> 'r list" where
  "dict_by key entries = foldl (\<lambda>rows e. put_row key e rows) [] entries"

definition metagraph_update :: "time \<Rightarrow> metagraph_entry list \<Rightarrow> metagraph_cache \<Rightarrow> metagraph_cache" where
  "metagraph_update now entries c =
     c\<lparr>mc_entries := dict_by mg_hotkey entries, mc_by_uid := dict_by mg_uid entries, mc_last_synced_at := Some now\<rparr>"

definition is_registered :: "ident \<Rightarrow> metagraph_cache \<Rightarrow> bool" where
  "is_registered hk c \<longleftrightarrow> get_row mg_hotkey hk (mc_entries c) \<noteq> None"

definition get_by_hotkey :: "ident \<Rightarrow> metagraph_cache \<Rightarrow> metagraph_entry option" where
  "get_by_hotkey hk c = get_row mg_hotkey hk (mc_entries c)"

definition get_by_uid :: "int \<Rightarrow> metagraph_cache \<Rightarrow> metagraph_entry option" where
  "get_by_uid uid c = get_row mg_uid uid (mc_by_uid c)"

definition hotkey_to_uid :: "ident \<Rightarrow> metagraph_cache \<Rightarrow> int option" where
  "hotkey_to_uid hk c = map_option mg_uid (get_row mg_hotkey hk (mc_entries c))"

definition metagraph_size :: "metagraph_cache \<Rightarrow> nat" where
  "metagraph_size c = length (mc_entries c)"

section \<open>What the packing loop keeps\<close>

text \<open>The GPUs below the cursor are dealt out, each to one model and in whole replicas, and with
  targets a model has more replicas than its target only by the one it was pinned with.\<close>

definition dealt :: "assignments \<Rightarrow> int multiset" where
  "dealt as = mset (concat (map snd as))"

definition whole_replicas :: "(ident \<times> int) list \<Rightarrow> ident set \<Rightarrow> assignments \<Rightarrow> catalog_entry \<Rightarrow> bool" where
  "whole_replicas targets pinned as e \<longleftrightarrow>
     (\<exists>r \<ge> 0. int (length (assigned_to (ce_model_id e) as)) = r * ce_gpu_count e \<and>
        (targets = [] \<or> r \<le> max (target_of targets (ce_model_id e)) (of_bool (ce_model_id e \<in> pinned))))"

definition packed ::
  "int \<Rightarrow> (ident \<times> int) list \<Rightarrow> catalog_entry list \<Rightarrow> ident set \<Rightarrow> int \<Rightarrow> assignments \<Rightarrow> bool" where
  "packed n targets eligible pinned cursor as \<longleftrightarrow>
     distinct_keys fst as \<and> fst ` set as = ce_model_id ` set eligible \<and> 0 \<le> cursor \<and> cursor \<le> n \<and>
     dealt as = mset [0..cursor - 1] \<and> (\<forall>e \<in> set eligible. whole_replicas targets pinned as e)"

lemma map_fst_blocks [simp]:
  "map fst (set_block m b as) = map fst as" "map fst (extend_block m b as) = map fst as"
  by (simp_all add: set_block_def extend_block_def map_key_modify_row split_beta)

lemma fst_set_blocks [simp]:
  "fst ` set (set_block m b as) = fst ` set as" "fst ` set (extend_block m b as) = fst ` set as"
  by (metis list.set_map map_fst_blocks(1), metis list.set_map map_fst_blocks(2))

lemma assigned_to_extend [simp]:
  "m \<in> fst ` set as \<Longrightarrow>
   assigned_to k (extend_block m b as) = (if k = m then assigned_to m as @ b else assigned_to k as)"
  by (auto simp: assigned_to_def extend_block_def get_row_modify_row split_beta get_row_None_iff split: option.split)

lemma set_block_fresh: "assigned_to m as = [] \<Longrightarrow> set_block m b as = extend_block m b as"
  by (induction as) (auto simp: assigned_to_def set_block_def extend_block_def split: if_splits)

lemma dealt_extend: "m \<in> fst ` set as \<Longrightarrow> dealt (extend_block m b as) = dealt as + mset b"
  by (induction as) (auto simp: dealt_def extend_block_def)

lemma mset_block:
  "0 \<le> cursor \<Longrightarrow> 0 \<le> ce_gpu_count e \<Longrightarrow>
   mset [0..cursor - 1] + mset (gpu_block cursor e) = mset [0..cursor + ce_gpu_count e - 1]"
  using upto_split1 [of 0 cursor "cursor + ce_gpu_count e - 1"] upto_split2 [of 0 "cursor - 1" "cursor + ce_gpu_count e - 1"]
  by (cases "ce_gpu_count e = 0") (auto simp: gpu_block_def simp flip: mset_append)

lemma length_gpu_block [simp]: "0 \<le> ce_gpu_count e \<Longrightarrow> int (length (gpu_block cursor e)) = ce_gpu_count e"
  by (simp add: gpu_block_def)

text \<open>Giving a model its next replica keeps the invariant.\<close>

lemma packed_extend:
  assumes "packed n targets eligible pinned cursor as" and "c \<in> set eligible" and "0 \<le> ce_gpu_count c"
    and "cursor + ce_gpu_count c \<le> n" and "distinct_keys ce_model_id eligible"
    and "targets = [] \<or> (\<forall>r. int (length (assigned_to (ce_model_id c) as)) = r * ce_gpu_count c \<longrightarrow>
           r + 1 \<le> max (target_of targets (ce_model_id c)) (of_bool (ce_model_id c \<in> pinned)))"
  shows "packed n targets eligible pinned (cursor + ce_gpu_count c) (extend_block (ce_model_id c) (gpu_block cursor c) as)"
proof -
  let ?as = "extend_block (ce_model_id c) (gpu_block cursor c) as"
  have m: "ce_model_id c \<in> fst ` set as" and inv: "distinct_keys fst as" "0 \<le> cursor" "dealt as = mset [0..cursor - 1]"
    using assms(1,2) by (auto simp: packed_def)
  have "whole_replicas targets pinned ?as e" if e: "e \<in> set eligible" for e
  proof (cases "ce_model_id e = ce_model_id c")
    case True
    with e assms(2,5) have "e = c" by (meson eq_key_imp_eq_value distinct_map inj_onD)
    obtain r where r: "0 \<le> r" "int (length (assigned_to (ce_model_id c) as)) = r * ce_gpu_count c"
      using assms(1,2) by (auto simp: packed_def whole_replicas_def)
    then have "int (length (assigned_to (ce_model_id c) ?as)) = (r + 1) * ce_gpu_count c"
      using m assms(3) by (simp add: distrib_right)
    with r assms(6) \<open>e = c\<close> show ?thesis
      unfolding whole_replicas_def by (intro exI [of _ "r + 1"]) auto
  next
    case False
    with e m assms(1) show ?thesis by (simp add: packed_def whole_replicas_def)
  qed
  then show ?thesis
    using assms(1,3,4) inv m mset_block [OF inv(2) assms(3)]
    by (simp add: packed_def dealt_extend)
qed

lemma blank_assignments_packed:
  assumes "distinct_keys ce_model_id eligible" and "0 < n"
  shows "packed n targets eligible pinned 0 (blank_assignments eligible) \<and> (\<forall>m. assigned_to m (blank_assignments eligible) = [])"
proof -
  have "distinct_keys ce_model_id (xs @ eligible) \<Longrightarrow>
      foldl (\<lambda>as e. put_row fst (ce_model_id e, [] :: int list) as) (map (\<lambda>e. (ce_model_id e, [])) xs) eligible =
      map (\<lambda>e. (ce_model_id e, [])) (xs @ eligible)" for xs
  proof (induction eligible arbitrary: xs)
    case (Cons e es)
    have "put_row fst (ce_model_id e, [] :: int list) (map (\<lambda>e. (ce_model_id e, [])) xs) = map (\<lambda>e. (ce_model_id e, [])) (xs @ [e])"
      using Cons.prems by (subst put_row_new [OF refl]) (auto simp: image_image)
    with Cons.IH [of "xs @ [e]"] Cons.prems show ?case by simp
  qed simp
  from this [of "[]"] assms(1) have blank: "blank_assignments eligible = map (\<lambda>e. (ce_model_id e, [])) eligible"
    by (simp add: blank_assignments_def)
  have empty: "assigned_to m (map (\<lambda>e. (ce_model_id e, [])) xs) = []" for m xs
    by (induction xs) (auto simp: assigned_to_def)
  moreover have "dealt (map (\<lambda>e. (ce_model_id e, [])) xs) = {#}" for xs by (induction xs) (auto simp: dealt_def)
  ultimately show ?thesis
    using assms by (auto simp: blank packed_def whole_replicas_def comp_def image_image)
qed

lemma by_id_Some: "by_id eligible m = Some e \<Longrightarrow> e \<in> set eligible \<and> ce_model_id e = m"
  using get_row_SomeD [of ce_model_id m "rev eligible" e] by (simp add: by_id_def)

lemma pin_models_packed:
  assumes "packed n targets eligible pinned cursor as" and "distinct ms" and "set ms \<subseteq> pinned"
    and "\<And>m. m \<in> set ms \<Longrightarrow> assigned_to m as = []"
    and "distinct_keys ce_model_id eligible" and "\<And>e. e \<in> set eligible \<Longrightarrow> 1 \<le> ce_gpu_count e"
    and "pin_models n eligible ms cursor as = (cursor', as')"
  shows "packed n targets eligible pinned cursor' as'"
  using assms
proof (induction ms arbitrary: cursor as)
  case (Cons m ms)
  show ?case
  proof (cases "\<exists>e. by_id eligible m = Some e \<and> cursor + ce_gpu_count e \<le> n")
    case True
    then obtain e where e: "by_id eligible m = Some e" "cursor + ce_gpu_count e \<le> n" by blast
    have el: "e \<in> set eligible" "ce_model_id e = m" using by_id_Some [OF e(1)] by simp_all
    have pos: "1 \<le> ce_gpu_count e" using Cons.prems(6) [OF el(1)] .
    let ?as = "extend_block m (gpu_block cursor e) as"
    have m: "m \<in> fst ` set as" using Cons.prems(1) el by (auto simp: packed_def)
    have fresh: "assigned_to m as = []" using Cons.prems(4) by simp
    have "packed n targets eligible pinned (cursor + ce_gpu_count e) ?as"
      using packed_extend [OF Cons.prems(1) el(1) _ e(2) Cons.prems(5)] Cons.prems(3) pos fresh el by auto
    moreover have "assigned_to k ?as = []" if "k \<in> set ms" for k
      using that Cons.prems(2,4) m by (auto simp: assigned_to_extend)
    moreover have "pin_models n eligible ms (cursor + ce_gpu_count e) ?as = (cursor', as')"
      using Cons.prems(7) e by (simp add: set_block_fresh [OF fresh])
    ultimately show ?thesis using Cons.IH Cons.prems(2,3,5,6) by auto
  next
    case False
    then have "pin_models n eligible ms cursor as = (cursor', as')"
      using Cons.prems(7) by (auto split: option.splits if_splits)
    then show ?thesis using Cons.IH Cons.prems by auto
  qed
qed simp

lemma rotate_pick_Some:
  "eligible \<noteq> [] \<Longrightarrow> rotate_pick t free eligible i = (Some c, j) \<Longrightarrow> c \<in> set eligible \<and> ce_gpu_count c \<le> free"
  by (induction t free eligible i rule: rotate_pick.induct) (auto simp: Let_def split: if_splits)

lemma rotate_pick_None:
  "rotate_pick t free eligible i = (None, j) \<Longrightarrow> k < t \<Longrightarrow> free < ce_gpu_count (eligible ! ((i + k) mod length eligible))"
proof (induction t free eligible i arbitrary: k rule: rotate_pick.induct)
  case (2 t free eligible i)
  then show ?case by (cases k) (auto simp: Let_def split: if_splits)
qed simp

lemma rotate_pick_exhausts:
  assumes "rotate_pick (length eligible) free eligible i = (None, j)" and "e \<in> set eligible"
  shows "free < ce_gpu_count e"
proof -
  let ?l = "length eligible"
  obtain p where p: "p < ?l" "eligible ! p = e" using assms(2) by (auto simp: in_set_conv_nth)
  define k where "k = (p + (?l - i mod ?l)) mod ?l"
  have l: "0 < ?l" using p(1) by linarith
  have "(i + k) mod ?l = (i mod ?l + (p + (?l - i mod ?l))) mod ?l" by (simp add: k_def mod_simps)
  also have "\<dots> = (p + ?l) mod ?l" using mod_less_divisor [OF l, of i] by (simp add: algebra_simps)
  also have "\<dots> = p" using p by simp
  finally have "(i + k) mod ?l = p" .
  moreover have "k < ?l" unfolding k_def using l by simp
  ultimately show ?thesis using rotate_pick_None [OF assms(1)] p(2) by metis
qed

text \<open>The two ways of choosing the next model, by their results only.\<close>

lemma next_candidate_Some:
  assumes "next_candidate targets eligible free as i = (Some c, j)" and "eligible \<noteq> []"
  shows "c \<in> set eligible" and "ce_gpu_count c \<le> free" and "targets = [] \<or> 0 < deficit targets as c"
proof -
  have "c \<in> set eligible \<and> ce_gpu_count c \<le> free \<and> (targets = [] \<or> 0 < deficit targets as c)"
  proof (cases "targets = []")
    case False
    then have "find (\<lambda>c. ce_gpu_count c \<le> free \<and> deficit targets as c > 0) (by_deficit targets as eligible) = Some c"
      using assms(1) by (simp add: next_candidate_def)
    then obtain p where "p < length (by_deficit targets as eligible)" "c = by_deficit targets as eligible ! p"
      "ce_gpu_count c \<le> free" "deficit targets as c > 0"
      by (auto simp: find_Some_iff)
    moreover from this(1,2) have "c \<in> set (by_deficit targets as eligible)" by simp
    ultimately show ?thesis by (simp add: by_deficit_def)
  qed (use assms rotate_pick_Some [OF assms(2)] in \<open>auto simp: next_candidate_def\<close>)
  then show "c \<in> set eligible" and "ce_gpu_count c \<le> free" and "targets = [] \<or> 0 < deficit targets as c"
    by simp_all
qed

lemma next_candidate_None:
  assumes "next_candidate targets eligible free as i = (None, j)" and "e \<in> set eligible" and "ce_gpu_count e \<le> free"
  shows "targets \<noteq> [] \<and> deficit targets as e \<le> 0"
  using assms rotate_pick_exhausts [of eligible free i j e]
  by (auto simp: next_candidate_def by_deficit_def find_None_iff split: if_splits)

text \<open>The loop returns, and when it stops nothing more could have been placed.\<close>

lemma fill_models_returns:
  assumes "packed n targets eligible pinned cursor as" and "eligible \<noteq> []"
    and "distinct_keys ce_model_id eligible" and "\<And>e. e \<in> set eligible \<Longrightarrow> 1 \<le> ce_gpu_count e"
  shows "\<exists>k as'. fill_models n targets eligible cursor i as = Some (k, as') \<and> packed n targets eligible pinned k as' \<and>
    (\<forall>e \<in> set eligible. ce_gpu_count e \<le> n - k \<longrightarrow> targets \<noteq> [] \<and> deficit targets as' e \<le> 0)"
  using assms(1)
proof (induction "nat (n - cursor)" arbitrary: cursor i as rule: less_induct)
  case less
  show ?case
  proof (cases "cursor < n")
    case True
    obtain res j where cand: "next_candidate targets eligible (n - cursor) as i = (res, j)" by fastforce
    show ?thesis
    proof (cases res)
      case None
      with True cand less.prems next_candidate_None [of targets eligible "n - cursor" as i j]
      show ?thesis by (subst fill_models.simps) auto
    next
      case (Some c)
      note c = next_candidate_Some [OF cand [unfolded Some] assms(2)]
      have pos: "1 \<le> ce_gpu_count c" using assms(4) [OF c(1)] .
      let ?as = "extend_block (ce_model_id c) (gpu_block cursor c) as"
      have "targets = [] \<or> (\<forall>r. int (length (assigned_to (ce_model_id c) as)) = r * ce_gpu_count c \<longrightarrow>
           r + 1 \<le> max (target_of targets (ce_model_id c)) (of_bool (ce_model_id c \<in> pinned)))"
        using c(3) pos by (auto simp: deficit_def max_def split: if_splits)
      with packed_extend [OF less.prems c(1) _ _ assms(3)] pos c(2)
      have "packed n targets eligible pinned (cursor + ce_gpu_count c) ?as" by auto
      with less.hyps [of "cursor + ce_gpu_count c" ?as j] True pos
      have "\<exists>k as'. fill_models n targets eligible (cursor + ce_gpu_count c) j ?as = Some (k, as') \<and>
          packed n targets eligible pinned k as' \<and>
          (\<forall>e \<in> set eligible. ce_gpu_count e \<le> n - k \<longrightarrow> targets \<noteq> [] \<and> deficit targets as' e \<le> 0)"
        by auto
      with True cand Some show ?thesis by (subst fill_models.simps) simp
    qed
  next
    case False
    moreover have "1 \<le> ce_gpu_count e" if "e \<in> set eligible" for e using assms(4) [OF that] .
    moreover have "cursor \<le> n" using less.prems by (simp add: packed_def)
    ultimately show ?thesis using less.prems by (subst fill_models.simps) force
  qed
qed

lemma dealt_nonempty: "dealt (filter (\<lambda>(_, v). v \<noteq> []) as) = dealt as"
  by (induction as) (auto simp: dealt_def)

lemma assigned_to_absent: "m \<notin> fst ` set as \<Longrightarrow> assigned_to m as = []"
  by (simp add: assigned_to_def get_row_None_iff [THEN iffD2])

lemma assigned_to_nonempty: "distinct_keys fst as \<Longrightarrow> assigned_to m (filter (\<lambda>(_, v). v \<noteq> []) as) = assigned_to m as"
proof (induction as)
  case (Cons x xs)
  obtain k v where x: "x = (k, v)" by fastforce
  show ?case
  proof (cases "k = m \<and> v = []")
    case True
    then have "m \<notin> fst ` set (filter (\<lambda>(_, v). v \<noteq> []) xs)" using Cons.prems x by (auto simp: rev_image_eqI)
    from assigned_to_absent [OF this] True x show ?thesis by (simp add: assigned_to_def)
  next
    case False
    with Cons x show ?thesis by (auto simp: assigned_to_def)
  qed
qed simp

lemma packed_entry:
  assumes inv: "packed n targets el pinned k as"
    and stop: "\<And>e. e \<in> set el \<Longrightarrow> ce_gpu_count e \<le> n - k \<Longrightarrow> targets \<noteq> [] \<and> deficit targets as e \<le> 0"
    and el: "el = eligible_entries n vram catalog" and catalog: "distinct_keys ce_model_id catalog"
    and pos: "\<And>e. e \<in> set catalog \<Longrightarrow> 1 \<le> ce_gpu_count e" and e: "e \<in> set catalog"
  shows "\<exists>r \<ge> 0.
       int (length (assigned_to (ce_model_id e) as)) = r * ce_gpu_count e \<and>
       (0 < r \<longrightarrow> ce_min_vram_gb_per_gpu e \<le> vram) \<and>
       (targets \<noteq> [] \<longrightarrow> r \<le> max (target_of targets (ce_model_id e)) (of_bool (ce_model_id e \<in> pinned))) \<and>
       (0 < n \<and> ce_min_vram_gb_per_gpu e \<le> vram \<and> ce_gpu_count e \<le> n - k \<longrightarrow>
          targets \<noteq> [] \<and> target_of targets (ce_model_id e) \<le> r)"
proof (cases "e \<in> set el")
  case True
  then obtain r where r: "0 \<le> r" "int (length (assigned_to (ce_model_id e) as)) = r * ce_gpu_count e"
    "targets = [] \<or> r \<le> max (target_of targets (ce_model_id e)) (of_bool (ce_model_id e \<in> pinned))"
    using inv by (auto simp: packed_def whole_replicas_def)
  have "target_of targets (ce_model_id e) \<le> r" if "ce_gpu_count e \<le> n - k"
    using stop [OF True that] pos [OF e] r(2) by (simp add: deficit_def max_def)
  with r True stop [OF True] show ?thesis
    by (intro exI [of _ r]) (auto simp: el eligible_entries_def)
next
  case False
  have "ce_model_id e \<notin> ce_model_id ` set el"
    using False e catalog by (auto simp: el eligible_entries_def distinct_map dest: inj_onD)
  then have "assigned_to (ce_model_id e) as = []"
    using inv by (intro assigned_to_absent) (simp add: packed_def)
  moreover have "0 \<le> k" using inv by (simp add: packed_def)
  ultimately show ?thesis
    using False e by (intro exI [of _ 0]) (auto simp: el eligible_entries_def max_def)
qed

lemma catalog_packing_sound_aux:
  assumes "distinct_keys ce_model_id catalog" and "\<And>e. e \<in> set catalog \<Longrightarrow> 1 \<le> ce_gpu_count e" and "distinct pinned"
  shows "\<exists>as k. assign_catalog_models n vram catalog targets pinned = Some as \<and> 0 \<le> k \<and> k \<le> max 0 n \<and>
    mset (concat (map snd as)) = mset [0..k - 1] \<and>
    (\<forall>e \<in> set catalog. \<exists>r \<ge> 0.
       int (length (assigned_to (ce_model_id e) as)) = r * ce_gpu_count e \<and>
       (0 < r \<longrightarrow> ce_min_vram_gb_per_gpu e \<le> vram) \<and>
       (targets \<noteq> [] \<longrightarrow> r \<le> max (target_of targets (ce_model_id e)) (of_bool (ce_model_id e \<in> set pinned))) \<and>
       (0 < n \<and> ce_min_vram_gb_per_gpu e \<le> vram \<and> ce_gpu_count e \<le> n - k \<longrightarrow>
          targets \<noteq> [] \<and> target_of targets (ce_model_id e) \<le> r))"
proof -
  define el where "el = eligible_entries n vram catalog"
  have el: "distinct_keys ce_model_id el" "\<And>e. e \<in> set el \<Longrightarrow> 1 \<le> ce_gpu_count e"
    using assms by (auto simp: el_def eligible_entries_def distinct_map_filter)
  show ?thesis
  proof (cases "n \<le> 0 \<or> el = []")
    case True
    then have "assign_catalog_models n vram catalog targets pinned = Some []"
      by (auto simp: assign_catalog_models_def el_def [symmetric])
    moreover have "e \<notin> set el" if "0 < n" for e using True that by simp
    ultimately show ?thesis
      by (intro exI [of _ "[]"] exI [of _ 0]) (force simp: assigned_to_def el_def eligible_entries_def)
  next
    case False
    then have n: "0 < n" "el \<noteq> []" "catalog \<noteq> []" by (auto simp: el_def eligible_entries_def)
    obtain cur as0 where pin: "pin_models n el pinned 0 (blank_assignments el) = (cur, as0)" by fastforce
    note blank = blank_assignments_packed [OF el(1) n(1), of targets "set pinned"]
    have "packed n targets el (set pinned) cur as0"
      using pin_models_packed [OF _ assms(3) _ _ el(1) el(2) pin] blank by auto
    from fill_models_returns [OF this n(2) el] obtain k as where fill: "fill_models n targets el cur 0 as0 = Some (k, as)"
      and inv: "packed n targets el (set pinned) k as"
      and stop: "\<And>e. e \<in> set el \<Longrightarrow> ce_gpu_count e \<le> n - k \<Longrightarrow> targets \<noteq> [] \<and> deficit targets as e \<le> 0" by blast
    let ?as = "filter (\<lambda>(_, v). v \<noteq> []) as"
    have res: "assign_catalog_models n vram catalog targets pinned = Some ?as"
      using n pin fill by (simp add: assign_catalog_models_def el_def [symmetric])
    have keys: "distinct_keys fst as" and k: "0 \<le> k" "k \<le> n"
      and d: "dealt as = mset [0..k - 1]" using inv by (auto simp: packed_def)
    from packed_entry [OF inv stop el_def assms(1,2)] res k d show ?thesis
      by (intro exI [of _ ?as] exI [of _ k]) (simp add: dealt_nonempty [unfolded dealt_def] dealt_def assigned_to_nonempty [OF keys])
  qed
qed

text \<open>
  (C30) Packing ends and is sound: for a catalog whose models each need at least one GPU, the loop
  returns; the GPUs it hands out are an initial block \<open>0..k-1\<close> of the inference GPUs, each given to
  exactly one model; a model that gets GPUs fits their memory and gets whole replicas, with
  targets never more than its target beyond the replica it is already running; and a model left
  below its target (or, without targets, any model that fits the memory) needs more GPUs than are
  left over.
\<close>

theorem catalog_packing_sound:
  assumes "distinct_keys ce_model_id catalog" and "\<And>e. e \<in> set catalog \<Longrightarrow> 1 \<le> ce_gpu_count e" and "distinct pinned"
  shows "\<exists>as k. assign_catalog_models n vram catalog targets pinned = Some as \<and> 0 \<le> k \<and> k \<le> max 0 n \<and>
    mset (concat (map snd as)) = mset [0..k - 1] \<and>
    (\<forall>e \<in> set catalog. \<exists>r \<ge> 0.
       int (length (assigned_to (ce_model_id e) as)) = r * ce_gpu_count e \<and>
       (0 < r \<longrightarrow> ce_min_vram_gb_per_gpu e \<le> vram) \<and>
       (targets \<noteq> [] \<longrightarrow> r \<le> max (target_of targets (ce_model_id e)) (of_bool (ce_model_id e \<in> set pinned))) \<and>
       (0 < n \<and> ce_min_vram_gb_per_gpu e \<le> vram \<and> ce_gpu_count e \<le> n - k \<longrightarrow>
          targets \<noteq> [] \<and> target_of targets (ce_model_id e) \<le> r))"
  by (rule catalog_packing_sound_aux [OF assms])

definition demo_catalog :: "catalog_entry list" where
  "demo_catalog =
     [\<lparr>ce_model_id = ''large'', ce_min_vram_gb_per_gpu = 80, ce_gpu_count = 2\<rparr>,
      \<lparr>ce_model_id = ''small'', ce_min_vram_gb_per_gpu = 16, ce_gpu_count = 1\<rparr>]"

lemma demo_catalog_ok:
  "distinct_keys ce_model_id demo_catalog" "\<And>e. e \<in> set demo_catalog \<Longrightarrow> 1 \<le> ce_gpu_count e"
  by (auto simp: demo_catalog_def)

theorem catalog_packing_sound_witness:
  "\<exists>as k. assign_catalog_models 3 24 demo_catalog [(''small'', 2)] [''small''] = Some as \<and>
     mset (concat (map snd as)) = mset [0..k - 1] \<and> assigned_to ''large'' as = [] \<and>
     length (assigned_to ''small'' as) \<le> 2"
proof -
  obtain as k where as: "assign_catalog_models 3 24 demo_catalog [(''small'', 2)] [''small''] = Some as"
    "mset (concat (map snd as)) = mset [0..k - 1]"
    and entry: "\<And>e. e \<in> set demo_catalog \<Longrightarrow> \<exists>r \<ge> 0. int (length (assigned_to (ce_model_id e) as)) = r * ce_gpu_count e \<and>
       (0 < r \<longrightarrow> ce_min_vram_gb_per_gpu e \<le> 24) \<and>
       r \<le> max (target_of [(''small'', 2)] (ce_model_id e)) (of_bool (ce_model_id e \<in> {''small''}))"
    using catalog_packing_sound [OF demo_catalog_ok, of "[''small'']" 3 24 "[(''small'', 2)]"] by fastforce
  obtain r where "0 \<le> r" "int (length (assigned_to ''large'' as)) = r * 2" "0 < r \<longrightarrow> (80 :: int) \<le> 24"
    using entry [of "\<lparr>ce_model_id = ''large'', ce_min_vram_gb_per_gpu = 80, ce_gpu_count = 2\<rparr>"]
    by (auto simp: demo_catalog_def)
  then have "assigned_to ''large'' as = []" by (cases "r = 0") auto
  moreover have "length (assigned_to ''small'' as) \<le> 2"
    using entry [of "\<lparr>ce_model_id = ''small'', ce_min_vram_gb_per_gpu = 16, ce_gpu_count = 1\<rparr>"]
    by (auto simp: demo_catalog_def target_of_def)
  ultimately show ?thesis using as by blast
qed

section \<open>What rebalancing keeps\<close>

lemma flux_target_bounds:
  assumes "0 \<le> fx_inference_demand_score s" and "0 \<le> fx_rental_demand_score s"
  shows "ft_inference_floor (flux_target a b s) \<le> ft_inference (flux_target a b s)"
    and "ft_rental_floor (flux_target a b s) \<le> ft_rental (flux_target a b s)"
proof -
  let ?d = "fx_inference_demand_score s" and ?e = "fx_rental_demand_score s"
  have "0 \<le> \<lfloor>of_int p * (?d / (?d + ?e))\<rfloor> \<and> \<lfloor>of_int p * (?d / (?d + ?e))\<rfloor> \<le> p" if "0 \<le> p" "0 < ?d + ?e" for p :: int
  proof -
    have share: "0 \<le> ?d / (?d + ?e)" "?d / (?d + ?e) \<le> 1" using assms that by (simp_all add: divide_le_eq_1)
    have p: "(0 :: rat) \<le> of_int p" using that(1) by simp
    have "of_int p * (?d / (?d + ?e)) \<le> of_int p" by (rule mult_left_le [OF share(2) p])
    moreover have "0 \<le> of_int p * (?d / (?d + ?e))" by (rule mult_nonneg_nonneg [OF p share(1)])
    ultimately show ?thesis by (simp add: floor_le_iff le_floor_iff)
  qed
  then show "ft_inference_floor (flux_target a b s) \<le> ft_inference (flux_target a b s)"
    and "ft_rental_floor (flux_target a b s) \<le> ft_rental (flux_target a b s)"
    by (auto simp: flux_target_def Let_def)
qed

lemma move_events_counts:
  "length (filter (\<lambda>e. fe_to e = mode) (map (backfill as) (move_events s now mode' demand locked k))) =
     (if mode = mode' then nat k else 0)"
  "\<forall>e \<in> set (map (backfill as) (move_events s now mode' demand locked k)). fe_from e = Idle"
proof -
  have "fe_to (backfill as e) = fe_to e" "fe_from (backfill as e) = fe_from e" for e
    by (simp_all add: backfill_def split: option.split)
  then show "length (filter (\<lambda>e. fe_to e = mode) (map (backfill as) (move_events s now mode' demand locked k))) =
     (if mode = mode' then nat k else 0)"
    "\<forall>e \<in> set (map (backfill as) (move_events s now mode' demand locked k)). fe_from e = Idle"
    by (simp_all add: move_events_def filter_map comp_def)
qed

text \<open>
  (C31) Rebalancing keeps the counts of a machine: when its inference, rental and idle counts are not
  negative and add up to its total, and the catalog and the demands are well formed, the call returns;
  the inference and the rental count can only grow, each by the number of moves logged towards it, all of
  them logged as out of idle; the three counts still add up; a count stays below its floor only when
  nothing idle is left; and models are placed on the first \<open>fx_inference_gpus\<close> indices, no index twice.
  The statement is about counts and about the placement of models: the GPU indices written into the
  move events are not covered, and two events of one call can name the same index
  (\<open>rebalance_event_indices_collide\<close> below).
\<close>

theorem rebalance_moves_only_idle:
  assumes "0 \<le> fx_inference_gpus s" and "0 \<le> fx_rental_gpus s" and "0 \<le> fx_idle_gpus s" and "0 < fx_total_gpus s"
    and "fx_inference_gpus s + fx_rental_gpus s + fx_idle_gpus s = fx_total_gpus s"
    and "0 \<le> fx_inference_demand_score s" and "0 \<le> fx_rental_demand_score s"
    and "distinct_keys ce_model_id catalog" and "\<And>e. e \<in> set catalog \<Longrightarrow> 1 \<le> ce_gpu_count e" and "distinct pinned"
  shows "\<exists>s' evs. rebalance a b now catalog vram targets pinned s = Some (s', evs) \<and>
    fx_inference_gpus s' = fx_inference_gpus s + int (length (filter (\<lambda>e. fe_to e = Inference) evs)) \<and>
    fx_rental_gpus s' = fx_rental_gpus s + int (length (filter (\<lambda>e. fe_to e = Rental) evs)) \<and>
    (\<forall>e \<in> set evs. fe_from e = Idle) \<and> 0 \<le> fx_idle_gpus s' \<and>
    fx_inference_gpus s' + fx_rental_gpus s' + fx_idle_gpus s' = fx_total_gpus s' \<and> fx_total_gpus s' = fx_total_gpus s \<and>
    (fx_idle_gpus s' = 0 \<or> (of_int (fx_total_gpus s) * a \<le> of_int (fx_inference_gpus s') \<and>
                            of_int (fx_total_gpus s) * b \<le> of_int (fx_rental_gpus s'))) \<and>
    mset (concat (map snd (fx_inference_assignments s'))) \<subseteq># mset [0..fx_inference_gpus s' - 1]"
proof -
  define t where "t = flux_target a b s"
  define p where "p = min (max 0 (ft_inference t - fx_inference_gpus s)) (fx_idle_gpus s)"
  define q where "q = min (max 0 (ft_rental t - fx_rental_gpus s)) (fx_idle_gpus s - p)"
  have locked: "min (fx_inference_gpus s) (fx_total_gpus s) = fx_inference_gpus s"
    "min (fx_rental_gpus s) (fx_total_gpus s) = fx_rental_gpus s" using assms(1-5) by simp_all
  have pq: "0 \<le> p" "0 \<le> q" "p + q \<le> fx_idle_gpus s" using assms(3) by (auto simp: p_def q_def)
  have floors: "of_int (fx_total_gpus s) * a \<le> of_int (ft_inference t)" "of_int (fx_total_gpus s) * b \<le> of_int (ft_rental t)"
  proof -
    have "\<lceil>of_int (fx_total_gpus s) * a\<rceil> \<le> ft_inference_floor t" "\<lceil>of_int (fx_total_gpus s) * b\<rceil> \<le> ft_rental_floor t"
      by (simp_all add: t_def flux_target_def Let_def)
    with flux_target_bounds [OF assms(6,7), of a b]
    have "\<lceil>of_int (fx_total_gpus s) * a\<rceil> \<le> ft_inference t" "\<lceil>of_int (fx_total_gpus s) * b\<rceil> \<le> ft_rental t"
      by (simp_all add: t_def)
    then show "of_int (fx_total_gpus s) * a \<le> of_int (ft_inference t)" "of_int (fx_total_gpus s) * b \<le> of_int (ft_rental t)"
      by (simp_all add: ceiling_le_iff)
  qed
  have met: "ft_inference t \<le> fx_inference_gpus s + p \<and> ft_rental t \<le> fx_rental_gpus s + q" if "p + q < fx_idle_gpus s"
    using that pq by (auto simp: p_def q_def min_def split: if_splits)
  obtain as where as: "(case vram of
                  Some v \<Rightarrow> if catalog \<noteq> [] \<and> fx_inference_gpus s + p > 0
                            then assign_catalog_models (fx_inference_gpus s + p) v catalog targets pinned else Some []
                | None \<Rightarrow> Some []) = Some as"
    and sub: "mset (concat (map snd as)) \<subseteq># mset [0..fx_inference_gpus s + p - 1]"
  proof (cases "\<exists>v. vram = Some v \<and> catalog \<noteq> [] \<and> fx_inference_gpus s + p > 0")
    case True
    then obtain v where v: "vram = Some v" "catalog \<noteq> []" "fx_inference_gpus s + p > 0" by blast
    obtain as k where "assign_catalog_models (fx_inference_gpus s + p) v catalog targets pinned = Some as"
      "0 \<le> k" "k \<le> fx_inference_gpus s + p" "mset (concat (map snd as)) = mset [0..k - 1]"
      using catalog_packing_sound_aux [OF assms(8-10), of "fx_inference_gpus s + p" v targets] v(3) by auto
    moreover have "mset [0..k - 1] \<subseteq># mset [0..fx_inference_gpus s + p - 1]"
      using upto_split1 [of 0 k "fx_inference_gpus s + p - 1"] \<open>0 \<le> k\<close> \<open>k \<le> fx_inference_gpus s + p\<close>
      by (cases "k = fx_inference_gpus s + p") simp_all
    ultimately show thesis using v that by simp
  next
    case False
    then show thesis by (intro that [of "[]"]) (auto split: option.split)
  qed
  define evs where "evs = map (backfill as) (move_events s now Inference (fx_inference_demand_score s) (fx_inference_gpus s) p) @
      map (backfill as) (move_events s now Rental (fx_rental_demand_score s) (fx_rental_gpus s) q)"
  define s' where "s' = s\<lparr>fx_inference_gpus := fx_inference_gpus s + p, fx_rental_gpus := fx_rental_gpus s + q,
                   fx_idle_gpus := fx_idle_gpus s - p - q, fx_inference_assignments := as, fx_last_rebalanced_at := Some now\<rparr>"
  have run: "rebalance a b now catalog vram targets pinned s = Some (s', evs)"
    unfolding rebalance_def Let_def t_def [symmetric] locked p_def [symmetric] q_def [symmetric] as
    using assms(4) by (simp add: s'_def evs_def)
  have counts: "int (length (filter (\<lambda>e. fe_to e = Inference) evs)) = p" "int (length (filter (\<lambda>e. fe_to e = Rental) evs)) = q"
    unfolding evs_def filter_append length_append move_events_counts(1) using pq by simp_all
  have idle: "\<forall>e \<in> set evs. fe_from e = Idle"
    unfolding evs_def using move_events_counts(2) by (metis Un_iff set_append)
  have "fx_idle_gpus s - p - q = 0 \<or> (of_int (fx_total_gpus s) * a \<le> of_int (fx_inference_gpus s + p) \<and>
      of_int (fx_total_gpus s) * b \<le> of_int (fx_rental_gpus s + q))"
  proof (cases "p + q < fx_idle_gpus s")
    case True
    with met floors show ?thesis by (meson of_int_le_iff order_trans)
  next
    case False
    with pq show ?thesis by simp
  qed
  then show ?thesis
    using run counts idle assms(5) pq sub by (intro exI [of _ s'] exI [of _ evs]) (simp add: s'_def)
qed

definition demo_machine :: flux_state where
  "demo_machine = \<lparr>fx_hotkey = ''hk'', fx_node_id = ''n1'', fx_total_gpus = 8, fx_inference_gpus = 1, fx_rental_gpus = 1,
     fx_idle_gpus = 6, fx_inference_demand_score = 3, fx_rental_demand_score = 1, fx_inference_assignments = [],
     fx_last_rebalanced_at = None\<rparr>"

theorem rebalance_moves_only_idle_witness:
  "\<exists>s' evs. rebalance (1/5) (1/10) 7 demo_catalog (Some 80) [] [] demo_machine = Some (s', evs) \<and>
     fx_inference_gpus s' = 1 + int (length (filter (\<lambda>e. fe_to e = Inference) evs)) \<and>
     fx_rental_gpus s' = 1 + int (length (filter (\<lambda>e. fe_to e = Rental) evs)) \<and>
     fx_inference_gpus s' + fx_rental_gpus s' + fx_idle_gpus s' = 8"
proof -
  have "0 \<le> fx_inference_gpus demo_machine" "0 \<le> fx_rental_gpus demo_machine" "0 \<le> fx_idle_gpus demo_machine"
    "0 < fx_total_gpus demo_machine"
    "fx_inference_gpus demo_machine + fx_rental_gpus demo_machine + fx_idle_gpus demo_machine = fx_total_gpus demo_machine"
    "0 \<le> fx_inference_demand_score demo_machine" "0 \<le> fx_rental_demand_score demo_machine" "distinct ([] :: ident list)"
    by (simp_all add: demo_machine_def)
  from rebalance_moves_only_idle [OF this(1-7) demo_catalog_ok this(8), of "1/5" "1/10" 7 "Some 80" "[]"]
  show ?thesis by (auto simp: demo_machine_def)
qed

text \<open>The events of one call can name one GPU twice: rental moves are numbered from the rental count, not
  from the end of the inference block that the layout puts before it.\<close>

theorem rebalance_event_indices_collide:
  "\<exists>s' evs e f. rebalance (1/5) (1/10) 7 [] None [] [] demo_machine = Some (s', evs) \<and> e \<in> set evs \<and> f \<in> set evs \<and>
     fe_to e = Inference \<and> fe_to f = Rental \<and> fe_gpu_index e = fe_gpu_index f"
proof -
  have "\<lceil>(8 / 5 :: rat)\<rceil> = 2" "\<lceil>(4 / 5 :: rat)\<rceil> = 1" "\<lfloor>(15 / 4 :: rat)\<rfloor> = 3" by (simp_all add: ceiling_eq_iff floor_eq_iff)
  then have t: "ft_inference (flux_target (1/5) (1/10) demo_machine) = 5" "ft_rental (flux_target (1/5) (1/10) demo_machine) = 3"
    by (simp_all add: flux_target_def demo_machine_def Let_def)
  define evs where "evs = move_events demo_machine 7 Inference 3 1 4 @ move_events demo_machine 7 Rental 1 1 2"
  have "backfill [] e = e" for e by (simp add: backfill_def index_to_model_def)
  then have blank: "map (backfill []) es = es" for es by (simp add: map_idI)
  have "map_option snd (rebalance (1/5) (1/10) 7 [] None [] [] demo_machine) = Some evs"
    unfolding rebalance_def Let_def t by (simp add: demo_machine_def evs_def blank)
  then obtain s' where run: "rebalance (1/5) (1/10) 7 [] None [] [] demo_machine = Some (s', evs)" by auto
  have "\<exists>e \<in> set evs. fe_to e = m \<and> fe_gpu_index e = 1" if "m \<in> {Inference, Rental}" for m
    using that by (auto simp: evs_def move_events_def upto_rec1)
  from this [of Inference] this [of Rental] obtain e f where "e \<in> set evs" "f \<in> set evs" "fe_to e = Inference"
    "fe_to f = Rental" "fe_gpu_index e = 1" "fe_gpu_index f = 1" by auto
  with run show ?thesis by (intro exI [of _ s'] exI [of _ evs] exI [of _ e] exI [of _ f]) simp
qed

text \<open>A position in the waiting queue is a ticket number: it is not lowered when those ahead leave, so the
  only request waiting can be shown, and be estimated for, any position.\<close>

theorem wait_position_is_ticket:
  "let w = dequeue ''a'' (snd (enqueue ''b'' (snd (enqueue ''a'' new_estimator))))
   in we_queue w = [(''b'', 2)] \<and>
      wq_estimated_wait_seconds (estimate 0 ''b'' (demo_machine\<lparr>fx_idle_gpus := 0\<rparr>) w) = 240"
proof -
  have "round_to 1 (240 :: rat) = 240" by (rule round_to_exact [of _ _ 2400]) simp
  then show ?thesis
    by (simp add: Let_def enqueue_def dequeue_def delete_row_def new_estimator_def estimate_def demo_machine_def
        median_of_def DEFAULT_INFERENCE_DURATION_SECONDS_def)
qed

section \<open>The waiting queue\<close>

text \<open>Tickets are handed out in order: all in the queue are distinct, later ones higher, and below the
  next one; asking again returns the ticket held.\<close>

definition queue_ok :: "wait_estimator \<Rightarrow> bool" where
  "queue_ok w \<longleftrightarrow> distinct_keys fst (we_queue w) \<and> sorted_wrt (<) (map snd (we_queue w)) \<and>
     (\<forall>p \<in> snd ` set (we_queue w). 0 < p \<and> p < we_next_position w) \<and> 0 < we_next_position w"

inductive wait_step :: "wait_estimator \<Rightarrow> wait_estimator \<Rightarrow> bool" where
  "wait_step w (snd (enqueue did w))"
| "wait_step w (dequeue did w)"
| "wait_step w (record_completion hk dur w)"

interpretation waiting: invariant_system wait_step queue_ok new_estimator
proof unfold_locales
  fix s t
  assume "wait_step s t" and ok: "queue_ok s"
  then show "queue_ok t"
  proof (cases rule: wait_step.cases)
    case (1 did)
    with ok show ?thesis
      by (auto simp: queue_ok_def enqueue_def sorted_wrt_append get_row_None_iff split: option.split)
  next
    case (2 did)
    have "sorted_wrt (<) (map snd (filter P xs))" if "sorted_wrt (<) (map snd xs)" for P and xs :: "(ident \<times> int) list"
      using that by (induction xs) auto
    with ok 2 show ?thesis
      by (auto simp: queue_ok_def dequeue_def delete_row_def distinct_map_filter)
  qed (simp add: queue_ok_def record_completion_def)
qed (simp add: queue_ok_def new_estimator_def)

lemma enqueue_again: "enqueue did (snd (enqueue did w)) = enqueue did w" if "get_row fst did (we_queue w) \<noteq> None"
  using that by (auto simp: enqueue_def split: option.splits)

lemma enqueue_after_all:
  "queue_ok w \<Longrightarrow> get_row fst did (we_queue w) = None \<Longrightarrow> (e, p) \<in> set (we_queue w) \<Longrightarrow> p < fst (enqueue did w)"
  by (auto simp: queue_ok_def enqueue_def)

end
