(* ===== verification/Base58.thy ===== *)
theory Base58
  imports Numbers_Text
begin

text \<open>
  Address validation of \<^verbatim>\<open>validator/domain/managed_wallet.py\<close>: \<^verbatim>\<open>_b58_decode\<close> and \<^verbatim>\<open>is_valid_ss58\<close>.
  A byte is a \<^typ>\<open>nat\<close> below 256.  \<^verbatim>\<open>hashlib.blake2b(data, digest_size=64).digest()\<close> is the argument
  \<open>blake2b\<close>.  The lemmas relate digit sequences in any base to the numbers they denote; the
  reference \<open>b58_encode\<close> is the usual base-58 encoding, against which decoding is proved exact.
\<close>

section \<open>Digits in a base\<close>

fun digits :: "nat \<Rightarrow> nat \<Rightarrow> nat list" where
  "digits b n = (if n = 0 \<or> b < 2 then [] else digits b (n div b) @ [n mod b])"

declare digits.simps [simp del]

definition of_digits :: "nat \<Rightarrow> nat list \<Rightarrow> nat" where
  "of_digits b ds = foldl (\<lambda>num d. num * b + d) 0 ds"

lemma of_digits_snoc [simp]: "of_digits b (ds @ [d]) = of_digits b ds * b + d"
  by (simp add: of_digits_def)

lemma of_digits_Nil [simp]: "of_digits b [] = 0"
  by (simp add: of_digits_def)

lemma of_digits_zeros [simp]: "of_digits b (replicate k 0 @ ds) = of_digits b ds"
  by (induction ds rule: rev_induct) (induction k, simp_all add: of_digits_def)

lemma of_digits_digits [simp]: "2 \<le> b \<Longrightarrow> of_digits b (digits b n) = n"
  by (induction b n rule: digits.induct) (subst digits.simps, simp)

lemma digits_bound: "d \<in> set (digits b n) \<Longrightarrow> d < b"
proof (induction b n rule: digits.induct)
  case (1 b n)
  show ?case
  proof (cases "n = 0 \<or> b < 2")
    case False
    with 1 show ?thesis by (subst (asm) (2) digits.simps) auto
  qed (use 1 in \<open>simp add: digits.simps [of b n]\<close>)
qed

lemma digits_step: "2 \<le> b \<Longrightarrow> d < b \<Longrightarrow> 0 < n * b + d \<Longrightarrow> digits b (n * b + d) = digits b n @ [d]"
  by (subst digits.simps) simp

text \<open>Reading the digits of a number written with leading zeros gives the digits without them.\<close>

lemma digits_of_digits:
  "2 \<le> b \<Longrightarrow> (\<And>d. d \<in> set ds \<Longrightarrow> d < b) \<Longrightarrow> digits b (of_digits b ds) = dropWhile (\<lambda>d. d = 0) ds"
proof (induction ds rule: rev_induct)
  case (snoc d ds)
  then have IH: "digits b (of_digits b ds) = dropWhile (\<lambda>d. d = 0) ds" by simp
  show ?case
  proof (cases "of_digits b ds * b + d = 0")
    case True
    then have "of_digits b ds = 0" "d = 0" using snoc.prems(1) by auto
    with IH have "dropWhile (\<lambda>d. d = 0) ds = []" by (simp add: digits.simps)
    with \<open>d = 0\<close> True show ?thesis by (simp add: digits.simps dropWhile_append)
  next
    case False
    then have eq: "digits b (of_digits b (ds @ [d])) = digits b (of_digits b ds) @ [d]"
      using snoc.prems by (simp add: digits_step)
    show ?thesis
    proof (cases "dropWhile (\<lambda>d. d = 0) ds = []")
      case True
      then have "of_digits b ds = 0"
        using IH snoc.prems(1) by (metis of_digits_digits of_digits_Nil)
      with False True IH eq show ?thesis by (simp add: dropWhile_append)
    next
      case nonzero: False
      with IH eq show ?thesis by (simp add: dropWhile_append)
    qed
  qed
qed (simp add: digits.simps)

lemma digits_no_leading_zero: "2 \<le> b \<Longrightarrow> dropWhile (\<lambda>d. d = 0) (digits b n) = digits b n"
  using digits_of_digits [of b "digits b n"] digits_bound [of _ b n] by simp

lemma takeWhile_zeros: "takeWhile (\<lambda>d. d = (0 :: nat)) ds = replicate (length (takeWhile (\<lambda>d. d = 0) ds)) 0"
  by (induction ds) auto

lemma zeros_split: "replicate (length (takeWhile (\<lambda>d. d = 0) ds)) (0 :: nat) @ dropWhile (\<lambda>d. d = 0) ds = ds"
  using takeWhile_dropWhile_id [of "\<lambda>d. d = 0" ds] by (simp flip: takeWhile_zeros)

lemma leading_zeros_digits: "2 \<le> b \<Longrightarrow> length (takeWhile (\<lambda>d. d = 0) (replicate k 0 @ digits b n)) = k"
proof (induction k)
  case 0
  have "takeWhile (\<lambda>d. d = 0) (digits b n) @ digits b n = digits b n"
    using takeWhile_dropWhile_id [of "\<lambda>d. d = 0" "digits b n"] digits_no_leading_zero [OF 0, of n] by simp
  then show ?case by simp
qed simp

section \<open>Decoding\<close>

definition B58_ALPHABET :: string where
  "B58_ALPHABET = ''123456789ABCDEFGHJKLMNPQRSTUVWXYZabcdefghijkmnopqrstuvwxyz''"

fun index_of :: "'a \<Rightarrow> 'a list \<Rightarrow> nat option" where
  "index_of x [] = None"
| "index_of x (y # ys) = (if x = y then Some 0 else map_option Suc (index_of x ys))"

definition B58_INDEX :: "char \<Rightarrow> nat option" where
  "B58_INDEX c = index_of c B58_ALPHABET"

fun b58_number :: "nat \<Rightarrow> string \<Rightarrow> nat option" where
  "b58_number num [] = Some num"
| "b58_number num (c # cs) =
     (case B58_INDEX c of None \<Rightarrow> None | Some digit \<Rightarrow> b58_number (num * 58 + digit) cs)"

text \<open>\<^verbatim>\<open>num.to_bytes((num.bit_length() + 7) // 8, "big")\<close> is the shortest big-endian form.\<close>

definition b58_decode :: "string \<Rightarrow> nat list option" where
  "b58_decode value =
     (case b58_number 0 value of
        None \<Rightarrow> None
      | Some num \<Rightarrow>
          Some (replicate (length value - length (dropWhile (\<lambda>c. c = CHR ''1'') value)) 0 @ digits 256 num))"

definition SS58_PREFIX_SALT :: "nat list" where
  "SS58_PREFIX_SALT = map of_char ''SS58PRE''"

definition BITTENSOR_SS58_PREFIX :: nat where
  "BITTENSOR_SS58_PREFIX = 42"

definition is_valid_ss58 :: "(nat list \<Rightarrow> nat list) \<Rightarrow> string \<Rightarrow> bool" where
  "is_valid_ss58 blake2b address =
     (if address = [] \<or> \<not> (46 \<le> length address \<and> length address \<le> 48) then False
      else case b58_decode address of
             None \<Rightarrow> False
           | Some raw \<Rightarrow>
               if length raw \<noteq> 35 \<or> raw ! 0 \<noteq> BITTENSOR_SS58_PREFIX then False
               else take 2 (blake2b (SS58_PREFIX_SALT @ take 33 raw)) = drop 33 raw)"

section \<open>Decoding is exact\<close>

definition b58_char :: "nat \<Rightarrow> char" where
  "b58_char d = B58_ALPHABET ! d"

definition b58_encode :: "nat list \<Rightarrow> string" where
  "b58_encode bs =
     map b58_char (replicate (length (takeWhile (\<lambda>d. d = 0) bs)) 0 @ digits 58 (of_digits 256 bs))"

lemma index_of_Some: "index_of x xs = Some i \<Longrightarrow> i < length xs \<and> xs ! i = x"
  by (induction xs arbitrary: i) (auto split: if_splits)

lemma index_of_nth: "distinct xs \<Longrightarrow> i < length xs \<Longrightarrow> index_of (xs ! i) xs = Some i"
  by (induction xs arbitrary: i) (auto simp: nth_Cons split: nat.split)

lemma B58_ALPHABET_facts: "length B58_ALPHABET = 58" "distinct B58_ALPHABET"
  by (simp_all add: B58_ALPHABET_def)

lemma B58_INDEX_iff: "B58_INDEX c = Some d \<longleftrightarrow> d < 58 \<and> c = b58_char d"
  unfolding B58_INDEX_def b58_char_def
  using index_of_Some [of c B58_ALPHABET d] index_of_nth [OF B58_ALPHABET_facts(2), of d] B58_ALPHABET_facts(1) by auto

lemma b58_char_0: "b58_char 0 = CHR ''1''"
  by (simp add: b58_char_def B58_ALPHABET_def)

lemma b58_char_eq_1: "d < 58 \<Longrightarrow> b58_char d = CHR ''1'' \<longleftrightarrow> d = 0"
proof -
  assume d: "d < 58"
  have "B58_INDEX (CHR ''1'') = Some 0" by (simp add: B58_INDEX_iff b58_char_0)
  with d show ?thesis using B58_INDEX_iff [of "CHR ''1''" d] by auto
qed

lemma b58_number_digits:
  "b58_number num s = Some n \<longleftrightarrow> (\<exists>ds. s = map b58_char ds \<and> (\<forall>d \<in> set ds. d < 58) \<and> n = foldl (\<lambda>a d. a * 58 + d) num ds)"
proof (induction num s rule: b58_number.induct)
  case (2 num c cs)
  show ?case
  proof (cases "B58_INDEX c")
    case None
    then have "\<not> (\<exists>d < 58. c = b58_char d)" using B58_INDEX_iff [of c] by auto
    with None show ?thesis by (auto simp: Cons_eq_map_conv)
  next
    case (Some e)
    then have e: "e < 58" "c = b58_char e" by (simp_all add: B58_INDEX_iff)
    have uniq: "d = e" if "d < 58" "c = b58_char d" for d using that Some B58_INDEX_iff [of c d] by simp
    have "b58_number num (c # cs) = Some n \<longleftrightarrow>
        (\<exists>ds. cs = map b58_char ds \<and> (\<forall>d \<in> set ds. d < 58) \<and> n = foldl (\<lambda>a d. a * 58 + d) (num * 58 + e) ds)"
      using 2 [OF Some] Some by simp
    also have "\<dots> \<longleftrightarrow> (\<exists>ds. c # cs = map b58_char ds \<and> (\<forall>d \<in> set ds. d < 58) \<and> n = foldl (\<lambda>a d. a * 58 + d) num ds)"
    proof
      assume "\<exists>ds. cs = map b58_char ds \<and> (\<forall>d \<in> set ds. d < 58) \<and> n = foldl (\<lambda>a d. a * 58 + d) (num * 58 + e) ds"
      then obtain ds where "cs = map b58_char ds" "\<forall>d \<in> set ds. d < 58" "n = foldl (\<lambda>a d. a * 58 + d) (num * 58 + e) ds" by blast
      with e show "\<exists>ds. c # cs = map b58_char ds \<and> (\<forall>d \<in> set ds. d < 58) \<and> n = foldl (\<lambda>a d. a * 58 + d) num ds"
        by (intro exI [of _ "e # ds"]) simp
    qed (auto simp: Cons_eq_map_conv dest!: uniq)
    finally show ?thesis .
  qed
qed auto

lemma leading_ones: "(\<And>d. d \<in> set ds \<Longrightarrow> d < 58) \<Longrightarrow>
   length (map b58_char ds) - length (dropWhile (\<lambda>c. c = CHR ''1'') (map b58_char ds)) = length (takeWhile (\<lambda>d. d = 0) ds)"
proof (induction ds)
  case (Cons d ds)
  have "length (dropWhile (\<lambda>c. c = CHR ''1'') (map b58_char ds)) \<le> length ds"
    using length_dropWhile_le [of "\<lambda>c. c = CHR ''1''" "map b58_char ds"] by simp
  with Cons show ?case by (auto simp: b58_char_eq_1 Suc_diff_le)
qed simp

lemma b58_decode_iff:
  "b58_decode s = Some bs \<longleftrightarrow>
   (\<exists>ds. s = map b58_char ds \<and> (\<forall>d \<in> set ds. d < 58) \<and>
      bs = replicate (length (takeWhile (\<lambda>d. d = 0) ds)) 0 @ digits 256 (of_digits 58 ds))"
proof -
  have "b58_decode s = Some bs \<longleftrightarrow> (\<exists>num. b58_number 0 s = Some num \<and>
      bs = replicate (length s - length (dropWhile (\<lambda>c. c = CHR ''1'') s)) 0 @ digits 256 num)"
    by (auto simp: b58_decode_def split: option.split)
  also have "\<dots> \<longleftrightarrow> (\<exists>ds. s = map b58_char ds \<and> (\<forall>d \<in> set ds. d < 58) \<and>
      bs = replicate (length (takeWhile (\<lambda>d. d = 0) ds)) 0 @ digits 256 (of_digits 58 ds))"
    unfolding b58_number_digits of_digits_def [symmetric] using leading_ones by auto
  finally show ?thesis .
qed

text \<open>
  (C33) Decoding an address is exact: a text decodes to a byte string precisely when it is the base-58
  encoding of it, leading zero bytes included.  So an address denotes one account, an account has
  one address, and a text with a character outside the alphabet denotes none.
\<close>

theorem b58_decode_exact:
  assumes "\<forall>b \<in> set bs. b < 256"
  shows "b58_decode s = Some bs \<longleftrightarrow> s = b58_encode bs"
proof
  assume "b58_decode s = Some bs"
  then obtain ds where ds: "s = map b58_char ds" "\<forall>d \<in> set ds. d < 58"
    and bs: "bs = replicate (length (takeWhile (\<lambda>d. d = 0) ds)) 0 @ digits 256 (of_digits 58 ds)"
    by (auto simp: b58_decode_iff)
  have "replicate (length (takeWhile (\<lambda>d. d = 0) bs)) 0 @ digits 58 (of_digits 256 bs) = ds"
    unfolding bs using ds(2) by (simp add: leading_zeros_digits digits_of_digits zeros_split)
  with ds(1) show "s = b58_encode bs" by (simp add: b58_encode_def)
next
  let ?ds = "replicate (length (takeWhile (\<lambda>d. d = 0) bs)) 0 @ digits 58 (of_digits 256 bs)"
  assume "s = b58_encode bs"
  then have "s = map b58_char ?ds" "\<forall>d \<in> set ?ds. d < 58" by (auto simp: b58_encode_def dest: digits_bound)
  moreover have "replicate (length (takeWhile (\<lambda>d. d = 0) ?ds)) 0 @ digits 256 (of_digits 58 ?ds) = bs"
    using assms by (simp add: leading_zeros_digits digits_of_digits zeros_split)
  ultimately show "b58_decode s = Some bs" unfolding b58_decode_iff by (intro exI [of _ ?ds]) simp
qed

theorem b58_decode_exact_witness: "b58_decode (b58_encode [0, 255, 7]) = Some [0, 255, 7] \<and> b58_decode ''10'' \<noteq> Some [0, 0]"
proof
  show "b58_decode (b58_encode [0, 255, 7]) = Some [0, 255, 7]" by (rule b58_decode_exact [THEN iffD2]) simp_all
  have "b58_encode [0, 0] = ''11''" by (simp add: b58_encode_def b58_char_0 digits.simps of_digits_def)
  then show "b58_decode ''10'' \<noteq> Some [0, 0]" using b58_decode_exact [of "[0, 0]" "''10''"] by simp
qed

end
