(* ===== verification/Managed_Wallet.thy ===== *)
theory Managed_Wallet
  imports Base58 "HOL-Library.Char_ord" "HOL-Library.List_Lexorder"
begin

text \<open>
  Custody of providers' wallets: the planners of \<^verbatim>\<open>validator/domain/managed_wallet.py\<close>, the wallet, payout
  and whitelist tables of \<^verbatim>\<open>validator/infrastructure/repository.py\<close>, and the ticks of
  \<^verbatim>\<open>validator/application/managed_wallets.py\<close> that execute the plans.

  The chain, the key factory and the secret box are behind protocols in the code and are
  arguments here, gathered in the record \<open>custody_env\<close>.  The chain is a state of arbitrary type
  with read operations that may raise and two write operations that return an outcome, or
  raise, and a new chain state.  An exception is an error value; state written before it stays.
  A \<^verbatim>\<open>float\<close> balance is a rational or one of the non-finite values.
\<close>

section \<open>States of a wallet\<close>

datatype wallet_state = AWAITING_FUNDING | FUNDED | REGISTERING | REGISTERED | ACTIVE | SUSPENDED_WALLET
  | FUNDING_EXPIRED | REGISTRATION_FAILED

fun wallet_state_value :: "wallet_state \<Rightarrow> string" where
  "wallet_state_value AWAITING_FUNDING = ''awaiting_funding''"
| "wallet_state_value FUNDED = ''funded''"
| "wallet_state_value REGISTERING = ''registering''"
| "wallet_state_value REGISTERED = ''registered''"
| "wallet_state_value ACTIVE = ''active''"
| "wallet_state_value SUSPENDED_WALLET = ''suspended''"
| "wallet_state_value FUNDING_EXPIRED = ''funding_expired''"
| "wallet_state_value REGISTRATION_FAILED = ''registration_failed''"

fun VALID_TRANSITIONS :: "wallet_state \<Rightarrow> wallet_state list" where
  "VALID_TRANSITIONS AWAITING_FUNDING = [FUNDED, FUNDING_EXPIRED]"
| "VALID_TRANSITIONS FUNDED = [REGISTERING, AWAITING_FUNDING, REGISTRATION_FAILED]"
| "VALID_TRANSITIONS REGISTERING = [REGISTERED, REGISTRATION_FAILED]"
| "VALID_TRANSITIONS REGISTERED = [ACTIVE, SUSPENDED_WALLET]"
| "VALID_TRANSITIONS ACTIVE = [SUSPENDED_WALLET]"
| "VALID_TRANSITIONS SUSPENDED_WALLET = [ACTIVE]"
| "VALID_TRANSITIONS FUNDING_EXPIRED = [AWAITING_FUNDING]"
| "VALID_TRANSITIONS REGISTRATION_FAILED = [FUNDED, SUSPENDED_WALLET]"

definition can_transition :: "wallet_state \<Rightarrow> wallet_state \<Rightarrow> bool" where
  "can_transition current target \<longleftrightarrow> current = target \<or> target \<in> set (VALID_TRANSITIONS current)"

section \<open>Policy\<close>

definition REGISTRATION_BUFFER :: rat where "REGISTRATION_BUFFER = 3 / 2"
definition PAYOUT_FEE_RESERVE_TAO :: rat where "PAYOUT_FEE_RESERVE_TAO = 1 / 20"
definition MIN_PAYOUT_ALPHA :: rat where "MIN_PAYOUT_ALPHA = 1 / 10"
definition FUNDING_WINDOW :: time where "FUNDING_WINDOW = seconds (14 * 86400)"
definition MAX_QUOTE_TAO :: rat where "MAX_QUOTE_TAO = 10"

datatype custody_error = ValueError | IntegrityError | ChainError string

record keypair =
  kp_ss58_address :: string
  kp_mnemonic :: string

record extrinsic_outcome =
  eo_success :: bool
  eo_hash :: "string option"
  eo_message :: "string option"

datatype reading = Finite rat | NotFinite

record 'c custody_env =
  create_keypair :: "nat \<Rightarrow> keypair"
  encrypt :: "string \<Rightarrow> string \<Rightarrow> string"
  decrypt :: "string \<Rightarrow> string \<Rightarrow> string + string"
  blake2b_digest :: "nat list \<Rightarrow> nat list"
  uuid_hex :: "nat \<Rightarrow> string"
  default_netuid :: int
  registration_burn_tao :: "'c \<Rightarrow> int \<Rightarrow> string + rat"
  coldkey_balance_tao :: "'c \<Rightarrow> string \<Rightarrow> string + rat"
  staked_alpha :: "'c \<Rightarrow> string \<Rightarrow> string \<Rightarrow> int \<Rightarrow> string + reading"
  chain_uid :: "'c \<Rightarrow> string \<Rightarrow> int \<Rightarrow> string + int option"
  register_extrinsic :: "'c \<Rightarrow> string \<Rightarrow> string \<Rightarrow> int \<Rightarrow> (string + extrinsic_outcome) \<times> 'c"
  transfer_alpha :: "'c \<Rightarrow> string \<Rightarrow> string \<Rightarrow> string \<Rightarrow> string \<Rightarrow> int \<Rightarrow> rat \<Rightarrow> (string + extrinsic_outcome) \<times> 'c"

record managed_wallet =
  mw_wallet_id :: ident
  mw_application_id :: ident
  mw_coldkey_ss58 :: string
  mw_hotkey_ss58 :: string
  mw_coldkey_mnemonic_enc :: string
  mw_hotkey_mnemonic_enc :: string
  mw_payout_address :: string
  mw_state :: wallet_state
  mw_netuid :: int
  mw_required_funding_tao :: rat
  mw_funded_tao :: rat
  mw_uid :: "int option"
  mw_total_paid_alpha :: rat
  mw_created_at :: time
  mw_funded_at :: "time option"
  mw_registered_at :: "time option"
  mw_last_payout_at :: "time option"
  mw_failure_reason :: "string option"

section \<open>Quote and provisioning\<close>

record funding_quote =
  fq_required_tao :: rat
  fq_burn_tao :: rat
  fq_buffer_tao :: rat
  fq_fee_reserve_tao :: rat
  fq_quoted_at :: time
  fq_expires_at :: time

definition quote_breakdown :: "funding_quote \<Rightarrow> string" where
  "quote_breakdown q = show_fixed 4 (fq_burn_tao q) @ '' registration burn + '' @ show_fixed 4 (fq_buffer_tao q)
     @ '' buffer for burn-price movement + '' @ show_fixed 4 (fq_fee_reserve_tao q) @ '' reserve for future payout fees''"

definition quote_funding :: "'c custody_env \<Rightarrow> 'c \<Rightarrow> time \<Rightarrow> custody_error + funding_quote" where
  "quote_funding env chain now =
     (case registration_burn_tao env chain (default_netuid env) of
        Inl e \<Rightarrow> Inl (ChainError e)
      | Inr burn \<Rightarrow>
          if burn \<le> 0 then Inl ValueError
          else let buffer_tao = burn * (REGISTRATION_BUFFER - 1);
                   required = burn + buffer_tao + PAYOUT_FEE_RESERVE_TAO
               in if required > MAX_QUOTE_TAO then Inl ValueError
                  else Inr \<lparr>fq_required_tao = round_to 6 required, fq_burn_tao = round_to 6 burn,
                            fq_buffer_tao = round_to 6 buffer_tao, fq_fee_reserve_tao = PAYOUT_FEE_RESERVE_TAO,
                            fq_quoted_at = now, fq_expires_at = now + FUNDING_WINDOW\<rparr>)"

definition coldkey_context :: "ident \<Rightarrow> string" where
  "coldkey_context wid = wid @ '':coldkey''"

definition hotkey_context :: "ident \<Rightarrow> string" where
  "hotkey_context wid = wid @ '':hotkey''"

definition provision_wallet ::
  "'c custody_env \<Rightarrow> time \<Rightarrow> keypair \<Rightarrow> keypair \<Rightarrow> ident \<Rightarrow> ident \<Rightarrow> string \<Rightarrow> funding_quote \<Rightarrow> custody_error + managed_wallet" where
  "provision_wallet env now coldkey hotkey wid application_id payout_address q =
     (if \<not> is_valid_ss58 (blake2b_digest env) payout_address then Inl ValueError
      else if kp_ss58_address coldkey = kp_ss58_address hotkey then Inl ValueError
      else Inr \<lparr>mw_wallet_id = wid, mw_application_id = application_id,
                mw_coldkey_ss58 = kp_ss58_address coldkey, mw_hotkey_ss58 = kp_ss58_address hotkey,
                mw_coldkey_mnemonic_enc = encrypt env (kp_mnemonic coldkey) (coldkey_context wid),
                mw_hotkey_mnemonic_enc = encrypt env (kp_mnemonic hotkey) (hotkey_context wid),
                mw_payout_address = payout_address, mw_state = AWAITING_FUNDING, mw_netuid = default_netuid env,
                mw_required_funding_tao = fq_required_tao q, mw_funded_tao = 0, mw_uid = None, mw_total_paid_alpha = 0,
                mw_created_at = now, mw_funded_at = None, mw_registered_at = None, mw_last_payout_at = None,
                mw_failure_reason = None\<rparr>)"

section \<open>Planners\<close>

record funding_check =
  fc_state :: wallet_state
  fc_balance_tao :: rat
  fc_shortfall_tao :: rat
  fc_reason :: string

definition check_funding :: "managed_wallet \<Rightarrow> rat \<Rightarrow> time \<Rightarrow> funding_check" where
  "check_funding w balance now =
     (if mw_state w \<noteq> AWAITING_FUNDING
      then \<lparr>fc_state = mw_state w, fc_balance_tao = balance, fc_shortfall_tao = 0,
            fc_reason = ''not awaiting funding (state='' @ wallet_state_value (mw_state w) @ '')''\<rparr>
      else if balance \<ge> mw_required_funding_tao w
      then \<lparr>fc_state = FUNDED, fc_balance_tao = balance, fc_shortfall_tao = 0,
            fc_reason = ''funded with '' @ show_fixed 4 balance @ '' TAO''\<rparr>
      else let shortfall = round_to 6 (mw_required_funding_tao w - balance)
           in if now - mw_created_at w > FUNDING_WINDOW
              then \<lparr>fc_state = FUNDING_EXPIRED, fc_balance_tao = balance, fc_shortfall_tao = shortfall,
                    fc_reason = ''funding window elapsed with '' @ show_fixed 4 balance @ '' of ''
                                @ show_fixed 4 (mw_required_funding_tao w) @ '' TAO received''\<rparr>
              else \<lparr>fc_state = AWAITING_FUNDING, fc_balance_tao = balance, fc_shortfall_tao = shortfall,
                    fc_reason = ''awaiting a further '' @ show_fixed 4 shortfall @ '' TAO''\<rparr>)"

record registration_plan =
  rp_should_register :: bool
  rp_burn_tao :: rat
  rp_balance_tao :: rat
  rp_reason :: string
  rp_additional_funding_tao :: rat

definition burn_rose_text :: "rat \<Rightarrow> rat \<Rightarrow> string" where
  "burn_rose_text burn spendable =
     ''registration burn rose to '' @ show_fixed 4 burn @ '' TAO, above the '' @ show_fixed 4 spendable @ '' TAO spendable balance''"

definition already_registered :: string where
  "already_registered = ''already registered''"

definition plan_registration :: "'c custody_env \<Rightarrow> 'c \<Rightarrow> managed_wallet \<Rightarrow> custody_error + registration_plan" where
  "plan_registration env chain w =
     (if mw_state w \<noteq> FUNDED
      then Inr \<lparr>rp_should_register = False, rp_burn_tao = 0, rp_balance_tao = 0,
                rp_reason = ''wallet is not funded (state='' @ wallet_state_value (mw_state w) @ '')'',
                rp_additional_funding_tao = 0\<rparr>
      else case chain_uid env chain (mw_hotkey_ss58 w) (mw_netuid w) of
             Inl e \<Rightarrow> Inl (ChainError e)
           | Inr (Some uid) \<Rightarrow>
               Inr \<lparr>rp_should_register = False, rp_burn_tao = 0, rp_balance_tao = 0,
                    rp_reason = ''hotkey '' @ already_registered @ '' with uid '' @ show_int uid, rp_additional_funding_tao = 0\<rparr>
           | Inr None \<Rightarrow>
               (case (registration_burn_tao env chain (mw_netuid w), coldkey_balance_tao env chain (mw_coldkey_ss58 w)) of
                  (Inl e, _) \<Rightarrow> Inl (ChainError e)
                | (_, Inl e) \<Rightarrow> Inl (ChainError e)
                | (Inr burn, Inr balance) \<Rightarrow>
                    let spendable = balance - PAYOUT_FEE_RESERVE_TAO
                    in if burn > spendable
                       then Inr \<lparr>rp_should_register = False, rp_burn_tao = burn, rp_balance_tao = balance,
                                 rp_reason = burn_rose_text burn spendable,
                                 rp_additional_funding_tao = round_to 6 (burn - spendable)\<rparr>
                       else Inr \<lparr>rp_should_register = True, rp_burn_tao = burn, rp_balance_tao = balance,
                                 rp_reason = ''registering at '' @ show_fixed 4 burn @ '' TAO burn'',
                                 rp_additional_funding_tao = 0\<rparr>))"

datatype payout_reason = NotEarning wallet_state | ImplausibleBalance | NegativeBalance | BelowMinimum | BadAddress | Forwarding

record payout_plan =
  pp_should_pay :: bool
  pp_alpha_amount :: rat
  pp_destination :: string
  pp_reason :: payout_reason

definition plan_payout :: "'c custody_env \<Rightarrow> managed_wallet \<Rightarrow> reading \<Rightarrow> payout_plan" where
  "plan_payout env w accrued =
     (let refuse = (\<lambda>r. \<lparr>pp_should_pay = False, pp_alpha_amount = 0, pp_destination = mw_payout_address w, pp_reason = r\<rparr>)
      in if mw_state w \<noteq> ACTIVE \<and> mw_state w \<noteq> SUSPENDED_WALLET then refuse (NotEarning (mw_state w))
         else case accrued of
                NotFinite \<Rightarrow> refuse ImplausibleBalance
              | Finite alpha \<Rightarrow>
                  if alpha < 0 then refuse NegativeBalance
                  else if alpha < MIN_PAYOUT_ALPHA then refuse BelowMinimum
                  else if \<not> is_valid_ss58 (blake2b_digest env) (mw_payout_address w) then refuse BadAddress
                  else \<lparr>pp_should_pay = True, pp_alpha_amount = alpha, pp_destination = mw_payout_address w,
                        pp_reason = Forwarding\<rparr>)"

section \<open>Tables\<close>

datatype payout_status = Submitting | Confirmed | PayoutFailed

record payout =
  po_payout_id :: ident
  po_wallet_id :: ident
  po_destination :: string
  po_alpha_amount :: rat
  po_netuid :: int
  po_extrinsic_hash :: "string option"
  po_status :: payout_status
  po_failure_reason :: "string option"
  po_created_at :: time
  po_confirmed_at :: "time option"

record whitelist_entry =
  wh_hotkey :: string
  wh_label :: string
  wh_notes :: string
  wh_approved_at :: time

record 'c custody =
  cu_wallets :: "managed_wallet list"
  cu_payouts :: "payout list"
  cu_whitelist :: "whitelist_entry list"
  cu_chain :: 'c
  cu_draws :: nat

type_synonym ('c, 'a) custody_result = "(custody_error + 'a) \<times> 'c custody"

definition create_managed_wallet :: "managed_wallet \<Rightarrow> 'c custody \<Rightarrow> ('c, managed_wallet) custody_result" where
  "create_managed_wallet w s =
     (if \<exists>r \<in> set (cu_wallets s). mw_wallet_id r = mw_wallet_id w \<or> mw_coldkey_ss58 r = mw_coldkey_ss58 w \<or>
           mw_hotkey_ss58 r = mw_hotkey_ss58 w
      then (Inl IntegrityError, s)
      else (Inr w, s\<lparr>cu_wallets := cu_wallets s @ [w]\<rparr>))"

definition get_managed_wallet :: "ident \<Rightarrow> 'c custody \<Rightarrow> managed_wallet option" where
  "get_managed_wallet wid s = get_row mw_wallet_id wid (cu_wallets s)"

definition get_managed_wallet_by_application :: "ident \<Rightarrow> 'c custody \<Rightarrow> managed_wallet option" where
  "get_managed_wallet_by_application app s =
     (case sort_key (\<lambda>w. - mw_created_at w) (filter (\<lambda>w. mw_application_id w = app) (cu_wallets s)) of
        [] \<Rightarrow> None | w # _ \<Rightarrow> Some w)"

definition list_managed_wallets_in_state :: "wallet_state \<Rightarrow> 'c custody \<Rightarrow> managed_wallet list" where
  "list_managed_wallets_in_state st s = sort_key mw_created_at (filter (\<lambda>w. mw_state w = st) (cu_wallets s))"

record wallet_change =
  wc_funded_tao :: "rat option"
  wc_uid :: "int option"
  wc_failure_reason :: "string option"
  wc_required_funding_tao :: "rat option"

definition no_change :: wallet_change where
  "no_change = \<lparr>wc_funded_tao = None, wc_uid = None, wc_failure_reason = None, wc_required_funding_tao = None\<rparr>"

definition or_keep :: "'a option \<Rightarrow> 'a \<Rightarrow> 'a" where
  "or_keep x y = (case x of None \<Rightarrow> y | Some v \<Rightarrow> v)"

definition advanced_row :: "time \<Rightarrow> wallet_state \<Rightarrow> wallet_change \<Rightarrow> managed_wallet \<Rightarrow> managed_wallet" where
  "advanced_row now target c row =
     row\<lparr>mw_state := target, mw_funded_tao := or_keep (wc_funded_tao c) (mw_funded_tao row),
         mw_required_funding_tao := or_keep (wc_required_funding_tao c) (mw_required_funding_tao row),
         mw_uid := (case wc_uid c of None \<Rightarrow> mw_uid row | Some u \<Rightarrow> Some u),
         mw_failure_reason := wc_failure_reason c,
         mw_funded_at := (if target = FUNDED \<and> mw_funded_at row = None then Some now else mw_funded_at row),
         mw_registered_at := (if target = REGISTERED \<and> mw_registered_at row = None then Some now else mw_registered_at row)\<rparr>"

definition advance_managed_wallet ::
  "time \<Rightarrow> ident \<Rightarrow> wallet_state \<Rightarrow> wallet_change \<Rightarrow> 'c custody \<Rightarrow> managed_wallet option \<times> 'c custody" where
  "advance_managed_wallet now wid target c s =
     (case get_row mw_wallet_id wid (cu_wallets s) of
        None \<Rightarrow> (None, s)
      | Some row \<Rightarrow>
          if \<not> can_transition (mw_state row) target then (None, s)
          else (Some (advanced_row now target c row),
                s\<lparr>cu_wallets := modify_row mw_wallet_id wid (advanced_row now target c) (cu_wallets s)\<rparr>))"

definition record_managed_payout ::
  "time \<Rightarrow> ident \<Rightarrow> ident \<Rightarrow> string \<Rightarrow> rat \<Rightarrow> int \<Rightarrow> payout_status \<Rightarrow> string option \<Rightarrow> string option \<Rightarrow> 'c custody
     \<Rightarrow> ('c, unit) custody_result" where
  "record_managed_payout now pid wid destination amount nid status hash reason s =
     (let old = (case get_row po_payout_id pid (cu_payouts s) of
                   Some row \<Rightarrow> row
                 | None \<Rightarrow> \<lparr>po_payout_id = pid, po_wallet_id = wid, po_destination = destination, po_alpha_amount = amount,
                            po_netuid = nid, po_extrinsic_hash = None, po_status = status, po_failure_reason = None,
                            po_created_at = now, po_confirmed_at = None\<rparr>);
          row = old\<lparr>po_status := status, po_extrinsic_hash := hash, po_failure_reason := reason,
                    po_confirmed_at := (if status = Confirmed \<and> po_confirmed_at old = None then Some now
                                        else po_confirmed_at old)\<rparr>
      in if hash \<noteq> None \<and> (\<exists>r \<in> set (cu_payouts s). po_payout_id r \<noteq> pid \<and> po_extrinsic_hash r = hash)
         then (Inl IntegrityError, s)
         else (Inr (), s\<lparr>cu_payouts := put_row po_payout_id row (cu_payouts s)\<rparr>))"

definition credit_managed_payout :: "time \<Rightarrow> ident \<Rightarrow> rat \<Rightarrow> 'c custody \<Rightarrow> 'c custody" where
  "credit_managed_payout now wid amount s =
     s\<lparr>cu_wallets := modify_row mw_wallet_id wid
         (\<lambda>w. w\<lparr>mw_total_paid_alpha := mw_total_paid_alpha w + amount, mw_last_payout_at := Some now\<rparr>) (cu_wallets s)\<rparr>"

definition has_inflight_payout :: "ident \<Rightarrow> 'c custody \<Rightarrow> bool" where
  "has_inflight_payout wid s \<longleftrightarrow> (\<exists>p \<in> set (cu_payouts s). po_wallet_id p = wid \<and> po_status p = Submitting)"

definition list_managed_payouts :: "ident \<Rightarrow> 'c custody \<Rightarrow> payout list" where
  "list_managed_payouts wid s = sort_key (\<lambda>p. - po_created_at p) (filter (\<lambda>p. po_wallet_id p = wid) (cu_payouts s))"

definition add_whitelist_entry :: "whitelist_entry \<Rightarrow> 'c custody \<Rightarrow> 'c custody" where
  "add_whitelist_entry e s = s\<lparr>cu_whitelist := put_row wh_hotkey e (cu_whitelist s)\<rparr>"

definition remove_whitelist_entry :: "string \<Rightarrow> 'c custody \<Rightarrow> bool \<times> 'c custody" where
  "remove_whitelist_entry hk s =
     (get_row wh_hotkey hk (cu_whitelist s) \<noteq> None, s\<lparr>cu_whitelist := delete_row wh_hotkey hk (cu_whitelist s)\<rparr>)"

definition is_whitelisted :: "string \<Rightarrow> 'c custody \<Rightarrow> bool" where
  "is_whitelisted hk s \<longleftrightarrow> get_row wh_hotkey hk (cu_whitelist s) \<noteq> None"

section \<open>The service\<close>

definition provision_for_application ::
  "'c custody_env \<Rightarrow> time \<Rightarrow> ident \<Rightarrow> string \<Rightarrow> 'c custody \<Rightarrow> ('c, managed_wallet) custody_result" where
  "provision_for_application env now application_id payout_address s =
     (case get_managed_wallet_by_application application_id s of
        Some existing \<Rightarrow> (Inr existing, s)
      | None \<Rightarrow>
          (case quote_funding env (cu_chain s) now of
             Inl e \<Rightarrow> (Inl e, s)
           | Inr q \<Rightarrow>
               let n = cu_draws s; s1 = s\<lparr>cu_draws := n + 3\<rparr>
               in case provision_wallet env now (create_keypair env (n + 1)) (create_keypair env (n + 2))
                         (''mw-'' @ uuid_hex env n) application_id payout_address q of
                    Inl e \<Rightarrow> (Inl e, s1)
                  | Inr w \<Rightarrow> create_managed_wallet w s1))"

definition fund_one :: "'c custody_env \<Rightarrow> time \<Rightarrow> managed_wallet \<Rightarrow> 'c custody \<Rightarrow> bool \<times> 'c custody" where
  "fund_one env now w s =
     (case coldkey_balance_tao env (cu_chain s) (mw_coldkey_ss58 w) of
        Inl _ \<Rightarrow> (False, s)
      | Inr balance \<Rightarrow>
          let result = check_funding w balance now
          in if fc_state result = AWAITING_FUNDING then (False, s)
             else (True, snd (advance_managed_wallet now (mw_wallet_id w) (fc_state result)
                     (no_change\<lparr>wc_funded_tao := Some (fc_balance_tao result),
                                wc_failure_reason := (if fc_state result = FUNDED then None else Some (fc_reason result))\<rparr>) s)))"

fun fund_all :: "'c custody_env \<Rightarrow> time \<Rightarrow> managed_wallet list \<Rightarrow> int \<Rightarrow> 'c custody \<Rightarrow> int \<times> 'c custody" where
  "fund_all env now [] advanced s = (advanced, s)"
| "fund_all env now (w # ws) advanced s =
     (let (moved, s1) = fund_one env now w s in fund_all env now ws (if moved then advanced + 1 else advanced) s1)"

definition tick_funding :: "'c custody_env \<Rightarrow> time \<Rightarrow> 'c custody \<Rightarrow> int \<times> 'c custody" where
  "tick_funding env now s = fund_all env now (list_managed_wallets_in_state AWAITING_FUNDING s) 0 s"

definition registration_failed :: "time \<Rightarrow> managed_wallet \<Rightarrow> string \<Rightarrow> 'c custody \<Rightarrow> 'c custody" where
  "registration_failed now w reason s =
     snd (advance_managed_wallet now (mw_wallet_id w) REGISTRATION_FAILED (no_change\<lparr>wc_failure_reason := Some reason\<rparr>) s)"

definition decrypted_keys :: "'c custody_env \<Rightarrow> managed_wallet \<Rightarrow> string + string \<times> string" where
  "decrypted_keys env w =
     (case (decrypt env (mw_coldkey_mnemonic_enc w) (coldkey_context (mw_wallet_id w)),
            decrypt env (mw_hotkey_mnemonic_enc w) (hotkey_context (mw_wallet_id w))) of
        (Inl e, _) \<Rightarrow> Inl e | (_, Inl e) \<Rightarrow> Inl e | (Inr cold, Inr hot) \<Rightarrow> Inr (cold, hot))"

definition submit_registration :: "'c custody_env \<Rightarrow> time \<Rightarrow> managed_wallet \<Rightarrow> 'c custody \<Rightarrow> ('c, bool) custody_result" where
  "submit_registration env now w s =
     (let (result, s1) =
            (case decrypted_keys env w of
               Inl e \<Rightarrow> (Inl e, s)
             | Inr (cold, hot) \<Rightarrow>
                 let (r, chain) = register_extrinsic env (cu_chain s) cold hot (mw_netuid w)
                 in (r, s\<lparr>cu_chain := chain\<rparr>))
      in case result of
           Inl e \<Rightarrow> (Inr False, registration_failed now w e s1)
         | Inr outcome \<Rightarrow>
             (case chain_uid env (cu_chain s1) (mw_hotkey_ss58 w) (mw_netuid w) of
                Inl e \<Rightarrow> (Inl (ChainError e), s1)
              | Inr None \<Rightarrow>
                  (Inr False, registration_failed now w
                     (if truthy (eo_message outcome) then the (eo_message outcome)
                      else ''registration did not produce a uid'') s1)
              | Inr (Some uid) \<Rightarrow>
                  (Inr True, snd (advance_managed_wallet now (mw_wallet_id w) REGISTERED (no_change\<lparr>wc_uid := Some uid\<rparr>) s1))))"

definition register_one :: "'c custody_env \<Rightarrow> time \<Rightarrow> managed_wallet \<Rightarrow> 'c custody \<Rightarrow> ('c, bool) custody_result" where
  "register_one env now w s =
     (case plan_registration env (cu_chain s) w of
        Inl _ \<Rightarrow> (Inr False, s)
      | Inr plan \<Rightarrow>
          if \<not> rp_should_register plan
          then if rp_additional_funding_tao plan > 0
               then (Inr False, snd (advance_managed_wallet now (mw_wallet_id w) AWAITING_FUNDING
                       (no_change\<lparr>wc_required_funding_tao := Some (round_to 6 (mw_funded_tao w + rp_additional_funding_tao plan)),
                                  wc_failure_reason := Some (rp_reason plan)\<rparr>) s))
               else if in_text already_registered (rp_reason plan)
               then case chain_uid env (cu_chain s) (mw_hotkey_ss58 w) (mw_netuid w) of
                      Inl e \<Rightarrow> (Inl (ChainError e), s)
                    | Inr uid \<Rightarrow>
                        let s1 = snd (advance_managed_wallet now (mw_wallet_id w) REGISTERING no_change s)
                        in (Inr False, snd (advance_managed_wallet now (mw_wallet_id w) REGISTERED (no_change\<lparr>wc_uid := uid\<rparr>) s1))
               else (Inr False, s)
          else case advance_managed_wallet now (mw_wallet_id w) REGISTERING no_change s of
                 (None, s1) \<Rightarrow> (Inr False, s1)
               | (Some _, s1) \<Rightarrow> submit_registration env now w s1)"

fun register_all :: "'c custody_env \<Rightarrow> time \<Rightarrow> managed_wallet list \<Rightarrow> int \<Rightarrow> 'c custody \<Rightarrow> ('c, int) custody_result" where
  "register_all env now [] registered s = (Inr registered, s)"
| "register_all env now (w # ws) registered s =
     (case register_one env now w s of
        (Inl e, s1) \<Rightarrow> (Inl e, s1)
      | (Inr ok, s1) \<Rightarrow> register_all env now ws (if ok then registered + 1 else registered) s1)"

definition activate_one :: "time \<Rightarrow> managed_wallet \<Rightarrow> 'c custody \<Rightarrow> 'c custody" where
  "activate_one now w s =
     snd (advance_managed_wallet now (mw_wallet_id w) ACTIVE no_change
       (add_whitelist_entry \<lparr>wh_hotkey = mw_hotkey_ss58 w, wh_label = ''managed:'' @ mw_application_id w,
          wh_notes = ''platform-managed wallet '' @ mw_wallet_id w, wh_approved_at = now\<rparr> s))"

definition tick_registration :: "'c custody_env \<Rightarrow> time \<Rightarrow> 'c custody \<Rightarrow> ('c, int) custody_result" where
  "tick_registration env now s =
     (case register_all env now (list_managed_wallets_in_state FUNDED s) 0 s of
        (Inl e, s1) \<Rightarrow> (Inl e, s1)
      | (Inr registered, s1) \<Rightarrow>
          (Inr registered, foldl (\<lambda>s w. activate_one now w s) s1 (list_managed_wallets_in_state REGISTERED s1)))"

definition payout_id :: "'c custody_env \<Rightarrow> nat \<Rightarrow> ident" where
  "payout_id env n = ''pay-'' @ uuid_hex env n"

definition send_alpha ::
  "'c custody_env \<Rightarrow> managed_wallet \<Rightarrow> payout_plan \<Rightarrow> 'c custody \<Rightarrow> (string + extrinsic_outcome) \<times> 'c custody" where
  "send_alpha env w plan s =
     (case decrypted_keys env w of
        Inl e \<Rightarrow> (Inl e, s)
      | Inr (cold, hot) \<Rightarrow>
          let (r, chain) = transfer_alpha env (cu_chain s) cold hot (pp_destination plan) (mw_hotkey_ss58 w) (mw_netuid w)
                             (pp_alpha_amount plan)
          in (r, s\<lparr>cu_chain := chain\<rparr>))"

definition note_payout ::
  "time \<Rightarrow> managed_wallet \<Rightarrow> payout_plan \<Rightarrow> ident \<Rightarrow> payout_status \<Rightarrow> string option \<Rightarrow> string option \<Rightarrow> 'c custody
     \<Rightarrow> ('c, unit) custody_result" where
  "note_payout now w plan pid status hash reason s =
     record_managed_payout now pid (mw_wallet_id w) (pp_destination plan) (pp_alpha_amount plan) (mw_netuid w) status hash reason s"

definition settle_payout ::
  "time \<Rightarrow> managed_wallet \<Rightarrow> payout_plan \<Rightarrow> ident \<Rightarrow> string + extrinsic_outcome \<Rightarrow> 'c custody \<Rightarrow> ('c, bool) custody_result" where
  "settle_payout now w plan pid result s =
     (case result of
        Inl e \<Rightarrow>
          (case note_payout now w plan pid PayoutFailed None (Some e) s of
             (Inl e, s1) \<Rightarrow> (Inl e, s1) | (Inr _, s1) \<Rightarrow> (Inr False, s1))
      | Inr outcome \<Rightarrow>
          (case note_payout now w plan pid (if eo_success outcome then Confirmed else PayoutFailed) (eo_hash outcome)
                  (if eo_success outcome then None
                   else Some (if truthy (eo_message outcome) then the (eo_message outcome) else ''transfer failed'')) s of
             (Inl e, s1) \<Rightarrow> (Inl e, s1)
           | (Inr _, s1) \<Rightarrow>
               if \<not> eo_success outcome then (Inr False, s1)
               else (Inr True, credit_managed_payout now (mw_wallet_id w) (pp_alpha_amount plan) s1)))"

definition pay_planned :: "'c custody_env \<Rightarrow> time \<Rightarrow> managed_wallet \<Rightarrow> payout_plan \<Rightarrow> 'c custody \<Rightarrow> ('c, bool) custody_result" where
  "pay_planned env now w plan s =
     (let pid = payout_id env (cu_draws s)
      in case note_payout now w plan pid Submitting None None (s\<lparr>cu_draws := cu_draws s + 1\<rparr>) of
           (Inl e, s1) \<Rightarrow> (Inl e, s1)
         | (Inr _, s1) \<Rightarrow> (let (result, s2) = send_alpha env w plan s1 in settle_payout now w plan pid result s2))"

definition pay_one :: "'c custody_env \<Rightarrow> time \<Rightarrow> managed_wallet \<Rightarrow> 'c custody \<Rightarrow> ('c, bool) custody_result" where
  "pay_one env now w s =
     (if has_inflight_payout (mw_wallet_id w) s then (Inr False, s)
      else case staked_alpha env (cu_chain s) (mw_coldkey_ss58 w) (mw_hotkey_ss58 w) (mw_netuid w) of
             Inl _ \<Rightarrow> (Inr False, s)
           | Inr accrued \<Rightarrow>
               let plan = plan_payout env w accrued
               in if \<not> pp_should_pay plan then (Inr False, s) else pay_planned env now w plan s)"

fun pay_all :: "'c custody_env \<Rightarrow> time \<Rightarrow> managed_wallet list \<Rightarrow> int \<Rightarrow> 'c custody \<Rightarrow> ('c, int) custody_result" where
  "pay_all env now [] paid s = (Inr paid, s)"
| "pay_all env now (w # ws) paid s =
     (case pay_one env now w s of
        (Inl e, s1) \<Rightarrow> (Inl e, s1)
      | (Inr ok, s1) \<Rightarrow> pay_all env now ws (if ok then paid + 1 else paid) s1)"

definition tick_payouts :: "'c custody_env \<Rightarrow> time \<Rightarrow> 'c custody \<Rightarrow> ('c, int) custody_result" where
  "tick_payouts env now s =
     (case pay_all env now (list_managed_wallets_in_state ACTIVE s) 0 s of
        (Inl e, s1) \<Rightarrow> (Inl e, s1)
      | (Inr paid, s1) \<Rightarrow> pay_all env now (list_managed_wallets_in_state SUSPENDED_WALLET s1) paid s1)"

record wallet_view =
  wv_wallet :: managed_wallet
  wv_outstanding_tao :: rat

definition wallet_status :: "ident \<Rightarrow> 'c custody \<Rightarrow> wallet_view option" where
  "wallet_status app s =
     map_option (\<lambda>w. \<lparr>wv_wallet = w\<lparr>mw_coldkey_mnemonic_enc := [], mw_hotkey_mnemonic_enc := []\<rparr>,
                      wv_outstanding_tao = max 0 (round_to 6 (mw_required_funding_tao w - mw_funded_tao w))\<rparr>)
       (get_managed_wallet_by_application app s)"

end
