(* ===== verification/Custody_Properties.thy ===== *)
theory Custody_Properties
  imports Managed_Wallet
begin

text \<open>
  What custody guarantees: over every sequence of provisioning, ticks and whitelist changes, a
  managed hotkey is in the whitelist only once its neuron has a uid, what a wallet is said to
  have been paid is the sum of its confirmed payouts, and every payout went to the provider's
  own checked address; a registration fee is spent only when it is covered.  The last section
  has the facts behind two weaknesses of the lifecycle.
\<close>

section \<open>The invariant\<close>

definition paid_out :: "ident \<Rightarrow> payout list \<Rightarrow> rat" where
  "paid_out wid ps = sum_list (map po_alpha_amount (filter (\<lambda>p. po_wallet_id p = wid \<and> po_status p = Confirmed) ps))"

definition wallet_ok :: "string set \<Rightarrow> 'c custody_env \<Rightarrow> 'c custody \<Rightarrow> managed_wallet \<Rightarrow> bool" where
  "wallet_ok H env s w \<longleftrightarrow>
     is_valid_ss58 (blake2b_digest env) (mw_payout_address w) \<and>
     (mw_state w \<in> {REGISTERED, ACTIVE, SUSPENDED_WALLET} \<longrightarrow> mw_uid w \<noteq> None) \<and>
     (is_whitelisted (mw_hotkey_ss58 w) s \<longrightarrow> mw_uid w \<noteq> None \<or> mw_hotkey_ss58 w \<in> H) \<and>
     mw_total_paid_alpha w = paid_out (mw_wallet_id w) (cu_payouts s)"

definition payout_ok :: "'c custody_env \<Rightarrow> 'c custody \<Rightarrow> payout \<Rightarrow> bool" where
  "payout_ok env s p \<longleftrightarrow>
     (\<exists>w \<in> set (cu_wallets s). mw_wallet_id w = po_wallet_id p \<and> mw_payout_address w = po_destination p) \<and>
     MIN_PAYOUT_ALPHA \<le> po_alpha_amount p \<and> (\<exists>k < cu_draws s. po_payout_id p = payout_id env k)"

definition custody_inv :: "string set \<Rightarrow> 'c custody_env \<Rightarrow> 'c custody \<Rightarrow> bool" where
  "custody_inv H env s \<longleftrightarrow>
     distinct_keys mw_wallet_id (cu_wallets s) \<and> distinct_keys mw_hotkey_ss58 (cu_wallets s) \<and>
     (\<forall>w \<in> set (cu_wallets s). wallet_ok H env s w) \<and> (\<forall>p \<in> set (cu_payouts s). payout_ok env s p) \<and>
     distinct (map po_wallet_id (filter (\<lambda>p. po_status p = Submitting) (cu_payouts s)))"

text \<open>Rows keep who they are: no operation deletes a wallet or changes its identity, its keys or its
  payout address, and a uid once known stays.\<close>

definition same_wallet :: "managed_wallet \<Rightarrow> managed_wallet \<Rightarrow> bool" where
  "same_wallet w w' \<longleftrightarrow> mw_wallet_id w' = mw_wallet_id w \<and> mw_hotkey_ss58 w' = mw_hotkey_ss58 w \<and>
     mw_payout_address w' = mw_payout_address w \<and> (mw_uid w \<noteq> None \<longrightarrow> mw_uid w' \<noteq> None)"

definition known :: "managed_wallet \<Rightarrow> 'c custody \<Rightarrow> bool" where
  "known w s \<longleftrightarrow> (\<exists>w' \<in> set (cu_wallets s). same_wallet w w')"

lemma same_wallet_trans: "same_wallet a b \<Longrightarrow> same_wallet b c \<Longrightarrow> same_wallet a c"
  by (auto simp: same_wallet_def)

lemma in_known: "w \<in> set (cu_wallets s) \<Longrightarrow> known w s"
  by (auto simp: known_def same_wallet_def)

lemma listed_known: "w \<in> set (list_managed_wallets_in_state st s) \<Longrightarrow> known w s"
  by (simp add: list_managed_wallets_in_state_def in_known)

lemma advanced_row_facts [simp]:
  "mw_wallet_id (advanced_row now t c r) = mw_wallet_id r" "mw_hotkey_ss58 (advanced_row now t c r) = mw_hotkey_ss58 r"
  "mw_payout_address (advanced_row now t c r) = mw_payout_address r" "mw_state (advanced_row now t c r) = t"
  "mw_total_paid_alpha (advanced_row now t c r) = mw_total_paid_alpha r"
  "mw_uid (advanced_row now t c r) = (case wc_uid c of None \<Rightarrow> mw_uid r | Some u \<Rightarrow> Some u)"
  by (simp_all add: advanced_row_def)

lemma same_advanced_row: "same_wallet r (advanced_row now t c r)"
  by (simp add: same_wallet_def split: option.split)

text \<open>Changing wallet rows in place, without touching identities or totals.\<close>

lemma map_modify_wallet:
  assumes "\<And>r. key (f r) = key r"
  shows "map key (modify_row mw_wallet_id wid f ws) = map key ws"
  using assms by (induction ws) auto

lemma known_modify:
  assumes "known w s" and "\<And>r. same_wallet r (f r)"
  shows "known w (s\<lparr>cu_wallets := modify_row mw_wallet_id wid f (cu_wallets s)\<rparr>)"
proof -
  obtain v where v: "v \<in> set (cu_wallets s)" "same_wallet w v" using assms(1) by (auto simp: known_def)
  have "\<exists>v' \<in> set (modify_row mw_wallet_id wid f ws). same_wallet v v'" if "v \<in> set ws" for ws
    using that assms(2) by (induction ws) (auto simp: same_wallet_def)
  with v show ?thesis by (auto simp: known_def intro: same_wallet_trans)
qed

lemma custody_inv_modify:
  assumes inv: "custody_inv H env s" and f: "\<And>r. same_wallet r (f r)" "\<And>r. mw_total_paid_alpha (f r) = mw_total_paid_alpha r"
    and st: "\<And>r. r \<in> set (cu_wallets s) \<Longrightarrow> mw_wallet_id r = wid \<Longrightarrow>
      mw_state (f r) \<in> {REGISTERED, ACTIVE, SUSPENDED_WALLET} \<Longrightarrow> mw_uid (f r) \<noteq> None"
  shows "custody_inv H env (s\<lparr>cu_wallets := modify_row mw_wallet_id wid f (cu_wallets s)\<rparr>)" (is "custody_inv H env ?s")
proof -
  have keys: "map mw_wallet_id (cu_wallets ?s) = map mw_wallet_id (cu_wallets s)"
    "map mw_hotkey_ss58 (cu_wallets ?s) = map mw_hotkey_ss58 (cu_wallets s)"
    using f(1) by (simp_all add: map_modify_wallet same_wallet_def)
  have "wallet_ok H env ?s w" if "w \<in> set (cu_wallets ?s)" for w
  proof -
    from modify_row_cases [of w mw_wallet_id wid f "cu_wallets s"] that
    consider "w \<in> set (cu_wallets s)" | r where "r \<in> set (cu_wallets s)" "mw_wallet_id r = wid" "w = f r" by auto
    then show ?thesis
    proof cases
      case 1
      with inv show ?thesis by (simp add: custody_inv_def wallet_ok_def is_whitelisted_def)
    next
      case 2
      then have "wallet_ok H env s r" using inv by (simp add: custody_inv_def)
      with 2 st [OF 2(1,2)] f(1) [of r] f(2) [of r] show ?thesis
        by (auto simp: wallet_ok_def is_whitelisted_def same_wallet_def)
    qed
  qed
  moreover have "payout_ok env ?s p" if "p \<in> set (cu_payouts s)" for p
  proof -
    have ok: "payout_ok env s p" using inv that by (simp add: custody_inv_def)
    obtain w where w: "w \<in> set (cu_wallets s)" "mw_wallet_id w = po_wallet_id p" "mw_payout_address w = po_destination p"
      and rest: "MIN_PAYOUT_ALPHA \<le> po_alpha_amount p" "\<exists>k < cu_draws s. po_payout_id p = payout_id env k"
      using ok unfolding payout_ok_def by blast
    from known_modify [OF in_known [OF w(1)] f(1), of wid]
    obtain w' where "w' \<in> set (cu_wallets ?s)" "same_wallet w w'" by (auto simp: known_def)
    with w rest show ?thesis by (force simp: payout_ok_def same_wallet_def)
  qed
  ultimately show ?thesis using inv keys by (simp add: custody_inv_def)
qed

lemma advance_known: "known w s \<Longrightarrow> known w (snd (advance_managed_wallet now wid t c s))"
  by (auto simp: advance_managed_wallet_def split: option.split intro: known_modify same_advanced_row)

lemma advance_inv:
  assumes "custody_inv H env s" and "t = REGISTERED \<Longrightarrow> wc_uid c \<noteq> None" and "t \<noteq> SUSPENDED_WALLET"
  shows "custody_inv H env (snd (advance_managed_wallet now wid t c s))"
proof (cases "get_row mw_wallet_id wid (cu_wallets s)")
  case (Some row)
  show ?thesis
  proof (cases "can_transition (mw_state row) t")
    case True
    have "mw_uid (advanced_row now t c r) \<noteq> None"
      if "r \<in> set (cu_wallets s)" "mw_wallet_id r = wid" "t \<in> {REGISTERED, ACTIVE, SUSPENDED_WALLET}" for r
    proof (cases "t = ACTIVE")
      case True
      have "distinct_keys mw_wallet_id (cu_wallets s)" using assms(1) by (simp add: custody_inv_def)
      with get_row_distinct [OF this that(1)] that(2) Some have "r = row" by simp
      then have "mw_state r \<in> {REGISTERED, ACTIVE, SUSPENDED_WALLET}"
        using \<open>can_transition (mw_state row) t\<close> True by (cases "mw_state row") (auto simp: can_transition_def)
      then show ?thesis using assms(1) that(1) by (auto simp: custody_inv_def wallet_ok_def split: option.split)
    next
      case False
      with that assms(2,3) show ?thesis by (auto split: option.split)
    qed
    then have "custody_inv H env (s\<lparr>cu_wallets := modify_row mw_wallet_id wid (advanced_row now t c) (cu_wallets s)\<rparr>)"
      by (intro custody_inv_modify [OF assms(1)] same_advanced_row) auto
    with True Some show ?thesis by (simp add: advance_managed_wallet_def)
  next
    case False
    with Some assms(1) show ?thesis by (simp add: advance_managed_wallet_def)
  qed
qed (use assms in \<open>simp add: advance_managed_wallet_def\<close>)

section \<open>Payouts\<close>

lemma put_row_last: "key r = key x \<Longrightarrow> key x \<notin> key ` set ps \<Longrightarrow> put_row key r (ps @ [x]) = ps @ [r]"
  by (induction ps) auto

lemma record_new:
  assumes "pid \<notin> po_payout_id ` set (cu_payouts s)"
  shows "record_managed_payout now pid wid dest amount nid Submitting None None s =
    (Inr (), s\<lparr>cu_payouts := cu_payouts s @ [\<lparr>po_payout_id = pid, po_wallet_id = wid, po_destination = dest,
       po_alpha_amount = amount, po_netuid = nid, po_extrinsic_hash = None, po_status = Submitting, po_failure_reason = None,
       po_created_at = now, po_confirmed_at = None\<rparr>]\<rparr>)"
  using assms by (simp add: record_managed_payout_def get_row_None_iff [THEN iffD2] put_row_new Let_def)

lemma record_again:
  assumes "cu_payouts s = ps @ [row]" and "po_payout_id row \<notin> po_payout_id ` set ps"
    and "record_managed_payout now (po_payout_id row) wid dest amount nid status hash reason s = (res, s')"
  shows "(res = Inl IntegrityError \<and> s' = s) \<or>
    (\<exists>row'. res = Inr () \<and> s' = s\<lparr>cu_payouts := ps @ [row']\<rparr> \<and> po_payout_id row' = po_payout_id row \<and>
       po_wallet_id row' = po_wallet_id row \<and> po_destination row' = po_destination row \<and>
       po_alpha_amount row' = po_alpha_amount row \<and> po_status row' = status)"
  using assms
  by (auto simp: record_managed_payout_def get_row_append get_row_None_iff [THEN iffD2] put_row_last Let_def
      split: if_splits)

lemma send_alpha_frame:
  assumes "send_alpha env w plan s = (r, s')"
  shows "s' = s\<lparr>cu_chain := cu_chain s'\<rparr>"
    and "cu_chain s' = cu_chain s \<or> (\<exists>cold hot. cu_chain s' = snd (transfer_alpha env (cu_chain s) cold hot (pp_destination plan)
           (mw_hotkey_ss58 w) (mw_netuid w) (pp_alpha_amount plan)))"
  using assms by (auto simp: send_alpha_def split: sum.splits prod.splits) (metis snd_conv)

lemma settle_payout_cases:
  assumes "cu_payouts s = ps @ [row]" and "po_payout_id row \<notin> po_payout_id ` set ps"
    and "settle_payout now w plan (po_payout_id row) result s = (res, s')"
  obtains "s' = s"
  | row' where "po_payout_id row' = po_payout_id row" "po_wallet_id row' = po_wallet_id row"
      "po_destination row' = po_destination row" "po_alpha_amount row' = po_alpha_amount row"
      "s' = s\<lparr>cu_payouts := ps @ [row'],
         cu_wallets := (if po_status row' = Confirmed
           then modify_row mw_wallet_id (mw_wallet_id w)
             (\<lambda>v. v\<lparr>mw_total_paid_alpha := mw_total_paid_alpha v + pp_alpha_amount plan, mw_last_payout_at := Some now\<rparr>) (cu_wallets s)
           else cu_wallets s)\<rparr>"
proof -
  obtain status hash reason where st: "settle_payout now w plan (po_payout_id row) result s =
      (case note_payout now w plan (po_payout_id row) status hash reason s of
         (Inl e, s1) \<Rightarrow> (Inl e, s1)
       | (Inr _, s1) \<Rightarrow> if status \<noteq> Confirmed then (Inr False, s1)
                        else (Inr True, credit_managed_payout now (mw_wallet_id w) (pp_alpha_amount plan) s1))"
  proof (cases result)
    case (Inl e)
    show ?thesis by (rule that [of PayoutFailed None "Some e"]) (simp add: settle_payout_def Inl split: prod.split sum.split)
  next
    case (Inr out)
    show ?thesis
      by (rule that [of "if eo_success out then Confirmed else PayoutFailed" "eo_hash out" "if eo_success out then None
        else Some (if truthy (eo_message out) then the (eo_message out) else ''transfer failed'')"])
        (simp add: settle_payout_def Inr split: prod.split sum.split)
  qed
  obtain r s1 where note1: "note_payout now w plan (po_payout_id row) status hash reason s = (r, s1)" by fastforce
  from record_again [OF assms(1,2) this [unfolded note_payout_def]]
  consider "r = Inl IntegrityError" "s1 = s"
    | row' where "r = Inr ()" "s1 = s\<lparr>cu_payouts := ps @ [row']\<rparr>" "po_payout_id row' = po_payout_id row"
       "po_wallet_id row' = po_wallet_id row" "po_destination row' = po_destination row"
       "po_alpha_amount row' = po_alpha_amount row" "po_status row' = status" by blast
  then show thesis
  proof cases
    case 1
    with st note1 assms(3) that(1) show ?thesis by simp
  next
    case 2
    with st note1 assms(3) show ?thesis
      by (intro that(2) [of row']) (auto simp: credit_managed_payout_def split: if_splits)
  qed
qed

text \<open>A payout in one step: nothing happens, or one new row ends the payout table, for the whole accrued
  amount and to the wallet's own address, and the total grows exactly if the row is confirmed.\<close>

lemma pay_one_cases [consumes 2, case_names nothing attempted]:
  assumes "pay_one env now w s = (res, s')" and "payout_id env (cu_draws s) \<notin> po_payout_id ` set (cu_payouts s)"
  obtains "s' = s"
  | row alpha where "\<not> has_inflight_payout (mw_wallet_id w) s"
      "staked_alpha env (cu_chain s) (mw_coldkey_ss58 w) (mw_hotkey_ss58 w) (mw_netuid w) = Inr (Finite alpha)"
      "mw_state w \<in> {ACTIVE, SUSPENDED_WALLET}" "MIN_PAYOUT_ALPHA \<le> alpha"
      "is_valid_ss58 (blake2b_digest env) (mw_payout_address w)"
      "po_payout_id row = payout_id env (cu_draws s)" "po_wallet_id row = mw_wallet_id w"
      "po_destination row = mw_payout_address w" "po_alpha_amount row = alpha"
      "cu_payouts s' = cu_payouts s @ [row]" "cu_whitelist s' = cu_whitelist s" "cu_draws s' = cu_draws s + 1"
      "cu_wallets s' = (if po_status row = Confirmed
         then modify_row mw_wallet_id (mw_wallet_id w)
           (\<lambda>v. v\<lparr>mw_total_paid_alpha := mw_total_paid_alpha v + alpha, mw_last_payout_at := Some now\<rparr>) (cu_wallets s)
         else cu_wallets s)"
      "cu_chain s' = cu_chain s \<or> (\<exists>cold hot. cu_chain s' =
         snd (transfer_alpha env (cu_chain s) cold hot (mw_payout_address w) (mw_hotkey_ss58 w) (mw_netuid w) alpha))"
proof (cases "has_inflight_payout (mw_wallet_id w) s \<or>
    (\<forall>accrued. staked_alpha env (cu_chain s) (mw_coldkey_ss58 w) (mw_hotkey_ss58 w) (mw_netuid w) = Inr accrued \<longrightarrow>
       \<not> pp_should_pay (plan_payout env w accrued))")
  case True
  then have "s' = s" using assms(1) by (simp add: pay_one_def split: sum.splits if_splits)
  then show thesis by (rule that(1))
next
  case False
  then obtain accrued where idle: "\<not> has_inflight_payout (mw_wallet_id w) s"
    and acc: "staked_alpha env (cu_chain s) (mw_coldkey_ss58 w) (mw_hotkey_ss58 w) (mw_netuid w) = Inr accrued"
    and pay: "pp_should_pay (plan_payout env w accrued)" by blast
  define plan where "plan = plan_payout env w accrued"
  obtain alpha where alpha: "accrued = Finite alpha" "mw_state w \<in> {ACTIVE, SUSPENDED_WALLET}" "MIN_PAYOUT_ALPHA \<le> alpha"
    "is_valid_ss58 (blake2b_digest env) (mw_payout_address w)"
    and plan: "pp_destination plan = mw_payout_address w" "pp_alpha_amount plan = alpha"
    using pay by (auto simp: plan_def plan_payout_def Let_def split: reading.splits if_splits)
  define row0 where "row0 = \<lparr>po_payout_id = payout_id env (cu_draws s), po_wallet_id = mw_wallet_id w,
       po_destination = mw_payout_address w, po_alpha_amount = alpha, po_netuid = mw_netuid w, po_extrinsic_hash = None,
       po_status = Submitting, po_failure_reason = None, po_created_at = now, po_confirmed_at = None\<rparr>"
  define s1 where "s1 = s\<lparr>cu_draws := cu_draws s + 1, cu_payouts := cu_payouts s @ [row0]\<rparr>"
  have "note_payout now w plan (payout_id env (cu_draws s)) Submitting None None (s\<lparr>cu_draws := cu_draws s + 1\<rparr>) = (Inr (), s1)"
    using assms(2) by (simp add: note_payout_def record_new s1_def row0_def plan)
  moreover obtain r s2 where sent: "send_alpha env w plan s1 = (r, s2)" by fastforce
  ultimately have settle: "settle_payout now w plan (po_payout_id row0) r s2 = (res, s')"
    using assms(1) idle acc pay by (simp add: pay_one_def pay_planned_def plan_def [symmetric] Let_def row0_def)
  note frame = send_alpha_frame [OF sent, unfolded plan]
  have s2: "cu_payouts s2 = cu_payouts s @ [row0]" "cu_wallets s2 = cu_wallets s" "cu_whitelist s2 = cu_whitelist s"
    "cu_draws s2 = cu_draws s + 1" by (subst frame(1), simp add: s1_def)+
  have chain: "cu_chain s2 = cu_chain s \<or> (\<exists>cold hot. cu_chain s2 =
         snd (transfer_alpha env (cu_chain s) cold hot (mw_payout_address w) (mw_hotkey_ss58 w) (mw_netuid w) alpha))"
    using frame(2) by (simp add: s1_def)
  have fresh: "po_payout_id row0 \<notin> po_payout_id ` set (cu_payouts s)" using assms(2) by (simp add: row0_def)
  show thesis
  proof (cases rule: settle_payout_cases [OF s2(1) fresh settle])
    case 1
    show ?thesis
      by (rule that(2) [of alpha row0]) (use idle acc alpha s2 chain 1 in \<open>simp_all add: row0_def\<close>)
  next
    case (2 row')
    show ?thesis
      by (rule that(2) [of alpha row']) (use idle acc alpha s2 chain 2 plan in \<open>simp_all add: row0_def\<close>)
  qed
qed

lemma payout_id_fresh:
  assumes "custody_inv H env s" and "inj (uuid_hex env)"
  shows "payout_id env (cu_draws s) \<notin> po_payout_id ` set (cu_payouts s)"
proof
  assume "payout_id env (cu_draws s) \<in> po_payout_id ` set (cu_payouts s)"
  then obtain p where "p \<in> set (cu_payouts s)" "po_payout_id p = payout_id env (cu_draws s)" by auto
  moreover from this(1) assms(1) have "payout_ok env s p" by (simp add: custody_inv_def)
  then obtain k where "k < cu_draws s" "po_payout_id p = payout_id env k" unfolding payout_ok_def by blast
  ultimately show False using assms(2) by (auto simp: payout_id_def dest: injD)
qed

lemma paid_out_snoc [simp]:
  "paid_out wid (ps @ [p]) = paid_out wid ps + (if po_wallet_id p = wid \<and> po_status p = Confirmed then po_alpha_amount p else 0)"
  by (simp add: paid_out_def)

lemma pay_one_inv:
  assumes inv: "custody_inv H env s" and ids: "inj (uuid_hex env)" and w: "known w s" and run: "pay_one env now w s = (res, s')"
  shows "custody_inv H env s' \<and> (\<forall>v. known v s \<longrightarrow> known v s')"
  using run payout_id_fresh [OF inv ids]
proof (cases rule: pay_one_cases)
  case nothing
  with inv show ?thesis by simp
next
  case (attempted row alpha)
  define f where "f = (\<lambda>v :: managed_wallet. if po_status row = Confirmed
      then v\<lparr>mw_total_paid_alpha := mw_total_paid_alpha v + alpha, mw_last_payout_at := Some now\<rparr> else v)"
  have f: "same_wallet v (f v)" "mw_state (f v) = mw_state v" "mw_uid (f v) = mw_uid v" for v
    by (simp_all add: f_def same_wallet_def)
  have fpaid: "mw_total_paid_alpha (f v) = mw_total_paid_alpha v + (if po_status row = Confirmed then alpha else 0)" for v
    by (simp add: f_def)
  have wallets: "cu_wallets s' = modify_row mw_wallet_id (mw_wallet_id w) f (cu_wallets s)"
  proof (cases "po_status row = Confirmed")
    case False
    have "modify_row mw_wallet_id (mw_wallet_id w) (\<lambda>v. v) vs = vs" for vs :: "managed_wallet list" by (induction vs) auto
    with False attempted(13) show ?thesis by (simp add: f_def)
  qed (use attempted(13) in \<open>simp add: f_def\<close>)
  have distinct: "distinct_keys mw_wallet_id (cu_wallets s)" using inv by (simp add: custody_inv_def)
  have keep: "known v s'" if "known v s" for v
    using known_modify [OF that f(1), of "mw_wallet_id w"] by (simp add: known_def wallets)
  have ok: "wallet_ok H env s' v" if "v \<in> set (cu_wallets s')" for v
  proof -
    have "v \<in> (\<lambda>u. if mw_wallet_id u = mw_wallet_id w then f u else u) ` set (cu_wallets s)"
      using that unfolding wallets modify_row_distinct [OF distinct] by simp
    then obtain u where u: "u \<in> set (cu_wallets s)" "v = (if mw_wallet_id u = mw_wallet_id w then f u else u)"
      by blast
    then have "wallet_ok H env s u" using inv by (simp add: custody_inv_def)
    then show ?thesis
      using u(2) f [of u] fpaid [of u] attempted(7,9,10,11)
      by (auto simp: wallet_ok_def same_wallet_def is_whitelisted_def)
  qed
  have old: "payout_ok env s' p" if pok: "payout_ok env s p" for p
  proof -
    obtain v where v: "v \<in> set (cu_wallets s)" "mw_wallet_id v = po_wallet_id p" "mw_payout_address v = po_destination p"
      and rest: "MIN_PAYOUT_ALPHA \<le> po_alpha_amount p" "\<exists>k < cu_draws s'. po_payout_id p = payout_id env k"
      using pok attempted(12) unfolding payout_ok_def by (metis less_Suc_eq Suc_eq_plus1)
    obtain v' where "v' \<in> set (cu_wallets s')" "same_wallet v v'" using keep [OF in_known [OF v(1)]] by (auto simp: known_def)
    with v rest show ?thesis unfolding payout_ok_def same_wallet_def by metis
  qed
  obtain w' where w': "w' \<in> set (cu_wallets s')" "same_wallet w w'" using keep [OF w] by (auto simp: known_def)
  have new: "payout_ok env s' row"
    unfolding payout_ok_def using w' attempted(4,6-9,12) by (auto simp: same_wallet_def intro!: bexI [of _ w'])
  have inflight: "mw_wallet_id w \<notin> po_wallet_id ` {p \<in> set (cu_payouts s). po_status p = Submitting}"
    using attempted(1) by (auto simp: has_inflight_payout_def)
  have keys: "map mw_wallet_id (cu_wallets s') = map mw_wallet_id (cu_wallets s)"
    "map mw_hotkey_ss58 (cu_wallets s') = map mw_hotkey_ss58 (cu_wallets s)"
    using f(1) by (simp_all add: wallets map_modify_wallet same_wallet_def)
  have "custody_inv H env s'"
    unfolding custody_inv_def keys attempted(10) using inv ok old new inflight attempted(7) by (auto simp: custody_inv_def)
  with keep show ?thesis by blast
qed

section \<open>Funding and registration\<close>

lemma whitelist_inv:
  assumes "custody_inv H env s" and "\<And>w. w \<in> set (cu_wallets s) \<Longrightarrow> mw_hotkey_ss58 w = wh_hotkey e \<Longrightarrow> mw_uid w \<noteq> None \<or> wh_hotkey e \<in> H"
  shows "custody_inv H env (add_whitelist_entry e s)"
proof -
  have "payout_ok env (add_whitelist_entry e s) = payout_ok env s"
    by (simp add: fun_eq_iff payout_ok_def add_whitelist_entry_def)
  then show ?thesis
    using assms by (auto simp: custody_inv_def wallet_ok_def add_whitelist_entry_def is_whitelisted_def get_row_put_row)
qed

lemma chain_inv [simp]: "custody_inv H env (s\<lparr>cu_chain := c\<rparr>) = custody_inv H env s"
proof -
  have "payout_ok env (s\<lparr>cu_chain := c\<rparr>) = payout_ok env s" "wallet_ok H env (s\<lparr>cu_chain := c\<rparr>) = wallet_ok H env s"
    by (simp_all add: fun_eq_iff payout_ok_def wallet_ok_def is_whitelisted_def)
  then show ?thesis by (simp add: custody_inv_def)
qed

lemma known_chain [simp]: "known w (s\<lparr>cu_chain := c\<rparr>) = known w s"
  by (simp add: known_def)

text \<open>An operation is safe when it keeps the invariant and the wallets.\<close>

definition keeps :: "string set \<Rightarrow> 'c custody_env \<Rightarrow> 'c custody \<Rightarrow> 'c custody \<Rightarrow> bool" where
  "keeps H env s s' \<longleftrightarrow> (custody_inv H env s \<longrightarrow> custody_inv H env s') \<and> (\<forall>w. known w s \<longrightarrow> known w s')"

lemma keeps_refl [intro!]: "keeps H env s s"
  by (simp add: keeps_def)

lemma keeps_trans [trans]: "keeps H env s t \<Longrightarrow> keeps H env t u \<Longrightarrow> keeps H env s u"
  by (auto simp: keeps_def)

lemma keeps_chain [intro!]: "keeps H env s (s\<lparr>cu_chain := c\<rparr>)"
  by (simp add: keeps_def)

lemma keeps_advance:
  "(t = REGISTERED \<Longrightarrow> wc_uid c \<noteq> None) \<Longrightarrow> t \<noteq> SUSPENDED_WALLET \<Longrightarrow> keeps H env s (snd (advance_managed_wallet now wid t c s))"
  by (auto simp: keeps_def intro: advance_inv advance_known)

lemma keeps_fund_one: "keeps H env s (snd (fund_one env now w s))" if "mw_state w = AWAITING_FUNDING"
  using that by (auto simp: fund_one_def Let_def check_funding_def split: sum.split intro!: keeps_advance)

lemma keeps_fund_all:
  "(\<And>w. w \<in> set ws \<Longrightarrow> mw_state w = AWAITING_FUNDING) \<Longrightarrow> keeps H env s (snd (fund_all env now ws k s))"
proof (induction ws arbitrary: k s)
  case (Cons w ws)
  obtain moved s1 where one: "fund_one env now w s = (moved, s1)" by fastforce
  have "keeps H env s s1" using keeps_fund_one [of w H env s now] Cons.prems one by simp
  also have "keeps H env s1 (snd (fund_all env now (w # ws) k s))" using Cons one by simp
  finally show ?case .
qed auto

lemma keeps_submit: "keeps H env s (snd (submit_registration env now w s))"
proof -
  obtain r s1 where sub: "(case decrypted_keys env w of Inl e \<Rightarrow> (Inl e, s)
      | Inr (cold, hot) \<Rightarrow> let (r, chain) = register_extrinsic env (cu_chain s) cold hot (mw_netuid w) in (r, s\<lparr>cu_chain := chain\<rparr>)) =
      (r, s1)" by fastforce
  then have first: "keeps H env s s1" by (auto split: sum.splits prod.splits)
  moreover have "keeps H env s1 (snd (submit_registration env now w s))"
    unfolding submit_registration_def sub
    by (auto simp: registration_failed_def no_change_def split: sum.split option.split intro!: keeps_advance)
  ultimately show ?thesis by (rule keeps_trans)
qed

lemma show_nat_no_y: "CHR ''y'' \<notin> set (show_nat n)"
proof (induction n rule: show_nat.induct)
  case (1 n)
  have "digit_char d \<noteq> CHR ''y''" if "d < 10" for d
  proof -
    have "of_char (digit_char d) = 48 + d" using that by (simp add: digit_char_def of_char_of)
    moreover have "of_char (CHR ''y'') = (121 :: nat)" by simp
    ultimately show ?thesis using that by auto
  qed
  note other = this this [symmetric]
  show ?case
    using 1 other(2) [of n] other(2) [of "n mod 10"] by (subst show_nat.simps) simp
qed

lemma burn_rose_text_no_y: "CHR ''y'' \<notin> set (burn_rose_text a b)"
proof -
  have "CHR ''y'' \<notin> set (show_fixed n x)" for n x
    using show_nat_no_y by (auto simp: show_fixed_def Let_def dest!: in_set_takeD in_set_dropD)
  then show ?thesis by (simp add: burn_rose_text_def)
qed

text \<open>The test on the wording of the plan does what it means: it holds only for a hotkey that has a uid.\<close>

lemma plan_registration_uid:
  assumes "plan_registration env chain w = Inr plan" and "in_text already_registered (rp_reason plan)"
    and "\<not> rp_should_register plan" and "mw_state w = FUNDED"
  shows "\<exists>uid. chain_uid env chain (mw_hotkey_ss58 w) (mw_netuid w) = Inr (Some uid)"
proof (rule ccontr)
  assume "\<nexists>uid. chain_uid env chain (mw_hotkey_ss58 w) (mw_netuid w) = Inr (Some uid)"
  with assms(1,3,4) obtain a b where reason: "rp_reason plan = burn_rose_text a b"
    by (auto simp: plan_registration_def Let_def split: sum.splits option.splits if_splits)
  from assms(2) obtain pre post where "rp_reason plan = pre @ already_registered @ post" by (auto simp: in_text_iff)
  then have "CHR ''y'' \<in> set (rp_reason plan)" by (simp add: already_registered_def)
  with reason burn_rose_text_no_y show False by simp
qed

lemma keeps_register_one:
  assumes "mw_state w = FUNDED"
  shows "keeps H env s (snd (register_one env now w s))"
proof (cases "plan_registration env (cu_chain s) w")
  case (Inr plan)
  consider (submit) "rp_should_register plan" | (more) "\<not> rp_should_register plan" "rp_additional_funding_tao plan > 0"
    | (adopt) "\<not> rp_should_register plan" "\<not> rp_additional_funding_tao plan > 0" "in_text already_registered (rp_reason plan)"
    | (none) "\<not> rp_should_register plan" "\<not> rp_additional_funding_tao plan > 0" "\<not> in_text already_registered (rp_reason plan)"
    by blast
  then show ?thesis
  proof cases
    case submit
    obtain r s1 where adv: "advance_managed_wallet now (mw_wallet_id w) REGISTERING no_change s = (r, s1)" by fastforce
    have "keeps H env s s1" using keeps_advance [of REGISTERING no_change H env s now "mw_wallet_id w"] adv by simp
    also have "keeps H env s1 (snd (register_one env now w s))"
      using keeps_submit submit Inr adv by (auto simp: register_one_def split: option.split)
    finally show ?thesis .
  next
    case more
    with Inr show ?thesis by (auto simp: register_one_def intro!: keeps_advance)
  next
    case adopt
    then obtain uid where uid: "chain_uid env (cu_chain s) (mw_hotkey_ss58 w) (mw_netuid w) = Inr (Some uid)"
      using plan_registration_uid [OF Inr] assms by blast
    let ?s1 = "snd (advance_managed_wallet now (mw_wallet_id w) REGISTERING no_change s)"
    have "keeps H env s ?s1" by (rule keeps_advance) simp_all
    also have "keeps H env ?s1 (snd (register_one env now w s))"
      using adopt Inr uid by (auto simp: register_one_def Let_def intro!: keeps_advance)
    finally show ?thesis .
  next
    case none
    with Inr show ?thesis by (auto simp: register_one_def)
  qed
qed (auto simp: register_one_def)

lemma keeps_register_all:
  "(\<And>w. w \<in> set ws \<Longrightarrow> mw_state w = FUNDED) \<Longrightarrow> keeps H env s (snd (register_all env now ws k s))"
proof (induction ws arbitrary: k s)
  case (Cons w ws)
  obtain r s1 where one: "register_one env now w s = (r, s1)" by fastforce
  have "keeps H env s s1" using keeps_register_one [of w H env s now] Cons.prems one by simp
  also have "keeps H env s1 (snd (register_all env now (w # ws) k s))" using Cons one by (auto split: sum.split)
  finally show ?case .
qed auto

lemma known_whitelist [simp]: "known v (add_whitelist_entry e s) = known v s"
  by (simp add: known_def add_whitelist_entry_def)

lemma activate_known: "known v s \<Longrightarrow> known v (activate_one now w s)"
  unfolding activate_one_def by (rule advance_known) simp

lemma activate_all_keeps:
  assumes "custody_inv H env s" and "\<And>w. w \<in> set ws \<Longrightarrow> known w s \<and> mw_uid w \<noteq> None"
  shows "custody_inv H env (foldl (\<lambda>s w. activate_one now w s) s ws) \<and>
    (\<forall>v. known v s \<longrightarrow> known v (foldl (\<lambda>s w. activate_one now w s) s ws))"
  using assms
proof (induction ws arbitrary: s)
  case (Cons w ws)
  define e where "e = \<lparr>wh_hotkey = mw_hotkey_ss58 w, wh_label = ''managed:'' @ mw_application_id w,
          wh_notes = ''platform-managed wallet '' @ mw_wallet_id w, wh_approved_at = now\<rparr>"
  obtain w' where w': "w' \<in> set (cu_wallets s)" "same_wallet w w'" "mw_uid w' \<noteq> None"
    using Cons.prems(2) [of w] by (auto simp: known_def same_wallet_def)
  have "mw_uid v \<noteq> None" if "v \<in> set (cu_wallets s)" "mw_hotkey_ss58 v = mw_hotkey_ss58 w" for v
  proof -
    have "inj_on mw_hotkey_ss58 (set (cu_wallets s))" using Cons.prems(1) by (simp add: custody_inv_def distinct_map)
    from inj_onD [OF this _ that(1) w'(1)] that(2) w'(2) have "v = w'" by (simp add: same_wallet_def)
    with w' show ?thesis by simp
  qed
  then have "custody_inv H env (add_whitelist_entry e s)"
    by (intro whitelist_inv [OF Cons.prems(1)]) (simp add: e_def)
  then have one: "custody_inv H env (activate_one now w s)" "known v s \<Longrightarrow> known v (activate_one now w s)" for v
    using keeps_advance [of ACTIVE no_change H env "add_whitelist_entry e s" now "mw_wallet_id w"]
    by (simp_all add: activate_one_def e_def keeps_def)
  with Cons.IH [OF one(1)] Cons.prems(2) show ?case by auto
qed simp

lemma keeps_tick_registration: "keeps H env s (snd (tick_registration env now s))"
proof -
  obtain r s1 where all: "register_all env now (list_managed_wallets_in_state FUNDED s) 0 s = (r, s1)" by fastforce
  have "keeps H env s s1"
    using keeps_register_all [of "list_managed_wallets_in_state FUNDED s" H env s now 0] all
    by (simp add: list_managed_wallets_in_state_def)
  also have "keeps H env s1 (snd (tick_registration env now s))"
  proof (cases r)
    case (Inr k)
    have "mw_uid w \<noteq> None" if "custody_inv H env s1" "w \<in> set (list_managed_wallets_in_state REGISTERED s1)" for w
      using that by (auto simp: custody_inv_def wallet_ok_def list_managed_wallets_in_state_def)
    moreover have "known v (foldl (\<lambda>s w. activate_one now w s) s1 ws)" if "known v s1" for v ws
      using that by (induction ws rule: rev_induct) (simp_all add: activate_known)
    ultimately show ?thesis
      using activate_all_keeps [of H env s1 "list_managed_wallets_in_state REGISTERED s1" now] all Inr
      by (auto simp: tick_registration_def keeps_def listed_known)
  qed (use all in \<open>auto simp: tick_registration_def\<close>)
  finally show ?thesis .
qed

section \<open>Provisioning and payouts\<close>

lemma pay_all_inv:
  assumes "custody_inv H env s" and "inj (uuid_hex env)" and "\<And>w. w \<in> set ws \<Longrightarrow> known w s"
  shows "custody_inv H env (snd (pay_all env now ws k s)) \<and> (\<forall>v. known v s \<longrightarrow> known v (snd (pay_all env now ws k s)))"
  using assms
proof (induction ws arbitrary: k s)
  case (Cons w ws)
  obtain r s1 where one: "pay_one env now w s = (r, s1)" by fastforce
  with pay_one_inv [OF Cons.prems(1,2) _ one] Cons.prems(3)
  have s1: "custody_inv H env s1" "\<And>v. known v s \<Longrightarrow> known v s1" by auto
  show ?case
  proof (cases r)
    case (Inr ok)
    with Cons.IH [OF s1(1) Cons.prems(2)] s1(2) Cons.prems(3) one show ?thesis by auto
  qed (use one s1 in auto)
qed simp

lemma keeps_tick_payouts: "inj (uuid_hex env) \<Longrightarrow> custody_inv H env s \<Longrightarrow> custody_inv H env (snd (tick_payouts env now s))"
  using pay_all_inv [of H env s "list_managed_wallets_in_state ACTIVE s" now 0]
    pay_all_inv [of H env "snd (pay_all env now (list_managed_wallets_in_state ACTIVE s) 0 s)" _ now]
  by (auto simp: tick_payouts_def listed_known split: prod.split sum.split)

lemma draws_inv: "custody_inv H env s \<Longrightarrow> custody_inv H env (s\<lparr>cu_draws := cu_draws s + n\<rparr>)"
  unfolding custody_inv_def payout_ok_def wallet_ok_def is_whitelisted_def by simp (meson trans_less_add1)

lemma create_inv:
  assumes inv: "custody_inv H env s" and new: "mw_uid w = None" "mw_total_paid_alpha w = 0" "mw_state w = AWAITING_FUNDING"
    "is_valid_ss58 (blake2b_digest env) (mw_payout_address w)" "\<not> is_whitelisted (mw_hotkey_ss58 w) s"
  shows "custody_inv H env (snd (create_managed_wallet w s))"
proof (cases "\<exists>r \<in> set (cu_wallets s). mw_wallet_id r = mw_wallet_id w \<or> mw_coldkey_ss58 r = mw_coldkey_ss58 w \<or>
           mw_hotkey_ss58 r = mw_hotkey_ss58 w")
  case False
  then have fresh: "mw_wallet_id w \<notin> mw_wallet_id ` set (cu_wallets s)" "mw_hotkey_ss58 w \<notin> mw_hotkey_ss58 ` set (cu_wallets s)"
    by auto
  have "po_wallet_id p \<noteq> mw_wallet_id w" if "p \<in> set (cu_payouts s)" for p
    using inv that fresh(1) unfolding custody_inv_def payout_ok_def by (metis image_eqI)
  then have "paid_out (mw_wallet_id w) (cu_payouts s) = 0" by (simp add: paid_out_def filter_False cong: conj_cong)
  then have "wallet_ok H env s w" using new by (simp add: wallet_ok_def)
  with inv fresh have "custody_inv H env (s\<lparr>cu_wallets := cu_wallets s @ [w]\<rparr>)"
    by (auto simp: custody_inv_def wallet_ok_def is_whitelisted_def payout_ok_def)
  then show ?thesis using False by (simp add: create_managed_wallet_def)
qed (use inv in \<open>simp add: create_managed_wallet_def\<close>)

lemma provision_inv:
  assumes "custody_inv H env s" and "\<not> is_whitelisted (kp_ss58_address (create_keypair env (cu_draws s + 2))) s"
  shows "custody_inv H env (snd (provision_for_application env now app addr s))"
proof -
  let ?s1 = "s\<lparr>cu_draws := cu_draws s + 3\<rparr>"
  have "custody_inv H env ?s1" using assms(1) by (rule draws_inv)
  moreover have "custody_inv H env (snd (create_managed_wallet w ?s1))"
    if "provision_wallet env now (create_keypair env (cu_draws s + 1)) (create_keypair env (cu_draws s + 2)) wid app addr q = Inr w" for w wid q
    using that assms(2)
    by (intro create_inv \<open>custody_inv H env ?s1\<close>) (auto simp: provision_wallet_def is_whitelisted_def split: if_splits)
  ultimately show ?thesis
    using assms(1) by (auto simp: provision_for_application_def Let_def split: option.split sum.split)
qed

lemma distinct_key_once: "distinct_keys key (filter P xs) \<Longrightarrow> length (filter (\<lambda>x. P x \<and> key x = k) xs) \<le> 1"
proof (induction xs)
  case (Cons x xs)
  then show ?case by (cases "P x \<and> key x = k") (auto simp: filter_empty_conv rev_image_eqI split: if_splits)
qed simp

section \<open>The custody machine\<close>

text \<open>
  Every change to the tables, in any order: provisioning, the three ticks, and the whitelist changes of the
  validator's routes (an administrator's entry, the automatic review, the approval of an application, a
  revocation), which may name any hotkey, also one under custody.  The second component of the state is no
  state of the program: it remembers the hotkeys that a route has whitelisted.  A fresh hotkey is not already
  in the whitelist; \<^verbatim>\<open>uuid4\<close> does not repeat.
\<close>

inductive custody_step :: "'c custody_env \<Rightarrow> 'c custody \<times> string set \<Rightarrow> 'c custody \<times> string set \<Rightarrow> bool" for env where
  provision: "\<not> is_whitelisted (kp_ss58_address (create_keypair env (cu_draws s + 2))) s \<Longrightarrow>
    custody_step env (s, H) (snd (provision_for_application env now app addr s), H)"
| funding: "custody_step env (s, H) (snd (tick_funding env now s), H)"
| registration: "custody_step env (s, H) (snd (tick_registration env now s), H)"
| payouts: "inj (uuid_hex env) \<Longrightarrow> custody_step env (s, H) (snd (tick_payouts env now s), H)"
| approve: "custody_step env (s, H) (add_whitelist_entry e s, insert (wh_hotkey e) H)"
| revoke: "custody_step env (s, H) (snd (remove_whitelist_entry hk s), H)"
| chain_moves: "custody_step env (s, H) (s\<lparr>cu_chain := c\<rparr>, H)"

definition new_custody :: "'c \<Rightarrow> 'c custody" where
  "new_custody c = \<lparr>cu_wallets = [], cu_payouts = [], cu_whitelist = [], cu_chain = c, cu_draws = 0\<rparr>"

lemma revoke_inv: "custody_inv H env s \<Longrightarrow> custody_inv H env (snd (remove_whitelist_entry hk s))"
  by (auto simp: custody_inv_def wallet_ok_def payout_ok_def remove_whitelist_entry_def is_whitelisted_def get_row_delete_row)

lemma approve_inv: "custody_inv H env s \<Longrightarrow> custody_inv (insert (wh_hotkey e) H) env (add_whitelist_entry e s)"
  by (rule whitelist_inv) (auto simp: custody_inv_def wallet_ok_def)

lemma custody_step_keeps:
  "custody_step env x y \<Longrightarrow> custody_inv (snd x) env (fst x) \<Longrightarrow> custody_inv (snd y) env (fst y)"
proof (induction rule: custody_step.induct)
  case (funding s H now)
  have "keeps H env s (snd (tick_funding env now s))"
    unfolding tick_funding_def by (rule keeps_fund_all) (simp add: list_managed_wallets_in_state_def)
  with funding show ?case by (simp add: keeps_def)
next
  case (registration s H now)
  with keeps_tick_registration [of H env s now] show ?case by (simp add: keeps_def)
qed (simp_all add: provision_inv keeps_tick_payouts revoke_inv approve_inv)

interpretation custody_machine: invariant_system "custody_step env" "\<lambda>x. custody_inv (snd x) env (fst x)" "(new_custody c, {})"
  for env :: "'c custody_env" and c
proof
  show "custody_step env x y \<Longrightarrow> custody_inv (snd x) env (fst x) \<Longrightarrow> custody_inv (snd y) env (fst y)" for x y
    by (rule custody_step_keeps)
qed (simp add: new_custody_def custody_inv_def)

text \<open>
  (C24) Custody, whatever the order of provisioning, ticks and whitelist changes and whatever the chain answers: a
  managed hotkey is in the whitelist only once its neuron has a uid, unless one of the validator's routes
  has whitelisted that very hotkey; the total a wallet is said to have been paid is the sum of its confirmed
  payouts; at most one payout of a wallet is in flight; and every payout of it, confirmed or not, was at least
  the minimum and addressed to the provider's own, checksummed address.
\<close>

theorem custody_reachable:
  assumes "(custody_step env)\<^sup>*\<^sup>* (new_custody c, {}) (s, by_route)" and "w \<in> set (cu_wallets s)"
  shows "(is_whitelisted (mw_hotkey_ss58 w) s \<longrightarrow> mw_uid w \<noteq> None \<or> mw_hotkey_ss58 w \<in> by_route) \<and>
    mw_total_paid_alpha w = paid_out (mw_wallet_id w) (cu_payouts s) \<and>
    length (filter (\<lambda>p. po_status p = Submitting \<and> po_wallet_id p = mw_wallet_id w) (cu_payouts s)) \<le> 1 \<and>
    (\<forall>p \<in> set (cu_payouts s). po_wallet_id p = mw_wallet_id w \<longrightarrow>
       po_destination p = mw_payout_address w \<and> is_valid_ss58 (blake2b_digest env) (po_destination p) \<and>
       MIN_PAYOUT_ALPHA \<le> po_alpha_amount p)"
proof -
  have inv: "custody_inv by_route env s" using custody_machine.reachable_inv [OF assms(1)] by simp
  then have ok: "wallet_ok by_route env s w" using assms(2) by (simp add: custody_inv_def)
  have one: "length (filter (\<lambda>p. po_status p = Submitting \<and> po_wallet_id p = mw_wallet_id w) (cu_payouts s)) \<le> 1"
    using inv by (intro distinct_key_once) (simp add: custody_inv_def)
  have "po_destination p = mw_payout_address w \<and> MIN_PAYOUT_ALPHA \<le> po_alpha_amount p"
    if p: "p \<in> set (cu_payouts s)" "po_wallet_id p = mw_wallet_id w" for p
  proof -
    obtain v where v: "v \<in> set (cu_wallets s)" "mw_wallet_id v = mw_wallet_id w" "mw_payout_address v = po_destination p"
      and min: "MIN_PAYOUT_ALPHA \<le> po_alpha_amount p"
      using inv p unfolding custody_inv_def payout_ok_def by metis
    have "v = w" using inv v(1,2) assms(2) by (auto simp: custody_inv_def distinct_map dest: inj_onD)
    with v min show ?thesis by simp
  qed
  with ok one show ?thesis by (simp add: wallet_ok_def)
qed

text \<open>A world in which the witnesses run: the chain is the uid of the one hotkey, registration costs 1 TAO and
  succeeds, the coldkey holds 2 TAO and the hotkey has accrued 5 alpha.\<close>

definition custody_demo :: "int option custody_env" where
  "custody_demo = \<lparr>create_keypair = (\<lambda>n. \<lparr>kp_ss58_address = replicate n CHR ''k'', kp_mnemonic = ''words''\<rparr>),
     encrypt = (\<lambda>m c. m), decrypt = (\<lambda>m c. Inr m), blake2b_digest = (\<lambda>_. [0, 0]), uuid_hex = (\<lambda>n. replicate n CHR ''a''),
     default_netuid = 110, registration_burn_tao = (\<lambda>c n. Inr 1), coldkey_balance_tao = (\<lambda>c a. Inr 2),
     staked_alpha = (\<lambda>c a h n. Inr (Finite 5)), chain_uid = (\<lambda>c h n. Inr c),
     register_extrinsic = (\<lambda>c a h n. (Inr \<lparr>eo_success = True, eo_hash = None, eo_message = None\<rparr>, Some 7)),
     transfer_alpha = (\<lambda>c a h d hk n x. (Inr \<lparr>eo_success = True, eo_hash = Some ''0x1'', eo_message = None\<rparr>, c))\<rparr>"

definition demo_address :: string where
  "demo_address = ''5C62Ck4UrFPiBtoCmeSrgF7x9yv9mn38446dhCpsi2mLHhZq''"

lemma demo_address_valid: "is_valid_ss58 (\<lambda>_. [0, 0]) demo_address"
proof -
  have "b58_number 0 demo_address = Some 318748874151804290420011588296365058349369173607344767342649551481516602310554353664"
    by (simp add: demo_address_def B58_INDEX_def B58_ALPHABET_def)
  moreover have "digits 256 318748874151804290420011588296365058349369173607344767342649551481516602310554353664 = [42, 1, 1, 1, 1, 1, 1, 1, 1, 1, 1, 1, 1, 1, 1, 1, 1, 1, 1, 1, 1, 1, 1, 1, 1, 1, 1, 1, 1, 1, 1, 1, 1, 0, 0]"
    by (simp add: digits.simps)
  moreover have "length demo_address = 48" "dropWhile (\<lambda>c. c = CHR ''1'') demo_address = demo_address"
    by (simp_all add: demo_address_def)
  ultimately show ?thesis
    by (auto simp: is_valid_ss58_def b58_decode_def BITTENSOR_SS58_PREFIX_def)
qed

definition demo_wallet :: managed_wallet where
  "demo_wallet = \<lparr>mw_wallet_id = ''mw-'', mw_application_id = ''app'', mw_coldkey_ss58 = ''k'', mw_hotkey_ss58 = ''kk'',
     mw_coldkey_mnemonic_enc = ''words'', mw_hotkey_mnemonic_enc = ''words'', mw_payout_address = demo_address,
     mw_state = AWAITING_FUNDING, mw_netuid = 110, mw_required_funding_tao = 31 / 20, mw_funded_tao = 0, mw_uid = None,
     mw_total_paid_alpha = 0, mw_created_at = 0, mw_funded_at = None, mw_registered_at = None, mw_last_payout_at = None,
     mw_failure_reason = None\<rparr>"

definition demo_start :: "int option custody" where
  "demo_start = \<lparr>cu_wallets = [demo_wallet], cu_payouts = [], cu_whitelist = [], cu_chain = None, cu_draws = 3\<rparr>"

lemma demo_provision:
  "provision_for_application custody_demo 0 ''app'' demo_address (new_custody None) = (Inr demo_wallet, demo_start)"
  by (simp add: provision_for_application_def new_custody_def get_managed_wallet_by_application_def quote_funding_def custody_demo_def
    MAX_QUOTE_TAO_def REGISTRATION_BUFFER_def PAYOUT_FEE_RESERVE_TAO_def provision_wallet_def demo_address_valid create_managed_wallet_def
    demo_start_def demo_wallet_def round_to_def py_round_def Let_def)

definition demo_funded :: managed_wallet where
  "demo_funded = demo_wallet\<lparr>mw_state := FUNDED, mw_funded_tao := 2, mw_funded_at := Some 0\<rparr>"

definition demo_active :: managed_wallet where
  "demo_active = demo_funded\<lparr>mw_state := ACTIVE, mw_uid := Some 7, mw_registered_at := Some 1\<rparr>"

definition demo_listing :: whitelist_entry where
  "demo_listing = \<lparr>wh_hotkey = ''kk'', wh_label = ''managed:app'', wh_notes = ''platform-managed wallet mw-'', wh_approved_at = 1\<rparr>"

definition demo_paid :: payout where
  "demo_paid = \<lparr>po_payout_id = ''pay-aaa'', po_wallet_id = ''mw-'', po_destination = demo_address,
       po_alpha_amount = 5, po_netuid = 110, po_extrinsic_hash = Some ''0x1'', po_status = Confirmed, po_failure_reason = None,
       po_created_at = 2, po_confirmed_at = Some 2\<rparr>"

lemmas custody_eval = list_managed_wallets_in_state_def custody_demo_def demo_start_def demo_wallet_def demo_funded_def
  advance_managed_wallet_def advanced_row_def can_transition_def no_change_def or_keep_def

lemma demo_funding: "snd (tick_funding custody_demo 0 demo_start) = demo_start\<lparr>cu_wallets := [demo_funded]\<rparr>"
  by (simp add: tick_funding_def fund_one_def check_funding_def custody_eval)

lemma demo_registration:
  "snd (tick_registration custody_demo 1 (demo_start\<lparr>cu_wallets := [demo_funded]\<rparr>)) =
   demo_start\<lparr>cu_wallets := [demo_active], cu_whitelist := [demo_listing], cu_chain := Some 7\<rparr>"
  by (simp add: tick_registration_def register_one_def plan_registration_def custody_eval PAYOUT_FEE_RESERVE_TAO_def Let_def
     submit_registration_def decrypted_keys_def activate_one_def add_whitelist_entry_def demo_active_def demo_listing_def)

lemma demo_payout:
  "snd (tick_payouts custody_demo 2 (demo_start\<lparr>cu_wallets := [demo_active], cu_whitelist := [demo_listing], cu_chain := Some 7\<rparr>)) =
   demo_start\<lparr>cu_wallets := [demo_active\<lparr>mw_total_paid_alpha := 5, mw_last_payout_at := Some 2\<rparr>], cu_whitelist := [demo_listing],
     cu_chain := Some 7, cu_draws := 4, cu_payouts := [demo_paid]\<rparr>"
  by (simp add: tick_payouts_def custody_eval demo_active_def pay_one_def has_inflight_payout_def plan_payout_def MIN_PAYOUT_ALPHA_def
     demo_address_valid Let_def pay_planned_def payout_id_def note_payout_def record_managed_payout_def send_alpha_def decrypted_keys_def
     settle_payout_def credit_managed_payout_def demo_paid_def numeral_eq_Suc)

definition demo_winner :: managed_wallet where
  "demo_winner = demo_active\<lparr>mw_total_paid_alpha := 5, mw_last_payout_at := Some 2\<rparr>"

definition demo_end :: "int option custody" where
  "demo_end = demo_start\<lparr>cu_wallets := [demo_winner], cu_whitelist := [demo_listing], cu_chain := Some 7, cu_draws := 4,
     cu_payouts := [demo_paid]\<rparr>"

lemma demo_run:
  "(custody_step custody_demo)\<^sup>*\<^sup>* (new_custody None, {}) (demo_end, {})"
proof -
  have 1: "custody_step custody_demo (new_custody None, {}) (demo_start, {})"
    using custody_step.provision [of custody_demo "new_custody None" "{}" 0 "''app''" demo_address] demo_provision
    by (simp add: new_custody_def is_whitelisted_def)
  have 2: "custody_step custody_demo (demo_start, {}) (demo_start\<lparr>cu_wallets := [demo_funded]\<rparr>, {})"
    using custody_step.funding [of custody_demo demo_start "{}" 0] by (simp add: demo_funding)
  have 3: "custody_step custody_demo (demo_start\<lparr>cu_wallets := [demo_funded]\<rparr>, {})
      (demo_start\<lparr>cu_wallets := [demo_active], cu_whitelist := [demo_listing], cu_chain := Some 7\<rparr>, {})"
    using custody_step.registration [of custody_demo "demo_start\<lparr>cu_wallets := [demo_funded]\<rparr>" "{}" 1] by (simp add: demo_registration)
  have "inj (uuid_hex custody_demo)" by (rule injI) (simp add: custody_demo_def replicate_eq_replicate)
  from custody_step.payouts [OF this, of "demo_start\<lparr>cu_wallets := [demo_active], cu_whitelist := [demo_listing], cu_chain := Some 7\<rparr>" "{}" 2]
  have 4: "custody_step custody_demo (demo_start\<lparr>cu_wallets := [demo_active], cu_whitelist := [demo_listing], cu_chain := Some 7\<rparr>, {})
     (demo_end, {})" by (simp add: demo_payout demo_end_def demo_winner_def)
  from 1 2 3 4 show ?thesis by (meson rtranclp.rtrancl_into_rtrancl rtranclp.rtrancl_refl)
qed

text \<open>One such run: provisioned, funded, registered (and so whitelisted, by no route), paid out.\<close>

theorem custody_reachable_witness:
  "(custody_step custody_demo)\<^sup>*\<^sup>* (new_custody None, {}) (demo_end, {}) \<and> cu_wallets demo_end = [demo_winner] \<and>
   is_whitelisted (mw_hotkey_ss58 demo_winner) demo_end \<and> mw_uid demo_winner \<noteq> None \<and>
   mw_total_paid_alpha demo_winner = paid_out (mw_wallet_id demo_winner) (cu_payouts demo_end) \<and>
   is_valid_ss58 (blake2b_digest custody_demo) (po_destination demo_paid) \<and> cu_payouts demo_end = [demo_paid]"
proof -
  have in_end: "demo_winner \<in> set (cu_wallets demo_end)" "is_whitelisted (mw_hotkey_ss58 demo_winner) demo_end"
    "cu_payouts demo_end = [demo_paid]" "po_wallet_id demo_paid = mw_wallet_id demo_winner" "cu_wallets demo_end = [demo_winner]"
    by (simp_all add: demo_end_def is_whitelisted_def demo_listing_def demo_winner_def demo_active_def demo_funded_def demo_wallet_def
      demo_paid_def)
  from custody_reachable [OF demo_run in_end(1)] demo_run in_end show ?thesis by auto
qed

lemma advance_chain [simp]: "cu_chain (snd (advance_managed_wallet now wid t c s)) = cu_chain s"
  by (simp add: advance_managed_wallet_def split: option.split)

lemma submit_chain:
  assumes "submit_registration env now w s = (r, s')"
  shows "cu_chain s' = cu_chain s \<or> (\<exists>cold hot. cu_chain s' = snd (register_extrinsic env (cu_chain s) cold hot (mw_netuid w)))"
proof -
  obtain res s1 where sub: "(case decrypted_keys env w of Inl e \<Rightarrow> (Inl e, s)
      | Inr (cold, hot) \<Rightarrow> let (r, chain) = register_extrinsic env (cu_chain s) cold hot (mw_netuid w) in (r, s\<lparr>cu_chain := chain\<rparr>)) =
      (res, s1)" by fastforce
  then have "cu_chain s1 = cu_chain s \<or> (\<exists>cold hot. cu_chain s1 = snd (register_extrinsic env (cu_chain s) cold hot (mw_netuid w)))"
    by (auto split: sum.splits prod.splits) (metis snd_conv)
  moreover have "cu_chain s' = cu_chain s1"
    using assms unfolding submit_registration_def sub
    by (auto simp: registration_failed_def split: sum.splits option.splits)
  ultimately show ?thesis by simp
qed

text \<open>
  (C27) The registration fee is spent only when it is covered: if a registration attempt writes to the chain at
  all, it was the one registration extrinsic, sent while the planned wallet was funded, its hotkey had no uid,
  the burn was covered by the balance with the payout-fee reserve left over, and the stored row could be moved
  to REGISTERING.
\<close>

theorem registration_spends_only_when_covered:
  assumes "register_one env now w s = (r, s')" and "cu_chain s' \<noteq> cu_chain s"
  shows "mw_state w = FUNDED \<and> chain_uid env (cu_chain s) (mw_hotkey_ss58 w) (mw_netuid w) = Inr None \<and>
    (\<exists>burn balance. registration_burn_tao env (cu_chain s) (mw_netuid w) = Inr burn \<and>
       coldkey_balance_tao env (cu_chain s) (mw_coldkey_ss58 w) = Inr balance \<and> burn + PAYOUT_FEE_RESERVE_TAO \<le> balance) \<and>
    (\<exists>row. get_managed_wallet (mw_wallet_id w) s = Some row \<and> can_transition (mw_state row) REGISTERING) \<and>
    (\<exists>cold hot. cu_chain s' = snd (register_extrinsic env (cu_chain s) cold hot (mw_netuid w)))"
proof -
  obtain plan where plan: "plan_registration env (cu_chain s) w = Inr plan" "rp_should_register plan"
    using assms by (auto simp: register_one_def Let_def split: sum.splits if_splits)
  obtain res s1 where adv: "advance_managed_wallet now (mw_wallet_id w) REGISTERING no_change s = (res, s1)" by fastforce
  have chain: "cu_chain s1 = cu_chain s" using arg_cong [OF adv, of "\<lambda>x. cu_chain (snd x)"] by simp
  with assms plan adv have sub: "submit_registration env now w s1 = (r, s')" and res: "res \<noteq> None"
    by (auto simp: register_one_def split: option.splits)
  have "\<exists>row. get_managed_wallet (mw_wallet_id w) s = Some row \<and> can_transition (mw_state row) REGISTERING"
    using adv res by (auto simp: advance_managed_wallet_def get_managed_wallet_def split: option.splits if_splits)
  moreover have "\<exists>cold hot. cu_chain s' = snd (register_extrinsic env (cu_chain s) cold hot (mw_netuid w))"
    using submit_chain [OF sub] assms(2) chain by metis
  moreover have "mw_state w = FUNDED \<and> chain_uid env (cu_chain s) (mw_hotkey_ss58 w) (mw_netuid w) = Inr None \<and>
    (\<exists>burn balance. registration_burn_tao env (cu_chain s) (mw_netuid w) = Inr burn \<and>
       coldkey_balance_tao env (cu_chain s) (mw_coldkey_ss58 w) = Inr balance \<and> burn + PAYOUT_FEE_RESERVE_TAO \<le> balance)"
    using plan by (auto simp: plan_registration_def Let_def split: sum.splits option.splits if_splits)
  ultimately show ?thesis by blast
qed

theorem registration_spends_only_when_covered_witness:
  "chain_uid custody_demo None ''kk'' 110 = Inr None \<and> coldkey_balance_tao custody_demo None ''k'' = Inr 2 \<and>
   cu_chain (snd (register_one custody_demo 1 demo_funded (demo_start\<lparr>cu_wallets := [demo_funded]\<rparr>))) = Some 7"
proof -
  let ?s = "demo_start\<lparr>cu_wallets := [demo_funded]\<rparr>"
  have moved: "cu_chain (snd (register_one custody_demo 1 demo_funded ?s)) = Some 7"
    by (simp add: register_one_def plan_registration_def custody_eval PAYOUT_FEE_RESERVE_TAO_def Let_def
        submit_registration_def decrypted_keys_def)
  moreover have "cu_chain ?s = None" "mw_hotkey_ss58 demo_funded = ''kk''" "mw_netuid demo_funded = 110"
    by (simp_all add: demo_start_def demo_funded_def demo_wallet_def)
  ultimately have "chain_uid custody_demo None ''kk'' 110 = Inr None"
    using registration_spends_only_when_covered [of custody_demo 1 demo_funded ?s] by (metis option.distinct(1) prod.collapse)
  with moved show ?thesis by (simp add: custody_demo_def)
qed

section \<open>Weaknesses of the lifecycle\<close>

text \<open>The guard of \<^verbatim>\<open>advance_managed_wallet\<close> does not serialise two workers: a state may always be re-entered, so
  after one worker has moved the row to REGISTERING a second one with the same snapshot moves it again,
  is told it won, and submits a second registration.\<close>

lemma both_workers_win:
  assumes "get_managed_wallet (mw_wallet_id w) s = Some w" and "mw_state w = FUNDED"
    and "advance_managed_wallet now (mw_wallet_id w) REGISTERING no_change s = (first, s1)"
    and "advance_managed_wallet later (mw_wallet_id w) REGISTERING no_change s1 = (second, s2)"
  shows "first \<noteq> None \<and> second \<noteq> None"
proof -
  have "first = Some (advanced_row now REGISTERING no_change w)"
    "get_row mw_wallet_id (mw_wallet_id w) (cu_wallets s1) = Some (advanced_row now REGISTERING no_change w)"
    using assms(1-3) by (auto simp: advance_managed_wallet_def get_managed_wallet_def can_transition_def get_row_modify_row)
  with assms(4) show ?thesis by (auto simp: advance_managed_wallet_def can_transition_def)
qed

text \<open>A re-quote keeps the creation time the funding window is counted from: when the burn has risen above
  the balance more than fourteen days after the wallet was created, the next funding tick expires the
  wallet whatever time has passed since the re-quote.\<close>

lemma requote_expires_at_once:
  assumes row: "get_managed_wallet (mw_wallet_id w) s = Some w" and state: "mw_state w = FUNDED"
    and plan: "plan_registration env (cu_chain s) w = Inr plan" "\<not> rp_should_register plan" "0 < rp_additional_funding_tao plan"
    and late: "now - mw_created_at w > FUNDING_WINDOW" and run: "register_one env now w s = (r, s1)"
    and row1: "get_managed_wallet (mw_wallet_id w) s1 = Some w1" and short: "balance < mw_required_funding_tao w1"
  shows "mw_state w1 = AWAITING_FUNDING \<and> fc_state (check_funding w1 balance now) = FUNDING_EXPIRED"
proof -
  obtain c where "w1 = advanced_row now AWAITING_FUNDING c w"
    using row state plan run row1
    by (auto simp: register_one_def advance_managed_wallet_def get_managed_wallet_def can_transition_def get_row_modify_row)
  with late short show ?thesis by (simp add: check_funding_def advanced_row_def Let_def)
qed

text \<open>A registration the chain could not confirm stays in REGISTERING, and no tick looks at that state: the
  funding tick reads AWAITING_FUNDING, the registration tick FUNDED and REGISTERED, the payout tick ACTIVE
  and SUSPENDED.\<close>

lemma registering_is_stuck:
  assumes "cu_wallets s = [w]" and "mw_state w = REGISTERING"
  shows "snd (tick_funding env now s) = s \<and> snd (tick_registration env now s) = s \<and> snd (tick_payouts env now s) = s"
  using assms by (simp add: tick_funding_def tick_registration_def tick_payouts_def list_managed_wallets_in_state_def)

end
