(* ===== verification/Multinode.thy ===== *)
theory Multinode
  imports Scheduler Grouping "HOL-Library.Char_ord" "HOL-Library.List_Lexorder" "HOL-Library.Product_Lexorder"
begin

text \<open>
  Distributed replicas: the placement planner of \<^verbatim>\<open>validator/domain/multinode.py\<close>, the deployment rows it is
  stored in (\<^verbatim>\<open>validator/infrastructure/repository.py\<close>) and the fleet-level reconciler of
  \<^verbatim>\<open>validator/application/services.py\<close>.

  \<^verbatim>\<open>MultiNodeConfig\<close>, \<^verbatim>\<open>MultiNodePlan\<close> and its assignments come from the protocol package: their stored
  attributes are record fields, the computed ones the code reads from a configuration
  (\<^verbatim>\<open>is_distributed\<close> and the effective parallel sizes) are fields too, and \<^verbatim>\<open>is_head\<close> of an assignment and
  \<^verbatim>\<open>head\<close> of a plan are arguments, gathered in \<open>fleet_env\<close> with the reading of a numeric label and the
  random identifiers.  Logging and metric counters are left out.
\<close>

section \<open>Placement\<close>

definition INTERCONNECT_LABEL :: string where "INTERCONNECT_LABEL = ''interconnect_gbps''"
definition DOMAIN_LABEL :: string where "DOMAIN_LABEL = ''interconnect_domain''"
definition CLUSTER_ADDRESS_LABEL :: string where "CLUSTER_ADDRESS_LABEL = ''cluster_ip''"
definition INGRESS_LABEL :: string where "INGRESS_LABEL = ''serves_ingress''"

record multi_node_config =
  mc_node_count :: int
  mc_gpus_per_node :: int
  mc_min_interconnect_gbps :: rat
  mc_is_distributed :: bool
  mc_tensor_parallel_size :: int
  mc_pipeline_parallel_size :: int
  mc_backend :: string

record node_assignment =
  na_hotkey :: ident
  na_node_id :: ident
  na_rank :: int
  na_gpu_count :: int

record multi_node_plan =
  mp_model_id :: ident
  mp_assignments :: "node_assignment list"
  mp_tensor_parallel_size :: int
  mp_pipeline_parallel_size :: int
  mp_backend :: string

record node_candidate =
  nc_hotkey :: ident
  nc_node_id :: ident
  nc_available_gpus :: int
  nc_vram_gb_per_gpu :: int
  nc_gpu_model :: string
  nc_labels :: "(string \<times> string) list"

record fleet_env =
  float_of :: "string \<Rightarrow> rat option"
  is_head :: "node_assignment \<Rightarrow> bool"
  plan_head :: "multi_node_plan \<Rightarrow> node_assignment"
  fresh_id :: "nat \<Rightarrow> ident"

definition interconnect_gbps :: "fleet_env \<Rightarrow> node_candidate \<Rightarrow> rat" where
  "interconnect_gbps env n =
     (case map_of (nc_labels n) INTERCONNECT_LABEL of
        None \<Rightarrow> 0 | Some v \<Rightarrow> (case float_of env v of None \<Rightarrow> 0 | Some x \<Rightarrow> x))"

definition fabric_domain :: "node_candidate \<Rightarrow> string" where
  "fabric_domain n = the (str_or (map_of (nc_labels n) DOMAIN_LABEL) (Some (nc_hotkey n)))"

definition eligible :: "fleet_env \<Rightarrow> multi_node_config \<Rightarrow> int \<Rightarrow> node_candidate \<Rightarrow> bool" where
  "eligible env config min_vram_gb n \<longleftrightarrow>
     nc_available_gpus n \<ge> mc_gpus_per_node config \<and> nc_vram_gb_per_gpu n \<ge> min_vram_gb \<and>
     interconnect_gbps env n \<ge> mc_min_interconnect_gbps config"

definition group_key :: "node_candidate \<Rightarrow> ident \<times> string \<times> string \<times> int" where
  "group_key n = (nc_hotkey n, fabric_domain n, lower (nc_gpu_model n), nc_vram_gb_per_gpu n)"

definition serves_ingress :: "node_candidate \<Rightarrow> bool" where
  "serves_ingress n \<longleftrightarrow>
     lower (strip (case map_of (nc_labels n) INGRESS_LABEL of None \<Rightarrow> [] | Some v \<Rightarrow> v)) \<in> {''1'', ''true'', ''yes''}"

definition group_rank :: "fleet_env \<Rightarrow> node_candidate list \<Rightarrow> int \<times> rat \<times> ident \<times> string" where
  "group_rank env g =
     (- sum_list (map nc_available_gpus g), - Min (set (map (interconnect_gbps env) g)), nc_hotkey (hd g), fabric_domain (hd g))"

definition node_order :: "node_candidate \<Rightarrow> bool \<times> int \<times> ident" where
  "node_order n = (\<not> serves_ingress n, - nc_available_gpus n, nc_node_id n)"

text \<open>The slice \<^verbatim>\<open>xs[:n]\<close>: a negative \<^verbatim>\<open>n\<close> counts from the end.\<close>

definition slice_to :: "int \<Rightarrow> 'a list \<Rightarrow> 'a list" where
  "slice_to n xs = take (nat (if 0 \<le> n then n else int (length xs) + n)) xs"

definition viable_groups :: "fleet_env \<Rightarrow> multi_node_config \<Rightarrow> int \<Rightarrow> node_candidate list \<Rightarrow> node_candidate list list" where
  "viable_groups env config min_vram_gb candidates =
     filter (\<lambda>g. int (length g) \<ge> mc_node_count config)
       (map snd (group_by group_key (filter (eligible env config min_vram_gb) candidates)))"

definition assign_rank :: "multi_node_config \<Rightarrow> int \<times> node_candidate \<Rightarrow> node_assignment" where
  "assign_rank config p =
     \<lparr>na_hotkey = nc_hotkey (snd p), na_node_id = nc_node_id (snd p), na_rank = fst p, na_gpu_count = mc_gpus_per_node config\<rparr>"

definition numbered :: "'a list \<Rightarrow> (int \<times> 'a) list" where
  "numbered xs = zip (map int [0..<length xs]) xs"

definition plan_multi_node_placement ::
  "fleet_env \<Rightarrow> ident \<Rightarrow> multi_node_config \<Rightarrow> node_candidate list \<Rightarrow> int \<Rightarrow> multi_node_plan option" where
  "plan_multi_node_placement env model_id config candidates min_vram_gb =
     (if \<not> mc_is_distributed config then None
      else case sort_key (group_rank env) (viable_groups env config min_vram_gb candidates) of
             [] \<Rightarrow> None
           | chosen_group # _ \<Rightarrow>
               let selected = slice_to (mc_node_count config) (sort_key node_order chosen_group)
               in Some \<lparr>mp_model_id = model_id, mp_assignments = map (assign_rank config) (numbered selected),
                        mp_tensor_parallel_size = mc_tensor_parallel_size config,
                        mp_pipeline_parallel_size = mc_pipeline_parallel_size config, mp_backend = mc_backend config\<rparr>)"

section \<open>Rank rows\<close>

datatype rank_role = Head | Worker

record rank_spec =
  rs_replica_id :: ident
  rs_role :: rank_role
  rs_rank :: int
  rs_node_count :: int
  rs_gpus_per_node :: int
  rs_tensor_parallel_size :: int
  rs_pipeline_parallel_size :: int
  rs_head_host :: string
  rs_model_id :: ident

definition head_address :: "node_candidate \<Rightarrow> string" where
  "head_address n = strip (case map_of (nc_labels n) CLUSTER_ADDRESS_LABEL of None \<Rightarrow> [] | Some v \<Rightarrow> v)"

record replica_row =
  rr_hotkey :: ident
  rr_node_id :: ident
  rr_multi_node :: rank_spec

definition build_replica_rows :: "fleet_env \<Rightarrow> multi_node_plan \<Rightarrow> ident \<Rightarrow> string \<Rightarrow> int \<Rightarrow> replica_row list" where
  "build_replica_rows env plan replica_id head_host gpus_per_node =
     map (\<lambda>a. \<lparr>rr_hotkey = na_hotkey a, rr_node_id = na_node_id a,
               rr_multi_node = \<lparr>rs_replica_id = replica_id, rs_role = (if is_head env a then Head else Worker),
                 rs_rank = na_rank a, rs_node_count = int (length (mp_assignments plan)), rs_gpus_per_node = gpus_per_node,
                 rs_tensor_parallel_size = mp_tensor_parallel_size plan,
                 rs_pipeline_parallel_size = mp_pipeline_parallel_size plan, rs_head_host = head_host,
                 rs_model_id = mp_model_id plan\<rparr>\<rparr>)
       (sort_key na_rank (mp_assignments plan))"

text \<open>A deployment row of the fleet: the columns the validator reads and writes.\<close>

record flux_deployment =
  fd_deployment_id :: ident
  fd_workload_id :: ident
  fd_owner :: "ident option"
  fd_hotkey :: ident
  fd_node_id :: ident
  fd_state :: string
  fd_multi_node :: "rank_spec option"
  fd_created_at :: time
  fd_updated_at :: time

datatype multinode_error = TypeError | ZeroDivisionError

definition replica_is_ready :: "string list \<Rightarrow> bool" where
  "replica_is_ready rank_states \<longleftrightarrow> rank_states \<noteq> [] \<and> list_all (\<lambda>st. st = ''ready'') rank_states"

definition is_worker_row :: "flux_deployment \<Rightarrow> bool" where
  "is_worker_row r \<longleftrightarrow> (case fd_multi_node r of None \<Rightarrow> False | Some m \<Rightarrow> rs_role m = Worker)"

definition teardown_order :: "flux_deployment list \<Rightarrow> flux_deployment list" where
  "teardown_order rows = sort_key (\<lambda>r. if is_worker_row r then 0 else 1 :: nat) rows"

datatype replica_decision = KEEP | REBUILD | CREATE

definition LIVE_STATES :: "string list" where
  "LIVE_STATES = [''ready'', ''starting'', ''pulling'', ''scheduled'', ''provisioning'', ''pending'']"

text \<open>\<^verbatim>\<open>sorted\<close> of ranks raises when it has to compare a missing rank.\<close>

definition sorted_ranks :: "int option list \<Rightarrow> multinode_error + int option list" where
  "sorted_ranks ranks =
     (if length ranks \<ge> 2 \<and> None \<in> set ranks then Inl TypeError else Inr (sort_key (\<lambda>r. case r of None \<Rightarrow> 0 | Some k \<Rightarrow> k) ranks))"

definition replica_action :: "flux_deployment list \<Rightarrow> int \<Rightarrow> multinode_error + replica_decision" where
  "replica_action rank_rows node_count =
     (let live = filter (\<lambda>r. fd_state r \<in> set LIVE_STATES) rank_rows
      in if live = [] then Inr (if rank_rows = [] then CREATE else REBUILD)
         else if length live \<noteq> length rank_rows then Inr REBUILD
         else if int (length live) \<noteq> node_count then Inr REBUILD
         else case sorted_ranks (map (\<lambda>r. map_option rs_rank (fd_multi_node r)) live) of
                Inl e \<Rightarrow> Inl e
              | Inr ranks \<Rightarrow> Inr (if ranks \<noteq> map Some [0..node_count - 1] then REBUILD else KEEP))"

definition replica_id_of :: "flux_deployment \<Rightarrow> ident option" where
  "replica_id_of r = map_option rs_replica_id (fd_multi_node r)"

definition group_by_replica :: "flux_deployment list \<Rightarrow> (ident \<times> flux_deployment list) list" where
  "group_by_replica rows = group_by (\<lambda>r. the (replica_id_of r)) (filter (\<lambda>r. truthy (replica_id_of r)) rows)"

datatype topology_problem = TensorParallelSpansNodes | GpusNotDivisible | PipelineNotNodeCount | NoInterconnectFloor | UnknownBackend

definition validate_topology :: "multi_node_config \<Rightarrow> multinode_error + topology_problem list" where
  "validate_topology config =
     (let tp = mc_tensor_parallel_size config; pp = mc_pipeline_parallel_size config
      in if tp = 0 then Inl ZeroDivisionError
         else Inr ((if tp > mc_gpus_per_node config then [TensorParallelSpansNodes] else [])
                   @ (if mc_gpus_per_node config mod tp \<noteq> 0 then [GpusNotDivisible] else [])
                   @ (if pp \<noteq> mc_node_count config then [PipelineNotNodeCount] else [])
                   @ (if mc_is_distributed config \<and> mc_min_interconnect_gbps config \<le> 0 then [NoInterconnectFloor] else [])
                   @ (if mc_backend config \<notin> {''ray'', ''vllm-native''} then [UnknownBackend] else [])))"

section \<open>The fleet's deployments\<close>

record distributed_entry =
  de_model_id :: ident
  de_min_vram_gb_per_gpu :: int
  de_min_replicas :: int
  de_multi_node :: "multi_node_config option"

datatype fleet_message =
    ReplicaTerminated "ident option" "ident option" string
  | ReplicaProvisioned ident ident int string

record fleet =
  fl_deployments :: "flux_deployment list"
  fl_leases :: "lease_assignment list"
  fl_events :: "(ident \<times> ident \<times> string) list"
  fl_published :: "fleet_message list"
  fl_draws :: nat

definition live_rank_row :: "flux_deployment \<Rightarrow> bool" where
  "live_rank_row r \<longleftrightarrow> fd_state r \<noteq> ''terminated'' \<and> fd_multi_node r \<noteq> None"

definition list_distributed_replica_rows :: "ident option \<Rightarrow> fleet \<Rightarrow> flux_deployment list" where
  "list_distributed_replica_rows model_id f =
     filter (\<lambda>r. live_rank_row r \<and>
               (case model_id of None \<Rightarrow> True | Some m \<Rightarrow> map_option rs_model_id (fd_multi_node r) = Some m))
       (fl_deployments f)"

definition create_flux_deployment ::
  "fleet_env \<Rightarrow> time \<Rightarrow> ident \<Rightarrow> ident \<Rightarrow> ident \<Rightarrow> rank_spec option \<Rightarrow> fleet \<Rightarrow> ident \<times> fleet" where
  "create_flux_deployment env now hk nid workload_id spec f =
     (let deployment_id = fresh_id env (fl_draws f); assignment_id = fresh_id env (fl_draws f + 1)
      in (deployment_id,
          f\<lparr>fl_draws := fl_draws f + 2,
            fl_deployments := fl_deployments f @
              [\<lparr>fd_deployment_id = deployment_id, fd_workload_id = workload_id, fd_owner = None, fd_hotkey = hk,
                fd_node_id = nid, fd_state = ''scheduled'', fd_multi_node = spec, fd_created_at = now, fd_updated_at = now\<rparr>],
            fl_leases := fl_leases f @
              [\<lparr>la_assignment_id = assignment_id, la_deployment_id = deployment_id, la_workload_id = workload_id,
                la_hotkey = hk, la_node_id = nid, la_assigned_at = now, la_expires_at = None, la_status = ''assigned''\<rparr>]\<rparr>))"

definition terminate_flux_deployment :: "time \<Rightarrow> ident \<Rightarrow> bool \<Rightarrow> fleet \<Rightarrow> bool \<times> fleet" where
  "terminate_flux_deployment now did force f =
     (case get_row fd_deployment_id did (fl_deployments f) of
        None \<Rightarrow> (False, f)
      | Some dep \<Rightarrow>
          if fd_state dep = ''terminated'' then (False, f)
          else if fd_state dep = ''failed'' \<and> \<not> force then (False, f)
          else (True,
                f\<lparr>fl_deployments := modify_row fd_deployment_id did (\<lambda>d. d\<lparr>fd_state := ''terminated'', fd_updated_at := now\<rparr>)
                                     (fl_deployments f),
                  fl_events := fl_events f @ (if truthy (fd_owner dep) then [(the (fd_owner dep), did, fd_state dep)] else []),
                  fl_leases := modify_row la_deployment_id did (\<lambda>l. l\<lparr>la_status := ''terminated''\<rparr>) (fl_leases f)\<rparr>))"

definition get_catalog_workload_id :: "ident \<Rightarrow> workload list \<Rightarrow> ident option" where
  "get_catalog_workload_id model_id workloads = map_option wl_id (get_row wl_name model_id workloads)"

section \<open>The reconciler\<close>

definition publish_fleet :: "fleet_message \<Rightarrow> fleet \<Rightarrow> fleet" where
  "publish_fleet m f = f\<lparr>fl_published := fl_published f @ [m]\<rparr>"

definition terminate_ranks :: "time \<Rightarrow> flux_deployment list \<Rightarrow> fleet \<Rightarrow> fleet" where
  "terminate_ranks now rows f = foldl (\<lambda>f r. snd (terminate_flux_deployment now (fd_deployment_id r) True f)) f rows"

definition first_spec :: "flux_deployment list \<Rightarrow> rank_spec option" where
  "first_spec rows = (case rows of [] \<Rightarrow> None | r # _ \<Rightarrow> fd_multi_node r)"

definition teardown_replica :: "time \<Rightarrow> flux_deployment list \<Rightarrow> string \<Rightarrow> fleet \<Rightarrow> fleet" where
  "teardown_replica now rank_rows reason f =
     publish_fleet (ReplicaTerminated (map_option rs_replica_id (first_spec rank_rows)) (map_option rs_model_id (first_spec rank_rows)) reason)
       (terminate_ranks now (teardown_order rank_rows) f)"

definition orphan_reason :: "ident \<Rightarrow> string" where
  "orphan_reason model_id = ''model '' @ model_id @ '' no longer a distributed entry''"

definition incomplete_reason :: "ident \<Rightarrow> string" where
  "incomplete_reason replica_id = ''incomplete replica '' @ replica_id"

definition distributed_entries :: "distributed_entry list \<Rightarrow> distributed_entry list" where
  "distributed_entries entries =
     filter (\<lambda>e. case de_multi_node e of None \<Rightarrow> False | Some c \<Rightarrow> mc_is_distributed c) entries"

definition retire_orphans :: "time \<Rightarrow> ident list \<Rightarrow> fleet \<Rightarrow> fleet" where
  "retire_orphans now wanted f =
     foldl (\<lambda>f (replica_id, rows).
              let model_id = rs_model_id (the (first_spec rows))
              in if model_id \<notin> set wanted then teardown_replica now rows (orphan_reason model_id) f else f)
       f (group_by_replica (list_distributed_replica_rows None f))"

fun judge_replicas ::
  "time \<Rightarrow> int \<Rightarrow> (ident \<times> flux_deployment list) list \<Rightarrow> int \<Rightarrow> fleet \<Rightarrow> (multinode_error + int) \<times> fleet" where
  "judge_replicas now node_count [] healthy f = (Inr healthy, f)"
| "judge_replicas now node_count ((replica_id, rows) # groups) healthy f =
     (case replica_action rows node_count of
        Inl e \<Rightarrow> (Inl e, f)
      | Inr KEEP \<Rightarrow> judge_replicas now node_count groups (healthy + 1) f
      | Inr REBUILD \<Rightarrow> judge_replicas now node_count groups healthy (teardown_replica now rows (incomplete_reason replica_id) f)
      | Inr CREATE \<Rightarrow> judge_replicas now node_count groups healthy f)"

definition free_nodes :: "flux_deployment list \<Rightarrow> node_candidate list \<Rightarrow> node_candidate list" where
  "free_nodes rank_rows candidates =
     filter (\<lambda>c. (nc_hotkey c, nc_node_id c) \<notin> set (map (\<lambda>r. (fd_hotkey r, fd_node_id r)) rank_rows)) candidates"

definition head_node :: "fleet_env \<Rightarrow> multi_node_plan \<Rightarrow> node_candidate list \<Rightarrow> node_candidate option" where
  "head_node env plan free =
     find (\<lambda>c. nc_hotkey c = na_hotkey (plan_head env plan) \<and> nc_node_id c = na_node_id (plan_head env plan)) free"

definition create_ranks :: "fleet_env \<Rightarrow> time \<Rightarrow> ident \<Rightarrow> replica_row list \<Rightarrow> fleet \<Rightarrow> fleet" where
  "create_ranks env now workload_id rows f =
     foldl (\<lambda>f row. snd (create_flux_deployment env now (rr_hotkey row) (rr_node_id row) workload_id (Some (rr_multi_node row)) f))
       f rows"

definition provision_replica ::
  "fleet_env \<Rightarrow> time \<Rightarrow> ident \<Rightarrow> multi_node_config \<Rightarrow> multi_node_plan \<Rightarrow> string \<Rightarrow> fleet \<Rightarrow> fleet" where
  "provision_replica env now workload_id config plan head_host f =
     (let replica_id = mp_model_id plan @ ''-'' @ take 8 (fresh_id env (fl_draws f));
          rows = build_replica_rows env plan replica_id head_host (mc_gpus_per_node config)
      in publish_fleet (ReplicaProvisioned replica_id (mp_model_id plan) (int (length rows)) head_host)
           (create_ranks env now workload_id rows (f\<lparr>fl_draws := fl_draws f + 1\<rparr>)))"

definition place_entry ::
  "fleet_env \<Rightarrow> time \<Rightarrow> workload list \<Rightarrow> node_candidate list \<Rightarrow> distributed_entry \<Rightarrow> multi_node_config \<Rightarrow> flux_deployment list
     \<Rightarrow> fleet \<Rightarrow> fleet" where
  "place_entry env now workloads candidates entry config rank_rows f =
     (case get_catalog_workload_id (de_model_id entry) workloads of
        None \<Rightarrow> f
      | Some workload_id \<Rightarrow>
          let free = free_nodes rank_rows candidates
          in case plan_multi_node_placement env (de_model_id entry) config free (de_min_vram_gb_per_gpu entry) of
               None \<Rightarrow> f
             | Some plan \<Rightarrow>
                 let head_host = (case head_node env plan free of None \<Rightarrow> [] | Some n \<Rightarrow> head_address n)
                 in if head_host = [] then f else provision_replica env now workload_id config plan head_host f)"

definition reconcile_entry ::
  "fleet_env \<Rightarrow> time \<Rightarrow> workload list \<Rightarrow> node_candidate list \<Rightarrow> distributed_entry \<Rightarrow> fleet \<Rightarrow> (multinode_error + unit) \<times> fleet" where
  "reconcile_entry env now workloads candidates entry f =
     (let config = the (de_multi_node entry)
      in case validate_topology config of
           Inl e \<Rightarrow> (Inl e, f)
         | Inr problems \<Rightarrow>
             if problems \<noteq> [] then (Inr (), f)
             else let rank_rows = list_distributed_replica_rows (Some (de_model_id entry)) f
                  in case judge_replicas now (mc_node_count config) (group_by_replica rank_rows) 0 f of
                       (Inl e, f1) \<Rightarrow> (Inl e, f1)
                     | (Inr healthy, f1) \<Rightarrow>
                         (Inr (), if healthy \<ge> max (de_min_replicas entry) 1 then f1
                                  else place_entry env now workloads candidates entry config rank_rows f1))"

fun reconcile_entries ::
  "fleet_env \<Rightarrow> time \<Rightarrow> workload list \<Rightarrow> node_candidate list \<Rightarrow> distributed_entry list \<Rightarrow> fleet \<Rightarrow> (multinode_error + unit) \<times> fleet" where
  "reconcile_entries env now workloads candidates [] f = (Inr (), f)"
| "reconcile_entries env now workloads candidates (e # es) f =
     (case reconcile_entry env now workloads candidates e f of
        (Inl err, f1) \<Rightarrow> (Inl err, f1) | (Inr _, f1) \<Rightarrow> reconcile_entries env now workloads candidates es f1)"

definition reconcile_distributed_replicas ::
  "fleet_env \<Rightarrow> time \<Rightarrow> workload list \<Rightarrow> distributed_entry list \<Rightarrow> node_candidate list \<Rightarrow> fleet \<Rightarrow> (multinode_error + unit) \<times> fleet" where
  "reconcile_distributed_replicas env now workloads catalog candidates f =
     (let entries = distributed_entries catalog;
          f1 = retire_orphans now (map de_model_id entries) f
      in if entries = [] then (Inr (), f1) else reconcile_entries env now workloads candidates entries f1)"

section \<open>Soundness of placement\<close>

lemma map_int_upt_upto: "map int [0..<n] = [0..int n - 1]"
  by (induction n) (simp_all add: upto_rec2)

lemma viable_group_iff:
  "g \<in> set (viable_groups env config v cs) \<longleftrightarrow>
   (\<exists>n \<in> set cs. eligible env config v n \<and> g = filter (\<lambda>c. eligible env config v c \<and> group_key c = group_key n) cs) \<and>
   mc_node_count config \<le> int (length g)"
proof -
  have "g \<in> snd ` set (group_by group_key (filter (eligible env config v) cs)) \<longleftrightarrow>
      (\<exists>k. (k, g) \<in> set (group_by group_key (filter (eligible env config v) cs)))" by force
  also have "\<dots> \<longleftrightarrow> (\<exists>k. g = filter (\<lambda>c. eligible env config v c \<and> group_key c = k) cs \<and> g \<noteq> [])"
    unfolding group_by_iff by simp
  also have "\<dots> \<longleftrightarrow> (\<exists>n \<in> set cs. eligible env config v n \<and> g = filter (\<lambda>c. eligible env config v c \<and> group_key c = group_key n) cs)"
    by (fastforce simp: filter_empty_conv)
  finally show ?thesis by (auto simp: viable_groups_def)
qed

text \<open>A plan is the first ranks of the ordered nodes of one viable group.\<close>

lemma plan_multi_node_placement_SomeE:
  assumes "plan_multi_node_placement env m config cs v = Some p"
  obtains g where "g \<in> set (viable_groups env config v cs)" "mc_is_distributed config"
    "mp_assignments p = map (assign_rank config) (numbered (slice_to (mc_node_count config) (sort_key node_order g)))"
    "mp_model_id p = m"
proof -
  obtain g gs where "sort_key (group_rank env) (viable_groups env config v cs) = g # gs"
    and rest: "mc_is_distributed config" "mp_model_id p = m"
    "mp_assignments p = map (assign_rank config) (numbered (slice_to (mc_node_count config) (sort_key node_order g)))"
    using assms by (auto simp: plan_multi_node_placement_def Let_def split: list.splits if_splits)
  then have "g \<in> set (sort_key (group_rank env) (viable_groups env config v cs))" by simp
  with rest that show thesis by simp
qed

lemma numbered_facts: "length (numbered xs) = length xs" "map fst (numbered xs) = map int [0..<length xs]" "map snd (numbered xs) = xs"
  by (simp_all add: numbered_def)

lemma map_assign_rank:
  "map na_rank (map (assign_rank config) (numbered xs)) = map int [0..<length xs]"
  "map (\<lambda>a. (na_hotkey a, na_node_id a)) (map (assign_rank config) (numbered xs)) = map (\<lambda>n. (nc_hotkey n, nc_node_id n)) xs"
  using arg_cong [OF numbered_facts(3) [of xs], of "map (\<lambda>n. (nc_hotkey n, nc_node_id n))"] numbered_facts(2) [of xs]
  by (simp_all add: assign_rank_def comp_def)

lemma plan_nodes:
  assumes "plan_multi_node_placement env m config cs v = Some p" and "0 < mc_node_count config"
  obtains n xs where "mp_assignments p = map (assign_rank config) (numbered xs)" "int (length xs) = mc_node_count config"
    "set xs \<subseteq> {c \<in> set cs. eligible env config v c \<and> group_key c = group_key n}"
    "distinct_keys (\<lambda>n. (nc_hotkey n, nc_node_id n)) cs \<Longrightarrow> distinct_keys (\<lambda>n. (nc_hotkey n, nc_node_id n)) xs"
proof -
  obtain g where g: "g \<in> set (viable_groups env config v cs)"
    and p: "mp_assignments p = map (assign_rank config) (numbered (slice_to (mc_node_count config) (sort_key node_order g)))"
    using assms(1) by (rule plan_multi_node_placement_SomeE)
  obtain n where n: "g = filter (\<lambda>c. eligible env config v c \<and> group_key c = group_key n) cs"
    and len: "mc_node_count config \<le> int (length g)" using g unfolding viable_group_iff by blast
  define xs where "xs = take (nat (mc_node_count config)) (sort_key node_order g)"
  have "mp_assignments p = map (assign_rank config) (numbered xs)" using p assms(2) by (simp add: xs_def slice_to_def)
  moreover have "int (length xs) = mc_node_count config" using len assms(2) by (simp add: xs_def)
  moreover have "set xs \<subseteq> set g" using set_take_subset [of _ "sort_key node_order g"] by (auto simp: xs_def)
  moreover have "distinct_keys (\<lambda>n. (nc_hotkey n, nc_node_id n)) xs" if "distinct_keys (\<lambda>n. (nc_hotkey n, nc_node_id n)) cs"
  proof -
    have "distinct_keys (\<lambda>n. (nc_hotkey n, nc_node_id n)) (sort_key node_order g)"
      using that unfolding n by (simp add: distinct_map inj_on_def)
    then show ?thesis by (simp add: xs_def take_map [symmetric])
  qed
  ultimately show thesis using that [of xs n] by (simp add: n)
qed

lemma plan_ranks:
  assumes "plan_multi_node_placement env m config cs v = Some p" and "0 < mc_node_count config"
  shows "map na_rank (mp_assignments p) = [0..mc_node_count config - 1]"
proof -
  obtain n xs where "mp_assignments p = map (assign_rank config) (numbered xs)" "int (length xs) = mc_node_count config"
    using assms by (rule plan_nodes)
  then show ?thesis by (metis map_assign_rank(1) map_int_upt_upto)
qed

text \<open>
  (C28) A placement obeys the three topology rules.  The plan has exactly the configured number of ranks, numbered
  from 0, on different nodes of the candidates; they all have the head's operator, fabric, GPU model and
  memory, enough free GPUs and memory, and the required link.  And the planner refuses only when it must: it
  returns no plan exactly if no node belongs to a large enough group of eligible nodes like it.
\<close>

theorem plan_multi_node_sound:
  assumes "distinct_keys (\<lambda>n. (nc_hotkey n, nc_node_id n)) cs" and "mc_is_distributed config" and "0 < mc_node_count config"
  shows "case plan_multi_node_placement env m config cs v of
      None \<Rightarrow> \<forall>n \<in> set cs. eligible env config v n \<longrightarrow>
        int (length (filter (\<lambda>c. eligible env config v c \<and> group_key c = group_key n) cs)) < mc_node_count config
    | Some p \<Rightarrow> map na_rank (mp_assignments p) = [0..mc_node_count config - 1] \<and>
        distinct_keys (\<lambda>a. (na_hotkey a, na_node_id a)) (mp_assignments p) \<and>
        (\<exists>k. \<forall>a \<in> set (mp_assignments p). na_gpu_count a = mc_gpus_per_node config \<and>
           (\<exists>n \<in> set cs. na_hotkey a = nc_hotkey n \<and> na_node_id a = nc_node_id n \<and> eligible env config v n \<and> group_key n = k))"
proof (cases "plan_multi_node_placement env m config cs v")
  case None
  then have "sort_key (group_rank env) (viable_groups env config v cs) = []"
    using assms(2) by (auto simp: plan_multi_node_placement_def Let_def split: list.splits)
  then have "viable_groups env config v cs = []" by (metis length_0_conv length_sort)
  then have "g \<notin> set (viable_groups env config v cs)" for g by simp
  with None show ?thesis unfolding viable_group_iff by fastforce
next
  case (Some p)
  obtain n xs where xs: "mp_assignments p = map (assign_rank config) (numbered xs)"
    "set xs \<subseteq> {c \<in> set cs. eligible env config v c \<and> group_key c = group_key n}"
    "distinct_keys (\<lambda>n. (nc_hotkey n, nc_node_id n)) xs"
    by (rule plan_nodes [OF Some assms(3)]) (use assms(1) in blast)
  have "distinct_keys (\<lambda>a. (na_hotkey a, na_node_id a)) (mp_assignments p)" using xs by (metis map_assign_rank(2))
  moreover have "\<exists>c \<in> set cs. na_hotkey a = nc_hotkey c \<and> na_node_id a = nc_node_id c \<and> eligible env config v c \<and> group_key c = group_key n"
    "na_gpu_count a = mc_gpus_per_node config" if a: "a \<in> set (mp_assignments p)" for a
  proof -
    obtain q where q: "q \<in> set (numbered xs)" "a = assign_rank config q" using a unfolding xs by auto
    then have "snd q \<in> set xs" using numbered_facts(3) [of xs] by (metis image_eqI set_map)
    with q xs(2) show "\<exists>c \<in> set cs. na_hotkey a = nc_hotkey c \<and> na_node_id a = nc_node_id c \<and> eligible env config v c \<and> group_key c = group_key n"
      "na_gpu_count a = mc_gpus_per_node config" by (auto simp: assign_rank_def)
  qed
  ultimately show ?thesis unfolding Some option.case using plan_ranks [OF Some assms(3)] by blast
qed

text \<open>Two hosts of one operator, one of them reachable by the gateway, and one host of another.\<close>

definition demo_host :: "ident \<Rightarrow> ident \<Rightarrow> (string \<times> string) list \<Rightarrow> node_candidate" where
  "demo_host hk nid labels = \<lparr>nc_hotkey = hk, nc_node_id = nid, nc_available_gpus = 8, nc_vram_gb_per_gpu = 80,
     nc_gpu_model = ''H100'', nc_labels = (INTERCONNECT_LABEL, ''200'') # labels\<rparr>"

definition demo_nodes :: "node_candidate list" where
  "demo_nodes = [demo_host ''a'' ''n0'' [(CLUSTER_ADDRESS_LABEL, ''10.0.0.1'')],
     demo_host ''b'' ''n9'' [], demo_host ''a'' ''n1'' [(INGRESS_LABEL, ''yes''), (CLUSTER_ADDRESS_LABEL, ''10.0.0.2'')]]"

definition demo_config :: multi_node_config where
  "demo_config = \<lparr>mc_node_count = 2, mc_gpus_per_node = 8, mc_min_interconnect_gbps = 100, mc_is_distributed = True,
     mc_tensor_parallel_size = 8, mc_pipeline_parallel_size = 2, mc_backend = ''ray''\<rparr>"

definition demo_fleet_env :: fleet_env where
  "demo_fleet_env = \<lparr>float_of = (\<lambda>_. Some 200), is_head = (\<lambda>a. na_rank a = 0), plan_head = (\<lambda>p. hd (mp_assignments p)),
     fresh_id = (\<lambda>n. show_nat n)\<rparr>"

lemmas demo_plan_eval = demo_nodes_def demo_host_def demo_config_def demo_fleet_env_def viable_groups_def group_by_def eligible_def
  interconnect_gbps_def INTERCONNECT_LABEL_def CLUSTER_ADDRESS_LABEL_def INGRESS_LABEL_def DOMAIN_LABEL_def group_key_def
  fabric_domain_def str_or_def group_rank_def node_order_def serves_ingress_def slice_to_def numbered_def assign_rank_def
  less_eq_prod_def less_prod_def lower_def strip_def lower_char_def is_space_def is_upper_def

definition demo_planned :: "ident \<Rightarrow> multi_node_plan" where
  "demo_planned m = \<lparr>mp_model_id = m, mp_assignments = [\<lparr>na_hotkey = ''a'', na_node_id = ''n1'', na_rank = 0, na_gpu_count = 8\<rparr>,
         \<lparr>na_hotkey = ''a'', na_node_id = ''n0'', na_rank = 1, na_gpu_count = 8\<rparr>],
         mp_tensor_parallel_size = 8, mp_pipeline_parallel_size = 2, mp_backend = ''ray''\<rparr>"

lemma demo_plan: "plan_multi_node_placement demo_fleet_env m demo_config demo_nodes 40 = Some (demo_planned m)"
  by (simp add: plan_multi_node_placement_def demo_plan_eval demo_planned_def)

theorem plan_multi_node_sound_witness:
  "map_option (\<lambda>p. map na_rank (mp_assignments p)) (plan_multi_node_placement demo_fleet_env ''m'' demo_config demo_nodes 40) = Some [0, 1]"
proof -
  obtain p where p: "plan_multi_node_placement demo_fleet_env ''m'' demo_config demo_nodes 40 = Some p"
    using demo_plan by blast
  have "distinct_keys (\<lambda>n. (nc_hotkey n, nc_node_id n)) demo_nodes" "mc_is_distributed demo_config" "mc_node_count demo_config = 2"
    by (simp_all add: demo_nodes_def demo_host_def demo_config_def)
  with plan_multi_node_sound [of demo_nodes demo_config demo_fleet_env 40 "''m''"] p
  show ?thesis by (simp add: upto.simps)
qed

section \<open>A placed replica is kept\<close>

lemma create_ranks_deployments:
  "\<exists>new. fl_deployments (create_ranks env now wid rows f) = fl_deployments f @ new \<and>
     map (\<lambda>d. (fd_hotkey d, fd_node_id d, fd_multi_node d)) new = map (\<lambda>r. (rr_hotkey r, rr_node_id r, Some (rr_multi_node r))) rows \<and>
     (\<forall>d \<in> set new. fd_state d = ''scheduled'')"
proof (induction rows rule: rev_induct)
  case (snoc r rows)
  then obtain new where "fl_deployments (create_ranks env now wid rows f) = fl_deployments f @ new"
    "map (\<lambda>d. (fd_hotkey d, fd_node_id d, fd_multi_node d)) new = map (\<lambda>r. (rr_hotkey r, rr_node_id r, Some (rr_multi_node r))) rows"
    "\<forall>d \<in> set new. fd_state d = ''scheduled''" by blast
  then show ?case by (simp add: create_ranks_def create_flux_deployment_def Let_def)
qed (simp add: create_ranks_def)

lemma replica_action_keep:
  assumes "map (\<lambda>r. map_option rs_rank (fd_multi_node r)) rows = map Some [0..n - 1]" and "0 < n"
    and "\<forall>r \<in> set rows. fd_state r \<in> set LIVE_STATES"
  shows "replica_action rows n = Inr KEEP"
proof -
  have "length rows = length [0..n - 1]" using assms(1) by (metis length_map)
  then have len: "int (length rows) = n" using assms(2) by simp
  have live: "filter (\<lambda>r. fd_state r \<in> set LIVE_STATES) rows = rows" using assms(3) by (simp add: filter_id_conv)
  have "sorted (map (\<lambda>r. case r of None \<Rightarrow> 0 | Some k \<Rightarrow> k) (map Some [0..n - 1]))" by (simp add: comp_def)
  then have "sorted_ranks (map Some [0..n - 1]) = Inr (map Some [0..n - 1])"
    by (simp add: sorted_ranks_def sort_key_id_if_sorted image_iff)
  with assms(1,2) len live show ?thesis by (auto simp: replica_action_def Let_def)
qed

lemma replica_rows_specs:
  assumes "plan_multi_node_placement env m config cs v = Some p" and "0 < mc_node_count config"
  shows "map (\<lambda>r. rs_rank (rr_multi_node r)) (build_replica_rows env p rid host g) = [0..mc_node_count config - 1]"
    and "r \<in> set (build_replica_rows env p rid host g) \<Longrightarrow> rs_replica_id (rr_multi_node r) = rid \<and> rs_model_id (rr_multi_node r) = m"
proof -
  have "sort_key na_rank (mp_assignments p) = mp_assignments p"
    by (rule sort_key_id_if_sorted) (simp add: plan_ranks [OF assms])
  then show "map (\<lambda>r. rs_rank (rr_multi_node r)) (build_replica_rows env p rid host g) = [0..mc_node_count config - 1]"
    using plan_ranks [OF assms] by (simp add: build_replica_rows_def comp_def)
  have "mp_model_id p = m" using assms(1) by (rule plan_multi_node_placement_SomeE)
  then show "r \<in> set (build_replica_rows env p rid host g) \<Longrightarrow> rs_replica_id (rr_multi_node r) = rid \<and> rs_model_id (rr_multi_node r) = m"
    by (auto simp: build_replica_rows_def)
qed

lemma place_entry_group:
  assumes none: "list_distributed_replica_rows (Some (de_model_id entry)) f = []" and pos: "0 < mc_node_count config"
    and run: "place_entry env now wls cs entry config [] f = f1" and placed: "f1 \<noteq> f"
  obtains rid rows where "group_by_replica (list_distributed_replica_rows (Some (de_model_id entry)) f1) = [(rid, rows)]"
    "map (\<lambda>r. map_option rs_rank (fd_multi_node r)) rows = map Some [0..mc_node_count config - 1]"
    "\<forall>r \<in> set rows. fd_state r = ''scheduled''"
proof -
  obtain wid p host where p: "plan_multi_node_placement env (de_model_id entry) config (free_nodes [] cs) (de_min_vram_gb_per_gpu entry) = Some p"
    and f1: "f1 = provision_replica env now wid config p host f"
    using run placed by (auto simp: place_entry_def Let_def split: option.splits if_splits)
  define rid where "rid = mp_model_id p @ ''-'' @ take 8 (fresh_id env (fl_draws f))"
  define rows where "rows = build_replica_rows env p rid host (mc_gpus_per_node config)"
  note specs = replica_rows_specs [OF p pos, where rid = rid and host = host and g = "mc_gpus_per_node config", folded rows_def]
  obtain new where new: "fl_deployments f1 = fl_deployments f @ new"
    "map (\<lambda>d. (fd_hotkey d, fd_node_id d, fd_multi_node d)) new = map (\<lambda>r. (rr_hotkey r, rr_node_id r, Some (rr_multi_node r))) rows"
    "\<forall>d \<in> set new. fd_state d = ''scheduled''"
    using create_ranks_deployments [of env now wid rows "f\<lparr>fl_draws := fl_draws f + 1\<rparr>"]
    by (auto simp: f1 provision_replica_def publish_fleet_def Let_def rid_def rows_def)
  have multi: "map fd_multi_node new = map (\<lambda>r. Some (rr_multi_node r)) rows"
    using arg_cong [OF new(2), of "map (\<lambda>x. snd (snd x))"] by (simp add: comp_def)
  have spec: "\<exists>m. fd_multi_node d = Some m \<and> rs_replica_id m = rid \<and> rs_model_id m = de_model_id entry" if "d \<in> set new" for d
  proof -
    have "fd_multi_node d \<in> set (map (\<lambda>r. Some (rr_multi_node r)) rows)" using that unfolding multi [symmetric] by simp
    with specs(2) show ?thesis by auto
  qed
  then have list: "list_distributed_replica_rows (Some (de_model_id entry)) f1 = new"
    using none new(1,3) by (fastforce simp: list_distributed_replica_rows_def live_rank_row_def filter_id_conv)
  have ranks: "map (\<lambda>r. map_option rs_rank (fd_multi_node r)) new = map Some [0..mc_node_count config - 1]"
    using arg_cong [OF multi, of "map (map_option rs_rank)"] arg_cong [OF specs(1), of "map Some"] by (simp add: comp_def)
  have "new \<noteq> []" using ranks pos by auto
  moreover have "truthy (replica_id_of d)" "the (replica_id_of d) = rid" if "d \<in> set new" for d
    using spec [OF that] by (auto simp: replica_id_of_def rid_def)
  ultimately have "group_by_replica new = [(rid, new)]"
    by (simp add: group_by_replica_def filter_id_conv [THEN iffD2] group_by_const)
  with list ranks new(3) that show thesis by metis
qed

text \<open>
  (C29) The reconciler settles for one entry: when a distributed model that needs at most one replica has
  no rank rows and the pass over its entry changes the fleet, then what was placed is one replica with every
  rank exactly once, judged complete, and the pass over that entry on the resulting fleet, at whatever
  time and with whatever nodes it sees, changes nothing.  It is about one entry and one replica: for two or
  more replicas the next pass may place another, and other entries and orphans are not considered.
\<close>

theorem reconcile_entry_settles:
  assumes "de_multi_node entry = Some config" and "0 < mc_node_count config" and "de_min_replicas entry \<le> 1"
    and "list_distributed_replica_rows (Some (de_model_id entry)) f = []"
    and "reconcile_entry env now wls cs entry f = (Inr (), f1)" and "f1 \<noteq> f"
  shows "(\<exists>rid rows. group_by_replica (list_distributed_replica_rows (Some (de_model_id entry)) f1) = [(rid, rows)] \<and>
      map (\<lambda>r. map_option rs_rank (fd_multi_node r)) rows = map Some [0..mc_node_count config - 1] \<and>
      replica_action rows (mc_node_count config) = Inr KEEP) \<and>
    reconcile_entry env later wls' cs' entry f1 = (Inr (), f1)"
proof -
  have valid: "validate_topology config = Inr []" and placed: "place_entry env now wls cs entry config [] f = f1"
    using assms(1,4-6) by (auto simp: reconcile_entry_def Let_def group_by_replica_def group_by_def split: sum.splits if_splits)
  obtain rid rows where group: "group_by_replica (list_distributed_replica_rows (Some (de_model_id entry)) f1) = [(rid, rows)]"
    "map (\<lambda>r. map_option rs_rank (fd_multi_node r)) rows = map Some [0..mc_node_count config - 1]"
    "\<forall>r \<in> set rows. fd_state r = ''scheduled''"
    using assms(4,2) placed assms(6) by (rule place_entry_group)
  have keep: "replica_action rows (mc_node_count config) = Inr KEEP"
    using group(2) assms(2) by (rule replica_action_keep) (use group(3) in \<open>simp add: LIVE_STATES_def\<close>)
  have "reconcile_entry env later wls' cs' entry f1 = (Inr (), f1)"
    using assms(1,3) valid group(1) keep by (simp add: reconcile_entry_def)
  with group(1,2) keep show ?thesis by blast
qed

definition demo_model :: "ident \<Rightarrow> distributed_entry" where
  "demo_model m = \<lparr>de_model_id = m, de_min_vram_gb_per_gpu = 40, de_min_replicas = 1, de_multi_node = Some demo_config\<rparr>"

definition demo_job :: "ident \<Rightarrow> workload" where
  "demo_job m = \<lparr>wl_id = ''w-'' @ m, wl_owner = None, wl_name = m, wl_display_name = None, wl_alias = None, wl_ingress_host = None,
     wl_kind = INFERENCE, wl_requirements = \<lparr>rq_gpu_count = 8, rq_min_vram_gb_per_gpu = 40, rq_cpu_cores = 1, rq_memory_gb = 1,
       rq_supported_gpu_models = []\<rparr>, wl_model_identifier = None, wl_metadata = [], wl_public = False,
      wl_created_at = 0\<rparr>"

definition empty_fleet :: fleet where
  "empty_fleet = \<lparr>fl_deployments = [], fl_leases = [], fl_events = [], fl_published = [], fl_draws = 0\<rparr>"

lemma demo_head:
  "map_option head_address (head_node demo_fleet_env (demo_planned m) demo_nodes) = Some ''10.0.0.2''"
  by (simp add: demo_planned_def head_node_def demo_fleet_env_def demo_nodes_def demo_host_def head_address_def CLUSTER_ADDRESS_LABEL_def
    INGRESS_LABEL_def INTERCONNECT_LABEL_def strip_def is_space_def)

text \<open>A model with no rank rows gets a replica, whatever else runs on the nodes.\<close>

lemma demo_pass:
  assumes "list_distributed_replica_rows (Some m) f = []" and "get_catalog_workload_id m wls = Some wid"
  shows "reconcile_entry demo_fleet_env now wls demo_nodes (demo_model m) f =
    (Inr (), provision_replica demo_fleet_env now wid demo_config (demo_planned m) ''10.0.0.2'' f)"
proof -
  obtain n where n: "head_node demo_fleet_env (demo_planned m) demo_nodes = Some n" "head_address n = ''10.0.0.2''"
    using demo_head [of m] by auto
  have "validate_topology demo_config = Inr []" by (simp add: validate_topology_def demo_config_def)
  with assms n show ?thesis
    by (simp add: reconcile_entry_def demo_model_def group_by_replica_def group_by_def place_entry_def free_nodes_def demo_plan)
qed

theorem reconcile_entry_settles_witness:
  "\<exists>f1. reconcile_entry demo_fleet_env 0 [demo_job ''m''] demo_nodes (demo_model ''m'') empty_fleet = (Inr (), f1) \<and>
     f1 \<noteq> empty_fleet \<and> reconcile_entry demo_fleet_env 9 [] [] (demo_model ''m'') f1 = (Inr (), f1)"
proof -
  let ?f1 = "provision_replica demo_fleet_env 0 ''w-m'' demo_config (demo_planned ''m'') ''10.0.0.2'' empty_fleet"
  have none: "list_distributed_replica_rows (Some ''m'') empty_fleet = []"
    by (simp add: list_distributed_replica_rows_def empty_fleet_def)
  have run: "reconcile_entry demo_fleet_env 0 [demo_job ''m''] demo_nodes (demo_model ''m'') empty_fleet = (Inr (), ?f1)"
    by (rule demo_pass [OF none]) (simp add: get_catalog_workload_id_def demo_job_def)
  have "fl_published ?f1 \<noteq> fl_published empty_fleet" by (simp add: provision_replica_def publish_fleet_def empty_fleet_def Let_def)
  then have new: "?f1 \<noteq> empty_fleet" by metis
  have "reconcile_entry demo_fleet_env 9 [] [] (demo_model ''m'') ?f1 = (Inr (), ?f1)"
    using reconcile_entry_settles [OF _ _ _ _ run new, of demo_config 9 "[]" "[]"] none by (simp add: demo_model_def demo_config_def)
  with run new show ?thesis by blast
qed

lemma demo_provisioned:
  "map (\<lambda>d. (fd_hotkey d, fd_node_id d, fd_state d, map_option rs_model_id (fd_multi_node d), map_option rs_gpus_per_node (fd_multi_node d)))
     (fl_deployments (provision_replica demo_fleet_env now wid demo_config (demo_planned m) host f)) =
   map (\<lambda>d. (fd_hotkey d, fd_node_id d, fd_state d, map_option rs_model_id (fd_multi_node d), map_option rs_gpus_per_node (fd_multi_node d)))
     (fl_deployments f) @ [(''a'', ''n1'', ''scheduled'', Some m, Some 8), (''a'', ''n0'', ''scheduled'', Some m, Some 8)]"
  by (simp add: provision_replica_def publish_fleet_def create_ranks_def create_flux_deployment_def build_replica_rows_def
        demo_planned_def Let_def demo_config_def)

text \<open>The candidates are read once per pass and a node is only excluded for the model that already uses it, so
  two distributed models placed in one pass land on the same nodes: here two models of eight GPUs per
  node on hosts that have eight.\<close>

lemma demo_double_booked:
  "\<exists>f1. reconcile_distributed_replicas demo_fleet_env 0 [demo_job ''k'', demo_job ''m''] [demo_model ''k'', demo_model ''m''] demo_nodes
     empty_fleet = (Inr (), f1) \<and>
   map (\<lambda>d. (fd_hotkey d, fd_node_id d, fd_state d, map_option rs_model_id (fd_multi_node d), map_option rs_gpus_per_node (fd_multi_node d)))
     (fl_deployments f1) =
     [(''a'', ''n1'', ''scheduled'', Some ''k'', Some 8), (''a'', ''n0'', ''scheduled'', Some ''k'', Some 8),
      (''a'', ''n1'', ''scheduled'', Some ''m'', Some 8), (''a'', ''n0'', ''scheduled'', Some ''m'', Some 8)]"
proof -
  let ?wls = "[demo_job ''k'', demo_job ''m'']"
  let ?cols = "\<lambda>d. (fd_hotkey d, fd_node_id d, fd_state d, map_option rs_model_id (fd_multi_node d), map_option rs_gpus_per_node (fd_multi_node d))"
  define f1 where "f1 = provision_replica demo_fleet_env 0 ''w-k'' demo_config (demo_planned ''k'') ''10.0.0.2'' empty_fleet"
  define f2 where "f2 = provision_replica demo_fleet_env 0 ''w-m'' demo_config (demo_planned ''m'') ''10.0.0.2'' f1"
  have cols: "map ?cols (fl_deployments f1) = [(''a'', ''n1'', ''scheduled'', Some ''k'', Some 8), (''a'', ''n0'', ''scheduled'', Some ''k'', Some 8)]"
    unfolding f1_def demo_provisioned by (simp add: empty_fleet_def)
  have entries: "distributed_entries [demo_model ''k'', demo_model ''m''] = [demo_model ''k'', demo_model ''m'']"
    by (simp add: distributed_entries_def demo_model_def demo_config_def)
  have keep: "retire_orphans 0 ms empty_fleet = empty_fleet" for ms
    by (simp add: retire_orphans_def list_distributed_replica_rows_def empty_fleet_def group_by_replica_def group_by_def)
  have "map_option rs_model_id (fd_multi_node d) \<noteq> Some ''m''" if "d \<in> set (fl_deployments f1)" for d
  proof -
    have "?cols d \<in> set (map ?cols (fl_deployments f1))" using that by simp
    then show ?thesis unfolding cols by auto
  qed
  then have none: "list_distributed_replica_rows (Some ''m'') f1 = []"
    by (fastforce simp: list_distributed_replica_rows_def filter_empty_conv)
  have "reconcile_entry demo_fleet_env 0 ?wls demo_nodes (demo_model ''k'') empty_fleet = (Inr (), f1)"
    unfolding f1_def
    by (rule demo_pass) (simp_all add: list_distributed_replica_rows_def empty_fleet_def get_catalog_workload_id_def demo_job_def)
  moreover have "reconcile_entry demo_fleet_env 0 ?wls demo_nodes (demo_model ''m'') f1 = (Inr (), f2)"
    unfolding f2_def by (rule demo_pass [OF none]) (simp add: get_catalog_workload_id_def demo_job_def)
  ultimately have "reconcile_distributed_replicas demo_fleet_env 0 ?wls [demo_model ''k'', demo_model ''m''] demo_nodes empty_fleet = (Inr (), f2)"
    by (simp add: reconcile_distributed_replicas_def entries keep)
  moreover have "map ?cols (fl_deployments f2) =
     [(''a'', ''n1'', ''scheduled'', Some ''k'', Some 8), (''a'', ''n0'', ''scheduled'', Some ''k'', Some 8),
      (''a'', ''n1'', ''scheduled'', Some ''m'', Some 8), (''a'', ''n0'', ''scheduled'', Some ''m'', Some 8)]"
    unfolding f2_def demo_provisioned cols by simp
  ultimately show ?thesis by (intro exI [of _ f2] conjI)
qed

end
