(* ===== verification/Payment_Decisions.thy ===== *)
theory Payment_Decisions
  imports Numbers_Text
begin

text \<open>
  \<^verbatim>\<open>gateway/domain/payment_decisions.py\<close>: the sentences a customer gets about a crypto payment.
  Staff close a review or reject an invoice only with one of \<open>REASONS\<close> (\<open>check_reason\<close>); the
  customer is told why and what to do next (\<open>explain_reason\<close>, \<open>describe_invoice\<close>), and why a
  credit differs from the invoice (\<open>credited_note\<close>).  Python's \<^verbatim>\<open>str.format\<close> with the two names
  the texts use is \<open>fill_in\<close>; \<^verbatim>\<open>float(text)\<close> is \<open>decimal_value\<close> on the decimal texts of token
  amounts.

  The lemmas show that a decision the check accepts always gives the customer a reason, with
  every placeholder filled in.
\<close>

section \<open>Reasons\<close>

definition SUPPORT_EMAIL :: string where
  "SUPPORT_EMAIL = ''support@green-compute.com''"

record reason =
  rs_label :: string
  rs_message :: string
  rs_next_step :: "string option"
  rs_applies :: "string list"

definition REASONS :: "(string \<times> reason) list" where
  "REASONS =
    [(''tx_not_found'',
      \<lparr>rs_label = ''Transaction not found on the chain'',
       rs_message = ''We couldn't find that transaction on the {network} network.'',
       rs_next_step = Some (''Check the transaction hash in your wallet or on a block explorer, and that you sent it on {network}, ''
         @ ''then ask us to check it again from the Billing page.''),
       rs_applies = [''review'']\<rparr>),
     (''wrong_address'',
      \<lparr>rs_label = ''It didn't go to our deposit address'',
       rs_message = ''That transaction didn't send {currency} to our deposit address, so the payment never reached us.'',
       rs_next_step = Some (''If it went to another address or network, the wallet or exchange you sent it from may be able to help. ''
         @ ''Our deposit addresses are on the Billing page.''),
       rs_applies = [''review'']\<rparr>),
     (''wrong_subnet'',
      \<lparr>rs_label = ''Alpha of another subnet'',
       rs_message = ''That transaction moved alpha of a different subnet. We can only add subnet 110 alpha.'',
       rs_next_step = Some (''Write to '' @ SUPPORT_EMAIL @ '' and we'll work out with you what to do with it.''),
       rs_applies = [''review'']\<rparr>),
     (''already_credited'',
      \<lparr>rs_label = ''Already added to their balance'',
       rs_message = ''That payment had already been added to your balance.'',
       rs_next_step = Some ''Nothing to do: you'll find it in your billing history.'',
       rs_applies = [''review'', ''reject'']\<rparr>),
     (''not_linked'',
      \<lparr>rs_label = ''Can't tie the payment to this account'',
       rs_message = ''We couldn't confirm that the payment came from you.'',
       rs_next_step = Some (''Verify the wallet you sent it from on the Billing page: payments it sent in the last 30 days are then ''
         @ ''added automatically. Or send proof of the payment, such as your exchange's withdrawal record, to ''
         @ SUPPORT_EMAIL @ ''.''),
       rs_applies = [''review'', ''reject'']\<rparr>),
     (''not_paid'',
      \<lparr>rs_label = ''No payment arrived for it'',
       rs_message = ''No payment arrived for it.'',
       rs_next_step = Some (''Create a new invoice when you're ready to pay. If you did pay it, ask us to check the payment from the ''
         @ ''Billing page.''),
       rs_applies = [''reject'']\<rparr>),
     (''duplicate'',
      \<lparr>rs_label = ''Duplicate of another invoice'',
       rs_message = ''It duplicated another of your invoices, which is the one we used.'',
       rs_next_step = None,
       rs_applies = [''reject'']\<rparr>),
     (''other'',
      \<lparr>rs_label = ''Other (write the reason in the note)'',
       rs_message = [],
       rs_next_step = Some (''Write to '' @ SUPPORT_EMAIL @ '' if you have questions.''),
       rs_applies = [''review'', ''reject'']\<rparr>)]"

datatype decision_error =
    ReasonMustBeOneOf "string list"
  | WriteTheReason
  | NoteTooLong

definition strip_opt :: "string option \<Rightarrow> string" where
  "strip_opt s = strip (case s of None \<Rightarrow> [] | Some t \<Rightarrow> t)"

text \<open>\<^verbatim>\<open>len(text)\<close>: Python counts characters, so the continuation bytes of a longer one do not count.\<close>

definition text_length :: "string \<Rightarrow> nat" where
  "text_length s = length (filter (\<lambda>c. (of_char c :: nat) < 128 \<or> 192 \<le> (of_char c :: nat)) s)"

definition check_reason ::
  "string option \<Rightarrow> string option \<Rightarrow> string \<Rightarrow> decision_error + (string \<times> string option)" where
  "check_reason code_arg note_arg action =
     (let code = strip_opt code_arg;
          cleaned = strip_opt note_arg;
          note = (if cleaned = [] then None else Some cleaned);
          refusal = ReasonMustBeOneOf (map fst (filter (\<lambda>(c, r). action \<in> set (rs_applies r)) REASONS))
      in case map_of REASONS code of
           None \<Rightarrow> Inl refusal
         | Some reason \<Rightarrow>
             if action \<notin> set (rs_applies reason) then Inl refusal
             else if code = ''other'' \<and> note = None then Inl WriteTheReason
             else if 1000 < text_length cleaned then Inl NoteTooLong
             else Inr (code, note))"

definition reason_list :: "(string \<times> string \<times> string list) list" where
  "reason_list = map (\<lambda>(c, r). (c, rs_label r, rs_applies r)) REASONS"

section \<open>Names of networks and currencies\<close>

definition ends_with :: "string \<Rightarrow> string \<Rightarrow> bool" where
  "ends_with suffix s \<longleftrightarrow> length suffix \<le> length s \<and> drop (length s - length suffix) s = suffix"

definition network_name :: "string \<Rightarrow> string" where
  "network_name currency =
     (let c = lower currency
      in if c \<in> {''tao'', ''alpha''} then ''Bittensor''
         else if ends_with ''-base'' c then ''Base''
         else if ends_with ''-eth'' c then ''Ethereum''
         else upper c)"

text \<open>\<^verbatim>\<open>text.partition("-")\<close>: what is before the first dash and what is after it.\<close>

definition partition_dash :: "string \<Rightarrow> string \<times> string" where
  "partition_dash s = (takeWhile (\<lambda>c. c \<noteq> CHR ''-'') s, drop 1 (dropWhile (\<lambda>c. c \<noteq> CHR ''-'') s))"

definition currency_label :: "string \<Rightarrow> string" where
  "currency_label currency =
     (let (token, net) = partition_dash (upper currency)
      in if token = ''ALPHA'' then ''Alpha''
         else let network = (if net = ''BASE'' then ''Base'' else if net = ''ETH'' then ''Ethereum'' else net)
              in if network \<noteq> [] then token @ '' on '' @ network else token)"

section \<open>Why, and what to do next\<close>

text \<open>\<^verbatim>\<open>text.format(network=.., currency=..)\<close>: the texts have no other braces.\<close>

function fill_in :: "string \<Rightarrow> string \<Rightarrow> string \<Rightarrow> string" where
  "fill_in network currency s =
     (case s of
        [] \<Rightarrow> []
      | c # cs \<Rightarrow>
          if starts_with ''{network}'' s then network @ fill_in network currency (drop 9 s)
          else if starts_with ''{currency}'' s then currency @ fill_in network currency (drop 10 s)
          else c # fill_in network currency cs)"
  by pat_completeness auto
termination
  by (relation "measure (\<lambda>(_, _, s). length s)") auto

declare fill_in.simps [simp del]

definition explain_reason :: "string option \<Rightarrow> string option \<Rightarrow> string \<Rightarrow> string \<times> string option" where
  "explain_reason code note currency =
     (case map_of REASONS (case code of None \<Rightarrow> [] | Some c \<Rightarrow> c) of
        None \<Rightarrow> (case note of None \<Rightarrow> [] | Some n \<Rightarrow> n,
                 Some (''If you think we got this wrong, write to '' @ SUPPORT_EMAIL @ '' with the transaction hash.''))
      | Some reason \<Rightarrow>
          let fill = fill_in (network_name currency) (currency_label currency);
              why = (if code = Some ''other'' then (case note of None \<Rightarrow> [] | Some n \<Rightarrow> n)
                     else if truthy note then fill (rs_message reason) @ '' Note from our team: '' @ the note
                     else fill (rs_message reason))
          in (why, if truthy (rs_next_step reason) then Some (fill (the (rs_next_step reason))) else None))"

section \<open>Why a credit differs from the invoice\<close>

text \<open>\<^verbatim>\<open>float(text)\<close> of a decimal text: digits with at most one point among them.\<close>

definition digits_value :: "string \<Rightarrow> nat" where
  "digits_value s = foldl (\<lambda>n c. 10 * n + (of_char c - 48)) 0 s"

definition decimal_value :: "string \<Rightarrow> rat option" where
  "decimal_value s =
     (let whole = takeWhile is_digit s; rest = dropWhile is_digit s
      in if rest = [] then (if whole = [] then None else Some (of_nat (digits_value whole)))
         else let frac = tl rest
              in if hd rest = CHR ''.'' \<and> list_all is_digit frac \<and> (whole \<noteq> [] \<or> frac \<noteq> [])
                 then Some (of_nat (digits_value whole) + of_nat (digits_value frac) / 10 ^ length frac)
                 else None)"

definition tokens :: "string \<Rightarrow> string \<Rightarrow> string" where
  "tokens amount currency = amount @ '' '' @ currency_label currency"

definition received_text :: "rat \<Rightarrow> rat \<Rightarrow> string" where
  "received_text got want =
     (if show_fixed 6 got = show_fixed 6 want \<and> got \<noteq> want then show_fixed 9 got else show_fixed 6 got)"

definition credited_note ::
  "string option \<Rightarrow> string \<Rightarrow> rat \<Rightarrow> string \<Rightarrow> string option \<Rightarrow> string option" where
  "credited_note how asked got currency paid_currency =
     (if truthy paid_currency \<and> paid_currency \<noteq> Some currency then None
      else case decimal_value asked of
             None \<Rightarrow> None
           | Some want \<Rightarrow>
               let arrived = tokens (received_text got want) currency; wanted = tokens asked currency
               in if how = Some ''invoice_underpay'' then
                    Some (arrived @ '' arrived, less than the '' @ wanted @ '' the invoice asked ''
                          @ ''for, so we added what arrived, at the invoice's rate.'')
                  else if how = Some ''invoice_overpay'' then
                    Some (arrived @ '' arrived, more than the '' @ wanted @ '' the invoice asked ''
                          @ ''for, so we added all of it, at the invoice's rate.'')
                  else if how = Some ''invoice_late'' then
                    Some (arrived @ '' arrived after the invoice had expired, so we added its value when it ''
                          @ ''arrived rather than the invoice's amount.'')
                  else if how \<in> {Some ''admin'', Some ''wallet'', Some ''wallet_link''} then
                    (if \<bar>got - want\<bar> < 5 / 10000000 then None
                     else Some (arrived @ '' arrived, '' @ (if got < want then ''less'' else ''more'') @ '' than the ''
                                @ wanted @ '' the invoice asked for, so we added what arrived, at its value when it ''
                                @ ''arrived.''))
                  else None)"

section \<open>An invoice in the customer's list\<close>

record invoice_view =
  iw_currency :: string
  iw_status :: string
  iw_amount_crypto :: rat
  iw_amount_to_send :: "string option"
  iw_review_status :: "string option"
  iw_decision_reason :: "string option"
  iw_decision_note :: "string option"

record received =
  rc_amount :: rat
  rc_currency :: "string option"
  rc_matched_by :: "string option"

definition describe_invoice :: "invoice_view \<Rightarrow> received option \<Rightarrow> string option \<times> string option" where
  "describe_invoice iv received =
     (let why_step = explain_reason (iw_decision_reason iv) (iw_decision_note iv) (iw_currency iv);
          why = fst why_step; next_step = snd why_step
      in if iw_status iv = ''confirmed'' then
           (case received of
              None \<Rightarrow> (None, None)
            | Some r \<Rightarrow>
                (credited_note (rc_matched_by r)
                   (if truthy (iw_amount_to_send iv) then the (iw_amount_to_send iv)
                    else show_fixed 6 (iw_amount_crypto iv))
                   (rc_amount r) (iw_currency iv) (rc_currency r), None))
         else if iw_status iv = ''rejected'' then
           (Some (strip (''This invoice was cancelled. '' @ why)), next_step)
         else if iw_review_status iv = Some ''open'' then
           (Some ''We're checking the payment you reported. We'll email you when it's done.'', None)
         else if iw_review_status iv = Some ''dismissed'' then
           (Some (strip ((if iw_decision_reason iv = Some ''already_credited''
                          then ''We checked the payment you reported.''
                          else ''We checked the payment you reported and didn't add it.'') @ '' '' @ why)), next_step)
         else if iw_status iv = ''expired'' then
           (Some ''This invoice expired without a payment we could match to it.'',
            Some (''Paid it? Ask us to check the payment with its transaction hash, or verify the wallet you paid from: ''
                  @ ''payments from a verified wallet are added automatically.''))
         else (None, None))"

section \<open>What the customer reads\<close>

text \<open>A text whose braces are all placeholders.\<close>

function only_placeholders :: "string \<Rightarrow> bool" where
  "only_placeholders s =
     (case s of
        [] \<Rightarrow> True
      | c # cs \<Rightarrow>
          if starts_with ''{network}'' s then only_placeholders (drop 9 s)
          else if starts_with ''{currency}'' s then only_placeholders (drop 10 s)
          else c \<noteq> CHR ''{'' \<and> c \<noteq> CHR ''}'' \<and> only_placeholders cs)"
  by pat_completeness auto
termination
  by (relation "measure length") auto

declare only_placeholders.simps [simp del]

abbreviation braces :: "string \<Rightarrow> bool" where
  "braces s \<equiv> CHR ''{'' \<in> set s \<or> CHR ''}'' \<in> set s"

lemma fill_in_no_braces:
  "only_placeholders s \<Longrightarrow> \<not> braces network \<Longrightarrow> \<not> braces currency \<Longrightarrow> \<not> braces (fill_in network currency s)"
proof (induction s rule: only_placeholders.induct)
  case (1 s)
  then show ?case
    by (subst (1 2) fill_in.simps) (subst (asm) (3) only_placeholders.simps, auto split: list.splits if_splits)
qed

lemma fill_in_nonempty: "s \<noteq> [] \<Longrightarrow> hd s \<noteq> CHR ''{'' \<Longrightarrow> fill_in network currency s \<noteq> []"
  by (cases s) (simp_all add: fill_in.simps)

lemma reasons_wellformed:
  "list_all (\<lambda>(c, r). only_placeholders (rs_message r) \<and>
      only_placeholders (case rs_next_step r of None \<Rightarrow> [] | Some s \<Rightarrow> s) \<and>
      (c \<noteq> ''other'' \<longrightarrow> rs_message r \<noteq> [] \<and> hd (rs_message r) \<noteq> CHR ''{'')) REASONS"
  by code_simp

text \<open>Changing case moves letters only.\<close>

lemma upper_char_code: "(of_char (upper_char c) :: nat) = (if is_lower c then of_char c - 32 else of_char c)"
  by (auto simp: upper_char_def is_lower_def of_char_of take_bit_eq_mod)

lemma char_eq_code: "c = b \<longleftrightarrow> (of_char c :: nat) = of_char b"
  by simp

lemma upper_char_brace:
  assumes b: "(of_char b :: nat) \<in> {123, 125}"
  shows "upper_char c = b \<longleftrightarrow> c = b"
proof (cases "is_lower c")
  case True
  then have "(of_char c :: nat) \<le> 122" by (simp add: is_lower_def)
  with b True have "(of_char (upper_char c) :: nat) \<noteq> of_char b" "(of_char c :: nat) \<noteq> of_char b"
    unfolding upper_char_code by auto
  then show ?thesis by (metis char_eq_code)
qed (simp add: upper_char_def)

lemma lower_char_brace:
  assumes b: "(of_char b :: nat) \<in> {123, 125}"
  shows "lower_char c = b \<longleftrightarrow> c = b"
proof (cases "is_upper c")
  case True
  then have "(of_char c :: nat) \<le> 90" by (simp add: is_upper_def)
  with b True have "(of_char (lower_char c) :: nat) \<noteq> of_char b" "(of_char c :: nat) \<noteq> of_char b"
    unfolding of_char_lower_char by auto
  then show ?thesis by (metis char_eq_code)
qed (simp add: lower_char_def)

lemma case_no_braces:
  "braces (upper s) \<longleftrightarrow> braces s"
  "braces (lower s) \<longleftrightarrow> braces s"
  unfolding upper_def lower_def set_map image_iff
  by (simp_all add: upper_char_brace lower_char_brace eq_commute [of "CHR ''{''"] eq_commute [of "CHR ''}''"])

lemma no_braces_names:
  assumes "\<not> braces currency"
  shows "\<not> braces (network_name currency)" and "\<not> braces (currency_label currency)"
proof -
  have "\<not> braces (upper (lower currency))"
    using assms case_no_braces by blast
  then show "\<not> braces (network_name currency)"
    by (simp add: network_name_def Let_def)
  have up: "\<not> braces (upper currency)" using assms case_no_braces by blast
  have "set (fst (partition_dash s)) \<subseteq> set s" "set (snd (partition_dash s)) \<subseteq> set s" for s
    by (auto simp: partition_dash_def dest: set_takeWhileD in_set_dropD set_dropWhileD)
  with up have "\<not> braces (fst (partition_dash (upper currency)))" "\<not> braces (snd (partition_dash (upper currency)))"
    by blast+
  then show "\<not> braces (currency_label currency)"
    by (simp add: currency_label_def Let_def case_prod_unfold)
qed

lemma reason_facts:
  assumes "map_of REASONS code = Some r"
  shows "only_placeholders (rs_message r)"
    and "rs_next_step r = Some s \<Longrightarrow> only_placeholders s"
    and "code \<noteq> ''other'' \<Longrightarrow> rs_message r \<noteq> [] \<and> hd (rs_message r) \<noteq> CHR ''{''"
  using map_of_SomeD [OF assms] reasons_wellformed by (auto simp: list_all_iff)

lemma map_of_REASONS_iff: "map_of REASONS code = Some r \<longleftrightarrow> (code, r) \<in> set REASONS"
proof (rule map_of_eq_Some_iff)
  show "distinct (map fst REASONS)" by (simp add: REASONS_def)
qed

lemma reason_text_nonempty:
  assumes "map_of REASONS code = Some r" and "note \<noteq> Some []" and "code \<noteq> ''other'' \<or> note \<noteq> None"
  shows "fst (explain_reason (Some code) note currency) \<noteq> []"
  using reason_facts(3) [OF assms(1)] assms
  by (cases "note") (auto simp: explain_reason_def Let_def fill_in_nonempty)

lemma reason_text_filled:
  assumes "map_of REASONS code = Some r" and "note \<noteq> Some []" and "\<not> braces currency" and "\<not> braces (case note of None \<Rightarrow> [] | Some n \<Rightarrow> n)"
  shows "\<not> braces (fst (explain_reason (Some code) note currency))"
    and "\<not> braces (case snd (explain_reason (Some code) note currency) of None \<Rightarrow> [] | Some step \<Rightarrow> step)"
  using fill_in_no_braces [OF reason_facts(1) [OF assms(1)] no_braces_names, of currency]
    fill_in_no_braces [OF reason_facts(2) [OF assms(1)] no_braces_names, of _ currency] assms
  by (cases "note"; auto simp: explain_reason_def Let_def elim: truthy.elims)+

text \<open>The codes a decision may name.\<close>

definition codes_for :: "string \<Rightarrow> string set" where
  "codes_for action = {c. \<exists>r. (c, r) \<in> set REASONS \<and> action \<in> set (rs_applies r)}"

text \<open>
  (C34) A decision is explained, and one that could not be is refused with the reason of the refusal.  The check
  raises the list of allowed codes exactly for a code that is not one of this action's, asks for words exactly
  for \<open>other\<close> without a note, calls a note too long above a thousand characters, and otherwise gives the code
  and the note, both without the spaces around them.  For a decision it gives, whatever the currency, the text the
  customer reads is not empty; and if neither the currency nor the note contains a brace, neither does the
  text nor the next step, so that no placeholder is left unfilled.
\<close>

theorem decision_is_explained:
  "case check_reason code_arg note_arg action of
     Inl (ReasonMustBeOneOf cs) \<Rightarrow> set cs = codes_for action \<and> strip_opt code_arg \<notin> codes_for action
   | Inl WriteTheReason \<Rightarrow> strip_opt code_arg = ''other'' \<and> strip_opt note_arg = [] \<and> ''other'' \<in> codes_for action
   | Inl NoteTooLong \<Rightarrow> 1000 < text_length (strip_opt note_arg) \<and> strip_opt code_arg \<in> codes_for action
   | Inr (code, note) \<Rightarrow>
       code = strip_opt code_arg \<and> code \<in> codes_for action \<and> text_length (strip_opt note_arg) \<le> 1000 \<and>
       note = (if strip_opt note_arg = [] then None else Some (strip_opt note_arg)) \<and> (code = ''other'' \<longrightarrow> note \<noteq> None) \<and>
       fst (explain_reason (Some code) note currency) \<noteq> [] \<and>
       (\<not> braces currency \<and> \<not> braces (strip_opt note_arg) \<longrightarrow>
          \<not> braces (fst (explain_reason (Some code) note currency)) \<and>
          \<not> braces (case snd (explain_reason (Some code) note currency) of None \<Rightarrow> [] | Some step \<Rightarrow> step))"
proof -
  let ?code = "strip_opt code_arg" and ?cleaned = "strip_opt note_arg"
  let ?note = "if ?cleaned = [] then None else Some ?cleaned"
  have codes: "set (map fst (filter (\<lambda>(c, r). action \<in> set (rs_applies r)) REASONS)) = codes_for action"
    by (force simp: codes_for_def)
  show ?thesis
  proof (cases "?code \<in> codes_for action")
    case False
    then have "check_reason code_arg note_arg action =
        Inl (ReasonMustBeOneOf (map fst (filter (\<lambda>(c, r). action \<in> set (rs_applies r)) REASONS)))"
      by (auto simp: check_reason_def Let_def codes_for_def map_of_REASONS_iff split: option.split)
    with False codes show ?thesis by simp
  next
    case True
    then obtain r where r: "map_of REASONS ?code = Some r" "action \<in> set (rs_applies r)"
      by (auto simp: codes_for_def map_of_REASONS_iff)
    have shown: "fst (explain_reason (Some ?code) ?note currency) \<noteq> []" if "?code \<noteq> ''other'' \<or> ?note \<noteq> None"
      by (rule reason_text_nonempty [OF r(1) _ that]) simp
    have filled: "\<not> braces (fst (explain_reason (Some ?code) ?note currency)) \<and>
        \<not> braces (case snd (explain_reason (Some ?code) ?note currency) of None \<Rightarrow> [] | Some step \<Rightarrow> step)"
      if plain: "\<not> braces currency \<and> \<not> braces ?cleaned"
    proof -
      have some: "?note \<noteq> Some []" and worded: "\<not> braces (case ?note of None \<Rightarrow> [] | Some n \<Rightarrow> n)"
        using plain by simp_all
      show ?thesis using reason_text_filled [OF r(1) some conjunct1 [OF plain] worded] by (rule conjI)
    qed
    show ?thesis
    proof (cases "?code = ''other'' \<and> ?cleaned = []")
      case True
      with r \<open>?code \<in> codes_for action\<close> have "check_reason code_arg note_arg action = Inl WriteTheReason"
        by (simp add: check_reason_def Let_def)
      with True \<open>?code \<in> codes_for action\<close> show ?thesis by simp
    next
      case named: False
      show ?thesis
      proof (cases "1000 < text_length ?cleaned")
        case True
        with r named have "check_reason code_arg note_arg action = Inl NoteTooLong"
          by (simp add: check_reason_def Let_def)
        with True \<open>?code \<in> codes_for action\<close> show ?thesis by simp
      next
        case False
        with r named have run: "check_reason code_arg note_arg action = Inr (?code, ?note)"
          by (simp add: check_reason_def Let_def)
        have words: "?code = ''other'' \<longrightarrow> ?note \<noteq> None" using named by simp
        with False \<open>?code \<in> codes_for action\<close> shown filled show ?thesis
          unfolding run sum.case prod.case by (intro conjI impI) (simp_all only: refl not_less, blast+)
      qed
    qed
  qed
qed

theorem decision_is_explained_witness:
  "check_reason (Some '' tx_not_found'') None ''review'' = Inr (''tx_not_found'', None) \<and>
   ''tx_not_found'' \<in> codes_for ''review'' \<and> ''not_paid'' \<notin> codes_for ''review'' \<and>
   fst (explain_reason (Some ''tx_not_found'') None ''usdt-eth'') \<noteq> []"
proof -
  have run: "check_reason (Some '' tx_not_found'') None ''review'' = Inr (''tx_not_found'', None)"
    "check_reason (Some ''not_paid'') None ''review'' = Inl (ReasonMustBeOneOf
       [''tx_not_found'', ''wrong_address'', ''wrong_subnet'', ''already_credited'', ''not_linked'', ''other''])"
    by code_simp+
  have names: "strip_opt (Some '' tx_not_found'') = ''tx_not_found''" "strip_opt (Some ''not_paid'') = ''not_paid''" by code_simp+
  show ?thesis
    using run names decision_is_explained [where code_arg = "Some '' tx_not_found''" and note_arg = None and action = "''review''"
        and currency = "''usdt-eth''"]
      decision_is_explained [where code_arg = "Some ''not_paid''" and note_arg = None and action = "''review''"]
    by simp
qed

end
