(* ===== verification/Payments.thy ===== *)
theory Payments
  imports Billing_Properties Payment_Decisions
begin

text \<open>
  \<^verbatim>\<open>gateway/application/billing_service.py\<close>: how money comes in.  The service composes the
  transactions of the repository (theory Billing): Stripe top-ups and refunds, crypto invoices with
  an amount of their own, the resolution of an on-chain transfer to the account it belongs to,
  verified wallets, and the staff's reviews; with the Stripe webhook of
  \<^verbatim>\<open>gateway/transport/routes.py\<close> and the tables of \<^verbatim>\<open>infrastructure/wallet_signatures.py\<close>.

  The state \<open>payments\<close> is the database, the emails handed to the website and the alerts to the
  team, both in the order they are sent.  What is outside the code is in \<open>pay_env\<close>: the clock and
  the ISO texts of its times (\<open>pe_fromiso\<close> also says whether the text has an offset), the process environment, the price feed, \<^verbatim>\<open>random.choice\<close>, fresh uuids, the users' names, the SS58
  codec and the signature check.  The clock is read once per call.  Amounts and prices are exact
  rationals where the code has floats.
\<close>

section \<open>State and environment\<close>

datatype field = NoValue | Text string | Amount rat | Flag bool

record email =
  em_user :: ident
  em_kind :: string
  em_event :: "string option"
  em_fields :: "(string \<times> field) list"

record payments =
  py_db :: billing_db
  py_emails :: "email list"
  py_alerts :: "string list"

record pay_env =
  pe_now :: time
  pe_iso :: "time \<Rightarrow> string"
  pe_fromiso :: "string \<Rightarrow> (time \<times> bool) option"
  pe_environ :: "string \<Rightarrow> string option"
  pe_price :: "string \<Rightarrow> rat"
  pe_choice :: "int list \<Rightarrow> int"
  pe_uuid :: "nat \<Rightarrow> ident"
  pe_username :: "ident \<Rightarrow> string option"
  pe_ss58 :: "string \<Rightarrow> string option"
  pe_verify :: "string \<Rightarrow> string \<Rightarrow> string \<Rightarrow> string \<Rightarrow> bool"

datatype pay_error =
    Repo billing_error
  | NotAvailable string
  | NoPrice string
  | NoUniqueAmount
  | TooManyOpenInvoices
  | InvalidAddress
  | ChallengeMalformed
  | NaiveDatetime
  | ChallengeExpired
  | SignatureMismatch
  | AlreadyPaid string
  | ReviewNotOpen
  | ReviewReason decision_error
  | DepositNotFound
  | DepositAlreadyCredited
  | NotCredited
  | UnknownAction
  | NotFound

type_synonym 'a pay_result = "(pay_error + 'a) \<times> payments"

definition on_billing_db :: "(billing_db \<Rightarrow> billing_db) \<Rightarrow> payments \<Rightarrow> payments" where
  "on_billing_db f p = p\<lparr>py_db := f (py_db p)\<rparr>"

text \<open>A repository call that may raise, and what follows it: every call commits, so an exception
  keeps what the calls before it did.\<close>

definition in_repo ::
  "(billing_db \<Rightarrow> 'a billing_result) \<Rightarrow> payments \<Rightarrow> ('a \<Rightarrow> payments \<Rightarrow> 'b pay_result) \<Rightarrow> 'b pay_result" where
  "in_repo f p k = (case f (py_db p) of Inl e \<Rightarrow> (Inl (Repo e), p) | Inr (a, db) \<Rightarrow> k a (p\<lparr>py_db := db\<rparr>))"

section \<open>Currencies and amounts\<close>

definition BONUS_RATES :: "(string \<times> rat) list" where
  "BONUS_RATES = [(''stripe'', 0), (''usdt'', 0), (''usdc'', 0), (''tao'', 0), (''alpha'', 1 / 10)]"

definition base_currency :: "string \<Rightarrow> string" where
  "base_currency currency =
     (let c = lower currency
      in if CHR ''-'' \<in> set c then takeWhile (\<lambda>x. x \<noteq> CHR ''-'') c else c)"

definition bonus_rate :: "string \<Rightarrow> rat" where
  "bonus_rate base = (case map_of BONUS_RATES base of None \<Rightarrow> 0 | Some r \<Rightarrow> r)"

definition CURRENCY_CHAIN :: "(string \<times> string) list" where
  "CURRENCY_CHAIN =
     [(''tao'', ''bittensor''), (''alpha'', ''bittensor''), (''usdt-eth'', ''evm''), (''usdc-eth'', ''evm''),
      (''usdt-base'', ''evm''), (''usdc-base'', ''evm'')]"

definition env_or :: "pay_env \<Rightarrow> string \<Rightarrow> string \<Rightarrow> string" where
  "env_or env name fallback = (case pe_environ env name of None \<Rightarrow> fallback | Some v \<Rightarrow> v)"

definition env_first :: "pay_env \<Rightarrow> string \<Rightarrow> string \<Rightarrow> string" where
  "env_first env preferred fallback =
     (if truthy (pe_environ env preferred) then the (pe_environ env preferred) else env_or env fallback [])"

definition deposit_address_for :: "pay_env \<Rightarrow> string \<Rightarrow> string" where
  "deposit_address_for env currency =
     (let c = lower currency
      in if c = ''usdt-eth'' then env_first env ''BILLING_DEPOSIT_USDT_ETH'' ''BILLING_DEPOSIT_USDT''
         else if c = ''usdt-base'' then env_first env ''BILLING_DEPOSIT_USDT_BASE'' ''BILLING_DEPOSIT_USDT''
         else if c = ''usdc-eth'' then env_first env ''BILLING_DEPOSIT_USDC_ETH'' ''BILLING_DEPOSIT_USDC''
         else if c = ''usdc-base'' then env_first env ''BILLING_DEPOSIT_USDC_BASE'' ''BILLING_DEPOSIT_USDC''
         else if c = ''usdt'' then env_or env ''BILLING_DEPOSIT_USDT'' []
         else if c = ''usdc'' then env_or env ''BILLING_DEPOSIT_USDC'' []
         else if c = ''tao'' then env_or env ''BILLING_DEPOSIT_TAO'' []
         else if c = ''alpha'' then env_first env ''BILLING_DEPOSIT_ALPHA'' ''BILLING_DEPOSIT_TAO''
         else [])"

definition UNITS_PER_TOKEN :: int where
  "UNITS_PER_TOKEN = 1000000"

definition MAX_PENDING_INVOICES_PER_USER :: nat where
  "MAX_PENDING_INVOICES_PER_USER = 5"

definition WALLET_CHALLENGE_TTL :: time where
  "WALLET_CHALLENGE_TTL = seconds (15 * 60)"

definition WALLET_LINK_LOOKBACK :: time where
  "WALLET_LINK_LOOKBACK = seconds (30 * 86400)"

definition LATE_PAYMENT_WINDOW :: time where
  "LATE_PAYMENT_WINDOW = seconds (24 * 3600)"

definition TOLERANT_MATCH :: "rat \<times> rat" where
  "TOLERANT_MATCH = (1 / 2, 2)"

definition format_units :: "int \<Rightarrow> string" where
  "format_units units =
     (let frac = show_nat (nat (units mod UNITS_PER_TOKEN))
      in show_int (units div UNITS_PER_TOKEN) @ ''.'' @ replicate (6 - length frac) CHR ''0'' @ frac)"

definition deposit_amount :: "deposit \<Rightarrow> rat" where
  "deposit_amount d = of_int (dep_amount_raw d) / 10 ^ dep_decimals d"

definition exact_amount :: "invoice \<Rightarrow> deposit \<Rightarrow> bool" where
  "exact_amount iv d =
     (case inv_amount_units iv of
        None \<Rightarrow> False
      | Some units \<Rightarrow>
          let scale = pow10 (int (dep_decimals d) - 6);
              tolerance = (if 9 \<le> dep_decimals d then 100 else 0)
          in \<bar>of_int (dep_amount_raw d) - of_int units * scale\<bar> \<le> tolerance)"

definition value_at_invoice_rate :: "invoice \<Rightarrow> rat \<Rightarrow> int" where
  "value_at_invoice_rate iv amount =
     (let rate = (if base_currency (inv_currency iv) \<in> {''usdt'', ''usdc''} then 1
                  else if inv_amount_crypto iv \<noteq> 0 then inv_amount_usd iv / inv_amount_crypto iv else 0);
          cents = py_round (amount * rate * 100)
      in cents + py_round (of_int cents * inv_bonus_pct iv))"

definition token_amount :: "rat \<Rightarrow> string" where
  "token_amount amount = show_fixed 6 amount"

definition invoice_token_amount :: "invoice \<Rightarrow> string" where
  "invoice_token_amount iv =
     (case inv_amount_units iv of Some units \<Rightarrow> format_units units | None \<Rightarrow> token_amount (inv_amount_crypto iv))"

definition usd_of :: "int option \<Rightarrow> field" where
  "usd_of cents = (case cents of None \<Rightarrow> NoValue | Some c \<Rightarrow> Amount (round_to 2 (of_int c / 100)))"

definition text_of :: "string option \<Rightarrow> field" where
  "text_of s = (case s of None \<Rightarrow> NoValue | Some t \<Rightarrow> Text t)"

definition or_none :: "string option \<Rightarrow> field" where
  "or_none s = (if truthy s then Text (the s) else NoValue)"

section \<open>Emails\<close>

definition send_email ::
  "ident \<Rightarrow> string \<Rightarrow> string option \<Rightarrow> (string \<times> field) list \<Rightarrow> payments \<Rightarrow> payments" where
  "send_email user_id kind event_id fs p =
     p\<lparr>py_emails := py_emails p @ [\<lparr>em_user = user_id, em_kind = kind, em_event = event_id, em_fields = fs\<rparr>]\<rparr>"

record payment_mail =
  pm_cents :: int
  pm_balance :: "int option"
  pm_method :: string
  pm_currency :: "string option"
  pm_crypto_amount :: "string option"
  pm_tx_hash :: "string option"
  pm_bonus_pct :: rat
  pm_via_review :: bool
  pm_note :: "string option"

definition email_payment :: "pay_env \<Rightarrow> ident \<Rightarrow> string \<Rightarrow> payment_mail \<Rightarrow> payments \<Rightarrow> payments" where
  "email_payment env user_id event_id m p =
     send_email user_id ''payment_received'' (Some event_id)
       [(''note'', text_of (pm_note m)), (''amount_usd'', usd_of (Some (pm_cents m))), (''method'', Text (pm_method m)),
        (''currency'', text_of (pm_currency m)), (''crypto_amount'', text_of (pm_crypto_amount m)),
        (''tx_hash'', or_none (pm_tx_hash m)), (''bonus_pct'', Amount (pm_bonus_pct m)),
        (''balance_usd'', usd_of (pm_balance m)), (''credited_at'', Text (pe_iso env (pe_now env))),
        (''via_review'', Flag (pm_via_review m))] p"

definition email_deposit ::
  "pay_env \<Rightarrow> ident \<Rightarrow> deposit \<Rightarrow> int \<Rightarrow> int option \<Rightarrow> rat option \<Rightarrow> string option \<Rightarrow> payments \<Rightarrow> payments" where
  "email_deposit env user_id d cents balance_cents bonus_pct note p =
     email_payment env user_id (''payment:'' @ dep_ref d)
       \<lparr>pm_cents = cents, pm_balance = balance_cents, pm_method = ''crypto'', pm_currency = Some (dep_currency d),
        pm_crypto_amount = Some (token_amount (deposit_amount d)), pm_tx_hash = dep_tx_hash d,
        pm_bonus_pct = (case bonus_pct of None \<Rightarrow> bonus_rate (base_currency (dep_currency d)) | Some b \<Rightarrow> b),
        pm_via_review = False, pm_note = note\<rparr> p"

text \<open>\<open>paid\<close> carries the arguments a crediting review passes: the cents and the balance, and for a
  deposit its currency, amount and transaction.\<close>

definition email_review_resolved ::
  "invoice \<Rightarrow> string \<Rightarrow> int option \<Rightarrow> int option \<Rightarrow> (string \<times> string \<times> string option) option \<Rightarrow> string option
     \<Rightarrow> payments \<Rightarrow> payments" where
  "email_review_resolved review outcome cents balance_cents paid note p =
     (let why_step = (if outcome = ''dismissed''
                      then (let (w, s) = explain_reason (inv_decision_reason review) (inv_decision_note review)
                                            (inv_currency review) in (Some w, s))
                      else (None, None));
          currency = (case paid of None \<Rightarrow> inv_currency review | Some (c, _, _) \<Rightarrow> if c \<noteq> [] then c else inv_currency review);
          amount = (case paid of None \<Rightarrow> invoice_token_amount review
                    | Some (_, a, _) \<Rightarrow> if a \<noteq> [] then a else invoice_token_amount review);
          tx = (case paid of Some (_, _, Some t) \<Rightarrow> Some t | _ \<Rightarrow> inv_tx_hash review)
      in send_email (inv_user review) ''review_resolved'' None
           [(''outcome'', Text outcome), (''reason'', or_none (fst why_step)), (''next_step'', text_of (snd why_step)),
            (''note'', text_of note), (''amount_usd'', usd_of cents), (''balance_usd'', usd_of balance_cents),
            (''invoice_amount_usd'', Amount (round_to 2 (inv_amount_usd review))), (''currency'', Text currency),
            (''crypto_amount'', Text amount), (''tx_hash'', or_none tx)] p)"

definition email_review_received :: "ident \<Rightarrow> payments \<Rightarrow> payments" where
  "email_review_received invoice_id p =
     (case get_invoice (py_db p) invoice_id of
        None \<Rightarrow> p
      | Some review \<Rightarrow>
          send_email (inv_user review) ''review_received'' None
            [(''amount_usd'', Amount (round_to 2 (inv_amount_usd review))), (''currency'', Text (inv_currency review)),
             (''crypto_amount'', Text (invoice_token_amount review)), (''tx_hash'', text_of (inv_tx_hash review))] p)"

definition email_invoice_rejected :: "invoice \<Rightarrow> payments \<Rightarrow> payments" where
  "email_invoice_rejected iv p =
     (let why_step = explain_reason (inv_decision_reason iv) (inv_decision_note iv) (inv_currency iv)
      in send_email (inv_user iv) ''invoice_rejected'' (Some (''invoice_rejected:'' @ inv_id iv))
           [(''invoice_amount_usd'', Amount (round_to 2 (inv_amount_usd iv))), (''currency'', Text (inv_currency iv)),
            (''crypto_amount'', Text (invoice_token_amount iv)), (''reason'', or_none (Some (fst why_step))),
            (''next_step'', text_of (snd why_step))] p)"

section \<open>Resolving an on-chain transfer\<close>

definition deposit_value_cents :: "pay_env \<Rightarrow> string \<Rightarrow> rat \<Rightarrow> rat option \<Rightarrow> int" where
  "deposit_value_cents env currency amount usd_price =
     (let base = base_currency currency;
          price = (case usd_price of
                     Some q \<Rightarrow> q
                   | None \<Rightarrow> if base \<in> {''usdt'', ''usdc''} then 1 else pe_price env base);
          cents = py_round (amount * price * 100)
      in cents + py_round (of_int cents * bonus_rate base))"

definition value_of_deposit :: "pay_env \<Rightarrow> deposit \<Rightarrow> int" where
  "value_of_deposit env d = deposit_value_cents env (dep_currency d) (deposit_amount d) (dep_usd_price d)"

definition percent :: "rat \<Rightarrow> string" where
  "percent r = show_int (py_round (r * 100))"

definition invoice_description :: "invoice \<Rightarrow> deposit \<Rightarrow> string \<Rightarrow> int option \<Rightarrow> string" where
  "invoice_description iv d how credit_cents =
     (case credit_cents of
        None \<Rightarrow> ''Crypto deposit '' @ upper (inv_currency iv) @ '' $'' @ show_fixed 2 (inv_amount_usd iv)
                @ '' (+'' @ percent (inv_bonus_pct iv) @ ''% bonus)''
      | Some _ \<Rightarrow> ''Crypto deposit '' @ upper (inv_currency iv) @ '' '' @ show_general (deposit_amount d)
                @ '' ('' @ (if how = ''invoice_late'' then ''paid after the invoice expired''
                            else if how = ''invoice_underpay'' then ''less than invoiced''
                            else ''more than invoiced'') @ '')'')"

type_synonym rule = "payments \<Rightarrow> string option pay_result"

text \<open>\<^verbatim>\<open>if outcome: return outcome\<close>, else the next rule.\<close>

definition or_else :: "rule \<Rightarrow> rule \<Rightarrow> rule" where
  "or_else r1 r2 p = (case r1 p of (Inr None, p') \<Rightarrow> r2 p' | res \<Rightarrow> res)"

definition credit_invoice :: "pay_env \<Rightarrow> invoice \<Rightarrow> deposit \<Rightarrow> string \<Rightarrow> int option \<Rightarrow> bool \<Rightarrow> rule" where
  "credit_invoice env iv d how credit_cents allow_expired p =
     in_repo (confirm_and_credit_invoice (pe_now env) (inv_id iv)
                (if truthy (dep_tx_hash d) then the (dep_tx_hash d) else dep_ref d)
                (invoice_description iv d how credit_cents) (Some (dep_ref d)) allow_expired credit_cents) p
       (\<lambda>result p1.
          case result of
            None \<Rightarrow> (Inr None, p1)
          | Some (Refused st) \<Rightarrow> (Inr None, p1)
          | Some (Credited total_credits balance_after) \<Rightarrow>
              (Inr (Some how),
               email_deposit env (inv_user iv) d total_credits (Some balance_after) (Some (inv_bonus_pct iv))
                 (credited_note (Some how) (invoice_token_amount iv) (deposit_amount d) (inv_currency iv) None)
                 (on_billing_db (mark_deposit (pe_now env) (dep_ref d) (Some DepCredited)
                    (\<lambda>x. x\<lparr>dep_matched_by := Some how, dep_invoice_id := Some (inv_id iv),
                           dep_user := Some (inv_user iv), dep_credited_cents := Some total_credits\<rparr>)) p1))
          | Some _ \<Rightarrow>
              (Inr (Some ''seen''), on_billing_db (mark_deposit (pe_now env) (dep_ref d) (Some DepCredited) (\<lambda>x. x)) p1))"

fun credit_first_exact :: "pay_env \<Rightarrow> invoice list \<Rightarrow> deposit \<Rightarrow> rule" where
  "credit_first_exact env [] d p = (Inr None, p)"
| "credit_first_exact env (iv # ivs) d p =
     or_else (credit_invoice env iv d ''invoice'' None False) (credit_first_exact env ivs d) p"

definition late_invoices :: "pay_env \<Rightarrow> deposit \<Rightarrow> billing_db \<Rightarrow> invoice list" where
  "late_invoices env d db =
     recently_expired_invoices (dep_currency d) (dep_address d) (pe_now env - LATE_PAYMENT_WINDOW) db"

definition credit_late_exact :: "pay_env \<Rightarrow> deposit \<Rightarrow> rule" where
  "credit_late_exact env d p =
     (case filter (\<lambda>iv. exact_amount iv d) (late_invoices env d (py_db p)) of
        [iv] \<Rightarrow> credit_invoice env iv d ''invoice_late'' (Some (value_of_deposit env d)) True p
      | _ \<Rightarrow> (Inr None, p))"

definition deposit_owner :: "deposit \<Rightarrow> billing_db \<Rightarrow> ident option" where
  "deposit_owner d db =
     (case map_of CURRENCY_CHAIN (dep_currency d) of
        None \<Rightarrow> None | Some chain \<Rightarrow> wallet_owner chain (dep_sender d) db)"

definition credit_verified_wallet :: "pay_env \<Rightarrow> deposit \<Rightarrow> rule" where
  "credit_verified_wallet env d p =
     (let owner = deposit_owner d (py_db p); cents = value_of_deposit env d
      in if truthy owner \<and> 1 \<le> cents
         then in_repo (credit_deposit (pe_now env) (dep_ref d) (the owner) cents
                 (''Crypto deposit '' @ upper (dep_currency d) @ '' '' @ show_general (deposit_amount d)
                  @ '' from verified wallet'') ''wallet'') p
                (\<lambda>result p1. case result of
                   Some (CreditedDeposit c balance_after) \<Rightarrow>
                     (Inr (Some ''wallet''), email_deposit env (the owner) d cents (Some balance_after) None None p1)
                 | _ \<Rightarrow> (Inr (Some ''seen''), p1))
         else (Inr None, p))"

definition invoice_fits :: "rat \<Rightarrow> invoice \<Rightarrow> bool" where
  "invoice_fits amount iv \<longleftrightarrow>
     0 < inv_amount_crypto iv \<and> fst TOLERANT_MATCH * inv_amount_crypto iv \<le> amount \<and>
     amount \<le> snd TOLERANT_MATCH * inv_amount_crypto iv"

definition credit_one_customers_invoice :: "pay_env \<Rightarrow> deposit \<Rightarrow> invoice list \<Rightarrow> rule" where
  "credit_one_customers_invoice env d open_invoices p =
     (let amount = deposit_amount d;
          open_fit = filter (invoice_fits amount) open_invoices;
          expired_fit = filter (invoice_fits amount) (late_invoices env d (py_db p));
          candidates = open_fit @ expired_fit
      in if candidates = [] \<or> card (set (map inv_user candidates)) \<noteq> 1 then (Inr None, p)
         else case open_fit of
                iv # _ \<Rightarrow>
                  credit_invoice env iv d
                    (if inv_amount_crypto iv < amount then ''invoice_overpay'' else ''invoice_underpay'')
                    (Some (value_at_invoice_rate iv amount)) False p
              | [] \<Rightarrow> credit_invoice env (last expired_fit) d ''invoice_late'' (Some (value_of_deposit env d)) True p)"

definition leave_unmatched :: "pay_env \<Rightarrow> deposit \<Rightarrow> rule" where
  "leave_unmatched env d p =
     (if value_of_deposit env d < 1
      then (Inr (Some ''ignored''), on_billing_db (mark_deposit (pe_now env) (dep_ref d) (Some DepIgnored) (\<lambda>x. x)) p)
      else (Inr (Some ''unmatched''),
            p\<lparr>py_alerts := py_alerts p @
                [''Unmatched payment: '' @ show_general (deposit_amount d) @ '' '' @ upper (dep_currency d) @ '' from ''
                 @ dep_sender d @ '' (tx ''
                 @ (if truthy (dep_tx_hash d) then the (dep_tx_hash d) else dep_ref d)
                 @ ''). Nobody was credited; assign it under ''
                 @ ''Billing admin > Unmatched deposits, or wait for the payer to verify the wallet.'']\<rparr>))"

text \<open>The rules in their order, after the transfer is known to be a new one.\<close>

definition match_deposit :: "pay_env \<Rightarrow> deposit \<Rightarrow> rule" where
  "match_deposit env d p =
     (let invoices = pending_invoices (dep_currency d) (dep_address d) (py_db p)
      in or_else (credit_first_exact env (filter (\<lambda>iv. exact_amount iv d) invoices) d)
           (or_else (credit_late_exact env d)
             (or_else (credit_verified_wallet env d)
               (or_else (credit_one_customers_invoice env d invoices) (leave_unmatched env d)))) p)"

definition resolve_deposit :: "pay_env \<Rightarrow> deposit \<Rightarrow> rule" where
  "resolve_deposit env d p =
     (let (status, db1) = record_deposit (pe_now env) d (py_db p);
          p1 = p\<lparr>py_db := db1\<rparr>
      in if status \<noteq> DepUnmatched then (Inr (Some ''seen''), p1)
         else case earlier_credit (dep_ref d) (dep_tx_hash d) db1 of
                Some (row, by_path) \<Rightarrow>
                  (Inr (Some ''seen''),
                   on_billing_db (mark_deposit (pe_now env) (dep_ref d) (Some DepCredited)
                     (\<lambda>x. x\<lparr>dep_matched_by := Some by_path, dep_invoice_id := le_reference row,
                            dep_user := Some (le_user row), dep_credited_cents := Some (le_amount row)\<rparr>)) p1)
              | None \<Rightarrow> match_deposit env d p1)"

text \<open>The outcomes that put money on an account, as the watcher counts them.\<close>

definition CREDITED :: "string list" where
  "CREDITED = [''invoice'', ''invoice_overpay'', ''invoice_underpay'', ''invoice_late'', ''wallet'']"

section \<open>Crypto invoices\<close>

text \<open>The few millionths that make an invoice's amount its own.\<close>

definition max_extra :: "rat \<Rightarrow> int" where
  "max_extra usd_per_token = max 20 (min 9999 \<lfloor>1 / 100 / usd_per_token * of_int UNITS_PER_TOKEN\<rfloor>)"

definition free_extras :: "int \<Rightarrow> int \<Rightarrow> int set \<Rightarrow> int list" where
  "free_extras base_units most taken = filter (\<lambda>e. base_units + e \<notin> taken) [1..most]"

definition pick_units :: "pay_env \<Rightarrow> int \<Rightarrow> int \<Rightarrow> int set \<Rightarrow> int" where
  "pick_units env base_units most taken =
     (let free = free_extras base_units most taken
      in base_units + (if free \<noteq> [] then pe_choice env free else most + 1 + int (card taken)))"

record quote_terms =
  qt_user :: ident
  qt_currency :: string
  qt_amount_usd :: rat
  qt_bonus_pct :: rat
  qt_total_credits :: int
  qt_address :: string
  qt_base_units :: int
  qt_top :: int

definition new_invoice :: "pay_env \<Rightarrow> ident \<Rightarrow> quote_terms \<Rightarrow> int \<Rightarrow> invoice" where
  "new_invoice env iid q units =
     \<lparr>inv_id = iid, inv_user = qt_user q, inv_currency = qt_currency q,
      inv_amount_crypto = of_int units / of_int UNITS_PER_TOKEN, inv_amount_units = None,
      inv_amount_usd = qt_amount_usd q, inv_bonus_pct = qt_bonus_pct q, inv_total_credits = qt_total_credits q,
      inv_deposit_address = qt_address q, inv_status = InvPending, inv_tx_hash = None,
      inv_expires_at = pe_now env + seconds (30 * 60), inv_confirmed_at = None, inv_created_at = pe_now env,
      inv_review_status = None, inv_review_note = None, inv_review_requested_at = None,
      inv_decision_reason = None, inv_decision_note = None, inv_decided_at = None\<rparr>"

text \<open>The attempts of the loop: what other requests commit between reading the reserved amounts and
  the insert is \<open>others\<close>.  An amount another request took meanwhile is an \<open>IntegrityError\<close>, and the
  next attempt reads again.\<close>

fun reserve_amount ::
  "pay_env \<Rightarrow> (nat \<Rightarrow> billing_db \<Rightarrow> billing_db) \<Rightarrow> quote_terms \<Rightarrow> nat \<Rightarrow> payments \<Rightarrow> invoice pay_result" where
  "reserve_amount env others q 0 p = (Inl NoUniqueAmount, p)"
| "reserve_amount env others q (Suc n) p =
     (let taken = reserved_invoice_units (qt_currency q) (qt_address q) (pe_now env - LATE_PAYMENT_WINDOW) (py_db p);
          units = pick_units env (qt_base_units q) (qt_top q) taken;
          iv = new_invoice env (pe_uuid env n) q units;
          p1 = on_billing_db (others n) p
      in case create_crypto_invoice iv (Some units) (py_db p1) of
           Inr (_, db) \<Rightarrow> (Inr (iv\<lparr>inv_amount_units := Some units\<rparr>), p1\<lparr>py_db := db\<rparr>)
         | Inl IntegrityError \<Rightarrow> reserve_amount env others q n p1
         | Inl e \<Rightarrow> (Inl (Repo e), p1))"

definition create_invoice ::
  "pay_env \<Rightarrow> (nat \<Rightarrow> billing_db \<Rightarrow> billing_db) \<Rightarrow> ident \<Rightarrow> string \<Rightarrow> rat \<Rightarrow> payments \<Rightarrow> invoice pay_result" where
  "create_invoice env others user_id currency_arg amount_usd p =
     (let currency = lower currency_arg; base = base_currency currency;
          stable = base \<in> {''usdt'', ''usdc''};
          base_cents = py_round (amount_usd * 100);
          price = pe_price env base;
          amount_crypto = (if stable then amount_usd else if 0 < price then round_to 6 (amount_usd / price) else 0);
          address = deposit_address_for env currency
      in if address = [] then (Inl (NotAvailable currency), p)
         else if amount_crypto \<le> 0 then (Inl (NoPrice base), p)
         else if MAX_PENDING_INVOICES_PER_USER \<le> count_pending_invoices user_id (py_db p)
         then (Inl TooManyOpenInvoices, p)
         else reserve_amount env others
                \<lparr>qt_user = user_id, qt_currency = currency, qt_amount_usd = amount_usd, qt_bonus_pct = bonus_rate base,
                 qt_total_credits = base_cents + py_round (of_int base_cents * bonus_rate base), qt_address = address,
                 qt_base_units = py_round (amount_crypto * of_int UNITS_PER_TOKEN),
                 qt_top = max_extra (if stable then 1 else amount_usd / amount_crypto)\<rparr> 8 p)"

section \<open>Verified wallets\<close>

definition is_hex :: "char \<Rightarrow> bool" where
  "is_hex c \<longleftrightarrow> is_digit c \<or> c \<in> set ''abcdefABCDEF''"

definition evm_address :: "string \<Rightarrow> bool" where
  "evm_address s \<longleftrightarrow> length s = 42 \<and> take 2 s = ''0x'' \<and> list_all is_hex (drop 2 s)"

definition normalize_address :: "pay_env \<Rightarrow> string \<Rightarrow> string \<Rightarrow> string option" where
  "normalize_address env chain address_arg =
     (let address = strip address_arg
      in if chain = ''evm'' then (if evm_address address then Some (lower address) else None)
         else if chain = ''bittensor'' then (if starts_with ''0x'' address then None else pe_ss58 env address)
         else None)"

definition wallet_link_message :: "string \<Rightarrow> ident \<Rightarrow> string \<Rightarrow> string \<Rightarrow> string" where
  "wallet_link_message username user_id address issued_at =
     ''Green Compute: link wallet '' @ address @ '' to account '' @ username @ '' ('' @ user_id @ ''). ''
     @ ''Issued '' @ issued_at @ ''. Payments from this wallet will be credited to this account.''"

definition username_or_id :: "pay_env \<Rightarrow> ident \<Rightarrow> string" where
  "username_or_id env u = (if truthy (pe_username env u) then the (pe_username env u) else u)"

definition wallet_challenge ::
  "pay_env \<Rightarrow> ident \<Rightarrow> string \<Rightarrow> string \<Rightarrow> (string \<times> string \<times> string) option" where
  "wallet_challenge env user_id chain address_arg =
     (case normalize_address env chain address_arg of
        None \<Rightarrow> None
      | Some address \<Rightarrow>
          let issued_at = pe_iso env (pe_now env)
          in Some (address, issued_at, wallet_link_message (username_or_id env user_id) user_id address issued_at))"

fun claim_each :: "pay_env \<Rightarrow> ident \<Rightarrow> string \<Rightarrow> deposit list \<Rightarrow> payments \<Rightarrow> (string \<times> int) list pay_result" where
  "claim_each env user_id address [] p = (Inr [], p)"
| "claim_each env user_id address (d # ds) p =
     (let cents = value_of_deposit env d
      in if cents < 1 then claim_each env user_id address ds p
         else in_repo (credit_deposit (pe_now env) (dep_ref d) user_id cents
                 (''Crypto deposit '' @ upper (dep_currency d) @ '' '' @ show_general (deposit_amount d)
                  @ '' (claimed by linking wallet '' @ take 10 address @ '')'') ''wallet_link'') p
                (\<lambda>result p1. case result of
                   Some (CreditedDeposit c balance_after) \<Rightarrow>
                     (case claim_each env user_id address ds
                             (email_deposit env user_id d cents (Some balance_after) None None p1) of
                        (Inr rest, p2) \<Rightarrow> (Inr ((dep_ref d, cents) # rest), p2)
                      | (Inl e, p2) \<Rightarrow> (Inl e, p2))
                 | _ \<Rightarrow> claim_each env user_id address ds p1))"

definition claim_wallet_deposits ::
  "pay_env \<Rightarrow> ident \<Rightarrow> string \<Rightarrow> string \<Rightarrow> payments \<Rightarrow> (string \<times> int) list pay_result" where
  "claim_wallet_deposits env user_id chain address p =
     claim_each env user_id address
       (unmatched_deposits_from address (map fst (filter (\<lambda>(c, ch). ch = chain) CURRENCY_CHAIN))
          (pe_now env - WALLET_LINK_LOOKBACK) (py_db p)) p"

definition link_wallet ::
  "pay_env \<Rightarrow> ident \<Rightarrow> string \<Rightarrow> string \<Rightarrow> string \<Rightarrow> string \<Rightarrow> payments
     \<Rightarrow> (wallet \<times> bool \<times> (string \<times> int) list) pay_result" where
  "link_wallet env user_id chain address_arg issued_at signature p =
     (case normalize_address env chain address_arg of
        None \<Rightarrow> (Inl InvalidAddress, p)
      | Some address \<Rightarrow>
          case pe_fromiso env issued_at of
            None \<Rightarrow> (Inl ChallengeMalformed, p)
          | Some (issued, aware) \<Rightarrow>
              if \<not> aware then (Inl NaiveDatetime, p)
              else let age = pe_now env - issued
                   in if WALLET_CHALLENGE_TTL < age \<or> age < - seconds 60 then (Inl ChallengeExpired, p)
                      else if \<not> pe_verify env chain address
                                  (wallet_link_message (username_or_id env user_id) user_id address issued_at) signature
                      then (Inl SignatureMismatch, p)
                      else in_repo (add_verified_wallet (pe_now env) (pe_uuid env 0) user_id chain address) p
                             (\<lambda>(wallet, created) p1.
                                case claim_wallet_deposits env user_id chain address p1 of
                                  (Inr credited, p2) \<Rightarrow> (Inr (wallet, created, credited), p2)
                                | (Inl e, p2) \<Rightarrow> (Inl e, p2)))"

section \<open>Staff\<close>

definition assign_logged_deposit ::
  "pay_env \<Rightarrow> string \<Rightarrow> ident \<Rightarrow> payments \<Rightarrow> (deposit \<times> credit_outcome option) option pay_result" where
  "assign_logged_deposit env ref user_id p =
     (case get_row dep_ref ref (bd_deposits (py_db p)) of
        None \<Rightarrow> (Inr None, p)
      | Some d \<Rightarrow>
          in_repo (credit_deposit (pe_now env) ref user_id (value_of_deposit env d)
             (''Crypto deposit '' @ upper (dep_currency d) @ '' '' @ show_general (deposit_amount d)
              @ '' (assigned by admin)'') ''admin'') p
            (\<lambda>result p1. (Inr (Some (d, result)), p1)))"

definition assign_deposit :: "pay_env \<Rightarrow> string \<Rightarrow> ident \<Rightarrow> payments \<Rightarrow> credit_outcome option pay_result" where
  "assign_deposit env ref user_id p =
     (case assign_logged_deposit env ref user_id p of
        (Inr (Some (d, Some (CreditedDeposit cents balance_after))), p1) \<Rightarrow>
          (Inr (Some (CreditedDeposit cents balance_after)),
           email_deposit env user_id d cents (Some balance_after) None None p1)
      | (Inr (Some (d, result)), p1) \<Rightarrow> (Inr result, p1)
      | (Inr None, p1) \<Rightarrow> (Inr None, p1)
      | (Inl e, p1) \<Rightarrow> (Inl e, p1))"

text \<open>Whose balance a transfer of this transaction went to.\<close>

definition tx_credit_owner :: "pay_env \<Rightarrow> string option \<Rightarrow> billing_db \<Rightarrow> string option" where
  "tx_credit_owner env tx_hash db =
     (let tx = lower (strip_opt tx_hash)
      in if tx = [] then None
         else let logged = filter (same_tx tx) (bd_deposits db);
                  refs = map dep_ref logged;
                  entry = (case find (\<lambda>e. case le_deposit_ref e of None \<Rightarrow> False | Some r \<Rightarrow> r \<in> set refs) (bd_ledger db) of
                             Some e \<Rightarrow> Some e
                           | None \<Rightarrow> manual_credit_row (Some tx) db)
              in case entry of
                   Some e \<Rightarrow> Some (username_or_id env (le_user e))
                 | None \<Rightarrow>
                     let credited = filter (\<lambda>d. dep_status d = DepCredited) logged
                     in if credited = [] then None
                        else case find truthy (map dep_user credited) of
                               None \<Rightarrow> Some ''another account''
                             | Some u \<Rightarrow> Some (username_or_id env (the u)))"

definition manual_ref :: "string \<Rightarrow> string \<Rightarrow> string option" where
  "manual_ref currency tx_hash = (if tx_hash \<noteq> [] then Some (''manual:'' @ currency @ '':'' @ tx_hash) else None)"

definition mark_paid_by_staff :: "pay_env \<Rightarrow> invoice \<Rightarrow> string \<Rightarrow> payments \<Rightarrow> payments" where
  "mark_paid_by_staff env iv tx_hash =
     on_billing_db (\<lambda>db. snd (mark_deposits_by_tx (pe_now env) None tx_hash
       (\<lambda>x. x\<lparr>dep_status := DepCredited, dep_matched_by := Some ''admin_invoice'', dep_invoice_id := Some (inv_id iv),
              dep_user := Some (inv_user iv), dep_credited_cents := Some (inv_total_credits iv)\<rparr>) db))"

definition confirm_by_staff ::
  "pay_env \<Rightarrow> invoice \<Rightarrow> string \<Rightarrow> payments \<Rightarrow> confirm_outcome option pay_result" where
  "confirm_by_staff env iv tx_hash p =
     in_repo (confirm_and_credit_invoice (pe_now env) (inv_id iv) tx_hash
                (''Crypto deposit '' @ upper (inv_currency iv) @ '' $'' @ show_fixed 2 (inv_amount_usd iv)
                 @ '' (+'' @ show_int \<lfloor>inv_bonus_pct iv * 100\<rfloor> @ ''% bonus)'')
                (manual_ref (inv_currency iv) tx_hash) False None) p
       (\<lambda>result p1. case result of
          Some (Credited total_credits balance_after) \<Rightarrow>
            let p2 = (if tx_hash \<noteq> [] then mark_paid_by_staff env iv tx_hash p1 else p1);
                review = get_invoice (py_db p2) (inv_id iv)
            in (Inr result,
                email_payment env (inv_user iv) (''payment:invoice:'' @ inv_id iv)
                  \<lparr>pm_cents = inv_total_credits iv, pm_balance = Some balance_after, pm_method = ''crypto'',
                   pm_currency = Some (inv_currency iv),
                   pm_crypto_amount = Some (case review of None \<Rightarrow> token_amount (inv_amount_crypto iv)
                                            | Some r \<Rightarrow> invoice_token_amount r),
                   pm_tx_hash = Some tx_hash, pm_bonus_pct = inv_bonus_pct iv,
                   pm_via_review = (case review of None \<Rightarrow> False | Some r \<Rightarrow> inv_review_status r = Some ''open''),
                   pm_note = None\<rparr> p2)
        | _ \<Rightarrow> (Inr result, p1))"

definition confirm_crypto_deposit ::
  "pay_env \<Rightarrow> ident \<Rightarrow> string \<Rightarrow> payments \<Rightarrow> confirm_outcome option pay_result" where
  "confirm_crypto_deposit env invoice_id tx_hash p =
     (case get_invoice (py_db p) invoice_id of
        None \<Rightarrow> (Inr None, p)
      | Some iv \<Rightarrow>
          (case tx_credit_owner env (Some tx_hash) (py_db p) of
             Some paid \<Rightarrow>
               if inv_status iv \<noteq> InvConfirmed then (Inl (AlreadyPaid paid), p)
               else confirm_by_staff env iv tx_hash p
           | None \<Rightarrow> confirm_by_staff env iv tx_hash p))"

subsection \<open>Reviews\<close>

definition paid_elsewhere :: "invoice \<Rightarrow> billing_db \<Rightarrow> bool" where
  "paid_elsewhere review db \<longleftrightarrow>
     inv_status review = InvConfirmed \<or> tx_credited_to (inv_user review) (inv_tx_hash review) db"

definition dismiss_review ::
  "pay_env \<Rightarrow> invoice \<Rightarrow> string option \<Rightarrow> string option \<Rightarrow> payments \<Rightarrow> (string \<times> int option) pay_result" where
  "dismiss_review env review reason_arg note_arg p =
     (case check_reason reason_arg note_arg ''review'' of
        Inl e \<Rightarrow> (Inl (ReviewReason e), p)
      | Inr (reason, note) \<Rightarrow>
          let p1 = on_billing_db (set_review_status (pe_now env) (inv_id review) ''dismissed'' None (Some reason) note) p;
              told = review\<lparr>inv_decision_reason := Some reason, inv_decision_note := note\<rparr>
          in (Inr (''dismissed'', None),
              if paid_elsewhere review (py_db p1) then p1
              else email_review_resolved told ''dismissed'' None None None None p1))"

definition review_credit_deposit ::
  "pay_env \<Rightarrow> invoice \<Rightarrow> string option \<Rightarrow> payments \<Rightarrow> (string \<times> int option) pay_result" where
  "review_credit_deposit env review ref_arg p =
     (case assign_logged_deposit env (case ref_arg of None \<Rightarrow> [] | Some r \<Rightarrow> r) (inv_user review) p of
        (Inl e, p1) \<Rightarrow> (Inl e, p1)
      | (Inr None, p1) \<Rightarrow> (Inl DepositNotFound, p1)
      | (Inr (Some (d, Some (CreditedDeposit cents balance_after))), p1) \<Rightarrow>
          let tx = (if truthy (dep_tx_hash d) then the (dep_tx_hash d) else []);
              p2 = on_billing_db (set_review_status (pe_now env) (inv_id review) ''resolved'' (Some tx) None None) p1;
              p3 = on_billing_db (mark_deposit (pe_now env) (dep_ref d) None (\<lambda>x. x\<lparr>dep_invoice_id := Some (inv_id review)\<rparr>)) p2
          in (Inr (''resolved'', Some cents),
              email_review_resolved review ''credited'' (Some cents) (Some balance_after)
                (Some (dep_currency d, token_amount (deposit_amount d), dep_tx_hash d))
                (credited_note (Some ''admin'') (invoice_token_amount review) (deposit_amount d) (inv_currency review)
                   (Some (dep_currency d))) p3)
      | (Inr (Some (d, _)), p1) \<Rightarrow> (Inl DepositAlreadyCredited, p1))"

definition review_confirm_invoice ::
  "pay_env \<Rightarrow> invoice \<Rightarrow> payments \<Rightarrow> (string \<times> int option) pay_result" where
  "review_confirm_invoice env review p =
     (let tx_hash = (case inv_tx_hash review of None \<Rightarrow> [] | Some t \<Rightarrow> t)
      in case tx_credit_owner env (Some tx_hash) (py_db p) of
           Some paid \<Rightarrow> (Inl (AlreadyPaid paid), p)
         | None \<Rightarrow>
             in_repo (confirm_and_credit_invoice (pe_now env) (inv_id review) tx_hash
                 (''Crypto deposit '' @ upper (inv_currency review) @ '' $'' @ show_fixed 2 (inv_amount_usd review)
                  @ '' (+'' @ percent (inv_bonus_pct review) @ ''% bonus, after review)'')
                 (manual_ref (inv_currency review) tx_hash) True None) p
               (\<lambda>result p1. case result of
                  Some (Credited total_credits balance_after) \<Rightarrow>
                    let p2 = (if tx_hash \<noteq> [] then mark_paid_by_staff env review tx_hash p1 else p1);
                        p3 = on_billing_db (set_review_status (pe_now env) (inv_id review) ''resolved'' None None None) p2
                    in (Inr (''resolved'', Some (inv_total_credits review)),
                        email_review_resolved review ''credited'' (Some (inv_total_credits review)) (Some balance_after)
                          None None p3)
                | _ \<Rightarrow> (Inl NotCredited, p1)))"

definition resolve_review ::
  "pay_env \<Rightarrow> ident \<Rightarrow> string \<Rightarrow> string option \<Rightarrow> string option \<Rightarrow> string option \<Rightarrow> payments
     \<Rightarrow> (string \<times> int option) pay_result" where
  "resolve_review env invoice_id action ref reason note p =
     (case get_invoice (py_db p) invoice_id of
        None \<Rightarrow> (Inl NotFound, p)
      | Some review \<Rightarrow>
          if inv_review_status review \<noteq> Some ''open'' then (Inl ReviewNotOpen, p)
          else if action = ''dismiss'' then dismiss_review env review reason note p
          else if action = ''credit_deposit'' then review_credit_deposit env review ref p
          else if action = ''confirm_invoice'' then review_confirm_invoice env review p
          else (Inl UnknownAction, p))"

definition reject_invoice ::
  "pay_env \<Rightarrow> ident \<Rightarrow> string option \<Rightarrow> string option \<Rightarrow> payments \<Rightarrow> string option pay_result" where
  "reject_invoice env invoice_id reason_arg note_arg p =
     (case check_reason reason_arg note_arg ''reject'' of
        Inl e \<Rightarrow> (Inl (ReviewReason e), p)
      | Inr (reason, note) \<Rightarrow>
          case get_invoice (py_db p) invoice_id of
            None \<Rightarrow> (Inr None, p)
          | Some before \<Rightarrow>
              if inv_status before = InvConfirmed then (Inr None, p)
              else let (res, db) = reject_crypto_invoice (pe_now env) invoice_id (Some reason) note (py_db p);
                       p1 = p\<lparr>py_db := db\<rparr>
                   in if res = None then (Inr None, p1)
                      else (Inr (Some reason),
                            if inv_status before = InvRejected then p1
                            else email_invoice_rejected
                                   (before\<lparr>inv_decision_reason := Some reason, inv_decision_note := note\<rparr>) p1))"

section \<open>Stripe\<close>

definition create_stripe_topup ::
  "pay_env \<Rightarrow> string \<Rightarrow> ident \<Rightarrow> rat \<Rightarrow> payments \<Rightarrow> stripe_session pay_result" where
  "create_stripe_topup env stripe_id user_id amount_usd p =
     in_repo (create_stripe_session
        \<lparr>st_session_id = pe_uuid env 0, st_user = user_id, st_stripe_id = stripe_id, st_amount_usd = amount_usd,
         st_amount_cents = py_round (amount_usd * 100), st_status = StripePending, st_payment_intent = None,
         st_created_at = pe_now env, st_completed_at = None\<rparr>) p
       (\<lambda>ss p1. (Inr ss, p1))"

definition confirm_stripe_payment ::
  "pay_env \<Rightarrow> string \<Rightarrow> string option \<Rightarrow> payments \<Rightarrow> stripe_outcome option pay_result" where
  "confirm_stripe_payment env stripe_id payment_intent p =
     (case get_row st_stripe_id stripe_id (bd_stripe (py_db p)) of
        None \<Rightarrow> (Inr None, p)
      | Some existing \<Rightarrow>
          let p1 = (if truthy payment_intent
                    then on_billing_db (set_stripe_payment_intent stripe_id (the payment_intent)) p else p)
          in in_repo (complete_and_credit_stripe_session (pe_now env) stripe_id
                 (''Stripe payment $'' @ show_fixed 2 (st_amount_usd existing))) p1
               (\<lambda>result p2. case result of
                  Some (StripeCredited cents balance_after) \<Rightarrow>
                    (Inr result,
                     email_payment env (st_user existing) (''payment:stripe:'' @ stripe_id)
                       \<lparr>pm_cents = cents, pm_balance = Some balance_after, pm_method = ''card'', pm_currency = None,
                        pm_crypto_amount = None, pm_tx_hash = None, pm_bonus_pct = 0, pm_via_review = False,
                        pm_note = None\<rparr> p2)
                | _ \<Rightarrow> (Inr result, p2)))"

text \<open>What Stripe answers about a session: \<open>None\<close> is an exception.\<close>

record remote_session =
  rm_payment_status :: "string option"
  rm_status :: "string option"
  rm_payment_intent :: "string option"

record reconcile_summary =
  sm_checked :: nat
  sm_credited :: "string list"
  sm_would_credit :: "string list"
  sm_unpaid :: "string list"
  sm_errors :: "string list"

definition list_pending_stripe_sessions :: "billing_db \<Rightarrow> stripe_session list" where
  "list_pending_stripe_sessions db =
     take 500 (sort_key st_created_at (filter (\<lambda>s. st_status s = StripePending) (bd_stripe db)))"

definition reconcile_paid :: "remote_session \<Rightarrow> bool" where
  "reconcile_paid r \<longleftrightarrow> rm_payment_status r = Some ''paid'' \<or> rm_status r = Some ''complete''"

fun reconcile_each ::
  "pay_env \<Rightarrow> (string \<Rightarrow> remote_session option) \<Rightarrow> bool \<Rightarrow> stripe_session list \<Rightarrow> reconcile_summary \<Rightarrow> payments
     \<Rightarrow> reconcile_summary pay_result" where
  "reconcile_each env remote dry_run [] s p = (Inr s, p)"
| "reconcile_each env remote dry_run (ss # rest) s p =
     (let sid = st_stripe_id ss
      in case remote sid of
           None \<Rightarrow> reconcile_each env remote dry_run rest (s\<lparr>sm_errors := sm_errors s @ [sid]\<rparr>) p
         | Some r \<Rightarrow>
             if \<not> reconcile_paid r
             then reconcile_each env remote dry_run rest (s\<lparr>sm_unpaid := sm_unpaid s @ [sid]\<rparr>) p
             else if dry_run
             then reconcile_each env remote dry_run rest (s\<lparr>sm_would_credit := sm_would_credit s @ [sid]\<rparr>) p
             else case confirm_stripe_payment env sid (rm_payment_intent r) p of
                    (Inl e, p1) \<Rightarrow> (Inl e, p1)
                  | (Inr _, p1) \<Rightarrow>
                      reconcile_each env remote dry_run rest (s\<lparr>sm_credited := sm_credited s @ [sid]\<rparr>) p1)"

definition reconcile_pending_stripe_sessions ::
  "pay_env \<Rightarrow> (string \<Rightarrow> remote_session option) \<Rightarrow> bool \<Rightarrow> payments \<Rightarrow> reconcile_summary pay_result" where
  "reconcile_pending_stripe_sessions env remote dry_run p =
     (let pending = list_pending_stripe_sessions (py_db p)
      in reconcile_each env remote dry_run pending
           \<lparr>sm_checked = length pending, sm_credited = [], sm_would_credit = [], sm_unpaid = [], sm_errors = []\<rparr> p)"

definition reverse_stripe_topup_for_event ::
  "pay_env \<Rightarrow> string \<Rightarrow> string option \<Rightarrow> int \<Rightarrow> string \<Rightarrow> payments \<Rightarrow> reverse_outcome option pay_result" where
  "reverse_stripe_topup_for_event env event_id payment_intent amount_cents reason p =
     (let intent = strip_opt payment_intent
      in if intent = [] then (Inr None, p)
         else case get_stripe_session_by_payment_intent intent (py_db p) of
                None \<Rightarrow> (Inr None, p)
              | Some ss \<Rightarrow>
                  if amount_cents \<le> 0 then (Inr None, p)
                  else in_repo (reverse_stripe_topup (pe_now env) (st_user ss) amount_cents event_id
                          (Some (st_session_id ss))
                          (''Stripe '' @ reason @ '' reversal ($'' @ show_fixed 2 (of_int amount_cents / 100) @ '')'')
                          ''chargeback'') p
                         (\<lambda>result p1. (Inr (Some result), p1)))"

section \<open>The Stripe webhook\<close>

text \<open>The event after its signature has been checked: the object of a session event, the refunds and
  amounts of a charge, or the amount of a dispute.\<close>

record stripe_event =
  se_type :: string
  se_id :: string
  se_object_id :: string
  se_intent :: "string option"
  se_payment_status :: "string option"
  se_refunds :: "int option list"
  se_amount_refunded :: int
  se_amount :: int

definition latest_refund_amount_cents :: "stripe_event \<Rightarrow> int" where
  "latest_refund_amount_cents ev =
     (case se_refunds ev of
        Some amt # _ \<Rightarrow> amt
      | _ \<Rightarrow> se_amount_refunded ev)"

definition billing_stripe_webhook :: "pay_env \<Rightarrow> stripe_event \<Rightarrow> payments \<Rightarrow> unit pay_result" where
  "billing_stripe_webhook env ev p =
     (if se_type ev \<in> {''checkout.session.completed'', ''checkout.session.async_payment_succeeded''} then
        if se_payment_status ev = Some ''paid''
        then (case confirm_stripe_payment env (se_object_id ev) (se_intent ev) p of
                (Inl e, p1) \<Rightarrow> (Inl e, p1) | (Inr _, p1) \<Rightarrow> (Inr (), p1))
        else (Inr (), p)
      else if se_type ev \<in> {''charge.refunded'', ''charge.dispute.created''} then
        (case reverse_stripe_topup_for_event env (se_id ev) (se_intent ev)
                (if se_type ev = ''charge.refunded'' then latest_refund_amount_cents ev else se_amount ev)
                (if se_type ev = ''charge.refunded'' then ''refund'' else ''dispute'') p of
           (Inl e, p1) \<Rightarrow> (Inl e, p1) | (Inr _, p1) \<Rightarrow> (Inr (), p1))
      else (Inr (), p))"

end
