(* ===== verification/Invoice_Amounts.thy ===== *)
theory Invoice_Amounts
  imports Payments
begin

text \<open>
  All invoices of a currency ask for payment at one shared address, so the amount says whose a
  payment is.  This theory shows that no operation of the repository lets two open invoices at an
  address ask for the same amount, that a transfer is therefore the exact amount of at most one of
  them, and that a new invoice's amount is free of the open and of the recently expired ones.
\<close>

section \<open>Open amounts are distinct\<close>

definition asks :: "invoice \<Rightarrow> bool" where
  "asks iv \<longleftrightarrow> inv_status iv = InvPending \<and> inv_amount_units iv \<noteq> None"

definition asked_key :: "invoice \<Rightarrow> string \<times> string \<times> int option" where
  "asked_key iv = (inv_currency iv, inv_deposit_address iv, inv_amount_units iv)"

definition open_amounts :: "billing_db \<Rightarrow> (string \<times> string \<times> int option) list" where
  "open_amounts db = map asked_key (filter asks (bd_invoices db))"

abbreviation open_amounts_distinct :: "billing_db \<Rightarrow> bool" where
  "open_amounts_distinct db \<equiv> distinct (open_amounts db)"

lemma open_amounts_same: "bd_invoices db' = bd_invoices db \<Longrightarrow> open_amounts db' = open_amounts db"
  by (simp add: open_amounts_def)

text \<open>Rewriting a row without changing what it asks, or reopening it, keeps the amounts distinct.\<close>

lemma set_put_row_asked:
  assumes "get_row inv_id (inv_id iv') rows = Some iv" and "asked_key iv' = asked_key iv" and "asks iv' \<Longrightarrow> asks iv"
  shows "set (map asked_key (filter asks (put_row inv_id iv' rows))) \<subseteq> set (map asked_key (filter asks rows))"
  using assms by (induction rows) (auto split: if_splits)

lemma put_row_asked:
  assumes "get_row inv_id (inv_id iv') rows = Some iv" and "asked_key iv' = asked_key iv" and "asks iv' \<Longrightarrow> asks iv"
    and "distinct (map asked_key (filter asks rows))"
  shows "distinct (map asked_key (filter asks (put_row inv_id iv' rows)))"
  using assms
proof (induction rows)
  case (Cons r rows)
  show ?case
  proof (cases "inv_id r = inv_id iv'")
    case True
    with Cons.prems show ?thesis by (auto split: if_splits)
  next
    case False
    with Cons.prems have row: "get_row inv_id (inv_id iv') rows = Some iv" by simp
    have "distinct (map asked_key (filter asks (put_row inv_id iv' rows)))"
      using Cons.IH [OF row Cons.prems(2,3)] Cons.prems(4) by (auto split: if_splits)
    moreover have "asks r \<Longrightarrow> asked_key r \<notin> set (map asked_key (filter asks (put_row inv_id iv' rows)))"
      using set_put_row_asked [OF row Cons.prems(2,3)] Cons.prems(4) by auto
    ultimately show ?thesis using False by auto
  qed
qed simp

lemma set_invoice_open:
  assumes "get_invoice db i = Some iv" and "inv_id iv' = inv_id iv" and "asked_key iv' = asked_key iv"
    and "inv_status iv' \<noteq> InvPending \<or> inv_status iv' = inv_status iv" and "open_amounts_distinct db"
  shows "open_amounts_distinct (set_invoice iv' db)"
proof -
  have "get_row inv_id (inv_id iv') (bd_invoices db) = Some iv"
    using assms(1,2) get_row_SomeD [OF assms(1)] by simp
  moreover have "asks iv' \<Longrightarrow> asks iv"
    using assms(3,4) by (auto simp: asks_def asked_key_def)
  ultimately show ?thesis
    using put_row_asked [OF _ assms(3)] assms(5) by (simp add: open_amounts_def set_invoice_def)
qed

lemma bd_invoices_frame [simp]:
  "bd_invoices (set_deposit d db) = bd_invoices db"
  "bd_invoices (set_stripe x db) = bd_invoices db"
  by (simp_all add: set_deposit_def set_stripe_def)

lemma open_amounts_frame [simp]:
  "open_amounts (snd (book now row a k r d t db)) = open_amounts db"
  "open_amounts (set_deposit dd db) = open_amounts db"
  "open_amounts (set_stripe x db) = open_amounts db"
  "open_amounts (snd (reserve_inference_hold now u am ref ttl db)) = open_amounts db"
  "open_amounts (release_inference_hold ref db) = open_amounts db"
  "open_amounts (snd (record_deposit now dep db)) = open_amounts db"
  "open_amounts (snd (ignore_deposit ref db)) = open_amounts db"
  "open_amounts (mark_deposit now ref st upd db) = open_amounts db"
  "open_amounts (snd (mark_deposits_by_tx now c tx upd db)) = open_amounts db"
  "open_amounts (snd (delete_verified_wallet u w db)) = open_amounts db"
  "open_amounts (set_stripe_payment_intent sid pid db) = open_amounts db"
  by (rule open_amounts_same,
      simp add: reserve_inference_hold_def release_inference_hold_def record_deposit_def ignore_deposit_def
        mark_deposit_def mark_deposits_by_tx_def delete_verified_wallet_def set_stripe_payment_intent_def Let_def
        split: option.splits)+

lemma money_ops_open:
  "credit_user now u a k r t db = Inr (e, db') \<Longrightarrow> open_amounts db' = open_amounts db"
  "debit_user now u a k r t neg db = Inr (e, db') \<Longrightarrow> open_amounts db' = open_amounts db"
  "debit_user_to_floor now u a k r t db = Inr (dr, db') \<Longrightarrow> open_amounts db' = open_amounts db"
  by (auto elim!: credit_user_Inr debit_user_Inr debit_to_floor_Inr split: if_splits)

lemma other_ops_open:
  "credit_deposit now ref u a t m db = Inr (cr, db') \<Longrightarrow> open_amounts db' = open_amounts db"
  "complete_and_credit_stripe_session now sid t db = Inr (so, db') \<Longrightarrow> open_amounts db' = open_amounts db"
  "reverse_stripe_topup now u a ev r t k db = Inr (ro, db') \<Longrightarrow> open_amounts db' = open_amounts db"
  "add_verified_wallet now wid u ch ad db = Inr (wr, db') \<Longrightarrow> open_amounts db' = open_amounts db"
  "create_stripe_session ss db = Inr (cs, db') \<Longrightarrow> open_amounts db' = open_amounts db"
  by (auto simp: credit_deposit_def complete_and_credit_stripe_session_def reverse_stripe_topup_def
      add_verified_wallet_def create_stripe_session_def Let_def case_prod_unfold open_amounts_def
      split: option.split_asm if_split_asm)

lemma create_open:
  assumes "create_crypto_invoice iv units db = Inr (x, db')" and "open_amounts_distinct db"
  shows "open_amounts_distinct db'"
proof -
  have db': "bd_invoices db' = bd_invoices db @ [iv\<lparr>inv_amount_units := units\<rparr>]"
    and free: "inv_status iv = InvPending \<Longrightarrow> \<not> amount_clash (inv_currency iv) (inv_deposit_address iv) units db"
    using assms(1) by (auto simp: create_crypto_invoice_def split: if_split_asm)
  have "asked_key (iv\<lparr>inv_amount_units := units\<rparr>) \<notin> set (open_amounts db)" if "asks (iv\<lparr>inv_amount_units := units\<rparr>)"
    using that free by (auto simp: asks_def asked_key_def amount_clash_def open_amounts_def list_ex_iff)
  with assms(2) show ?thesis by (simp add: open_amounts_def db')
qed

lemma expire_open:
  "open_amounts_distinct db \<Longrightarrow> open_amounts_distinct (snd (expire_stale_pending_invoices now g db))"
proof -
  assume dist: "open_amounts_distinct db"
  have "map asked_key (filter asks (map (\<lambda>i. if P i then i\<lparr>inv_status := InvExpired\<rparr> else i) rows)) =
      map asked_key (filter (\<lambda>i. asks i \<and> \<not> P i) rows)" for P rows
    by (induction rows) (auto simp: asks_def)
  moreover have keep: "distinct (map asked_key (filter (\<lambda>i. asks i \<and> \<not> P i) rows))"
    if "distinct (map asked_key (filter asks rows))" for P rows
    using that distinct_map_filter [of asked_key "filter asks rows" "\<lambda>i. \<not> P i"] by (simp add: conj_commute)
  moreover have "distinct (map asked_key (filter (\<lambda>i. asks i \<and> \<not> (inv_status i = InvPending \<and>
      inv_expires_at i < now - seconds (max 0 g))) (bd_invoices db)))"
    by (rule keep) (use dist in \<open>simp add: open_amounts_def\<close>)
  ultimately show ?thesis
    by (simp add: expire_stale_pending_invoices_def open_amounts_def Let_def del: de_Morgan_conj)
qed

lemma confirm_open:
  assumes "confirm_and_credit_invoice now i tx t d ae cc db = Inr (co, db')" and "open_amounts_distinct db"
  shows "open_amounts_distinct db'"
proof (cases "get_invoice db i")
  case (Some iv)
  have paid: "open_amounts_distinct (set_invoice iv' db)"
    if "inv_id iv' = inv_id iv" "asked_key iv' = asked_key iv" "inv_status iv' = InvConfirmed" for iv'
    using set_invoice_open [OF Some that(1,2) _ assms(2)] that(3) by simp
  let ?booked = "list_ex (\<lambda>e. le_reference e = Some i \<and> le_kind e = ''topup'') (bd_ledger db)"
  let ?already = "if truthy d then find (\<lambda>e. le_kind e = ''topup'' \<and> le_deposit_ref e = d) (bd_ledger db) else None"
  note run = assms(1) [unfolded confirm_and_credit_invoice_def Some option.case Let_def case_prod_unfold]
  consider (closed) "inv_status iv = InvRejected \<or> inv_status iv = InvExpired \<and> \<not> ae"
    | (booked) "\<not> (inv_status iv = InvRejected \<or> inv_status iv = InvExpired \<and> \<not> ae)" ?booked
    | (already) x where "\<not> (inv_status iv = InvRejected \<or> inv_status iv = InvExpired \<and> \<not> ae)" "\<not> ?booked" "?already = Some x"
    | (fresh) "\<not> (inv_status iv = InvRejected \<or> inv_status iv = InvExpired \<and> \<not> ae)" "\<not> ?booked" "?already = None"
    by blast
  then show ?thesis
  proof cases
    case closed
    from run [unfolded if_P [OF closed]] assms(2) show ?thesis by simp
  next
    case booked
    from run [unfolded if_not_P [OF booked(1)] if_P [OF booked(2)]] show ?thesis
      using assms(2) by (cases "inv_status iv = InvConfirmed") (auto simp: asked_key_def intro!: paid)
  next
    case already
    from run [unfolded if_not_P [OF already(1)] if_not_P [OF already(2)] already(3) option.case] assms(2)
    show ?thesis by simp
  next
    case fresh
    from run [unfolded if_not_P [OF fresh(1)] if_not_P [OF fresh(2)] fresh(3) option.case] show ?thesis
      using assms(2) by (auto simp: asked_key_def intro!: paid split: option.split_asm if_split_asm)
  qed
qed (use assms in \<open>simp add: confirm_and_credit_invoice_def\<close>)

lemma invoice_ops_open:
  assumes "open_amounts_distinct db"
  shows "open_amounts_distinct (snd (reject_crypto_invoice now i reason said db))"
    and "open_amounts_distinct (snd (request_invoice_review now i u tx said db))"
    and "open_amounts_distinct (snd (report_invoice_tx_hash i u tx db))"
    and "open_amounts_distinct (set_review_status now i rs ptx reason said db)"
proof -
  note row = set_invoice_open [OF _ _ _ _ assms]
  show "open_amounts_distinct (snd (reject_crypto_invoice now i reason said db))"
    using assms by (auto simp: reject_crypto_invoice_def Let_def asked_key_def intro!: row split: option.splits)
  show "open_amounts_distinct (snd (request_invoice_review now i u tx said db))"
    using assms by (auto simp: request_invoice_review_def Let_def asked_key_def intro!: row split: option.splits)
  show "open_amounts_distinct (snd (report_invoice_tx_hash i u tx db))"
    using assms by (auto simp: report_invoice_tx_hash_def Let_def asked_key_def intro!: row split: option.splits)
  show "open_amounts_distinct (set_review_status now i rs ptx reason said db)"
    using assms by (auto simp: set_review_status_def Let_def asked_key_def intro!: row split: option.splits)
qed

lemma billing_step_open: "billing_step db db' \<Longrightarrow> open_amounts_distinct db \<Longrightarrow> open_amounts_distinct db'"
  by (induction rule: billing_step.induct)
    (simp_all add: money_ops_open other_ops_open create_open expire_open confirm_open invoice_ops_open)

interpretation amounts_machine: invariant_step billing_step open_amounts_distinct
  by unfold_locales (rule billing_step_open)

section \<open>The amount says whose a payment is\<close>

lemma pow10_large: "0 \<le> n \<Longrightarrow> pow10 n = 10 ^ nat n"
  by (simp add: pow10_def)

lemma exact_amount_units:
  assumes "exact_amount iv1 d" and "exact_amount iv2 d" and dec: "6 \<le> dep_decimals d"
  shows "\<exists>n. inv_amount_units iv1 = Some n \<and> inv_amount_units iv2 = Some n"
proof -
  obtain n1 n2 where units: "inv_amount_units iv1 = Some n1" "inv_amount_units iv2 = Some n2"
    using assms(1,2) by (auto simp: exact_amount_def split: option.split_asm)
  define scale where "scale = (10 :: int) ^ (dep_decimals d - 6)"
  define tol where "tol = (if 9 \<le> dep_decimals d then 100 else 0 :: int)"
  have "nat (int (dep_decimals d) - 6) = dep_decimals d - 6" using dec by linarith
  then have pow: "pow10 (int (dep_decimals d) - 6) = of_int scale"
    using dec by (simp add: pow10_large scale_def)
  have tolr: "(if 9 \<le> dep_decimals d then 100 else 0 :: rat) = of_int tol" by (simp add: tol_def)
  have near: "\<bar>dep_amount_raw d - n * scale\<bar> \<le> tol" if "exact_amount iv d" "inv_amount_units iv = Some n" for iv n
  proof -
    have "\<bar>of_int (dep_amount_raw d) - of_int n * of_int scale\<bar> \<le> (of_int tol :: rat)"
      using that tolr by (simp add: exact_amount_def pow)
    then have "(of_int \<bar>dep_amount_raw d - n * scale\<bar> :: rat) \<le> of_int tol" by simp
    then show ?thesis by (simp only: of_int_le_iff)
  qed
  have tight: "2 * tol < scale"
  proof (cases "9 \<le> dep_decimals d")
    case True
    then have "(10 :: int) ^ 3 \<le> scale" unfolding scale_def by (intro power_increasing) simp_all
    with True show ?thesis by (simp add: tol_def)
  qed (simp add: tol_def scale_def)
  have "\<bar>(n1 - n2) * scale\<bar> \<le> 2 * tol"
    using near [OF assms(1) units(1)] near [OF assms(2) units(2)] by (simp add: left_diff_distrib)
  moreover have pos: "0 < scale" by (simp add: scale_def)
  then have "\<bar>(n1 - n2) * scale\<bar> = \<bar>n1 - n2\<bar> * scale" by (simp add: abs_mult)
  ultimately have "\<bar>n1 - n2\<bar> * scale < scale" using tight by linarith
  then have "\<not> 1 \<le> \<bar>n1 - n2\<bar>"
    using pos mult_right_mono [of 1 "\<bar>n1 - n2\<bar>" scale] by linarith
  then have "n1 = n2" by linarith
  with units show ?thesis by simp
qed

lemma distinct_map_same:
  assumes "distinct (map f xs)" and "x \<in> set xs" and "y \<in> set xs" and "f x = f y"
  shows "x = y"
proof -
  have "inj_on f (set xs)" using assms(1) by (simp add: distinct_map)
  then show ?thesis using assms(4,2,3) by (rule inj_onD)
qed

lemma all_equal_short:
  assumes "distinct xs" and "\<And>x y. x \<in> set xs \<Longrightarrow> y \<in> set xs \<Longrightarrow> x = y"
  shows "length xs \<le> 1"
proof (cases xs)
  case xs: (Cons x ys)
  show ?thesis
  proof (cases ys)
    case (Cons y zs)
    have "x = y" by (rule assms(2)) (simp_all add: xs Cons)
    with assms(1) show ?thesis by (simp add: xs Cons)
  qed (simp add: xs)
qed simp

lemma distinct_invoices_where:
  assumes "distinct_keys inv_id (bd_invoices db)"
  shows "distinct (invoices_where c a cond db)"
proof -
  have "distinct (bd_invoices db)" using assms by (simp add: distinct_map)
  then show ?thesis by (simp add: invoices_where_def Let_def distinct_sort)
qed

text \<open>
  (C19) In every state the repository reaches, no two open invoices of a currency ask for the same
  amount at one address; and so a transfer of at least six decimals is the exact amount of at most
  one of the invoices the resolution looks at, as long as the address they were issued with is
  spelled one way.
\<close>

theorem exact_payment_is_one_invoice:
  assumes "distinct_keys u_id us" and "billing_step\<^sup>*\<^sup>* (opening_db us) db"
    and "6 \<le> dep_decimals d"
    and "\<forall>iv \<in> set (bd_invoices db). lower (strip (inv_deposit_address iv)) = lower (strip (dep_address d)) \<longrightarrow>
           inv_deposit_address iv = spelled"
  shows "open_amounts_distinct db \<and>
         length (filter (\<lambda>iv. exact_amount iv d) (pending_invoices (dep_currency d) (dep_address d) db)) \<le> 1"
proof
  show dist: "open_amounts_distinct db"
    by (rule amounts_machine.run_keeps [OF assms(2)]) (simp add: open_amounts_def opening_db_def)
  let ?open = "pending_invoices (dep_currency d) (dep_address d) db"
  have keys: "distinct_keys inv_id (bd_invoices db)"
    using billing_machine.run_keeps [OF assms(2) opening_db_inv [OF assms(1)]]
    by (simp add: billing_inv_def keys_unique_def)
  show "length (filter (\<lambda>iv. exact_amount iv d) ?open) \<le> 1"
  proof (rule all_equal_short)
    show "distinct (filter (\<lambda>iv. exact_amount iv d) ?open)"
      using distinct_invoices_where [OF keys] by (simp add: pending_invoices_def)
    fix x y
    assume xy: "x \<in> set (filter (\<lambda>iv. exact_amount iv d) ?open)" "y \<in> set (filter (\<lambda>iv. exact_amount iv d) ?open)"
    then have "exact_amount x d" "exact_amount y d" by simp_all
    then obtain n where same: "inv_amount_units x = Some n" "inv_amount_units y = Some n"
      using exact_amount_units [OF _ _ assms(3), of x y] by metis
    have key: "asked_key x = asked_key y" "x \<in> set (filter asks (bd_invoices db))" "y \<in> set (filter asks (bd_invoices db))"
      using xy assms(4) same
      by (auto simp: pending_invoices_def invoices_where_def Let_def asked_key_def asks_def)
    show "x = y" by (rule distinct_map_same [OF dist [unfolded open_amounts_def] key(2,3,1)])
  qed
qed

section \<open>A new invoice\<close>

lemma pick_units_free:
  assumes "free_extras base most taken \<noteq> []" and "\<forall>xs. xs \<noteq> [] \<longrightarrow> pe_choice env xs \<in> set xs"
  shows "pick_units env base most taken \<notin> taken" "base < pick_units env base most taken"
    "pick_units env base most taken \<le> base + most"
proof -
  have "pe_choice env (free_extras base most taken) \<in> set (free_extras base most taken)"
    using assms by blast
  then show "pick_units env base most taken \<notin> taken" "base < pick_units env base most taken"
    "pick_units env base most taken \<le> base + most"
    using assms(1) by (auto simp: pick_units_def free_extras_def Let_def)
qed

text \<open>Enough extras: fewer reserved amounts than extras leave one free.\<close>

lemma free_extra_exists:
  assumes "finite taken" and "card taken < nat most"
  shows "free_extras base most taken \<noteq> []"
proof
  assume "free_extras base most taken = []"
  then have "\<forall>e \<in> {1..most}. base + e \<in> taken"
    by (simp add: free_extras_def filter_empty_conv)
  then have "(\<lambda>e. base + e) ` {1..most} \<subseteq> taken" by blast
  then have "card ((\<lambda>e. base + e) ` {1..most}) \<le> card taken" by (rule card_mono [OF assms(1)])
  moreover have "card ((\<lambda>e. base + e) ` {1..most}) = nat most" by (subst card_image) (auto simp: inj_on_def)
  ultimately show False using assms(2) by simp
qed

lemma max_extra_range: "20 \<le> max_extra r \<and> max_extra r \<le> 9999"
  by (simp add: max_extra_def)

lemma create_invoice_reserves:
  assumes "create_invoice env others user_id currency amount_usd p = (Inr iv, p')"
  obtains q where "reserve_amount env others q 8 p = (Inr iv, p')" "qt_user q = user_id" "qt_currency q = lower currency"
    "qt_address q = deposit_address_for env (lower currency)" "qt_address q \<noteq> []"
    "qt_base_units q = py_round ((if base_currency (lower currency) \<in> {''usdt'', ''usdc''} then amount_usd
        else round_to 6 (amount_usd / pe_price env (base_currency (lower currency)))) * 1000000)"
    "20 \<le> qt_top q" "qt_top q \<le> 9999"
    "qt_total_credits q = py_round (amount_usd * 100) +
        py_round (of_int (py_round (amount_usd * 100)) * bonus_rate (base_currency (lower currency)))"
  using assms max_extra_range
  by (auto simp: create_invoice_def Let_def UNITS_PER_TOKEN_def split: if_split_asm)

lemma reserve_amount_alone:
  assumes "reserve_amount env (\<lambda>_ db. db) q (Suc n) p = (Inr iv, p')"
    and "free_extras (qt_base_units q) (qt_top q)
           (reserved_invoice_units (qt_currency q) (qt_address q) (pe_now env - LATE_PAYMENT_WINDOW) (py_db p)) \<noteq> []"
    and "get_invoice (py_db p) (pe_uuid env n) = None"
    and "\<forall>xs. xs \<noteq> [] \<longrightarrow> pe_choice env xs \<in> set xs"
  obtains units where "iv = (new_invoice env (pe_uuid env n) q units)\<lparr>inv_amount_units := Some units\<rparr>"
    "py_db p' = (py_db p)\<lparr>bd_invoices := bd_invoices (py_db p) @ [iv]\<rparr>"
    "units \<notin> reserved_invoice_units (qt_currency q) (qt_address q) (pe_now env - LATE_PAYMENT_WINDOW) (py_db p)"
    "qt_base_units q < units" "units \<le> qt_base_units q + qt_top q"
proof -
  let ?taken = "reserved_invoice_units (qt_currency q) (qt_address q) (pe_now env - LATE_PAYMENT_WINDOW) (py_db p)"
  let ?units = "pick_units env (qt_base_units q) (qt_top q) ?taken"
  let ?iv = "new_invoice env (pe_uuid env n) q ?units"
  note free = pick_units_free [OF assms(2,4)]
  have "\<not> amount_clash (qt_currency q) (qt_address q) (Some ?units) (py_db p)"
    using free(1) by (auto simp: amount_clash_def list_ex_iff reserved_invoice_units_def List.map_filter_def image_iff)
  then have "create_crypto_invoice ?iv (Some ?units) (py_db p) =
      Inr (?iv, (py_db p)\<lparr>bd_invoices := bd_invoices (py_db p) @ [?iv\<lparr>inv_amount_units := Some ?units\<rparr>]\<rparr>)"
    using assms(3) by (simp add: create_crypto_invoice_def new_invoice_def)
  then have "iv = ?iv\<lparr>inv_amount_units := Some ?units\<rparr>"
      "py_db p' = (py_db p)\<lparr>bd_invoices := bd_invoices (py_db p) @ [iv]\<rparr>"
    using assms(1) by (auto simp: on_billing_db_def Let_def)
  then show thesis using free by (rule that)
qed

text \<open>
  A new invoice asks for an amount of its own: the price of what was ordered plus 1 to 9999
  millionths, an amount that no open invoice of the currency at the address asks for, nor one that
  expired within the late-payment window; it is open for thirty minutes, for the account that
  ordered it, and credits the dollars ordered plus the bonus.
\<close>

theorem new_invoice_amount_is_free:
  assumes "create_invoice env (\<lambda>_ db. db) user_id currency amount_usd p = (Inr iv, p')"
    and "\<forall>xs. xs \<noteq> [] \<longrightarrow> pe_choice env xs \<in> set xs"
    and "get_invoice (py_db p) (pe_uuid env 7) = None"
    and "card (reserved_invoice_units (lower currency) (deposit_address_for env (lower currency))
                 (pe_now env - LATE_PAYMENT_WINDOW) (py_db p)) < 20"
  shows "\<exists>units. inv_amount_units iv = Some units \<and> inv_amount_crypto iv = of_int units / 1000000 \<and>
      units - py_round ((if base_currency (lower currency) \<in> {''usdt'', ''usdc''} then amount_usd
        else round_to 6 (amount_usd / pe_price env (base_currency (lower currency)))) * 1000000) \<in> {1..9999} \<and>
      units \<notin> reserved_invoice_units (inv_currency iv) (inv_deposit_address iv) (pe_now env - LATE_PAYMENT_WINDOW) (py_db p) \<and>
      bd_invoices (py_db p') = bd_invoices (py_db p) @ [iv] \<and>
      inv_status iv = InvPending \<and> inv_user iv = user_id \<and> inv_expires_at iv = pe_now env + seconds 1800 \<and>
      inv_total_credits iv = py_round (amount_usd * 100) +
        py_round (of_int (py_round (amount_usd * 100)) * bonus_rate (base_currency (lower currency)))"
proof -
  from create_invoice_reserves [OF assms(1)] obtain q where
    q: "reserve_amount env (\<lambda>_ db. db) q 8 p = (Inr iv, p')" "qt_user q = user_id" "qt_currency q = lower currency"
      "qt_address q = deposit_address_for env (lower currency)"
    and base: "qt_base_units q = py_round ((if base_currency (lower currency) \<in> {''usdt'', ''usdc''} then amount_usd
        else round_to 6 (amount_usd / pe_price env (base_currency (lower currency)))) * 1000000)"
    and most: "20 \<le> qt_top q" "qt_top q \<le> 9999"
    and credits: "qt_total_credits q = py_round (amount_usd * 100) +
        py_round (of_int (py_round (amount_usd * 100)) * bonus_rate (base_currency (lower currency)))"
    by metis
  let ?taken = "reserved_invoice_units (qt_currency q) (qt_address q) (pe_now env - LATE_PAYMENT_WINDOW) (py_db p)"
  have "finite ?taken" by (simp add: reserved_invoice_units_def)
  then have free: "free_extras (qt_base_units q) (qt_top q) ?taken \<noteq> []"
    by (rule free_extra_exists) (use assms(4) q most in simp)
  have "reserve_amount env (\<lambda>_ db. db) q (Suc 7) p = (Inr iv, p')" using q(1) by (simp add: numeral_eq_Suc)
  from reserve_amount_alone [OF this free assms(3,2)] obtain units where
    iv: "iv = (new_invoice env (pe_uuid env 7) q units)\<lparr>inv_amount_units := Some units\<rparr>"
    and db: "py_db p' = (py_db p)\<lparr>bd_invoices := bd_invoices (py_db p) @ [iv]\<rparr>"
    and units: "units \<notin> ?taken" "qt_base_units q < units" "units \<le> qt_base_units q + qt_top q" by metis
  have "inv_currency iv = qt_currency q" "inv_deposit_address iv = qt_address q" by (simp_all add: iv new_invoice_def)
  with units(1) have "units \<notin> reserved_invoice_units (inv_currency iv) (inv_deposit_address iv) (pe_now env - LATE_PAYMENT_WINDOW) (py_db p)"
    by simp
  moreover have "units - qt_base_units q \<in> {1..9999}" using units(2,3) most by simp
  moreover have "inv_amount_units iv = Some units \<and> inv_amount_crypto iv = of_int units / 1000000 \<and> inv_status iv = InvPending \<and>
      inv_user iv = user_id \<and> inv_expires_at iv = pe_now env + seconds 1800 \<and> inv_total_credits iv = qt_total_credits q"
    by (simp add: iv new_invoice_def UNITS_PER_TOKEN_def q(2))
  ultimately show ?thesis using db unfolding base credits by auto
qed

section \<open>Concrete runs\<close>

definition demo_pay_env :: pay_env where
  "demo_pay_env = \<lparr>pe_now = 100, pe_iso = (\<lambda>t. ''now''), pe_fromiso = (\<lambda>s. Some (100, True)),
     pe_environ = (\<lambda>k. Some (if k = ''BILLING_DEPOSIT_TAO'' then ''5dep'' else ''0xdep'')), pe_price = (\<lambda>b. 300), pe_choice = hd, pe_uuid = show_nat,
     pe_username = (\<lambda>u. None), pe_ss58 = Some, pe_verify = (\<lambda>c a m s. True)\<rparr>"

definition demo_open :: "ident \<Rightarrow> string \<Rightarrow> int \<Rightarrow> invoice" where
  "demo_open iid address units =
     \<lparr>inv_id = iid, inv_user = ''ann'', inv_currency = (if address = ''5dep'' then ''tao'' else ''usdt-eth''), inv_amount_crypto = of_int units / 1000000,
      inv_amount_units = Some units, inv_amount_usd = 20, inv_bonus_pct = 0, inv_total_credits = 2000,
      inv_deposit_address = address, inv_status = InvPending, inv_tx_hash = None, inv_expires_at = 1000,
      inv_confirmed_at = None, inv_created_at = 0, inv_review_status = None, inv_review_note = None,
      inv_review_requested_at = None, inv_decision_reason = None, inv_decision_note = None, inv_decided_at = None\<rparr>"

definition demo_transfer :: deposit where
  "demo_transfer = \<lparr>dep_ref = ''r1'', dep_currency = ''usdt-eth'', dep_tx_hash = Some ''0xab'', dep_sender = ''0xann'',
     dep_address = ''0xdep'', dep_amount_raw = 20000001, dep_decimals = 6, dep_usd_price = Some 1, dep_status = DepUnmatched,
     dep_matched_by = None, dep_invoice_id = None, dep_user = None, dep_credited_cents = None, dep_observed_at = 0,
     dep_credited_at = None\<rparr>"

definition demo_pay :: "invoice list \<Rightarrow> payments" where
  "demo_pay ivs = \<lparr>py_db = (opening_db demo_users)\<lparr>bd_invoices := ivs\<rparr>, py_emails = [], py_alerts = []\<rparr>"

theorem exact_payment_is_one_invoice_witness:
  "\<exists>db. billing_step\<^sup>*\<^sup>* (opening_db demo_users) db \<and> bd_invoices db = [demo_open ''a'' ''0xdep'' 20000001] \<and>
     length (filter (\<lambda>iv. exact_amount iv demo_transfer) (pending_invoices ''usdt-eth'' ''0xdep'' db)) \<le> 1"
proof -
  let ?iv = "demo_open ''a'' ''0xdep'' 20000001"
  let ?db = "(opening_db demo_users)\<lparr>bd_invoices := [?iv]\<rparr>"
  have "create_crypto_invoice ?iv (Some 20000001) (opening_db demo_users) = Inr (?iv, ?db)"
    by (simp add: create_crypto_invoice_def opening_db_def demo_open_def amount_clash_def)
  then have run: "billing_step\<^sup>*\<^sup>* (opening_db demo_users) ?db"
    by (intro r_into_rtranclp) (rule billing_step.intros(6))
  have "length (filter (\<lambda>iv. exact_amount iv demo_transfer)
      (pending_invoices (dep_currency demo_transfer) (dep_address demo_transfer) ?db)) \<le> 1"
    using exact_payment_is_one_invoice [OF demo_users_distinct run, of demo_transfer "''0xdep''"]
    by (simp add: demo_transfer_def demo_open_def)
  with run show ?thesis by (intro exI [of _ ?db]) (simp add: demo_transfer_def)
qed

definition demo_new_invoice :: invoice where
  "demo_new_invoice = \<lparr>inv_id = ''7'', inv_user = ''ann'', inv_currency = ''tao'', inv_amount_crypto = 66669 / 1000000,
     inv_amount_units = Some 66669, inv_amount_usd = 20, inv_bonus_pct = 0, inv_total_credits = 2000,
     inv_deposit_address = ''5dep'', inv_status = InvPending, inv_tx_hash = None, inv_expires_at = 1800000100,
     inv_confirmed_at = None, inv_created_at = 100, inv_review_status = None, inv_review_note = None,
     inv_review_requested_at = None, inv_decision_reason = None, inv_decision_note = None, inv_decided_at = None\<rparr>"

theorem new_invoice_amount_is_free_witness:
  "\<exists>p'. create_invoice demo_pay_env (\<lambda>_ db. db) ''ann'' ''TAO'' 20 (demo_pay [demo_open ''a'' ''5dep'' 66668]) = (Inr demo_new_invoice, p') \<and>
     bd_invoices (py_db p') = [demo_open ''a'' ''5dep'' 66668, demo_new_invoice]"
proof -
  let ?p = "demo_pay [demo_open ''a'' ''5dep'' 66668]"
  have "fst (create_invoice demo_pay_env (\<lambda>_ db. db) ''ann'' ''TAO'' 20 ?p) = Inr demo_new_invoice"
    by code_simp
  then obtain p' where run: "create_invoice demo_pay_env (\<lambda>_ db. db) ''ann'' ''TAO'' 20 ?p = (Inr demo_new_invoice, p')"
    by (metis prod.collapse)
  have "get_invoice (py_db ?p) (pe_uuid demo_pay_env 7) = None" by code_simp
  moreover have "card (reserved_invoice_units (lower ''TAO'') (deposit_address_for demo_pay_env (lower ''TAO''))
      (pe_now demo_pay_env - LATE_PAYMENT_WINDOW) (py_db ?p)) < 20" by code_simp
  moreover have "\<forall>xs. xs \<noteq> [] \<longrightarrow> pe_choice demo_pay_env xs \<in> set xs" by (simp add: demo_pay_env_def)
  ultimately have "bd_invoices (py_db p') = bd_invoices (py_db ?p) @ [demo_new_invoice]"
    using new_invoice_amount_is_free [OF run] by blast
  with run show ?thesis by (simp add: demo_pay_def)
qed

text \<open>The uniqueness is of the address as spelled, the matching ignores case: after the configured address
  is respelled, two open invoices can ask for the same amount, and the older one is credited.\<close>

lemma respelled_address_is_ambiguous:
  "create_crypto_invoice (demo_open ''b'' ''0xDEP'' 20000001) (Some 20000001) (py_db (demo_pay [demo_open ''a'' ''0xdep'' 20000001]))
     \<noteq> Inl IntegrityError"
  "map inv_id (filter (\<lambda>iv. exact_amount iv demo_transfer) (pending_invoices ''usdt-eth'' ''0xdep''
     (py_db (demo_pay [demo_open ''a'' ''0xdep'' 20000001, demo_open ''b'' ''0xDEP'' 20000001])))) = [''a'', ''b'']"
  by code_simp+

end
