(* ===== verification/Payment_Properties.thy ===== *)
theory Payment_Properties
  imports Invoice_Amounts
begin

text \<open>
  What the payment service guarantees.  The five rules of \<open>resolve_deposit\<close> credit at most one
  account, the one the specification \<open>entitled\<close> names, with one ledger row and one email
  (\<open>rule_ok\<close>, composed with \<open>or_else_ok\<close>); a transfer resolved twice is credited once; a transaction
  that paid somebody is refused by the staff's paths, and one staff confirmed by the watcher's.  The
  last lemmas show where the code counts a payment twice or loses one.
\<close>

section \<open>Crediting a transfer\<close>

text \<open>The transfer \<open>d\<close> was credited to \<open>u\<close>: one ledger row under its reference, which nobody had used,
  and one email to the account, under the same reference.  \<open>books_nothing\<close> is a call that moved no money and
  sent no email.\<close>

definition credited :: "deposit \<Rightarrow> ident \<Rightarrow> int \<Rightarrow> payments \<Rightarrow> payments \<Rightarrow> bool" where
  "credited d u cents p p' \<longleftrightarrow>
     \<not> ref_taken (Some (dep_ref d)) (py_db p) \<and>
     (\<exists>e. bd_ledger (py_db p') = bd_ledger (py_db p) @ [e] \<and> le_user e = u \<and> le_amount e = cents \<and>
          le_kind e = ''topup'' \<and> le_deposit_ref e = Some (dep_ref d)) \<and>
     (\<exists>m. py_emails p' = py_emails p @ [m] \<and> em_user m = u \<and> em_event m = Some (''payment:'' @ dep_ref d))"

definition books_nothing :: "payments \<Rightarrow> payments \<Rightarrow> bool" where
  "books_nothing p p' \<longleftrightarrow> same_money (py_db p) (py_db p') \<and> py_emails p' = py_emails p"

lemma quiet_refl [simp]: "books_nothing p p"
  by (simp add: books_nothing_def same_money_def)

lemma confirm_refused_same:
  assumes "confirm_and_credit_invoice now i tx t dref ae cc db = Inr (out, db')"
    and "out = None \<or> out = Some (Refused st)"
  shows "db' = db"
  using assms unfolding confirm_and_credit_invoice_def
  by (auto simp: Let_def case_prod_unfold split: option.split_asm if_split_asm)

lemma confirm_books:
  assumes "confirm_and_credit_invoice now i tx t dref ae cc db = Inr (Some (Credited c b), db')"
  obtains iv e where "get_invoice db i = Some iv" "bd_ledger db' = bd_ledger db @ [e]" "le_user e = inv_user iv"
    "le_amount e = c" "c = (case cc of None \<Rightarrow> inv_total_credits iv | Some x \<Rightarrow> x)" "le_kind e = ''topup''"
    "le_deposit_ref e = (if truthy dref then dref else None)" "\<not> ref_taken (if truthy dref then dref else None) db"
    "le_reference e = Some i" "le_balance_after e = b"
proof (cases "get_invoice db i")
  case (Some iv)
  let ?dref = "if truthy dref then dref else None"
  obtain user where user: "get_user db (inv_user iv) = Some user"
    using assms Some unfolding confirm_and_credit_invoice_def
    by (auto simp: Let_def case_prod_unfold split: option.split_asm if_split_asm)
  let ?c = "case cc of None \<Rightarrow> inv_total_credits iv | Some x \<Rightarrow> x"
  let ?iv = "iv\<lparr>inv_status := InvConfirmed, inv_tx_hash := Some tx, inv_confirmed_at := Some now\<rparr>"
  let ?bk = "book now user ?c ''topup'' (Some i) ?dref t (set_invoice ?iv db)"
  have "db' = snd ?bk \<and> c = ?c \<and> b = le_balance_after (fst ?bk) \<and> \<not> ref_taken ?dref db"
    using assms Some user unfolding confirm_and_credit_invoice_def
    by (auto simp: Let_def case_prod_unfold simp del: book_entry split: option.split_asm if_split_asm)
  then show thesis
    using that [OF Some, of "fst ?bk"] get_row_SomeD [OF user] by simp
qed (use assms in \<open>simp add: confirm_and_credit_invoice_def\<close>)

lemma confirm_same_money:
  assumes "confirm_and_credit_invoice now i tx t dref ae cc db = Inr (out, db')" and "\<nexists>c b. out = Some (Credited c b)"
  shows "same_money db db'"
  using assms unfolding confirm_and_credit_invoice_def same_money_def
  by (simp add: Let_def case_prod_unfold split: option.split_asm if_split_asm) (auto split: if_splits)

lemma credit_deposit_books:
  assumes "credit_deposit now ref u a t m db = Inr (Some (CreditedDeposit c b), db')"
  obtains e where "bd_ledger db' = bd_ledger db @ [e]" "le_user e = u" "le_amount e = a" "c = a" "le_kind e = ''topup''"
    "le_deposit_ref e = Some ref" "\<not> ref_taken (Some ref) db" "le_reference e = None"
proof (cases "get_row dep_ref ref (bd_deposits db)")
  case (Some dep)
  obtain user where user: "get_user db u = Some user"
    using assms Some unfolding credit_deposit_def
    by (auto simp: Let_def case_prod_unfold split: option.split_asm if_split_asm)
  let ?bk = "book now user a ''topup'' None (Some ref) t db"
  have "bd_ledger db' = bd_ledger (snd ?bk) \<and> c = a \<and> \<not> ref_taken (Some ref) db"
    using assms Some user unfolding credit_deposit_def
    by (auto simp: Let_def case_prod_unfold simp del: book_entry split: option.split_asm if_split_asm)
  then show thesis
    using that [of "fst ?bk"] get_row_SomeD [OF user] by simp
qed (use assms in \<open>simp add: credit_deposit_def\<close>)

lemma credit_deposit_same_money:
  assumes "credit_deposit now ref u a t m db = Inr (out, db')" and "\<nexists>c b. out = Some (CreditedDeposit c b)"
  shows "same_money db db'"
  using assms unfolding credit_deposit_def same_money_def
  by (auto simp: Let_def case_prod_unfold split: option.split_asm if_split_asm)

lemma email_frame [simp]:
  "py_db (send_email u k ev fs p) = py_db p"
  "py_db (email_payment env u eid m p) = py_db p"
  "py_db (email_deposit env u d c b bp nt p) = py_db p"
  "py_db (on_billing_db f p) = f (py_db p)"
  "py_emails (on_billing_db f p) = py_emails p"
  by (simp_all add: send_email_def email_payment_def email_deposit_def on_billing_db_def)

lemma credited_by_email:
  assumes "bd_ledger (py_db q) = bd_ledger (py_db p) @ [e]" and "le_user e = u" and "le_amount e = cents"
    and "le_kind e = ''topup''" and "le_deposit_ref e = Some (dep_ref d)" and "\<not> ref_taken (Some (dep_ref d)) (py_db p)"
    and "py_emails q = py_emails p"
  shows "credited d u cents p (email_deposit env u d c b bp nt q)"
  using assms by (simp add: credited_def email_deposit_def email_payment_def send_email_def)

lemma mark_deposit_money [simp]:
  "bd_users (mark_deposit now ref st upd db) = bd_users db"
  "bd_ledger (mark_deposit now ref st upd db) = bd_ledger db"
  by (simp_all add: mark_deposit_def Let_def split: option.splits)

lemma quiet_mark: "books_nothing p p' \<Longrightarrow> books_nothing p (on_billing_db (mark_deposit now ref st upd) p')"
  by (simp add: books_nothing_def same_money_def)

lemma credit_invoice_cases:
  assumes row: "get_invoice (py_db p) (inv_id iv) = Some iv" and ref: "dep_ref d \<noteq> []"
    and run: "credit_invoice env iv d how cc ae p = (Inr out, p')"
  shows "(out = None \<and> p' = p) \<or> (out = Some ''seen'' \<and> books_nothing p p') \<or>
     (out = Some how \<and> credited d (inv_user iv) (case cc of None \<Rightarrow> inv_total_credits iv | Some x \<Rightarrow> x) p p')"
proof -
  obtain result db1 where call: "confirm_and_credit_invoice (pe_now env) (inv_id iv)
      (if truthy (dep_tx_hash d) then the (dep_tx_hash d) else dep_ref d)
      (invoice_description iv d how cc) (Some (dep_ref d)) ae cc (py_db p) = Inr (result, db1)"
    using run by (auto simp: credit_invoice_def in_repo_def split: sum.split_asm)
  consider (none) "result = None" | (refused) st where "result = Some (Refused st)"
    | (paid) c b where "result = Some (Credited c b)" | (seen) "result = Some AlreadyConfirmed \<or> (\<exists>r. result = Some (DuplicateDeposit r))"
    by (metis confirm_outcome.exhaust option.exhaust)
  then show ?thesis
  proof cases
    case none
    with confirm_refused_same [OF call] have "db1 = py_db p" by simp
    with none run show ?thesis by (simp add: credit_invoice_def in_repo_def call)
  next
    case refused
    with confirm_refused_same [OF call] have "db1 = py_db p" by simp
    with refused run show ?thesis by (simp add: credit_invoice_def in_repo_def call)
  next
    case paid
    obtain e where e: "bd_ledger db1 = bd_ledger (py_db p) @ [e]" "le_user e = inv_user iv" "le_amount e = c"
        "c = (case cc of None \<Rightarrow> inv_total_credits iv | Some x \<Rightarrow> x)" "le_kind e = ''topup''"
        "le_deposit_ref e = Some (dep_ref d)" "\<not> ref_taken (Some (dep_ref d)) (py_db p)"
      using confirm_books [OF call [unfolded paid]] row ref by auto
    have "out = Some how" "credited d (inv_user iv) c p p'"
      using run paid credited_by_email [OF _ e(2,3,5,6,7)] e(1)
      by (auto simp: credit_invoice_def in_repo_def call simp del: truthy.simps)
    with e(4) show ?thesis by simp
  next
    case seen
    then have "same_money (py_db p) db1" using confirm_same_money [OF call] by auto
    then show ?thesis
      using run seen quiet_mark [of p "p\<lparr>py_db := db1\<rparr>"]
      by (auto simp: credit_invoice_def in_repo_def call books_nothing_def)
  qed
qed

lemma outcome_names [simp]:
  "''seen'' \<notin> set CREDITED" "''ignored'' \<notin> set CREDITED" "''unmatched'' \<notin> set CREDITED"
  "''invoice'' \<in> set CREDITED" "''invoice_overpay'' \<in> set CREDITED" "''invoice_underpay'' \<in> set CREDITED"
  "''invoice_late'' \<in> set CREDITED" "''wallet'' \<in> set CREDITED"
  by code_simp+

section \<open>Who a transfer is credited to\<close>

text \<open>The specification of the five rules: who is entitled to the transfer, for how much.\<close>

definition sole_customer :: "pay_env \<Rightarrow> deposit \<Rightarrow> billing_db \<Rightarrow> ident \<Rightarrow> bool" where
  "sole_customer env d db u \<longleftrightarrow>
     (\<forall>iv \<in> set (pending_invoices (dep_currency d) (dep_address d) db) \<union> set (late_invoices env d db).
        invoice_fits (deposit_amount d) iv \<longrightarrow> inv_user iv = u)"

definition entitled :: "pay_env \<Rightarrow> deposit \<Rightarrow> billing_db \<Rightarrow> string \<Rightarrow> ident \<Rightarrow> int \<Rightarrow> bool" where
  "entitled env d db how u cents \<longleftrightarrow>
     (let open_ivs = pending_invoices (dep_currency d) (dep_address d) db;
          late_ivs = late_invoices env d db
      in if how = ''invoice'' then
           \<exists>iv \<in> set open_ivs. exact_amount iv d \<and> inv_user iv = u \<and> cents = inv_total_credits iv
         else if how = ''invoice_late'' then
           cents = value_of_deposit env d \<and>
           ((\<exists>iv. filter (\<lambda>iv. exact_amount iv d) late_ivs = [iv] \<and> inv_user iv = u) \<or>
            (sole_customer env d db u \<and> (\<exists>iv \<in> set late_ivs. invoice_fits (deposit_amount d) iv \<and> inv_user iv = u)))
         else if how = ''wallet'' then
           deposit_owner d db = Some u \<and> cents = value_of_deposit env d \<and> 1 \<le> cents
         else
           sole_customer env d db u \<and>
           (\<exists>iv \<in> set open_ivs. invoice_fits (deposit_amount d) iv \<and> inv_user iv = u \<and>
              cents = value_at_invoice_rate iv (deposit_amount d) \<and>
              how = (if inv_amount_crypto iv < deposit_amount d then ''invoice_overpay'' else ''invoice_underpay'')))"

definition rule_ok :: "pay_env \<Rightarrow> deposit \<Rightarrow> payments \<Rightarrow> string option \<Rightarrow> payments \<Rightarrow> bool" where
  "rule_ok env d p out p' \<longleftrightarrow>
     (out = None \<and> p' = p) \<or>
     (\<exists>how. out = Some how \<and> how \<notin> set CREDITED \<and> books_nothing p p') \<or>
     (\<exists>how u cents. out = Some how \<and> how \<in> set CREDITED \<and> credited d u cents p p' \<and>
        entitled env d (py_db p) how u cents)"

lemma or_else_ok:
  assumes "or_else r1 r2 p = (Inr out, p')"
    and "\<And>out p'. r1 p = (Inr out, p') \<Longrightarrow> rule_ok env d p out p'"
    and "\<And>out p'. r2 p = (Inr out, p') \<Longrightarrow> rule_ok env d p out p'"
  shows "rule_ok env d p out p'"
proof (cases "r1 p")
  case (Pair res p1)
  then show ?thesis
  proof (cases "res = Inr None")
    case True
    with assms(2) Pair have "p1 = p" by (force simp: rule_ok_def)
    with True Pair assms(1,3) show ?thesis by (simp add: or_else_def)
  next
    case False
    with Pair assms(1) have "r1 p = (Inr out, p')"
      by (auto simp: or_else_def split: sum.split_asm option.split_asm)
    then show ?thesis by (rule assms(2))
  qed
qed

lemma invoices_where_set:
  "iv \<in> set (invoices_where c a cond db) \<Longrightarrow> iv \<in> set (bd_invoices db)"
  by (simp add: invoices_where_def Let_def)

lemma listed_invoice:
  assumes "keys_unique db"
    and "iv \<in> set (pending_invoices c a db) \<or> iv \<in> set (late_invoices env d db)"
  shows "get_invoice db (inv_id iv) = Some iv"
proof -
  have "iv \<in> set (bd_invoices db)"
    using assms(2) invoices_where_set
    unfolding pending_invoices_def late_invoices_def recently_expired_invoices_def by blast
  with assms(1) show ?thesis by (simp add: keys_unique_def get_row_distinct)
qed

lemma credit_invoice_ok:
  assumes "get_invoice (py_db p) (inv_id iv) = Some iv" and "dep_ref d \<noteq> []"
    and "credit_invoice env iv d how cc ae p = (Inr out, p')"
    and "how \<in> set CREDITED"
    and "entitled env d (py_db p) how (inv_user iv) (case cc of None \<Rightarrow> inv_total_credits iv | Some x \<Rightarrow> x)"
  shows "rule_ok env d p out p'"
proof -
  from credit_invoice_cases [OF assms(1-3)] consider "out = None" "p' = p" | "out = Some ''seen''" "books_nothing p p'"
    | "out = Some how" "credited d (inv_user iv) (case cc of None \<Rightarrow> inv_total_credits iv | Some x \<Rightarrow> x) p p'"
    by blast
  then show ?thesis
    by cases (use assms(4,5) in \<open>auto simp: rule_ok_def\<close>)
qed

lemma exact_rule_ok:
  assumes "keys_unique (py_db p)" and "dep_ref d \<noteq> []"
    and "set ivs \<subseteq> {iv \<in> set (pending_invoices (dep_currency d) (dep_address d) (py_db p)). exact_amount iv d}"
    and "credit_first_exact env ivs d p = (Inr out, p')"
  shows "rule_ok env d p out p'"
  using assms(3,4)
proof (induction ivs arbitrary: out p')
  case Nil
  then show ?case by (simp add: rule_ok_def)
next
  case (Cons iv ivs)
  have "rule_ok env d p out' q" if "credit_invoice env iv d ''invoice'' None False p = (Inr out', q)" for out' q
  proof (rule credit_invoice_ok [OF _ assms(2) that])
    show "get_invoice (py_db p) (inv_id iv) = Some iv"
      using listed_invoice [OF assms(1)] Cons.prems(1) by force
  qed (use Cons.prems(1) in \<open>auto simp: entitled_def\<close>)
  with Cons show ?case by (auto intro: or_else_ok)
qed

lemma late_rule_ok:
  assumes "keys_unique (py_db p)" and "dep_ref d \<noteq> []" and "credit_late_exact env d p = (Inr out, p')"
  shows "rule_ok env d p out p'"
proof (cases "\<exists>iv. filter (\<lambda>iv. exact_amount iv d) (late_invoices env d (py_db p)) = [iv]")
  case True
  then obtain iv where iv: "filter (\<lambda>iv. exact_amount iv d) (late_invoices env d (py_db p)) = [iv]" by blast
  then have "iv \<in> set (filter (\<lambda>iv. exact_amount iv d) (late_invoices env d (py_db p)))" by simp
  then have "get_invoice (py_db p) (inv_id iv) = Some iv" using listed_invoice [OF assms(1)] by force
  moreover have "credit_invoice env iv d ''invoice_late'' (Some (value_of_deposit env d)) True p = (Inr out, p')"
    using assms(3) by (simp add: credit_late_exact_def iv)
  ultimately show ?thesis
    using iv by (intro credit_invoice_ok [OF _ assms(2)]) (auto simp: entitled_def Let_def)
next
  case False
  with assms(3) show ?thesis
    by (auto simp: credit_late_exact_def rule_ok_def split: list.split_asm)
qed

lemma wallet_rule_ok:
  assumes "credit_verified_wallet env d p = (Inr out, p')"
  shows "rule_ok env d p out p'"
proof (cases "truthy (deposit_owner d (py_db p)) \<and> 1 \<le> value_of_deposit env d")
  case True
  then obtain u where u: "deposit_owner d (py_db p) = Some u" by (auto simp: truthy_iff)
  let ?t = "''Crypto deposit '' @ upper (dep_currency d) @ '' '' @ show_general (deposit_amount d) @ '' from verified wallet''"
  obtain result db1 where call:
      "credit_deposit (pe_now env) (dep_ref d) u (value_of_deposit env d) ?t ''wallet'' (py_db p) = Inr (result, db1)"
    using assms True u by (auto simp: credit_verified_wallet_def in_repo_def Let_def split: sum.split_asm)
  show ?thesis
  proof (cases "\<exists>c b. result = Some (CreditedDeposit c b)")
    case paid: True
    then obtain c b where result: "result = Some (CreditedDeposit c b)" by blast
    obtain e where e: "bd_ledger db1 = bd_ledger (py_db p) @ [e]" "le_user e = u" "le_amount e = value_of_deposit env d"
        "le_kind e = ''topup''" "le_deposit_ref e = Some (dep_ref d)" "\<not> ref_taken (Some (dep_ref d)) (py_db p)"
      using credit_deposit_books [OF call [unfolded result]] by metis
    have "out = Some ''wallet''" "credited d u (value_of_deposit env d) p p'"
      using assms True u call result credited_by_email [OF _ e(2-6)] e(1)
      by (auto simp: credit_verified_wallet_def in_repo_def Let_def)
    moreover have "entitled env d (py_db p) ''wallet'' u (value_of_deposit env d)"
      using True u by (simp add: entitled_def)
    ultimately show ?thesis by (auto simp: rule_ok_def)
  next
    case False
    then have "out = Some ''seen''" "p' = p\<lparr>py_db := db1\<rparr>"
      using assms True u call
      by (auto simp: credit_verified_wallet_def in_repo_def Let_def split: option.split_asm credit_outcome.split_asm)
    moreover have "same_money (py_db p) db1"
      using credit_deposit_same_money [OF call] False by blast
    ultimately show ?thesis by (simp add: rule_ok_def books_nothing_def)
  qed
qed (use assms in \<open>auto simp: credit_verified_wallet_def rule_ok_def Let_def\<close>)

lemma sole_customer_candidates:
  assumes "card (set (map inv_user
      (filter (invoice_fits (deposit_amount d)) (pending_invoices (dep_currency d) (dep_address d) db) @
       filter (invoice_fits (deposit_amount d)) (late_invoices env d db)))) = 1"
    and "iv \<in> set (filter (invoice_fits (deposit_amount d)) (pending_invoices (dep_currency d) (dep_address d) db)) \<union>
              set (filter (invoice_fits (deposit_amount d)) (late_invoices env d db))"
  shows "sole_customer env d db (inv_user iv)"
proof -
  obtain u where "set (map inv_user
      (filter (invoice_fits (deposit_amount d)) (pending_invoices (dep_currency d) (dep_address d) db) @
       filter (invoice_fits (deposit_amount d)) (late_invoices env d db))) = {u}"
    using assms(1) by (auto simp: card_1_singleton_iff)
  then have one: "\<forall>x \<in> set (filter (invoice_fits (deposit_amount d)) (pending_invoices (dep_currency d) (dep_address d) db)) \<union>
              set (filter (invoice_fits (deposit_amount d)) (late_invoices env d db)). inv_user x = u"
    by auto
  with assms(2) have "inv_user iv = u" by blast
  with one show ?thesis by (auto simp: sole_customer_def)
qed

lemma one_customer_rule_ok:
  assumes keys: "keys_unique (py_db p)" and ref: "dep_ref d \<noteq> []"
    and run: "credit_one_customers_invoice env d (pending_invoices (dep_currency d) (dep_address d) (py_db p)) p = (Inr out, p')"
  shows "rule_ok env d p out p'"
proof -
  let ?open = "filter (invoice_fits (deposit_amount d)) (pending_invoices (dep_currency d) (dep_address d) (py_db p))"
  let ?late = "filter (invoice_fits (deposit_amount d)) (late_invoices env d (py_db p))"
  consider (no) "?open @ ?late = [] \<or> card (set (map inv_user (?open @ ?late))) \<noteq> 1"
    | (opened) iv ivs where "?open = iv # ivs" "card (set (map inv_user (?open @ ?late))) = 1"
    | (expired) "?open = []" "?late \<noteq> []" "card (set (map inv_user (?open @ ?late))) = 1"
    by (cases ?open) auto
  moreover have one: "(case ?open of
      iv # _ \<Rightarrow> credit_invoice env iv d
        (if inv_amount_crypto iv < deposit_amount d then ''invoice_overpay'' else ''invoice_underpay'')
        (Some (value_at_invoice_rate iv (deposit_amount d))) False p
    | [] \<Rightarrow> credit_invoice env (last ?late) d ''invoice_late'' (Some (value_of_deposit env d)) True p) = (Inr out, p')"
    if "\<not> (?open @ ?late = [] \<or> card (set (map inv_user (?open @ ?late))) \<noteq> 1)"
    using run unfolding credit_one_customers_invoice_def Let_def if_not_P [OF that] .
  ultimately show ?thesis
  proof cases
    case no
    have "credit_one_customers_invoice env d (pending_invoices (dep_currency d) (dep_address d) (py_db p)) p = (Inr None, p)"
      unfolding credit_one_customers_invoice_def Let_def by (rule if_P [OF no])
    with run show ?thesis by (simp add: rule_ok_def)
  next
    case (opened iv ivs)
    then have mem: "iv \<in> set ?open" by simp
    let ?how = "if inv_amount_crypto iv < deposit_amount d then ''invoice_overpay'' else ''invoice_underpay''"
    have "credit_invoice env iv d ?how (Some (value_at_invoice_rate iv (deposit_amount d))) False p = (Inr out, p')"
      using one unfolding opened(1) using opened by simp
    moreover have "get_invoice (py_db p) (inv_id iv) = Some iv"
      using listed_invoice [OF keys] mem by force
    moreover have "sole_customer env d (py_db p) (inv_user iv)"
      using sole_customer_candidates [OF opened(2), of iv] mem by blast
    moreover from this have "entitled env d (py_db p) ?how (inv_user iv) (value_at_invoice_rate iv (deposit_amount d))"
      using mem by (cases "inv_amount_crypto iv < deposit_amount d") (auto simp: entitled_def)
    ultimately show ?thesis
      by (intro credit_invoice_ok [OF _ ref, where how = ?how]) auto
  next
    case expired
    then have mem: "last ?late \<in> set ?late" by (intro last_in_set)
    have "credit_invoice env (last ?late) d ''invoice_late'' (Some (value_of_deposit env d)) True p = (Inr out, p')"
      using one unfolding expired(1) using expired by simp
    moreover have "get_invoice (py_db p) (inv_id (last ?late)) = Some (last ?late)"
      using listed_invoice [OF keys] mem by force
    moreover have "sole_customer env d (py_db p) (inv_user (last ?late))"
      using sole_customer_candidates [OF expired(3), of "last ?late"] mem by blast
    moreover have "\<exists>iv \<in> set (late_invoices env d (py_db p)). invoice_fits (deposit_amount d) iv \<and> inv_user iv = inv_user (last ?late)"
      using mem by force
    ultimately show ?thesis
      by (intro credit_invoice_ok [OF _ ref]) (auto simp: entitled_def Let_def)
  qed
qed

lemma unmatched_rule_ok: "leave_unmatched env d p = (Inr out, p') \<Longrightarrow> rule_ok env d p out p'"
proof (cases "value_of_deposit env d < 1")
  case True
  assume "leave_unmatched env d p = (Inr out, p')"
  with True have "out = Some ''ignored''" "books_nothing p p'"
    by (auto simp: leave_unmatched_def intro: quiet_mark)
  then show ?thesis by (simp add: rule_ok_def)
next
  case False
  assume "leave_unmatched env d p = (Inr out, p')"
  with False have "out = Some ''unmatched''" "books_nothing p p'"
    by (auto simp: leave_unmatched_def books_nothing_def same_money_def)
  then show ?thesis by (simp add: rule_ok_def)
qed

lemma match_deposit_ok:
  assumes "keys_unique (py_db p)" and "dep_ref d \<noteq> []" and "match_deposit env d p = (Inr out, p')"
  shows "rule_ok env d p out p'"
  using assms(3) unfolding match_deposit_def Let_def
proof (rule or_else_ok)
  fix out1 p1
  assume "credit_first_exact env (filter (\<lambda>iv. exact_amount iv d)
      (pending_invoices (dep_currency d) (dep_address d) (py_db p))) d p = (Inr out1, p1)"
  then show "rule_ok env d p out1 p1" by (rule exact_rule_ok [OF assms(1,2), rotated]) simp
next
  fix out1 p1
  assume "or_else (credit_late_exact env d) (or_else (credit_verified_wallet env d)
      (or_else (credit_one_customers_invoice env d (pending_invoices (dep_currency d) (dep_address d) (py_db p)))
        (leave_unmatched env d))) p = (Inr out1, p1)"
  then show "rule_ok env d p out1 p1"
    by (blast intro: or_else_ok late_rule_ok [OF assms(1,2)] wallet_rule_ok one_customer_rule_ok [OF assms(1,2)] unmatched_rule_ok)
qed

lemma match_deposit_decides: "match_deposit env d p = (Inr out, p') \<Longrightarrow> out \<noteq> None"
  by (auto simp: match_deposit_def or_else_def leave_unmatched_def Let_def
      split: prod.split_asm sum.split_asm option.split_asm if_split_asm)

lemma record_deposit_frame [simp]:
  "bd_users (snd (record_deposit now d db)) = bd_users db"
  "bd_ledger (snd (record_deposit now d db)) = bd_ledger db"
  "bd_invoices (snd (record_deposit now d db)) = bd_invoices db"
  "bd_wallets (snd (record_deposit now d db)) = bd_wallets db"
  by (simp_all add: record_deposit_def split: option.splits)

lemma invoices_where_cong: "bd_invoices db' = bd_invoices db \<Longrightarrow> invoices_where c a cond db' = invoices_where c a cond db"
  by (simp add: invoices_where_def)

lemma entitled_recorded:
  "entitled env d (snd (record_deposit now x db)) how u cents \<longleftrightarrow> entitled env d db how u cents"
  by (simp add: entitled_def sole_customer_def pending_invoices_def late_invoices_def recently_expired_invoices_def
      invoices_where_cong [of "snd (record_deposit now x db)" db] deposit_owner_def wallet_owner_def cong: option.case_cong)

text \<open>
  (C5) Every transfer the watcher resolves ends one of two ways.  Either the outcome is one that
  counts as credited, and then exactly one ledger row is written, under the transfer's own
  reference, which no row had before, for the account and the amount the rules entitle (the open
  invoice of exactly that amount, the one invoice that expired with that amount, the owner of the
  sending wallet, or the only customer whose open or recently expired invoices the amount fits),
  and exactly one email goes to that account; or nothing is booked and no email is sent.
\<close>

theorem resolve_deposit_sound:
  assumes "keys_unique (py_db p)" and "dep_ref d \<noteq> []" and "resolve_deposit env d p = (Inr out, p')"
  shows "\<exists>how. out = Some how \<and>
    (if how \<in> set CREDITED
     then \<exists>u cents. credited d u cents p p' \<and> entitled env d (py_db p) how u cents
     else books_nothing p p')"
proof -
  let ?db1 = "snd (record_deposit (pe_now env) d (py_db p))" and ?st = "fst (record_deposit (pe_now env) d (py_db p))"
  let ?p1 = "p\<lparr>py_db := ?db1\<rparr>"
  have quiet1: "books_nothing p q \<longleftrightarrow> books_nothing ?p1 q" for q
    by (simp add: books_nothing_def same_money_def)
  have credited1: "credited d u c p q \<longleftrightarrow> credited d u c ?p1 q" for u c q
    by (simp add: credited_def ref_taken_def)
  have run: "(if ?st \<noteq> DepUnmatched then (Inr (Some ''seen''), ?p1)
      else case earlier_credit (dep_ref d) (dep_tx_hash d) ?db1 of
             Some (row, by_path) \<Rightarrow>
               (Inr (Some ''seen''), on_billing_db (mark_deposit (pe_now env) (dep_ref d) (Some DepCredited)
                  (\<lambda>x. x\<lparr>dep_matched_by := Some by_path, dep_invoice_id := le_reference row,
                         dep_user := Some (le_user row), dep_credited_cents := Some (le_amount row)\<rparr>)) ?p1)
           | None \<Rightarrow> match_deposit env d ?p1) = (Inr out, p')"
    using assms(3) by (simp add: resolve_deposit_def case_prod_unfold Let_def)
  consider (seen) "out = Some ''seen''" "books_nothing ?p1 p'" | (match) "match_deposit env d ?p1 = (Inr out, p')"
    using run quiet_mark [OF quiet_refl [of ?p1]] by (auto split: if_split_asm option.split_asm prod.split_asm)
  then show ?thesis
  proof cases
    case seen
    then show ?thesis using quiet1 by simp
  next
    case match
    have "keys_unique (py_db ?p1)" using deposit_op_keys(1) [OF assms(1)] by simp
    from match_deposit_ok [OF this assms(2) match] match_deposit_decides [OF match]
    show ?thesis by (auto simp: rule_ok_def quiet1 credited1 entitled_recorded)
  qed
qed

section \<open>Once per transfer, once per transaction\<close>

lemma find_list_ex: "find P xs \<noteq> None \<longleftrightarrow> list_ex P xs"
  by (induction xs) auto

lemma earlier_credit_cong:
  "bd_ledger db' = bd_ledger db \<Longrightarrow> earlier_credit ref tx db' = earlier_credit ref tx db"
  by (simp add: earlier_credit_def manual_credit_row_def cong: option.case_cong)

lemma earlier_credit_seen:
  assumes "earlier_credit (dep_ref d) (dep_tx_hash d) (py_db q) \<noteq> None"
  shows "\<exists>q'. resolve_deposit env d q = (Inr (Some ''seen''), q') \<and> books_nothing q q'"
proof -
  let ?db1 = "snd (record_deposit (pe_now env) d (py_db q))"
  have quiet1: "books_nothing q q' \<longleftrightarrow> books_nothing (q\<lparr>py_db := ?db1\<rparr>) q'" for q'
    by (simp add: books_nothing_def same_money_def)
  have "earlier_credit (dep_ref d) (dep_tx_hash d) ?db1 = earlier_credit (dep_ref d) (dep_tx_hash d) (py_db q)"
    by (rule earlier_credit_cong) simp
  with assms obtain row path where "earlier_credit (dep_ref d) (dep_tx_hash d) ?db1 = Some (row, path)" by auto
  then show ?thesis
    using quiet_mark [OF quiet_refl [of "q\<lparr>py_db := ?db1\<rparr>"]]
    by (simp add: resolve_deposit_def case_prod_unfold Let_def quiet1)
qed

text \<open>
  Resolving is safe to repeat: once a transfer has been credited, then whatever the repository
  does in between, resolving the same transfer again, at any later time, reports it as seen, books
  nothing and sends no email.
\<close>

theorem resolve_deposit_once:
  assumes "keys_unique (py_db p)" and "dep_ref d \<noteq> []"
    and "resolve_deposit env d p = (Inr (Some how), p')" and "how \<in> set CREDITED"
    and "billing_step\<^sup>*\<^sup>* (py_db p') (py_db q)" and "dep_ref d' = dep_ref d"
  shows "\<exists>q'. resolve_deposit env' d' q = (Inr (Some ''seen''), q') \<and> books_nothing q q'"
proof -
  obtain u cents where "credited d u cents p p'"
    using resolve_deposit_sound [OF assms(1-3)] assms(4) by auto
  then have "ref_taken (Some (dep_ref d)) (py_db p')" by (auto simp: credited_def ref_taken_def)
  then have "ref_taken (Some (dep_ref d')) (py_db q)"
    using billing_run_ref_taken [OF assms(5)] assms(6) by simp
  then have "find (\<lambda>e. le_deposit_ref e = Some (dep_ref d')) (bd_ledger (py_db q)) \<noteq> None"
    by (simp add: ref_taken_def find_list_ex del: find_None_iff not_None_eq)
  then have "earlier_credit (dep_ref d') (dep_tx_hash d') (py_db q) \<noteq> None"
    by (auto simp: earlier_credit_def)
  then show ?thesis by (rule earlier_credit_seen)
qed



lemma is_space_lower [simp]: "is_space (lower_char c) \<longleftrightarrow> is_space c"
  by (auto simp: is_space_def of_char_lower_char is_upper_def)

lemma strip_facts [simp]: "strip (strip s) = strip s" "strip (lower s) = lower (strip s)"
proof -
  show "strip (lower s) = lower (strip s)"
    by (simp add: strip_def lower_def dropWhile_map rev_map o_def)
  have "dropWhile is_space (rev (dropWhile is_space (rev (dropWhile is_space s)))) =
      rev (dropWhile is_space (rev (dropWhile is_space s)))"
  proof (cases "rev (dropWhile is_space (rev (dropWhile is_space s)))")
    case (Cons c cs)
    then obtain zs where "dropWhile is_space s = (c # cs) @ zs"
      by (metis rev_rev_ident rev_append takeWhile_dropWhile_id)
    then have "\<not> is_space c" by (metis append_Cons hd_dropWhile list.distinct(1) list.sel(1))
    with Cons show ?thesis by simp
  qed (simp only: dropWhile.simps)
  then show "strip (strip s) = strip s" by (simp add: strip_def)
qed





section \<open>Where a payment is counted twice, or not at all\<close>

text \<open>A confirmed invoice without a ledger row of its own is credited whatever \<open>tx_credit_owner\<close> found.\<close>

lemma confirmed_invoice_pays_again:
  assumes row: "get_invoice (py_db p) i = Some iv" and confirmed: "inv_status iv = InvConfirmed"
    and none: "\<forall>e \<in> set (bd_ledger (py_db p)). le_reference e \<noteq> Some i \<and> le_deposit_ref e \<noteq> manual_ref (inv_currency iv) hash"
    and user: "get_user (py_db p) (inv_user iv) \<noteq> None" and hash: "hash \<noteq> []"
  shows "\<exists>b p'. confirm_crypto_deposit env i hash p = (Inr (Some (Credited (inv_total_credits iv) b)), p')"
proof -
  let ?d = "manual_ref (inv_currency iv) hash"
  have iid: "inv_id iv = i" using get_row_SomeD [OF row] by simp
  have dref: "truthy ?d" using hash by (simp add: manual_ref_def)
  have "\<not> ref_taken ?d (py_db p)"
    using none by (auto simp: ref_taken_def list_ex_iff)
  moreover have "find (\<lambda>e. le_kind e = ''topup'' \<and> le_deposit_ref e = ?d) (bd_ledger (py_db p)) = None"
    using none by (auto simp: find_None_iff)
  moreover have "\<not> list_ex (\<lambda>e. le_reference e = Some i \<and> le_kind e = ''topup'') (bd_ledger (py_db p))"
    using none by (auto simp: list_ex_iff)
  moreover obtain u where "get_user (py_db p) (inv_user iv) = Some u" using user by blast
  ultimately have "\<exists>b db'. confirm_and_credit_invoice (pe_now env) i hash t ?d False None (py_db p) =
      Inr (Some (Credited (inv_total_credits iv) b), db')" for t
    using row confirmed dref
    by (simp add: confirm_and_credit_invoice_def Let_def case_prod_unfold del: find_None_iff)
  from this [of "''Crypto deposit '' @ upper (inv_currency iv) @ '' $'' @ show_fixed 2 (inv_amount_usd iv)
      @ '' (+'' @ show_int \<lfloor>inv_bonus_pct iv * 100\<rfloor> @ ''% bonus)''"]
  have "\<exists>b p'. confirm_by_staff env iv hash p = (Inr (Some (Credited (inv_total_credits iv) b)), p')"
    unfolding confirm_by_staff_def in_repo_def iid Let_def by (elim exE) simp
  then show ?thesis
    using row confirmed by (auto simp: confirm_crypto_deposit_def split: option.splits)
qed

lemma credit_deposit_invoices:
  "credit_deposit now ref u a t m db = Inr (out, db') \<Longrightarrow> bd_invoices db' = bd_invoices db"
  by (auto simp: credit_deposit_def Let_def case_prod_unfold set_deposit_def split: option.split_asm if_split_asm)

text \<open>A review closed by crediting the deposit leaves just such an invoice: confirmed, and the ledger row
  refers to the deposit only.  Confirming the invoice against the same transaction pays it again.\<close>

lemma review_leaves_it_payable:
  assumes row: "get_invoice (py_db p) i = Some iv"
    and run: "resolve_review env i ''credit_deposit'' (Some ref) reason said p = (Inr out, p1)"
  obtains iv' e where "get_invoice (py_db p1) i = Some iv'" "inv_status iv' = InvConfirmed"
    "inv_user iv' = inv_user iv" "inv_total_credits iv' = inv_total_credits iv" "inv_currency iv' = inv_currency iv"
    "bd_ledger (py_db p1) = bd_ledger (py_db p) @ [e]" "le_reference e = None" "le_deposit_ref e = Some ref"
proof -
  have iid: "inv_id iv = i" using get_row_SomeD [OF row] by simp
  have "review_credit_deposit env iv (Some ref) p = (Inr out, p1)"
    using run row by (simp add: resolve_review_def split: if_split_asm)
  then obtain d cents after q where assign: "assign_logged_deposit env ref (inv_user iv) p = (Inr (Some (d, Some (CreditedDeposit cents after))), q)"
    and p1: "py_db p1 = mark_deposit (pe_now env) (dep_ref d) None (\<lambda>x. x\<lparr>dep_invoice_id := Some (inv_id iv)\<rparr>)
        (set_review_status (pe_now env) (inv_id iv) ''resolved''
          (Some (if truthy (dep_tx_hash d) then the (dep_tx_hash d) else [])) None None (py_db q))"
    by (auto simp: review_credit_deposit_def Let_def email_review_resolved_def split: prod.split_asm sum.split_asm option.split_asm credit_outcome.split_asm)
  then obtain a t where credit: "credit_deposit (pe_now env) ref (inv_user iv) a t ''admin'' (py_db p) = Inr (Some (CreditedDeposit cents after), py_db q)"
    by (auto simp: assign_logged_deposit_def in_repo_def split: option.split_asm sum.split_asm)
  from credit_deposit_books [OF credit] obtain e where e: "bd_ledger (py_db q) = bd_ledger (py_db p) @ [e]" "le_reference e = None"
      "le_deposit_ref e = Some ref" by metis
  have "get_invoice (py_db q) i = Some iv" using credit_deposit_invoices [OF credit] row by simp
  then have "\<exists>iv'. get_invoice (py_db p1) i = Some iv' \<and> inv_status iv' = InvConfirmed \<and> inv_user iv' = inv_user iv \<and>
      inv_total_credits iv' = inv_total_credits iv \<and> inv_currency iv' = inv_currency iv"
    unfolding p1 iid
    by (simp add: mark_deposit_def set_review_status_def set_invoice_def set_deposit_def Let_def iid
        get_row_put_row split: option.splits)
  moreover have "bd_ledger (py_db p1) = bd_ledger (py_db q)"
    unfolding p1 by (simp add: set_review_status_def Let_def split: option.splits)
  ultimately show thesis using that e by metis
qed

text \<open>Staff types the hash, the confirm keeps it as typed, and the lookup strips it: a space after it
  hides the confirm from the watcher, which then credits the transfer again.\<close>

lemma padded_hash_is_not_recognised:
  assumes "hash \<noteq> []" and "is_space (last hash)" and "strip hash \<noteq> []"
  shows "\<not> like_manual (lower (strip hash)) (lower (the (manual_ref currency hash)))"
proof
  let ?r = "lower (the (manual_ref currency hash))" and ?tx = "lower (strip hash)"
  assume like: "like_manual ?tx ?r"
  then have "drop (length ?r - (length ?tx + 1)) ?r = '':'' @ ?tx" and "length ?tx + 1 \<le> length ?r"
    by (simp_all add: like_manual_def Let_def)
  then have "last ?r = last ?tx"
    using assms(3) by (metis append_is_Nil_conv last_appendR last_drop length_greater_0_conv
        list.distinct(1) drop_all leI lower_def map_is_Nil_conv)
  moreover have "last ?r = lower_char (last hash)"
    using assms(1) by (simp add: manual_ref_def lower_def last_map)
  moreover have "last ?tx = lower_char (last (strip hash))"
    using assms(3) by (simp add: lower_def last_map)
  moreover have "\<not> is_space (last (strip hash))"
    using assms(3) hd_dropWhile [of is_space "rev (dropWhile is_space hash)"]
    by (simp add: strip_def last_rev)
  ultimately show False using assms(2) by (metis is_space_lower)
qed

text \<open>An invoice that was paid between the watcher's reading of it and its crediting by a second
  transfer of the same amount: the second transfer is marked credited, but nobody is.\<close>

lemma second_payment_of_an_invoice_is_lost:
  assumes "get_invoice (py_db p) (inv_id iv) = Some row" and "inv_status row = InvConfirmed"
    and "e \<in> set (bd_ledger (py_db p))" and "le_reference e = Some (inv_id iv)" and "le_kind e = ''topup''"
  shows "\<exists>p'. credit_invoice env iv d how cc ae p = (Inr (Some ''seen''), p') \<and> books_nothing p p' \<and>
     py_db p' = mark_deposit (pe_now env) (dep_ref d) (Some DepCredited) (\<lambda>x. x) (py_db p)"
proof -
  have "list_ex (\<lambda>e. le_reference e = Some (inv_id iv) \<and> le_kind e = ''topup'') (bd_ledger (py_db p))"
    using assms(3-5) by (auto simp: list_ex_iff)
  then have "confirm_and_credit_invoice now (inv_id iv) tx t dref ae cc (py_db p) = Inr (Some AlreadyConfirmed, py_db p)" for now tx t dref
    using assms(1,2) by (simp add: confirm_and_credit_invoice_def)
  then show ?thesis
    using quiet_mark [OF quiet_refl [of p]] by (simp add: credit_invoice_def in_repo_def)
qed

text \<open>The webhook credits a session only when Stripe says it is paid; the job that catches up on
  sessions also credits one that is merely complete.\<close>

lemma reconcile_credits_unpaid:
  assumes "list_pending_stripe_sessions (py_db p) = [ss]"
    and "remote (st_stripe_id ss) = Some \<lparr>rm_payment_status = Some ''unpaid'', rm_status = Some ''complete'', rm_payment_intent = None\<rparr>"
    and "get_row st_stripe_id (st_stripe_id ss) (bd_stripe (py_db p)) = Some ss" and "st_status ss = StripePending"
    and "get_user (py_db p) (st_user ss) \<noteq> None" and "\<not> ref_taken (Some (''stripe:'' @ st_stripe_id ss)) (py_db p)"
  shows "\<exists>s p' e. reconcile_pending_stripe_sessions env remote False p = (Inr s, p') \<and>
     bd_ledger (py_db p') = bd_ledger (py_db p) @ [e] \<and> le_amount e = st_amount_cents ss"
    and "se_type ev = ''checkout.session.completed'' \<Longrightarrow> se_payment_status ev = Some ''unpaid'' \<Longrightarrow>
     billing_stripe_webhook env ev p = (Inr (), p)"
proof -
  obtain user where "get_user (py_db p) (st_user ss) = Some user" using assms(5) by blast
  then show "\<exists>s p' e. reconcile_pending_stripe_sessions env remote False p = (Inr s, p') \<and>
     bd_ledger (py_db p') = bd_ledger (py_db p) @ [e] \<and> le_amount e = st_amount_cents ss"
    using assms
    by (simp add: reconcile_pending_stripe_sessions_def reconcile_paid_def confirm_stripe_payment_def in_repo_def
        complete_and_credit_stripe_session_def Let_def case_prod_unfold)
qed (simp add: billing_stripe_webhook_def)

text \<open>A challenge time without an offset is a \<^verbatim>\<open>TypeError\<close>, outside the \<^verbatim>\<open>try\<close> that turns malformed
  times into a refusal.\<close>

lemma naive_challenge_raises:
  assumes "normalize_address env chain address = Some a" and "pe_fromiso env issued_at = Some (t, False)"
  shows "link_wallet env user_id chain address issued_at signature p = (Inl NaiveDatetime, p)"
  using assms by (simp add: link_wallet_def)

section \<open>A concrete transfer\<close>

lemma credit_invoice_pays:
  assumes "confirm_and_credit_invoice (pe_now env) (inv_id iv)
      (if truthy (dep_tx_hash d) then the (dep_tx_hash d) else dep_ref d)
      (invoice_description iv d how cc) (Some (dep_ref d)) ae cc (py_db p) = Inr (Some (Credited c b), db')"
  shows "\<exists>p'. credit_invoice env iv d how cc ae p = (Inr (Some how), p')"
  using assms by (simp add: credit_invoice_def in_repo_def)

lemma or_else_first: "r1 p = (Inr (Some out), p') \<Longrightarrow> or_else r1 r2 p = (Inr (Some out), p')"
  by (simp add: or_else_def)

lemma resolve_new:
  "record_deposit (pe_now env) d (py_db p) = (DepUnmatched, db1) \<Longrightarrow>
   earlier_credit (dep_ref d) (dep_tx_hash d) db1 = None \<Longrightarrow>
   resolve_deposit env d p = match_deposit env d (p\<lparr>py_db := db1\<rparr>)"
  by (simp add: resolve_deposit_def)

definition demo_one :: payments where
  "demo_one = demo_pay [demo_open ''a'' ''0xdep'' 20000001]"

lemma demo_one_keys: "keys_unique (py_db demo_one)"
  by (simp add: demo_one_def demo_pay_def keys_unique_def opening_db_def)

lemma demo_resolved: "\<exists>p'. resolve_deposit demo_pay_env demo_transfer demo_one = (Inr (Some ''invoice''), p')"
proof -
  let ?iv = "demo_open ''a'' ''0xdep'' 20000001"
  let ?db1 = "(py_db demo_one)\<lparr>bd_deposits := [demo_transfer\<lparr>dep_observed_at := 100\<rparr>]\<rparr>"
  let ?p1 = "demo_one\<lparr>py_db := ?db1\<rparr>"
  have now: "pe_now demo_pay_env = 100" by (simp add: demo_pay_env_def)
  have fields: "inv_id ?iv = ''a''" "dep_ref demo_transfer = ''r1''" "dep_tx_hash demo_transfer = Some ''0xab''"
    by (simp_all add: demo_open_def demo_transfer_def)
  have new: "record_deposit 100 demo_transfer (py_db demo_one) = (DepUnmatched, ?db1)"
    by (simp add: record_deposit_def demo_one_def demo_pay_def opening_db_def demo_transfer_def)
  have open1: "pending_invoices (dep_currency demo_transfer) (dep_address demo_transfer) ?db1 = [?iv]"
    by code_simp
  have exact: "exact_amount ?iv demo_transfer"
    by code_simp
  have none: "earlier_credit (dep_ref demo_transfer) (dep_tx_hash demo_transfer) ?db1 = None"
    by (simp add: earlier_credit_def manual_credit_row_def demo_one_def demo_pay_def opening_db_def)
  have "\<exists>b db'. confirm_and_credit_invoice 100 ''a'' ''0xab'' t (Some ''r1'') False None ?db1 = Inr (Some (Credited 2000 b), db')" for t
    by (simp add: confirm_and_credit_invoice_def demo_one_def demo_pay_def opening_db_def demo_users_def record_deposit_def
        demo_open_def ref_taken_def Let_def case_prod_unfold)
  then obtain b db' where "confirm_and_credit_invoice 100 ''a'' ''0xab'' (invoice_description ?iv demo_transfer ''invoice'' None)
      (Some ''r1'') False None ?db1 = Inr (Some (Credited 2000 b), db')" by blast
  then obtain p' where pay: "credit_invoice demo_pay_env ?iv demo_transfer ''invoice'' None False ?p1 = (Inr (Some ''invoice''), p')"
    using credit_invoice_pays [of demo_pay_env ?iv demo_transfer "''invoice''" None False ?p1] by (auto simp: now fields)
  then have "credit_first_exact demo_pay_env [?iv] demo_transfer ?p1 = (Inr (Some ''invoice''), p')"
    by (simp add: or_else_first)
  then have "match_deposit demo_pay_env demo_transfer ?p1 = (Inr (Some ''invoice''), p')"
    by (simp add: match_deposit_def open1 exact or_else_first)
  moreover have "resolve_deposit demo_pay_env demo_transfer demo_one = match_deposit demo_pay_env demo_transfer ?p1"
    by (rule resolve_new) (simp_all add: now new none)
  ultimately show ?thesis by simp
qed

theorem resolve_deposit_sound_witness:
  "\<exists>p' u cents. resolve_deposit demo_pay_env demo_transfer demo_one = (Inr (Some ''invoice''), p') \<and>
     credited demo_transfer u cents demo_one p' \<and> entitled demo_pay_env demo_transfer (py_db demo_one) ''invoice'' u cents"
proof -
  obtain p' where run: "resolve_deposit demo_pay_env demo_transfer demo_one = (Inr (Some ''invoice''), p')"
    using demo_resolved by blast
  have "dep_ref demo_transfer \<noteq> []" by (simp add: demo_transfer_def)
  from resolve_deposit_sound [OF demo_one_keys this run] run show ?thesis by auto
qed

theorem resolve_deposit_once_witness:
  "\<exists>p' q'. resolve_deposit demo_pay_env demo_transfer demo_one = (Inr (Some ''invoice''), p') \<and>
     resolve_deposit demo_pay_env demo_transfer p' = (Inr (Some ''seen''), q') \<and> books_nothing p' q'"
proof -
  obtain p' where run: "resolve_deposit demo_pay_env demo_transfer demo_one = (Inr (Some ''invoice''), p')"
    using demo_resolved by blast
  have "dep_ref demo_transfer \<noteq> []" by (simp add: demo_transfer_def)
  from resolve_deposit_once [OF demo_one_keys this run outcome_names(4) rtranclp.rtrancl_refl refl] run
  show ?thesis by blast
qed



end
