(* ===== verification/Builder.thy ===== *)
theory Builder
  imports Bus Numbers_Text
begin

text \<open>
  The image builder: \<^verbatim>\<open>builder/application/services.py\<close> (\<open>BuilderService\<close>), its tables
  (\<^verbatim>\<open>infrastructure/repository.py\<close>) and the staged runner of \<^verbatim>\<open>infrastructure/execution.py\<close>.

  A build is accepted, and then a job of it runs the stages staging, building and publishing, one
  per \<^verbatim>\<open>build.job.progress\<close> delivery of the bus (theory Bus).  The state \<open>builder\<close> has one list of
  rows per table and the bus; \<open>bs_uuid\<close> counts the fresh ids handed out.  The object store, the
  registry and the remote executor are arguments (\<open>build_env\<close>), each a call that answers or raises;
  so are the clock, read once per call, the ids, and the defaults of the records of the
  protocol package.  Every table write commits on its own, so an exception keeps what came before
  it: an operation returns a result or an exception together with the state.
\<close>

section \<open>Tables\<close>

record build =
  bl_id :: ident
  bl_image :: string
  bl_owner :: "ident option"
  bl_context_uri :: string
  bl_dockerfile_path :: string
  bl_status :: string
  bl_registry_repository :: "string option"
  bl_image_tag :: "string option"
  bl_artifact_uri :: "string option"
  bl_artifact_digest :: "string option"
  bl_manifest_uri :: "string option"
  bl_log_uri :: "string option"
  bl_executor_name :: "string option"
  bl_duration :: "rat option"
  bl_failure_reason :: "string option"
  bl_failure_class :: "string option"
  bl_last_operation :: "string option"
  bl_cleanup_status :: "string option"
  bl_retry_count :: int
  bl_retry_exhausted :: bool
  bl_created_at :: time
  bl_updated_at :: time

record build_context =
  cx_build :: ident
  cx_source_uri :: string
  cx_normalized_uri :: string
  cx_dockerfile_path :: string
  cx_dockerfile_uri :: "string option"
  cx_digest :: string
  cx_staged_uri :: "string option"
  cx_manifest_uri :: "string option"

record build_attempt =
  ba_id :: ident
  ba_build :: ident
  ba_attempt :: int
  ba_status :: string
  ba_from_attempt :: "int option"
  ba_from_job :: "ident option"
  ba_restart_reason :: "string option"
  ba_failure_class :: "string option"
  ba_last_operation :: "string option"
  ba_started_at :: time
  ba_finished_at :: "time option"

record build_job =
  jb_id :: ident
  jb_build :: ident
  jb_attempt :: int
  jb_status :: string
  jb_current_stage :: string
  jb_last_completed :: "string option"
  jb_stage_state :: "string \<rightharpoonup> string"
  jb_from_attempt :: "int option"
  jb_from_job :: "ident option"
  jb_restart_reason :: "string option"
  jb_executor_name :: "string option"
  jb_failure_class :: "string option"
  jb_message :: "string option"
  jb_recovery_count :: int
  jb_last_recovered_at :: "time option"
  jb_started_at :: time
  jb_finished_at :: "time option"
  jb_updated_at :: time

record checkpoint =
  cp_job :: ident
  cp_build :: ident
  cp_attempt :: int
  cp_stage :: string
  cp_status :: string
  cp_message :: string
  cp_recovered :: bool
  cp_created_at :: time

record build_event =
  be_build :: ident
  be_stage :: string
  be_message :: string

record build_log =
  lg_id :: ident
  lg_build :: ident
  lg_attempt :: int
  lg_stage :: string
  lg_message :: string
  lg_created_at :: time

record job_payload =
  jp_build :: ident
  jp_attempt :: "int option"
  jp_stage :: "string option"
  jp_from_attempt :: "int option"
  jp_from_job :: "ident option"
  jp_restart_reason :: "string option"

record recovery =
  rv_last_at :: "time option"
  rv_requeued :: nat
  rv_republished :: nat
  rv_builds :: "ident list"

record builder =
  bs_builds :: "build list"
  bs_contexts :: "build_context list"
  bs_attempts :: "build_attempt list"
  bs_jobs :: "build_job list"
  bs_checkpoints :: "checkpoint list"
  bs_events :: "build_event list"
  bs_logs :: "build_log list"
  bs_bus :: "job_payload bus_db"
  bs_recovery :: recovery
  bs_uuid :: nat

section \<open>The environment\<close>

record exec_error =
  xe_message :: string
  xe_operation :: string
  xe_failure_class :: string
  xe_retryable :: bool

text \<open>What a call can raise: a \<^verbatim>\<open>BuilderExecutionError\<close>, a \<^verbatim>\<open>ValueError\<close>, a \<^verbatim>\<open>KeyError\<close> or another exception.\<close>

datatype builder_exn = ExecError exec_error | ValueError string | MissingKey string | OtherError string

record published_image =
  pi_repository :: string
  pi_tag :: string
  pi_artifact_uri :: string
  pi_artifact_digest :: string
  pi_manifest_uri :: string
  pi_executor :: string
  pi_message :: string

record staged_context =
  sc_context :: build_context
  sc_log_uri :: string
  sc_message :: string

record build_env =
  bv_now :: time
  bv_iso :: "time \<Rightarrow> string"
  bv_uuid :: "nat \<Rightarrow> ident"
  bv_attempt :: "ident \<Rightarrow> ident \<Rightarrow> int \<Rightarrow> build_attempt"
  bv_job :: "ident \<Rightarrow> ident \<Rightarrow> int \<Rightarrow> build_job"
  bv_log_uri :: "ident \<Rightarrow> string"
  bv_stage_context :: "build \<Rightarrow> build_context \<Rightarrow> builder_exn + staged_context"
  bv_publish :: "build \<Rightarrow> build_context \<Rightarrow> builder_exn + published_image"
  bv_executor :: "(build \<Rightarrow> build_context \<Rightarrow> builder_exn + published_image) option"
  bv_executor_name :: string
  bv_cleanup_store :: "build \<Rightarrow> build_context option \<Rightarrow> builder_exn + string"
  bv_cleanup_registry :: "build \<Rightarrow> builder_exn + string"
  bv_poll_interval :: time

type_synonym 'a built = "(builder_exn + 'a) \<times> builder"

section \<open>The repository\<close>

definition save_build :: "build \<Rightarrow> builder \<Rightarrow> builder" where
  "save_build b s = s\<lparr>bs_builds := put_row bl_id b (bs_builds s)\<rparr>"

definition get_build :: "ident \<Rightarrow> builder \<Rightarrow> build option" where
  "get_build bid s = get_row bl_id bid (bs_builds s)"

definition list_builds :: "string option \<Rightarrow> builder \<Rightarrow> build list" where
  "list_builds img s =
     filter (\<lambda>b. img \<noteq> None \<longrightarrow> Some (bl_image b) = img) (sort_key (\<lambda>b. - bl_created_at b) (bs_builds s))"

definition save_build_context :: "build_context \<Rightarrow> builder \<Rightarrow> builder" where
  "save_build_context c s = s\<lparr>bs_contexts := put_row cx_build c (bs_contexts s)\<rparr>"

definition get_build_context :: "ident \<Rightarrow> builder \<Rightarrow> build_context option" where
  "get_build_context bid s = get_row cx_build bid (bs_contexts s)"

definition add_build_event :: "ident \<Rightarrow> string \<Rightarrow> string \<Rightarrow> builder \<Rightarrow> builder" where
  "add_build_event bid stage message s =
     s\<lparr>bs_events := bs_events s @ [\<lparr>be_build = bid, be_stage = stage, be_message = message\<rparr>]\<rparr>"

definition save_build_attempt :: "build_attempt \<Rightarrow> builder \<Rightarrow> builder" where
  "save_build_attempt a s = s\<lparr>bs_attempts := put_row ba_id a (bs_attempts s)\<rparr>"

definition get_build_attempt :: "ident \<Rightarrow> int \<Rightarrow> builder \<Rightarrow> build_attempt option" where
  "get_build_attempt bid n s =
     find (\<lambda>a. ba_build a = bid \<and> ba_attempt a = n) (sort_key (\<lambda>a. - ba_started_at a) (bs_attempts s))"

definition list_build_attempts :: "ident \<Rightarrow> builder \<Rightarrow> build_attempt list" where
  "list_build_attempts bid s =
     filter (\<lambda>a. ba_build a = bid) (sort_key ba_attempt (sort_key ba_started_at (bs_attempts s)))"

definition save_build_job :: "build_job \<Rightarrow> builder \<Rightarrow> builder" where
  "save_build_job j s = s\<lparr>bs_jobs := put_row jb_id j (bs_jobs s)\<rparr>"

text \<open>The rows newest first: by the update, then by the start.\<close>

definition jobs_newest_first :: "build_job list \<Rightarrow> build_job list" where
  "jobs_newest_first js = sort_key (\<lambda>j. - jb_updated_at j) (sort_key (\<lambda>j. - jb_started_at j) js)"

definition get_build_job :: "ident \<Rightarrow> int option \<Rightarrow> builder \<Rightarrow> build_job option" where
  "get_build_job bid attempt s =
     find (\<lambda>j. jb_build j = bid \<and> (attempt \<noteq> None \<longrightarrow> Some (jb_attempt j) = attempt)) (jobs_newest_first (bs_jobs s))"

definition list_build_jobs :: "ident \<Rightarrow> builder \<Rightarrow> build_job list" where
  "list_build_jobs bid s =
     filter (\<lambda>j. jb_build j = bid) (sort_key jb_attempt (sort_key jb_started_at (bs_jobs s)))"

definition list_build_job_checkpoints :: "ident \<Rightarrow> int option \<Rightarrow> ident option \<Rightarrow> builder \<Rightarrow> checkpoint list" where
  "list_build_job_checkpoints bid attempt job s =
     sort_key cp_created_at
       (filter (\<lambda>c. cp_build c = bid \<and> (attempt \<noteq> None \<longrightarrow> Some (cp_attempt c) = attempt) \<and>
                    (job \<noteq> None \<longrightarrow> Some (cp_job c) = job)) (bs_checkpoints s))"

definition add_build_log :: "build_env \<Rightarrow> ident \<Rightarrow> int \<Rightarrow> string \<Rightarrow> string \<Rightarrow> builder \<Rightarrow> builder" where
  "add_build_log env bid attempt stage message s =
     s\<lparr>bs_logs := bs_logs s @ [\<lparr>lg_id = bv_uuid env (bs_uuid s), lg_build = bid, lg_attempt = attempt,
                               lg_stage = stage, lg_message = message, lg_created_at = bv_now env\<rparr>],
       bs_uuid := Suc (bs_uuid s)\<rparr>"

definition list_build_logs :: "ident \<Rightarrow> int option \<Rightarrow> builder \<Rightarrow> build_log list" where
  "list_build_logs bid attempt s =
     sort_key lg_created_at
       (filter (\<lambda>l. lg_build l = bid \<and> (attempt \<noteq> None \<longrightarrow> Some (lg_attempt l) = attempt)) (bs_logs s))"

definition record_job_checkpoint ::
  "build_env \<Rightarrow> build_job \<Rightarrow> string \<Rightarrow> string \<Rightarrow> string \<Rightarrow> bool \<Rightarrow> builder \<Rightarrow> builder" where
  "record_job_checkpoint env j stage status message recovered s =
     s\<lparr>bs_checkpoints := bs_checkpoints s @
         [\<lparr>cp_job = jb_id j, cp_build = jb_build j, cp_attempt = jb_attempt j, cp_stage = stage, cp_status = status,
           cp_message = message, cp_recovered = recovered, cp_created_at = bv_now env\<rparr>]\<rparr>"

text \<open>\<^verbatim>\<open>bus.publish\<close> and the settling of a delivery.\<close>

definition emit_message :: "build_env \<Rightarrow> string \<Rightarrow> job_payload \<Rightarrow> builder \<Rightarrow> builder" where
  "emit_message env subject payload s =
     s\<lparr>bs_bus := snd (publish (bv_now env) (bv_uuid env (bs_uuid s)) subject payload (bs_bus s)),
       bs_uuid := Suc (bs_uuid s)\<rparr>"

definition complete :: "build_env \<Rightarrow> int \<Rightarrow> builder \<Rightarrow> builder" where
  "complete env did s = s\<lparr>bs_bus := snd (mark_completed (bv_now env) did (bs_bus s))\<rparr>"

definition fail_delivery :: "build_env \<Rightarrow> int \<Rightarrow> string \<Rightarrow> bool \<Rightarrow> int option \<Rightarrow> builder \<Rightarrow> builder" where
  "fail_delivery env did error retryable retry_after s =
     s\<lparr>bs_bus := snd (mark_failed (bv_now env) did error retryable retry_after (bs_bus s))\<rparr>"

abbreviation progress :: "ident \<Rightarrow> int \<Rightarrow> string \<Rightarrow> job_payload" where
  "progress bid attempt stage \<equiv>
     \<lparr>jp_build = bid, jp_attempt = Some attempt, jp_stage = Some stage, jp_from_attempt = None, jp_from_job = None,
      jp_restart_reason = None\<rparr>"

abbreviation notice :: "ident \<Rightarrow> job_payload" where
  "notice bid \<equiv>
     \<lparr>jp_build = bid, jp_attempt = None, jp_stage = None, jp_from_attempt = None, jp_from_job = None,
      jp_restart_reason = None\<rparr>"

section \<open>The staged runner\<close>

definition split_image_ref :: "string \<Rightarrow> string \<times> string" where
  "split_image_ref img =
     (let from_end = takeWhile (\<lambda>c. c \<noteq> CHR '':'' \<and> c \<noteq> CHR ''/'') (rev img);
          n = length img - length from_end
      in if 0 < n \<and> img ! (n - 1) = CHR '':'' then (take (n - 1) img, drop n img) else (img, ''latest''))"

record stage_result =
  sr_stage :: string
  sr_next :: "string option"
  sr_message :: string
  sr_state :: "(string \<times> string) list"
  sr_context :: "build_context option"
  sr_published :: "published_image option"

definition or_blank :: "string option \<Rightarrow> string" where
  "or_blank s = (case s of None \<Rightarrow> [] | Some t \<Rightarrow> t)"

definition image_state :: "published_image \<Rightarrow> (string \<times> string) list" where
  "image_state q =
     [(''artifact_uri'', pi_artifact_uri q), (''artifact_digest'', pi_artifact_digest q),
      (''registry_manifest_uri'', pi_manifest_uri q), (''registry_repository'', pi_repository q),
      (''image_tag'', pi_tag q)]"

text \<open>The image a remote build left in the job's state; a missing key is a \<^verbatim>\<open>KeyError\<close>.\<close>

definition recorded_image :: "(string \<rightharpoonup> string) \<Rightarrow> builder_exn + published_image" where
  "recorded_image st =
     (case map (\<lambda>k. (k, st k)) [''registry_repository'', ''image_tag'', ''artifact_uri'', ''artifact_digest'', ''registry_manifest_uri''] of
        [(_, Some repo), (_, Some tag), (_, Some uri), (_, Some digest), (_, Some manifest)] \<Rightarrow>
          Inr \<lparr>pi_repository = repo, pi_tag = tag, pi_artifact_uri = uri, pi_artifact_digest = digest,
               pi_manifest_uri = manifest,
               pi_executor = (case st ''executor_name'' of None \<Rightarrow> ''remote-build-executor'' | Some e \<Rightarrow> e),
               pi_message = (case st ''last_stage_message'' of None \<Rightarrow> ''recorded remote build publish result'' | Some m \<Rightarrow> m)\<rparr>
      | ks \<Rightarrow> Inl (MissingKey (fst (hd (filter (\<lambda>(k, v). v = None) ks)))))"

definition published_result :: "build_context \<Rightarrow> string \<Rightarrow> published_image \<Rightarrow> stage_result" where
  "published_result c message q =
     \<lparr>sr_stage = ''publishing'', sr_next = None, sr_message = message, sr_state = image_state q,
      sr_context = Some c, sr_published = Some q\<rparr>"

definition run_stage ::
  "build_env \<Rightarrow> build \<Rightarrow> build_context \<Rightarrow> string \<Rightarrow> (string \<rightharpoonup> string) \<Rightarrow> builder_exn + stage_result" where
  "run_stage env b c stage st =
     (if stage = ''staging'' then
        (case bv_stage_context env b c of
           Inl e \<Rightarrow> Inl e
         | Inr staged \<Rightarrow>
             Inr \<lparr>sr_stage = ''staging'', sr_next = Some ''building'', sr_message = sc_message staged,
                  sr_state = [(''staged_context_uri'', or_blank (cx_staged_uri (sc_context staged))),
                              (''context_manifest_uri'', or_blank (cx_manifest_uri (sc_context staged))),
                              (''log_uri'', sc_log_uri staged)],
                  sr_context = Some (sc_context staged), sr_published = None\<rparr>)
      else if stage = ''building'' then
        (case bv_executor env of
           Some execute \<Rightarrow>
             (case execute b c of
                Inl e \<Rightarrow> Inl e
              | Inr q \<Rightarrow>
                  Inr \<lparr>sr_stage = ''building'', sr_next = Some ''publishing'', sr_message = pi_message q,
                       sr_state = (''remote_build'', ''true'') # image_state q @ [(''executor_name'', pi_executor q)],
                       sr_context = Some c, sr_published = None\<rparr>)
         | None \<Rightarrow>
             Inr \<lparr>sr_stage = ''building'', sr_next = Some ''publishing'',
                  sr_message = ''prepared staged context for registry publish'',
                  sr_state = [(''staged_context_uri'', or_blank (cx_staged_uri c)),
                              (''context_manifest_uri'', or_blank (cx_manifest_uri c)), (''prepared'', ''true'')],
                  sr_context = Some c, sr_published = None\<rparr>)
      else if stage = ''publishing'' then
        (if st ''remote_build'' = Some ''true'' then
           (case recorded_image st of
              Inl e \<Rightarrow> Inl e
            | Inr q \<Rightarrow> Inr (published_result c (''recorded published image '' @ pi_manifest_uri q) q))
         else (case bv_publish env b c of
                 Inl e \<Rightarrow> Inl e
               | Inr q \<Rightarrow> Inr (published_result c (pi_message q) q)))
      else Inl (ValueError (''unsupported build stage: '' @ stage)))"

definition finalize_success :: "time \<Rightarrow> build \<Rightarrow> published_image \<Rightarrow> build" where
  "finalize_success now b q =
     b\<lparr>bl_status := ''published'', bl_registry_repository := Some (pi_repository q), bl_image_tag := Some (pi_tag q),
       bl_artifact_digest := Some (pi_artifact_digest q), bl_artifact_uri := Some (pi_artifact_uri q),
       bl_manifest_uri := Some (pi_manifest_uri q), bl_executor_name := Some (pi_executor q),
       bl_failure_class := None, bl_failure_reason := None, bl_cleanup_status := None,
       bl_last_operation := Some ''published'', bl_updated_at := now\<rparr>"

definition finalize_failure :: "time \<Rightarrow> build \<Rightarrow> exec_error \<Rightarrow> build" where
  "finalize_failure now b x =
     b\<lparr>bl_status := ''failed'', bl_failure_reason := Some (xe_message x), bl_failure_class := Some (xe_failure_class x),
       bl_last_operation := Some (xe_operation x), bl_updated_at := now\<rparr>"

section \<open>Accepting a build\<close>

text \<open>\<^verbatim>\<open>re.sub(r"[^a-z0-9]+", "-", text)\<close>: each run of other characters becomes one dash.\<close>

fun dash_runs :: "bool \<Rightarrow> string \<Rightarrow> string" where
  "dash_runs inside [] = []"
| "dash_runs inside (c # cs) =
     (if is_lower c \<or> is_digit c then c # dash_runs False cs
      else if inside then dash_runs True cs else CHR ''-'' # dash_runs True cs)"

definition strip_dashes :: "string \<Rightarrow> string" where
  "strip_dashes s = rev (dropWhile (\<lambda>c. c = CHR ''-'') (rev (dropWhile (\<lambda>c. c = CHR ''-'') s)))"

definition owner_namespace :: "ident \<Rightarrow> string" where
  "owner_namespace owner = ''u-'' @ strip_dashes (dash_runs False (lower owner))"

definition namespace_image :: "string \<Rightarrow> ident option \<Rightarrow> string" where
  "namespace_image img owner =
     (if \<not> truthy owner then img
      else let ns = owner_namespace (the owner)
           in if img = ns \<or> starts_with (ns @ ''/'') img then img else ns @ ''/'' @ img)"

record parsed_uri =
  pu_scheme :: string
  pu_netloc :: string
  pu_path :: string

definition lstrip_slash :: "string \<Rightarrow> string" where
  "lstrip_slash s = dropWhile (\<lambda>c. c = CHR ''/'') s"

definition rstrip_slash :: "string \<Rightarrow> string" where
  "rstrip_slash s = rev (dropWhile (\<lambda>c. c = CHR ''/'') (rev s))"

definition validate_context_uri :: "parsed_uri \<Rightarrow> string option" where
  "validate_context_uri u =
     (if pu_scheme u \<notin> {''s3'', ''minio'', ''file'', ''http'', ''https''}
      then Some (''unsupported build context scheme: '' @ (if pu_scheme u = [] then ''missing'' else pu_scheme u))
      else if pu_scheme u \<noteq> ''file'' \<and> pu_netloc u = []
      then Some ''build context uri missing object store or host component''
      else if pu_path u = [] \<and> pu_scheme u = ''file'' then Some ''build context uri missing object path''
      else if pu_scheme u \<in> {''s3'', ''minio''} \<and> pu_netloc u = [] \<and> lstrip_slash (pu_path u) = []
      then Some ''build context uri missing object path''
      else None)"

definition normalized_context_uri :: "parsed_uri \<Rightarrow> string" where
  "normalized_context_uri u = pu_scheme u @ ''://'' @ pu_netloc u @ pu_path u"

definition dockerfile_object_uri :: "parsed_uri \<Rightarrow> string \<Rightarrow> string" where
  "dockerfile_object_uri u path =
     rstrip_slash (normalized_context_uri u) @ ''.'' @ map (\<lambda>c. if c = CHR ''/'' then CHR ''_'' else c) path"

record build_request =
  rq_image :: string
  rq_context_uri :: "string option"
  rq_archive_b64 :: "string option"
  rq_archive_name :: "string option"
  rq_dockerfile_path :: string

text \<open>The URL parser, the digest and the writing of an uploaded archive to a temporary file are arguments.\<close>

record source_tools =
  tl_urlparse :: "string \<Rightarrow> parsed_uri"
  tl_sha256 :: "string \<Rightarrow> string"
  tl_write_archive :: "string \<Rightarrow> string \<Rightarrow> builder_exn + string"

definition materialize_context_source :: "source_tools \<Rightarrow> build_request \<Rightarrow> builder_exn + string" where
  "materialize_context_source tools rq =
     (if truthy (rq_archive_b64 rq)
      then tl_write_archive tools (the (rq_archive_b64 rq))
             (if truthy (rq_archive_name rq) then the (rq_archive_name rq) else ''build-context.zip'')
      else case rq_context_uri rq of
             None \<Rightarrow> Inl (ValueError ''build request requires context_uri or context_archive_b64'')
           | Some uri \<Rightarrow> Inr uri)"

definition start_build ::
  "build_env \<Rightarrow> source_tools \<Rightarrow> build_request \<Rightarrow> ident option \<Rightarrow> builder \<Rightarrow> build built" where
  "start_build env tools rq owner s =
     (case materialize_context_source tools rq of
        Inl e \<Rightarrow> (Inl e, s)
      | Inr uri \<Rightarrow>
          let bid = bv_uuid env (bs_uuid s);
              u = tl_urlparse tools uri;
              b = \<lparr>bl_id = bid, bl_image = namespace_image (rq_image rq) owner, bl_owner = owner, bl_context_uri = uri,
                   bl_dockerfile_path = rq_dockerfile_path rq, bl_status = ''accepted'', bl_registry_repository = None,
                   bl_image_tag = None, bl_artifact_uri = None, bl_artifact_digest = None, bl_manifest_uri = None,
                   bl_log_uri = None, bl_executor_name = None, bl_duration = None, bl_failure_reason = None,
                   bl_failure_class = None, bl_last_operation = None, bl_cleanup_status = None, bl_retry_count = 0,
                   bl_retry_exhausted = False, bl_created_at = bv_now env, bl_updated_at = bv_now env\<rparr>;
              c = \<lparr>cx_build = bid, cx_source_uri = uri, cx_normalized_uri = normalized_context_uri u,
                   cx_dockerfile_path = rq_dockerfile_path rq,
                   cx_dockerfile_uri = Some (dockerfile_object_uri u (rq_dockerfile_path rq)),
                   cx_digest = ''sha256:'' @ tl_sha256 tools (bid @ '':'' @ uri @ '':'' @ rq_dockerfile_path rq),
                   cx_staged_uri = None, cx_manifest_uri = None\<rparr>
          in (Inr b,
              emit_message env ''build.accepted'' ((notice bid)\<lparr>jp_attempt := Some 1\<rparr>)
                (add_build_event bid ''accepted'' ''build request accepted and queued''
                  (save_build_context c (save_build b (s\<lparr>bs_uuid := Suc (bs_uuid s)\<rparr>))))))"

section \<open>The job of an attempt\<close>

abbreviation worker :: string where "worker \<equiv> ''builder-worker''"
abbreviation job_subjects :: "string list" where "job_subjects \<equiv> [''build.accepted'', ''build.job.progress'']"

type_synonym job_message = "job_payload bus_message"

definition payload_attempt :: "job_message \<Rightarrow> int \<Rightarrow> int" where
  "payload_attempt m fallback = (case jp_attempt (msg_payload m) of None \<Rightarrow> fallback | Some n \<Rightarrow> n)"

text \<open>The first delivery of an attempt creates its rows; the messages of the records are the code's.\<close>

definition create_job ::
  "build_env \<Rightarrow> build \<Rightarrow> build_attempt \<Rightarrow> int \<Rightarrow> builder \<Rightarrow> build_job \<times> builder" where
  "create_job env b att n s =
     (let now = bv_now env; message = ''prepared build job for staged execution'';
          executor = (case bv_executor env of None \<Rightarrow> ''adapter-runner'' | Some _ \<Rightarrow> bv_executor_name env);
          log_uri = bv_log_uri env (bl_id b);
          b1 = b\<lparr>bl_status := ''staging'', bl_failure_reason := None, bl_failure_class := None,
                 bl_executor_name := Some executor, bl_log_uri := Some log_uri,
                 bl_last_operation := Some ''prepare_job'', bl_updated_at := now\<rparr>;
          att1 = att\<lparr>ba_status := ''queued'', ba_last_operation := Some ''prepare_job''\<rparr>;
          j = \<lparr>jb_id = bv_uuid env (bs_uuid s), jb_build = bl_id b, jb_attempt = n, jb_status = ''queued'',
               jb_current_stage = ''staging'', jb_last_completed = None,
               jb_stage_state = [''log_uri'' \<mapsto> log_uri, ''prepared_message'' \<mapsto> message],
               jb_from_attempt = ba_from_attempt att1, jb_from_job = ba_from_job att1,
               jb_restart_reason = ba_restart_reason att1, jb_executor_name = Some executor, jb_failure_class = None,
               jb_message = Some message, jb_recovery_count = 0, jb_last_recovered_at = None, jb_started_at = now,
               jb_finished_at = None, jb_updated_at = now\<rparr>;
          told = (case jb_from_attempt j of
                    None \<Rightarrow> message | Some k \<Rightarrow> message @ '' (restarted from attempt '' @ show_int k @ '')'')
      in (j,
          emit_message env ''build.job.started'' (progress (bl_id b) n ''staging'')
            (add_build_log env (bl_id b) n ''job_started'' message
              (add_build_event (bl_id b) ''job_started'' message
                (record_job_checkpoint env j ''staging'' ''queued'' told False
                  (save_build_job j
                    (save_build_attempt att1
                      (save_build b1 (s\<lparr>bs_uuid := Suc (bs_uuid s)\<rparr>)))))))))"

definition initialize_or_resume_job ::
  "build_env \<Rightarrow> source_tools \<Rightarrow> build \<Rightarrow> job_message \<Rightarrow> builder \<Rightarrow> unit built" where
  "initialize_or_resume_job env tools b m s =
     (case validate_context_uri (tl_urlparse tools (bl_context_uri b)) of
        Some err \<Rightarrow> (Inl (ValueError err), s)
      | None \<Rightarrow>
          if get_build_context (bl_id b) s = None then (Inl (ValueError ''build context not found''), s)
          else
            let pl = msg_payload m;
                n = payload_attempt m (bl_retry_count b + 1);
                (att, s1) = (case get_build_attempt (bl_id b) n s of
                    Some a \<Rightarrow> (a, s)
                  | None \<Rightarrow>
                      let a = (bv_attempt env (bv_uuid env (bs_uuid s)) (bl_id b) n)\<lparr>ba_status := ''queued'',
                                ba_from_attempt := jp_from_attempt pl, ba_from_job := jp_from_job pl,
                                ba_restart_reason := jp_restart_reason pl\<rparr>
                      in (a, save_build_attempt a (s\<lparr>bs_uuid := Suc (bs_uuid s)\<rparr>)));
                (j, s2) = (case get_build_job (bl_id b) (Some n) s1 of
                    Some j \<Rightarrow> (j, s1) | None \<Rightarrow> create_job env b att n s1)
            in (Inr (), emit_message env ''build.job.progress'' (progress (bl_id b) n (jb_current_stage j)) s2))"

definition update_state :: "(string \<times> string) list \<Rightarrow> (string \<rightharpoonup> string) \<Rightarrow> string \<rightharpoonup> string" where
  "update_state kvs st = fold (\<lambda>(k, v) m. m(k \<mapsto> v)) kvs st"

definition elapsed :: "build_env \<Rightarrow> build_attempt \<Rightarrow> rat" where
  "elapsed env att = max (of_int (bv_now env - ba_started_at att) / 1000000) (1 / 1000)"

definition queue_next_stage ::
  "build_env \<Rightarrow> build \<Rightarrow> build_attempt \<Rightarrow> build_job \<Rightarrow> stage_result \<Rightarrow> string \<Rightarrow> int \<Rightarrow> builder \<Rightarrow> builder" where
  "queue_next_stage env b att j r next_stage did s =
     (let j1 = j\<lparr>jb_current_stage := next_stage, jb_stage_state := (jb_stage_state j)(''next_stage'' \<mapsto> next_stage)\<rparr>
      in complete env did
           (emit_message env ''build.job.progress'' (progress (bl_id b) (ba_attempt att) next_stage)
             (save_build_attempt (att\<lparr>ba_status := next_stage, ba_last_operation := Some (sr_stage r)\<rparr>)
               (save_build (b\<lparr>bl_status := next_stage, bl_last_operation := Some (sr_stage r)\<rparr>)
                 (record_job_checkpoint env j1 next_stage ''queued'' (''queued next stage '' @ next_stage) False
                   (save_build_job j1 s))))))"

definition publish_build ::
  "build_env \<Rightarrow> build \<Rightarrow> build_attempt \<Rightarrow> build_job \<Rightarrow> stage_result \<Rightarrow> published_image \<Rightarrow> int \<Rightarrow> builder \<Rightarrow> build \<times> builder" where
  "publish_build env b att j r q did s =
     (let now = bv_now env;
          b1 = (finalize_success now b q)\<lparr>bl_duration := Some (elapsed env att),
                 bl_retry_count := max (bl_retry_count b) (max 0 (ba_attempt att - 1))\<rparr>;
          j1 = j\<lparr>jb_status := ''succeeded'', jb_current_stage := ''succeeded'', jb_executor_name := Some (pi_executor q),
                 jb_stage_state := (jb_stage_state j)(''final_status'' \<mapsto> ''succeeded''), jb_finished_at := Some now,
                 jb_updated_at := now\<rparr>
      in (b1,
          complete env did
            (emit_message env ''build.published'' (notice (bl_id b))
              (emit_message env ''build.job.succeeded'' ((notice (bl_id b))\<lparr>jp_attempt := Some (ba_attempt att)\<rparr>)
                (record_job_checkpoint env j1 ''succeeded'' ''succeeded'' (sr_message r) False
                  (save_build_job j1
                    (save_build_attempt (att\<lparr>ba_status := ''published'', ba_last_operation := Some ''published'',
                                             ba_finished_at := Some now\<rparr>)
                      (save_build b1 s))))))))"

definition apply_stage_result ::
  "build_env \<Rightarrow> build \<Rightarrow> build_attempt \<Rightarrow> build_job \<Rightarrow> stage_result \<Rightarrow> int \<Rightarrow> builder \<Rightarrow> build option built" where
  "apply_stage_result env b att j r did s =
     (let now = bv_now env;
          s1 = (case sr_context r of None \<Rightarrow> s | Some c \<Rightarrow> save_build_context c s);
          st = update_state [(''last_stage_message'', sr_message r), (''last_stage_completed_at'', bv_iso env now)]
                 (update_state (sr_state r) (jb_stage_state j));
          j1 = j\<lparr>jb_message := Some (sr_message r), jb_last_completed := Some (sr_stage r), jb_stage_state := st,
                 jb_updated_at := now\<rparr>;
          b1 = b\<lparr>bl_updated_at := now\<rparr>;
          s2 = emit_message env ''build.job.progress'' (progress (bl_id b) (ba_attempt att) (sr_stage r))
                 (add_build_log env (bl_id b) (ba_attempt att) (sr_stage r) (sr_message r)
                   (add_build_event (bl_id b) (sr_stage r) (sr_message r)
                     (record_job_checkpoint env j1 (sr_stage r) ''progress'' (sr_message r) False s1)))
      in case sr_next r of
           Some next_stage \<Rightarrow> (Inr None, queue_next_stage env b1 att j1 r next_stage did s2)
         | None \<Rightarrow>
             case sr_published r of
               None \<Rightarrow> (Inl (ValueError ''terminal build stage missing published image''), s2)
             | Some q \<Rightarrow> let (b2, s3) = publish_build env b1 att j1 r q did s2 in (Inr (Some b2), s3))"

definition job_closed :: "build_job \<Rightarrow> bool" where
  "job_closed j \<longleftrightarrow> jb_finished_at j \<noteq> None \<or> jb_status j \<in> {''succeeded'', ''failed'', ''cancelled''}"

definition advance_job :: "build_env \<Rightarrow> build \<Rightarrow> job_message \<Rightarrow> builder \<Rightarrow> build option built" where
  "advance_job env b m s =
     (case get_build_context (bl_id b) s of
        None \<Rightarrow> (Inl (ValueError ''build context not found''), s)
      | Some c \<Rightarrow>
          let n = payload_attempt m (max 1 (msg_attempts m)); now = bv_now env
          in case get_build_attempt (bl_id b) n s of
               None \<Rightarrow> (Inl (ValueError ''build attempt not found''), s)
             | Some att \<Rightarrow>
                 case get_build_job (bl_id b) (Some n) s of
                   None \<Rightarrow> (Inl (ValueError ''build job not found''), s)
                 | Some j \<Rightarrow>
                     if job_closed j then (Inr None, complete env (msg_delivery_id m) s)
                     else
                       let stage = jb_current_stage j;
                           j1 = j\<lparr>jb_status := ''running'',
                                  jb_stage_state := update_state [(''active_stage'', stage), (''active_stage_started_at'', bv_iso env now)]
                                                      (jb_stage_state j), jb_updated_at := now\<rparr>;
                           att1 = att\<lparr>ba_status := stage, ba_last_operation := Some stage\<rparr>;
                           b1 = b\<lparr>bl_status := stage, bl_last_operation := Some stage, bl_updated_at := now\<rparr>;
                           s1 = save_build b1 (save_build_attempt att1
                                  (record_job_checkpoint env j1 stage ''running'' (''running stage '' @ stage) False
                                    (save_build_job j1 s)))
                       in case run_stage env b1 c stage (jb_stage_state j1) of
                            Inl e \<Rightarrow> (Inl e, s1)
                          | Inr r \<Rightarrow> apply_stage_result env b1 att1 j1 r (msg_delivery_id m) s1)"

section \<open>Failure\<close>

definition exn_message :: "builder_exn \<Rightarrow> string" where
  "exn_message e = (case e of ExecError x \<Rightarrow> xe_message x | ValueError t \<Rightarrow> t | MissingKey k \<Rightarrow> k | OtherError t \<Rightarrow> t)"

definition as_exec_error :: "build \<Rightarrow> builder_exn \<Rightarrow> exec_error" where
  "as_exec_error b e =
     (case e of
        ExecError x \<Rightarrow> x
      | ValueError t \<Rightarrow> \<lparr>xe_message = t, xe_operation = ''validate_context'', xe_failure_class = ''build_validation_failure'',
                         xe_retryable = False\<rparr>
      | _ \<Rightarrow> \<lparr>xe_message = exn_message e,
              xe_operation = (if truthy (bl_last_operation b) then the (bl_last_operation b) else ''unexpected''),
              xe_failure_class = ''builder_runtime_error'', xe_retryable = False\<rparr>)"

definition str_or_else :: "string option \<Rightarrow> string \<Rightarrow> string" where
  "str_or_else a b = (if truthy a then the a else b)"

definition handle_job_failure :: "build_env \<Rightarrow> build \<Rightarrow> job_message \<Rightarrow> exec_error \<Rightarrow> builder \<Rightarrow> builder" where
  "handle_job_failure env b0 m x s =
     (let now = bv_now env; bid = bl_id b0;
          n = payload_attempt m (max 1 (msg_attempts m));
          stage = jp_stage (msg_payload m);
          att = (case get_build_attempt bid n s of Some a \<Rightarrow> a | None \<Rightarrow> bv_attempt env (bv_uuid env (bs_uuid s)) bid n);
          j = (case get_build_job bid (Some n) s of Some j \<Rightarrow> j | None \<Rightarrow> bv_job env (bv_uuid env (Suc (bs_uuid s))) bid n);
          b = (finalize_failure now b0 x)\<lparr>bl_retry_count := max (bl_retry_count b0) (max 0 (n - 1)),
                bl_log_uri := Some (bv_log_uri env bid), bl_duration := Some (elapsed env att), bl_updated_at := now\<rparr>;
          told = str_or_else (bl_failure_reason b) (xe_message x);
          final = (\<not> xe_retryable x \<or> 2 \<le> bl_retry_count b);
          att1 = att\<lparr>ba_status := ''failed'', ba_failure_class := bl_failure_class b,
                     ba_last_operation := Some (xe_operation x),
                     ba_finished_at := (if final then Some now else ba_finished_at att)\<rparr>;
          j1 = j\<lparr>jb_status := ''failed'', jb_current_stage := ''failed'', jb_failure_class := bl_failure_class b,
                 jb_message := bl_failure_reason b,
                 jb_stage_state := update_state [(''final_status'', ''failed''), (''failed_operation'', xe_operation x)]
                                     (jb_stage_state j),
                 jb_finished_at := (if final then Some now else jb_finished_at j), jb_updated_at := now\<rparr>;
          s1 = emit_message env ''build.failed'' (notice bid)
                 (emit_message env ''build.job.failed'' ((notice bid)\<lparr>jp_attempt := Some n\<rparr>)
                   (record_job_checkpoint env j1 (if xe_operation x = [] then ''failed'' else xe_operation x) ''failed'' told False
                     (save_build_job j1
                       (save_build_attempt att1
                         (add_build_log env bid n ''failed'' told
                           (add_build_event bid ''failed'' told
                             (save_build b (s\<lparr>bs_uuid := bs_uuid s + 2\<rparr>))))))))
      in if xe_retryable x \<and> bl_retry_count b < 2
         then let b2 = b\<lparr>bl_status := (case stage of Some st \<Rightarrow> st | None \<Rightarrow> ''failed''),
                         bl_failure_reason := None, bl_failure_class := None, bl_updated_at := now\<rparr>;
                  j2 = j1\<lparr>jb_status := ''queued'', jb_current_stage := (case stage of Some st \<Rightarrow> st | None \<Rightarrow> ''staging''),
                          jb_failure_class := None,
                          jb_stage_state := update_state [(''retry_after_failure'', ''true''),
                              (''next_stage'', (case stage of Some st \<Rightarrow> st | None \<Rightarrow> ''staging''))] (jb_stage_state j1),
                          jb_finished_at := None, jb_updated_at := now\<rparr>
              in fail_delivery env (msg_delivery_id m) (xe_message x) True (Some (seconds 1))
                   (record_job_checkpoint env j2 (jb_current_stage j2) ''queued''
                     (''retry queued for stage '' @ jb_current_stage j2) False
                     (save_build_job j2 (save_build b2 s1)))
         else fail_delivery env (msg_delivery_id m) told False None (save_build (b\<lparr>bl_retry_exhausted := True\<rparr>) s1))"

section \<open>The worker\<close>

text \<open>The build object a failing step leaves behind is the one it saved last; the row has its fields.\<close>

definition saved_build :: "build \<Rightarrow> builder \<Rightarrow> build" where
  "saved_build b s = (case get_build (bl_id b) s of None \<Rightarrow> b | Some b' \<Rightarrow> b')"

definition handle_failed_step :: "build_env \<Rightarrow> build \<Rightarrow> job_message \<Rightarrow> builder_exn \<Rightarrow> builder \<Rightarrow> builder" where
  "handle_failed_step env b m e s = handle_job_failure env (saved_build b s) m (as_exec_error (saved_build b s) e) s"

definition process_event ::
  "build_env \<Rightarrow> source_tools \<Rightarrow> job_message \<Rightarrow> builder \<Rightarrow> build option \<times> builder" where
  "process_event env tools m s =
     (case get_build (jp_build (msg_payload m)) s of
        None \<Rightarrow> (None, fail_delivery env (msg_delivery_id m) ''build not found'' False None s)
      | Some b \<Rightarrow>
          if bl_status b \<in> {''cancelled'', ''published''} then (None, complete env (msg_delivery_id m) s)
          else if msg_subject m = ''build.accepted'' then
            (case initialize_or_resume_job env tools b m s of
               (Inl e, s1) \<Rightarrow> (None, handle_failed_step env b m e s1)
             | (Inr _, s1) \<Rightarrow> (None, complete env (msg_delivery_id m) s1))
          else
            (case advance_job env b m s of
               (Inl e, s1) \<Rightarrow> (None, handle_failed_step env b m e s1)
             | (Inr r, s1) \<Rightarrow> (r, s1)))"

fun process_each ::
  "build_env \<Rightarrow> source_tools \<Rightarrow> job_message list \<Rightarrow> builder \<Rightarrow> build list \<times> builder" where
  "process_each env tools [] s = ([], s)"
| "process_each env tools (m # ms) s =
     (let (r, s1) = process_event env tools m s; (rs, s2) = process_each env tools ms s1
      in (case r of None \<Rightarrow> rs | Some b \<Rightarrow> b # rs, s2))"

text \<open>Every round of the loop takes at least one event off \<open>remaining\<close>.\<close>

function process_pending_events_builder ::
  "build_env \<Rightarrow> source_tools \<Rightarrow> nat \<Rightarrow> builder \<Rightarrow> build list \<times> builder" where
  "process_pending_events_builder env tools remaining s =
     (if remaining = 0 then ([], s)
      else
        let (events, bus) = claim_pending (bv_now env) worker job_subjects remaining (bs_bus s);
            s1 = s\<lparr>bs_bus := bus\<rparr>
        in if events = [] then ([], s1)
           else let (processed, s2) = process_each env tools events s1;
                    (later, s3) = process_pending_events_builder env tools (remaining - length events) s2
                in (processed @ later, s3))"
  by pat_completeness auto
termination
  by (relation "measure (\<lambda>(env, tools, remaining, s). remaining)") (auto simp: length_greater_0_conv [symmetric] simp del: length_greater_0_conv)

declare process_pending_events_builder.simps [simp del]

section \<open>Recovery\<close>

definition active_for :: "ident \<Rightarrow> int option \<Rightarrow> job_message \<Rightarrow> bool" where
  "active_for bid attempt d \<longleftrightarrow>
     jp_build (msg_payload d) = bid \<and>
     (attempt \<noteq> None \<longrightarrow>
       (case jp_attempt (msg_payload d) of None \<Rightarrow> - 1 | Some n \<Rightarrow> n) = the attempt)"

definition has_active_delivery :: "ident \<Rightarrow> int option \<Rightarrow> string \<Rightarrow> builder \<Rightarrow> bool" where
  "has_active_delivery bid attempt subject s \<longleftrightarrow>
     list_ex (active_for bid attempt) (list_deliveries (Some worker) [subject] [Pending, Processing] (bs_bus s))"

abbreviation inflight_statuses :: "string list" where
  "inflight_statuses \<equiv> [''accepted'', ''staging'', ''building'', ''publishing'']"

definition recover_job :: "build_env \<Rightarrow> build \<Rightarrow> build_job \<Rightarrow> builder \<Rightarrow> builder" where
  "recover_job env b j s =
     (let now = bv_now env; message = ''recovered build job at stage '' @ jb_current_stage j;
          j1 = j\<lparr>jb_status := ''queued'', jb_recovery_count := jb_recovery_count j + 1, jb_last_recovered_at := Some now,
                 jb_message := Some message,
                 jb_stage_state := update_state [(''recovered'', ''true''), (''recovered_at'', bv_iso env now)] (jb_stage_state j),
                 jb_updated_at := now\<rparr>
      in emit_message env ''build.job.progress'' (progress (bl_id b) (jb_attempt j) (jb_current_stage j))
           (add_build_log env (bl_id b) (jb_attempt j) ''recovered'' message
             (add_build_event (bl_id b) ''recovered'' message
               (record_job_checkpoint env j1 (jb_current_stage j1) ''recovered'' message True
                 (save_build_job j1 s)))))"

definition recover_build :: "build_env \<Rightarrow> build \<Rightarrow> builder \<Rightarrow> bool \<times> builder" where
  "recover_build env b s =
     (if bl_status b \<notin> set inflight_statuses then (False, s)
      else case get_build_job (bl_id b) None s of
             None \<Rightarrow>
               if bl_status b = ''accepted'' \<and> \<not> has_active_delivery (bl_id b) None ''build.accepted'' s
               then (True, emit_message env ''build.accepted'' ((notice (bl_id b))\<lparr>jp_attempt := Some (bl_retry_count b + 1)\<rparr>) s)
               else (False, s)
           | Some j \<Rightarrow>
               if jb_finished_at j \<noteq> None \<or> jb_status j \<notin> {''queued'', ''running''} then (False, s)
               else if has_active_delivery (bl_id b) (Some (jb_attempt j)) ''build.job.progress'' s then (False, s)
               else (True, recover_job env b j s))"

fun recover_each :: "build_env \<Rightarrow> build list \<Rightarrow> builder \<Rightarrow> ident list \<times> builder" where
  "recover_each env [] s = ([], s)"
| "recover_each env (b # bs) s =
     (let (republished, s1) = recover_build env b s; (ids, s2) = recover_each env bs s1
      in (if republished then bl_id b # ids else ids, s2))"

definition recover_inflight_jobs :: "build_env \<Rightarrow> builder \<Rightarrow> recovery \<times> builder" where
  "recover_inflight_jobs env s =
     (let (requeued, bus) = requeue_stale_processing (bv_now env) worker job_subjects
                              (max (bv_poll_interval env * 4) (seconds 2)) (bs_bus s);
          (ids, s2) = recover_each env (list_builds None s) (s\<lparr>bs_bus := bus\<rparr>);
          rv = \<lparr>rv_last_at = Some (bv_now env), rv_requeued = length requeued, rv_republished = length ids, rv_builds = ids\<rparr>
      in (rv, s2\<lparr>bs_recovery := rv\<rparr>))"

section \<open>What the owner asks for\<close>

definition cleanup_build :: "build_env \<Rightarrow> ident \<Rightarrow> bool \<Rightarrow> builder \<Rightarrow> build built" where
  "cleanup_build env bid persist s =
     (case get_build bid s of
        None \<Rightarrow> (Inl (MissingKey (''build not found: '' @ bid)), s)
      | Some b \<Rightarrow>
          let c = get_build_context bid s
          in case bv_cleanup_store env b c of
               Inl e \<Rightarrow> (Inl e, s)
             | Inr m1 \<Rightarrow>
                 (case bv_cleanup_registry env b of
                    Inl e \<Rightarrow> (Inl e, s)
                  | Inr m2 \<Rightarrow>
                      let s1 = (case c of
                                  None \<Rightarrow> s
                                | Some cx \<Rightarrow> save_build_context
                                    (cx\<lparr>cx_staged_uri := None, cx_manifest_uri := None, cx_dockerfile_uri := None\<rparr>) s);
                          b1 = b\<lparr>bl_cleanup_status := Some ''completed'', bl_last_operation := Some ''cleanup'',
                                 bl_updated_at := bv_now env\<rparr>
                      in (Inr b1,
                          if persist then add_build_event bid ''cleanup'' (m1 @ ''; '' @ m2) (save_build b1 s1) else s1)))"

text \<open>The context read before the clean-up is written back, so its Dockerfile address survives it.\<close>

definition retry_build ::
  "build_env \<Rightarrow> ident \<Rightarrow> build_job option \<Rightarrow> string option \<Rightarrow> builder \<Rightarrow> build built" where
  "retry_build env bid from reason s =
     (case get_build bid s of
        None \<Rightarrow> (Inl (MissingKey (''build not found: '' @ bid)), s)
      | Some b \<Rightarrow>
          if bl_status b = ''published'' then (Inr b, s)
          else if bl_status b = ''cancelled'' then (Inl (ValueError ''cancelled build cannot be retried''), s)
          else
            case cleanup_build env bid False s of
              (Inl e, s1) \<Rightarrow> (Inl e, s1)
            | (Inr _, s1) \<Rightarrow>
                let b1 = b\<lparr>bl_status := ''accepted'', bl_retry_count := bl_retry_count b + 1, bl_failure_reason := None,
                           bl_failure_class := None, bl_last_operation := Some ''retry_requested'',
                           bl_cleanup_status := None, bl_retry_exhausted := False, bl_registry_repository := None,
                           bl_image_tag := None, bl_artifact_uri := None, bl_artifact_digest := None,
                           bl_manifest_uri := None, bl_log_uri := Some (bv_log_uri env bid), bl_executor_name := None,
                           bl_updated_at := bv_now env\<rparr>;
                    s2 = save_build b1 s1;
                    s3 = (case get_build_context bid s of
                            None \<Rightarrow> s2
                          | Some cx \<Rightarrow> save_build_context (cx\<lparr>cx_staged_uri := None, cx_manifest_uri := None\<rparr>) s2);
                    told = (case from of None \<Rightarrow> ''build retry requested''
                            | Some j \<Rightarrow> ''build restart requested from attempt '' @ show_int (jb_attempt j))
                in (Inr b1,
                    emit_message env ''build.accepted''
                      \<lparr>jp_build = bid, jp_attempt = Some (bl_retry_count b1 + 1), jp_stage = None,
                       jp_from_attempt = map_option jb_attempt from, jp_from_job = map_option jb_id from,
                       jp_restart_reason = reason\<rparr>
                      (add_build_event bid ''retry_requested'' told s3)))"

definition restart_latest_job :: "build_env \<Rightarrow> ident \<Rightarrow> builder \<Rightarrow> build built" where
  "restart_latest_job env bid s =
     (case get_build_job bid None s of
        None \<Rightarrow> (Inl (MissingKey (''build job not found: '' @ bid)), s)
      | Some j \<Rightarrow>
          if jb_finished_at j = None \<and> jb_status j \<notin> {''failed'', ''cancelled''}
          then (Inl (ValueError ''running job cannot be restarted''), s)
          else retry_build env bid (Some j) (Some ''latest_job_restart'') s)"

definition cancel_attempt :: "time \<Rightarrow> ident \<Rightarrow> int \<Rightarrow> builder \<Rightarrow> builder" where
  "cancel_attempt now bid n s =
     (case get_build_attempt bid n s of
        None \<Rightarrow> s
      | Some a \<Rightarrow>
          if ba_finished_at a \<noteq> None then s
          else save_build_attempt (a\<lparr>ba_status := ''cancelled'', ba_failure_class := Some ''cancelled'',
                                     ba_last_operation := Some ''cancel'', ba_finished_at := Some now\<rparr>) s)"

definition cancel_job :: "build_env \<Rightarrow> ident \<Rightarrow> int \<Rightarrow> builder \<Rightarrow> builder" where
  "cancel_job env bid n s =
     (case get_build_job bid (Some n) s of
        None \<Rightarrow> s
      | Some j \<Rightarrow>
          if jb_finished_at j \<noteq> None then s
          else let j1 = j\<lparr>jb_status := ''cancelled'', jb_current_stage := ''cancelled'', jb_failure_class := Some ''cancelled'',
                          jb_message := Some ''operator cancelled build'', jb_finished_at := Some (bv_now env),
                          jb_updated_at := bv_now env\<rparr>
               in record_job_checkpoint env j1 ''cancelled'' ''cancelled'' ''operator cancelled build'' False
                    (save_build_job j1 s))"

definition cancel_build :: "build_env \<Rightarrow> ident \<Rightarrow> builder \<Rightarrow> build built" where
  "cancel_build env bid s =
     (case get_build bid s of
        None \<Rightarrow> (Inl (MissingKey (''build not found: '' @ bid)), s)
      | Some b \<Rightarrow>
          if bl_status b \<in> {''published'', ''failed'', ''cancelled''} then (Inr b, s)
          else
            let now = bv_now env; n = bl_retry_count b + 1;
                b1 = b\<lparr>bl_status := ''cancelled'', bl_failure_reason := Some ''build cancelled by operator'',
                       bl_failure_class := Some ''cancelled'', bl_last_operation := Some ''cancel'', bl_updated_at := now\<rparr>;
                s1 = add_build_event bid ''cancelled'' ''build cancelled by operator'' (save_build b1 s)
            in (Inr b1,
                add_build_log env bid (max 1 n) ''cancelled'' ''operator cancelled build''
                  (cancel_job env bid n (cancel_attempt now bid n s1))))"

definition cancel_latest_job :: "build_env \<Rightarrow> ident \<Rightarrow> builder \<Rightarrow> build built" where
  "cancel_latest_job env bid s =
     (case get_build_job bid None s of
        None \<Rightarrow> (Inl (MissingKey (''build job not found: '' @ bid)), s)
      | Some j \<Rightarrow> cancel_build env bid s)"

section \<open>Reports\<close>

definition latest_build_job_timeline :: "ident \<Rightarrow> builder \<Rightarrow> checkpoint list" where
  "latest_build_job_timeline bid s =
     (case get_build_job bid None s of
        None \<Rightarrow> []
      | Some j \<Rightarrow> list_build_job_checkpoints bid (Some (jb_attempt j)) (Some (jb_id j)) s)"

definition resumed_from_state :: "build_job \<Rightarrow> bool" where
  "resumed_from_state j \<longleftrightarrow>
     jb_recovery_count j \<noteq> 0 \<or> lower (or_blank (jb_stage_state j ''recovered'')) = ''true''"

record recovery_summary =
  rs_job :: build_job
  rs_resumed :: bool
  rs_resumed_stage :: "string option"

definition latest_build_job_recovery_summary :: "ident \<Rightarrow> builder \<Rightarrow> builder_exn + recovery_summary" where
  "latest_build_job_recovery_summary bid s =
     (case get_build_job bid None s of
        None \<Rightarrow> Inl (MissingKey (''build job not found: '' @ bid))
      | Some j \<Rightarrow> Inr \<lparr>rs_job = j, rs_resumed = resumed_from_state j,
                       rs_resumed_stage = (if resumed_from_state j then Some (jb_current_stage j) else None)\<rparr>)"

definition build_attempts :: "ident \<Rightarrow> builder \<Rightarrow> (build_attempt \<times> build_log list) list" where
  "build_attempts bid s = map (\<lambda>a. (a, list_build_logs bid (Some (ba_attempt a)) s)) (list_build_attempts bid s)"

text \<open>The stream of a build's logs: one item per message sent.  The states are those the tables are in at each
  poll; a follower that outlives the list is still waiting.\<close>

datatype stream_item = LogLine build_log | NoSuchBuild | StreamEnd string

fun unseen_logs :: "build_log list \<Rightarrow> ident set \<Rightarrow> build_log list" where
  "unseen_logs [] seen = []"
| "unseen_logs (l # ls) seen =
     (if lg_id l \<in> seen then unseen_logs ls seen else l # unseen_logs ls (insert (lg_id l) seen))"

fun stream_build_logs :: "ident \<Rightarrow> bool \<Rightarrow> ident set \<Rightarrow> builder list \<Rightarrow> stream_item list" where
  "stream_build_logs bid follow seen [] = []"
| "stream_build_logs bid follow seen (s # polls) =
     (let logs = list_build_logs bid None s; fresh = unseen_logs logs seen
      in map LogLine fresh @
         (case get_build bid s of
            None \<Rightarrow> [NoSuchBuild]
          | Some b \<Rightarrow>
              if \<not> follow \<or> bl_status b \<in> {''published'', ''failed'', ''cancelled''} then [StreamEnd (bl_status b)]
              else stream_build_logs bid follow (seen \<union> lg_id ` set fresh) polls))"

section \<open>The simulated adapters\<close>

definition injected_failure :: "build \<Rightarrow> string \<Rightarrow> string \<Rightarrow> string \<Rightarrow> exec_error option" where
  "injected_failure b token operation failure_class =
     (if \<not> in_text token (bl_context_uri b) then None
      else if 0 < bl_retry_count b then None
      else Some \<lparr>xe_message = ''injected transient failure for '' @ operation, xe_operation = operation,
                 xe_failure_class = failure_class, xe_retryable = True\<rparr>)"

definition simulated_log_uri :: "string \<Rightarrow> ident \<Rightarrow> string" where
  "simulated_log_uri bucket bid = ''s3://'' @ bucket @ ''/build-logs/'' @ bid @ ''.log''"

definition simulated_stage_context :: "string \<Rightarrow> build \<Rightarrow> build_context \<Rightarrow> builder_exn + staged_context" where
  "simulated_stage_context bucket b c =
     (case injected_failure b ''fail-once-object-store'' ''stage_context'' ''object_store_failure'' of
        Some x \<Rightarrow> Inl (ExecError x)
      | None \<Rightarrow>
          let staged = ''s3://'' @ bucket @ ''/contexts/'' @ bl_id b @ ''/context.tar.gz''
          in Inr \<lparr>sc_context = c\<lparr>cx_staged_uri := Some staged,
                                 cx_manifest_uri := Some (''s3://'' @ bucket @ ''/manifests/'' @ bl_id b @ ''.json'')\<rparr>,
                  sc_log_uri = simulated_log_uri bucket (bl_id b),
                  sc_message = ''staged build context at '' @ staged\<rparr>)"

definition py_none :: "string option \<Rightarrow> string" where
  "py_none s = (case s of None \<Rightarrow> ''None'' | Some t \<Rightarrow> t)"

definition simulated_publish ::
  "(string \<Rightarrow> string) \<Rightarrow> string \<Rightarrow> build \<Rightarrow> build_context \<Rightarrow> builder_exn + published_image" where
  "simulated_publish sha256 registry_ref b c =
     (case injected_failure b ''fail-once-registry'' ''publish_registry'' ''registry_failure'' of
        Some x \<Rightarrow> Inl (ExecError x)
      | None \<Rightarrow>
          let (repository, tag) = split_image_ref (bl_image b);
              digest = sha256 (bl_id b @ '':'' @ bl_image b @ '':'' @ cx_digest c @ '':'' @ py_none (cx_staged_uri c)
                               @ '':'' @ cx_dockerfile_path c);
              artifact = ''oci://'' @ rstrip_slash registry_ref @ ''/'' @ bl_image b;
              manifest = artifact @ ''@sha256:'' @ digest
          in Inr \<lparr>pi_repository = repository, pi_tag = tag, pi_artifact_uri = artifact,
                  pi_artifact_digest = ''sha256:'' @ digest, pi_manifest_uri = manifest,
                  pi_executor = ''simulated-buildkit'', pi_message = ''published registry manifest '' @ manifest\<rparr>)"

text \<open>The runner of the simulated mode.\<close>

definition simulated_env :: "string \<Rightarrow> string \<Rightarrow> (string \<Rightarrow> string) \<Rightarrow> build_env \<Rightarrow> build_env" where
  "simulated_env bucket registry_ref sha256 env =
     env\<lparr>bv_log_uri := simulated_log_uri bucket, bv_stage_context := simulated_stage_context bucket,
         bv_publish := simulated_publish sha256 registry_ref, bv_executor := None,
         bv_cleanup_store := (\<lambda>b c. Inr ''simulated object store cleanup completed''),
         bv_cleanup_registry := (\<lambda>b. Inr ''simulated registry cleanup completed'')\<rparr>"

end
