(* ===== verification/Builder_Invariant.thy ===== *)
theory Builder_Invariant
  imports Builder
begin

text \<open>
  The invariant of the builder.  \<open>mail\<close> is what the bus carries, a set of subjects with payloads;
  \<open>builder_inv\<close> says that ids are fresh, that an attempt has one job, that every job is well typed (an
  open job is queued or running at a stage the runner knows, a closed one has an outcome and a finishing
  time) and that every progress message names such a stage unless its job is closed.  \<open>goes\<close> is what each
  operation is shown to do: it keeps the invariant, closed jobs, and the outcomes of settled builds.
\<close>

section \<open>The bus as a set of messages\<close>

definition mail :: "'p bus_db \<Rightarrow> (string \<times> 'p) set" where
  "mail bus = {(dl_subject d, ev_payload e) | d e.
     d \<in> set (bus_deliveries bus) \<and> e \<in> set (bus_events bus) \<and> dl_event_id d = ev_event_id e}"

lemma mailI:
  "d \<in> set (bus_deliveries bus) \<Longrightarrow> e \<in> set (bus_events bus) \<Longrightarrow> dl_event_id d = ev_event_id e \<Longrightarrow>
   (dl_subject d, ev_payload e) \<in> mail bus"
  by (auto simp: mail_def)

lemma add_deliveries_from:
  "d \<in> set (bus_deliveries (fold (add_delivery e) cs bus)) \<Longrightarrow>
   d \<in> set (bus_deliveries bus) \<or> dl_event_id d = ev_event_id e \<and> dl_subject d = ev_subject e"
proof (induction cs arbitrary: bus)
  case (Cons c cs)
  then show ?case by (fastforce simp: add_delivery_bus)
qed simp

lemma publish_events:
  "bus_fresh eid bus \<Longrightarrow>
   bus_events (snd (publish now eid subject payload bus)) =
     bus_events bus @ [fst (publish now eid subject payload bus)]"
  by (simp add: publish_def add_event_def Let_def bus_fresh_def)

lemma publish_event:
  "ev_event_id (fst (publish now eid subject payload bus)) = eid \<and>
   ev_subject (fst (publish now eid subject payload bus)) = subject \<and>
   ev_payload (fst (publish now eid subject payload bus)) = payload"
  by (simp add: publish_def add_event_def Let_def)

lemma publish_deliveries:
  "bus_deliveries (snd (publish now eid subject payload bus)) =
     bus_deliveries (fold (add_delivery (fst (publish now eid subject payload bus))) (subject_consumers subject)
       (snd (add_event now eid subject payload bus)))"
  by (simp add: publish_def case_prod_unfold Let_def)

lemma mail_publish:
  assumes "bus_inv bus" and "bus_fresh eid bus"
  shows "mail (snd (publish now eid subject payload bus)) \<subseteq> insert (subject, payload) (mail bus)"
proof
  fix x assume "x \<in> mail (snd (publish now eid subject payload bus))"
  then obtain d e where x: "x = (dl_subject d, ev_payload e)"
    and d: "d \<in> set (bus_deliveries (snd (publish now eid subject payload bus)))"
    and e: "e \<in> set (bus_events (snd (publish now eid subject payload bus)))"
    and id: "dl_event_id d = ev_event_id e"
    by (auto simp: mail_def)
  let ?new = "fst (publish now eid subject payload bus)"
  have d': "d \<in> set (bus_deliveries bus) \<or> dl_event_id d = eid \<and> dl_subject d = subject"
    using add_deliveries_from [OF d [unfolded publish_deliveries]] publish_event [of now eid subject payload bus]
    by (simp add: add_event_def Let_def)
  have e': "e \<in> set (bus_events bus) \<or> e = ?new"
    using e by (simp add: publish_events [OF assms(2)]) blast
  have old: "dl_event_id d \<noteq> eid" if "d \<in> set (bus_deliveries bus)"
    using assms that by (auto simp: bus_inv_def bus_fresh_def)
  show "x \<in> insert (subject, payload) (mail bus)"
    using d' e' old id assms(2) x publish_event [of now eid subject payload bus]
    by (auto simp: bus_fresh_def intro: mailI)
qed

lemma mail_mono:
  assumes "\<And>d. d \<in> set (bus_deliveries t) \<Longrightarrow> \<exists>d0 \<in> set (bus_deliveries s). dl_event_id d0 = dl_event_id d \<and> dl_subject d0 = dl_subject d"
    and "\<And>e. e \<in> set (bus_events t) \<Longrightarrow> \<exists>e0 \<in> set (bus_events s). ev_event_id e0 = ev_event_id e \<and> ev_payload e0 = ev_payload e"
  shows "mail t \<subseteq> mail s"
proof
  fix x assume "x \<in> mail t"
  then obtain d e where x: "x = (dl_subject d, ev_payload e)" "d \<in> set (bus_deliveries t)"
      "e \<in> set (bus_events t)" "dl_event_id d = ev_event_id e"
    by (auto simp: mail_def)
  with assms obtain d0 e0 where "d0 \<in> set (bus_deliveries s)" "dl_event_id d0 = dl_event_id d" "dl_subject d0 = dl_subject d"
      "e0 \<in> set (bus_events s)" "ev_event_id e0 = ev_event_id e" "ev_payload e0 = ev_payload e"
    by metis
  with mailI [of d0 s e0] x show "x \<in> mail s" by simp
qed

lemma mail_claim: "mail (snd (claim_pending now c ss n bus)) \<subseteq> mail bus"
  by (rule mail_mono) (auto simp: claim_pending_def Let_def claim_row_def)

lemma mail_settle: "mail (snd (update_status now did st err ra bus)) \<subseteq> mail bus"
  by (rule mail_mono)
    (auto simp: update_status_def Let_def settle_row_def split: option.splits
      dest!: modify_row_cases dest: get_row_SomeD)

lemma mail_requeue: "mail (snd (requeue_stale_processing now c ss n bus)) \<subseteq> mail bus"
  by (rule mail_mono) (auto simp: requeue_stale_processing_def Let_def requeue_row_def requeue_event_def)

lemma messages_in_mail:
  assumes "m \<in> set (messages_of (bus_events bus) ds)"
    and "\<And>d. d \<in> set ds \<Longrightarrow> \<exists>d0 \<in> set (bus_deliveries bus). dl_event_id d0 = dl_event_id d \<and> dl_subject d0 = dl_subject d"
  shows "(msg_subject m, msg_payload m) \<in> mail bus"
  using assms
proof (induction ds)
  case (Cons d ds)
  show ?case
  proof (cases "get_row ev_event_id (dl_event_id d) (bus_events bus)")
    case None
    with Cons show ?thesis by simp
  next
    case (Some e)
    obtain d0 where "d0 \<in> set (bus_deliveries bus)" "dl_event_id d0 = dl_event_id d" "dl_subject d0 = dl_subject d"
      using Cons.prems(2) [of d] by auto
    with mailI [of d0 bus e] get_row_SomeD [OF Some] have "(dl_subject d, ev_payload e) \<in> mail bus" by simp
    with Cons Some show ?thesis by (auto simp: to_message_def)
  qed
qed simp

lemma claimed_in_mail:
  "m \<in> set (fst (claim_pending now c ss n bus)) \<Longrightarrow> (msg_subject m, msg_payload m) \<in> mail bus"
  by (rule messages_in_mail [of m bus "map (claim_row now) (claim_selection now c ss n bus)"])
    (use set_claim_selection [of now c ss n bus] in \<open>auto simp: claim_pending_def Let_def claim_row_def\<close>)

lemma claimed_subject:
  "m \<in> set (fst (claim_pending now c ss n bus)) \<Longrightarrow> msg_subject m \<in> set ss"
proof -
  have "m \<in> set (messages_of evs ds) \<Longrightarrow> msg_subject m \<in> dl_subject ` set ds" for evs and ds :: "delivery list"
    by (induction ds) (auto split: option.splits simp: to_message_def)
  then show "m \<in> set (fst (claim_pending now c ss n bus)) \<Longrightarrow> msg_subject m \<in> set ss"
    using set_claim_selection [of now c ss n bus] by (fastforce simp: claim_pending_def Let_def claim_row_def claimable_def)
qed

section \<open>Effects of the table writes\<close>

lemma put_row_twice: "key a = key b \<Longrightarrow> put_row key a (put_row key b rows) = put_row key a rows"
  by (induction rows) auto

lemma builder_writes [simp]:
  "bs_builds (save_build b s) = put_row bl_id b (bs_builds s)"
  "bs_jobs (save_build_job j s) = put_row jb_id j (bs_jobs s)"
  "bs_bus (emit_message env subj pl s) = snd (publish (bv_now env) (bv_uuid env (bs_uuid s)) subj pl (bs_bus s))"
  "bs_uuid (emit_message env subj pl s) = Suc (bs_uuid s)"
  "bs_uuid (add_build_log env bid n stage msg s) = Suc (bs_uuid s)"
  "bs_bus (complete env did s) = snd (update_status (bv_now env) did Completed None None (bs_bus s))"
  "bs_bus (fail_delivery env did err retryable after s) =
     snd (update_status (bv_now env) did (if retryable then Pending else Failed) (Some err) after (bs_bus s))"
  "bs_contexts (save_build_context c s) = put_row cx_build c (bs_contexts s)"
  by (simp_all add: save_build_def save_build_job_def emit_message_def add_build_log_def complete_def fail_delivery_def
      mark_completed_def mark_failed_def save_build_context_def)

lemma builder_frames [simp]:
  "bs_jobs (save_build b s) = bs_jobs s" "bs_bus (save_build b s) = bs_bus s" "bs_uuid (save_build b s) = bs_uuid s"
  "bs_builds (save_build_job j s) = bs_builds s" "bs_bus (save_build_job j s) = bs_bus s" "bs_uuid (save_build_job j s) = bs_uuid s"
  "bs_builds (emit_message env subj pl s) = bs_builds s" "bs_jobs (emit_message env subj pl s) = bs_jobs s"
  "bs_builds (add_build_log env bid n stage msg s) = bs_builds s" "bs_jobs (add_build_log env bid n stage msg s) = bs_jobs s"
  "bs_bus (add_build_log env bid n stage msg s) = bs_bus s"
  "bs_builds (complete env did s) = bs_builds s" "bs_jobs (complete env did s) = bs_jobs s" "bs_uuid (complete env did s) = bs_uuid s"
  "bs_builds (fail_delivery env did err retryable after s) = bs_builds s"
  "bs_jobs (fail_delivery env did err retryable after s) = bs_jobs s"
  "bs_uuid (fail_delivery env did err retryable after s) = bs_uuid s"
  by (simp_all add: save_build_def save_build_job_def emit_message_def add_build_log_def complete_def fail_delivery_def)

lemma builder_frames2 [simp]:
  "bs_builds (add_build_event bid stage msg s) = bs_builds s" "bs_jobs (add_build_event bid stage msg s) = bs_jobs s"
  "bs_bus (add_build_event bid stage msg s) = bs_bus s" "bs_uuid (add_build_event bid stage msg s) = bs_uuid s"
  "bs_builds (save_build_context c s) = bs_builds s" "bs_jobs (save_build_context c s) = bs_jobs s"
  "bs_bus (save_build_context c s) = bs_bus s" "bs_uuid (save_build_context c s) = bs_uuid s"
  "bs_builds (save_build_attempt a s) = bs_builds s" "bs_jobs (save_build_attempt a s) = bs_jobs s"
  "bs_bus (save_build_attempt a s) = bs_bus s" "bs_uuid (save_build_attempt a s) = bs_uuid s"
  "bs_builds (record_job_checkpoint env j stage st msg r s) = bs_builds s"
  "bs_jobs (record_job_checkpoint env j stage st msg r s) = bs_jobs s"
  "bs_bus (record_job_checkpoint env j stage st msg r s) = bs_bus s"
  "bs_uuid (record_job_checkpoint env j stage st msg r s) = bs_uuid s"
  by (simp_all add: add_build_event_def save_build_context_def save_build_attempt_def record_job_checkpoint_def)

section \<open>The invariant\<close>

definition STAGES :: "string list" where
  "STAGES = [''staging'', ''building'', ''publishing'']"

definition job_typed :: "build_job \<Rightarrow> bool" where
  "job_typed j \<longleftrightarrow>
     (if job_closed j
      then jb_finished_at j \<noteq> None \<and> jb_status j \<in> {''succeeded'', ''failed'', ''cancelled''}
      else jb_status j \<in> {''queued'', ''running''} \<and> jb_current_stage j \<in> set STAGES)"

abbreviation job_key :: "build_job \<Rightarrow> ident \<times> int" where
  "job_key j \<equiv> (jb_build j, jb_attempt j)"

definition stage_sound :: "build_job list \<Rightarrow> job_payload \<Rightarrow> bool" where
  "stage_sound jobs pl \<longleftrightarrow>
     (\<exists>n st. jp_attempt pl = Some n \<and> jp_stage pl = Some st \<and>
        (st \<in> set STAGES \<or> (\<exists>j \<in> set jobs. job_key j = (jp_build pl, n) \<and> job_closed j)))"

definition mail_sound :: "build_job list \<Rightarrow> string \<times> job_payload \<Rightarrow> bool" where
  "mail_sound jobs x \<longleftrightarrow>
     (fst x = ''build.job.progress'' \<longrightarrow> stage_sound jobs (snd x)) \<and>
     (fst x = ''build.accepted'' \<longrightarrow> jp_attempt (snd x) \<noteq> None)"

definition jobs_ok :: "(nat \<Rightarrow> ident) \<Rightarrow> nat \<Rightarrow> build_job list \<Rightarrow> bool" where
  "jobs_ok u n jobs \<longleftrightarrow>
     distinct_keys jb_id jobs \<and> distinct_keys job_key jobs \<and>
     (\<forall>j \<in> set jobs. job_typed j \<and> jb_id j \<in> u ` {..<n})"

definition bus_ok :: "(nat \<Rightarrow> ident) \<Rightarrow> nat \<Rightarrow> build_job list \<Rightarrow> job_payload bus_db \<Rightarrow> bool" where
  "bus_ok u n jobs bus \<longleftrightarrow>
     bus_inv bus \<and> ev_event_id ` set (bus_events bus) \<subseteq> u ` {..<n} \<and> (\<forall>x \<in> mail bus. mail_sound jobs x)"

definition builder_inv :: "(nat \<Rightarrow> ident) \<Rightarrow> builder \<Rightarrow> bool" where
  "builder_inv u s \<longleftrightarrow>
     inj u \<and> distinct_keys bl_id (bs_builds s) \<and> bl_id ` set (bs_builds s) \<subseteq> u ` {..<bs_uuid s} \<and>
     jobs_ok u (bs_uuid s) (bs_jobs s) \<and> bus_ok u (bs_uuid s) (bs_jobs s) (bs_bus s)"

text \<open>Jobs evolve: a closed job of an attempt stays closed.\<close>

definition closed_stay :: "build_job list \<Rightarrow> build_job list \<Rightarrow> bool" where
  "closed_stay jobs jobs' \<longleftrightarrow>
     (\<forall>j \<in> set jobs. job_closed j \<longrightarrow> (\<exists>j' \<in> set jobs'. job_key j' = job_key j \<and> job_closed j'))"

lemma closed_stay_refl [simp]: "closed_stay jobs jobs"
  by (auto simp: closed_stay_def)

lemma closed_stay_trans: "closed_stay a b \<Longrightarrow> closed_stay b c \<Longrightarrow> closed_stay a c"
  unfolding closed_stay_def by metis

lemma mail_sound_mono: "closed_stay jobs jobs' \<Longrightarrow> mail_sound jobs x \<Longrightarrow> mail_sound jobs' x"
proof -
  assume closed: "closed_stay jobs jobs'" and sound: "mail_sound jobs x"
  have "stage_sound jobs' pl" if "stage_sound jobs pl" for pl
  proof -
    from that obtain n st where pl: "jp_attempt pl = Some n" "jp_stage pl = Some st"
      and st: "st \<in> set STAGES \<or> (\<exists>j \<in> set jobs. job_key j = (jp_build pl, n) \<and> job_closed j)"
      unfolding stage_sound_def by blast
    from st have "st \<in> set STAGES \<or> (\<exists>j \<in> set jobs'. job_key j = (jp_build pl, n) \<and> job_closed j)"
    proof
      assume "\<exists>j \<in> set jobs. job_key j = (jp_build pl, n) \<and> job_closed j"
      then obtain j where "j \<in> set jobs" "job_key j = (jp_build pl, n)" "job_closed j" by blast
      then show ?thesis
        using closed unfolding closed_stay_def by (metis (no_types, lifting))
    qed simp
    with pl show ?thesis unfolding stage_sound_def by blast
  qed
  with sound show ?thesis by (simp add: mail_sound_def)
qed

lemma bus_ok_mono:
  assumes "closed_stay jobs jobs'" and "n \<le> m" and "bus_ok u n jobs bus"
  shows "bus_ok u m jobs' bus"
proof -
  from assms(2) have "u ` {..<n} \<subseteq> u ` {..<m}" by (intro image_mono) simp
  with assms(3) have "ev_event_id ` set (bus_events bus) \<subseteq> u ` {..<m}" unfolding bus_ok_def by blast
  moreover have "\<forall>x \<in> mail bus. mail_sound jobs' x"
    using assms(3) mail_sound_mono [OF assms(1)] unfolding bus_ok_def by blast
  ultimately show ?thesis using assms(3) unfolding bus_ok_def by blast
qed

lemma bus_ok_emit:
  assumes "bus_ok u n jobs bus" and "inj u" and "mail_sound jobs (subj, pl)"
  shows "bus_ok u (Suc n) jobs (snd (publish now (u n) subj pl bus))"
proof -
  have fresh: "bus_fresh (u n) bus"
    using assms(1,2) by (auto simp: bus_ok_def bus_fresh_def inj_eq)
  have inv: "bus_inv bus" using assms(1) by (simp add: bus_ok_def)
  show ?thesis
    unfolding bus_ok_def
  proof (intro conjI ballI)
    show "bus_inv (snd (publish now (u n) subj pl bus))" by (rule publish_inv [OF inv fresh])
    show "ev_event_id ` set (bus_events (snd (publish now (u n) subj pl bus))) \<subseteq> u ` {..<Suc n}"
      using assms(1) publish_event [of now "u n" subj pl bus]
      by (auto simp: publish_events [OF fresh] bus_ok_def lessThan_Suc)
    fix x assume "x \<in> mail (snd (publish now (u n) subj pl bus))"
    with mail_publish [OF inv fresh, of now subj pl] have "x = (subj, pl) \<or> x \<in> mail bus" by auto
    with assms(1,3) show "mail_sound jobs x" by (auto simp: bus_ok_def)
  qed
qed

lemma settle_event_ids:
  "ev_event_id ` set (bus_events (snd (update_status now did st err ra bus))) = ev_event_id ` set (bus_events bus)"
proof -
  have keys: "ev_event_id r = k \<Longrightarrow> map ev_event_id (modify_row ev_event_id k (\<lambda>_. r) es) = map ev_event_id es"
    for r :: "'p workflow_event" and k es
    by (induction es) auto
  have "map ev_event_id (bus_events (snd (update_status now did st err ra bus))) = map ev_event_id (bus_events bus)"
    by (simp add: update_status_def Let_def keys split: option.splits)
  then show ?thesis by (metis list.set_map)
qed

lemma bus_ok_settle:
  assumes "bus_ok u n jobs bus" and "st \<noteq> Processing"
  shows "bus_ok u n jobs (snd (update_status now did st err ra bus))"
  unfolding bus_ok_def settle_event_ids
proof (intro conjI ballI)
  show "bus_inv (snd (update_status now did st err ra bus))"
    using assms by (simp add: bus_ok_def update_status_inv)
qed (use assms(1) mail_settle [of now did st err ra bus] in \<open>auto simp: bus_ok_def\<close>)

section \<open>Single writes\<close>

definition settled :: "build \<Rightarrow> bool" where
  "settled b \<longleftrightarrow> bl_status b \<in> {''published'', ''cancelled''}"

definition same_outcome :: "build \<Rightarrow> build \<Rightarrow> bool" where
  "same_outcome b b' \<longleftrightarrow>
     bl_status b' = bl_status b \<and> bl_registry_repository b' = bl_registry_repository b \<and> bl_image_tag b' = bl_image_tag b \<and>
     bl_artifact_uri b' = bl_artifact_uri b \<and> bl_artifact_digest b' = bl_artifact_digest b \<and>
     bl_manifest_uri b' = bl_manifest_uri b \<and> bl_owner b' = bl_owner b \<and> bl_image b' = bl_image b"

lemma same_outcome_refl [simp]: "same_outcome b b"
  by (simp add: same_outcome_def)

lemma same_outcome_trans: "same_outcome a b \<Longrightarrow> same_outcome b c \<Longrightarrow> same_outcome a c"
  by (simp add: same_outcome_def)

lemma same_outcome_settled: "same_outcome a b \<Longrightarrow> settled a \<Longrightarrow> settled b"
  by (simp add: same_outcome_def settled_def)

text \<open>Builds change row by row, and a settled one keeps its outcome.\<close>

definition outcomes_stay :: "builder \<Rightarrow> builder \<Rightarrow> bool" where
  "outcomes_stay s s' \<longleftrightarrow>
     (\<forall>bid b. get_build bid s = Some b \<longrightarrow> settled b \<longrightarrow> (\<exists>b'. get_build bid s' = Some b' \<and> same_outcome b b'))"

lemma outcomes_stay_refl [simp]: "outcomes_stay s s"
  by (auto simp: outcomes_stay_def)

lemma outcomes_stay_trans:
  assumes "outcomes_stay a b" and "outcomes_stay b c"
  shows "outcomes_stay a c"
  unfolding outcomes_stay_def
proof (intro allI impI)
  fix bid x assume "get_build bid a = Some x" and "settled x"
  with assms(1) obtain y where y: "get_build bid b = Some y" "same_outcome x y"
    unfolding outcomes_stay_def by blast
  with \<open>settled x\<close> assms(2) obtain z where "get_build bid c = Some z" "same_outcome y z"
    unfolding outcomes_stay_def by (metis same_outcome_settled)
  with y show "\<exists>z. get_build bid c = Some z \<and> same_outcome x z"
    by (blast intro: same_outcome_trans)
qed

definition builds_go :: "(nat \<Rightarrow> ident) \<Rightarrow> builder \<Rightarrow> builder \<Rightarrow> bool" where
  "builds_go u s s' \<longleftrightarrow>
     bs_builds s' = bs_builds s \<or>
     (\<exists>b. bs_builds s' = put_row bl_id b (bs_builds s) \<and>
          (case get_build (bl_id b) s of
             None \<Rightarrow> bl_id b \<in> u ` {..<bs_uuid s'}
           | Some b0 \<Rightarrow> settled b0 \<longrightarrow> same_outcome b0 b))"

definition jobs_go :: "(nat \<Rightarrow> ident) \<Rightarrow> builder \<Rightarrow> builder \<Rightarrow> bool" where
  "jobs_go u s s' \<longleftrightarrow>
     bs_jobs s' = bs_jobs s \<or>
     (\<exists>j. bs_jobs s' = put_row jb_id j (bs_jobs s) \<and> job_typed j \<and>
          ((\<exists>j0 \<in> set (bs_jobs s). jb_id j0 = jb_id j \<and> job_key j0 = job_key j \<and> (job_closed j0 \<longrightarrow> job_closed j)) \<or>
           jb_id j \<in> u ` {bs_uuid s..<bs_uuid s'} \<and> job_key j \<notin> job_key ` set (bs_jobs s)))"

lemma job_keys_put:
  assumes "distinct_keys jb_id jobs" and "j0 \<in> set jobs" and "jb_id j0 = jb_id j" and "job_key j0 = job_key j"
  shows "map job_key (put_row jb_id j jobs) = map job_key jobs"
  using assms by (induction jobs) (auto simp: rev_image_eqI)

lemma new_id_fresh:
  fixes n :: nat
  shows "inj u \<Longrightarrow> S \<subseteq> u ` {..<n} \<Longrightarrow> x \<in> u ` {n..<m} \<Longrightarrow> x \<notin> S"
proof
  assume "inj u" and "S \<subseteq> u ` {..<n}" and "x \<in> u ` {n..<m}" and "x \<in> S"
  then obtain i k where "x = u i" "i < n" "x = u k" "n \<le> k" by fastforce
  then show False using \<open>inj u\<close> by (metis inj_eq not_le)
qed

lemma jobs_go_ok:
  assumes "jobs_go u s s'" and "jobs_ok u (bs_uuid s) (bs_jobs s)" and "inj u" and "bs_uuid s \<le> bs_uuid s'"
  shows "jobs_ok u (bs_uuid s') (bs_jobs s') \<and> closed_stay (bs_jobs s) (bs_jobs s')"
proof -
  have up: "u ` {..<bs_uuid s} \<subseteq> u ` {..<bs_uuid s'}" using assms(4) by (intro image_mono) simp
  have ids: "distinct_keys jb_id (bs_jobs s)" and keys: "distinct_keys job_key (bs_jobs s)"
    and typed: "\<forall>j \<in> set (bs_jobs s). job_typed j" and used: "jb_id ` set (bs_jobs s) \<subseteq> u ` {..<bs_uuid s}"
    using assms(2) by (auto simp: jobs_ok_def)
  from assms(1) consider "bs_jobs s' = bs_jobs s"
    | j j0 where "bs_jobs s' = put_row jb_id j (bs_jobs s)" "job_typed j" "j0 \<in> set (bs_jobs s)" "jb_id j0 = jb_id j"
        "job_key j0 = job_key j" "job_closed j0 \<longrightarrow> job_closed j"
    | j where "bs_jobs s' = put_row jb_id j (bs_jobs s)" "job_typed j" "jb_id j \<in> u ` {bs_uuid s..<bs_uuid s'}"
        "job_key j \<notin> job_key ` set (bs_jobs s)"
    unfolding jobs_go_def by blast
  then show ?thesis
  proof cases
    case 1
    with assms(2) up show ?thesis by (auto simp: jobs_ok_def)
  next
    case (2 j j0)
    have set': "set (bs_jobs s') = insert j {x \<in> set (bs_jobs s). jb_id x \<noteq> jb_id j}"
      by (simp add: 2(1) set_put_row [OF ids])
    have same: "x = j0" if "x \<in> set (bs_jobs s)" "jb_id x = jb_id j" for x
      using that 2(3,4) ids by (metis get_row_distinct option.inject)
    have id: "jb_id j \<in> u ` {..<bs_uuid s'}" using 2(3,4) used up by (metis image_eqI subsetD)
    have "jobs_ok u (bs_uuid s') (bs_jobs s')"
      unfolding jobs_ok_def
    proof (intro conjI ballI)
      show "distinct_keys jb_id (bs_jobs s')" by (simp add: 2(1) distinct_put_row ids)
      show "distinct_keys job_key (bs_jobs s')" using job_keys_put [OF ids 2(3,4,5)] keys by (simp add: 2(1))
      fix x assume x: "x \<in> set (bs_jobs s')"
      then show "job_typed x" using set' 2(2) typed by auto
      from x set' have "x = j \<or> jb_id x \<in> u ` {..<bs_uuid s}" using used by auto
      with id up show "jb_id x \<in> u ` {..<bs_uuid s'}" by blast
    qed
    moreover have "closed_stay (bs_jobs s) (bs_jobs s')"
      unfolding closed_stay_def
    proof (intro ballI impI)
      fix x assume x: "x \<in> set (bs_jobs s)" "job_closed x"
      show "\<exists>j' \<in> set (bs_jobs s'). job_key j' = job_key x \<and> job_closed j'"
      proof (cases "jb_id x = jb_id j")
        case True
        with same x 2(5,6) set' show ?thesis by (intro bexI [of _ j]) auto
      next
        case False
        with x set' show ?thesis by (intro bexI [of _ x]) auto
      qed
    qed
    ultimately show ?thesis by blast
  next
    case (3 j)
    have new: "jb_id j \<notin> jb_id ` set (bs_jobs s)" by (rule new_id_fresh [OF assms(3) used 3(3)])
    have id: "jb_id j \<in> u ` {..<bs_uuid s'}" using 3(3) by auto
    have app: "bs_jobs s' = bs_jobs s @ [j]" using 3(1) put_row_new [OF refl new] by simp
    have "jobs_ok u (bs_uuid s') (bs_jobs s')"
      unfolding jobs_ok_def app
    proof (intro conjI ballI)
      show "distinct_keys jb_id (bs_jobs s @ [j])" using ids new by auto
      show "distinct_keys job_key (bs_jobs s @ [j])" using keys 3(4) by auto
      fix x assume "x \<in> set (bs_jobs s @ [j])"
      then have "x = j \<or> x \<in> set (bs_jobs s)" by auto
      then show "job_typed x" and "jb_id x \<in> u ` {..<bs_uuid s'}" using typed 3(2) id used up by blast+
    qed
    then show ?thesis by (auto simp: app closed_stay_def)
  qed
qed

lemma builds_go_ok:
  assumes "builds_go u s s'" and "bl_id ` set (bs_builds s) \<subseteq> u ` {..<bs_uuid s}" and "bs_uuid s \<le> bs_uuid s'"
    and "distinct_keys bl_id (bs_builds s)"
  shows "distinct_keys bl_id (bs_builds s') \<and> bl_id ` set (bs_builds s') \<subseteq> u ` {..<bs_uuid s'} \<and> outcomes_stay s s'"
proof -
  have up: "u ` {..<bs_uuid s} \<subseteq> u ` {..<bs_uuid s'}" using assms(3) by (intro image_mono) simp
  from assms(1) consider "bs_builds s' = bs_builds s"
    | b where "bs_builds s' = put_row bl_id b (bs_builds s)" "case get_build (bl_id b) s of
             None \<Rightarrow> bl_id b \<in> u ` {..<bs_uuid s'} | Some b0 \<Rightarrow> settled b0 \<longrightarrow> same_outcome b0 b"
    unfolding builds_go_def by blast
  then show ?thesis
  proof cases
    case 1
    then have "outcomes_stay s s'" by (auto simp: outcomes_stay_def get_build_def)
    with 1 assms(2,4) up show ?thesis by auto
  next
    case (2 b)
    have id: "bl_id b \<in> u ` {..<bs_uuid s'}"
    proof (cases "get_build (bl_id b) s")
      case None with 2(2) show ?thesis by simp
    next
      case (Some b0)
      then have "bl_id b \<in> bl_id ` set (bs_builds s)"
        using get_row_SomeD [of bl_id "bl_id b" "bs_builds s" b0] by (metis get_build_def image_eqI)
      with assms(2) up show ?thesis by blast
    qed
    have "outcomes_stay s s'"
      unfolding outcomes_stay_def
    proof (intro allI impI)
      fix bid x assume x: "get_build bid s = Some x" "settled x"
      show "\<exists>x'. get_build bid s' = Some x' \<and> same_outcome x x'"
      proof (cases "bid = bl_id b")
        case True
        with x 2 show ?thesis by (intro exI [of _ b]) (simp add: get_build_def row_simps)
      next
        case False
        with x 2(1) show ?thesis by (intro exI [of _ x]) (simp add: get_build_def row_simps)
      qed
    qed
    moreover have "insert (bl_id b) (bl_id ` set (bs_builds s)) \<subseteq> u ` {..<bs_uuid s'}" using id assms(2) up by blast
    ultimately show ?thesis by (simp add: 2(1) keys_put_row distinct_put_row assms(4))
  qed
qed

text \<open>What every operation does: it keeps the invariant, closed jobs and the outcomes of settled builds.\<close>

definition goes :: "(nat \<Rightarrow> ident) \<Rightarrow> builder \<Rightarrow> builder \<Rightarrow> bool" where
  "goes u s s' \<longleftrightarrow>
     (builder_inv u s \<longrightarrow>
        builder_inv u s' \<and> closed_stay (bs_jobs s) (bs_jobs s') \<and> outcomes_stay s s' \<and> bs_uuid s \<le> bs_uuid s')"

lemma goes_refl [simp]: "goes u s s"
  by (simp add: goes_def)

lemma goes_trans: "goes u a b \<Longrightarrow> goes u b c \<Longrightarrow> goes u a c"
  unfolding goes_def using closed_stay_trans outcomes_stay_trans by (meson le_trans)

lemma goesI:
  assumes "builder_inv u s \<Longrightarrow> bs_uuid s \<le> bs_uuid s'"
    and "builder_inv u s \<Longrightarrow> builds_go u s s'" and "builder_inv u s \<Longrightarrow> jobs_go u s s'"
    and "builder_inv u s \<Longrightarrow> inj u \<Longrightarrow> jobs_ok u (bs_uuid s') (bs_jobs s') \<Longrightarrow>
           bus_ok u (bs_uuid s) (bs_jobs s') (bs_bus s) \<Longrightarrow> bus_ok u (bs_uuid s') (bs_jobs s') (bs_bus s')"
  shows "goes u s s'"
  unfolding goes_def
proof (rule impI)
  assume inv: "builder_inv u s"
  then have distinct: "distinct_keys bl_id (bs_builds s)" and parts: "inj u" "bl_id ` set (bs_builds s) \<subseteq> u ` {..<bs_uuid s}" "jobs_ok u (bs_uuid s) (bs_jobs s)"
      "bus_ok u (bs_uuid s) (bs_jobs s) (bs_bus s)"
    by (simp_all add: builder_inv_def)
  note le = assms(1) [OF inv]
  note jobs = jobs_go_ok [OF assms(3) [OF inv] parts(3,1) le]
  note builds = builds_go_ok [OF assms(2) [OF inv] parts(2) le distinct]
  have "bus_ok u (bs_uuid s') (bs_jobs s') (bs_bus s')"
    using jobs by (intro assms(4) [OF inv parts(1)] bus_ok_mono [OF _ order_refl parts(4)]) simp_all
  with parts(1) jobs builds le show "builder_inv u s' \<and> closed_stay (bs_jobs s) (bs_jobs s') \<and> outcomes_stay s s' \<and> bs_uuid s \<le> bs_uuid s'"
    by (simp add: builder_inv_def)
qed

lemma mail_sound_other [simp]:
  "subj \<noteq> ''build.job.progress'' \<Longrightarrow> subj \<noteq> ''build.accepted'' \<Longrightarrow> mail_sound jobs (subj, pl)"
  by (simp add: mail_sound_def)

lemma mail_sound_progress [simp]:
  "st \<in> set STAGES \<Longrightarrow> mail_sound jobs (''build.job.progress'', progress bid n st)"
  by (simp add: mail_sound_def stage_sound_def)

section \<open>Looking up the job of an attempt\<close>

lemma set_jobs_newest_first [simp]: "set (jobs_newest_first js) = set js"
  by (simp add: jobs_newest_first_def)

lemma get_build_job_SomeD:
  "get_build_job bid att s = Some j \<Longrightarrow> j \<in> set (bs_jobs s) \<and> jb_build j = bid \<and> (att \<noteq> None \<longrightarrow> Some (jb_attempt j) = att)"
proof -
  have "find P xs = Some x \<Longrightarrow> x \<in> set xs \<and> P x" for P and xs :: "build_job list" and x
    by (induction xs) (auto split: if_splits)
  note found = this
  assume "get_build_job bid att s = Some j"
  from found [OF this [unfolded get_build_job_def]]
  show "j \<in> set (bs_jobs s) \<and> jb_build j = bid \<and> (att \<noteq> None \<longrightarrow> Some (jb_attempt j) = att)"
    unfolding set_jobs_newest_first .
qed

lemma get_build_job_NoneD:
  "get_build_job bid (Some n) s = None \<Longrightarrow> (bid, n) \<notin> job_key ` set (bs_jobs s)"
proof -
  assume "get_build_job bid (Some n) s = None"
  then have "\<forall>j \<in> set (bs_jobs s). \<not> (jb_build j = bid \<and> jb_attempt j = n)"
    by (simp add: get_build_job_def find_None_iff)
  then show "(bid, n) \<notin> job_key ` set (bs_jobs s)" by blast
qed

lemma one_job_per_attempt:
  assumes "jobs_ok u n (bs_jobs s)" and "j \<in> set (bs_jobs s)" and "j' \<in> set (bs_jobs s)" and "job_key j = job_key j'"
  shows "j = j'"
proof -
  have keys: "distinct_keys job_key (bs_jobs s)" using assms(1) by (simp add: jobs_ok_def)
  from keys assms(2,3,4) show ?thesis unfolding distinct_map inj_on_def by blast
qed

lemma get_build_job_unique:
  assumes "jobs_ok u n (bs_jobs s)" and "j \<in> set (bs_jobs s)"
  shows "get_build_job (jb_build j) (Some (jb_attempt j)) s = Some j"
proof (cases "get_build_job (jb_build j) (Some (jb_attempt j)) s")
  case None
  from imageI [OF assms(2), of job_key] get_build_job_NoneD [OF None] show ?thesis by simp
next
  case (Some j')
  have j': "j' \<in> set (bs_jobs s)" "job_key j = job_key j'" using get_build_job_SomeD [OF Some] by simp_all
  with one_job_per_attempt [OF assms(1,2)] Some show ?thesis by blast
qed

section \<open>Every operation goes\<close>

definition env_ok :: "(nat \<Rightarrow> ident) \<Rightarrow> build_env \<Rightarrow> bool" where
  "env_ok u env \<longleftrightarrow>
     bv_uuid env = u \<and>
     (\<forall>i bid n. jb_id (bv_job env i bid n) = i \<and> jb_build (bv_job env i bid n) = bid \<and> jb_attempt (bv_job env i bid n) = n)"

lemma env_ok_uuid [simp]: "env_ok u env \<Longrightarrow> bv_uuid env = u"
  unfolding env_ok_def by (rule conjunct1)

lemma env_ok_job:
  "env_ok u env \<Longrightarrow> jb_id (bv_job env i bid n) = i \<and> jb_build (bv_job env i bid n) = bid \<and> jb_attempt (bv_job env i bid n) = n"
  unfolding env_ok_def by blast

lemma bus_ok_emit_at:
  "bus_ok u n jobs bus \<Longrightarrow> n \<le> k \<Longrightarrow> inj u \<Longrightarrow> mail_sound jobs (subj, pl) \<Longrightarrow>
   bus_ok u (Suc k) jobs (snd (publish now (u k) subj pl bus))"
  using bus_ok_emit [OF bus_ok_mono [OF closed_stay_refl]] by blast

lemma bus_ok_up: "bus_ok u n jobs bus \<Longrightarrow> n \<le> m \<Longrightarrow> bus_ok u m jobs bus"
  by (rule bus_ok_mono [OF closed_stay_refl])

lemmas bus_intros = bus_ok_settle bus_ok_emit_at

lemma jobs_of_inv: "builder_inv u s \<Longrightarrow> jobs_ok u (bs_uuid s) (bs_jobs s)"
  by (simp add: builder_inv_def)

lemma id_of_finalize [simp]: "bl_id (finalize_success now b q) = bl_id b" "bl_id (finalize_failure now b x) = bl_id b"
  "bl_retry_count (finalize_failure now b x) = bl_retry_count b" "bl_status (finalize_failure now b x) = ''failed''"
  by (simp_all add: finalize_success_def finalize_failure_def)

lemma builds_go_put:
  "get_build (bl_id b) s = Some b0 \<Longrightarrow> \<not> settled b0 \<Longrightarrow> bs_builds s' = put_row bl_id b (bs_builds s) \<Longrightarrow> builds_go u s s'"
  unfolding builds_go_def by (intro disjI2 exI [of _ b]) simp

lemma builds_go_new:
  "get_build (bl_id b) s = None \<Longrightarrow> bl_id b \<in> u ` {..<bs_uuid s'} \<Longrightarrow> bs_builds s' = put_row bl_id b (bs_builds s) \<Longrightarrow> builds_go u s s'"
  unfolding builds_go_def by (intro disjI2 exI [of _ b]) simp

lemma jobs_go_put:
  "j0 \<in> set (bs_jobs s) \<Longrightarrow> jb_id j0 = jb_id j \<Longrightarrow> job_key j0 = job_key j \<Longrightarrow> \<not> job_closed j0 \<or> job_closed j \<Longrightarrow> job_typed j \<Longrightarrow>
   bs_jobs s' = put_row jb_id j (bs_jobs s) \<Longrightarrow> jobs_go u s s'"
  unfolding jobs_go_def by (intro disjI2 exI [of _ j]) blast

lemma jobs_go_new:
  "jb_id j \<in> u ` {bs_uuid s..<bs_uuid s'} \<Longrightarrow> job_key j \<notin> job_key ` set (bs_jobs s) \<Longrightarrow> job_typed j \<Longrightarrow>
   bs_jobs s' = put_row jb_id j (bs_jobs s) \<Longrightarrow> jobs_go u s s'"
  unfolding jobs_go_def by (intro disjI2 exI [of _ j]) blast

lemma builds_go_same: "bs_builds s' = bs_builds s \<Longrightarrow> builds_go u s s'"
  by (simp add: builds_go_def)

lemma jobs_go_same: "bs_jobs s' = bs_jobs s \<Longrightarrow> jobs_go u s s'"
  by (simp add: jobs_go_def)

lemma staging_stage: "''staging'' \<in> set STAGES" "''building'' \<in> set STAGES" "''publishing'' \<in> set STAGES"
  by (simp_all add: STAGES_def)

lemma stage_not_settled: "st \<in> set STAGES \<Longrightarrow> st \<notin> {''published'', ''cancelled''}"
  by (auto simp: STAGES_def)

lemma run_stage_result:
  assumes "run_stage env b c stage st = Inr r"
  shows "sr_stage r = stage \<and> stage \<in> set STAGES \<and>
         (case sr_next r of None \<Rightarrow> sr_published r \<noteq> None | Some nx \<Rightarrow> nx \<in> set STAGES)"
  using assms
  by (auto simp: run_stage_def published_result_def STAGES_def split: if_splits sum.splits option.splits)

lemma start_build_effect:
  assumes "materialize_context_source tools rq = Inr uri"
  shows "\<exists>b. bl_id b = bv_uuid env (bs_uuid s) \<and> bs_builds (snd (start_build env tools rq owner s)) = put_row bl_id b (bs_builds s)"
    and "bs_jobs (snd (start_build env tools rq owner s)) = bs_jobs s"
    and "bs_uuid (snd (start_build env tools rq owner s)) = Suc (Suc (bs_uuid s))"
    and "\<exists>pl. jp_attempt pl \<noteq> None \<and> bs_bus (snd (start_build env tools rq owner s)) =
           snd (publish (bv_now env) (bv_uuid env (Suc (bs_uuid s))) ''build.accepted'' pl (bs_bus s))"
proof -
  show "\<exists>b. bl_id b = bv_uuid env (bs_uuid s) \<and> bs_builds (snd (start_build env tools rq owner s)) = put_row bl_id b (bs_builds s)"
    by (simp add: start_build_def assms Let_def) (rule exI, rule conjI [rotated], rule refl, simp)
  show "\<exists>pl. jp_attempt pl \<noteq> None \<and> bs_bus (snd (start_build env tools rq owner s)) =
           snd (publish (bv_now env) (bv_uuid env (Suc (bs_uuid s))) ''build.accepted'' pl (bs_bus s))"
    by (simp add: start_build_def assms Let_def) (rule exI, rule conjI [rotated], rule refl, simp)
qed (simp_all add: start_build_def assms Let_def)

lemma start_build_goes:
  assumes "env_ok u env"
  shows "goes u s (snd (start_build env tools rq owner s))"
proof (cases "materialize_context_source tools rq")
  case (Inl e)
  then show ?thesis by (simp add: start_build_def)
next
  case (Inr uri)
  let ?s' = "snd (start_build env tools rq owner s)"
  note eff = start_build_effect [OF Inr, where env = env and s = s and owner = owner]
  show ?thesis
  proof (rule goesI)
    assume inv: "builder_inv u s"
    show "bs_uuid s \<le> bs_uuid ?s'" by (simp add: eff(3))
    obtain b where b: "bl_id b = u (bs_uuid s)" "bs_builds ?s' = put_row bl_id b (bs_builds s)"
      using eff(1) assms by auto
    have "u (bs_uuid s) \<notin> bl_id ` set (bs_builds s)"
      using inv by (intro new_id_fresh [of u _ "bs_uuid s" _ "Suc (bs_uuid s)"]) (auto simp: builder_inv_def)
    then have "get_build (bl_id b) s = None" by (simp add: get_build_def row_simps b(1))
    then show "builds_go u s ?s'" by (rule builds_go_new [OF _ _ b(2)]) (simp add: b(1) eff(3))
    show "jobs_go u s ?s'" by (rule jobs_go_same) (rule eff(2))
  next
    assume "inj u" and "bus_ok u (bs_uuid s) (bs_jobs ?s') (bs_bus s)"
    with eff(4) assms show "bus_ok u (bs_uuid ?s') (bs_jobs ?s') (bs_bus ?s')"
      by (auto simp: eff(3) mail_sound_def intro!: bus_ok_emit_at)
  qed
qed

lemma apply_stage_result_goes:
  assumes "env_ok u env" and "get_build (bl_id b) s = Some b0" and "\<not> settled b0"
    and "j0 \<in> set (bs_jobs s)" and "jb_id j0 = jb_id j" and "job_key j0 = job_key j" and "\<not> job_closed j0"
    and "jb_status j = ''running''" and "jb_finished_at j = None"
    and r: "sr_stage r \<in> set STAGES" "case sr_next r of None \<Rightarrow> sr_published r \<noteq> None | Some nx \<Rightarrow> nx \<in> set STAGES"
  shows "goes u s (snd (apply_stage_result env b att j r did s))"
proof (cases "sr_next r")
  case (Some nx)
  then have nx: "nx \<in> set STAGES" using r(2) by simp
  let ?s' = "snd (apply_stage_result env b att j r did s)"
  note eff = apply_stage_result_def queue_next_stage_def Some Let_def
  have frame: "bs_builds (case sr_context r of None \<Rightarrow> s | Some c \<Rightarrow> save_build_context c s) = bs_builds s"
    "bs_jobs (case sr_context r of None \<Rightarrow> s | Some c \<Rightarrow> save_build_context c s) = bs_jobs s"
    "bs_bus (case sr_context r of None \<Rightarrow> s | Some c \<Rightarrow> save_build_context c s) = bs_bus s"
    "bs_uuid (case sr_context r of None \<Rightarrow> s | Some c \<Rightarrow> save_build_context c s) = bs_uuid s"
    by (simp_all split: option.splits)
  show ?thesis
  proof (rule goesI)
    show "bs_uuid s \<le> bs_uuid ?s'" by (simp add: eff frame)
    show "builds_go u s ?s'" by (rule builds_go_put [OF _ assms(3)]) (simp_all add: eff frame assms(2))
    show "jobs_go u s ?s'"
      by (rule jobs_go_put [OF assms(4)]) (simp_all add: eff frame, use assms nx in \<open>auto simp: job_typed_def job_closed_def\<close>)
  next
    assume "inj u" and "bus_ok u (bs_uuid s) (bs_jobs ?s') (bs_bus s)"
    then show "bus_ok u (bs_uuid ?s') (bs_jobs ?s') (bs_bus ?s')"
      using assms(1) nx r(1) by (simp add: eff frame) ((rule bus_intros)+, assumption, simp_all)
  qed
next
  case None
  then obtain q where q: "sr_published r = Some q" using r(2) by auto
  let ?s' = "snd (apply_stage_result env b att j r did s)"
  note eff = apply_stage_result_def publish_build_def None q Let_def
  have frame: "bs_builds (case sr_context r of None \<Rightarrow> s | Some c \<Rightarrow> save_build_context c s) = bs_builds s"
    "bs_jobs (case sr_context r of None \<Rightarrow> s | Some c \<Rightarrow> save_build_context c s) = bs_jobs s"
    "bs_bus (case sr_context r of None \<Rightarrow> s | Some c \<Rightarrow> save_build_context c s) = bs_bus s"
    "bs_uuid (case sr_context r of None \<Rightarrow> s | Some c \<Rightarrow> save_build_context c s) = bs_uuid s"
    by (simp_all split: option.splits)
  show ?thesis
  proof (rule goesI)
    show "bs_uuid s \<le> bs_uuid ?s'" by (simp add: eff frame)
    show "builds_go u s ?s'" by (rule builds_go_put [OF _ assms(3)]) (simp_all add: eff frame assms(2))
    show "jobs_go u s ?s'"
      by (rule jobs_go_put [OF assms(4)]) (simp_all add: eff frame, use assms in \<open>auto simp: job_typed_def job_closed_def\<close>)
  next
    assume "inj u" and "bus_ok u (bs_uuid s) (bs_jobs ?s') (bs_bus s)"
    then show "bus_ok u (bs_uuid ?s') (bs_jobs ?s') (bs_bus ?s')"
      using assms(1) r(1) by (simp add: eff frame) ((rule bus_intros)+, assumption, simp_all)
  qed
qed

lemma save_stage_goes:
  assumes "env_ok u env" and "get_build (bl_id b) s = Some b" and "\<not> settled b"
    and "j \<in> set (bs_jobs s)" and "\<not> job_closed j" and "jb_current_stage j \<in> set STAGES"
    and "job_typed j1" and "jb_id j1 = jb_id j" and "job_key j1 = job_key j"
    and "bs_builds s' = put_row bl_id b1 (bs_builds s)" and "bl_id b1 = bl_id b"
    and "bs_jobs s' = put_row jb_id j1 (bs_jobs s)" and "bs_bus s' = bs_bus s" and "bs_uuid s' = bs_uuid s"
  shows "goes u s s'"
proof (rule goesI)
  show "builds_go u s s'" by (rule builds_go_put [OF _ assms(3)]) (simp_all add: assms)
  show "jobs_go u s s'" by (rule jobs_go_put [OF assms(4)]) (simp_all add: assms)
qed (simp_all add: assms)

text \<open>The conditions under which a failed step is handled: the build is live, and a retry happens only at an
  open job that was told to run a known stage.\<close>

definition failable :: "build \<Rightarrow> job_message \<Rightarrow> exec_error \<Rightarrow> builder \<Rightarrow> bool" where
  "failable b m x s \<longleftrightarrow>
     get_build (bl_id b) s = Some b \<and> \<not> settled b \<and>
     (xe_retryable x \<longrightarrow>
        (\<exists>j st. get_build_job (bl_id b) (Some (payload_attempt m (max 1 (msg_attempts m)))) s = Some j \<and>
           \<not> job_closed j \<and> jp_stage (msg_payload m) = Some st \<and> st \<in> set STAGES))"

lemma get_build_id: "get_build bid s = Some b \<Longrightarrow> bl_id b = bid"
  unfolding get_build_def by (drule get_row_SomeD) simp

lemma advance_job_goes:
  assumes env: "env_ok u env" and inv: "builder_inv u s" and b: "get_build bid s = Some b" and live: "\<not> settled b"
    and bid: "jp_build (msg_payload m) = bid" and sound: "stage_sound (bs_jobs s) (msg_payload m)"
  shows "goes u s (snd (advance_job env b m s)) \<and>
         (\<forall>e. fst (advance_job env b m s) = Inl e \<longrightarrow>
            failable (saved_build b (snd (advance_job env b m s))) m
              (as_exec_error (saved_build b (snd (advance_job env b m s))) e) (snd (advance_job env b m s)))"
proof -
  have id: "bl_id b = bid" using get_build_id [OF b] .
  let ?n = "payload_attempt m (max 1 (msg_attempts m))"
  obtain n st where pl: "jp_attempt (msg_payload m) = Some n" "jp_stage (msg_payload m) = Some st"
    and st: "st \<in> set STAGES \<or> (\<exists>j \<in> set (bs_jobs s). job_key j = (bid, n) \<and> job_closed j)"
    using sound bid unfolding stage_sound_def by blast
  have n: "?n = n" by (simp add: payload_attempt_def pl(1))
  have refuse: ?thesis if "advance_job env b m s = (Inl (ValueError t), s)" for t
    using that b live id by (simp add: failable_def as_exec_error_def saved_build_def)
  show ?thesis
  proof (cases "get_build_context bid s")
    case None
    then show ?thesis by (intro refuse) (simp add: advance_job_def id)
  next
    case c: (Some c)
    show ?thesis
    proof (cases "get_build_attempt bid n s")
      case None
      with c show ?thesis by (intro refuse) (simp add: advance_job_def id n Let_def)
    next
      case att: (Some att)
      show ?thesis
      proof (cases "get_build_job bid (Some n) s")
        case None
        with c att show ?thesis by (intro refuse) (simp add: advance_job_def id n Let_def)
      next
        case j: (Some j)
        show ?thesis
        proof (cases "job_closed j")
          case True
          have eq: "advance_job env b m s = (Inr None, complete env (msg_delivery_id m) s)"
            using c att j True by (simp add: advance_job_def id n Let_def)
          have "goes u s (complete env (msg_delivery_id m) s)"
            by (rule goesI) (simp_all add: builds_go_same jobs_go_same bus_ok_settle)
          with eq show ?thesis by simp
        next
          case False
          have mem: "j \<in> set (bs_jobs s)" "job_key j = (bid, n)" using get_build_job_SomeD [OF j] by simp_all
          have jtyped: "job_typed j" using mem(1) inv by (simp add: builder_inv_def jobs_ok_def)
          have stage: "jb_current_stage j \<in> set STAGES" using jtyped False by (simp add: job_typed_def)
          have proper: "st \<in> set STAGES"
            using st mem False one_job_per_attempt [OF jobs_of_inv [OF inv] mem(1)] by metis
          define j1 where "j1 = j\<lparr>jb_status := ''running'',
              jb_stage_state := update_state [(''active_stage'', jb_current_stage j), (''active_stage_started_at'', bv_iso env (bv_now env))]
                (jb_stage_state j), jb_updated_at := bv_now env\<rparr>"
          define att1 where "att1 = att\<lparr>ba_status := jb_current_stage j, ba_last_operation := Some (jb_current_stage j)\<rparr>"
          define b1 where "b1 = b\<lparr>bl_status := jb_current_stage j, bl_last_operation := Some (jb_current_stage j), bl_updated_at := bv_now env\<rparr>"
          define s1 where "s1 = save_build b1 (save_build_attempt att1
              (record_job_checkpoint env j1 (jb_current_stage j) ''running'' (''running stage '' @ jb_current_stage j) False
                (save_build_job j1 s)))"
          have eq: "advance_job env b m s =
              (case run_stage env b1 c (jb_current_stage j) (jb_stage_state j1) of
                 Inl e \<Rightarrow> (Inl e, s1) | Inr r \<Rightarrow> apply_stage_result env b1 att1 j1 r (msg_delivery_id m) s1)"
            using c att j False by (simp add: advance_job_def id n Let_def j1_def att1_def b1_def s1_def cong: sum.case_cong split: sum.split)
          have j1: "jb_id j1 = jb_id j" "job_key j1 = job_key j" "\<not> job_closed j1" "jb_status j1 = ''running''"
              "jb_finished_at j1 = None" "job_typed j1"
            using False stage by (auto simp: j1_def job_closed_def job_typed_def)
          have b1: "bl_id b1 = bid" "\<not> settled b1"
            using stage_not_settled [OF stage] by (simp_all add: b1_def id settled_def)
          have s1: "bs_builds s1 = put_row bl_id b1 (bs_builds s)" "bs_jobs s1 = put_row jb_id j1 (bs_jobs s)"
              "bs_bus s1 = bs_bus s" "bs_uuid s1 = bs_uuid s"
            by (simp_all add: s1_def)
          have go1: "goes u s s1"
            by (rule save_stage_goes [OF env _ live mem(1) False stage j1(6,1,2) s1(1) _ s1(2,3,4)]) (simp_all add: b id b1)
          then have inv1: "builder_inv u s1" using inv by (simp add: goes_def)
          have row1: "get_build bid s1 = Some b1" by (simp add: get_build_def s1(1) row_simps b1(1))
          have mem1: "j1 \<in> set (bs_jobs s1)"
            using set_put_row [of jb_id "bs_jobs s" j1] jobs_of_inv [OF inv] by (simp add: s1(2) jobs_ok_def)
          have found1: "get_build_job bid (Some n) s1 = Some j1"
            using get_build_job_unique [OF jobs_of_inv [OF inv1] mem1] j1(2) mem(2) by simp
          show ?thesis
          proof (cases "run_stage env b1 c (jb_current_stage j) (jb_stage_state j1)")
            case (Inl e)
            with eq row1 go1 b1 found1 j1(3) pl(2) proper n show ?thesis
              by (simp add: saved_build_def id failable_def)
          next
            case (Inr r)
            note result = run_stage_result [OF Inr]
            have "goes u s1 (snd (apply_stage_result env b1 att1 j1 r (msg_delivery_id m) s1))"
              by (rule apply_stage_result_goes [OF env _ b1(2) mem1 refl refl j1(3,4,5)])
                (use row1 b1(1) result in simp_all)
            moreover have "fst (apply_stage_result env b1 att1 j1 r did s1) \<noteq> Inl e" for e did
              using result by (auto simp: apply_stage_result_def Let_def split: option.splits prod.splits)
            ultimately show ?thesis using eq Inr goes_trans [OF go1] by simp
          qed
        qed
      qed
    qed
  qed
qed

definition failed_job :: "build \<Rightarrow> job_message \<Rightarrow> exec_error \<Rightarrow> int \<Rightarrow> build_job \<Rightarrow> build_job \<Rightarrow> bool" where
  "failed_job b m x n j jf \<longleftrightarrow>
     jb_id jf = jb_id j \<and> job_key jf = job_key j \<and>
         (if xe_retryable x \<and> max (bl_retry_count b) (max 0 (n - 1)) < 2
          then jb_status jf = ''queued'' \<and> jb_finished_at jf = None \<and>
               jb_current_stage jf = (case jp_stage (msg_payload m) of Some st \<Rightarrow> st | None \<Rightarrow> ''staging'')
          else jb_status jf = ''failed'' \<and> jb_finished_at jf \<noteq> None)"

lemma handle_job_failure_effect:
  fixes env b m x s
  defines "n \<equiv> payload_attempt m (max 1 (msg_attempts m))"
  defines "j \<equiv> (case get_build_job (bl_id b) (Some n) s of
      Some j \<Rightarrow> j | None \<Rightarrow> bv_job env (bv_uuid env (Suc (bs_uuid s))) (bl_id b) n)"
  defines "s' \<equiv> handle_job_failure env b m x s"
  shows "\<exists>bf. bs_builds s' = put_row bl_id bf (bs_builds s) \<and> bl_id bf = bl_id b"
    and "\<exists>jf. bs_jobs s' = put_row jb_id jf (bs_jobs s) \<and> failed_job b m x n j jf"
    and "\<exists>st err after pl pl'. bs_bus s' = snd (update_status (bv_now env) (msg_delivery_id m) st err after
             (snd (publish (bv_now env) (bv_uuid env (bs_uuid s + 4)) ''build.failed'' pl
               (snd (publish (bv_now env) (bv_uuid env (bs_uuid s + 3)) ''build.job.failed'' pl' (bs_bus s)))))) \<and> st \<noteq> Processing"
    and "bs_uuid s' = bs_uuid s + 5"
proof -
  let ?retry = "xe_retryable x \<and> max (bl_retry_count b) (max 0 (n - 1)) < 2"
  note defs = failed_job_def s'_def handle_job_failure_def Let_def n_def [symmetric] j_def [symmetric]
  have effects: "(\<exists>bf. bs_builds s' = put_row bl_id bf (bs_builds s) \<and> bl_id bf = bl_id b) \<and>
    (\<exists>jf. bs_jobs s' = put_row jb_id jf (bs_jobs s) \<and> failed_job b m x n j jf) \<and>
    (\<exists>st err after pl pl'. bs_bus s' = snd (update_status (bv_now env) (msg_delivery_id m) st err after
             (snd (publish (bv_now env) (bv_uuid env (bs_uuid s + 4)) ''build.failed'' pl
               (snd (publish (bv_now env) (bv_uuid env (bs_uuid s + 3)) ''build.job.failed'' pl' (bs_bus s)))))) \<and> st \<noteq> Processing) \<and>
    bs_uuid s' = bs_uuid s + 5"
  proof (cases ?retry)
    case True
    show ?thesis
      by (intro conjI)
        (simp_all add: defs True put_row_twice eval_nat_numeral del: max_less_iff_conj,
         ((rule exI conjI refl)+, simp_all)+)
  next
    case False
    show ?thesis
    proof (cases "xe_retryable x")
      case True
      with False have many: "2 \<le> max (bl_retry_count b) (max 0 (n - 1))" "\<not> max (bl_retry_count b) (max 0 (n - 1)) < 2" by linarith+
      show ?thesis
        by (intro conjI)
          (simp_all add: defs many put_row_twice eval_nat_numeral del: max_less_iff_conj le_max_iff_disj,
           ((rule exI conjI refl)+, simp_all)+)
    next
      case False
      show ?thesis
        by (intro conjI)
          (simp_all add: defs False put_row_twice eval_nat_numeral,
           ((rule exI conjI refl)+, simp_all)+)
    qed
  qed
  then show "\<exists>bf. bs_builds s' = put_row bl_id bf (bs_builds s) \<and> bl_id bf = bl_id b"
    and "\<exists>jf. bs_jobs s' = put_row jb_id jf (bs_jobs s) \<and> failed_job b m x n j jf"
    and "\<exists>st err after pl pl'. bs_bus s' = snd (update_status (bv_now env) (msg_delivery_id m) st err after
             (snd (publish (bv_now env) (bv_uuid env (bs_uuid s + 4)) ''build.failed'' pl
               (snd (publish (bv_now env) (bv_uuid env (bs_uuid s + 3)) ''build.job.failed'' pl' (bs_bus s)))))) \<and> st \<noteq> Processing"
    and "bs_uuid s' = bs_uuid s + 5"
    by blast+
qed

lemma handle_job_failure_goes:
  assumes env: "env_ok u env" and fail: "failable b m x s"
  shows "goes u s (handle_job_failure env b m x s)"
proof (rule goesI)
  let ?n = "payload_attempt m (max 1 (msg_attempts m))"
  let ?s' = "handle_job_failure env b m x s"
  note eff = handle_job_failure_effect [where b = b and env = env and m = m and x = x and s = s]
  have b: "get_build (bl_id b) s = Some b" "\<not> settled b" using fail by (simp_all add: failable_def)
  show "bs_uuid s \<le> bs_uuid ?s'" by (simp add: eff(4))
  show "builds_go u s ?s'"
  proof -
    obtain bf where "bs_builds ?s' = put_row bl_id bf (bs_builds s)" "bl_id bf = bl_id b" using eff(1) by blast
    with b show ?thesis by (intro builds_go_put [of bf s b]) simp_all
  qed
  assume inv: "builder_inv u s"
  show "jobs_go u s ?s'"
  proof (cases "get_build_job (bl_id b) (Some ?n) s")
    case None
    then have "\<not> xe_retryable x" using fail by (auto simp: failable_def)
    then obtain jf where put: "bs_jobs ?s' = put_row jb_id jf (bs_jobs s)"
      and out: "failed_job b m x ?n (bv_job env (bv_uuid env (Suc (bs_uuid s))) (bl_id b) ?n) jf"
      using eff(2) [unfolded None option.case] by blast
    have final: "jb_status jf = ''failed''" "jb_finished_at jf \<noteq> None"
      using out \<open>\<not> xe_retryable x\<close> by (simp_all add: failed_job_def)
    have jf: "jb_id jf = u (Suc (bs_uuid s))" "job_key jf = (bl_id b, ?n)"
      using out env by (simp_all add: failed_job_def env_ok_job [OF env])
    show ?thesis
      by (rule jobs_go_new [OF _ _ _ put])
        (use get_build_job_NoneD [OF None] in \<open>simp_all add: jf final eff(4) job_typed_def job_closed_def del: not_None_eq\<close>)
  next
    case (Some j)
    note mem = get_build_job_SomeD [OF Some]
    have retry: "\<not> job_closed j \<and> (\<exists>st. jp_stage (msg_payload m) = Some st \<and> st \<in> set STAGES)" if "xe_retryable x"
      using fail that Some by (auto simp: failable_def)
    obtain jf where put: "bs_jobs ?s' = put_row jb_id jf (bs_jobs s)" and out: "failed_job b m x ?n j jf"
      using eff(2) [unfolded Some option.case] by blast
    have "job_typed jf \<and> (\<not> job_closed j \<or> job_closed jf)"
      using out retry by (auto simp: failed_job_def job_typed_def job_closed_def split: if_splits)
    then have typed: "job_typed jf" "\<not> job_closed j \<or> job_closed jf" by blast+
    have same: "jb_id j = jb_id jf" "job_key j = job_key jf" using out by (simp_all add: failed_job_def)
    show ?thesis by (rule jobs_go_put [OF conjunct1 [OF mem] same typed(2,1) put])
  qed
next
  let ?s' = "handle_job_failure env b m x s"
  note eff = handle_job_failure_effect [where b = b and env = env and m = m and x = x and s = s]
  assume inj: "inj u" and bus: "bus_ok u (bs_uuid s) (bs_jobs ?s') (bs_bus s)"
  from eff(3) obtain st err after pl pl' where st: "st \<noteq> Processing" and
    eq: "bs_bus ?s' = snd (update_status (bv_now env) (msg_delivery_id m) st err after
             (snd (publish (bv_now env) (u (bs_uuid s + 4)) ''build.failed'' pl
               (snd (publish (bv_now env) (u (bs_uuid s + 3)) ''build.job.failed'' pl' (bs_bus s)))))) \<and> st \<noteq> Processing"
    using env by auto
  have "bus_ok u (Suc (bs_uuid s + 4)) (bs_jobs ?s') (snd (update_status (bv_now env) (msg_delivery_id m) st err after
             (snd (publish (bv_now env) (u (bs_uuid s + 4)) ''build.failed'' pl
               (snd (publish (bv_now env) (u (bs_uuid s + 3)) ''build.job.failed'' pl' (bs_bus s)))))))"
    by ((rule bus_intros)+, rule bus) (simp_all add: st inj)
  then have "bus_ok u (Suc (bs_uuid s + 4)) (bs_jobs ?s') (bs_bus ?s')" by (simp only: eq)
  then show "bus_ok u (bs_uuid ?s') (bs_jobs ?s') (bs_bus ?s')" by (simp add: eff(4) add.commute)
qed


lemma create_job_effect:
  "jb_id (fst (create_job env b att n s)) = bv_uuid env (bs_uuid s) \<and>
   job_key (fst (create_job env b att n s)) = (bl_id b, n) \<and>
   jb_status (fst (create_job env b att n s)) = ''queued'' \<and> jb_finished_at (fst (create_job env b att n s)) = None \<and>
   jb_current_stage (fst (create_job env b att n s)) = ''staging'' \<and>
   (\<exists>b1. bs_builds (snd (create_job env b att n s)) = put_row bl_id b1 (bs_builds s) \<and> bl_id b1 = bl_id b) \<and>
   bs_jobs (snd (create_job env b att n s)) = put_row jb_id (fst (create_job env b att n s)) (bs_jobs s) \<and>
   (\<exists>pl. bs_bus (snd (create_job env b att n s)) =
      snd (publish (bv_now env) (bv_uuid env (Suc (Suc (bs_uuid s)))) ''build.job.started'' pl (bs_bus s))) \<and>
   bs_uuid (snd (create_job env b att n s)) = bs_uuid s + 3"
  unfolding create_job_def Let_def
  by (intro conjI) (simp_all add: eval_nat_numeral, (rule exI conjI refl)+, simp_all, (rule exI refl)+)

lemma create_job_goes:
  assumes env: "env_ok u env" and b: "get_build (bl_id b) s = Some b" "\<not> settled b"
    and none: "get_build_job (bl_id b) (Some n) s = None"
  shows "goes u s (snd (create_job env b att n s))"
proof (rule goesI)
  let ?j = "fst (create_job env b att n s)" and ?s' = "snd (create_job env b att n s)"
  note eff = create_job_effect [of env b att n s]
  show "bs_uuid s \<le> bs_uuid ?s'" using eff by simp
  obtain b1 where "bs_builds ?s' = put_row bl_id b1 (bs_builds s)" "bl_id b1 = bl_id b" using eff by blast
  with b show "builds_go u s ?s'" by (intro builds_go_put [of b1 s b]) simp_all
  have put: "bs_jobs ?s' = put_row jb_id ?j (bs_jobs s)" using eff by blast
  have key: "job_key ?j = (bl_id b, n)" and id: "jb_id ?j = u (bs_uuid s)" and up: "bs_uuid ?s' = bs_uuid s + 3"
    using eff env by simp_all
  have typed: "job_typed ?j" using eff by (simp add: job_typed_def job_closed_def STAGES_def)
  show "jobs_go u s ?s'"
    by (rule jobs_go_new [OF _ _ typed put])
      (use get_build_job_NoneD [OF none] in \<open>simp_all add: id key up\<close>)
next
  let ?s' = "snd (create_job env b att n s)"
  note eff = create_job_effect [of env b att n s]
  assume inj: "inj u" and bus: "bus_ok u (bs_uuid s) (bs_jobs ?s') (bs_bus s)"
  obtain pl where eq: "bs_bus ?s' = snd (publish (bv_now env) (u (Suc (Suc (bs_uuid s)))) ''build.job.started'' pl (bs_bus s))"
    using eff env by auto
  have "bus_ok u (Suc (Suc (Suc (bs_uuid s)))) (bs_jobs ?s') (bs_bus ?s')"
    unfolding eq by (rule bus_ok_emit_at [OF bus]) (simp_all add: inj)
  moreover have "bs_uuid ?s' = Suc (Suc (Suc (bs_uuid s)))" using eff by simp
  ultimately show "bus_ok u (bs_uuid ?s') (bs_jobs ?s') (bs_bus ?s')" by simp
qed

lemma quiet_goes:
  assumes "bs_builds s' = bs_builds s" and "bs_jobs s' = bs_jobs s" and "bs_bus s' = bs_bus s" and "bs_uuid s \<le> bs_uuid s'"
  shows "goes u s s'"
  by (rule goesI) (simp_all add: assms builds_go_same jobs_go_same bus_ok_up)

lemma settle_goes:
  assumes "st \<noteq> Processing" and "bs_builds s' = bs_builds s" and "bs_jobs s' = bs_jobs s" and "bs_uuid s' = bs_uuid s"
    and "bs_bus s' = snd (update_status now did st err ra (bs_bus s))"
  shows "goes u s s'"
  by (rule goesI) (simp_all add: assms builds_go_same jobs_go_same bus_ok_settle)

lemma emit_goes:
  assumes "env_ok u env" and "builder_inv u s \<Longrightarrow> mail_sound (bs_jobs s) (subj, pl)"
  shows "goes u s (emit_message env subj pl s)"
proof (rule goesI)
  assume inv: "builder_inv u s" and "inj u" and bus: "bus_ok u (bs_uuid s) (bs_jobs (emit_message env subj pl s)) (bs_bus s)"
  then show "bus_ok u (bs_uuid (emit_message env subj pl s)) (bs_jobs (emit_message env subj pl s)) (bs_bus (emit_message env subj pl s))"
    using assms by (simp add: bus_ok_emit_at)
qed (simp_all add: builds_go_same jobs_go_same)

lemma job_message_sound:
  assumes inv: "builder_inv u s" and j: "j \<in> set (bs_jobs s)" "job_key j = (bid, n)"
  shows "mail_sound (bs_jobs s) (''build.job.progress'', progress bid n (jb_current_stage j))"
proof (cases "job_closed j")
  case True
  with j show ?thesis by (auto simp: mail_sound_def stage_sound_def)
next
  case False
  have "job_typed j" using inv j(1) by (simp add: builder_inv_def jobs_ok_def)
  with False show ?thesis by (simp add: job_typed_def)
qed

lemma goes_inv: "goes u s s' \<Longrightarrow> builder_inv u s \<Longrightarrow> builder_inv u s'"
  by (simp add: goes_def)

lemma initialize_goes:
  assumes env: "env_ok u env" and inv: "builder_inv u s" and b: "get_build bid s = Some b" and live: "\<not> settled b"
  shows "goes u s (snd (initialize_or_resume_job env tools b m s)) \<and>
         (\<forall>e. fst (initialize_or_resume_job env tools b m s) = Inl e \<longrightarrow>
            (\<exists>t. e = ValueError t) \<and> snd (initialize_or_resume_job env tools b m s) = s)"
proof -
  have id: "bl_id b = bid" using get_build_id [OF b] .
  show ?thesis
  proof (cases "validate_context_uri (tl_urlparse tools (bl_context_uri b)) \<noteq> None \<or> get_build_context bid s = None")
    case True
    then show ?thesis by (auto simp: initialize_or_resume_job_def id split: option.splits)
  next
    case False
    let ?n = "payload_attempt m (bl_retry_count b + 1)"
    let ?new = "(bv_attempt env (bv_uuid env (bs_uuid s)) bid ?n)\<lparr>ba_status := ''queued'',
                  ba_from_attempt := jp_from_attempt (msg_payload m), ba_from_job := jp_from_job (msg_payload m),
                  ba_restart_reason := jp_restart_reason (msg_payload m)\<rparr>"
    define att where "att = (case get_build_attempt bid ?n s of Some a \<Rightarrow> a | None \<Rightarrow> ?new)"
    define s1 where "s1 = (case get_build_attempt bid ?n s of
        Some a \<Rightarrow> s | None \<Rightarrow> save_build_attempt ?new (s\<lparr>bs_uuid := Suc (bs_uuid s)\<rparr>))"
    have go1: "goes u s s1" by (rule quiet_goes) (simp_all add: s1_def split: option.splits)
    have same1: "get_build bid s1 = Some b" "bs_jobs s1 = bs_jobs s"
      using b by (simp_all add: s1_def get_build_def split: option.splits)
    define j where "j = (case get_build_job bid (Some ?n) s1 of Some j \<Rightarrow> j | None \<Rightarrow> fst (create_job env b att ?n s1))"
    define s2 where "s2 = (case get_build_job bid (Some ?n) s1 of Some j \<Rightarrow> s1 | None \<Rightarrow> snd (create_job env b att ?n s1))"
    have eq: "initialize_or_resume_job env tools b m s =
        (Inr (), emit_message env ''build.job.progress'' (progress bid ?n (jb_current_stage j)) s2)"
      using False
      by (simp add: initialize_or_resume_job_def id Let_def s1_def s2_def att_def j_def case_prod_unfold split: option.splits)
    have go2: "goes u s1 s2"
    proof (cases "get_build_job bid (Some ?n) s1")
      case None
      then show ?thesis using create_job_goes [OF env, of b s1 ?n att] same1(1) live by (simp add: s2_def id)
    qed (simp add: s2_def)
    have inv2: "builder_inv u s2" by (rule goes_inv [OF go2 goes_inv [OF go1 inv]])
    have mem: "j \<in> set (bs_jobs s2) \<and> job_key j = (bid, ?n)"
    proof (cases "get_build_job bid (Some ?n) s1")
      case None
      note eff = create_job_effect [of env b att ?n s1]
      have put: "bs_jobs s2 = put_row jb_id j (bs_jobs s1)" using None eff by (simp add: s2_def j_def)
      have "j \<in> set (put_row jb_id j rows)" for rows by (induction rows) auto
      with put None eff show ?thesis by (simp add: j_def id)
    next
      case (Some j')
      with get_build_job_SomeD [OF Some] show ?thesis by (simp add: s2_def j_def)
    qed
    have "goes u s2 (emit_message env ''build.job.progress'' (progress bid ?n (jb_current_stage j)) s2)"
      by (rule emit_goes [OF env]) (rule job_message_sound, use mem in simp_all)
    then show ?thesis using goes_trans [OF goes_trans [OF go1 go2]] eq by simp
  qed
qed

lemma process_event_goes:
  assumes env: "env_ok u env" and inv: "builder_inv u s"
    and sound: "mail_sound (bs_jobs s) (msg_subject m, msg_payload m)" and subject: "msg_subject m \<in> set job_subjects"
  shows "goes u s (snd (process_event env tools m s))"
proof (cases "get_build (jp_build (msg_payload m)) s")
  case None
  have "goes u s (fail_delivery env (msg_delivery_id m) ''build not found'' False None s)"
    by (rule settle_goes [where st = Failed]) simp_all
  with None show ?thesis by (simp add: process_event_def)
next
  case (Some b)
  have id: "bl_id b = jp_build (msg_payload m)" using get_build_id [OF Some] .
  have ticked: "goes u t (complete env (msg_delivery_id m) t)" for t
    by (rule settle_goes [where st = Completed]) simp_all
  show ?thesis
  proof (cases "settled b")
    case True
    then have "bl_status b \<in> {''cancelled'', ''published''}" by (auto simp: settled_def)
    with Some ticked show ?thesis by (simp add: process_event_def)
  next
    case live: False
    then have nosettle: "bl_status b \<notin> {''cancelled'', ''published''}" by (auto simp: settled_def)
    show ?thesis
    proof (cases "msg_subject m = ''build.accepted''")
      case True
      note init = initialize_goes [OF env inv Some live, of tools m]
      show ?thesis
      proof (cases "initialize_or_resume_job env tools b m s")
        case (Pair r s1)
        show ?thesis
        proof (cases r)
          case (Inl e)
          then obtain t where "e = ValueError t" "s1 = s" using init Pair by auto
          moreover have "goes u s (handle_job_failure env b m (as_exec_error b (ValueError t)) s)"
            by (rule handle_job_failure_goes [OF env]) (simp add: failable_def as_exec_error_def id Some live)
          ultimately show ?thesis
            using Pair Inl Some nosettle True by (simp add: process_event_def handle_failed_step_def saved_build_def id)
        next
          case (Inr v)
          with init Pair goes_trans [OF _ ticked] Some nosettle True show ?thesis by (simp add: process_event_def)
        qed
      qed
    next
      case False
      with subject sound have stage: "stage_sound (bs_jobs s) (msg_payload m)" by (auto simp: mail_sound_def)
      note adv = advance_job_goes [OF env inv Some live refl stage]
      show ?thesis
      proof (cases "advance_job env b m s")
        case (Pair r s1)
        show ?thesis
        proof (cases r)
          case (Inl e)
          then have "goes u s1 (handle_failed_step env b m e s1)"
            unfolding handle_failed_step_def using adv Pair by (intro handle_job_failure_goes [OF env]) simp
          with adv Pair Inl Some nosettle False goes_trans [of u s s1] show ?thesis by (simp add: process_event_def)
        next
          case (Inr v)
          with adv Pair Some nosettle False show ?thesis by (simp add: process_event_def)
        qed
      qed
    qed
  qed
qed

text \<open>The messages of a claim are sound, and stay so while earlier ones are worked off.\<close>

lemma process_each_goes:
  assumes "env_ok u env"
  shows "builder_inv u s \<Longrightarrow> \<forall>m \<in> set ms. mail_sound (bs_jobs s) (msg_subject m, msg_payload m) \<and> msg_subject m \<in> set job_subjects \<Longrightarrow>
    goes u s (snd (process_each env tools ms s))"
proof (induction ms arbitrary: s)
  case (Cons m ms)
  let ?s1 = "snd (process_event env tools m s)"
  have go: "goes u s ?s1" using Cons.prems by (intro process_event_goes [OF assms Cons.prems(1)]) auto
  then have inv1: "builder_inv u ?s1" and stay: "closed_stay (bs_jobs s) (bs_jobs ?s1)"
    using Cons.prems(1) by (simp_all add: goes_def)
  have "goes u ?s1 (snd (process_each env tools ms ?s1))"
    by (rule Cons.IH [OF inv1]) (use Cons.prems(2) mail_sound_mono [OF stay] in auto)
  with goes_trans [OF go] show ?case by (simp add: case_prod_unfold Let_def)
qed simp

lemma claim_goes: "goes u s (s\<lparr>bs_bus := snd (claim_pending now c ss n (bs_bus s))\<rparr>)"
proof (rule goesI)
  assume "bus_ok u (bs_uuid s) (bs_jobs (s\<lparr>bs_bus := snd (claim_pending now c ss n (bs_bus s))\<rparr>)) (bs_bus s)"
  then show "bus_ok u (bs_uuid (s\<lparr>bs_bus := snd (claim_pending now c ss n (bs_bus s))\<rparr>))
      (bs_jobs (s\<lparr>bs_bus := snd (claim_pending now c ss n (bs_bus s))\<rparr>)) (bs_bus (s\<lparr>bs_bus := snd (claim_pending now c ss n (bs_bus s))\<rparr>))"
    using mail_claim [of now c ss n "bs_bus s"] claim_pending_inv [of "bs_bus s" now c ss n]
    by (auto simp: bus_ok_def claim_pending_def Let_def)
qed (simp_all add: builds_go_same jobs_go_same)

lemma process_pending_events_builder_goes:
  assumes "env_ok u env"
  shows "goes u s (snd (process_pending_events_builder env tools n s))"
proof (induction n arbitrary: s rule: less_induct)
  case (less n)
  let ?events = "fst (claim_pending (bv_now env) worker job_subjects n (bs_bus s))"
  let ?s1 = "s\<lparr>bs_bus := snd (claim_pending (bv_now env) worker job_subjects n (bs_bus s))\<rparr>"
  let ?s2 = "snd (process_each env tools ?events ?s1)"
  have go1: "goes u s ?s1" by (rule claim_goes)
  show ?case
  proof (cases "n = 0 \<or> ?events = []")
    case True
    with go1 show ?thesis by (subst process_pending_events_builder.simps) (auto simp: case_prod_unfold Let_def)
  next
    case False
    have eq: "snd (process_pending_events_builder env tools n s) = snd (process_pending_events_builder env tools (n - length ?events) ?s2)"
      using False by (subst process_pending_events_builder.simps) (simp add: case_prod_unfold Let_def)
    have later: "goes u ?s2 (snd (process_pending_events_builder env tools (n - length ?events) ?s2))"
      using False by (intro less.IH) simp
    have "goes u s ?s2"
      unfolding goes_def
    proof (rule impI)
      assume inv: "builder_inv u s"
      then have inv1: "builder_inv u ?s1" using go1 goes_inv by blast
      have "\<forall>m \<in> set ?events. mail_sound (bs_jobs ?s1) (msg_subject m, msg_payload m) \<and> msg_subject m \<in> set job_subjects"
        using inv claimed_in_mail [of _ "bv_now env" worker job_subjects n "bs_bus s"]
          claimed_subject [of _ "bv_now env" worker job_subjects n "bs_bus s"]
        by (simp add: builder_inv_def bus_ok_def)
      from goes_trans [OF go1 process_each_goes [OF assms inv1 this]] inv
      show "builder_inv u ?s2 \<and> closed_stay (bs_jobs s) (bs_jobs ?s2) \<and> outcomes_stay s ?s2 \<and> bs_uuid s \<le> bs_uuid ?s2"
        by (simp add: goes_def)
    qed
    from goes_trans [OF this later] eq show ?thesis by simp
  qed
qed

lemma recover_job_goes:
  assumes env: "env_ok u env" and inv: "builder_inv u s" and j: "j \<in> set (bs_jobs s)" "\<not> job_closed j" and bid: "bl_id b = jb_build j"
  shows "goes u s (recover_job env b j s)"
proof (rule goesI)
  have typed: "job_typed j" using inv j(1) by (simp add: builder_inv_def jobs_ok_def)
  show "jobs_go u s (recover_job env b j s)"
    by (rule jobs_go_put [OF j(1)])
      (simp_all add: recover_job_def Let_def, use typed j(2) in \<open>auto simp: job_typed_def job_closed_def\<close>)
  assume "inj u" and "bus_ok u (bs_uuid s) (bs_jobs (recover_job env b j s)) (bs_bus s)"
  then show "bus_ok u (bs_uuid (recover_job env b j s)) (bs_jobs (recover_job env b j s)) (bs_bus (recover_job env b j s))"
    using env typed j(2) by (simp add: recover_job_def Let_def bus_ok_emit_at job_typed_def)
qed (simp_all add: recover_job_def Let_def builds_go_same)

lemma recover_build_goes:
  assumes env: "env_ok u env" and inv: "builder_inv u s"
  shows "goes u s (snd (recover_build env b s))"
proof (cases "get_build_job (bl_id b) None s")
  case None
  have "goes u s (emit_message env ''build.accepted'' ((notice (bl_id b))\<lparr>jp_attempt := Some (bl_retry_count b + 1)\<rparr>) s)"
    by (rule emit_goes [OF env]) (simp add: mail_sound_def)
  with None show ?thesis by (simp add: recover_build_def)
next
  case (Some j)
  note mem = get_build_job_SomeD [OF Some]
  show ?thesis
  proof (cases "job_closed j")
    case True
    then have "jb_finished_at j \<noteq> None \<or> jb_status j \<notin> {''queued'', ''running''}" by (auto simp: job_closed_def)
    with Some show ?thesis by (simp add: recover_build_def)
  next
    case False
    with Some mem recover_job_goes [OF env inv, of j b] show ?thesis by (simp add: recover_build_def)
  qed
qed

lemma recover_each_goes: "env_ok u env \<Longrightarrow> goes u s (snd (recover_each env bs s))"
proof (induction bs arbitrary: s)
  case (Cons b bs)
  show ?case
    unfolding goes_def
  proof (rule impI)
    assume inv: "builder_inv u s"
    from goes_trans [OF recover_build_goes [OF Cons.prems inv] Cons.IH [OF Cons.prems]] inv
    show "builder_inv u (snd (recover_each env (b # bs) s)) \<and> closed_stay (bs_jobs s) (bs_jobs (snd (recover_each env (b # bs) s))) \<and>
      outcomes_stay s (snd (recover_each env (b # bs) s)) \<and> bs_uuid s \<le> bs_uuid (snd (recover_each env (b # bs) s))"
      by (simp add: case_prod_unfold Let_def goes_def)
  qed
qed simp

lemma requeue_event_ids:
  "ev_event_id ` set (bus_events (snd (requeue_stale_processing now c ss n bus))) = ev_event_id ` set (bus_events bus)"
proof -
  have "map ev_event_id (bus_events (snd (requeue_stale_processing now c ss n bus))) = map ev_event_id (bus_events bus)"
    by (simp add: requeue_stale_processing_def Let_def)
  then show ?thesis by (metis list.set_map)
qed

lemma requeue_goes: "goes u s (s\<lparr>bs_bus := snd (requeue_stale_processing now c ss n (bs_bus s))\<rparr>)"
proof (rule goesI)
  let ?s' = "s\<lparr>bs_bus := snd (requeue_stale_processing now c ss n (bs_bus s))\<rparr>"
  assume "bus_ok u (bs_uuid s) (bs_jobs ?s') (bs_bus s)"
  then show "bus_ok u (bs_uuid ?s') (bs_jobs ?s') (bs_bus ?s')"
    using mail_requeue [of now c ss n "bs_bus s"] requeue_stale_inv [of "bs_bus s" now c ss n]
    by (auto simp: bus_ok_def requeue_event_ids)
qed (simp_all add: builds_go_same jobs_go_same)

lemma recover_inflight_jobs_goes:
  assumes "env_ok u env"
  shows "goes u s (snd (recover_inflight_jobs env s))"
proof -
  have "goes u t (t\<lparr>bs_recovery := rv\<rparr>)" for t rv by (rule quiet_goes) simp_all
  from goes_trans [OF goes_trans [OF requeue_goes recover_each_goes [OF assms]] this] show ?thesis
    by (simp add: recover_inflight_jobs_def case_prod_unfold Let_def)
qed

lemma save_build_goes:
  assumes "get_build (bl_id b) s = Some b0" and "settled b0 \<Longrightarrow> same_outcome b0 b"
    and "bs_builds s' = put_row bl_id b (bs_builds s)" and "bs_jobs s' = bs_jobs s" and "bs_bus s' = bs_bus s" and "bs_uuid s' = bs_uuid s"
  shows "goes u s s'"
proof (rule goesI)
  show "builds_go u s s'" unfolding builds_go_def by (intro disjI2 exI [of _ b]) (simp add: assms)
qed (simp_all add: assms jobs_go_same)

lemma cleanup_build_goes: "goes u s (snd (cleanup_build env bid persist s))"
proof (cases "get_build bid s")
  case (Some b)
  let ?s' = "snd (cleanup_build env bid persist s)"
  have id: "bl_id b = bid" using get_build_id [OF Some] .
  show ?thesis
  proof (cases "persist \<and> bs_builds ?s' \<noteq> bs_builds s")
    case True
    then obtain m1 m2 where ok: "bv_cleanup_store env b (get_build_context bid s) = Inr m1" "bv_cleanup_registry env b = Inr m2"
      using Some by (auto simp: cleanup_build_def Let_def split: sum.splits)
    show ?thesis
      by (rule save_build_goes [of "b\<lparr>bl_cleanup_status := Some ''completed'', bl_last_operation := Some ''cleanup'', bl_updated_at := bv_now env\<rparr>" s b])
        (use Some True ok id in \<open>auto simp: cleanup_build_def Let_def same_outcome_def split: option.splits\<close>)
  next
    case False
    then show ?thesis
      by (intro quiet_goes) (use Some in \<open>auto simp: cleanup_build_def Let_def split: sum.splits option.splits\<close>)
  qed
qed (simp add: cleanup_build_def)

lemma cleanup_unsaved:
  "bs_builds (snd (cleanup_build env bid False s)) = bs_builds s \<and> bs_jobs (snd (cleanup_build env bid False s)) = bs_jobs s \<and>
   bs_bus (snd (cleanup_build env bid False s)) = bs_bus s \<and> bs_uuid (snd (cleanup_build env bid False s)) = bs_uuid s"
  by (simp add: cleanup_build_def Let_def split: option.splits sum.splits)

lemma retry_build_goes:
  assumes "env_ok u env"
  shows "goes u s (snd (retry_build env bid from_job reason s))"
proof (cases "get_build bid s")
  case (Some b)
  have id: "bl_id b = bid" using get_build_id [OF Some] .
  show ?thesis
  proof (cases "settled b")
    case True
    with Some show ?thesis by (auto simp: retry_build_def settled_def)
  next
    case live: False
    then have st: "bl_status b \<noteq> ''published''" "bl_status b \<noteq> ''cancelled''" by (simp_all add: settled_def)
    show ?thesis
    proof (cases "cleanup_build env bid False s")
      case (Pair r s1)
      then have same: "bs_builds s1 = bs_builds s" "bs_jobs s1 = bs_jobs s" "bs_bus s1 = bs_bus s" "bs_uuid s1 = bs_uuid s"
        using cleanup_unsaved [of env bid s] by simp_all
      show ?thesis
      proof (cases r)
        case (Inl e)
        with Pair Some st same show ?thesis by (intro quiet_goes) (simp_all add: retry_build_def)
      next
        case (Inr v)
        define b1 where "b1 = b\<lparr>bl_status := ''accepted'', bl_retry_count := bl_retry_count b + 1, bl_failure_reason := None,
                           bl_failure_class := None, bl_last_operation := Some ''retry_requested'',
                           bl_cleanup_status := None, bl_retry_exhausted := False, bl_registry_repository := None,
                           bl_image_tag := None, bl_artifact_uri := None, bl_artifact_digest := None,
                           bl_manifest_uri := None, bl_log_uri := Some (bv_log_uri env bid), bl_executor_name := None,
                           bl_updated_at := bv_now env\<rparr>"
        define s3 where "s3 = (case get_build_context bid s of
                            None \<Rightarrow> save_build b1 s1
                          | Some cx \<Rightarrow> save_build_context (cx\<lparr>cx_staged_uri := None, cx_manifest_uri := None\<rparr>) (save_build b1 s1))"
        define told where "told = (case from_job of None \<Rightarrow> ''build retry requested''
                            | Some j \<Rightarrow> ''build restart requested from attempt '' @ show_int (jb_attempt j))"
        let ?pl = "\<lparr>jp_build = bid, jp_attempt = Some (bl_retry_count b1 + 1), jp_stage = None,
                       jp_from_attempt = map_option jb_attempt from_job, jp_from_job = map_option jb_id from_job,
                       jp_restart_reason = reason\<rparr>"
        have eq: "snd (retry_build env bid from_job reason s) =
            emit_message env ''build.accepted'' ?pl (add_build_event bid ''retry_requested'' told s3)"
          using Pair Inr Some st by (simp add: retry_build_def Let_def s3_def b1_def told_def split: option.splits)
        have "goes u s (add_build_event bid ''retry_requested'' told s3)"
          by (rule save_build_goes [of b1 s b])
            (use Some live in \<open>simp_all add: s3_def b1_def id same split: option.splits\<close>)
        moreover have "goes u (add_build_event bid ''retry_requested'' told s3)
            (emit_message env ''build.accepted'' ?pl (add_build_event bid ''retry_requested'' told s3))"
          by (rule emit_goes [OF assms]) (simp add: mail_sound_def)
        ultimately show ?thesis unfolding eq by (rule goes_trans)
      qed
    qed
  qed
qed (simp add: retry_build_def)

lemma restart_latest_job_goes: "env_ok u env \<Longrightarrow> goes u s (snd (restart_latest_job env bid s))"
  by (simp add: restart_latest_job_def retry_build_goes split: option.splits)

lemma cancel_job_goes: "goes u s (cancel_job env bid n s)"
proof (cases "get_build_job bid (Some n) s")
  case (Some j)
  note mem = get_build_job_SomeD [OF Some]
  show ?thesis
  proof (cases "jb_finished_at j = None")
    case True
    let ?j1 = "j\<lparr>jb_status := ''cancelled'', jb_current_stage := ''cancelled'', jb_failure_class := Some ''cancelled'',
                 jb_message := Some ''operator cancelled build'', jb_finished_at := Some (bv_now env), jb_updated_at := bv_now env\<rparr>"
    show ?thesis
    proof (rule goesI)
      show "jobs_go u s (cancel_job env bid n s)"
        by (rule jobs_go_put [OF conjunct1 [OF mem], where j = ?j1])
          (simp_all add: cancel_job_def Some True Let_def job_typed_def job_closed_def)
    qed (simp_all add: cancel_job_def Some True Let_def builds_go_same)
  qed (simp add: cancel_job_def Some)
qed (simp add: cancel_job_def)

lemma cancel_build_goes: "goes u s (snd (cancel_build env bid s))"
proof (cases "get_build bid s")
  case (Some b)
  have id: "bl_id b = bid" using get_build_id [OF Some] .
  show ?thesis
  proof (cases "bl_status b \<in> {''published'', ''failed'', ''cancelled''}")
    case True
    with Some show ?thesis by (simp add: cancel_build_def)
  next
    case False
    define b1 where "b1 = b\<lparr>bl_status := ''cancelled'', bl_failure_reason := Some ''build cancelled by operator'',
                       bl_failure_class := Some ''cancelled'', bl_last_operation := Some ''cancel'', bl_updated_at := bv_now env\<rparr>"
    define s1 where "s1 = add_build_event bid ''cancelled'' ''build cancelled by operator'' (save_build b1 s)"
    let ?n = "bl_retry_count b + 1"
    have "goes u s s1"
      by (rule save_build_goes [of b1 s b]) (use Some False in \<open>simp_all add: s1_def b1_def id settled_def\<close>)
    moreover have "goes u s1 (cancel_attempt (bv_now env) bid ?n s1)"
      by (rule quiet_goes) (simp_all add: cancel_attempt_def split: option.splits)
    moreover note cancel_job_goes [of u "cancel_attempt (bv_now env) bid ?n s1" env bid ?n]
    moreover have "goes u t (add_build_log env bid (max 1 ?n) ''cancelled'' ''operator cancelled build'' t)" for t
      by (rule quiet_goes) simp_all
    ultimately have "goes u s (add_build_log env bid (max 1 ?n) ''cancelled'' ''operator cancelled build''
        (cancel_job env bid ?n (cancel_attempt (bv_now env) bid ?n s1)))"
      by (meson goes_trans)
    with Some False show ?thesis by (simp add: cancel_build_def Let_def s1_def b1_def)
  qed
qed (simp add: cancel_build_def)

lemma cancel_latest_job_goes: "goes u s (snd (cancel_latest_job env bid s))"
  by (simp add: cancel_latest_job_def cancel_build_goes split: option.splits)

end
