(* ===== verification/Builder_Properties.thy ===== *)
theory Builder_Properties
  imports Builder_Invariant
begin

text \<open>
  What the builder guarantees: the machine \<open>builder_step\<close> has all calls of the service; its jobs are
  well typed, settled builds stay settled, recovery leaves no build in flight behind, and an account
  publishes only below its own namespace.
\<close>

section \<open>The machine of the service\<close>

definition empty_builder :: builder where
  "empty_builder = \<lparr>bs_builds = [], bs_contexts = [], bs_attempts = [], bs_jobs = [], bs_checkpoints = [], bs_events = [],
     bs_logs = [], bs_bus = empty_bus,
     bs_recovery = \<lparr>rv_last_at = None, rv_requeued = 0, rv_republished = 0, rv_builds = []\<rparr>, bs_uuid = 0\<rparr>"

inductive builder_step :: "(nat \<Rightarrow> ident) \<Rightarrow> builder \<Rightarrow> builder \<Rightarrow> bool" for u where
  start_step: "env_ok u env \<Longrightarrow> builder_step u s (snd (start_build env tools rq owner s))"
| process_step: "env_ok u env \<Longrightarrow> builder_step u s (snd (process_pending_events_builder env tools n s))"
| recover_step: "env_ok u env \<Longrightarrow> builder_step u s (snd (recover_inflight_jobs env s))"
| retry_step: "env_ok u env \<Longrightarrow> builder_step u s (snd (retry_build env bid None None s))"
| restart_step: "env_ok u env \<Longrightarrow> builder_step u s (snd (restart_latest_job env bid s))"
| cancel_step: "env_ok u env \<Longrightarrow> builder_step u s (snd (cancel_build env bid s))"
| cancel_job_step: "env_ok u env \<Longrightarrow> builder_step u s (snd (cancel_latest_job env bid s))"
| cleanup_step: "env_ok u env \<Longrightarrow> builder_step u s (snd (cleanup_build env bid True s))"

lemma builder_step_goes: "builder_step u s s' \<Longrightarrow> goes u s s'"
  by (induction rule: builder_step.induct)
    (simp_all add: start_build_goes process_pending_events_builder_goes recover_inflight_jobs_goes retry_build_goes
      restart_latest_job_goes cancel_build_goes cancel_latest_job_goes cleanup_build_goes)

lemma builder_steps_goes: "(builder_step u)\<^sup>*\<^sup>* s s' \<Longrightarrow> goes u s s'"
  by (induction rule: rtranclp_induct) (auto intro: goes_trans builder_step_goes)

interpretation builder_machine: invariant_step "builder_step u" "builder_inv u" for u
  by unfold_locales (rule goes_inv [OF builder_step_goes])

lemma empty_builder_inv: "inj u \<Longrightarrow> builder_inv u empty_builder"
  by (auto simp: builder_inv_def empty_builder_def jobs_ok_def bus_ok_def bus_inv_empty mail_def)
    (simp_all add: empty_bus_def)

lemma reachable_builder_inv:
  "inj u \<Longrightarrow> (builder_step u)\<^sup>*\<^sup>* empty_builder s \<Longrightarrow> builder_inv u s"
  by (rule builder_machine.run_keeps [OF _ empty_builder_inv])

lemma run_stage_no_value_error:
  fixes env :: build_env
  assumes stage: "stage = ''staging'' \<or> stage = ''building'' \<or> stage = ''publishing''"
    and "bv_stage_context env b c \<noteq> Inl (ValueError t)" and "bv_publish env b c \<noteq> Inl (ValueError t)"
    and "\<forall>execute. bv_executor env = Some execute \<longrightarrow> execute b c \<noteq> Inl (ValueError t)"
  shows "run_stage env b c stage st \<noteq> Inl (ValueError t)"
proof -
  have image: "recorded_image st \<noteq> Inl (ValueError t)"
    by (simp add: recorded_image_def split: list.splits option.splits prod.splits)
  from stage show ?thesis
  proof (elim disjE)
    assume "stage = ''staging''"
    with assms(2) show ?thesis by (auto simp: run_stage_def split: sum.splits)
  next
    assume "stage = ''building''"
    with assms(4) show ?thesis by (auto simp: run_stage_def split: sum.splits option.splits)
  next
    assume "stage = ''publishing''"
    with assms(3) image show ?thesis by (auto simp: run_stage_def split: sum.splits)
  qed
qed

text \<open>
  (C16) Build jobs are well typed.  In every state the service reaches, a job that is closed has an
  outcome and a finishing time, an open one is queued or running at a stage the runner knows, and
  no other job belongs to its attempt.  So a typed job does not go wrong: running the stage of an
  open job never raises the runner's own \<^verbatim>\<open>ValueError\<close> for an unsupported stage, whatever the stage state,
  unless an adapter raises a \<^verbatim>\<open>ValueError\<close> itself.
\<close>

theorem build_jobs_typed:
  assumes "inj u" and "(builder_step u)\<^sup>*\<^sup>* empty_builder s" and "j \<in> set (bs_jobs s)"
  shows "(if job_closed j
          then jb_finished_at j \<noteq> None \<and> jb_status j \<in> {''succeeded'', ''failed'', ''cancelled''}
          else jb_status j \<in> {''queued'', ''running''} \<and> jb_current_stage j \<in> {''staging'', ''building'', ''publishing''}) \<and>
    (\<forall>j' \<in> set (bs_jobs s). jb_build j' = jb_build j \<and> jb_attempt j' = jb_attempt j \<longrightarrow> j' = j) \<and>
    (\<forall>env b c st t. \<not> job_closed j \<longrightarrow> bv_stage_context env b c \<noteq> Inl (ValueError t) \<longrightarrow>
       bv_publish env b c \<noteq> Inl (ValueError t) \<longrightarrow>
       (\<forall>execute. bv_executor env = Some execute \<longrightarrow> execute b c \<noteq> Inl (ValueError t)) \<longrightarrow>
       run_stage env b c (jb_current_stage j) st \<noteq> Inl (ValueError t))"
proof -
  have inv: "builder_inv u s" by (rule reachable_builder_inv [OF assms(1,2)])
  then have typed: "job_typed j" using assms(3) by (simp add: builder_inv_def jobs_ok_def)
  show ?thesis
  proof (intro conjI allI impI ballI)
    show "if job_closed j
          then jb_finished_at j \<noteq> None \<and> jb_status j \<in> {''succeeded'', ''failed'', ''cancelled''}
          else jb_status j \<in> {''queued'', ''running''} \<and> jb_current_stage j \<in> {''staging'', ''building'', ''publishing''}"
      using typed by (auto simp: job_typed_def STAGES_def)
    show "j' = j" if "j' \<in> set (bs_jobs s)" "jb_build j' = jb_build j \<and> jb_attempt j' = jb_attempt j" for j'
      using one_job_per_attempt [OF jobs_of_inv [OF inv] that(1) assms(3)] that(2) by simp
  next
    fix env :: build_env and b c st t
    assume "\<not> job_closed j" and rest: "bv_stage_context env b c \<noteq> Inl (ValueError t)" "bv_publish env b c \<noteq> Inl (ValueError t)"
      "\<forall>execute. bv_executor env = Some execute \<longrightarrow> execute b c \<noteq> Inl (ValueError t)"
    then show "run_stage env b c (jb_current_stage j) st \<noteq> Inl (ValueError t)"
      using typed by (intro run_stage_no_value_error [OF _ rest]) (auto simp: job_typed_def STAGES_def)
  qed
qed

text \<open>
  (C17) A settled build stays settled.  Once a build is published or cancelled, no run of the service,
  whatever messages are still under way and whatever is asked of it, changes its status or the image,
  tag, digest and addresses that were recorded for it.
\<close>

theorem settled_builds_stay:
  assumes "inj u" and "(builder_step u)\<^sup>*\<^sup>* empty_builder s" and "(builder_step u)\<^sup>*\<^sup>* s s'"
    and "get_build bid s = Some b" and "bl_status b \<in> {''published'', ''cancelled''}"
  shows "\<exists>b'. get_build bid s' = Some b' \<and> bl_status b' = bl_status b \<and> bl_owner b' = bl_owner b \<and>
    bl_image b' = bl_image b \<and> bl_registry_repository b' = bl_registry_repository b \<and> bl_image_tag b' = bl_image_tag b \<and>
    bl_artifact_uri b' = bl_artifact_uri b \<and> bl_artifact_digest b' = bl_artifact_digest b \<and>
    bl_manifest_uri b' = bl_manifest_uri b"
proof -
  have "outcomes_stay s s'"
    using builder_steps_goes [OF assms(3)] reachable_builder_inv [OF assms(1,2)] by (simp add: goes_def)
  then show ?thesis using assms(4,5) unfolding outcomes_stay_def settled_def same_outcome_def by blast
qed

section \<open>Recovery\<close>

definition waiting :: "string \<Rightarrow> 'p \<Rightarrow> 'p bus_db \<Rightarrow> bool" where
  "waiting subj pl bus \<longleftrightarrow>
     (\<exists>d \<in> set (bus_deliveries bus). \<exists>e. get_row ev_event_id (dl_event_id d) (bus_events bus) = Some e \<and> ev_payload e = pl \<and>
        dl_subject d = subj \<and> dl_consumer d = worker \<and> dl_status d \<in> {Pending, Processing})"

lemma set_messages_of:
  "m \<in> set (messages_of evs ds) \<longleftrightarrow> (\<exists>d \<in> set ds. \<exists>e. get_row ev_event_id (dl_event_id d) evs = Some e \<and> m = to_message d e)"
  by (induction ds) (auto split: option.splits)

lemma has_active_iff:
  "has_active_delivery bid att subj s \<longleftrightarrow>
     (\<exists>pl. waiting subj pl (bs_bus s) \<and> jp_build pl = bid \<and>
        (att \<noteq> None \<longrightarrow> (case jp_attempt pl of None \<Rightarrow> - 1 | Some n \<Rightarrow> n) = the att))"
proof -
  have listed: "m \<in> set (list_deliveries (Some worker) [subj] [Pending, Processing] (bs_bus s)) \<longleftrightarrow>
      (\<exists>d \<in> set (bus_deliveries (bs_bus s)). \<exists>e. get_row ev_event_id (dl_event_id d) (bus_events (bs_bus s)) = Some e \<and>
         m = to_message d e \<and> dl_subject d = subj \<and> dl_consumer d = worker \<and> dl_status d \<in> {Pending, Processing})" for m
    unfolding list_deliveries_def set_messages_of by auto
  have payload: "msg_payload (to_message d e) = ev_payload e" for d and e :: "job_payload workflow_event"
    by (simp add: to_message_def)
  define Q where "Q pl \<longleftrightarrow> jp_build pl = bid \<and> (att \<noteq> None \<longrightarrow> (case jp_attempt pl of None \<Rightarrow> - 1 | Some n \<Rightarrow> n) = the att)" for pl :: job_payload
  have active: "active_for bid att m = Q (msg_payload m)" for m by (simp add: active_for_def Q_def)
  show ?thesis
    unfolding has_active_delivery_def list_ex_iff Bex_def listed active waiting_def Q_def [symmetric]
    by (auto simp: payload; metis payload)
qed

lemma waiting_publish:
  assumes "waiting subj pl bus"
  shows "waiting subj pl (snd (publish now eid subj' pl' bus))"
proof -
  have events: "bus_events (snd (publish now eid subj' pl' bus)) = bus_events bus @ [fst (publish now eid subj' pl' bus)]"
    by (simp add: publish_def add_event_def Let_def)
  have keep: "d \<in> set (bus_deliveries bus) \<Longrightarrow> d \<in> set (bus_deliveries (snd (publish now eid subj' pl' bus)))" for d
    unfolding publish_deliveries by (rule add_deliveries_keep) (simp add: add_event_def Let_def)
  from assms obtain d e where "d \<in> set (bus_deliveries bus)" "get_row ev_event_id (dl_event_id d) (bus_events bus) = Some e"
      "ev_payload e = pl" "dl_subject d = subj" "dl_consumer d = worker" "dl_status d \<in> {Pending, Processing}"
    unfolding waiting_def by blast
  note d = this
  have "get_row ev_event_id (dl_event_id d) (bus_events bus @ [x]) = Some e" for x
    using d(2) by (simp add: get_row_append)
  with d keep [OF d(1)] show ?thesis
    unfolding waiting_def events by blast
qed

lemma waiting_new:
  assumes "bus_fresh eid bus" and "worker \<in> set (subject_consumers subj)"
  shows "waiting subj pl (snd (publish now eid subj pl bus))"
proof -
  let ?ev = "fst (publish now eid subj pl bus)"
  note ev = publish_event [of now eid subj pl bus]
  obtain d where "d \<in> set (bus_deliveries (snd (publish now eid subj pl bus)))" "dl_event_id d = eid" "dl_consumer d = worker"
      "dl_subject d = subj" "dl_status d = Pending"
    using add_deliveries_new [OF assms(2), of ?ev "snd (add_event now eid subj pl bus)"] ev
    by (auto simp: publish_deliveries)
  note d = this
  have "get_row ev_event_id (dl_event_id d) (bus_events (snd (publish now eid subj pl bus))) = Some ?ev"
    unfolding d(2) by (rule publish_event_row [OF assms(1)])
  then show ?thesis
    unfolding waiting_def by (intro bexI [OF _ d(1)] exI [of _ ?ev] conjI) (simp_all add: d ev)
qed

lemma has_active_emit: "has_active_delivery bid att subj s \<Longrightarrow> has_active_delivery bid att subj (emit_message env subj' pl' s)"
  by (auto simp: has_active_iff intro: waiting_publish)

lemma has_active_new:
  assumes "builder_inv u s" and "env_ok u env" and "worker \<in> set (subject_consumers subj)" and "jp_build pl = bid"
    and "att \<noteq> None \<longrightarrow> jp_attempt pl = att" and "bs_bus t = bs_bus s" and "bs_uuid s \<le> bs_uuid t"
  shows "has_active_delivery bid att subj (emit_message env subj pl t)"
proof -
  have "bus_fresh (u (bs_uuid t)) (bs_bus s)"
    using assms(1,7) by (auto simp: builder_inv_def bus_ok_def bus_fresh_def inj_eq)
  with assms show ?thesis
    by (auto simp: has_active_iff split: option.splits intro!: exI [of _ pl] waiting_new)
qed

lemma has_active_same_bus: "bs_bus s = bs_bus t \<Longrightarrow> has_active_delivery bid att subj s = has_active_delivery bid att subj t"
  by (simp add: has_active_delivery_def)

lemma has_active_recover:
  assumes "has_active_delivery bid att subj s"
  shows "has_active_delivery bid att subj (snd (recover_build env b s))"
proof -
  have job: "has_active_delivery bid att subj (recover_job env b j s)" for j
    unfolding recover_job_def Let_def
    by (rule has_active_emit) (rule iffD2 [OF has_active_same_bus assms], simp)
  have "snd (recover_build env b s) = s \<or> (\<exists>j. snd (recover_build env b s) = recover_job env b j s) \<or>
      (\<exists>pl. snd (recover_build env b s) = emit_message env ''build.accepted'' pl s)"
    by (cases "get_build_job (bl_id b) None s") (simp_all add: recover_build_def, blast+)
  with assms job has_active_emit [OF assms] show ?thesis by metis
qed

lemma has_active_recover_each:
  "has_active_delivery bid att subj s \<Longrightarrow> has_active_delivery bid att subj (snd (recover_each env bs s))"
  by (induction bs arbitrary: s) (simp_all add: case_prod_unfold Let_def has_active_recover)

lemma worker_consumes: "worker \<in> set (subject_consumers ''build.accepted'')" "worker \<in> set (subject_consumers ''build.job.progress'')"
  by (simp_all add: subject_consumers_def SUBJECT_CONSUMERS_def)

text \<open>What a build needs so that it goes on.\<close>

definition delivery_needed :: "build \<Rightarrow> builder \<Rightarrow> (int option \<times> string) option" where
  "delivery_needed b s =
     (if bl_status b \<notin> set inflight_statuses then None
      else case get_build_job (bl_id b) None s of
             None \<Rightarrow> if bl_status b = ''accepted'' then Some (None, ''build.accepted'') else None
           | Some j \<Rightarrow> if job_closed j then None else Some (Some (jb_attempt j), ''build.job.progress''))"

lemma recover_build_active:
  assumes env: "env_ok u env" and inv: "builder_inv u s" and need: "delivery_needed b s = Some (att, subj)"
  shows "has_active_delivery (bl_id b) att subj (snd (recover_build env b s))"
proof (cases "get_build_job (bl_id b) None s")
  case None
  with need have st: "bl_status b = ''accepted''" "att = None" "subj = ''build.accepted''"
    by (auto simp: delivery_needed_def split: if_splits)
  show ?thesis
  proof (cases "has_active_delivery (bl_id b) None ''build.accepted'' s")
    case False
    have "has_active_delivery (bl_id b) None ''build.accepted''
        (emit_message env ''build.accepted'' ((notice (bl_id b))\<lparr>jp_attempt := Some (bl_retry_count b + 1)\<rparr>) s)"
      by (rule has_active_new [OF inv env worker_consumes(1)]) simp_all
    with False None st show ?thesis by (simp add: recover_build_def)
  qed (use None st in \<open>simp add: recover_build_def\<close>)
next
  case (Some j)
  with need have st: "bl_status b \<in> set inflight_statuses" "\<not> job_closed j" "att = Some (jb_attempt j)" "subj = ''build.job.progress''"
    by (auto simp: delivery_needed_def split: if_splits)
  have "job_typed j" using inv get_build_job_SomeD [OF Some] by (simp add: builder_inv_def jobs_ok_def)
  with st(2) have open_job: "jb_finished_at j = None" "jb_status j \<in> {''queued'', ''running''}"
    by (auto simp: job_typed_def job_closed_def)
  show ?thesis
  proof (cases "has_active_delivery (bl_id b) att subj s")
    case True
    with Some st open_job show ?thesis by (simp add: recover_build_def)
  next
    case False
    have "has_active_delivery (bl_id b) (Some (jb_attempt j)) ''build.job.progress'' (recover_job env b j s)"
      unfolding recover_job_def Let_def
      by (rule has_active_new [OF inv env worker_consumes(2)]) simp_all
    with False Some st open_job show ?thesis by (auto simp: recover_build_def)
  qed
qed

lemma filter_put_row:
  "(\<And>x. x \<in> set rows \<Longrightarrow> key x = key r \<Longrightarrow> \<not> P x) \<Longrightarrow> \<not> P r \<Longrightarrow> filter P (put_row key r rows) = filter P rows"
  by (induction rows) auto

lemma find_filter: "find P xs = (case filter P xs of [] \<Rightarrow> None | x # _ \<Rightarrow> Some x)"
  by (induction xs) auto

lemma get_build_job_cong:
  "filter (\<lambda>j. jb_build j = bid) (bs_jobs s) = filter (\<lambda>j. jb_build j = bid) (bs_jobs t) \<Longrightarrow>
   get_build_job bid None s = get_build_job bid None t"
  by (simp add: get_build_job_def find_filter jobs_newest_first_def filter_sort)

lemma recover_build_other:
  assumes inv: "builder_inv u s" and "bl_id b0 \<noteq> bl_id b"
  shows "delivery_needed b (snd (recover_build env b0 s)) = delivery_needed b s"
proof -
  have "filter (\<lambda>j. jb_build j = bl_id b) (bs_jobs (recover_job env b0 j s)) = filter (\<lambda>j. jb_build j = bl_id b) (bs_jobs s)"
    if "get_build_job (bl_id b0) None s = Some j" for j
  proof -
    have "jb_id x = jb_id j \<Longrightarrow> x \<in> set (bs_jobs s) \<Longrightarrow> x = j" for x
      using jobs_of_inv [OF inv] get_build_job_SomeD [OF that] unfolding jobs_ok_def distinct_map inj_on_def by blast
    then show ?thesis
      using get_build_job_SomeD [OF that] assms(2)
      by (simp add: recover_job_def Let_def) (rule filter_put_row, simp_all, metis)
  qed
  then have "get_build_job (bl_id b) None (snd (recover_build env b0 s)) = get_build_job (bl_id b) None s"
    by (intro get_build_job_cong) (simp add: recover_build_def split: option.splits)
  then show ?thesis by (simp add: delivery_needed_def)
qed

lemma recover_each_active:
  assumes env: "env_ok u env"
  shows "builder_inv u s \<Longrightarrow> distinct (map bl_id bs) \<Longrightarrow> b \<in> set bs \<Longrightarrow> delivery_needed b s = Some (att, subj) \<Longrightarrow>
    has_active_delivery (bl_id b) att subj (snd (recover_each env bs s))"
proof (induction bs arbitrary: s)
  case (Cons b0 bs)
  let ?s1 = "snd (recover_build env b0 s)"
  show ?case
  proof (cases "b0 = b")
    case True
    with recover_build_active [OF env Cons.prems(1,4)] show ?thesis
      by (simp add: case_prod_unfold Let_def has_active_recover_each)
  next
    case False
    then have mem: "b \<in> set bs" and other: "bl_id b0 \<noteq> bl_id b" using Cons.prems(2,3) by auto
    have "builder_inv u ?s1" by (rule goes_inv [OF recover_build_goes [OF env Cons.prems(1)] Cons.prems(1)])
    with Cons.IH [of ?s1] Cons.prems(2,4) mem recover_build_other [OF Cons.prems(1) other] show ?thesis
      by (simp add: case_prod_unfold Let_def)
  qed
qed simp

text \<open>
  (C18) Recovery leaves no build behind that has no job yet or an open one.  After \<open>recover_inflight_jobs\<close>, an
  accepted build without a job has a delivery of \<^verbatim>\<open>build.accepted\<close> under way, and a build in flight whose latest job
  is open has one of \<^verbatim>\<open>build.job.progress\<close> for that job's attempt.  It holds in every state the service can be left
  in, in particular after a crash between any two of its calls.  A build in flight whose latest job is closed is not
  covered: recovery passes over it, and it can stay behind.
\<close>

theorem recovery_leaves_none_behind:
  assumes "inj u" and "(builder_step u)\<^sup>*\<^sup>* empty_builder s" and "env_ok u env" and "b \<in> set (bs_builds s)"
    and "bl_status b \<in> {''accepted'', ''staging'', ''building'', ''publishing''}"
  shows "(get_build_job (bl_id b) None s = None \<longrightarrow> bl_status b = ''accepted'' \<longrightarrow>
            has_active_delivery (bl_id b) None ''build.accepted'' (snd (recover_inflight_jobs env s))) \<and>
    (\<forall>j. get_build_job (bl_id b) None s = Some j \<longrightarrow> \<not> job_closed j \<longrightarrow>
            has_active_delivery (bl_id b) (Some (jb_attempt j)) ''build.job.progress'' (snd (recover_inflight_jobs env s)))"
proof -
  let ?s1 = "s\<lparr>bs_bus := snd (requeue_stale_processing (bv_now env) worker job_subjects
      (max (bv_poll_interval env * 4) (seconds 2)) (bs_bus s))\<rparr>"
  have inv: "builder_inv u s" by (rule reachable_builder_inv [OF assms(1,2)])
  have inv1: "builder_inv u ?s1" by (rule goes_inv [OF requeue_goes inv])
  have list: "set (list_builds None s) = set (bs_builds s)" "distinct (map bl_id (list_builds None s))"
  proof -
    have "distinct_keys bl_id (bs_builds s)" using inv by (simp add: builder_inv_def)
    then show "distinct (map bl_id (list_builds None s))" by (simp add: list_builds_def distinct_map)
  qed (simp add: list_builds_def)
  have same: "delivery_needed b ?s1 = delivery_needed b s"
    by (simp add: delivery_needed_def get_build_job_def)
  have active: "has_active_delivery (bl_id b) att subj (snd (recover_inflight_jobs env s))" if "delivery_needed b s = Some (att, subj)" for att subj
  proof -
    have "has_active_delivery (bl_id b) att subj (snd (recover_each env (list_builds None s) ?s1))"
      by (rule recover_each_active [OF assms(3) inv1 list(2)]) (use assms(4) list(1) that same in simp_all)
    then show ?thesis
      by (simp add: recover_inflight_jobs_def case_prod_unfold Let_def has_active_delivery_def)
  qed
  show ?thesis using assms(5) by (intro conjI allI impI active) (auto simp: delivery_needed_def)
qed

section \<open>Instances\<close>

definition demo_tools :: source_tools where
  "demo_tools = \<lparr>tl_urlparse = (\<lambda>u. \<lparr>pu_scheme = ''s3'', pu_netloc = ''b'', pu_path = ''/c''\<rparr>), tl_sha256 = (\<lambda>x. ''h''),
     tl_write_archive = (\<lambda>a n. Inr ''file:///t'')\<rparr>"

definition demo_ids :: "nat \<Rightarrow> ident" where
  "demo_ids n = replicate n CHR ''i''"

definition demo_build_env :: build_env where
  "demo_build_env = simulated_env ''b'' ''r'' (\<lambda>x. ''h'')
     \<lparr>bv_now = 5, bv_iso = (\<lambda>t. ''t''), bv_uuid = demo_ids,
      bv_attempt = (\<lambda>i b n. \<lparr>ba_id = i, ba_build = b, ba_attempt = n, ba_status = [], ba_from_attempt = None, ba_from_job = None,
        ba_restart_reason = None, ba_failure_class = None, ba_last_operation = None, ba_started_at = 5, ba_finished_at = None\<rparr>),
      bv_job = (\<lambda>i b n. \<lparr>jb_id = i, jb_build = b, jb_attempt = n, jb_status = [], jb_current_stage = [], jb_last_completed = None,
        jb_stage_state = Map.empty, jb_from_attempt = None, jb_from_job = None, jb_restart_reason = None, jb_executor_name = None,
        jb_failure_class = None, jb_message = None, jb_recovery_count = 0, jb_last_recovered_at = None, jb_started_at = 5,
        jb_finished_at = None, jb_updated_at = 5\<rparr>),
      bv_log_uri = (\<lambda>i. i), bv_stage_context = (\<lambda>b c. Inl (OtherError [])), bv_publish = (\<lambda>b c. Inl (OtherError [])),
      bv_executor = None, bv_executor_name = [], bv_cleanup_store = (\<lambda>b c. Inr []), bv_cleanup_registry = (\<lambda>b. Inr []),
      bv_poll_interval = 1\<rparr>"

definition demo_build_request :: build_request where
  "demo_build_request = \<lparr>rq_image = ''a:1'', rq_context_uri = Some ''s3://b/c'', rq_archive_b64 = None, rq_archive_name = None,
     rq_dockerfile_path = ''D''\<rparr>"

definition demo_started :: builder where
  "demo_started = snd (start_build demo_build_env demo_tools demo_build_request None empty_builder)"

lemma demo_ids_inj: "inj demo_ids"
  by (rule injI) (metis demo_ids_def length_replicate)

lemma demo_env_ok: "env_ok demo_ids demo_build_env"
  by (simp add: env_ok_def demo_build_env_def simulated_env_def)

lemma demo_started_step: "builder_step demo_ids empty_builder demo_started"
  unfolding demo_started_def by (rule start_step [OF demo_env_ok])

lemma one_step: "builder_step u s s' \<Longrightarrow> (builder_step u)\<^sup>*\<^sup>* s s'"
  by (rule r_into_rtranclp)

lemma two_steps: "builder_step u s s' \<Longrightarrow> builder_step u s' t \<Longrightarrow> (builder_step u)\<^sup>*\<^sup>* s t"
  by (rule rtranclp_trans [OF one_step one_step])

lemma demo_build: "\<exists>b. get_build [] demo_started = Some b \<and> bl_id b = [] \<and> bl_status b = ''accepted'' \<and> b \<in> set (bs_builds demo_started)"
  by (simp add: demo_started_def start_build_def materialize_context_source_def demo_build_request_def demo_build_env_def simulated_env_def
      demo_ids_def empty_builder_def get_build_def Let_def)

lemma demo_no_job: "get_build_job [] None demo_started = None"
  by (simp add: demo_started_def start_build_def materialize_context_source_def demo_build_request_def demo_build_env_def simulated_env_def
      demo_ids_def empty_builder_def get_build_job_def jobs_newest_first_def Let_def)

theorem recovery_leaves_none_behind_witness:
  "has_active_delivery [] None ''build.accepted'' (snd (recover_inflight_jobs demo_build_env demo_started))"
proof -
  obtain b where b: "bl_id b = []" "bl_status b = ''accepted''" "b \<in> set (bs_builds demo_started)" using demo_build by blast
  from recovery_leaves_none_behind [OF demo_ids_inj one_step [OF demo_started_step] demo_env_ok b(3)] b demo_no_job
  show ?thesis by simp
qed

theorem settled_builds_stay_witness:
  "\<exists>b. get_build [] (snd (process_pending_events_builder demo_build_env demo_tools 10 (snd (cancel_build demo_build_env [] demo_started)))) = Some b \<and>
     bl_status b = ''cancelled''"
proof -
  let ?s = "snd (cancel_build demo_build_env [] demo_started)"
  obtain b where b: "get_build [] demo_started = Some b" "bl_status b = ''accepted''" "bl_id b = []" using demo_build by blast
  have job: "bs_builds (cancel_job env [] n t) = bs_builds t" "bs_builds (cancel_attempt now [] n t) = bs_builds t" for env n t now
    by (simp_all add: cancel_job_def cancel_attempt_def Let_def split: option.splits)
  obtain c where c: "get_build [] ?s = Some c" "bl_status c = ''cancelled''"
    using b by (simp add: cancel_build_def get_build_def Let_def job row_simps)
  have s: "(builder_step demo_ids)\<^sup>*\<^sup>* empty_builder ?s"
    by (rule two_steps [OF demo_started_step cancel_step [OF demo_env_ok]])
  from settled_builds_stay [OF demo_ids_inj s one_step [OF process_step [OF demo_env_ok]] c(1)] c(2)
  show ?thesis by auto
qed

text \<open>The first delivery creates the job of the build.\<close>

definition demo_job_created :: builder where
  "demo_job_created = snd (process_pending_events_builder demo_build_env demo_tools 1 demo_started)"

lemma demo_build_job: "map (\<lambda>j. (jb_status j, jb_current_stage j, jb_attempt j)) (bs_jobs demo_job_created) = [(''queued'', ''staging'', 1)]"
  by code_simp

theorem build_jobs_typed_witness:
  "\<exists>j. bs_jobs demo_job_created = [j] \<and> jb_attempt j = 1 \<and>
     (if job_closed j then jb_finished_at j \<noteq> None \<and> jb_status j \<in> {''succeeded'', ''failed'', ''cancelled''}
      else jb_status j \<in> {''queued'', ''running''} \<and> jb_current_stage j \<in> {''staging'', ''building'', ''publishing''})"
proof -
  obtain j where j: "bs_jobs demo_job_created = [j]" "jb_attempt j = 1"
    using demo_build_job by (auto simp: map_eq_Cons_conv)
  have "(builder_step demo_ids)\<^sup>*\<^sup>* empty_builder demo_job_created"
    unfolding demo_job_created_def
    by (rule two_steps [OF demo_started_step process_step [OF demo_env_ok]])
  from build_jobs_typed [OF demo_ids_inj this, of j] j show ?thesis by auto
qed

section \<open>Image names\<close>

lemma dash_runs_chars: "c \<in> set (dash_runs i s) \<Longrightarrow> is_lower c \<or> is_digit c \<or> c = CHR ''-''"
  by (induction i s rule: dash_runs.induct) (auto split: if_splits)

lemma owner_namespace_chars:
  assumes "c \<in> set (owner_namespace owner)"
  shows "c \<noteq> CHR ''/'' \<and> c \<noteq> CHR '':''"
proof -
  have "c \<in> set (strip_dashes s) \<Longrightarrow> c \<in> set s" for s
    unfolding strip_dashes_def by (auto dest!: set_dropWhileD)
  with assms have "c = CHR ''u'' \<or> c = CHR ''-'' \<or> is_lower c \<or> is_digit c"
    using dash_runs_chars by (fastforce simp: owner_namespace_def)
  then show ?thesis by (elim disjE) (auto simp: is_lower_def is_digit_def)
qed

lemma takeWhile_stops: "\<not> P y \<Longrightarrow> length (takeWhile P (xs @ y # zs)) \<le> length xs"
  by (induction xs) auto

lemma split_below_slash:
  assumes "img = ns @ CHR ''/'' # rest"
  shows "\<exists>r. fst (split_image_ref img) = ns @ CHR ''/'' # r"
proof -
  define k where "k = length (takeWhile (\<lambda>c. c \<noteq> CHR '':'' \<and> c \<noteq> CHR ''/'') (rev img))"
  define n where "n = length img - k"
  have "k \<le> length rest"
    unfolding k_def assms using takeWhile_stops [of "\<lambda>c. c \<noteq> CHR '':'' \<and> c \<noteq> CHR ''/''" "CHR ''/''" "rev rest" "rev ns"] by simp
  then have n: "length ns + 1 \<le> n" by (simp add: n_def assms)
  have split: "split_image_ref img = (if 0 < n \<and> img ! (n - 1) = CHR '':'' then (take (n - 1) img, drop n img) else (img, ''latest''))"
    unfolding split_image_ref_def n_def k_def Let_def ..
  show ?thesis
  proof (cases "img ! (n - 1) = CHR '':''")
    case True
    then have "n - 1 \<noteq> length ns" by (auto simp: assms)
    with n have "length ns < n - 1" by linarith
    then obtain d where "n - 1 = length ns + Suc d" by (auto dest: less_imp_Suc_add)
    then have "take (n - 1) img = ns @ CHR ''/'' # take d rest" by (simp add: assms)
    with True n split show ?thesis by simp
  next
    case False
    with split assms show ?thesis by simp
  qed
qed

lemma namespace_image_below:
  "truthy (Some owner) \<Longrightarrow> img = owner_namespace owner @ CHR ''/'' # rest \<Longrightarrow> namespace_image img (Some owner) = img"
  by (simp add: namespace_image_def Let_def starts_with_append)

text \<open>
  An owner publishes only below their own namespace.  Whatever image a build of an account
  asks for, the repository the runner pushes to is the account's namespace or lies below it, and
  qualifying the name again changes nothing.
\<close>

theorem published_below_namespace:
  assumes "owner \<noteq> []"
  shows "(fst (split_image_ref (namespace_image img (Some owner))) = owner_namespace owner \<or>
          starts_with (owner_namespace owner @ ''/'') (fst (split_image_ref (namespace_image img (Some owner))))) \<and>
         namespace_image (namespace_image img (Some owner)) (Some owner) = namespace_image img (Some owner)"
proof -
  let ?ns = "owner_namespace owner" and ?img = "namespace_image img (Some owner)"
  have truthy: "truthy (Some owner)" using assms by (cases owner) simp_all
  have below: "?img = ?ns \<or> (\<exists>rest. ?img = ?ns @ CHR ''/'' # rest)"
    using truthy by (auto simp: namespace_image_def Let_def starts_with_append)
  then show ?thesis
  proof
    assume eq: "?img = ?ns"
    have none: "takeWhile (\<lambda>c. c \<noteq> CHR '':'' \<and> c \<noteq> CHR ''/'') (rev ?ns) = rev ?ns"
      using owner_namespace_chars by (auto simp: takeWhile_eq_all_conv)
    have "split_image_ref ?ns = (?ns, ''latest'')" by (simp add: split_image_ref_def none)
    with eq truthy show ?thesis by (simp add: namespace_image_def [of ?ns] Let_def)
  next
    assume "\<exists>rest. ?img = ?ns @ CHR ''/'' # rest"
    then obtain rest where eq: "?img = ?ns @ CHR ''/'' # rest" by blast
    have again: "namespace_image ?img (Some owner) = ?img"
      by (rule namespace_image_below [OF truthy eq])
    from split_below_slash [OF eq] obtain r where "fst (split_image_ref ?img) = ?ns @ CHR ''/'' # r" by blast
    with again show ?thesis by (simp add: starts_with_append)
  qed
qed

theorem published_below_namespace_witness:
  "split_image_ref (namespace_image ''app:v2'' (Some ''Ann_1'')) = (''u-ann-1/app'', ''v2'') \<and>
   starts_with ''u-ann-1/'' (fst (split_image_ref (namespace_image ''app:v2'' (Some ''Ann_1''))))"
proof -
  have eval: "split_image_ref (namespace_image ''app:v2'' (Some ''Ann_1'')) = (''u-ann-1/app'', ''v2'')"
    "owner_namespace ''Ann_1'' = ''u-ann-1''" by code_simp+
  with published_below_namespace [of "''Ann_1''" "''app:v2''"] show ?thesis by simp
qed

end
