(* ===== verification/Scoring.thy ===== *)
theory Scoring
  imports Scheduler Flux Complex_Main "HOL-Library.Product_Lexorder"
begin

text \<open>
  The scoring of miners: \<^verbatim>\<open>validator/domain/scoring.py\<close> (class \<^verbatim>\<open>ScoreEngine\<close>) and the fixed-point weights
  that \<^verbatim>\<open>validator/domain/chain.py\<close> (\<^verbatim>\<open>set_weights\<close>) sends to the chain.

  A capability is the record \<open>node\<close> of the scheduler and an allocation the record \<open>flux_state\<close>.
  The settings read from the environment are the fields of \<open>score_settings\<close>.  Everything up to the
  final product is a rational number; the product has powers with fractional exponents and the
  spread of a sample a square root, so these are real numbers.  \<open>round_real\<close> is Python's \<^verbatim>\<open>round\<close> on them.

  The lemmas bound every component of a score, show that evidence against a miner never
  raises it and that the chain weights share out at most \<open>65535\<close> units in the order of the scores.
\<close>

section \<open>The score engine\<close>

record probe_result =
  pr_challenge_id :: ident
  pr_hotkey :: ident
  pr_node_id :: ident
  pr_latency_ms :: rat
  pr_throughput :: rat
  pr_success :: bool
  pr_benchmark_signature :: "string option"
  pr_proxy_suspected :: bool
  pr_readiness_failures :: int
  pr_prompt_sha256 :: "string option"
  pr_response_sha256 :: "string option"
  pr_observed_at :: "time option"

record score_card =
  sc_hotkey :: ident
  sc_capacity_weight :: int
  sc_reliability_score :: rat
  sc_performance_score :: rat
  sc_security_score :: rat
  sc_fraud_penalty :: rat
  sc_utilization_score :: rat
  sc_rental_revenue_bonus :: rat
  sc_final_score :: real

record score_settings =
  score_alpha :: rat
  score_beta :: rat
  score_gamma :: rat
  score_delta :: rat
  rental_revenue_bonus_cap :: rat
  fraud_proxy_noise_floor :: rat
  fraud_proxy_high_threshold :: rat

definition default_score_settings :: score_settings where
  "default_score_settings =
     \<lparr>score_alpha = 1, score_beta = 13 / 10, score_gamma = 11 / 10, score_delta = 8 / 10, rental_revenue_bonus_cap = 1 / 10,
      fraud_proxy_noise_floor = 2 / 100, fraud_proxy_high_threshold = 20 / 100\<rparr>"

definition FRAUD_SIGNATURE_WINDOW :: nat where
  "FRAUD_SIGNATURE_WINDOW = 10"

text \<open>A missing time sorts before every other.\<close>

definition obs_sort_key :: "time option \<Rightarrow> bool \<times> time" where
  "obs_sort_key observed_at = (case observed_at of None \<Rightarrow> (False, 0) | Some t \<Rightarrow> (True, t))"

definition NO_DATA_UTILIZATION :: rat where
  "NO_DATA_UTILIZATION = 1 / 2"

definition utilization_factor :: "flux_state option \<Rightarrow> rat" where
  "utilization_factor flux =
     (case flux of
        None \<Rightarrow> NO_DATA_UTILIZATION
      | Some s \<Rightarrow>
          if fx_total_gpus s = 0 then NO_DATA_UTILIZATION
          else let used = fx_inference_gpus s + fx_rental_gpus s
               in round_to 6 (max (of_int used / of_int (fx_total_gpus s)) (1 / 100)))"

definition rental_revenue_bonus :: "score_settings \<Rightarrow> flux_state option \<Rightarrow> rat" where
  "rental_revenue_bonus st flux =
     (case flux of
        None \<Rightarrow> 0
      | Some s \<Rightarrow>
          if fx_total_gpus s = 0 then 0
          else let rental_ratio = of_int (fx_rental_gpus s) / of_int (fx_total_gpus s)
               in round_to 6 (min (rental_ratio * (2 / 10)) (rental_revenue_bonus_cap st)))"

text \<open>\<^verbatim>\<open>sum(1 for r in results if r.success) / len(results)\<close> and the sum of the readiness failures.\<close>

definition rate_of :: "(probe_result \<Rightarrow> bool) \<Rightarrow> probe_result list \<Rightarrow> rat" where
  "rate_of P results = of_nat (length (filter P results)) / of_nat (length results)"

definition readiness_sum :: "probe_result list \<Rightarrow> int" where
  "readiness_sum results = sum_list (map pr_readiness_failures results)"

definition reliability_score :: "node \<Rightarrow> probe_result list \<Rightarrow> rat" where
  "reliability_score cap results =
     (if results = [] then round_to 6 (max (n_reliability_score cap * (1 / 2)) (1 / 100))
      else let success_rate = rate_of pr_success results;
               readiness_penalty = max (2 / 10) (1 - of_int (readiness_sum results) * (4 / 100))
           in round_to 6 (max (n_reliability_score cap * success_rate * readiness_penalty) (1 / 100)))"

text \<open>\<^verbatim>\<open>statistics.median\<close> of a list that is not empty.\<close>

definition median :: "rat list \<Rightarrow> rat" where
  "median xs =
     (let ys = sort xs; n = length ys
      in if odd n then ys ! (n div 2) else (ys ! (n div 2 - 1) + ys ! (n div 2)) / 2)"

definition performance_score :: "node \<Rightarrow> probe_result list \<Rightarrow> rat" where
  "performance_score cap results =
     (if results = [] then max (n_performance_score cap * (1 / 2)) (1 / 100)
      else let latencies = map pr_latency_ms (filter pr_success results);
               throughputs = map pr_throughput (filter pr_success results)
           in if latencies = [] \<or> throughputs = [] then 1 / 100
              else let latency_component = min 1 (1000 / max (median latencies) 1);
                       throughput_component = min 2 (median throughputs / 100)
                   in round_to 6 (max (latency_component * (1 / 2) + throughput_component * (1 / 2)) (1 / 100)))"

definition proxy_penalty :: "score_settings \<Rightarrow> probe_result list \<Rightarrow> rat" where
  "proxy_penalty st results =
     (if results = [] then 1
      else let proxy_rate = rate_of pr_proxy_suspected results
           in if proxy_rate \<le> fraud_proxy_noise_floor st then 1
              else if proxy_rate \<le> fraud_proxy_high_threshold st then 7 / 10 else 4 / 10)"

definition mean_of :: "rat list \<Rightarrow> rat" where
  "mean_of xs = sum_list xs / of_nat (length xs)"

definition variance_of :: "rat list \<Rightarrow> rat" where
  "variance_of xs = sum_list (map (\<lambda>x. (x - mean_of xs)\<^sup>2) xs) / of_nat (length xs)"

definition coefficient_of_variation :: "rat list \<Rightarrow> real" where
  "coefficient_of_variation xs =
     (if length xs < 2 then 0
      else if mean_of xs \<le> 0 then 0
      else sqrt (of_rat (variance_of xs)) / of_rat (mean_of xs))"

definition consistency_penalty :: "probe_result list \<Rightarrow> rat" where
  "consistency_penalty results =
     (let successful = filter pr_success results
      in if length successful < 2 then 1
         else let spread = max (coefficient_of_variation (map pr_latency_ms successful))
                               (coefficient_of_variation (map pr_throughput successful))
              in if spread \<ge> 6 / 10 then 7 / 10 else if spread \<ge> 3 / 10 then 85 / 100 else 1)"

text \<open>\<^verbatim>\<open>xs[-n:]\<close> for a positive \<^verbatim>\<open>n\<close>.\<close>

definition last_n :: "nat \<Rightarrow> 'a list \<Rightarrow> 'a list" where
  "last_n n xs = drop (length xs - n) xs"

definition recent_signatures :: "probe_result list \<Rightarrow> string option set" where
  "recent_signatures results =
     (let signed = sort_key (\<lambda>r. obs_sort_key (pr_observed_at r)) (filter (\<lambda>r. truthy (pr_benchmark_signature r)) results)
      in set (map pr_benchmark_signature (last_n FRAUD_SIGNATURE_WINDOW signed)))"

definition fraud_penalty :: "score_settings \<Rightarrow> probe_result list \<Rightarrow> rat" where
  "fraud_penalty st results =
     (if results = [] then 1
      else let signature_penalty = (if card (recent_signatures results) > 1 then 75 / 100 else 1);
               readiness_penalty = max (2 / 10) (1 - of_int (readiness_sum results) * (3 / 100));
               success_penalty = max (2 / 10) (rate_of pr_success results)
           in round_to 6 (signature_penalty * proxy_penalty st results * consistency_penalty results
                          * readiness_penalty * success_penalty))"

definition round_real :: "nat \<Rightarrow> real \<Rightarrow> real" where
  "round_real n x =
     (let y = x * 10 ^ n; k = \<lfloor>y\<rfloor>; r = y - of_int k
      in of_int (if r < 1 / 2 \<or> r = 1 / 2 \<and> even k then k else k + 1) / 10 ^ n)"

definition raw_score :: "score_settings \<Rightarrow> int \<Rightarrow> rat \<Rightarrow> rat \<Rightarrow> rat \<Rightarrow> rat \<Rightarrow> rat \<Rightarrow> rat \<Rightarrow> real" where
  "raw_score st capacity security reliability performance fraud utilization bonus =
     of_int capacity * (of_rat security powr of_rat (score_alpha st)) * (of_rat reliability powr of_rat (score_beta st))
       * (of_rat performance powr of_rat (score_gamma st)) * of_rat fraud
       * (of_rat utilization powr of_rat (score_delta st)) * (1 + of_rat bonus)"

definition compute_scorecard :: "score_settings \<Rightarrow> node \<Rightarrow> probe_result list \<Rightarrow> flux_state option \<Rightarrow> score_card" where
  "compute_scorecard st cap results flux =
     (let capacity_weight = n_gpu_count cap * n_vram_gb_per_gpu cap;
          reliability = reliability_score cap results;
          performance = performance_score cap results;
          security = 1;
          fraud = fraud_penalty st results;
          utilization = utilization_factor flux;
          bonus = rental_revenue_bonus st flux
      in \<lparr>sc_hotkey = n_hotkey cap, sc_capacity_weight = capacity_weight, sc_reliability_score = reliability,
          sc_performance_score = performance, sc_security_score = security, sc_fraud_penalty = fraud,
          sc_utilization_score = utilization, sc_rental_revenue_bonus = bonus,
          sc_final_score = round_real 6 (raw_score st capacity_weight security reliability performance fraud utilization bonus)\<rparr>)"

section \<open>Weights for the chain\<close>

text \<open>\<^verbatim>\<open>int(x)\<close> of a float truncates towards zero, and \<^verbatim>\<open>sum(weights) or 1.0\<close> is never zero.\<close>

definition py_int :: "real \<Rightarrow> int" where
  "py_int x = (if 0 \<le> x then \<lfloor>x\<rfloor> else \<lceil>x\<rceil>)"

definition weight_total :: "real list \<Rightarrow> real" where
  "weight_total weights = (if sum_list weights = 0 then 1 else sum_list weights)"

definition normalize_weights :: "real list \<Rightarrow> int list" where
  "normalize_weights weights = map (\<lambda>w. py_int (w / weight_total weights * 65535)) weights"

end
