(* ===== verification/Scoring_Properties.thy ===== *)
theory Scoring_Properties
  imports Scoring
begin

text \<open>
  What the scores of \<^verbatim>\<open>validator/domain/scoring.py\<close> guarantee: every component stays in its range and the final
  score below capacity times the largest multipliers; evidence against a miner never raises its score; the
  fixed-point weights share out the chain's 65535 units in the order of the scores.  The spread of a sample is
  also decided without a square root.
\<close>

section \<open>Rounding\<close>

definition round_half_even :: "real \<Rightarrow> int" where
  "round_half_even y = (let k = \<lfloor>y\<rfloor>; r = y - of_int k in if r < 1 / 2 \<or> r = 1 / 2 \<and> even k then k else k + 1)"

lemma round_half_even_mono: "x \<le> y \<Longrightarrow> round_half_even x \<le> round_half_even y"
proof -
  assume le: "x \<le> y"
  then have "\<lfloor>x\<rfloor> < \<lfloor>y\<rfloor> \<or> \<lfloor>x\<rfloor> = \<lfloor>y\<rfloor>" using floor_mono by (simp add: order_le_less)
  with le show ?thesis by (auto simp: round_half_even_def Let_def)
qed

lemma round_real_mono: "x \<le> y \<Longrightarrow> round_real n x \<le> round_real n y"
  unfolding round_real_def Let_def round_half_even_def [unfolded Let_def, symmetric]
  by (intro divide_right_mono) (simp_all add: round_half_even_mono mult_right_mono)

lemma round_real_0 [simp]: "round_real n 0 = 0"
  by (simp add: round_real_def)

lemma round_real_nonneg: "0 \<le> x \<Longrightarrow> 0 \<le> round_real n x"
  using round_real_mono [of 0 x n] by simp

lemma round_to_le: "x \<le> c \<Longrightarrow> c * 10 ^ n = of_int k \<Longrightarrow> round_to n x \<le> c"
  using round_to_mono [of x c n] round_to_exact [of c n k] by simp

lemma round_to_ge: "c \<le> x \<Longrightarrow> c * 10 ^ n = of_int k \<Longrightarrow> c \<le> round_to n x"
  using round_to_mono [of c x n] round_to_exact [of c n k] by simp

lemma round_to_cent [simp]: "1 \<le> round_to 6 (max x (1 / 100)) * 100"
  using round_to_ge [of "1 / 100" "max x (1 / 100)" 6 10000] by simp

section \<open>The range of every component\<close>

lemma rate_of_range: "0 \<le> rate_of P rs \<and> rate_of P rs \<le> 1"
  by (simp add: rate_of_def divide_le_eq length_filter_le)

definition allocation_ok :: "flux_state option \<Rightarrow> bool" where
  "allocation_ok flux = (case flux of None \<Rightarrow> True | Some s \<Rightarrow>
     0 \<le> fx_inference_gpus s \<and> 0 \<le> fx_rental_gpus s \<and> fx_inference_gpus s + fx_rental_gpus s \<le> fx_total_gpus s)"

lemma utilization_range:
  assumes "allocation_ok flux"
  shows "1 / 100 \<le> utilization_factor flux" "utilization_factor flux \<le> 1"
proof -
  show "1 / 100 \<le> utilization_factor flux"
    by (auto simp: utilization_factor_def NO_DATA_UTILIZATION_def Let_def split: option.splits)
  show "utilization_factor flux \<le> 1"
    using assms
    by (auto simp: utilization_factor_def NO_DATA_UTILIZATION_def Let_def allocation_ok_def divide_le_eq split: option.splits
        intro!: round_to_le [where k = 1000000])
qed

lemma rental_bonus_range:
  assumes "allocation_ok flux" "0 \<le> rental_revenue_bonus_cap st"
  shows "0 \<le> rental_revenue_bonus st flux" "rental_revenue_bonus st flux \<le> round_to 6 (rental_revenue_bonus_cap st)"
  using assms
  by (auto simp: rental_revenue_bonus_def Let_def allocation_ok_def split: option.splits
      intro!: round_to_nonneg round_to_mono)

definition probes_ok :: "probe_result list \<Rightarrow> bool" where
  "probes_ok results \<longleftrightarrow> (\<forall>r \<in> set results. 0 \<le> pr_readiness_failures r)"

lemma readiness_sum_nonneg: "probes_ok results \<Longrightarrow> 0 \<le> readiness_sum results"
  unfolding readiness_sum_def probes_ok_def by (rule sum_list_nonneg) auto

lemma readiness_factor:
  assumes "0 \<le> (k :: int)" "0 \<le> (c :: rat)"
  shows "max (2 / 10) (1 - of_int k * c) \<le> 1"
  using assms by simp

lemma product_le_1:
  fixes a b :: rat
  assumes "0 \<le> a" "a \<le> 1" "0 \<le> b" "b \<le> 1"
  shows "0 \<le> a * b \<and> a * b \<le> 1"
  using assms by (simp add: mult_le_one)

lemma reliability_range:
  assumes "0 \<le> n_reliability_score cap" "n_reliability_score cap \<le> 1" "probes_ok results"
  shows "1 / 100 \<le> reliability_score cap results" "reliability_score cap results \<le> 1"
proof -
  show "1 / 100 \<le> reliability_score cap results"
    by (auto simp: reliability_score_def Let_def)
  have "n_reliability_score cap * rate_of pr_success results
          * max (2 / 10) (1 - of_int (readiness_sum results) * (4 / 100)) \<le> 1"
    using product_le_1 [of "n_reliability_score cap" "rate_of pr_success results"] assms(1,2) rate_of_range
      readiness_factor [OF readiness_sum_nonneg [OF assms(3)], of "4 / 100"]
    by (intro mult_le_one) auto
  with assms show "reliability_score cap results \<le> 1"
    by (auto simp: reliability_score_def Let_def intro!: round_to_le [where k = 1000000])
qed

lemma performance_range:
  assumes "n_performance_score cap \<le> 3"
  shows "1 / 100 \<le> performance_score cap results" "performance_score cap results \<le> 3 / 2"
proof -
  show "1 / 100 \<le> performance_score cap results"
    by (auto simp: performance_score_def Let_def)
  have half: "a \<le> 1 \<Longrightarrow> b \<le> 2 \<Longrightarrow> a * (1 / 2) + b * (1 / 2) \<le> 3 / (2 :: rat)" for a b by linarith
  have "round_to 6 (max (min 1 (1000 / max x 1) * (1 / 2) + min 2 (y / 100) * (1 / 2)) (1 / 100)) \<le> 3 / 2" for x y
    by (rule round_to_le [where k = 1500000], rule max.boundedI, rule half) simp_all
  with assms show "performance_score cap results \<le> 3 / 2"
    by (auto simp: performance_score_def Let_def)
qed

lemma penalty_choices:
  "proxy_penalty st results \<in> {1, 7 / 10, 4 / 10}" "consistency_penalty results \<in> {1, 85 / 100, 7 / 10}"
  by (auto simp: proxy_penalty_def consistency_penalty_def Let_def)

lemma penalty_range:
  "4 / 10 \<le> proxy_penalty st results" "proxy_penalty st results \<le> 1"
  "7 / 10 \<le> consistency_penalty results" "consistency_penalty results \<le> 1"
  using penalty_choices(1) [of st results] penalty_choices(2) [of results] by auto

lemma mult_lower:
  fixes a b c d :: rat
  assumes "c \<le> a" "d \<le> b" "0 \<le> c" "0 \<le> d"
  shows "c * d \<le> a * b"
  using assms by (intro mult_mono) auto

lemma fraud_range:
  assumes "probes_ok results"
  shows "84 / 10000 \<le> fraud_penalty st results" "fraud_penalty st results \<le> 1"
proof -
  let ?s = "if card (recent_signatures results) > 1 then 75 / 100 else (1 :: rat)"
  let ?p = "proxy_penalty st results" and ?c = "consistency_penalty results"
  let ?r = "max (2 / 10) (1 - of_int (readiness_sum results) * (3 / 100)) :: rat"
  let ?u = "max (2 / 10) (rate_of pr_success results)"
  note rs = readiness_factor [OF readiness_sum_nonneg [OF assms], of "3 / 100"]
  have s: "75 / 100 \<le> ?s" "?s \<le> 1" and u: "2 / 10 \<le> ?u" "?u \<le> 1" and r: "2 / 10 \<le> ?r" "?r \<le> 1"
    using rate_of_range [of pr_success results] rs by auto
  note pen = penalty_range(1,2) [of st results] penalty_range(3,4) [of results]
  have "(75 / 100) * (4 / 10) * (7 / 10) * (2 / 10) * (2 / 10) \<le> ?s * ?p * ?c * ?r * ?u"
    by (intro mult_lower s u r pen) simp_all
  then have low: "84 / 10000 \<le> ?s * ?p * ?c * ?r * ?u" by simp
  have "0 \<le> ?s" "0 \<le> ?p" "0 \<le> ?c" "0 \<le> ?r" "0 \<le> ?u" using s pen r u by linarith+
  then have high: "?s * ?p * ?c * ?r * ?u \<le> 1" using s u r pen
    by (intro mult_le_one mult_nonneg_nonneg) auto
  have eq: "fraud_penalty st results = (if results = [] then 1 else round_to 6 (?s * ?p * ?c * ?r * ?u))"
    by (simp only: fraud_penalty_def Let_def)
  have "84 / 10000 \<le> round_to 6 (?s * ?p * ?c * ?r * ?u)" by (rule round_to_ge [OF low, where k = 8400]) simp
  then show "84 / 10000 \<le> fraud_penalty st results" unfolding eq by (cases "results = []") simp_all
  have "round_to 6 (?s * ?p * ?c * ?r * ?u) \<le> 1" by (rule round_to_le [OF high, where k = 1000000]) simp
  then show "fraud_penalty st results \<le> 1" unfolding eq by (cases "results = []") simp_all
qed
section \<open>The range of a score\<close>

lemma of_rat_mono: "x \<le> y \<Longrightarrow> (of_rat x :: real) \<le> of_rat y"
  by (simp add: of_rat_less_eq)

lemma raw_score_mono:
  assumes "0 \<le> c" "0 \<le> sec" "0 \<le> score_beta st" "0 \<le> score_gamma st" "0 \<le> score_delta st"
    and "0 \<le> rel" "rel \<le> rel'" "0 \<le> perf" "perf \<le> perf'" "0 \<le> fraud" "fraud \<le> fraud'"
    and "0 \<le> util" "util \<le> util'" "0 \<le> bonus" "bonus \<le> bonus'"
  shows "raw_score st c sec rel perf fraud util bonus \<le> raw_score st c sec rel' perf' fraud' util' bonus'"
proof -
  have p: "of_rat x powr of_rat a \<le> (of_rat y :: real) powr of_rat a" if "0 \<le> a" "0 \<le> x" "x \<le> y" for x y a :: rat
    using that by (intro powr_mono2) (simp_all add: of_rat_less_eq)
  show ?thesis
    unfolding raw_score_def using assms
    by (intro mult_mono p mult_nonneg_nonneg add_mono of_rat_mono order.refl)
       (auto simp: of_rat_less_eq intro: order_trans)
qed

lemma raw_score_nonneg:
  "0 \<le> c \<Longrightarrow> 0 \<le> fraud \<Longrightarrow> 0 \<le> bonus \<Longrightarrow> 0 \<le> raw_score st c sec rel perf fraud util bonus"
  unfolding raw_score_def by (intro mult_nonneg_nonneg) simp_all

definition settings_ok :: "score_settings \<Rightarrow> bool" where
  "settings_ok st \<longleftrightarrow> 0 \<le> score_alpha st \<and> 0 \<le> score_beta st \<and> 0 \<le> score_gamma st \<and> 0 \<le> score_delta st \<and>
     0 \<le> rental_revenue_bonus_cap st"

definition capability_ok :: "node \<Rightarrow> bool" where
  "capability_ok cap \<longleftrightarrow> 0 \<le> n_gpu_count cap \<and> 0 \<le> n_vram_gb_per_gpu cap \<and>
     0 \<le> n_reliability_score cap \<and> n_reliability_score cap \<le> 1 \<and> n_performance_score cap \<le> 3"

text \<open>
  (C39) Every factor of a score stays in its range, and the score is bounded by the hardware behind it.  Let the
  exponents and the bonus cap not be negative; the GPU count and memory not be negative, the stored
  reliability lie in 0 to 1 and the stored performance score not exceed 3; the readiness failures of the probes
  not be negative; and the allocation not use more GPUs than it has.  Then reliability lies in 0.01 to 1,
  performance in 0.01 to 1.5, security is 1, the fraud multiplier lies in 0.0084 to 1 (nobody is zeroed
  out), utilisation lies in 0.01 to 1, the rental bonus in 0 to its cap, and the final score is not negative
  and at most the GPU memory on offer times the largest performance multiplier and the capped bonus.
\<close>

theorem score_within_bounds:
  fixes st cap results flux
  defines "sheet \<equiv> compute_scorecard st cap results flux"
  assumes "settings_ok st" "capability_ok cap" "probes_ok results" "allocation_ok flux"
  shows "1 / 100 \<le> sc_reliability_score sheet \<and> sc_reliability_score sheet \<le> 1 \<and>
    1 / 100 \<le> sc_performance_score sheet \<and> sc_performance_score sheet \<le> 3 / 2 \<and>
    sc_security_score sheet = 1 \<and>
    84 / 10000 \<le> sc_fraud_penalty sheet \<and> sc_fraud_penalty sheet \<le> 1 \<and>
    1 / 100 \<le> sc_utilization_score sheet \<and> sc_utilization_score sheet \<le> 1 \<and>
    0 \<le> sc_rental_revenue_bonus sheet \<and> sc_rental_revenue_bonus sheet \<le> round_to 6 (rental_revenue_bonus_cap st) \<and>
    0 \<le> sc_final_score sheet \<and>
    sc_final_score sheet
      \<le> round_real 6 (of_int (n_gpu_count cap * n_vram_gb_per_gpu cap) * (3 / 2) powr of_rat (score_gamma st)
            * (1 + of_rat (round_to 6 (rental_revenue_bonus_cap st))))"
proof -
  let ?c = "n_gpu_count cap * n_vram_gb_per_gpu cap"
  have st: "0 \<le> score_beta st" "0 \<le> score_gamma st" "0 \<le> score_delta st" "0 \<le> rental_revenue_bonus_cap st"
    and cap: "0 \<le> ?c" "0 \<le> n_reliability_score cap" "n_reliability_score cap \<le> 1" "n_performance_score cap \<le> 3"
    using assms(2,3) by (simp_all add: settings_ok_def capability_ok_def)
  note ranges = reliability_range [OF cap(2,3) assms(4)] performance_range [OF cap(4), of results]
    fraud_range [OF assms(4), of st] utilization_range [OF assms(5)] rental_bonus_range [OF assms(5) st(4)]
  have "raw_score st ?c 1 (reliability_score cap results) (performance_score cap results) (fraud_penalty st results)
          (utilization_factor flux) (rental_revenue_bonus st flux)
      \<le> raw_score st ?c 1 1 (3 / 2) 1 1 (round_to 6 (rental_revenue_bonus_cap st))"
    by (rule raw_score_mono) (use ranges cap st in simp_all)
  moreover have "0 \<le> raw_score st ?c 1 (reliability_score cap results) (performance_score cap results)
      (fraud_penalty st results) (utilization_factor flux) (rental_revenue_bonus st flux)"
    by (rule raw_score_nonneg) (use ranges cap in simp_all)
  moreover have "raw_score st ?c 1 1 (3 / 2) 1 1 (round_to 6 (rental_revenue_bonus_cap st))
      = of_int ?c * (3 / 2) powr of_rat (score_gamma st) * (1 + of_rat (round_to 6 (rental_revenue_bonus_cap st)))"
    by (simp add: raw_score_def of_rat_divide)
  ultimately show ?thesis
    using ranges by (simp add: sheet_def compute_scorecard_def Let_def round_real_mono round_real_nonneg del: of_int_mult)
qed
section \<open>Evidence against a miner\<close>

text \<open>What a probe says apart from the evidence: only this decides the medians, the success rates and the
  signatures.\<close>

definition without_evidence :: "probe_result \<Rightarrow> probe_result" where
  "without_evidence r = r\<lparr>pr_proxy_suspected := False, pr_readiness_failures := 0\<rparr>"

definition no_better :: "probe_result \<Rightarrow> probe_result \<Rightarrow> bool" where
  "no_better r r' \<longleftrightarrow> without_evidence r' = without_evidence r \<and> (pr_proxy_suspected r \<longrightarrow> pr_proxy_suspected r')
     \<and> pr_readiness_failures r \<le> pr_readiness_failures r'"

lemma without_evidence_simps [simp]:
  "pr_success (without_evidence r) = pr_success r" "pr_latency_ms (without_evidence r) = pr_latency_ms r"
  "pr_throughput (without_evidence r) = pr_throughput r" "pr_observed_at (without_evidence r) = pr_observed_at r"
  "pr_benchmark_signature (without_evidence r) = pr_benchmark_signature r"
  by (simp_all add: without_evidence_def)

lemma insort_key_map: "insort_key k (f x) (map f xs) = map f (insort_key (\<lambda>y. k (f y)) x xs)"
  by (induction xs) auto

lemma sort_key_map: "sort_key k (map f xs) = map f (sort_key (\<lambda>y. k (f y)) xs)"
  by (induction xs) (simp_all add: insort_key_map)

lemma evidence_free:
  "rate_of pr_success (map without_evidence rs) = rate_of pr_success rs"
  "performance_score cap (map without_evidence rs) = performance_score cap rs"
  "consistency_penalty (map without_evidence rs) = consistency_penalty rs"
  "recent_signatures (map without_evidence rs) = recent_signatures rs"
  by (simp_all add: rate_of_def performance_score_def consistency_penalty_def recent_signatures_def last_n_def filter_map
      sort_key_map comp_def drop_map image_image Let_def)

lemma no_better_same:
  assumes "list_all2 no_better rs rs'"
  shows "map without_evidence rs' = map without_evidence rs"
  using assms by (induction rule: list_all2_induct) (simp_all add: no_better_def)

lemma no_better_agree:
  assumes "list_all2 no_better rs rs'"
  shows "rate_of pr_success rs' = rate_of pr_success rs" "performance_score cap rs' = performance_score cap rs"
    "consistency_penalty rs' = consistency_penalty rs" "recent_signatures rs' = recent_signatures rs"
    "rs' = [] \<longleftrightarrow> rs = []"
proof -
  note same = no_better_same [OF assms]
  show "rate_of pr_success rs' = rate_of pr_success rs" using evidence_free(1) [of rs] evidence_free(1) [of rs'] same by simp
  show "performance_score cap rs' = performance_score cap rs"
    using evidence_free(2) [of cap rs] evidence_free(2) [of cap rs'] same by simp
  show "consistency_penalty rs' = consistency_penalty rs" using evidence_free(3) [of rs] evidence_free(3) [of rs'] same by simp
  show "recent_signatures rs' = recent_signatures rs" using evidence_free(4) [of rs] evidence_free(4) [of rs'] same by simp
  show "rs' = [] \<longleftrightarrow> rs = []" using list_all2_lengthD [OF assms] by auto
qed

lemma no_better_more:
  assumes "list_all2 no_better rs rs'"
  shows "readiness_sum rs \<le> readiness_sum rs'" "rate_of pr_proxy_suspected rs \<le> rate_of pr_proxy_suspected rs'"
proof -
  show "readiness_sum rs \<le> readiness_sum rs'"
    using assms unfolding readiness_sum_def by (induction rule: list_all2_induct) (simp_all add: no_better_def)
  have "length (filter pr_proxy_suspected rs) \<le> length (filter pr_proxy_suspected rs')"
    using assms by (induction rule: list_all2_induct) (auto simp: no_better_def)
  with list_all2_lengthD [OF assms] show "rate_of pr_proxy_suspected rs \<le> rate_of pr_proxy_suspected rs'"
    by (simp add: rate_of_def divide_right_mono)
qed

lemma readiness_factor_mono:
  assumes "k \<le> (k' :: int)" "0 \<le> (c :: rat)"
  shows "max (2 / 10) (1 - of_int k' * c) \<le> max (2 / 10) (1 - of_int k * c)"
  using assms by (intro max.mono order.refl diff_left_mono mult_right_mono) simp_all

lemma no_better_reliability:
  assumes "list_all2 no_better rs rs'" "0 \<le> n_reliability_score cap"
  shows "reliability_score cap rs' \<le> reliability_score cap rs"
proof -
  have "n_reliability_score cap * rate_of pr_success rs * max (2 / 10) (1 - of_int (readiness_sum rs') * (4 / 100))
      \<le> n_reliability_score cap * rate_of pr_success rs * max (2 / 10) (1 - of_int (readiness_sum rs) * (4 / 100))"
    using readiness_factor_mono [OF no_better_more(1) [OF assms(1)], of "4 / 100"] assms(2) rate_of_range
    by (intro mult_left_mono) simp_all
  then show ?thesis
    unfolding reliability_score_def Let_def no_better_agree [OF assms(1)] by (auto intro!: round_to_mono max.mono)
qed

lemma no_better_proxy:
  assumes "list_all2 no_better rs rs'"
  shows "proxy_penalty st rs' \<le> proxy_penalty st rs"
  using no_better_more(2) [OF assms] no_better_agree(5) [OF assms] by (auto simp: proxy_penalty_def Let_def)

lemma no_better_fraud:
  assumes "list_all2 no_better rs rs'"
  shows "fraud_penalty st rs' \<le> fraud_penalty st rs"
proof -
  let ?s = "if card (recent_signatures rs) > 1 then 75 / 100 else (1 :: rat)" and ?c = "consistency_penalty rs"
  let ?u = "max (2 / 10) (rate_of pr_success rs)"
  let ?r = "\<lambda>x. max (2 / 10) (1 - of_int (readiness_sum x) * (3 / 100)) :: rat"
  have nn: "0 \<le> ?s" "0 \<le> ?c" "0 \<le> ?u" "0 \<le> ?r x" "0 \<le> proxy_penalty st x" for x
    using penalty_range(1) [of st x] penalty_range(3) [of rs] by auto
  have "?s * proxy_penalty st rs' * ?c * ?r rs' * ?u \<le> ?s * proxy_penalty st rs * ?c * ?r rs * ?u"
    by (intro mult_mono order.refl no_better_proxy [OF assms] mult_nonneg_nonneg nn
        readiness_factor_mono [OF no_better_more(1) [OF assms]]) simp
  then show ?thesis
    unfolding fraud_penalty_def Let_def no_better_agree [OF assms]
    by (cases "rs = []") (simp, simp only: if_False round_to_mono)
qed

text \<open>
  (C40) Evidence against a miner never raises its score.  If probes are replaced by the same probes with more
  of them flagged as proxied or with more readiness failures, everything else equal, the final score does not
  grow.
\<close>

theorem evidence_never_raises_score:
  assumes "settings_ok st" "capability_ok cap" "probes_ok rs" "allocation_ok flux" and "list_all2 no_better rs rs'"
  shows "sc_final_score (compute_scorecard st cap rs' flux) \<le> sc_final_score (compute_scorecard st cap rs flux)"
proof -
  have st: "0 \<le> score_beta st" "0 \<le> score_gamma st" "0 \<le> score_delta st" "0 \<le> rental_revenue_bonus_cap st"
    and cap: "0 \<le> n_gpu_count cap * n_vram_gb_per_gpu cap" "0 \<le> n_reliability_score cap" "n_reliability_score cap \<le> 1"
      "n_performance_score cap \<le> 3"
    using assms(1,2) by (simp_all add: settings_ok_def capability_ok_def)
  have ok: "probes_ok rs'"
    using assms(5,3) unfolding probes_ok_def
    by (induction rs rs' rule: list_all2_induct) (auto simp: no_better_def)
  note ranges = reliability_range(1) [OF cap(2,3) ok] performance_range(1) [OF cap(4), of rs]
    fraud_range(1) [OF ok, of st] utilization_range(1) [OF assms(4)] rental_bonus_range(1) [OF assms(4) st(4)]
  show ?thesis
    unfolding compute_scorecard_def Let_def score_card.simps no_better_agree(2) [OF assms(5)]
    by (rule round_real_mono, rule raw_score_mono)
       (use ranges cap st no_better_reliability [OF assms(5) cap(2)] no_better_fraud [OF assms(5)] in simp_all)
qed

section \<open>The spread of a sample without square roots\<close>

lemma le_sqrt_iff:
  assumes "0 \<le> a" "0 \<le> (v :: real)"
  shows "a \<le> sqrt v \<longleftrightarrow> a\<^sup>2 \<le> v"
  using assms power_mono [of a "sqrt v" 2] by (auto intro: real_le_rsqrt)

lemma spread_at_least:
  assumes "0 < c" "2 \<le> length xs"
  shows "coefficient_of_variation xs \<ge> of_rat c \<longleftrightarrow> mean_of xs > 0 \<and> variance_of xs \<ge> (c * mean_of xs)\<^sup>2"
proof (cases "mean_of xs > 0")
  case True
  have var: "0 \<le> variance_of xs" by (auto simp: variance_of_def intro!: divide_nonneg_nonneg sum_list_nonneg)
  have "coefficient_of_variation xs \<ge> of_rat c \<longleftrightarrow> of_rat (c * mean_of xs) \<le> sqrt (of_rat (variance_of xs))"
    using True assms(2) by (simp add: coefficient_of_variation_def le_divide_eq of_rat_mult)
  also have "\<dots> \<longleftrightarrow> (of_rat (c * mean_of xs))\<^sup>2 \<le> (of_rat (variance_of xs) :: real)"
    using True assms(1) var by (intro le_sqrt_iff) simp_all
  also have "\<dots> \<longleftrightarrow> (c * mean_of xs)\<^sup>2 \<le> variance_of xs"
    by (simp add: of_rat_power [symmetric] of_rat_less_eq del: of_rat_power)
  finally show ?thesis using True by simp
next
  case False
  with assms show ?thesis by (auto simp: coefficient_of_variation_def not_le)
qed

section \<open>What the chain is given\<close>

lemma weight_total_pos:
  assumes "\<forall>w \<in> set ws. 0 \<le> w"
  shows "0 < weight_total ws"
  using sum_list_nonneg [of ws] assms by (auto simp: weight_total_def less_le)

lemma py_int_floor: "0 \<le> x \<Longrightarrow> py_int x = \<lfloor>x\<rfloor>"
  by (simp add: py_int_def)

lemma normalize_weights_floor:
  assumes "\<forall>w \<in> set ws. 0 \<le> w"
  shows "normalize_weights ws = map (\<lambda>w. \<lfloor>w / weight_total ws * 65535\<rfloor>) ws"
  unfolding normalize_weights_def using assms weight_total_pos [OF assms] by (auto intro!: py_int_floor)

lemma sum_floors_le: "of_int (sum_list (map (\<lambda>x. \<lfloor>f x\<rfloor>) xs)) \<le> (sum_list (map f xs) :: real)"
  by (induction xs) (simp_all add: add_mono)

lemma sum_floors_gt: "xs \<noteq> [] \<Longrightarrow> sum_list (map f xs) < of_int (sum_list (map (\<lambda>x. \<lfloor>f x\<rfloor>) xs)) + (of_nat (length xs) :: real)"
proof (induction xs)
  case (Cons x xs)
  have x: "f x < of_int \<lfloor>f x\<rfloor> + 1" by linarith
  show ?case
  proof (cases "xs = []")
    case True
    with x show ?thesis by simp
  next
    case False
    from Cons.IH [OF False] x show ?thesis unfolding list.map sum_list.Cons list.size of_int_add of_nat_add of_nat_1 of_nat_Suc by linarith
  qed
qed simp

lemma sum_scaled: "sum_list (map (\<lambda>w. w / t * c) ws) = sum_list ws / t * (c :: real)"
  by (induction ws) (simp_all add: add_divide_distrib distrib_right)

text \<open>
  The weights sent to the chain share out its 65535 units.  For scores that are not negative, every
  weight is a 16-bit number, their sum is at most 65535 and short of it by less than one unit per miner (all
  are 0 when every score is), and a higher score never gets a smaller weight.
\<close>

theorem chain_weights_share_out:
  assumes "\<forall>w \<in> set ws. 0 \<le> w"
  shows "length (normalize_weights ws) = length ws \<and> sum_list (normalize_weights ws) \<le> 65535 \<and>
    (if sum_list ws = 0 then set (normalize_weights ws) \<subseteq> {0}
     else 65535 - int (length ws) < sum_list (normalize_weights ws)) \<and>
    (\<forall>i < length ws. 0 \<le> normalize_weights ws ! i \<and> normalize_weights ws ! i \<le> 65535 \<and>
       (\<forall>j < length ws. ws ! i \<le> ws ! j \<longrightarrow> normalize_weights ws ! i \<le> normalize_weights ws ! j))"
proof -
  let ?t = "weight_total ws"
  note eq = normalize_weights_floor [OF assms]
  have t: "0 < ?t" by (rule weight_total_pos [OF assms])
  have sum: "0 \<le> sum_list ws" using assms by (intro sum_list_nonneg) auto
  then have le: "sum_list ws / ?t * 65535 \<le> 65535" by (simp add: weight_total_def)
  have "of_int (sum_list (normalize_weights ws)) \<le> (65535 :: real)"
    unfolding eq using sum_floors_le [of "\<lambda>w. w / ?t * 65535" ws] le by (simp only: sum_scaled)
  then have upper: "sum_list (normalize_weights ws) \<le> 65535" by linarith
  have lower: "65535 - int (length ws) < sum_list (normalize_weights ws)" if pos: "sum_list ws \<noteq> 0"
  proof -
    have ne: "ws \<noteq> []" and one: "sum_list ws / ?t = 1" using pos by (auto simp: weight_total_def)
    have "65535 < of_int (sum_list (normalize_weights ws)) + (of_nat (length ws) :: real)"
      unfolding eq using sum_floors_gt [OF ne, of "\<lambda>w. w / ?t * 65535"] by (simp only: sum_scaled one mult_1)
    then show ?thesis by linarith
  qed
  have zero: "set (normalize_weights ws) \<subseteq> {0}" if "sum_list ws = 0"
  proof -
    have "w = 0" if "w \<in> set ws" for w
      using assms \<open>sum_list ws = 0\<close> that sum_list_nonneg_eq_0_iff [of ws] by auto
    then show ?thesis unfolding eq by (force simp del: times_divide_eq_left)
  qed
  have mono: "normalize_weights ws ! i \<le> normalize_weights ws ! j"
    if "i < length ws" "j < length ws" "ws ! i \<le> ws ! j" for i j
    using that t by (simp add: eq floor_mono divide_right_mono)
  have member: "0 \<le> normalize_weights ws ! i \<and> normalize_weights ws ! i \<le> 65535" if i: "i < length ws" for i
  proof -
    have nn: "\<forall>n \<in> set (normalize_weights ws). 0 \<le> n" using assms t by (auto simp: eq)
    have "normalize_weights ws ! i \<in> set (normalize_weights ws)" using i by (simp add: eq)
    moreover from this nn have "normalize_weights ws ! i \<le> sum_list (normalize_weights ws)"
      by (intro member_le_sum_list) auto
    ultimately show ?thesis using nn upper by auto
  qed
  show ?thesis using upper lower zero member mono by (simp add: normalize_weights_def)
qed

theorem chain_weights_share_out_witness:
  "normalize_weights [3, 0, 1, 1 / 2] = [43690, 0, 14563, 7281] \<and> sum_list (normalize_weights [3, 0, 1, 1 / 2]) \<le> 65535"
proof -
  have "normalize_weights [3, 0, 1, 1 / 2] = [43690, 0, 14563, 7281]"
    by (simp add: normalize_weights_def weight_total_def py_int_def)
  with chain_weights_share_out [of "[3, 0, 1, 1 / 2]"] show ?thesis by simp
qed

definition demo_scored_node :: node where
  "demo_scored_node =
     \<lparr>n_hotkey = ''m'', n_node_id = ''n0'', n_server_id = None, n_hostname = None, n_gpu_model = ''h100'', n_gpu_count = 4,
      n_available_gpus = 4, n_vram_gb_per_gpu = 80, n_cpu_cores = 64, n_memory_gb = 512, n_hourly_cost_usd = 2,
      n_health_score = 1, n_reliability_score = 1, n_performance_score = 1, n_labels = [], n_observed_at = Some 0\<rparr>"

definition demo_probe :: probe_result where
  "demo_probe =
     \<lparr>pr_challenge_id = ''c'', pr_hotkey = ''m'', pr_node_id = ''n0'', pr_latency_ms = 1000, pr_throughput = 100,
      pr_success = True, pr_benchmark_signature = Some ''s'', pr_proxy_suspected = False, pr_readiness_failures = 0,
      pr_prompt_sha256 = None, pr_response_sha256 = None, pr_observed_at = Some 0\<rparr>"

definition demo_allocation :: "int \<Rightarrow> flux_state" where
  "demo_allocation used =
     \<lparr>fx_hotkey = ''m'', fx_node_id = ''n0'', fx_total_gpus = 4, fx_inference_gpus = used, fx_rental_gpus = 0,
      fx_idle_gpus = 4 - used, fx_inference_demand_score = 0, fx_rental_demand_score = 0, fx_inference_assignments = [],
      fx_last_rebalanced_at = None\<rparr>"

lemma demo_settings_ok: "settings_ok default_score_settings"
  by (simp add: settings_ok_def default_score_settings_def)

lemma demo_node_ok: "capability_ok demo_scored_node"
  by (simp add: capability_ok_def demo_scored_node_def)

lemma demo_probe_ok: "probes_ok [demo_probe]"
  by (simp add: probes_ok_def demo_probe_def)

lemma demo_allocation_ok: "0 \<le> u \<Longrightarrow> u \<le> 4 \<Longrightarrow> allocation_ok (Some (demo_allocation u))"
  by (simp add: allocation_ok_def demo_allocation_def)

lemma demo_components:
  "reliability_score demo_scored_node [demo_probe] = 1" "performance_score demo_scored_node [demo_probe] = 1"
  "utilization_factor (Some (demo_allocation 4)) = 1" "utilization_factor (Some (demo_allocation 1)) = 1 / 4"
  "rental_revenue_bonus default_score_settings (Some (demo_allocation 4)) = 0"
  "rental_revenue_bonus default_score_settings (Some (demo_allocation 1)) = 0"
  "proxy_penalty default_score_settings [demo_probe] = 1"
  "card (recent_signatures [demo_probe]) = 1"
  by code_simp+

lemma demo_fraud: "fraud_penalty default_score_settings [demo_probe] = 1"
proof -
  have "consistency_penalty [demo_probe] = 1" by (simp add: consistency_penalty_def)
  moreover have "readiness_sum [demo_probe] = 0" "rate_of pr_success [demo_probe] = 1"
    by (simp_all add: readiness_sum_def rate_of_def demo_probe_def)
  ultimately show ?thesis using round_to_exact [of 1 6 1000000] by (simp add: fraud_penalty_def Let_def demo_components)
qed

lemma round_real_of_int: "round_real n (of_int k) = of_int k"
proof -
  have "\<lfloor>of_int k * 10 ^ n :: real\<rfloor> = k * 10 ^ n"
    by (metis floor_of_int of_int_mult of_int_numeral of_int_power)
  then show ?thesis by (simp add: round_real_def)
qed

lemma demo_score:
  "sc_final_score (compute_scorecard default_score_settings demo_scored_node [demo_probe] (Some (demo_allocation 4))) = 320"
proof -
  have "raw_score default_score_settings 320 1 1 1 1 1 0 = 320" by (simp add: raw_score_def)
  then show ?thesis
    using round_real_of_int [of 6 320]
    by (simp add: compute_scorecard_def Let_def demo_components demo_fraud) (simp add: demo_scored_node_def)
qed

theorem score_within_bounds_witness:
  "sc_final_score (compute_scorecard default_score_settings demo_scored_node [demo_probe] (Some (demo_allocation 4))) = 320 \<and>
   sc_performance_score (compute_scorecard default_score_settings demo_scored_node [demo_probe] (Some (demo_allocation 4))) \<le> 3 / 2 \<and>
   84 / 10000 \<le> sc_fraud_penalty (compute_scorecard default_score_settings demo_scored_node [demo_probe] (Some (demo_allocation 4)))"
  using demo_score
    score_within_bounds [OF demo_settings_ok demo_node_ok demo_probe_ok demo_allocation_ok [of 4]] by simp

theorem evidence_never_raises_score_witness:
  "sc_final_score (compute_scorecard default_score_settings demo_scored_node
     [demo_probe\<lparr>pr_proxy_suspected := True, pr_readiness_failures := 2\<rparr>] (Some (demo_allocation 4))) \<le> 320"
  using evidence_never_raises_score
    [OF demo_settings_ok demo_node_ok demo_probe_ok demo_allocation_ok [of 4],
     of "[demo_probe\<lparr>pr_proxy_suspected := True, pr_readiness_failures := 2\<rparr>]"]
  by (simp add: demo_score no_better_def without_evidence_def) (simp add: demo_probe_def)

text \<open>A miner without a fresh allocation state still outscores the same miner that serves with one of its
  four GPUs.\<close>

lemma no_state_beats_light_load:
  "sc_utilization_score (compute_scorecard st cap rs (Some (demo_allocation 1)))
     < sc_utilization_score (compute_scorecard st cap rs None)"
proof -
  have "utilization_factor None = 1 / 2" by (simp add: utilization_factor_def NO_DATA_UTILIZATION_def)
  then show ?thesis by (simp add: compute_scorecard_def Let_def demo_components)
qed

end
