(* ===== verification/Probing.thy ===== *)
theory Probing
  imports Scoring Bus Grouping
begin

text \<open>
  Probes, scorecards, published weights and audit reports: the part of \<^verbatim>\<open>validator/application/services.py\<close>
  (\<^verbatim>\<open>ValidatorService\<close>) that turns what miners answer into what the chain is told, on the tables of
  \<^verbatim>\<open>validator/infrastructure/repository.py\<close>, and the epoch tick of \<^verbatim>\<open>validator/main.py\<close>.

  \<^item> The state \<open>validator\<close> holds the tables, the in-memory Flux states and metagraph cache, the bus
    and the number of identifiers drawn so far.
  \<^item> \<open>validator_env\<close> holds the clock, the settings, the stream of identifiers and what is not in the
    repository: the chain client's extrinsics, the wallet's signature and the digests.
  \<^item> A capability row stores the nodes of one hotkey under their identifiers; the older shape with one
    node is kept as a constructor of its payload, because every reader still accepts it.
\<close>

section \<open>State\<close>

datatype capability_payload = NoNodes | Nodes "(ident \<times> node) list" | SingleNode node | Unreadable

record capability_row =
  cr_hotkey :: ident
  cr_payload :: capability_payload

record canary_challenge =
  cc_model_id :: ident
  cc_prompt :: string
  cc_nonce :: string
  cc_expected_prefix :: string

record probe_challenge =
  pc_challenge_id :: ident
  pc_hotkey :: ident
  pc_node_id :: ident
  pc_kind :: string
  pc_payload :: "canary_challenge option"
  pc_created_at :: time

type_synonym weights = "(ident \<times> real) list"

record weight_snapshot =
  ws_snapshot_id :: ident
  ws_netuid :: int
  ws_weights :: weights
  ws_created_at :: time

record history_row =
  hr_epoch_id :: string
  hr_snapshot_id :: ident
  hr_hotkey :: ident
  hr_card :: score_card
  hr_computed_at :: time

record audit_body =
  ab_epoch_id :: string
  ab_netuid :: int
  ab_start_block :: int
  ab_end_block :: int
  ab_generated_at :: time
  ab_probes :: "(probe_challenge \<times> probe_result list) list"
  ab_scorecards :: "history_row list"
  ab_weight_snapshot :: "weight_snapshot option"

record audit_report =
  ar_epoch_id :: string
  ar_body :: audit_body
  ar_sha256 :: string
  ar_signature :: string
  ar_signer_hotkey :: string
  ar_commitment_tx :: "string option"
  ar_created_at :: time

record approved_miner =
  am_hotkey :: ident
  am_label :: string
  am_energy_source :: string
  am_notes :: string
  am_approved_at :: time

datatype validator_message =
    ProbeRecorded ident ident ident real
  | WeightsPublished ident int weights "string option"
  | AuditPublished string string "string option"

text \<open>An extrinsic that the validator has submitted.\<close>

datatype extrinsic = SetWeights "int list" "int list" | SetCommitment string

record validator =
  va_capabilities :: "capability_row list"
  va_challenges :: "probe_challenge list"
  va_results :: "probe_result list"
  va_scorecards :: "score_card list"
  va_snapshots :: "weight_snapshot list"
  va_history :: "history_row list"
  va_reports :: "audit_report list"
  va_whitelist :: "approved_miner list"
  va_flux :: "flux_state list"
  va_metagraph :: metagraph_cache
  va_bus :: "validator_message bus_db"
  va_extrinsics :: "extrinsic list"
  va_uuid :: nat

record chain_client =
  cl_netuid :: int
  cl_set_weights :: "int list \<Rightarrow> int list \<Rightarrow> string option"
  cl_set_commitment :: "string \<Rightarrow> string option"

record validator_env =
  vv_now :: time
  vv_uuid :: "nat \<Rightarrow> ident"
  vv_score :: score_settings
  vv_lookback_days :: int
  vv_whitelist_enabled :: bool
  vv_bittensor_enabled :: bool
  vv_bittensor_netuid :: int
  vv_chain :: "chain_client option"
  vv_report_digest :: "audit_body \<Rightarrow> string"
  vv_sign :: "audit_body \<Rightarrow> (string \<times> string) option"
  vv_digest :: "string \<Rightarrow> string"
  vv_canary_ready :: bool
  vv_nonce :: string
  vv_history_fails :: bool
  vv_report_fails :: bool

datatype validator_error =
    UnknownCapabilityError | UnknownProbeChallengeError | InvalidProbeResultError | NotRegistered | ChainError | StoreError

type_synonym 'a validated = "(validator_error + 'a) \<times> validator"

section \<open>Capabilities\<close>

definition payload_to_nodes :: "capability_payload \<Rightarrow> node list" where
  "payload_to_nodes p =
     (case p of NoNodes \<Rightarrow> [] | Nodes ns \<Rightarrow> map snd ns | SingleNode n \<Rightarrow> [n] | Unreadable \<Rightarrow> [])"

text \<open>A row in the older shape is carried over at the first write.\<close>

definition kept_nodes :: "capability_row option \<Rightarrow> (ident \<times> node) list" where
  "kept_nodes row =
     (case row of
        None \<Rightarrow> []
      | Some r \<Rightarrow> (case cr_payload r of Nodes ns \<Rightarrow> ns | SingleNode n \<Rightarrow> [(n_node_id n, n)] | _ \<Rightarrow> []))"

definition upsert_capability :: "node \<Rightarrow> validator \<Rightarrow> validator" where
  "upsert_capability cap s =
     (let row = get_row cr_hotkey (n_hotkey cap) (va_capabilities s);
          nodes = put_row fst (n_node_id cap, cap) (kept_nodes row)
      in s\<lparr>va_capabilities := put_row cr_hotkey \<lparr>cr_hotkey = n_hotkey cap, cr_payload = Nodes nodes\<rparr> (va_capabilities s)\<rparr>)"

definition get_node_capabilities :: "ident \<Rightarrow> validator \<Rightarrow> node list" where
  "get_node_capabilities hk s =
     (case get_row cr_hotkey hk (va_capabilities s) of None \<Rightarrow> [] | Some r \<Rightarrow> payload_to_nodes (cr_payload r))"

definition get_capability :: "ident \<Rightarrow> validator \<Rightarrow> node option" where
  "get_capability hk s = (case get_node_capabilities hk s of [] \<Rightarrow> None | n # _ \<Rightarrow> Some n)"

definition list_node_capabilities :: "validator \<Rightarrow> (ident \<times> node list) list" where
  "list_node_capabilities s = map (\<lambda>r. (cr_hotkey r, payload_to_nodes (cr_payload r))) (va_capabilities s)"

definition list_capabilities :: "validator \<Rightarrow> (ident \<times> node) list" where
  "list_capabilities s =
     List.map_filter (\<lambda>p. case snd p of [] \<Rightarrow> None | n # _ \<Rightarrow> Some (fst p, n)) (list_node_capabilities s)"

text \<open>The rows of the control plane's inventory, with the identifier inside the stored payload.\<close>

record inventory_row =
  iv_hotkey :: ident
  iv_node_id :: ident
  iv_payload_node_id :: "ident option"
  iv_payload :: node

definition inventory_node_id :: "inventory_row \<Rightarrow> ident" where
  "inventory_node_id r = the (str_or (iv_payload_node_id r) (Some (iv_node_id r)))"

definition nodes_by_hotkey :: "inventory_row list \<Rightarrow> (ident \<times> (ident \<times> node) list) list" where
  "nodes_by_hotkey rows =
     map (\<lambda>(hk, rs). (hk, foldl (\<lambda>ns r. put_row fst (inventory_node_id r, iv_payload r) ns) [] rs))
       (group_by iv_hotkey rows)"

definition sync_from_control_plane :: "inventory_row list \<Rightarrow> validator \<Rightarrow> nat \<times> validator" where
  "sync_from_control_plane rows s =
     (length rows,
      s\<lparr>va_capabilities :=
          foldl (\<lambda>cs (hk, nodes). put_row cr_hotkey \<lparr>cr_hotkey = hk, cr_payload = Nodes nodes\<rparr> cs)
            (va_capabilities s) (nodes_by_hotkey rows)\<rparr>)"

section \<open>Challenges, results, scorecards and snapshots\<close>

definition save_challenge :: "probe_challenge \<Rightarrow> validator \<Rightarrow> validator" where
  "save_challenge c s = s\<lparr>va_challenges := va_challenges s @ [c]\<rparr>"

definition get_challenge :: "ident \<Rightarrow> validator \<Rightarrow> probe_challenge option" where
  "get_challenge cid s = get_row pc_challenge_id cid (va_challenges s)"

definition result_key :: "probe_result \<Rightarrow> ident \<times> ident" where
  "result_key r = (pr_challenge_id r, pr_hotkey r)"

definition get_result :: "ident \<Rightarrow> ident \<Rightarrow> validator \<Rightarrow> probe_result option" where
  "get_result cid hk s = get_row result_key (cid, hk) (va_results s)"

definition add_result :: "probe_result \<Rightarrow> validator \<Rightarrow> validator" where
  "add_result r s = s\<lparr>va_results := va_results s @ [r]\<rparr>"

text \<open>SQL compares a missing time with nothing.\<close>

definition since_ok :: "time option \<Rightarrow> probe_result \<Rightarrow> bool" where
  "since_ok since r \<longleftrightarrow>
     (case since of None \<Rightarrow> True | Some t \<Rightarrow> (case pr_observed_at r of None \<Rightarrow> False | Some u \<Rightarrow> u \<ge> t))"

definition list_results :: "ident option \<Rightarrow> time option \<Rightarrow> validator \<Rightarrow> probe_result list" where
  "list_results hk since s =
     filter (\<lambda>r. (case hk of None \<Rightarrow> True | Some h \<Rightarrow> pr_hotkey r = h) \<and> since_ok since r) (va_results s)"

definition save_scorecard :: "score_card \<Rightarrow> validator \<Rightarrow> validator" where
  "save_scorecard c s = s\<lparr>va_scorecards := put_row sc_hotkey c (va_scorecards s)\<rparr>"

definition list_scorecards :: "validator \<Rightarrow> (ident \<times> score_card) list" where
  "list_scorecards s = map (\<lambda>c. (sc_hotkey c, c)) (va_scorecards s)"

definition save_snapshot :: "weight_snapshot \<Rightarrow> validator \<Rightarrow> validator" where
  "save_snapshot w s = s\<lparr>va_snapshots := va_snapshots s @ [w]\<rparr>"

definition list_snapshots :: "int option \<Rightarrow> validator \<Rightarrow> weight_snapshot list" where
  "list_snapshots netuid s =
     filter (\<lambda>w. case netuid of None \<Rightarrow> True | Some n \<Rightarrow> ws_netuid w = n) (va_snapshots s)"

definition admit_miner :: "approved_miner \<Rightarrow> validator \<Rightarrow> validator" where
  "admit_miner e s = s\<lparr>va_whitelist := put_row am_hotkey e (va_whitelist s)\<rparr>"

definition dismiss_miner :: "ident \<Rightarrow> validator \<Rightarrow> bool \<times> validator" where
  "dismiss_miner hk s =
     (get_row am_hotkey hk (va_whitelist s) \<noteq> None, s\<lparr>va_whitelist := delete_row am_hotkey hk (va_whitelist s)\<rparr>)"

definition admitted :: "ident \<Rightarrow> validator \<Rightarrow> bool" where
  "admitted hk s \<longleftrightarrow> get_row am_hotkey hk (va_whitelist s) \<noteq> None"

definition save_scorecard_history ::
  "time \<Rightarrow> string \<Rightarrow> ident \<Rightarrow> (ident \<times> score_card) list \<Rightarrow> validator \<Rightarrow> validator" where
  "save_scorecard_history now epoch_id snapshot_id cards s =
     s\<lparr>va_history := va_history s @
         map (\<lambda>(hk, c). \<lparr>hr_epoch_id = epoch_id, hr_snapshot_id = snapshot_id, hr_hotkey = hk, hr_card = c,
                         hr_computed_at = now\<rparr>) cards\<rparr>"

definition save_audit_report :: "audit_report \<Rightarrow> validator \<Rightarrow> validator" where
  "save_audit_report r s = s\<lparr>va_reports := put_row ar_epoch_id r (va_reports s)\<rparr>"

definition get_audit_report :: "string \<Rightarrow> validator \<Rightarrow> audit_report option" where
  "get_audit_report epoch_id s = get_row ar_epoch_id epoch_id (va_reports s)"

definition list_audit_reports :: "nat \<Rightarrow> nat \<Rightarrow> validator \<Rightarrow> audit_report list" where
  "list_audit_reports limit offset s =
     take limit (drop offset (sort_key (\<lambda>r. - ab_end_block (ar_body r)) (va_reports s)))"

definition list_probe_challenges_since :: "time \<Rightarrow> time \<Rightarrow> validator \<Rightarrow> probe_challenge list" where
  "list_probe_challenges_since since until s =
     sort_key pc_created_at (filter (\<lambda>c. pc_created_at c \<ge> since \<and> pc_created_at c < until) (va_challenges s))"

definition observed_in :: "time \<Rightarrow> time \<Rightarrow> probe_result \<Rightarrow> bool" where
  "observed_in since until r \<longleftrightarrow> (case pr_observed_at r of None \<Rightarrow> False | Some t \<Rightarrow> t \<ge> since \<and> t < until)"

definition list_probe_results_since :: "time \<Rightarrow> time \<Rightarrow> validator \<Rightarrow> probe_result list" where
  "list_probe_results_since since until s =
     sort_key (\<lambda>r. obs_sort_key (pr_observed_at r)) (filter (observed_in since until) (va_results s))"

definition list_weight_snapshots_between :: "int \<Rightarrow> time \<Rightarrow> time \<Rightarrow> validator \<Rightarrow> weight_snapshot list" where
  "list_weight_snapshots_between netuid start until s =
     sort_key ws_created_at
       (filter (\<lambda>w. ws_netuid w = netuid \<and> ws_created_at w \<ge> start \<and> ws_created_at w < until) (va_snapshots s))"

definition publish_validator :: "validator_env \<Rightarrow> string \<Rightarrow> validator_message \<Rightarrow> validator \<Rightarrow> validator" where
  "publish_validator env subject message s =
     s\<lparr>va_bus := snd (publish (vv_now env) (vv_uuid env (va_uuid s)) subject message (va_bus s)),
       va_uuid := Suc (va_uuid s)\<rparr>"

section \<open>Flux states\<close>

definition flux_key :: "flux_state \<Rightarrow> ident \<times> ident" where
  "flux_key s = (fx_hotkey s, fx_node_id s)"

definition new_flux_state :: "ident \<Rightarrow> ident \<Rightarrow> int \<Rightarrow> int \<Rightarrow> flux_state" where
  "new_flux_state hk nid tot avail =
     \<lparr>fx_hotkey = hk, fx_node_id = nid, fx_total_gpus = tot, fx_inference_gpus = 0, fx_rental_gpus = tot - avail,
      fx_idle_gpus = avail, fx_inference_demand_score = 0, fx_rental_demand_score = 0, fx_inference_assignments = [],
      fx_last_rebalanced_at = None\<rparr>"

definition init_flux_state :: "ident \<Rightarrow> ident \<Rightarrow> int \<Rightarrow> int option \<Rightarrow> validator \<Rightarrow> flux_state \<times> validator" where
  "init_flux_state hk nid tot available s =
     (let avail = (case available of None \<Rightarrow> tot | Some a \<Rightarrow> max 0 (min a tot));
          state = new_flux_state hk nid tot avail;
          fresh = (state, s\<lparr>va_flux := put_row flux_key state (va_flux s)\<rparr>)
      in case get_row flux_key (hk, nid) (va_flux s) of
           None \<Rightarrow> fresh
         | Some old \<Rightarrow> if fx_total_gpus old = tot then (old, s) else fresh)"

definition states_for_hotkey :: "ident \<Rightarrow> validator \<Rightarrow> flux_state list" where
  "states_for_hotkey hk s = filter (\<lambda>x. fx_hotkey x = hk) (va_flux s)"

definition aggregate_flux_state :: "ident \<Rightarrow> validator \<Rightarrow> flux_state option" where
  "aggregate_flux_state hk s =
     (let states = states_for_hotkey hk s
      in if states = [] then None
         else Some ((new_flux_state hk (hk @ ''-aggregate'') 0 0)
                    \<lparr>fx_total_gpus := sum_list (map fx_total_gpus states),
                     fx_inference_gpus := sum_list (map fx_inference_gpus states),
                     fx_rental_gpus := sum_list (map fx_rental_gpus states),
                     fx_idle_gpus := sum_list (map fx_idle_gpus states)\<rparr>))"

section \<open>Registering and probing\<close>

definition register_capability :: "validator_env \<Rightarrow> node \<Rightarrow> validator \<Rightarrow> node validated" where
  "register_capability env cap s =
     (if vv_bittensor_enabled env \<and> \<not> is_registered (n_hotkey cap) (va_metagraph s) then (Inl NotRegistered, s)
      else let s1 = upsert_capability cap s;
               s2 = snd (init_flux_state (n_hotkey cap) (n_node_id cap) (n_gpu_count cap) (Some (n_available_gpus cap)) s1)
           in (Inr cap, s2))"

definition create_probe :: "validator_env \<Rightarrow> ident \<Rightarrow> ident \<Rightarrow> string \<Rightarrow> validator \<Rightarrow> probe_challenge validated" where
  "create_probe env hk nid kind s =
     (case get_capability hk s of
        None \<Rightarrow> (Inl UnknownCapabilityError, s)
      | Some cap \<Rightarrow>
          if n_node_id cap \<noteq> nid then (Inl InvalidProbeResultError, s)
          else let c = \<lparr>pc_challenge_id = vv_uuid env (va_uuid s), pc_hotkey = hk, pc_node_id = nid, pc_kind = kind,
                        pc_payload = None, pc_created_at = vv_now env\<rparr>
               in (Inr c, save_challenge c (s\<lparr>va_uuid := Suc (va_uuid s)\<rparr>)))"

definition score_window_start :: "validator_env \<Rightarrow> time" where
  "score_window_start env = vv_now env - seconds (86400 * vv_lookback_days env)"

definition submit_probe_result :: "validator_env \<Rightarrow> probe_result \<Rightarrow> validator \<Rightarrow> score_card validated" where
  "submit_probe_result env r s =
     (case get_challenge (pr_challenge_id r) s of
        None \<Rightarrow> (Inl UnknownProbeChallengeError, s)
      | Some c \<Rightarrow>
          if pc_hotkey c \<noteq> pr_hotkey r \<or> pc_node_id c \<noteq> pr_node_id r then (Inl InvalidProbeResultError, s)
          else if get_result (pr_challenge_id r) (pr_hotkey r) s \<noteq> None then (Inl InvalidProbeResultError, s)
          else case get_capability (pr_hotkey r) s of
                 None \<Rightarrow> (Inl UnknownCapabilityError, s)
               | Some cap \<Rightarrow>
                   let s1 = add_result r s;
                       flux = aggregate_flux_state (pr_hotkey r) s1;
                       card = compute_scorecard (vv_score env) cap
                                (list_results (Some (pr_hotkey r)) (Some (score_window_start env)) s1) flux;
                       s2 = save_scorecard card s1
                   in (Inr card,
                       publish_validator env ''probe.result.recorded''
                         (ProbeRecorded (pr_challenge_id r) (pr_hotkey r) (pr_node_id r) (sc_final_score card)) s2))"

section \<open>Publishing weights\<close>

text \<open>The capability whose product of GPUs and memory stands for all the nodes of a hotkey.\<close>

definition total_capacity_units :: "node list \<Rightarrow> int" where
  "total_capacity_units nodes = sum_list (map (\<lambda>n. n_gpu_count n * n_vram_gb_per_gpu n) nodes)"

definition aggregate_capability :: "node list \<Rightarrow> node" where
  "aggregate_capability nodes =
     (let primary = hd nodes;
          synthetic_vram = max (total_capacity_units nodes div max (n_gpu_count primary) 1) 1;
          avail_gpus = sum_list (map n_available_gpus nodes)
      in primary\<lparr>n_vram_gb_per_gpu := synthetic_vram, n_available_gpus := min avail_gpus (n_gpu_count primary)\<rparr>)"

definition score_hotkey :: "validator_env \<Rightarrow> ident \<times> node list \<Rightarrow> validator \<Rightarrow> score_card option \<times> validator" where
  "score_hotkey env p s =
     (let hk = fst p; nodes = snd p; results = list_results (Some hk) (Some (score_window_start env)) s
      in if nodes = [] \<or> vv_whitelist_enabled env \<and> \<not> admitted hk s \<or> results = [] then (None, s)
         else let card = compute_scorecard (vv_score env) (aggregate_capability nodes) results (aggregate_flux_state hk s)
              in (Some card, save_scorecard card s))"

fun score_all :: "validator_env \<Rightarrow> (ident \<times> node list) list \<Rightarrow> validator \<Rightarrow> (ident \<times> score_card) list \<times> validator" where
  "score_all env [] s = ([], s)"
| "score_all env (p # ps) s =
     (let (card, s1) = score_hotkey env p s; (cards, s2) = score_all env ps s1
      in (case card of None \<Rightarrow> cards | Some c \<Rightarrow> (fst p, c) # cards, s2))"

definition set_weights :: "chain_client \<Rightarrow> int list \<Rightarrow> real list \<Rightarrow> validator \<Rightarrow> string validated" where
  "set_weights client uids weights s =
     (let normalized = normalize_weights weights
      in case cl_set_weights client uids normalized of
           None \<Rightarrow> (Inl ChainError, s)
         | Some tx \<Rightarrow> (Inr tx, s\<lparr>va_extrinsics := va_extrinsics s @ [SetWeights uids normalized]\<rparr>))"

definition known_uids :: "metagraph_cache \<Rightarrow> (ident \<times> score_card) list \<Rightarrow> (int \<times> real) list" where
  "known_uids mg cards =
     List.map_filter (\<lambda>(hk, c). map_option (\<lambda>uid. (uid, sc_final_score c)) (hotkey_to_uid hk mg)) (sort_key fst cards)"

definition commit_weights_to_chain ::
  "validator_env \<Rightarrow> (ident \<times> score_card) list \<Rightarrow> validator \<Rightarrow> string option validated" where
  "commit_weights_to_chain env cards s =
     (case vv_chain env of
        None \<Rightarrow> (Inr None, s)
      | Some client \<Rightarrow>
          let pairs = known_uids (va_metagraph s) cards
          in if pairs = [] then (Inr None, s)
             else case set_weights client (map fst pairs) (map snd pairs) s of
                    (Inl e, s1) \<Rightarrow> (Inl e, s1)
                  | (Inr tx, s1) \<Rightarrow> (Inr (Some tx), s1))"

text \<open>The snapshot, its message and, for an epoch, the history rows; a failure to save those is logged and
  swallowed (\<open>vv_history_fails\<close>).\<close>

definition record_weights ::
  "validator_env \<Rightarrow> int \<Rightarrow> string option \<Rightarrow> (ident \<times> score_card) list \<Rightarrow> validator \<Rightarrow> weight_snapshot \<times> validator" where
  "record_weights env netuid epoch_id cards s =
     (let weights = map (\<lambda>(hk, c). (hk, sc_final_score c)) (sort_key fst cards);
          snapshot = \<lparr>ws_snapshot_id = vv_uuid env (va_uuid s), ws_netuid = netuid, ws_weights = weights,
                      ws_created_at = vv_now env\<rparr>;
          s1 = save_snapshot snapshot (s\<lparr>va_uuid := Suc (va_uuid s)\<rparr>);
          s2 = publish_validator env ''validator.weights.published''
                 (WeightsPublished (ws_snapshot_id snapshot) netuid weights epoch_id) s1
      in (snapshot,
          if truthy epoch_id \<and> \<not> vv_history_fails env
          then save_scorecard_history (vv_now env) (the epoch_id) (ws_snapshot_id snapshot) cards s2 else s2))"

definition publish_weight_snapshot ::
  "validator_env \<Rightarrow> int option \<Rightarrow> string option \<Rightarrow> validator \<Rightarrow> weight_snapshot \<times> validator" where
  "publish_weight_snapshot env netuid epoch_id s =
     (let nu = (case netuid of None \<Rightarrow> vv_bittensor_netuid env | Some n \<Rightarrow> n);
          (cards, s1) = score_all env (sort_key fst (list_node_capabilities s)) s;
          (snapshot, s2) = record_weights env nu epoch_id cards s1
      in (snapshot,
          if vv_chain env \<noteq> None \<and> vv_bittensor_enabled env then snd (commit_weights_to_chain env cards s2) else s2))"

section \<open>Audit reports\<close>

definition AUDIT_EPOCH_LENGTH :: int where
  "AUDIT_EPOCH_LENGTH = 360"

definition compute_epoch_window :: "int \<Rightarrow> int \<Rightarrow> string \<times> int \<times> int" where
  "compute_epoch_window current_block netuid =
     (let end_block = current_block div AUDIT_EPOCH_LENGTH * AUDIT_EPOCH_LENGTH
      in (show_int netuid @ ''-'' @ show_int end_block, end_block - AUDIT_EPOCH_LENGTH, end_block))"

definition report_window :: "time \<Rightarrow> time \<times> time" where
  "report_window now = (now - seconds (AUDIT_EPOCH_LENGTH * 12 + 600), now + seconds 60)"

definition report_body :: "validator_env \<Rightarrow> string \<Rightarrow> int \<Rightarrow> int \<Rightarrow> int \<Rightarrow> validator \<Rightarrow> audit_body" where
  "report_body env epoch_id start_block end_block nu s =
     (let (since, until) = report_window (vv_now env);
          challenges = list_probe_challenges_since since until s;
          results = list_probe_results_since since until s;
          snapshots = list_weight_snapshots_between nu since until s
      in \<lparr>ab_epoch_id = epoch_id, ab_netuid = nu, ab_start_block = start_block, ab_end_block = end_block,
          ab_generated_at = vv_now env,
          ab_probes = map (\<lambda>c. (c, filter (\<lambda>r. pr_challenge_id r = pc_challenge_id c) results)) challenges,
          ab_scorecards = sort_key hr_hotkey (filter (\<lambda>h. hr_epoch_id h = epoch_id) (va_history s)),
          ab_weight_snapshot = (if snapshots = [] then None else Some (last snapshots))\<rparr>)"

text \<open>The report is anchored before it is stored; if storing it fails (\<open>vv_report_fails\<close>) the call raises.\<close>

definition generate_audit_report ::
  "validator_env \<Rightarrow> string \<Rightarrow> int \<Rightarrow> int \<Rightarrow> int option \<Rightarrow> validator \<Rightarrow> audit_report validated" where
  "generate_audit_report env epoch_id start_block end_block netuid s =
     (let nu = (case netuid of Some n \<Rightarrow> n | None \<Rightarrow>
                 (case vv_chain env of Some client \<Rightarrow> cl_netuid client | None \<Rightarrow> vv_bittensor_netuid env));
          body = report_body env epoch_id start_block end_block nu s;
          sha = vv_report_digest env body;
          (signature, signer) = (case vv_chain env of
             None \<Rightarrow> ([], []) | Some _ \<Rightarrow> (case vv_sign env body of None \<Rightarrow> ([], []) | Some x \<Rightarrow> x));
          tx = (case vv_chain env of
                  None \<Rightarrow> None | Some client \<Rightarrow> if vv_bittensor_enabled env then cl_set_commitment client sha else None);
          s1 = (if tx = None then s else s\<lparr>va_extrinsics := va_extrinsics s @ [SetCommitment sha]\<rparr>);
          report = \<lparr>ar_epoch_id = epoch_id, ar_body = body, ar_sha256 = sha, ar_signature = signature,
                    ar_signer_hotkey = signer, ar_commitment_tx = tx, ar_created_at = vv_now env\<rparr>
      in if vv_report_fails env then (Inl StoreError, s1)
         else (Inr report,
               publish_validator env ''audit.report.published'' (AuditPublished epoch_id sha tx) (save_audit_report report s1)))"

text \<open>The epoch hook of the worker loop: \<open>last_end\<close> is the worker's own variable and a block number that
  the chain does not report is \<open>None\<close>.  A report that raises leaves \<open>last_end\<close> as it was, so that a later
  tick publishes the epoch again.\<close>

definition epoch_tick :: "validator_env \<Rightarrow> int option \<Rightarrow> int option \<times> validator \<Rightarrow> int option \<times> validator" where
  "epoch_tick env current_block w =
     (let (last_end, s) = w in
      if \<not> vv_bittensor_enabled env then (last_end, s)
      else case (vv_chain env, current_block) of
        (Some client, Some block) \<Rightarrow>
          let (epoch_id, start_block, end_block) = compute_epoch_window block (cl_netuid client)
          in if (last_end = None \<or> end_block > the last_end) \<and> block \<ge> end_block + 2
             then let s1 = snd (publish_weight_snapshot env (Some (cl_netuid client)) (Some epoch_id) s)
                  in case generate_audit_report env epoch_id start_block end_block (Some (cl_netuid client)) s1 of
                       (Inl _, s2) \<Rightarrow> (last_end, s2)
                     | (Inr _, s2) \<Rightarrow> (Some end_block, s2)
             else (last_end, s)
      | _ \<Rightarrow> (last_end, s))"

section \<open>The inference canary\<close>

text \<open>What the request to the gateway brings: an error or a body that cannot be read, or the text of the
  first choice (if it is one) and the number of tokens (\<open>None\<close> if that part cannot be read).\<close>

datatype canary_reply = NoReply | Reply "string option" "int option"

definition canary_prompt :: "string \<Rightarrow> string" where
  "canary_prompt nonce =
     ''You will receive a token. Echo it back verbatim as the first '' @
     ''word of your reply. Your reply must start exactly with the '' @
     ''token followed by a space and the word DONE. Token: '' @ nonce"

definition upper_letter :: "char \<Rightarrow> char" where
  "upper_letter c = (if is_lower c then char_of (of_char c - 32 :: nat) else c)"

text \<open>\<^verbatim>\<open>s.replace(old, new)\<close> for an \<^verbatim>\<open>old\<close> that is not empty.\<close>

function replace_text :: "string \<Rightarrow> string \<Rightarrow> string \<Rightarrow> string" where
  "replace_text old new s =
     (if s = [] \<or> old = [] then s
      else if starts_with old s then new @ replace_text old new (drop (length old) s)
      else hd s # replace_text old new (tl s))"
  by pat_completeness auto
termination by (relation "measure (\<lambda>(old, new, s). length s)") (auto simp: length_greater_0_conv [symmetric] simp del: length_greater_0_conv)

declare replace_text.simps [simp del]

definition response_signature :: "validator_env \<Rightarrow> string \<Rightarrow> string" where
  "response_signature env response =
     take 16 (vv_digest env (take 64 (replace_text (map upper_letter (vv_nonce env)) [] (map upper_letter response))))"

definition response_text :: "canary_reply \<Rightarrow> string" where
  "response_text reply = (case reply of Reply (Some content) _ \<Rightarrow> strip content | _ \<Rightarrow> [])"

definition content_given :: "canary_reply \<Rightarrow> bool" where
  "content_given reply \<longleftrightarrow> (case reply of Reply (Some content) _ \<Rightarrow> content \<noteq> [] | _ \<Rightarrow> False)"

definition canary_result ::
  "validator_env \<Rightarrow> canary_reply \<Rightarrow> rat \<Rightarrow> time option \<Rightarrow> probe_challenge \<Rightarrow> probe_result" where
  "canary_result env reply latency observed c =
     (let response = response_text reply;
          success = content_given reply \<and> in_text (vv_nonce env) response;
          tokens = (case reply of Reply _ (Some n) \<Rightarrow> n | _ \<Rightarrow> 0)
      in \<lparr>pr_challenge_id = pc_challenge_id c, pr_hotkey = pc_hotkey c, pr_node_id = pc_node_id c,
          pr_latency_ms = latency, pr_throughput = (if success then of_int tokens / max latency 1 * 1000 else 0),
          pr_success = success, pr_benchmark_signature = (if success then Some (response_signature env response) else None),
          pr_proxy_suspected = (content_given reply \<and> \<not> success),
          pr_readiness_failures = (case reply of Reply _ (Some _) \<Rightarrow> 0 | _ \<Rightarrow> 1),
          pr_prompt_sha256 = Some (vv_digest env (canary_prompt (vv_nonce env))),
          pr_response_sha256 = (if response = [] then None else Some (vv_digest env response)),
          pr_observed_at = observed\<rparr>)"

definition run_inference_canary ::
  "validator_env \<Rightarrow> canary_reply \<Rightarrow> rat \<Rightarrow> time option \<Rightarrow> ident \<Rightarrow> ident \<Rightarrow> validator \<Rightarrow> probe_result validated" where
  "run_inference_canary env reply latency observed hk model_id s =
     (case get_capability hk s of
        None \<Rightarrow> (Inl UnknownCapabilityError, s)
      | Some cap \<Rightarrow>
          let c = \<lparr>pc_challenge_id = vv_uuid env (va_uuid s), pc_hotkey = hk, pc_node_id = n_node_id cap,
                   pc_kind = ''inference_verification'',
                   pc_payload = Some \<lparr>cc_model_id = model_id, cc_prompt = canary_prompt (vv_nonce env), cc_nonce = vv_nonce env,
                                      cc_expected_prefix = vv_nonce env @ '' DONE''\<rparr>,
                   pc_created_at = vv_now env\<rparr>;
              s1 = save_challenge c (s\<lparr>va_uuid := Suc (va_uuid s)\<rparr>);
              r = (if vv_canary_ready env then canary_result env reply latency observed c
                   else (canary_result env NoReply 0 observed c))
          in (Inr r, add_result r s1))"

definition serving_pairs :: "validator \<Rightarrow> (ident \<times> ident) list" where
  "serving_pairs s =
     concat (map (\<lambda>x. map (\<lambda>a. (fx_hotkey x, fst a)) (filter (\<lambda>a. snd a \<noteq> []) (fx_inference_assignments x))) (va_flux s))"

definition run_attestation_tick ::
  "validator_env \<Rightarrow> (ident \<Rightarrow> ident \<Rightarrow> canary_reply) \<Rightarrow> rat \<Rightarrow> time option \<Rightarrow> validator \<Rightarrow> probe_result option \<times> validator" where
  "run_attestation_tick env reply latency observed s =
     (let pairs = serving_pairs s
      in if pairs = [] then (None, s)
         else let idx = (vv_now env div seconds 1) div 60 mod int (length pairs);
                  (hk, model_id) = pairs ! nat idx
              in case run_inference_canary env (reply hk model_id) latency observed hk model_id s of
                   (Inl _, s1) \<Rightarrow> (None, s1)
                 | (Inr r, s1) \<Rightarrow> (Some r, s1))"

section \<open>The worker's other steps\<close>

definition sync_metagraph :: "validator_env \<Rightarrow> metagraph_entry list \<Rightarrow> validator \<Rightarrow> metagraph_entry list \<times> validator" where
  "sync_metagraph env entries s =
     (if vv_chain env = None then ([], s)
      else (entries, s\<lparr>va_metagraph := metagraph_update (vv_now env) entries (va_metagraph s)\<rparr>))"

definition validator_subjects :: "string list" where
  "validator_subjects = [''probe.result.recorded'', ''validator.weights.published'']"

datatype processed_event = ProbeDelivered ident | WeightsDelivered ident

definition settle_event :: "validator_env \<Rightarrow> validator_message bus_message \<Rightarrow> validator \<Rightarrow> processed_event option \<times> validator" where
  "settle_event env m s =
     (let finished = s\<lparr>va_bus := snd (mark_completed (vv_now env) (msg_delivery_id m) (va_bus s))\<rparr>
      in case msg_payload m of
           ProbeRecorded _ hk _ _ \<Rightarrow> (Some (ProbeDelivered hk), finished)
         | WeightsPublished sid _ _ _ \<Rightarrow> (Some (WeightsDelivered sid), finished)
         | AuditPublished _ _ _ \<Rightarrow>
             (None, s\<lparr>va_bus := snd (mark_failed (vv_now env) (msg_delivery_id m)
                                      (''unsupported workflow subject='' @ msg_subject m) False None (va_bus s))\<rparr>))"

fun settle_events ::
  "validator_env \<Rightarrow> validator_message bus_message list \<Rightarrow> validator \<Rightarrow> processed_event list \<times> validator" where
  "settle_events env [] s = ([], s)"
| "settle_events env (m # ms) s =
     (let (r, s1) = settle_event env m s; (rs, s2) = settle_events env ms s1
      in (case r of None \<Rightarrow> rs | Some p \<Rightarrow> p # rs, s2))"

definition process_pending_events_validator :: "validator_env \<Rightarrow> nat \<Rightarrow> validator \<Rightarrow> processed_event list \<times> validator" where
  "process_pending_events_validator env n s =
     (let (events, bus) = claim_pending (vv_now env) ''validator-worker'' validator_subjects n (va_bus s)
      in settle_events env events (s\<lparr>va_bus := bus\<rparr>))"

end
