(* ===== verification/Probing_Properties.thy ===== *)
theory Probing_Properties
  imports Probing Scoring_Properties
begin

text \<open>
  What probing, scoring and publishing guarantee together: every stored result answers one challenge
  (\<open>every_result_answers_its_challenge\<close>, by an invariant over all operations of the validator), the published
  weights are the scores of the admitted miners (\<open>weights_are_scores_of_admitted\<close>), a worker announces each
  epoch whose end it sees once as long as its reports can be stored (\<open>epoch_published_once\<close>), and the audit
  report of an epoch without earlier rows carries the scorecards behind the weights
  (\<open>report_carries_the_weights\<close>).  What happens otherwise is in \<open>failed_report_republishes\<close> and
  \<open>republished_epoch_doubles_rows\<close>.
\<close>


section \<open>Every result answers one challenge\<close>

definition env_with :: "(nat \<Rightarrow> ident) \<Rightarrow> validator_env \<Rightarrow> bool" where
  "env_with u env \<longleftrightarrow> vv_uuid env = u"

definition probes_inv :: "(nat \<Rightarrow> ident) \<Rightarrow> validator \<Rightarrow> bool" where
  "probes_inv u s \<longleftrightarrow>
     distinct (map pc_challenge_id (va_challenges s)) \<and>
     pc_challenge_id ` set (va_challenges s) \<subseteq> u ` {..<va_uuid s} \<and>
     distinct (map result_key (va_results s)) \<and>
     (\<forall>r \<in> set (va_results s). \<exists>c \<in> set (va_challenges s).
        pc_challenge_id c = pr_challenge_id r \<and> pc_hotkey c = pr_hotkey r \<and> pc_node_id c = pr_node_id r)"

text \<open>What most operations leave alone: challenges and results stay, identifiers only advance.\<close>

definition probes_kept :: "validator \<Rightarrow> validator \<Rightarrow> bool" where
  "probes_kept s t \<longleftrightarrow> va_challenges t = va_challenges s \<and> va_results t = va_results s \<and> va_uuid s \<le> va_uuid t"

lemma probes_kept_refl: "probes_kept s s"
  by (simp add: probes_kept_def)

lemma probes_kept_trans: "probes_kept s t \<Longrightarrow> probes_kept t w \<Longrightarrow> probes_kept s w"
  by (simp add: probes_kept_def)

lemma probes_inv_kept: "probes_kept s t \<Longrightarrow> probes_inv u s \<Longrightarrow> probes_inv u t"
  unfolding probes_kept_def probes_inv_def by (auto intro: subset_trans [OF _ image_mono])

lemma small_ops_keep:
  "probes_kept s (upsert_capability cap s)" "probes_kept s (snd (sync_from_control_plane rows s))"
  "probes_kept s (snd (init_flux_state hk nid tot av s))" "probes_kept s (save_scorecard sc s)"
  "probes_kept s (save_snapshot w s)" "probes_kept s (admit_miner e s)" "probes_kept s (snd (dismiss_miner hk s))"
  "probes_kept s (save_scorecard_history now ep sid cards s)" "probes_kept s (save_audit_report rep s)"
  "probes_kept s (publish_validator env subj msg s)" "probes_kept s (s\<lparr>va_uuid := Suc (va_uuid s)\<rparr>)"
  "probes_kept s (snd (sync_metagraph env entries s))" "probes_kept s (snd (set_weights client uids ws s))"
  "probes_kept s (s\<lparr>va_extrinsics := xs\<rparr>)" "probes_kept s (s\<lparr>va_bus := b\<rparr>)"
  by (simp_all add: probes_kept_def upsert_capability_def Let_def sync_from_control_plane_def init_flux_state_def save_scorecard_def
      save_snapshot_def admit_miner_def dismiss_miner_def save_scorecard_history_def save_audit_report_def
      publish_validator_def sync_metagraph_def set_weights_def split: option.splits)

lemma register_keeps: "probes_kept s (snd (register_capability env cap s))"
  by (auto simp: register_capability_def Let_def probes_kept_refl intro: probes_kept_trans small_ops_keep)

lemma score_hotkey_keeps: "probes_kept s (snd (score_hotkey env p s))"
  by (simp add: score_hotkey_def Let_def probes_kept_refl small_ops_keep)

lemma score_all_keeps: "probes_kept s (snd (score_all env ps s))"
proof (induction env ps s rule: score_all.induct)
  case (2 env p ps s)
  have "probes_kept (snd (score_hotkey env p s)) (snd (score_all env ps (snd (score_hotkey env p s))))"
    by (rule "2.IH" [OF refl prod.collapse])
  with score_hotkey_keeps [of s env p] show ?case
    by (auto simp: case_prod_beta split: option.splits intro: probes_kept_trans)
qed (simp add: probes_kept_refl)

lemma commit_keeps: "probes_kept s (snd (commit_weights_to_chain env cards s))"
proof -
  have "probes_kept s (snd (case set_weights client us ws s of (Inl e, s1) \<Rightarrow> (Inl e, s1) | (Inr tx, s1) \<Rightarrow> (Inr (Some tx), s1)))"
    for client us ws
    using small_ops_keep(13) [of s client us ws] by (cases "set_weights client us ws s") (simp split: sum.splits)
  then show ?thesis by (simp add: commit_weights_to_chain_def Let_def probes_kept_refl split: option.splits)
qed

lemma record_keeps: "probes_kept s (snd (record_weights env nu ep cards s))"
  by (simp add: record_weights_def Let_def probes_kept_def save_snapshot_def publish_validator_def save_scorecard_history_def)

lemma publish_keeps: "probes_kept s (snd (publish_weight_snapshot env nu ep s))"
proof -
  obtain cards s1 where r: "score_all env (sort_key fst (list_node_capabilities s)) s = (cards, s1)"
    by (rule prod.exhaust)
  have "probes_kept s s1" using score_all_keeps [of s env "sort_key fst (list_node_capabilities s)"] by (simp add: r)
  have "probes_kept s1 (snd (record_weights env n ep cards s1))"
      "probes_kept s1 (snd (commit_weights_to_chain env cards (snd (record_weights env n ep cards s1))))" for n
    by (rule record_keeps, rule probes_kept_trans [OF record_keeps commit_keeps])
  then have "probes_kept s1 (snd (publish_weight_snapshot env nu ep s))"
    by (simp add: publish_weight_snapshot_def r case_prod_beta Let_def)
  with \<open>probes_kept s s1\<close> show ?thesis by (rule probes_kept_trans)
qed

lemma report_keeps: "probes_kept s (snd (generate_audit_report env ep a b nu s))"
  by (simp add: generate_audit_report_def Let_def case_prod_beta probes_kept_def save_audit_report_def publish_validator_def)

lemma tick_keeps: "probes_kept s (snd (epoch_tick env blk (last_end, s)))"
proof -
  have both: "probes_kept s (snd (generate_audit_report env ep a b nu (snd (publish_weight_snapshot env nu' ep' s))))"
    for ep a b nu nu' ep'
    by (rule probes_kept_trans [OF publish_keeps report_keeps])
  have "probes_kept s (snd (case generate_audit_report env ep a b nu (snd (publish_weight_snapshot env nu' ep' s)) of
      (Inl _, s2) \<Rightarrow> (last_end, s2) | (Inr _, s2) \<Rightarrow> (f, s2)))" for ep a b nu nu' ep' f
    using both [of ep a b nu nu' ep'] by (simp add: case_prod_beta split: sum.split)
  then show ?thesis
    unfolding epoch_tick_def by (simp add: probes_kept_refl Let_def split: option.split prod.split_asm prod.split)
qed

lemma settle_keeps: "probes_kept s (snd (settle_event env m s))"
  by (simp add: settle_event_def Let_def probes_kept_def split: validator_message.splits)

lemma settle_all_keeps: "probes_kept s (snd (settle_events env ms s))"
proof (induction env ms s rule: settle_events.induct)
  case (2 env m ms s)
  have "probes_kept (snd (settle_event env m s)) (snd (settle_events env ms (snd (settle_event env m s))))"
    by (rule "2.IH" [OF refl prod.collapse])
  with settle_keeps [of s env m] show ?case
    by (auto simp: case_prod_beta split: option.splits intro: probes_kept_trans)
qed (simp add: probes_kept_refl)

lemma process_keeps: "probes_kept s (snd (process_pending_events_validator env n s))"
  unfolding process_pending_events_validator_def
  by (simp add: case_prod_beta probes_kept_trans [OF small_ops_keep(15) settle_all_keeps])

lemma new_challenge_inv:
  assumes u: "inj u" and inv: "probes_inv u s" and c: "pc_challenge_id c = u (va_uuid s)"
  shows "probes_inv u (save_challenge c (s\<lparr>va_uuid := Suc (va_uuid s)\<rparr>))"
proof -
  have "pc_challenge_id c \<notin> pc_challenge_id ` set (va_challenges s)"
    using inv c inj_image_mem_iff [OF u, of "va_uuid s" "{..<va_uuid s}"] by (auto simp: probes_inv_def)
  then show ?thesis
    using inv c unfolding probes_inv_def save_challenge_def by (auto simp: lessThan_Suc)
qed

lemma new_result_inv:
  assumes "probes_inv u s" "c \<in> set (va_challenges s)" "pc_challenge_id c = pr_challenge_id r" "pc_hotkey c = pr_hotkey r"
    "pc_node_id c = pr_node_id r" "result_key r \<notin> result_key ` set (va_results s)"
  shows "probes_inv u (add_result r s)"
  using assms unfolding probes_inv_def add_result_def by auto

lemma create_probe_inv:
  assumes "inj u" "env_with u env" "probes_inv u s"
  shows "probes_inv u (snd (create_probe env hk nid kind s))"
  using assms new_challenge_inv [OF assms(1,3)]
  by (simp add: create_probe_def Let_def env_with_def split: option.split)

lemma submit_inv:
  assumes "probes_inv u s"
  shows "probes_inv u (snd (submit_probe_result env r s))"
proof (cases "get_challenge (pr_challenge_id r) s")
  case None
  with assms show ?thesis by (simp add: submit_probe_result_def)
next
  case (Some c)
  have c: "c \<in> set (va_challenges s)" "pc_challenge_id c = pr_challenge_id r"
    using Some by (auto simp: get_challenge_def dest: get_row_SomeD)
  have new: "result_key r \<notin> result_key ` set (va_results s)" if "get_result (pr_challenge_id r) (pr_hotkey r) s = None"
    using that by (auto simp: get_result_def get_row_None_iff result_key_def)
  have "probes_inv u (publish_validator env subj msg (save_scorecard card (add_result r s)))"
    if "\<not> (pc_hotkey c \<noteq> pr_hotkey r \<or> pc_node_id c \<noteq> pr_node_id r)"
      "get_result (pr_challenge_id r) (pr_hotkey r) s = None" for subj msg card
    using that new [OF that(2)] c
    by (intro probes_inv_kept [OF small_ops_keep(10)] probes_inv_kept [OF small_ops_keep(4)] new_result_inv [OF assms]) auto
  then show ?thesis
    using assms Some unfolding submit_probe_result_def Let_def
    by (cases "get_capability (pr_hotkey r) s") (simp_all del: not_None_eq)
qed

lemma canary_ids [simp]:
  "pr_challenge_id (canary_result env reply l t c) = pc_challenge_id c" "pr_hotkey (canary_result env reply l t c) = pc_hotkey c"
  "pr_node_id (canary_result env reply l t c) = pc_node_id c"
  by (simp_all add: canary_result_def Let_def)

lemma canary_inv:
  assumes u: "inj u" and env: "env_with u env" and inv: "probes_inv u s"
  shows "probes_inv u (snd (run_inference_canary env reply l t hk model s))"
proof (cases "get_capability hk s")
  case None
  with inv show ?thesis by (simp add: run_inference_canary_def)
next
  case (Some cap)
  have "probes_inv u (add_result r (save_challenge c (s\<lparr>va_uuid := Suc (va_uuid s)\<rparr>)))"
    if c: "pc_challenge_id c = u (va_uuid s)" and r: "pr_challenge_id r = pc_challenge_id c" "pr_hotkey r = pc_hotkey c"
      "pr_node_id r = pc_node_id c" for c r
  proof (rule new_result_inv [OF new_challenge_inv [OF u inv c]])
    show "c \<in> set (va_challenges (save_challenge c (s\<lparr>va_uuid := Suc (va_uuid s)\<rparr>)))" by (simp add: save_challenge_def)
    have "u (va_uuid s) \<notin> pr_challenge_id ` set (va_results s)"
    proof
      assume "u (va_uuid s) \<in> pr_challenge_id ` set (va_results s)"
      then obtain r where "r \<in> set (va_results s)" "pr_challenge_id r = u (va_uuid s)" by auto
      with inv obtain c' where c': "c' \<in> set (va_challenges s)" "pc_challenge_id c' = u (va_uuid s)"
        unfolding probes_inv_def by metis
      have "pc_challenge_id c' \<in> u ` {..<va_uuid s}" using inv c'(1) unfolding probes_inv_def by auto
      with c'(2) inj_image_mem_iff [OF u, of "va_uuid s" "{..<va_uuid s}"] show False by simp
    qed
    then show "result_key r \<notin> result_key ` set (va_results (save_challenge c (s\<lparr>va_uuid := Suc (va_uuid s)\<rparr>)))"
      using c r by (auto simp: save_challenge_def result_key_def)
  qed (use r in simp_all)
  then show ?thesis using Some env by (simp add: run_inference_canary_def Let_def env_with_def)
qed

lemma attestation_inv:
  assumes "inj u" "env_with u env" "probes_inv u s"
  shows "probes_inv u (snd (run_attestation_tick env reply l t s))"
proof (cases "serving_pairs s = []")
  case True
  with assms(3) show ?thesis by (simp add: run_attestation_tick_def)
next
  case False
  define p where "p = serving_pairs s ! nat (vv_now env div seconds 1 div 60 mod int (length (serving_pairs s)))"
  have "snd (run_attestation_tick env reply l t s)
      = snd (run_inference_canary env (reply (fst p) (snd p)) l t (fst p) (snd p) s)"
    using False unfolding run_attestation_tick_def Let_def p_def [symmetric]
    by (simp add: case_prod_beta split: sum.split)
  with canary_inv [OF assms] show ?thesis by simp
qed

section \<open>Runs of the validator\<close>

definition empty_validator :: validator where
  "empty_validator =
     \<lparr>va_capabilities = [], va_challenges = [], va_results = [], va_scorecards = [], va_snapshots = [], va_history = [],
      va_reports = [], va_whitelist = [], va_flux = [],
      va_metagraph = \<lparr>mc_entries = [], mc_by_uid = [], mc_last_synced_at = None\<rparr>, va_bus = empty_bus,
      va_extrinsics = [], va_uuid = 0\<rparr>"

inductive validator_step :: "(nat \<Rightarrow> ident) \<Rightarrow> validator \<Rightarrow> validator \<Rightarrow> bool" for u where
  register_step: "env_with u env \<Longrightarrow> validator_step u s (snd (register_capability env cap s))"
| inventory_step: "validator_step u s (snd (sync_from_control_plane rows s))"
| admit_step: "validator_step u s (admit_miner e s)"
| dismiss_step: "validator_step u s (snd (dismiss_miner hk s))"
| probe_step: "env_with u env \<Longrightarrow> validator_step u s (snd (create_probe env hk nid kind s))"
| result_step: "env_with u env \<Longrightarrow> validator_step u s (snd (submit_probe_result env r s))"
| canary_step: "env_with u env \<Longrightarrow> validator_step u s (snd (run_inference_canary env reply l t hk model s))"
| attestation_step: "env_with u env \<Longrightarrow> validator_step u s (snd (run_attestation_tick env replies l t s))"
| weights_step: "env_with u env \<Longrightarrow> validator_step u s (snd (publish_weight_snapshot env nu ep s))"
| audit_step: "env_with u env \<Longrightarrow> validator_step u s (snd (generate_audit_report env ep' a b nu s))"
| epoch_step: "env_with u env \<Longrightarrow> validator_step u s (snd (epoch_tick env blk (last_end, s)))"
| metagraph_step: "env_with u env \<Longrightarrow> validator_step u s (snd (sync_metagraph env entries s))"
| delivery_step: "env_with u env \<Longrightarrow> validator_step u s (snd (process_pending_events_validator env n s))"

lemma validator_step_inv:
  assumes "inj u" "validator_step u s t" "probes_inv u s"
  shows "probes_inv u t"
  using assms(2,3,1)
  by (induction rule: validator_step.induct)
     (blast intro: probes_inv_kept [OF register_keeps] probes_inv_kept [OF small_ops_keep(2)]
       probes_inv_kept [OF small_ops_keep(6)] probes_inv_kept [OF small_ops_keep(7)] create_probe_inv submit_inv canary_inv
       attestation_inv probes_inv_kept [OF publish_keeps] probes_inv_kept [OF report_keeps] probes_inv_kept [OF tick_keeps]
       probes_inv_kept [OF small_ops_keep(12)] probes_inv_kept [OF process_keeps])+

lemma validator_run_inv:
  assumes "inj u" "(validator_step u)\<^sup>*\<^sup>* empty_validator s"
  shows "probes_inv u s"
  using assms(2)
proof (induction rule: rtranclp_induct)
  case base
  show ?case by (simp add: probes_inv_def empty_validator_def)
next
  case (step s t)
  then show ?case using validator_step_inv [OF assms(1)] by blast
qed

lemma distinct_key_one:
  assumes "distinct_keys key xs" "x \<in> set xs"
  shows "length (filter (\<lambda>y. key y = key x) xs) = 1"
  using assms
proof (induction xs)
  case (Cons a xs)
  show ?case
  proof (cases "key a = key x")
    case True
    with Cons.prems have "filter (\<lambda>y. key y = key x) xs = []" by (auto simp: filter_empty_conv rev_image_eqI)
    with True show ?thesis by simp
  next
    case False
    with Cons show ?thesis by auto
  qed
qed simp

text \<open>
  (C36) Every stored probe result answers exactly one challenge.  Whatever the validator does, in any
  order, each result belongs to a challenge issued to that hotkey and node, no challenge has two results of a
  hotkey, and sending a result a second time is refused without a trace.
\<close>

theorem every_result_answers_its_challenge:
  assumes "inj u" and "(validator_step u)\<^sup>*\<^sup>* empty_validator s" and "r \<in> set (va_results s)"
  shows "(\<exists>c \<in> set (va_challenges s). pc_challenge_id c = pr_challenge_id r \<and> pc_hotkey c = pr_hotkey r \<and> pc_node_id c = pr_node_id r) \<and>
    length (filter (\<lambda>r'. result_key r' = result_key r) (va_results s)) = 1 \<and>
    (result_key r'' = result_key r \<longrightarrow> submit_probe_result env r'' s = (Inl InvalidProbeResultError, s))"
proof -
  have inv: "probes_inv u s" by (rule validator_run_inv [OF assms(1,2)])
  then obtain c where c: "c \<in> set (va_challenges s)" "pc_challenge_id c = pr_challenge_id r" "pc_hotkey c = pr_hotkey r"
    "pc_node_id c = pr_node_id r"
    using assms(3) by (auto simp: probes_inv_def)
  have one: "length (filter (\<lambda>r'. result_key r' = result_key r) (va_results s)) = 1"
    using inv assms(3) by (intro distinct_key_one) (simp_all add: probes_inv_def)
  have "get_row pc_challenge_id (pr_challenge_id r) (va_challenges s) = Some c"
    using inv c get_row_distinct by (metis probes_inv_def)
  moreover have "get_row result_key (result_key r) (va_results s) \<noteq> None"
    using assms(3) by (auto simp: get_row_None_iff)
  ultimately have "submit_probe_result env r'' s = (Inl InvalidProbeResultError, s)" if "result_key r'' = result_key r"
    using that by (auto simp: submit_probe_result_def get_challenge_def get_result_def result_key_def)
  with c one show ?thesis by blast
qed

section \<open>What a snapshot says\<close>

definition scorecard_of :: "validator_env \<Rightarrow> validator \<Rightarrow> ident \<times> node list \<Rightarrow> score_card option" where
  "scorecard_of env s p =
     (let results = list_results (Some (fst p)) (Some (score_window_start env)) s
      in if snd p = [] \<or> vv_whitelist_enabled env \<and> \<not> admitted (fst p) s \<or> results = [] then None
         else Some (compute_scorecard (vv_score env) (aggregate_capability (snd p)) results (aggregate_flux_state (fst p) s)))"

lemma scorecard_of_Some:
  "scorecard_of env s (hk, nodes) = Some c \<longleftrightarrow> nodes \<noteq> [] \<and> (vv_whitelist_enabled env \<longrightarrow> admitted hk s) \<and>
     list_results (Some hk) (Some (score_window_start env)) s \<noteq> [] \<and>
     c = compute_scorecard (vv_score env) (aggregate_capability nodes)
           (list_results (Some hk) (Some (score_window_start env)) s) (aggregate_flux_state hk s)"
  by (auto simp: scorecard_of_def Let_def)

text \<open>What a score is computed from does not change while scores are saved.\<close>

lemma scorecard_of_saved [simp]: "scorecard_of env (save_scorecard c s) = scorecard_of env s"
  by (rule ext)
     (simp add: scorecard_of_def save_scorecard_def list_results_def admitted_def aggregate_flux_state_def states_for_hotkey_def Let_def)

lemma score_hotkey_fst: "fst (score_hotkey env p s) = scorecard_of env s p"
  by (simp add: score_hotkey_def scorecard_of_def Let_def)

lemma score_hotkey_frame:
  "scorecard_of env (snd (score_hotkey env' p s)) = scorecard_of env s"
  "va_metagraph (snd (score_hotkey env' p s)) = va_metagraph s" "va_extrinsics (snd (score_hotkey env' p s)) = va_extrinsics s"
  "va_history (snd (score_hotkey env' p s)) = va_history s" "va_snapshots (snd (score_hotkey env' p s)) = va_snapshots s"
  by (simp_all add: score_hotkey_def Let_def) (simp_all add: save_scorecard_def)

lemma score_all_fst:
  "fst (score_all env ps s) = List.map_filter (\<lambda>p. map_option (Pair (fst p)) (scorecard_of env s p)) ps"
proof (induction ps arbitrary: s)
  case (Cons p ps)
  show ?case
    using Cons.IH [of "snd (score_hotkey env p s)"] score_hotkey_fst [of env p s]
    by (auto simp: case_prod_beta map_filter_simps score_hotkey_frame split: option.splits)
qed (simp add: map_filter_simps)

lemma score_all_frame:
  "va_metagraph (snd (score_all env ps s)) = va_metagraph s" "va_extrinsics (snd (score_all env ps s)) = va_extrinsics s"
  "va_history (snd (score_all env ps s)) = va_history s" "va_snapshots (snd (score_all env ps s)) = va_snapshots s"
  by (induction ps arbitrary: s) (simp_all add: case_prod_beta score_hotkey_frame)

lemma record_weights_frame:
  "va_metagraph (snd (record_weights env nu ep cards s)) = va_metagraph s"
  "va_extrinsics (snd (record_weights env nu ep cards s)) = va_extrinsics s"
  "ws_weights (fst (record_weights env nu ep cards s)) = map (\<lambda>(hk, c). (hk, sc_final_score c)) (sort_key fst cards)"
  by (simp_all add: record_weights_def Let_def save_snapshot_def publish_validator_def save_scorecard_history_def)

lemma set_map_filter: "set (List.map_filter f xs) = {y. \<exists>x \<in> set xs. f x = Some y}"
  by (auto simp: map_filter_def image_iff) (metis option.sel)+

lemma map_filter_map: "List.map_filter f (map g xs) = List.map_filter (f \<circ> g) xs"
  by (induction xs) (simp_all add: List.map_filter_simps split: option.split)

lemma commit_sends:
  "va_extrinsics (snd (commit_weights_to_chain env cards s)) = va_extrinsics s @
     (let pairs = known_uids (va_metagraph s) cards; uids = map fst pairs; shares = normalize_weights (map snd pairs)
      in case vv_chain env of
           None \<Rightarrow> []
         | Some client \<Rightarrow> if pairs \<noteq> [] \<and> cl_set_weights client uids shares \<noteq> None then [SetWeights uids shares] else [])"
  by (simp add: commit_weights_to_chain_def set_weights_def Let_def split: option.split)

text \<open>
  (C35) Published weights are the scores of the admitted miners.  The snapshot names, in the order of the
  hotkeys, exactly the hotkeys that offer a node, are on the whitelist if it is enforced and have answered
  a probe within the scoring window, each with the final score of its combined capability; and what is
  sent to the chain is one extrinsic with all of these scores whose hotkey the metagraph knows, in that order
  and normalised, exactly if a chain is configured and enabled, some hotkey is known and the chain accepts.
\<close>

theorem weights_are_scores_of_admitted:
  fixes env nu ep s
  defines "weights \<equiv> ws_weights (fst (publish_weight_snapshot env nu ep s))"
    and "sent \<equiv> va_extrinsics (snd (publish_weight_snapshot env nu ep s))"
  shows "sorted (map fst weights) \<and>
    ((hk, w) \<in> set weights \<longleftrightarrow>
      (\<exists>nodes. (hk, nodes) \<in> set (list_node_capabilities s) \<and> nodes \<noteq> [] \<and> (vv_whitelist_enabled env \<longrightarrow> admitted hk s) \<and>
         list_results (Some hk) (Some (score_window_start env)) s \<noteq> [] \<and>
         w = sc_final_score (compute_scorecard (vv_score env) (aggregate_capability nodes)
               (list_results (Some hk) (Some (score_window_start env)) s) (aggregate_flux_state hk s)))) \<and>
    sent = va_extrinsics s @
      (let pairs = List.map_filter (\<lambda>(h, v). map_option (\<lambda>uid. (uid, v)) (hotkey_to_uid h (va_metagraph s))) weights;
           uids = map fst pairs; shares = normalize_weights (map snd pairs)
       in case vv_chain env of
            None \<Rightarrow> []
          | Some client \<Rightarrow>
              if vv_bittensor_enabled env \<and> pairs \<noteq> [] \<and> cl_set_weights client uids shares \<noteq> None
              then [SetWeights uids shares] else [])"
proof -
  define ps where "ps = sort_key fst (list_node_capabilities s)"
  define cards where "cards = fst (score_all env ps s)"
  define s1 where "s1 = snd (score_all env ps s)"
  define n where "n = (case nu of None \<Rightarrow> vv_bittensor_netuid env | Some n \<Rightarrow> n)"
  define s2 where "s2 = snd (record_weights env n ep cards s1)"
  have pub: "publish_weight_snapshot env nu ep s = (fst (record_weights env n ep cards s1),
      if vv_chain env \<noteq> None \<and> vv_bittensor_enabled env then snd (commit_weights_to_chain env cards s2) else s2)"
    by (simp add: publish_weight_snapshot_def Let_def case_prod_beta ps_def cards_def s1_def n_def s2_def)
  have w: "weights = map (\<lambda>(hk, c). (hk, sc_final_score c)) (sort_key fst cards)"
    by (simp add: weights_def pub record_weights_frame)
  have card: "(h, c) \<in> set cards \<longleftrightarrow>
      (\<exists>nodes. (h, nodes) \<in> set (list_node_capabilities s) \<and> scorecard_of env s (h, nodes) = Some c)" for h c
    unfolding cards_def score_all_fst set_map_filter ps_def by force
  have mem: "(h, v) \<in> set weights \<longleftrightarrow> (\<exists>nodes c. (h, nodes) \<in> set (list_node_capabilities s) \<and>
      scorecard_of env s (h, nodes) = Some c \<and> v = sc_final_score c)" for h v
  proof -
    have "(h, v) \<in> set weights \<longleftrightarrow> (\<exists>c. (h, c) \<in> set cards \<and> v = sc_final_score c)" unfolding w by force
    then show ?thesis unfolding card by blast
  qed
  have keep: "va_extrinsics s2 = va_extrinsics s" "va_metagraph s2 = va_metagraph s"
    by (simp_all add: s2_def s1_def record_weights_frame score_all_frame)
  have pairs: "known_uids (va_metagraph s) cards =
      List.map_filter (\<lambda>(h, v). map_option (\<lambda>uid. (uid, v)) (hotkey_to_uid h (va_metagraph s))) weights"
    by (simp add: known_uids_def w map_filter_map comp_def case_prod_unfold)
  have "sorted (map fst weights)"
    by (simp add: w case_prod_beta comp_def)
  moreover have "(hk, w) \<in> set weights \<longleftrightarrow>
      (\<exists>nodes. (hk, nodes) \<in> set (list_node_capabilities s) \<and> nodes \<noteq> [] \<and> (vv_whitelist_enabled env \<longrightarrow> admitted hk s) \<and>
         list_results (Some hk) (Some (score_window_start env)) s \<noteq> [] \<and>
         w = sc_final_score (compute_scorecard (vv_score env) (aggregate_capability nodes)
               (list_results (Some hk) (Some (score_window_start env)) s) (aggregate_flux_state hk s)))"
    unfolding mem scorecard_of_Some by simp
  moreover have "sent = va_extrinsics s @
      (let pairs = known_uids (va_metagraph s) cards; uids = map fst pairs; shares = normalize_weights (map snd pairs)
       in case vv_chain env of
            None \<Rightarrow> []
          | Some client \<Rightarrow>
              if vv_bittensor_enabled env \<and> pairs \<noteq> [] \<and> cl_set_weights client uids shares \<noteq> None
              then [SetWeights uids shares] else [])"
    using commit_sends [of env cards s2] unfolding sent_def pub snd_conv keep
    by (cases "vv_chain env") (simp_all add: keep Let_def)
  ultimately show ?thesis unfolding pairs by blast
qed

section \<open>Epochs\<close>

lemma epoch_window_eq:
  "compute_epoch_window block netuid = (epoch_id, start_block, end_block) \<longleftrightarrow>
     end_block = block div 360 * 360 \<and> start_block = end_block - 360 \<and> epoch_id = show_int netuid @ ''-'' @ show_int end_block"
  by (auto simp: compute_epoch_window_def Let_def AUDIT_EPOCH_LENGTH_def)

text \<open>The blocks of an epoch are decided by its end, and neighbouring epochs meet.\<close>

lemma epoch_window_covers:
  assumes "compute_epoch_window block netuid = (epoch_id, start_block, end_block)"
  shows "end_block \<le> block \<and> block < end_block + 360 \<and> end_block - start_block = 360 \<and> end_block mod 360 = 0"
proof -
  have "block div 360 * 360 + block mod 360 = block" "0 \<le> block mod 360" "block mod 360 < 360" by simp_all
  with assms show ?thesis unfolding epoch_window_eq by auto
qed

definition epoch_name :: "int \<Rightarrow> int \<Rightarrow> string" where
  "epoch_name netuid e = show_int netuid @ ''-'' @ show_int e"

lemma epoch_name_inj: "epoch_name n e = epoch_name n e' \<Longrightarrow> e = e'"
  by (auto simp: epoch_name_def dest: show_int_inj)

definition on_network :: "int \<Rightarrow> validator_env \<Rightarrow> bool" where
  "on_network n env \<longleftrightarrow> vv_bittensor_enabled env \<and> (\<exists>client. vv_chain env = Some client \<and> cl_netuid client = n)"

definition epoch_ticks :: "(validator_env \<times> int option) list \<Rightarrow> int option \<times> validator \<Rightarrow> int option \<times> validator" where
  "epoch_ticks readings w = foldl (\<lambda>w (env, block). epoch_tick env block w) w readings"

lemma record_weights_history:
  "ep \<noteq> [] \<Longrightarrow> \<not> vv_history_fails env \<Longrightarrow> va_history (snd (record_weights env nu (Some ep) cards s)) = va_history s @
     map (\<lambda>(hk, c). \<lparr>hr_epoch_id = ep, hr_snapshot_id = vv_uuid env (va_uuid s), hr_hotkey = hk, hr_card = c,
                     hr_computed_at = vv_now env\<rparr>) cards"
  by (simp add: record_weights_def Let_def save_snapshot_def publish_validator_def save_scorecard_history_def truthy_iff neq_Nil_conv)

lemma record_weights_snapshot:
  "va_snapshots (snd (record_weights env nu ep cards s)) = va_snapshots s @ [fst (record_weights env nu ep cards s)]"
  "ws_snapshot_id (fst (record_weights env nu ep cards s)) = vv_uuid env (va_uuid s)"
  "ws_netuid (fst (record_weights env nu ep cards s)) = nu"
  "ws_created_at (fst (record_weights env nu ep cards s)) = vv_now env"
  by (simp_all add: record_weights_def Let_def save_snapshot_def publish_validator_def save_scorecard_history_def)

lemma commit_frame:
  "va_history (snd (commit_weights_to_chain env cards s)) = va_history s"
  "va_snapshots (snd (commit_weights_to_chain env cards s)) = va_snapshots s"
  by (simp_all add: commit_weights_to_chain_def set_weights_def Let_def split: option.split)

definition epoch_cards :: "validator_env \<Rightarrow> validator \<Rightarrow> (ident \<times> score_card) list" where
  "epoch_cards env s = fst (score_all env (sort_key fst (list_node_capabilities s)) s)"

lemma publish_history:
  assumes "ep \<noteq> []" and "\<not> vv_history_fails env"
  shows "\<exists>sid. va_history (snd (publish_weight_snapshot env (Some n) (Some ep) s)) = va_history s @
      map (\<lambda>(hk, c). \<lparr>hr_epoch_id = ep, hr_snapshot_id = sid, hr_hotkey = hk, hr_card = c, hr_computed_at = vv_now env\<rparr>)
        (epoch_cards env s) \<and>
    va_snapshots (snd (publish_weight_snapshot env (Some n) (Some ep) s)) =
      va_snapshots s @ [fst (publish_weight_snapshot env (Some n) (Some ep) s)] \<and>
    ws_snapshot_id (fst (publish_weight_snapshot env (Some n) (Some ep) s)) = sid \<and>
    ws_netuid (fst (publish_weight_snapshot env (Some n) (Some ep) s)) = n \<and>
    ws_created_at (fst (publish_weight_snapshot env (Some n) (Some ep) s)) = vv_now env \<and>
    ws_weights (fst (publish_weight_snapshot env (Some n) (Some ep) s))
      = map (\<lambda>(hk, c). (hk, sc_final_score c)) (sort_key fst (epoch_cards env s))"
  using record_weights_history [OF assms] record_weights_snapshot
  by (simp add: publish_weight_snapshot_def Let_def case_prod_beta commit_frame score_all_frame record_weights_frame epoch_cards_def)

lemma report_frame:
  "va_history (snd (generate_audit_report env ep a b nu s)) = va_history s"
  "va_snapshots (snd (generate_audit_report env ep a b nu s)) = va_snapshots s"
  by (simp_all add: generate_audit_report_def Let_def case_prod_beta save_audit_report_def publish_validator_def)

text \<open>The epochs whose weights have been announced on the bus, oldest first.\<close>

definition announced :: "validator \<Rightarrow> string list" where
  "announced s = List.map_filter (\<lambda>m. case ev_payload m of WeightsPublished _ _ _ ep \<Rightarrow> ep | _ \<Rightarrow> None) (bus_events (va_bus s))"

lemma publish_appends: "\<exists>m. bus_events (snd (publish now eid subject p db)) = bus_events db @ [m] \<and> ev_payload m = p"
  by (simp add: publish_def add_event_def Let_def)

lemma announced_publish:
  "announced (publish_validator env subject p s) =
     announced s @ (case p of WeightsPublished _ _ _ (Some ep) \<Rightarrow> [ep] | _ \<Rightarrow> [])"
proof -
  obtain m where m: "bus_events (snd (publish (vv_now env) (vv_uuid env (va_uuid s)) subject p (va_bus s))) = bus_events (va_bus s) @ [m] \<and>
      ev_payload m = p" using publish_appends ..
  then have bus: "bus_events (snd (publish (vv_now env) (vv_uuid env (va_uuid s)) subject p (va_bus s))) = bus_events (va_bus s) @ [m]"
    and load: "ev_payload m = p" by simp_all
  have "bus_events (va_bus (publish_validator env subject p s)) = bus_events (va_bus s) @ [m]"
    by (simp add: publish_validator_def bus)
  then show ?thesis
    unfolding announced_def by (simp add: map_filter_snoc load split: validator_message.split option.split)
qed

lemma epoch_frame:
  "va_bus (snd (score_all env ps s)) = va_bus s" "va_reports (snd (score_all env ps s)) = va_reports s"
  "va_bus (snd (commit_weights_to_chain env cards s)) = va_bus s"
  "va_reports (snd (commit_weights_to_chain env cards s)) = va_reports s"
proof -
  have "va_bus (snd (score_hotkey env p t)) = va_bus t \<and> va_reports (snd (score_hotkey env p t)) = va_reports t" for p t
    by (simp add: score_hotkey_def save_scorecard_def Let_def)
  then show "va_bus (snd (score_all env ps s)) = va_bus s" "va_reports (snd (score_all env ps s)) = va_reports s"
    by (induction ps arbitrary: s) (simp_all add: case_prod_beta)
qed (simp_all add: commit_weights_to_chain_def set_weights_def Let_def split: option.split)

lemma announced_cong: "va_bus t = va_bus s \<Longrightarrow> announced t = announced s"
  by (simp add: announced_def)

lemma publish_announces:
  "announced (snd (publish_weight_snapshot env nu ep s)) = announced s @ (case ep of None \<Rightarrow> [] | Some e \<Rightarrow> [e])"
  "va_reports (snd (publish_weight_snapshot env nu ep s)) = va_reports s"
proof -
  have recorded: "announced (snd (record_weights env n ep cards t)) = announced t @ (case ep of None \<Rightarrow> [] | Some e \<Rightarrow> [e])"
    "va_reports (snd (record_weights env n ep cards t)) = va_reports t" for n cards t
  proof -
    define w where "w = fst (record_weights env n ep cards t)"
    define t1 where "t1 = save_snapshot w (t\<lparr>va_uuid := Suc (va_uuid t)\<rparr>)"
    have "\<exists>weights. va_bus (snd (record_weights env n ep cards t)) =
        va_bus (publish_validator env ''validator.weights.published'' (WeightsPublished (ws_snapshot_id w) n weights ep) t1)"
      by (intro exI [of _ "ws_weights w"]) (simp add: record_weights_def Let_def save_scorecard_history_def w_def t1_def)
    then obtain weights where bus: "va_bus (snd (record_weights env n ep cards t)) =
        va_bus (publish_validator env ''validator.weights.published'' (WeightsPublished (ws_snapshot_id w) n weights ep) t1)" ..
    have "announced t1 = announced t" by (rule announced_cong) (simp add: t1_def save_snapshot_def)
    then show "announced (snd (record_weights env n ep cards t)) = announced t @ (case ep of None \<Rightarrow> [] | Some e \<Rightarrow> [e])"
      unfolding announced_cong [OF bus] by (simp add: announced_publish split: option.split)
    show "va_reports (snd (record_weights env n ep cards t)) = va_reports t"
      by (simp add: record_weights_def Let_def save_scorecard_history_def save_snapshot_def publish_validator_def)
  qed
  have commit: "announced (snd (commit_weights_to_chain env cards t)) = announced t" for cards t
    by (rule announced_cong) (simp add: epoch_frame)
  have scored: "announced (snd (score_all env ps t)) = announced t" for ps t
    by (rule announced_cong) (simp add: epoch_frame)
  show "announced (snd (publish_weight_snapshot env nu ep s)) = announced s @ (case ep of None \<Rightarrow> [] | Some e \<Rightarrow> [e])"
    "va_reports (snd (publish_weight_snapshot env nu ep s)) = va_reports s"
    by (simp_all add: publish_weight_snapshot_def Let_def case_prod_beta recorded commit scored epoch_frame)
qed

lemma report_effect:
  assumes "\<not> vv_report_fails env"
  shows "\<exists>rep. fst (generate_audit_report env ep a b nu s) = Inr rep"
    and "announced (snd (generate_audit_report env ep a b nu s)) = announced s"
    and "get_audit_report ep (snd (generate_audit_report env ep a b nu s)) \<noteq> None"
    and "get_audit_report ep' s \<noteq> None \<Longrightarrow> get_audit_report ep' (snd (generate_audit_report env ep a b nu s)) \<noteq> None"
proof -
  have "announced (save_audit_report r t) = announced t" "announced (s\<lparr>va_extrinsics := xs\<rparr>) = announced s" for r t xs
    by (simp_all add: announced_def save_audit_report_def)
  then show "announced (snd (generate_audit_report env ep a b nu s)) = announced s"
    using assms by (simp add: generate_audit_report_def Let_def case_prod_beta announced_publish)
  show "\<exists>rep. fst (generate_audit_report env ep a b nu s) = Inr rep"
    using assms by (simp add: generate_audit_report_def Let_def case_prod_beta)
  have "va_reports (snd (generate_audit_report env ep a b nu s)) = put_row ar_epoch_id rep (va_reports s) \<and> ar_epoch_id rep = ep"
    if "fst (generate_audit_report env ep a b nu s) = Inr rep" for rep
    using that assms by (auto simp: generate_audit_report_def Let_def case_prod_beta save_audit_report_def publish_validator_def)
  with \<open>\<exists>rep. fst (generate_audit_report env ep a b nu s) = Inr rep\<close> obtain rep where rep: "va_reports (snd (generate_audit_report env ep a b nu s)) = put_row ar_epoch_id rep (va_reports s)"
    "ar_epoch_id rep = ep" by blast
  then have get: "get_audit_report e (snd (generate_audit_report env ep a b nu s)) = (if e = ep then Some rep else get_audit_report e s)" for e
    unfolding get_audit_report_def rep(1) by (auto simp: get_row_put_row)
  show "get_audit_report ep (snd (generate_audit_report env ep a b nu s)) \<noteq> None" unfolding get by simp
  show "get_audit_report ep' s \<noteq> None \<Longrightarrow> get_audit_report ep' (snd (generate_audit_report env ep a b nu s)) \<noteq> None"
    unfolding get by simp
qed

text \<open>A reading of the chain closes the epoch that ended at \<open>e\<close> if it is at least two blocks past it and the next
  epoch has not ended.\<close>

definition closes :: "int option \<Rightarrow> int \<Rightarrow> bool" where
  "closes block e \<longleftrightarrow> (case block of None \<Rightarrow> False | Some b \<Rightarrow> 360 dvd e \<and> e + 2 \<le> b \<and> b < e + 360)"

lemma closes_iff: "closes (Some b) e \<longleftrightarrow> e = b div 360 * 360 \<and> e + 2 \<le> b"
proof
  assume "closes (Some b) e"
  then obtain k where k: "e = 360 * k" "e + 2 \<le> b" "b < e + 360" by (auto simp: closes_def)
  then have "b div 360 = k" by linarith
  with k show "e = b div 360 * 360 \<and> e + 2 \<le> b" by simp
next
  assume "e = b div 360 * 360 \<and> e + 2 \<le> b"
  moreover have "b div 360 * 360 + b mod 360 = b" "b mod 360 < 360" by simp_all
  ultimately show "closes (Some b) e" unfolding closes_def by simp
qed

lemma epoch_tick_effect:
  assumes "on_network n env" and "\<not> vv_report_fails env"
  obtains (rests) "\<And>e. closes block e \<Longrightarrow> l \<noteq> None \<and> e \<le> the l" "epoch_tick env block (l, s) = (l, s)"
  | (publishes) e s' where "closes block e" "l = None \<or> the l < e" "epoch_tick env block (l, s) = (Some e, s')"
      "announced s' = announced s @ [epoch_name n e]" "get_audit_report (epoch_name n e) s' \<noteq> None"
      "\<And>ep. get_audit_report ep s \<noteq> None \<Longrightarrow> get_audit_report ep s' \<noteq> None"
proof -
  obtain client where client: "vv_chain env = Some client" "cl_netuid client = n" and on: "vv_bittensor_enabled env"
    using assms(1) by (auto simp: on_network_def)
  show thesis
  proof (cases block)
    case None
    with client on show thesis by (intro rests) (simp_all add: closes_def epoch_tick_def)
  next
    case (Some b)
    define e where "e = b div 360 * 360"
    have w: "compute_epoch_window b n = (epoch_name n e, e - 360, e)"
      by (simp add: compute_epoch_window_def Let_def AUDIT_EPOCH_LENGTH_def epoch_name_def e_def)
    show thesis
    proof (cases "(l = None \<or> e > the l) \<and> b \<ge> e + 2")
      case False
      with Some client on have "epoch_tick env block (l, s) = (l, s)" by (auto simp: epoch_tick_def w)
      moreover have "l \<noteq> None \<and> e' \<le> the l" if "closes block e'" for e'
        using that False unfolding Some closes_iff e_def [symmetric] by auto
      ultimately show thesis by (intro rests)
    next
      case True
      define t where "t = snd (publish_weight_snapshot env (Some n) (Some (epoch_name n e)) s)"
      define s' where "s' = snd (generate_audit_report env (epoch_name n e) (e - 360) e (Some n) t)"
      note rep = report_effect [OF assms(2), where ep = "epoch_name n e" and a = "e - 360" and b = e and nu = "Some n" and s = t]
      obtain r where r: "generate_audit_report env (epoch_name n e) (e - 360) e (Some n) t = (Inr r, s')"
        using rep(1) by (cases "generate_audit_report env (epoch_name n e) (e - 360) e (Some n) t") (auto simp: s'_def)
      have tick: "epoch_tick env block (l, s) = (Some e, s')"
        using True Some client on r by (simp add: epoch_tick_def w t_def [symmetric])
      have closed: "closes block e" using True unfolding Some closes_iff e_def [symmetric] by simp
      have said: "announced s' = announced s @ [epoch_name n e]"
        using rep(2) by (simp add: s'_def t_def publish_announces)
      have kept: "get_audit_report ep s' \<noteq> None" if "get_audit_report ep s \<noteq> None" for ep
      proof -
        have "get_audit_report ep t \<noteq> None" using that by (simp add: t_def get_audit_report_def publish_announces)
        then show ?thesis unfolding s'_def by (rule rep(4))
      qed
      have later: "l = None \<or> the l < e" using True by blast
      show thesis
        by (rule publishes [OF closed later tick said]) (simp add: s'_def rep(3) del: not_None_eq, erule kept)
    qed
  qed
qed

text \<open>Reading \<open>i\<close> is one that publishes: it closes \<open>e\<close> and no reading before it closes a later epoch.\<close>

definition first_to_close :: "(validator_env \<times> int option) list \<Rightarrow> int \<Rightarrow> bool" where
  "first_to_close readings e \<longleftrightarrow>
     (\<exists>before env block rest. readings = before @ (env, block) # rest \<and> closes block e \<and>
        (\<forall>(env', block') \<in> set before. \<forall>e'. closes block' e' \<longrightarrow> e' \<le> e))"

lemma first_to_close_Nil [simp]: "\<not> first_to_close [] e"
  by (simp add: first_to_close_def)

lemma first_to_close_Cons:
  "first_to_close ((env, block) # rs) e \<longleftrightarrow>
     closes block e \<or> (\<forall>e'. closes block e' \<longrightarrow> e' \<le> e) \<and> first_to_close rs e"
proof
  assume "first_to_close ((env, block) # rs) e"
  then obtain bs env' block' rest where split: "(env, block) # rs = bs @ (env', block') # rest"
    and e: "closes block' e" "\<forall>(env'', block'') \<in> set bs. \<forall>e'. closes block'' e' \<longrightarrow> e' \<le> e"
    unfolding first_to_close_def by blast
  show "closes block e \<or> (\<forall>e'. closes block e' \<longrightarrow> e' \<le> e) \<and> first_to_close rs e"
  proof (cases bs)
    case Nil
    with split e show ?thesis by simp
  next
    case (Cons b bs')
    with split e show ?thesis unfolding first_to_close_def by auto
  qed
next
  assume "closes block e \<or> (\<forall>e'. closes block e' \<longrightarrow> e' \<le> e) \<and> first_to_close rs e"
  then show "first_to_close ((env, block) # rs) e"
  proof
    assume "closes block e"
    then show ?thesis unfolding first_to_close_def by (intro exI [of _ "[]"]) auto
  next
    assume "(\<forall>e'. closes block e' \<longrightarrow> e' \<le> e) \<and> first_to_close rs e"
    then obtain bs env' block' rest where "rs = bs @ (env', block') # rest" "closes block' e"
      "\<forall>(env'', block'') \<in> set bs. \<forall>e'. closes block'' e' \<longrightarrow> e' \<le> e" "\<forall>e'. closes block e' \<longrightarrow> e' \<le> e"
      unfolding first_to_close_def by blast
    then show ?thesis unfolding first_to_close_def
      by (intro exI [of _ "(env, block) # bs"] exI [of _ env'] exI [of _ block'] exI [of _ rest]) auto
  qed
qed

lemma closes_unique: "closes block e \<Longrightarrow> closes block e' \<Longrightarrow> e = e'"
  by (cases block) (simp_all add: closes_iff, simp add: closes_def)

lemma epoch_ticks_run:
  assumes "list_all (\<lambda>(env, block). on_network n env \<and> \<not> vv_report_fails env) readings"
  shows "\<exists>es. announced (snd (epoch_ticks readings (l, s))) = announced s @ map (epoch_name n) es \<and> sorted_wrt (<) es \<and>
    (\<forall>e. e \<in> set es \<longleftrightarrow> (l = None \<or> the l < e) \<and> first_to_close readings e) \<and>
    (\<forall>e \<in> set es. get_audit_report (epoch_name n e) (snd (epoch_ticks readings (l, s))) \<noteq> None) \<and>
    (\<forall>ep. get_audit_report ep s \<noteq> None \<longrightarrow> get_audit_report ep (snd (epoch_ticks readings (l, s))) \<noteq> None)"
  using assms
proof (induction readings arbitrary: l s)
  case Nil
  then show ?case by (simp add: epoch_ticks_def)
next
  case (Cons r rs)
  obtain env block where r: "r = (env, block)" by (cases r)
  have run: "epoch_ticks (r # rs) w = epoch_ticks rs (epoch_tick env block w)" for w by (simp add: epoch_ticks_def r)
  have "on_network n env" "\<not> vv_report_fails env" using Cons.prems by (simp_all add: r)
  then show ?case
  proof (cases rule: epoch_tick_effect [where block = block and l = l and s = s])
    case rests
    have "(l = None \<or> the l < e) \<and> first_to_close rs e \<longleftrightarrow> (l = None \<or> the l < e) \<and> first_to_close (r # rs) e" for e
      using rests(1) unfolding r first_to_close_Cons by fastforce
    with Cons.IH [of l s] Cons.prems show ?thesis unfolding run rests(2) by simp
  next
    case (publishes e0 s')
    from Cons.IH [of "Some e0" s'] Cons.prems obtain es where es:
      "announced (snd (epoch_ticks rs (Some e0, s'))) = announced s' @ map (epoch_name n) es" "sorted_wrt (<) es"
      "\<And>e. e \<in> set es \<longleftrightarrow> e0 < e \<and> first_to_close rs e"
      "\<And>e. e \<in> set es \<Longrightarrow> get_audit_report (epoch_name n e) (snd (epoch_ticks rs (Some e0, s'))) \<noteq> None"
      "\<And>ep. get_audit_report ep s' \<noteq> None \<Longrightarrow> get_audit_report ep (snd (epoch_ticks rs (Some e0, s'))) \<noteq> None" by auto
    have "closes block e \<longleftrightarrow> e = e0" for e using closes_unique publishes(1) by blast
    then have fc: "first_to_close (r # rs) e \<longleftrightarrow> e = e0 \<or> e0 \<le> e \<and> first_to_close rs e" for e
      by (simp add: r first_to_close_Cons)
    have mem: "e \<in> set (e0 # es) \<longleftrightarrow> (l = None \<or> the l < e) \<and> first_to_close (r # rs) e" for e
      unfolding list.set insert_iff es(3) fc using publishes(2) by (metis le_less less_trans)
    have stored: "get_audit_report (epoch_name n e) (snd (epoch_ticks rs (Some e0, s'))) \<noteq> None" if "e \<in> set (e0 # es)" for e
    proof (cases "e = e0")
      case True
      show ?thesis unfolding True by (rule es(5) [OF publishes(5)])
    next
      case False
      with that show ?thesis by (intro es(4)) simp
    qed
    have sorted: "sorted_wrt (<) (e0 # es)" using es(2,3) by simp
    have said: "announced (snd (epoch_ticks rs (Some e0, s'))) = announced s @ map (epoch_name n) (e0 # es)"
      using es(1) publishes(4) by simp
    show ?thesis
      unfolding run publishes(3)
      by (intro exI [of _ "e0 # es"] conjI allI ballI impI) (rule said, rule sorted, rule mem, erule stored, rule es(5), erule publishes(6))
  qed
qed

text \<open>(C38) A worker that keeps running publishes every epoch it sees closed, once.  Take a worker that starts without
  a last epoch, on one network with the chain enabled, whose reports can be stored.  Whatever block numbers its ticks
  read, in whatever order and with whatever failures of the chain to answer: the weights it announces on the
  bus are those of the epochs \<open>e\<close> that some reading closes (it lies from two to 359 blocks past \<open>e\<close>) with no reading
  before it closing a later epoch; each is announced exactly once, in increasing order; and each has its report.\<close>

theorem epoch_published_once:
  assumes "list_all (\<lambda>(env, block). on_network n env \<and> \<not> vv_report_fails env) readings"
  shows "\<exists>es. announced (snd (epoch_ticks readings (None, s))) = announced s @ map (epoch_name n) es \<and> sorted_wrt (<) es \<and>
    (\<forall>e. e \<in> set es \<longleftrightarrow> (\<exists>before env block rest. readings = before @ (env, block) # rest \<and> closes block e \<and>
        (\<forall>(env', block') \<in> set before. \<forall>e'. closes block' e' \<longrightarrow> e' \<le> e))) \<and>
    (\<forall>e \<in> set es. get_audit_report (epoch_name n e) (snd (epoch_ticks readings (None, s))) \<noteq> None)"
  using epoch_ticks_run [OF assms, of None s] unfolding first_to_close_def by auto

text \<open>A tick whose report cannot be stored publishes the weights and leaves the epoch to be published again.\<close>

lemma failed_report_republishes:
  assumes "on_network n env" and "vv_report_fails env" and "closes (Some b) e" and "l = None \<or> the l < e"
  shows "fst (epoch_tick env (Some b) (l, s)) = l \<and>
    announced (snd (epoch_tick env (Some b) (l, s))) = announced s @ [epoch_name n e]"
proof -
  obtain client where client: "vv_chain env = Some client" "cl_netuid client = n" "vv_bittensor_enabled env"
    using assms(1) by (auto simp: on_network_def)
  have w: "compute_epoch_window b n = (epoch_name n e, e - 360, e)" "e + 2 \<le> b"
    using assms(3) by (simp_all add: closes_iff compute_epoch_window_def Let_def AUDIT_EPOCH_LENGTH_def epoch_name_def)
  define t where "t = snd (publish_weight_snapshot env (Some n) (Some (epoch_name n e)) s)"
  obtain x where x: "generate_audit_report env (epoch_name n e) (e - 360) e (Some n) t = (Inl StoreError, x)" and "va_bus x = va_bus t"
    using assms(2) by (simp add: generate_audit_report_def Let_def case_prod_beta)
  then have "announced x = announced s @ [epoch_name n e]"
    using announced_cong [of x t] by (simp add: t_def publish_announces)
  moreover have "epoch_tick env (Some b) (l, s) = (l, x)"
    using client assms(4) w x by (simp add: epoch_tick_def t_def [symmetric])
  ultimately show ?thesis by simp
qed

lemma insort_key_snoc: "f x \<le> f y \<Longrightarrow> insort_key f x (xs @ [y]) = insort_key f x xs @ [y]"
  by (induction xs) auto

lemma sort_key_snoc: "(\<And>x. x \<in> set xs \<Longrightarrow> f x \<le> f y) \<Longrightarrow> sort_key f (xs @ [y]) = sort_key f xs @ [y]"
  by (induction xs) (simp_all add: insort_key_snoc)

definition carries :: "audit_report \<Rightarrow> weight_snapshot \<Rightarrow> bool" where
  "carries rep w \<longleftrightarrow> ab_weight_snapshot (ar_body rep) = Some w \<and>
     ws_weights w = map (\<lambda>h. (hr_hotkey h, sc_final_score (hr_card h))) (ab_scorecards (ar_body rep))"

lemma report_of_epoch:
  assumes "vv_chain env = Some client" and "va_snapshots t = old @ [w]" "ws_netuid w = n" "ws_created_at w = vv_now env"
    and "\<And>x. x \<in> set old \<Longrightarrow> ws_created_at x \<le> vv_now env"
  shows "ab_weight_snapshot (report_body env ep a b n t) = Some w"
proof -
  let ?since = "fst (report_window (vv_now env))" and ?until = "snd (report_window (vv_now env))"
  have inside: "?since \<le> vv_now env" "vv_now env < ?until"
    by (simp_all add: report_window_def AUDIT_EPOCH_LENGTH_def seconds_def)
  have "list_weight_snapshots_between n ?since ?until t
      = sort_key ws_created_at (filter (\<lambda>w. ws_netuid w = n \<and> ws_created_at w \<ge> ?since \<and> ws_created_at w < ?until) old) @ [w]"
    unfolding list_weight_snapshots_between_def using assms(2-) inside by (simp, subst sort_key_snoc) auto
  then show ?thesis by (simp add: report_body_def case_prod_beta Let_def)
qed

lemma tick_published:
  assumes "on_network n env" and "epoch_tick env block (l, s) = (Some e, s')" and "l \<noteq> Some e"
  shows "\<exists>client. vv_chain env = Some client \<and> cl_netuid client = n \<and> \<not> vv_report_fails env \<and>
    s' = snd (generate_audit_report env (epoch_name n e) (e - 360) e (Some n)
      (snd (publish_weight_snapshot env (Some n) (Some (epoch_name n e)) s)))"
proof -
  obtain client where client: "vv_chain env = Some client" "cl_netuid client = n" "vv_bittensor_enabled env"
    using assms(1) by (auto simp: on_network_def)
  obtain b where b: "block = Some b" using assms(2,3) client by (cases block) (auto simp: epoch_tick_def)
  define e' where "e' = b div 360 * 360"
  have w: "compute_epoch_window b n = (epoch_name n e', e' - 360, e')"
    by (simp add: compute_epoch_window_def Let_def AUDIT_EPOCH_LENGTH_def epoch_name_def e'_def)
  define t where "t = snd (publish_weight_snapshot env (Some n) (Some (epoch_name n e')) s)"
  obtain r x where g: "generate_audit_report env (epoch_name n e') (e' - 360) e' (Some n) t = (r, x)" by fastforce
  have "r = Inr z \<Longrightarrow> \<not> vv_report_fails env" for z
    using g by (auto simp: generate_audit_report_def Let_def case_prod_beta split: if_splits)
  with assms(2,3) client b g have "e' = e \<and> s' = x \<and> \<not> vv_report_fails env"
    by (cases r) (auto simp: epoch_tick_def w t_def [symmetric] split: if_splits)
  with client g show ?thesis unfolding t_def by (intro exI [of _ client]) auto
qed

text \<open>(C37) The report of an epoch carries what its weights were made of.  When the worker's tick closes an epoch it has
  not closed before, with no history rows of that epoch yet, no snapshot from the future, and the new history rows and
  the report stored, then the stored report names its blocks and the weight snapshot just published, and the weights of
  that snapshot are exactly the final scores of the report's own scorecards.  An epoch published again (after a
  restart, or after a report that could not be stored) is not covered: its rows are appended to the earlier ones
  (\<open>republished_epoch_doubles_rows\<close> below), and rows that could not be saved are missing from the report.\<close>

theorem report_carries_the_weights:
  assumes "on_network n env" and "\<not> vv_history_fails env" and "epoch_tick env block (l, s) = (Some e, s')" and "l \<noteq> Some e"
    and "list_all (\<lambda>h. hr_epoch_id h \<noteq> epoch_name n e) (va_history s)"
    and "list_all (\<lambda>w. ws_created_at w \<le> vv_now env) (va_snapshots s)"
  shows "\<exists>rep w. get_audit_report (epoch_name n e) s' = Some rep \<and> w \<in> set (va_snapshots s') \<and>
    ab_start_block (ar_body rep) = e - 360 \<and> ab_end_block (ar_body rep) = e \<and> carries rep w"
proof -
  define ep where "ep = epoch_name n e"
  define t where "t = snd (publish_weight_snapshot env (Some n) (Some ep) s)"
  define w where "w = fst (publish_weight_snapshot env (Some n) (Some ep) s)"
  obtain client where client: "vv_chain env = Some client" "cl_netuid client = n"
    and s': "s' = snd (generate_audit_report env ep (e - 360) e (Some n) t)" and stored: "\<not> vv_report_fails env"
    using tick_published [OF assms(1,3,4)] unfolding ep_def t_def by blast
  have ne: "ep \<noteq> []" by (simp add: ep_def epoch_name_def)
  obtain sid where h: "va_history t = va_history s @ map (\<lambda>(hk, c). \<lparr>hr_epoch_id = ep, hr_snapshot_id = sid,
        hr_hotkey = hk, hr_card = c, hr_computed_at = vv_now env\<rparr>) (epoch_cards env s)"
    and w: "va_snapshots t = va_snapshots s @ [w]" "ws_netuid w = n" "ws_created_at w = vv_now env"
      "ws_weights w = map (\<lambda>(hk, c). (hk, sc_final_score c)) (sort_key fst (epoch_cards env s))"
    using publish_history [OF ne assms(2), of n s] unfolding t_def w_def by blast
  have "map_option ar_body (get_audit_report ep s') = Some (report_body env ep (e - 360) e n t)"
    using stored unfolding s' by (simp add: generate_audit_report_def Let_def case_prod_beta get_audit_report_def
        save_audit_report_def publish_validator_def get_row_put_row)
  then obtain rep where rep: "ar_body rep = report_body env ep (e - 360) e n t" "get_audit_report ep s' = Some rep" by auto
  have "ab_weight_snapshot (ar_body rep) = Some w"
    unfolding rep by (rule report_of_epoch [OF client(1) w(1-3)]) (use assms(6) in \<open>simp add: list_all_iff\<close>)
  moreover have "filter (\<lambda>h. hr_epoch_id h = ep) (va_history t) = map (\<lambda>(hk, c). \<lparr>hr_epoch_id = ep, hr_snapshot_id = sid,
        hr_hotkey = hk, hr_card = c, hr_computed_at = vv_now env\<rparr>) (epoch_cards env s)"
    using assms(5) unfolding h ep_def by (auto simp: list_all_iff filter_map comp_def case_prod_beta intro: filter_False)
  then have "ws_weights w = map (\<lambda>h. (hr_hotkey h, sc_final_score (hr_card h))) (ab_scorecards (ar_body rep))"
    unfolding rep w by (simp add: report_body_def case_prod_beta Let_def sort_key_map comp_def)
  ultimately have "carries rep w" by (simp add: carries_def)
  moreover have "w \<in> set (va_snapshots s')" unfolding s' report_frame w by simp
  moreover have "ab_start_block (ar_body rep) = e - 360 \<and> ab_end_block (ar_body rep) = e"
    unfolding rep by (simp add: report_body_def case_prod_beta Let_def)
  ultimately show ?thesis using rep(2) unfolding ep_def by blast
qed

text \<open>A worker that has lost its last epoch publishes the same one again, and the history then holds the rows of both.\<close>

lemma republished_epoch_doubles_rows:
  assumes "on_network n env" and "\<not> vv_history_fails env" and "epoch_tick env block (None, s) = (Some e, s1)"
    and "epoch_tick env block (None, s1) = (Some e, s2)"
  shows "map hr_hotkey (va_history s2) = map hr_hotkey (va_history s) @ map fst (epoch_cards env s) @ map fst (epoch_cards env s1)"
proof -
  have rows: "map hr_hotkey (va_history t') = map hr_hotkey (va_history t) @ map fst (epoch_cards env t)"
    if tick: "epoch_tick env block (None, t) = (Some e, t')" for t t'
  proof -
    have t': "t' = snd (generate_audit_report env (epoch_name n e) (e - 360) e (Some n)
        (snd (publish_weight_snapshot env (Some n) (Some (epoch_name n e)) t)))"
      using tick_published [OF assms(1) tick] by blast
    have "epoch_name n e \<noteq> []" by (simp add: epoch_name_def)
    from publish_history [OF this assms(2), of n t] show ?thesis
      unfolding t' report_frame by (auto simp: comp_def case_prod_beta)
  qed
  from rows [OF assms(3)] rows [OF assms(4)] show ?thesis by simp
qed

section \<open>Runs\<close>

definition demo_ids :: "nat \<Rightarrow> ident" where
  "demo_ids n = replicate n (CHR ''x'')"

lemma inj_demo_ids: "inj demo_ids"
  by (rule injI) (metis demo_ids_def length_replicate)

definition demo_client :: chain_client where
  "demo_client = \<lparr>cl_netuid = 7, cl_set_weights = (\<lambda>uids ws. Some ''tx''), cl_set_commitment = (\<lambda>h. Some ''ctx'')\<rparr>"

definition demo_validator_env :: validator_env where
  "demo_validator_env =
     \<lparr>vv_now = seconds 100000, vv_uuid = demo_ids, vv_score = default_score_settings, vv_lookback_days = 7,
      vv_whitelist_enabled = False, vv_bittensor_enabled = True, vv_bittensor_netuid = 7, vv_chain = Some demo_client,
      vv_report_digest = (\<lambda>b. ab_epoch_id b), vv_sign = (\<lambda>b. Some (''sig'', ''v'')), vv_digest = (\<lambda>t. take 8 t),
      vv_canary_ready = False, vv_nonce = ''GC-1'', vv_history_fails = False, vv_report_fails = False\<rparr>"

definition demo_inventory :: "inventory_row list" where
  "demo_inventory = [\<lparr>iv_hotkey = ''m'', iv_node_id = ''n0'', iv_payload_node_id = Some ''n0'', iv_payload = demo_scored_node\<rparr>]"

definition demo_synced :: validator where
  "demo_synced = snd (sync_from_control_plane demo_inventory empty_validator)"

definition demo_probed :: validator where
  "demo_probed = snd (run_inference_canary demo_validator_env NoReply 0 (Some (seconds 99999)) ''m'' ''llama'' demo_synced)"

lemma demo_probed_reachable: "(validator_step demo_ids)\<^sup>*\<^sup>* empty_validator demo_probed"
proof -
  have "validator_step demo_ids empty_validator demo_synced"
    unfolding demo_synced_def by (rule inventory_step)
  moreover have "validator_step demo_ids demo_synced demo_probed"
    unfolding demo_probed_def by (rule canary_step) (simp add: env_with_def demo_validator_env_def)
  ultimately show ?thesis by simp
qed

definition demo_canary :: probe_result where
  "demo_canary = hd (va_results demo_probed)"

lemma demo_results: "va_results demo_probed = [demo_canary]"
  unfolding demo_canary_def by code_simp

theorem every_result_answers_its_challenge_witness:
  "(\<exists>c \<in> set (va_challenges demo_probed). pc_challenge_id c = pr_challenge_id demo_canary \<and>
      pc_hotkey c = pr_hotkey demo_canary \<and> pc_node_id c = pr_node_id demo_canary) \<and>
   length (filter (\<lambda>r. result_key r = result_key demo_canary) (va_results demo_probed)) = 1 \<and>
   submit_probe_result demo_validator_env demo_canary demo_probed = (Inl InvalidProbeResultError, demo_probed)"
  using every_result_answers_its_challenge [OF inj_demo_ids demo_probed_reachable, of demo_canary demo_canary demo_validator_env]
  by (simp add: demo_results)

definition demo_epochs :: "int option \<times> validator" where
  "demo_epochs = epoch_ticks [(demo_validator_env, Some 1000), (demo_validator_env, Some 1001), (demo_validator_env, Some 1081)]
     (None, demo_probed)"

lemma demo_tick: "fst (epoch_tick demo_validator_env (Some 1000) (None, demo_probed)) = Some 720"
proof -
  have net: "on_network 7 demo_validator_env" "\<not> vv_report_fails demo_validator_env"
    by (simp_all add: on_network_def demo_validator_env_def demo_client_def)
  have closed: "closes (Some 1000) e \<longleftrightarrow> e = 720" for e by (auto simp: closes_iff)
  from net show ?thesis
    by (cases rule: epoch_tick_effect [where block = "Some 1000" and l = None and s = demo_probed]) (simp_all add: closed)
qed

lemma demo_history: "va_history demo_probed = []" "va_snapshots demo_probed = []"
  by (simp_all add: demo_probed_def demo_synced_def run_inference_canary_def Let_def sync_from_control_plane_def
      empty_validator_def add_result_def save_challenge_def split: option.split)

lemma demo_later_ticks:
  "block \<in> {1001, 1081} \<Longrightarrow> epoch_tick demo_validator_env (Some block) (Some 720, t) = (Some 720, t)"
  by (auto simp: epoch_tick_def demo_validator_env_def demo_client_def compute_epoch_window_def AUDIT_EPOCH_LENGTH_def)

lemma demo_epochs_once: "demo_epochs = epoch_tick demo_validator_env (Some 1000) (None, demo_probed)"
proof -
  obtain t where t: "epoch_tick demo_validator_env (Some 1000) (None, demo_probed) = (Some 720, t)"
    using demo_tick by (metis prod.collapse)
  show ?thesis by (simp add: demo_epochs_def epoch_ticks_def t demo_later_ticks)
qed

lemma demo_nodes: "list_node_capabilities demo_probed = [(''m'', [demo_scored_node])]"
  by code_simp

lemma demo_recent: "list_results (Some ''m'') (Some (score_window_start demo_validator_env)) demo_probed = [demo_canary]"
  unfolding demo_canary_def by code_simp

lemma demo_open_env: "vv_whitelist_enabled demo_validator_env = False" "vv_score demo_validator_env = default_score_settings"
  by (simp_all add: demo_validator_env_def)

lemma demo_cards: "map fst (epoch_cards demo_validator_env demo_probed) = [''m'']"
  by (simp add: epoch_cards_def score_all_fst scorecard_of_def map_filter_def demo_nodes demo_recent demo_open_env
      del: score_all.simps)

theorem weights_are_scores_of_admitted_witness:
  "sorted (map fst (ws_weights (fst (publish_weight_snapshot demo_validator_env (Some 7) (Some ''7-720'') demo_probed)))) \<and>
   (''m'', sc_final_score (compute_scorecard default_score_settings (aggregate_capability [demo_scored_node]) [demo_canary]
            (aggregate_flux_state ''m'' demo_probed)))
     \<in> set (ws_weights (fst (publish_weight_snapshot demo_validator_env (Some 7) (Some ''7-720'') demo_probed)))"
  using weights_are_scores_of_admitted [where env = demo_validator_env and nu = "Some 7" and ep = "Some ''7-720''"
      and s = demo_probed and hk = "''m''" and w = "sc_final_score (compute_scorecard default_score_settings
        (aggregate_capability [demo_scored_node]) [demo_canary] (aggregate_flux_state ''m'' demo_probed))"]
  by (simp add: demo_nodes demo_recent demo_open_env)

lemma demo_readings:
  "list_all (\<lambda>(env, block). on_network 7 env \<and> \<not> vv_report_fails env)
     [(demo_validator_env, Some 1000), (demo_validator_env, Some 1001), (demo_validator_env, Some 1081)]"
  by (simp add: on_network_def demo_validator_env_def demo_client_def)

text \<open>Three readings, of which the first closes an epoch and the others close none later.\<close>

theorem epoch_published_once_witness:
  "announced (snd demo_epochs) = announced demo_probed @ [epoch_name 7 720] \<and>
   get_audit_report (epoch_name 7 720) (snd demo_epochs) \<noteq> None"
proof -
  let ?rs = "[(demo_validator_env, Some 1000), (demo_validator_env, Some 1001), (demo_validator_env, Some (1081 :: int))]"
  obtain es where es: "announced (snd demo_epochs) = announced demo_probed @ map (epoch_name 7) es" "sorted_wrt (<) es"
    "\<forall>e \<in> set es. get_audit_report (epoch_name 7 e) (snd demo_epochs) \<noteq> None"
    "\<And>e. e \<in> set es \<longleftrightarrow> first_to_close ?rs e"
    using epoch_published_once [OF demo_readings, of demo_probed] unfolding demo_epochs_def first_to_close_def by blast
  have "first_to_close ?rs e \<longleftrightarrow> e = 720" for e by (auto simp: first_to_close_Cons closes_iff)
  with es(4) have "set es = {720}" by auto
  moreover have "distinct es" using es(2) by (simp add: strict_sorted_iff)
  ultimately have "es = [720]" by (cases es; cases "tl es") auto
  with es show ?thesis by simp
qed

theorem report_carries_the_weights_witness:
  "\<exists>rep w. get_audit_report (epoch_name 7 720) (snd (epoch_tick demo_validator_env (Some 1000) (None, demo_probed))) = Some rep \<and>
     ab_start_block (ar_body rep) = 360 \<and> carries rep w"
proof -
  have "epoch_tick demo_validator_env (Some 1000) (None, demo_probed)
      = (Some 720, snd (epoch_tick demo_validator_env (Some 1000) (None, demo_probed)))"
    using demo_tick by (metis prod.collapse)
  from report_carries_the_weights [OF _ _ this, of 7] demo_history show ?thesis
    by (auto simp: on_network_def demo_validator_env_def demo_client_def)
qed
end
