(* ===== verification/Access.thy ===== *)
theory Access
  imports Metering Numbers_Text
begin

text \<open>
  Who may do what at the gateway: \<^verbatim>\<open>gateway/domain/scopes.py\<close>, \<^verbatim>\<open>gateway/transport/security.py\<close>, the accounts, keys,
  shares and deployment gates of \<^verbatim>\<open>gateway/application/services.py\<close> (\<^verbatim>\<open>GatewayService\<close>), their tables and the
  idempotency records in \<^verbatim>\<open>gateway/infrastructure/repository.py\<close>, the key routes of \<^verbatim>\<open>transport/routes.py\<close>, and
  \<^verbatim>\<open>persistence/rate_limit.py\<close>.

  The state \<open>gateway\<close> adds the gateway's own tables to the \<open>world\<close> of the control plane and the
  billing tables.  The columns of the table \<^verbatim>\<open>users\<close> other than the balance are \<open>profile\<close> rows; the balance stays
  in the billing tables, and saving a profile writes it too, as the code does.  Metric counters and response
  texts are left out; an HTTP error is its status.
\<close>

section \<open>Scopes\<close>

definition SCOPES :: "string list" where
  "SCOPES = [''read'', ''rentals'', ''inference'', ''billing'', ''keys'']"

definition RENTAL_PREFIXES :: "string list" where
  "RENTAL_PREFIXES = [''/platform/workloads'', ''/platform/deployments'', ''/platform/fleets'', ''/platform/builds'',
     ''/platform/images'', ''/platform/capacity-alerts'']"

text \<open>The regular expression \<^verbatim>\<open>^/platform/deployments/[^/]+/ssh/?$\<close>; \<^verbatim>\<open>$\<close> also matches before a final newline.\<close>

definition drop_last_char :: "char \<Rightarrow> string \<Rightarrow> string" where
  "drop_last_char c s = (if s \<noteq> [] \<and> last s = c then butlast s else s)"

definition ssh_path :: "string \<Rightarrow> bool" where
  "ssh_path path \<longleftrightarrow>
     (let prefix = ''/platform/deployments/''; rest = drop (length prefix) path; did = takeWhile (\<lambda>c. c \<noteq> CHR ''/'') rest
      in starts_with prefix path \<and> did \<noteq> [] \<and>
         drop_last_char (CHR ''/'') (drop_last_char (CHR 0x0A) (drop (length did) rest)) = ''/ssh'')"

definition upper_text :: "string \<Rightarrow> string" where
  "upper_text s = map (\<lambda>c. if is_lower c then char_of (of_char c - 32 :: nat) else c) s"

text \<open>The answer of \<^verbatim>\<open>required_scope\<close>: any valid key, a scope, or only a key with full access.\<close>

datatype needed = AnyScope | Scope string | FullAccess

definition rstrip_slashes :: "string \<Rightarrow> string" where
  "rstrip_slashes s = rev (dropWhile (\<lambda>c. c = CHR ''/'') (rev s))"

definition required_scope :: "string \<Rightarrow> string \<Rightarrow> needed" where
  "required_scope http_method path =
     (let get = (upper_text http_method = ''GET'')
      in if rstrip_slashes path = ''/mcp'' then AnyScope
         else if starts_with ''/v1/'' path then Scope ''inference''
         else if starts_with ''/platform/api-keys'' path then Scope ''keys''
         else if ssh_path path then Scope ''rentals''
         else if starts_with ''/platform/billing'' path then Scope (if get then ''read'' else ''billing'')
         else if list_ex (\<lambda>p. starts_with p path) RENTAL_PREFIXES then Scope (if get then ''read'' else ''rentals'')
         else if get then Scope ''read'' else FullAccess)"

text \<open>\<^verbatim>\<open>sorted({...})\<close>: the distinct names in order; an unknown one is a \<^verbatim>\<open>ValueError\<close>.\<close>

definition normalize_scopes :: "string list \<Rightarrow> string list option" where
  "normalize_scopes scopes =
     (let out = sort (remdups (map (\<lambda>s. lower (strip s)) scopes))
      in if list_all (\<lambda>s. s \<in> set SCOPES) out then Some out else None)"

section \<open>State\<close>

record profile =
  pf_user_id :: ident
  pf_username :: string
  pf_email :: "string option"
  pf_display_name :: "string option"
  pf_bio :: "string option"
  pf_website :: "string option"
  pf_metadata :: "(string \<times> string) list"
  pf_created_at :: time

record user_record =
  us_profile :: profile
  us_balance :: int

record api_key =
  ak_id :: ident
  ak_user :: "ident option"
  ak_name :: string
  ak_admin :: bool
  ak_scopes :: "string list"
  ak_secret :: string
  ak_created_at :: time
  ak_max_active :: "int option"
  ak_daily_limit :: "rat option"

record admin_account =
  aa_user_id :: ident
  aa_email :: string
  aa_added_by :: "ident option"
  aa_added_at :: time

record share =
  sh_id :: ident
  sh_workload_id :: ident
  sh_owner :: "ident option"
  sh_with :: ident
  sh_permission :: string
  sh_created_at :: time

record rate_window =
  rw_bucket :: "string \<times> string"
  rw_start :: time
  rw_used :: int

datatype idem_state = IdemPending | IdemDone string

record idem_row =
  id_key :: string
  id_hash :: string
  id_at :: time
  id_state :: idem_state

record gateway =
  gt_world :: world
  gt_profiles :: "profile list"
  gt_keys :: "api_key list"
  gt_admins :: "admin_account list"
  gt_shares :: "share list"
  gt_windows :: "rate_window list"
  gt_idem :: "idem_row list"
  gt_draws :: nat

record gateway_env =
  gv_control :: env
  gv_now :: time
  gv_uuid :: "nat \<Rightarrow> ident"
  gv_secret :: "nat \<Rightarrow> string"
  gv_master_key :: string
  gv_provision_secret :: string
  gv_sha256 :: "string \<Rightarrow> string"
  gv_client_ip :: "string option"
  gv_route :: "(string \<times> string) option"

datatype gateway_error =
    Http int
  | MissingKey
  | ValueErr
  | PermissionErr
  | UnsupportedGPU
  | NoCapacity
  | KeyLimit room_reason
  | InsufficientForRental int int
  | ControlErr control_error

type_synonym 'a gated = "(gateway_error + 'a) \<times> gateway"

section \<open>Rate limits\<close>

definition window_of :: "string \<times> string \<Rightarrow> rate_window list \<Rightarrow> rate_window" where
  "window_of b ws = (case get_row rw_bucket b ws of None \<Rightarrow> \<lparr>rw_bucket = b, rw_start = 0, rw_used = 0\<rparr> | Some w \<Rightarrow> w)"

definition rate_check ::
  "time \<Rightarrow> string \<times> string \<Rightarrow> int \<Rightarrow> int \<Rightarrow> rate_window list \<Rightarrow> bool \<times> rate_window list" where
  "rate_check now bucket limit window_seconds ws =
     (let w = window_of bucket ws;
          w1 = (if now \<ge> rw_start w + seconds window_seconds then w\<lparr>rw_start := now, rw_used := 0\<rparr> else w)
      in if rw_used w1 \<ge> limit then (False, put_row rw_bucket w ws)
         else (True, put_row rw_bucket (w1\<lparr>rw_used := rw_used w1 + 1\<rparr>) ws))"

definition AUTH_FAILURE_LIMIT :: int where "AUTH_FAILURE_LIMIT = 20"
definition AUTH_FAILURE_WINDOW_SECONDS :: int where "AUTH_FAILURE_WINDOW_SECONDS = 60"

definition enforce_rate_limit :: "gateway_env \<Rightarrow> string \<Rightarrow> string \<Rightarrow> int \<Rightarrow> int \<Rightarrow> gateway \<Rightarrow> unit gated" where
  "enforce_rate_limit env subject key limit window_seconds s =
     (let (allowed, ws) = rate_check (gv_now env) (subject, key) limit window_seconds (gt_windows s)
      in (if allowed then Inr () else Inl (Http 429), s\<lparr>gt_windows := ws\<rparr>))"

section \<open>Authentication\<close>

definition extract_api_key_secret :: "string option \<Rightarrow> string option \<Rightarrow> string option" where
  "extract_api_key_secret authorization x_api_key =
     (if truthy x_api_key then x_api_key
      else case authorization of
             Some a \<Rightarrow> if starts_with ''bearer '' (lower a) then Some (strip (drop 7 a)) else None
           | None \<Rightarrow> None)"

text \<open>A failed attempt: it counts against the caller's address, and past the limit its answer is 429.\<close>

definition auth_failure :: "gateway_env \<Rightarrow> int \<Rightarrow> gateway \<Rightarrow> 'a gated" where
  "auth_failure env status s =
     (case gv_client_ip env of
        None \<Rightarrow> (Inl (Http status), s)
      | Some ip \<Rightarrow>
          if ip = [] then (Inl (Http status), s)
          else let (allowed, ws) = rate_check (gv_now env) (''auth_fail'', ip) AUTH_FAILURE_LIMIT AUTH_FAILURE_WINDOW_SECONDS
                                     (gt_windows s)
               in (Inl (Http (if allowed then status else 429)), s\<lparr>gt_windows := ws\<rparr>))"

definition master_admin_record :: "gateway_env \<Rightarrow> string \<Rightarrow> api_key" where
  "master_admin_record env secret =
     \<lparr>ak_id = ''env-master'', ak_user = None, ak_name = ''env master admin'', ak_admin = True, ak_scopes = [],
      ak_secret = secret, ak_created_at = gv_now env, ak_max_active = None, ak_daily_limit = None\<rparr>"

definition get_api_key_by_secret :: "string \<Rightarrow> gateway \<Rightarrow> api_key option" where
  "get_api_key_by_secret secret s = find (\<lambda>k. ak_secret k = secret) (gt_keys s)"

definition scope_allows :: "api_key \<Rightarrow> string \<times> string \<Rightarrow> bool" where
  "scope_allows key route \<longleftrightarrow>
     (case required_scope (fst route) (snd route) of
        AnyScope \<Rightarrow> True | Scope needed \<Rightarrow> needed \<in> set (ak_scopes key) | FullAccess \<Rightarrow> False)"

definition check_scopes :: "gateway_env \<Rightarrow> api_key \<Rightarrow> bool" where
  "check_scopes env key \<longleftrightarrow>
     ak_admin key \<or> ak_scopes key = [] \<or> (case gv_route env of None \<Rightarrow> True | Some route \<Rightarrow> scope_allows key route)"

definition require_api_key ::
  "gateway_env \<Rightarrow> string option \<Rightarrow> string option \<Rightarrow> bool \<Rightarrow> gateway \<Rightarrow> api_key gated" where
  "require_api_key env authorization x_api_key admin_required s =
     (case extract_api_key_secret authorization x_api_key of
        None \<Rightarrow> auth_failure env 401 s
      | Some secret \<Rightarrow>
          if secret = [] then auth_failure env 401 s
          else if gv_master_key env \<noteq> [] \<and> secret = gv_master_key env then (Inr (master_admin_record env secret), s)
          else case get_api_key_by_secret secret s of
                 None \<Rightarrow> auth_failure env 401 s
               | Some key \<Rightarrow>
                   if admin_required \<and> \<not> ak_admin key then auth_failure env 403 s
                   else if check_scopes env key then (Inr key, s) else (Inl (Http 403), s))"

definition is_provision_secret :: "gateway_env \<Rightarrow> string option \<Rightarrow> string option \<Rightarrow> bool" where
  "is_provision_secret env authorization x_api_key \<longleftrightarrow>
     (let secret = extract_api_key_secret authorization x_api_key
      in truthy secret \<and> gv_provision_secret env \<noteq> [] \<and> secret = Some (gv_provision_secret env))"

definition require_provision_or_admin ::
  "gateway_env \<Rightarrow> string option \<Rightarrow> string option \<Rightarrow> gateway \<Rightarrow> (api_key \<times> bool) gated" where
  "require_provision_or_admin env authorization x_api_key s =
     (case extract_api_key_secret authorization x_api_key of
        None \<Rightarrow> auth_failure env 401 s
      | Some secret \<Rightarrow>
          if secret = [] then auth_failure env 401 s
          else if gv_provision_secret env \<noteq> [] \<and> secret = gv_provision_secret env
          then (Inr (master_admin_record env secret, False), s)
          else if gv_master_key env \<noteq> [] \<and> secret = gv_master_key env then (Inr (master_admin_record env secret, True), s)
          else case get_api_key_by_secret secret s of
                 None \<Rightarrow> auth_failure env 401 s
               | Some key \<Rightarrow> if ak_admin key then (Inr (key, True), s) else auth_failure env 403 s)"

section \<open>Keys\<close>

text \<open>The daily limit is stored in cents.\<close>

definition stored_key :: "api_key \<Rightarrow> api_key" where
  "stored_key k = k\<lparr>ak_daily_limit := map_option (\<lambda>usd. of_int (py_round (usd * 100)) / 100) (ak_daily_limit k)\<rparr>"

definition save_api_key :: "api_key \<Rightarrow> gateway \<Rightarrow> gateway" where
  "save_api_key k s = s\<lparr>gt_keys := put_row ak_id (stored_key k) (gt_keys s)\<rparr>"

record key_request =
  kr_name :: string
  kr_user :: "ident option"
  kr_admin :: bool
  kr_scopes :: "string list"
  kr_max_active :: "int option"
  kr_daily_limit :: "rat option"

text \<open>An inherited limit: the caller's, unless the request asks for a tighter one; asking for a looser one is
  refused (\<open>None\<close>).\<close>

definition inherit_limit :: "('n :: linorder) option \<Rightarrow> 'n option \<Rightarrow> 'n option option" where
  "inherit_limit callers asked =
     (case callers of
        None \<Rightarrow> Some asked
      | Some c \<Rightarrow> (case asked of None \<Rightarrow> Some (Some c) | Some a \<Rightarrow> if a > c then None else Some (Some a)))"

text \<open>The privilege of a new key: \<open>trusted\<close> is \<^verbatim>\<open>allow_user_id_override\<close>, or \<open>None\<close> for the in-process caller
  whose request is taken as it is.\<close>

definition new_key ::
  "gateway_env \<Rightarrow> key_request \<Rightarrow> ident option \<Rightarrow> bool \<Rightarrow> string list \<Rightarrow> int option \<Rightarrow> rat option \<Rightarrow> gateway \<Rightarrow> api_key" where
  "new_key env req user adm scopes max_active daily s =
     \<lparr>ak_id = gv_uuid env (gt_draws s), ak_user = user, ak_name = kr_name req, ak_admin = adm, ak_scopes = scopes,
      ak_secret = gv_secret env (gt_draws s), ak_created_at = gv_now env, ak_max_active = max_active, ak_daily_limit = daily\<rparr>"

definition mint :: "api_key \<Rightarrow> gateway \<Rightarrow> api_key gated" where
  "mint k s = (Inr k, save_api_key k (s\<lparr>gt_draws := Suc (gt_draws s)\<rparr>))"

definition self_service_key :: "gateway_env \<Rightarrow> key_request \<Rightarrow> api_key \<Rightarrow> gateway \<Rightarrow> api_key gated" where
  "self_service_key env req caller s =
     (case normalize_scopes (kr_scopes req) of
        None \<Rightarrow> (Inl ValueErr, s)
      | Some scopes \<Rightarrow>
          if ak_scopes caller \<noteq> [] \<and> (scopes = [] \<or> \<not> set scopes \<subseteq> set (ak_scopes caller)) then (Inl PermissionErr, s)
          else case (inherit_limit (ak_max_active caller) (kr_max_active req),
                     inherit_limit (ak_daily_limit caller) (kr_daily_limit req)) of
                 (Some max_active, Some daily) \<Rightarrow>
                   mint (new_key env req (ak_user caller) False scopes max_active daily s) s
               | _ \<Rightarrow> (Inl PermissionErr, s))"

definition create_api_key_as ::
  "gateway_env \<Rightarrow> key_request \<Rightarrow> bool option \<Rightarrow> bool \<Rightarrow> api_key \<Rightarrow> gateway \<Rightarrow> api_key gated" where
  "create_api_key_as env req trusted allow_admin_grant caller s =
     (case trusted of
        None \<Rightarrow> mint (new_key env req (kr_user req) (kr_admin req) (kr_scopes req) (kr_max_active req) (kr_daily_limit req) s) s
      | Some True \<Rightarrow>
          mint (new_key env req (kr_user req) (kr_admin req \<and> allow_admin_grant) (kr_scopes req) (kr_max_active req)
                  (kr_daily_limit req) s) s
      | Some False \<Rightarrow> self_service_key env req caller s)"

text \<open>The route \<^verbatim>\<open>POST /platform/api-keys\<close>: a caller who is not privileged falls back to self-service.\<close>

definition http_of :: "gateway_error \<Rightarrow> gateway_error" where
  "http_of e = (case e of ValueErr \<Rightarrow> Http 400 | PermissionErr \<Rightarrow> Http 403 | MissingKey \<Rightarrow> Http 404 | _ \<Rightarrow> e)"

definition create_api_key_route ::
  "gateway_env \<Rightarrow> string option \<Rightarrow> string option \<Rightarrow> key_request \<Rightarrow> gateway \<Rightarrow> api_key gated" where
  "create_api_key_route env authorization x_api_key req s =
     (case require_provision_or_admin env authorization x_api_key s of
        (Inr (caller, is_master), s1) \<Rightarrow> create_api_key_as env req (Some True) is_master caller s1
      | (Inl e, s1) \<Rightarrow>
          if e \<noteq> Http 401 \<and> e \<noteq> Http 403 then (Inl e, s1)
          else case require_api_key env authorization x_api_key False s1 of
                 (Inl e2, s2) \<Rightarrow> (Inl e2, s2)
               | (Inr key, s2) \<Rightarrow>
                   (case create_api_key_as env req (Some False) False key s2 of
                      (Inl e3, s3) \<Rightarrow> (Inl (http_of e3), s3)
                    | (Inr k, s3) \<Rightarrow> (Inr k, s3)))"

definition list_api_keys :: "ident option \<Rightarrow> bool \<Rightarrow> gateway \<Rightarrow> api_key list" where
  "list_api_keys user admin s =
     (if admin then gt_keys s
      else filter (\<lambda>k. ak_user k = user)
             (if truthy user then filter (\<lambda>k. ak_user k = user) (gt_keys s) else gt_keys s))"

definition find_key :: "ident \<Rightarrow> gateway \<Rightarrow> api_key option" where
  "find_key kid s = get_row ak_id kid (gt_keys s)"

definition get_api_key :: "ident \<Rightarrow> ident option \<Rightarrow> bool \<Rightarrow> gateway \<Rightarrow> api_key option" where
  "get_api_key kid user admin s =
     (case find_key kid s of None \<Rightarrow> None | Some k \<Rightarrow> if admin \<or> ak_user k = user then Some k else None)"

definition delete_api_key :: "ident \<Rightarrow> ident option \<Rightarrow> bool \<Rightarrow> gateway \<Rightarrow> api_key gated" where
  "delete_api_key kid user admin s =
     (case find_key kid s of
        None \<Rightarrow> (Inl MissingKey, s)
      | Some k \<Rightarrow> if \<not> admin \<and> ak_user k \<noteq> user then (Inl PermissionErr, s)
                  else (Inr k, s\<lparr>gt_keys := delete_row ak_id kid (gt_keys s)\<rparr>))"

text \<open>The routes that show and remove keys.\<close>

definition WEBSITE_ADMIN_KEY_NAME :: string where
  "WEBSITE_ADMIN_KEY_NAME = ''website admin access''"

definition website_key :: "api_key \<Rightarrow> bool" where
  "website_key k \<longleftrightarrow> ak_admin k \<and> ak_name k = WEBSITE_ADMIN_KEY_NAME"

definition list_api_keys_route :: "gateway_env \<Rightarrow> string option \<Rightarrow> string option \<Rightarrow> gateway \<Rightarrow> api_key list gated" where
  "list_api_keys_route env authorization x_api_key s =
     (case require_api_key env authorization x_api_key False s of
        (Inl e, s1) \<Rightarrow> (Inl e, s1)
      | (Inr key, s1) \<Rightarrow>
          let keys = list_api_keys (ak_user key) (ak_admin key) s1
          in (Inr (if ak_admin key then keys else filter (\<lambda>k. \<not> website_key k) keys), s1))"

definition delete_api_key_route :: "gateway_env \<Rightarrow> string option \<Rightarrow> string option \<Rightarrow> ident \<Rightarrow> gateway \<Rightarrow> api_key gated" where
  "delete_api_key_route env authorization x_api_key kid s =
     (case require_api_key env authorization x_api_key False s of
        (Inl e, s1) \<Rightarrow> (Inl e, s1)
      | (Inr key, s1) \<Rightarrow>
          let broader = (case get_api_key kid (ak_user key) False s1 of
                           None \<Rightarrow> False
                         | Some target \<Rightarrow> ak_scopes target = [] \<or> \<not> set (ak_scopes target) \<subseteq> set (ak_scopes key))
          in if ak_scopes key \<noteq> [] \<and> \<not> ak_admin key \<and> broader then (Inl (Http 403), s1)
             else case delete_api_key kid (ak_user key) (ak_admin key) s1 of
                    (Inl e, s2) \<Rightarrow> (Inl (http_of e), s2)
                  | (Inr k, s2) \<Rightarrow> (Inr k, s2))"

section \<open>Accounts\<close>

definition user_record_of :: "profile \<Rightarrow> gateway \<Rightarrow> user_record" where
  "user_record_of p s = \<lparr>us_profile = p, us_balance = get_balance (pf_user_id p) (wd_billing (gt_world s))\<rparr>"

definition get_user_record :: "ident \<Rightarrow> gateway \<Rightarrow> user_record option" where
  "get_user_record uid s = map_option (\<lambda>p. user_record_of p s) (get_row pf_user_id uid (gt_profiles s))"

definition user_by_email :: "string \<Rightarrow> gateway \<Rightarrow> profile option" where
  "user_by_email email s = (if email = [] then None else find (\<lambda>p. pf_email p = Some email) (gt_profiles s))"

definition find_user_by_email :: "string \<Rightarrow> gateway \<Rightarrow> profile option" where
  "find_user_by_email email s =
     (if email = [] then None
      else find (\<lambda>p. map_option lower (pf_email p) = Some (lower (strip email))) (gt_profiles s))"

definition user_by_username :: "string \<Rightarrow> gateway \<Rightarrow> profile option" where
  "user_by_username name s = (if name = [] then None else find (\<lambda>p. pf_username p = name) (gt_profiles s))"

text \<open>\<^verbatim>\<open>save_user\<close> writes every column of the row, the balance it was read with included.\<close>

definition on_billing :: "(billing_db \<Rightarrow> billing_db) \<Rightarrow> gateway \<Rightarrow> gateway" where
  "on_billing f s = s\<lparr>gt_world := (gt_world s)\<lparr>wd_billing := f (wd_billing (gt_world s))\<rparr>\<rparr>"

definition put_balance :: "ident \<Rightarrow> int \<Rightarrow> billing_db \<Rightarrow> billing_db" where
  "put_balance uid b db = db\<lparr>bd_users := put_row u_id \<lparr>u_id = uid, u_balance = b\<rparr> (bd_users db)\<rparr>"

definition save_user :: "user_record \<Rightarrow> gateway \<Rightarrow> gateway" where
  "save_user u s =
     on_billing (put_balance (pf_user_id (us_profile u)) (us_balance u))
       (s\<lparr>gt_profiles := put_row pf_user_id (us_profile u) (gt_profiles s)\<rparr>)"

definition username_candidates :: "string option \<Rightarrow> string option \<Rightarrow> string list" where
  "username_candidates desired email =
     (let base = (case desired of None \<Rightarrow> [] | Some d \<Rightarrow> strip d);
          local = (case email of None \<Rightarrow> [] | Some e \<Rightarrow> strip (takeWhile (\<lambda>c. c \<noteq> CHR ''@'') e));
          seed = (if base \<noteq> [] then base else if local \<noteq> [] then local else ''user'')
      in (if base \<noteq> [] then [base] else []) @ (if local \<noteq> [] \<and> local \<noteq> base then [local] else []) @
         map (\<lambda>i. seed @ show_nat i) [2..<100])"

definition unique_username :: "gateway_env \<Rightarrow> string option \<Rightarrow> string option \<Rightarrow> gateway \<Rightarrow> string" where
  "unique_username env desired email s =
     (let candidates = username_candidates desired email
      in case find (\<lambda>c. user_by_username c s = None) candidates of
           Some c \<Rightarrow> c
         | None \<Rightarrow>
             let base = (case desired of None \<Rightarrow> [] | Some d \<Rightarrow> strip d);
                 local = (case email of None \<Rightarrow> [] | Some e \<Rightarrow> strip (takeWhile (\<lambda>c. c \<noteq> CHR ''@'') e))
             in (if base \<noteq> [] then base else if local \<noteq> [] then local else ''user'') @ ''-'' @ take 8 (gv_uuid env (gt_draws s)))"

definition register_user :: "gateway_env \<Rightarrow> string option \<Rightarrow> string option \<Rightarrow> gateway \<Rightarrow> user_record \<times> gateway" where
  "register_user env username email s =
     (case (if truthy email then user_by_email (the email) s else None) of
        Some p \<Rightarrow> (user_record_of p s, s)
      | None \<Rightarrow>
          let name = unique_username env username email s;
              u = \<lparr>us_profile = \<lparr>pf_user_id = gv_uuid env (Suc (gt_draws s)), pf_username = name, pf_email = email,
                                 pf_display_name = None, pf_bio = None, pf_website = None, pf_metadata = [],
                                 pf_created_at = gv_now env\<rparr>, us_balance = 0\<rparr>
          in (u, save_user u (s\<lparr>gt_draws := Suc (Suc (gt_draws s))\<rparr>)))"

record profile_update =
  pu_email :: "string option"
  pu_display_name :: "string option"
  pu_bio :: "string option"
  pu_website :: "string option"
  pu_metadata :: "(string \<times> string) list option"

definition keep_or :: "'a option \<Rightarrow> 'a option \<Rightarrow> 'a option" where
  "keep_or old asked = (case asked of None \<Rightarrow> old | Some x \<Rightarrow> Some x)"

text \<open>The profile edit between the two transactions of \<^verbatim>\<open>update_user_profile\<close>: the row is read, changed and
  saved.\<close>

definition edit_profile :: "profile_update \<Rightarrow> user_record \<Rightarrow> user_record" where
  "edit_profile req u =
     u\<lparr>us_profile := (us_profile u)
         \<lparr>pf_email := keep_or (pf_email (us_profile u)) (pu_email req),
          pf_display_name := keep_or (pf_display_name (us_profile u)) (pu_display_name req),
          pf_bio := keep_or (pf_bio (us_profile u)) (pu_bio req),
          pf_website := keep_or (pf_website (us_profile u)) (pu_website req),
          pf_metadata := (case pu_metadata req of None \<Rightarrow> pf_metadata (us_profile u) | Some m \<Rightarrow> m)\<rparr>\<rparr>"

definition update_user_profile :: "ident \<Rightarrow> profile_update \<Rightarrow> gateway \<Rightarrow> user_record gated" where
  "update_user_profile uid req s =
     (case get_user_record uid s of
        None \<Rightarrow> (Inl MissingKey, s)
      | Some u \<Rightarrow> let u' = edit_profile req u in (Inr u', save_user u' s))"

definition is_admin_account :: "ident option \<Rightarrow> gateway \<Rightarrow> bool" where
  "is_admin_account uid s \<longleftrightarrow> truthy uid \<and> get_row aa_user_id (the uid) (gt_admins s) \<noteq> None"

definition add_admin :: "gateway_env \<Rightarrow> string \<Rightarrow> ident option \<Rightarrow> gateway \<Rightarrow> admin_account gated" where
  "add_admin env email added_by s =
     (let address = lower (strip email)
      in if CHR ''@'' \<notin> set address \<or> length address > 255 then (Inl ValueErr, s)
         else case find_user_by_email address s of
                None \<Rightarrow> (Inl MissingKey, s)
              | Some p \<Rightarrow>
                  (case get_row aa_user_id (pf_user_id p) (gt_admins s) of
                     Some a \<Rightarrow> (Inr a, s)
                   | None \<Rightarrow>
                       let a = \<lparr>aa_user_id = pf_user_id p, aa_email = the (str_or (pf_email p) (Some address)),
                                aa_added_by = added_by, aa_added_at = gv_now env\<rparr>
                       in (Inr a, s\<lparr>gt_admins := gt_admins s @ [a]\<rparr>)))"

definition remove_admin :: "string \<Rightarrow> gateway \<Rightarrow> ident gated" where
  "remove_admin who s =
     (let found = (if CHR ''@'' \<in> set who then find_user_by_email who s else get_row pf_user_id who (gt_profiles s));
          uid = (case found of None \<Rightarrow> who | Some p \<Rightarrow> pf_user_id p)
      in if get_row aa_user_id uid (gt_admins s) = None then (Inl MissingKey, s)
         else let mine = (\<lambda>k. if uid = [] then True else ak_user k = Some uid)
              in (Inr uid, s\<lparr>gt_admins := delete_row aa_user_id uid (gt_admins s),
                             gt_keys := filter (\<lambda>k. \<not> (mine k \<and> website_key k)) (gt_keys s)\<rparr>))"

definition website_admin_key :: "gateway_env \<Rightarrow> ident \<Rightarrow> gateway \<Rightarrow> string option \<times> gateway" where
  "website_admin_key env uid s =
     (if \<not> is_admin_account (Some uid) s then (None, s)
      else case find website_key (filter (\<lambda>k. ak_user k = Some uid) (gt_keys s)) of
             Some k \<Rightarrow> (Some (ak_secret k), s)
           | None \<Rightarrow>
               let k = \<lparr>ak_id = gv_uuid env (gt_draws s), ak_user = Some uid, ak_name = WEBSITE_ADMIN_KEY_NAME, ak_admin = True,
                        ak_scopes = [], ak_secret = gv_secret env (gt_draws s), ak_created_at = gv_now env,
                        ak_max_active = None, ak_daily_limit = None\<rparr>
               in (Some (ak_secret k), save_api_key k (s\<lparr>gt_draws := Suc (gt_draws s)\<rparr>)))"

section \<open>Workloads and deployments\<close>

definition owned_by :: "ident option \<Rightarrow> ident option \<Rightarrow> bool" where
  "owned_by owner user \<longleftrightarrow> user \<noteq> None \<and> owner = user"

definition list_workload_shares :: "ident \<Rightarrow> gateway \<Rightarrow> share list" where
  "list_workload_shares wid s = filter (\<lambda>x. sh_workload_id x = wid) (gt_shares s)"

definition user_can_access_workload :: "workload \<Rightarrow> ident option \<Rightarrow> gateway \<Rightarrow> bool" where
  "user_can_access_workload w user s \<longleftrightarrow>
     wl_public w \<or> owned_by (wl_owner w) user \<or>
     user \<noteq> None \<and> list_ex (\<lambda>x. Some (sh_with x) = user) (list_workload_shares (wl_id w) s)"

abbreviation gdb :: "gateway \<Rightarrow> control_db" where
  "gdb s \<equiv> wdb (gt_world s)"

definition with_control :: "'a outcome \<Rightarrow> gateway \<Rightarrow> 'a gated" where
  "with_control r s =
     (let s1 = s\<lparr>gt_world := (gt_world s)\<lparr>wd_control := snd r\<rparr>\<rparr>
      in case fst r of Inl e \<Rightarrow> (Inl (ControlErr e), s1) | Inr x \<Rightarrow> (Inr x, s1))"

definition get_workload_for :: "ident \<Rightarrow> ident option \<Rightarrow> bool \<Rightarrow> gateway \<Rightarrow> workload option" where
  "get_workload_for wid user admin s =
     (case get_workload wid (gdb s) of
        None \<Rightarrow> None | Some w \<Rightarrow> if admin \<or> user_can_access_workload w user s then Some w else None)"

definition list_workloads_for :: "ident option \<Rightarrow> bool \<Rightarrow> bool \<Rightarrow> gateway \<Rightarrow> workload list" where
  "list_workloads_for user admin mine s =
     (let workloads = cd_workloads (gdb s)
      in if mine then filter (\<lambda>w. owned_by (wl_owner w) user) workloads
         else if admin then workloads
         else filter (\<lambda>w. wl_public w \<or> wl_owner w = user \<or>
                          user \<noteq> None \<and> list_ex (\<lambda>x. Some (sh_with x) = user \<and> sh_workload_id x = wl_id w) (gt_shares s)) workloads)"

record deployment_request =
  dq_workload_id :: ident
  dq_name :: "string option"
  dq_instances :: int
  dq_accept_fee :: bool
  dq_save_on_exhaustion :: bool
  dq_resume_on_topup :: bool
  dq_max_runtime_minutes :: "int option"

definition max_rate_cents :: "env \<Rightarrow> time \<Rightarrow> workload \<Rightarrow> control_db \<Rightarrow> int" where
  "max_rate_cents cenv now w db =
     (let supported = rq_supported_gpu_models (wl_requirements w); rentable = online_gpu_models cenv now db
      in if supported \<noteq> [] then max_list (map (\<lambda>m. rate_for_gpu cenv (Some m)) supported)
         else max_list (if rentable \<noteq> [] then map (\<lambda>m. rate_for_gpu cenv (Some m)) rentable else gpu_rates cenv))"

definition billed_gpus :: "workload \<Rightarrow> int" where
  "billed_gpus w = (if rq_gpu_count (wl_requirements w) = 0 then 1 else rq_gpu_count (wl_requirements w))"

definition key_refuses :: "gateway_env \<Rightarrow> ident option \<Rightarrow> gateway \<Rightarrow> room_reason option" where
  "key_refuses env created_by s =
     (if \<not> truthy created_by then None
      else case find_key (the created_by) s of
             None \<Rightarrow> None
           | Some k \<Rightarrow>
               if ak_admin k \<or> ak_max_active k = None \<and> ak_daily_limit k = None then None
               else snd (key_rental_room (gv_now env) (ak_id k) (ak_max_active k) (ak_daily_limit k) (gdb s)
                           (wd_billing (gt_world s))))"

definition managed_by_flux :: "workload \<Rightarrow> bool" where
  "managed_by_flux w \<longleftrightarrow> map_of (wl_metadata w) ''managed_by'' = Some ''flux''"

definition gpu_refused :: "gateway_env \<Rightarrow> workload \<Rightarrow> gateway \<Rightarrow> bool" where
  "gpu_refused env w s \<longleftrightarrow>
     (let requested = rq_supported_gpu_models (wl_requirements w)
      in requested \<noteq> [] \<and>
         set (map (\<lambda>m. normalize_gpu_model (Some m)) requested) \<inter>
           set (map (\<lambda>m. normalize_gpu_model (Some m)) (online_gpu_models (gv_control env) (gv_now env) (gdb s))) = {})"

text \<open>What stands between a request and the control plane, in the order of the code.\<close>

definition rental_gate ::
  "gateway_env \<Rightarrow> workload \<Rightarrow> ident option \<Rightarrow> bool \<Rightarrow> ident option \<Rightarrow> gateway \<Rightarrow> gateway_error option" where
  "rental_gate env w user admin created_by s =
     (if admin then None
      else if \<not> user_can_access_workload w user s then Some PermissionErr
      else if managed_by_flux w then Some PermissionErr
      else if gpu_refused env w s then Some UnsupportedGPU
      else let required = max_rate_cents (gv_control env) (gv_now env) w (gdb s) * billed_gpus w;
               current = get_balance (the user) (wd_billing (gt_world s))
           in if user \<noteq> None \<and> current < required then Some (InsufficientForRental required current)
              else case key_refuses env created_by s of
                     Some why \<Rightarrow> Some (KeyLimit why)
                   | None \<Rightarrow>
                       if fst (placement_preview (gv_control env) (gv_now env) w (gdb s)) then None else Some NoCapacity)"

definition create_deployment_for ::
  "gateway_env \<Rightarrow> deployment_request \<Rightarrow> ident option \<Rightarrow> bool \<Rightarrow> ident option \<Rightarrow> gateway \<Rightarrow> deployment gated" where
  "create_deployment_for env req user admin created_by s =
     (if dq_resume_on_topup req \<and> \<not> dq_save_on_exhaustion req then (Inl ValueErr, s)
      else case get_workload (dq_workload_id req) (gdb s) of
        None \<Rightarrow> (Inl MissingKey, s)
      | Some w \<Rightarrow>
          (case rental_gate env w user admin created_by s of
             Some e \<Rightarrow> (Inl e, s)
           | None \<Rightarrow>
               with_control
                 (create_deployment (gv_control env) (gv_now env)
                    \<lparr>rq_workload_id = dq_workload_id req, rq_name = dq_name req, rq_owner = user, rq_key_id = created_by,
                     rq_instances = dq_instances req, rq_save_on_exhaustion = dq_save_on_exhaustion req,
                     rq_resume_on_topup = dq_resume_on_topup req, rq_max_runtime_minutes = dq_max_runtime_minutes req,
                     rq_accept_fee = dq_accept_fee req\<rparr> (wd_control (gt_world s))) s))"

text \<open>The owner's check in front of every operation on one deployment.\<close>

definition own_deployment :: "ident \<Rightarrow> ident option \<Rightarrow> bool \<Rightarrow> gateway \<Rightarrow> gateway_error + deployment" where
  "own_deployment did user admin s =
     (case get_deployment did (gdb s) of
        None \<Rightarrow> Inl MissingKey
      | Some d \<Rightarrow> if \<not> admin \<and> \<not> owned_by (d_owner d) user then Inl PermissionErr else Inr d)"

definition resume_deployment_for ::
  "gateway_env \<Rightarrow> ident \<Rightarrow> ident option \<Rightarrow> bool \<Rightarrow> gateway \<Rightarrow> deployment gated" where
  "resume_deployment_for env did user admin s =
     (case own_deployment did user admin s of
        Inl e \<Rightarrow> (Inl e, s)
      | Inr old \<Rightarrow>
          if d_state old \<noteq> SUSPENDED then (Inl ValueErr, s)
          else let gpus = (case get_workload (d_workload_id old) (gdb s) of None \<Rightarrow> 1 | Some w \<Rightarrow> billed_gpus w);
                   required = d_hourly_rate_cents old * gpus;
                   current = get_balance (the user) (wd_billing (gt_world s))
               in if \<not> admin \<and> user \<noteq> None \<and> current < required then (Inl (InsufficientForRental required current), s)
                  else with_control (resume_deployment (gv_control env) (gv_now env) did (wd_control (gt_world s))) s)"

definition list_deployments_for :: "ident option \<Rightarrow> bool \<Rightarrow> gateway \<Rightarrow> deployment list" where
  "list_deployments_for user admin s =
     (if admin then list_deployments (gdb s)
      else filter (\<lambda>d. owned_by (d_owner d) user) (list_deployments (gdb s)))"

definition get_deployment_for :: "ident \<Rightarrow> ident option \<Rightarrow> bool \<Rightarrow> gateway \<Rightarrow> deployment option" where
  "get_deployment_for did user admin s =
     (case own_deployment did user admin s of Inl _ \<Rightarrow> None | Inr d \<Rightarrow> Some d)"

definition update_deployment_for ::
  "gateway_env \<Rightarrow> ident \<Rightarrow> update_request \<Rightarrow> ident option \<Rightarrow> bool \<Rightarrow> gateway \<Rightarrow> deployment gated" where
  "update_deployment_for env did req user admin s =
     (case own_deployment did user admin s of
        Inl e \<Rightarrow> (Inl e, s)
      | Inr d \<Rightarrow>
          if up_resume_on_topup req = Some True \<and> \<not> d_save_on_exhaustion d then (Inl ValueErr, s)
          else with_control (update_deployment (gv_now env) did req (wd_control (gt_world s))) s)"

definition terminate_deployment_for ::
  "gateway_env \<Rightarrow> time \<Rightarrow> ident \<Rightarrow> ident option \<Rightarrow> bool \<Rightarrow> gateway \<Rightarrow> deployment gated" where
  "terminate_deployment_for env reported did user admin s =
     (case own_deployment did user admin s of
        Inl e \<Rightarrow> (Inl e, s)
      | Inr d \<Rightarrow> with_control (cleanup_deployment (gv_control env) (gv_now env) reported did ''user terminated'' (wd_control (gt_world s))) s)"

section \<open>Shares, deletion and idempotency\<close>

text \<open>The owner's check in front of sharing, editing and deleting a workload.\<close>

definition own_workload :: "ident \<Rightarrow> ident option \<Rightarrow> bool \<Rightarrow> gateway \<Rightarrow> gateway_error + workload" where
  "own_workload wid user admin s =
     (case get_workload wid (gdb s) of
        None \<Rightarrow> Inl MissingKey
      | Some w \<Rightarrow> if \<not> admin \<and> \<not> owned_by (wl_owner w) user then Inl PermissionErr else Inr w)"

definition share_workload ::
  "gateway_env \<Rightarrow> ident \<Rightarrow> ident \<Rightarrow> string \<Rightarrow> ident option \<Rightarrow> bool \<Rightarrow> gateway \<Rightarrow> share gated" where
  "share_workload env wid shared_with permission user admin s =
     (case own_workload wid user admin s of
        Inl e \<Rightarrow> (Inl e, s)
      | Inr w \<Rightarrow>
          if get_user_record shared_with s = None then (Inl MissingKey, s)
          else let x = \<lparr>sh_id = gv_uuid env (gt_draws s), sh_workload_id = wid, sh_owner = str_or (wl_owner w) (Some []),
                        sh_with = shared_with, sh_permission = permission, sh_created_at = gv_now env\<rparr>
               in (Inr x, s\<lparr>gt_shares := put_row sh_id x (gt_shares s), gt_draws := Suc (gt_draws s)\<rparr>))"

definition list_workload_shares_for :: "ident \<Rightarrow> ident option \<Rightarrow> bool \<Rightarrow> gateway \<Rightarrow> gateway_error + share list" where
  "list_workload_shares_for wid user admin s =
     (case own_workload wid user admin s of Inl e \<Rightarrow> Inl e | Inr _ \<Rightarrow> Inr (list_workload_shares wid s))"

text \<open>A deployment that has gone meanwhile is skipped; every other error leaves the loop.\<close>

fun stop_deployments :: "gateway_env \<Rightarrow> time \<Rightarrow> deployment list \<Rightarrow> gateway \<Rightarrow> unit gated" where
  "stop_deployments env long_ago [] s = (Inr (), s)"
| "stop_deployments env long_ago (d # ds) s =
     (if d_state d = TERMINATED \<or> d_state d = FAILED then stop_deployments env long_ago ds s
      else case with_control (cleanup_deployment (gv_control env) (gv_now env) long_ago (d_id d) ''workload deleted''
                                (wd_control (gt_world s))) s of
             (Inl e, s1) \<Rightarrow> if e = ControlErr NotFound then stop_deployments env long_ago ds s1 else (Inl e, s1)
           | (Inr _, s1) \<Rightarrow> stop_deployments env long_ago ds s1)"

definition delete_workload_for :: "gateway_env \<Rightarrow> time \<Rightarrow> ident \<Rightarrow> ident option \<Rightarrow> bool \<Rightarrow> gateway \<Rightarrow> workload gated" where
  "delete_workload_for env long_ago wid user admin s =
     (case own_workload wid user admin s of
        Inl e \<Rightarrow> (Inl e, s)
      | Inr _ \<Rightarrow>
          (case stop_deployments env long_ago (list_deployments_for_workload wid (gdb s)) s of
             (Inl e, s1) \<Rightarrow> (Inl e, s1)
           | (Inr _, s1) \<Rightarrow>
               let (deleted, db) = delete_workload (gv_now env) wid (gdb s1);
                   s2 = s1\<lparr>gt_world := (gt_world s1)\<lparr>wd_control := (wd_control (gt_world s1))\<lparr>c_db := db\<rparr>\<rparr>\<rparr>
               in case deleted of None \<Rightarrow> (Inl MissingKey, s2) | Some w \<Rightarrow> (Inr w, s2)))"

definition IDEMPOTENCY_TTL :: time where "IDEMPOTENCY_TTL = seconds (24 * 3600)"
definition IDEMPOTENCY_STALE :: time where "IDEMPOTENCY_STALE = seconds 120"

datatype idem_answer = IdemNew | IdemReplay string | IdemMismatch | IdemInProgress

definition idempotency_row_key :: "gateway_env \<Rightarrow> string \<Rightarrow> string \<Rightarrow> string \<Rightarrow> string" where
  "idempotency_row_key env scope endpoint idempotency_key =
     ''idem:'' @ take 48 (gv_sha256 env (scope @ ''|'' @ endpoint @ ''|'' @ idempotency_key))"

definition idempotency_begin ::
  "gateway_env \<Rightarrow> string \<Rightarrow> string \<Rightarrow> string \<Rightarrow> string \<Rightarrow> gateway \<Rightarrow> idem_answer \<times> gateway" where
  "idempotency_begin env scope endpoint idempotency_key request_hash s =
     (let key = idempotency_row_key env scope endpoint idempotency_key;
          claimed = (IdemNew, s\<lparr>gt_idem := put_row id_key \<lparr>id_key = key, id_hash = request_hash, id_at = gv_now env,
                                                     id_state = IdemPending\<rparr> (gt_idem s)\<rparr>)
      in case get_row id_key key (gt_idem s) of
           None \<Rightarrow> claimed
         | Some row \<Rightarrow>
             let age = gv_now env - id_at row
             in if age > IDEMPOTENCY_TTL \<or> id_state row = IdemPending \<and> age > IDEMPOTENCY_STALE then claimed
                else if id_hash row \<noteq> request_hash then (IdemMismatch, s)
                else case id_state row of IdemDone response \<Rightarrow> (IdemReplay response, s) | IdemPending \<Rightarrow> (IdemInProgress, s))"

definition idempotency_complete ::
  "gateway_env \<Rightarrow> string \<Rightarrow> string \<Rightarrow> string \<Rightarrow> string \<Rightarrow> string \<Rightarrow> gateway \<Rightarrow> gateway" where
  "idempotency_complete env scope endpoint idempotency_key request_hash response s =
     s\<lparr>gt_idem := put_row id_key
         \<lparr>id_key = idempotency_row_key env scope endpoint idempotency_key, id_hash = request_hash, id_at = gv_now env,
          id_state = IdemDone response\<rparr> (gt_idem s)\<rparr>"

definition idempotency_release :: "gateway_env \<Rightarrow> string \<Rightarrow> string \<Rightarrow> string \<Rightarrow> gateway \<Rightarrow> gateway" where
  "idempotency_release env scope endpoint idempotency_key s =
     s\<lparr>gt_idem := delete_row id_key (idempotency_row_key env scope endpoint idempotency_key) (gt_idem s)\<rparr>"

text \<open>\<^verbatim>\<open>_with_idempotency\<close> around the creation \<open>run\<close>, whose response is a text; an exception of \<open>run\<close>
  forgets the claim.\<close>

definition with_idempotency ::
  "gateway_env \<Rightarrow> api_key \<Rightarrow> string \<Rightarrow> string option \<Rightarrow> string \<Rightarrow> (gateway \<Rightarrow> string gated) \<Rightarrow> gateway \<Rightarrow> string gated" where
  "with_idempotency env key endpoint idempotency_key request_hash run s =
     (case idempotency_key of
        None \<Rightarrow> run s
      | Some given \<Rightarrow>
          let ik = strip given; scope = the (str_or (ak_user key) (Some (ak_id key)))
          in if ik = [] \<or> length ik > 255 then (Inl (Http 400), s)
             else case idempotency_begin env scope endpoint ik request_hash s of
                    (IdemReplay stored, s1) \<Rightarrow> (Inr stored, s1)
                  | (IdemMismatch, s1) \<Rightarrow> (Inl (Http 422), s1)
                  | (IdemInProgress, s1) \<Rightarrow> (Inl (Http 409), s1)
                  | (IdemNew, s1) \<Rightarrow>
                      (case run s1 of
                         (Inl e, s2) \<Rightarrow> (Inl e, idempotency_release env scope endpoint ik s2)
                       | (Inr result, s2) \<Rightarrow>
                           (Inr result, idempotency_complete env scope endpoint ik request_hash result s2)))"

text \<open>\<^verbatim>\<open>_enforce_key_limits\<close> in front of a creation: \<open>True\<close> if the key is at one of its limits.\<close>

definition enforce_key_limits :: "gateway_env \<Rightarrow> api_key \<Rightarrow> bool \<Rightarrow> gateway \<Rightarrow> bool" where
  "enforce_key_limits env key starting_rental s \<longleftrightarrow>
     \<not> (ak_admin key \<or> ak_max_active key = None \<and> ak_daily_limit key = None) \<and>
     snd (key_rental_room (gv_now env) (ak_id key) (if starting_rental then ak_max_active key else None) (ak_daily_limit key)
            (gdb s) (wd_billing (gt_world s))) \<noteq> None"

text \<open>The route \<^verbatim>\<open>POST /platform/deployments\<close>; an error that no handler names is a 500.\<close>

definition create_error :: "gateway_error \<Rightarrow> gateway_error" where
  "create_error e =
     (case e of
        MissingKey \<Rightarrow> Http 404 | PermissionErr \<Rightarrow> Http 403 | UnsupportedGPU \<Rightarrow> Http 400 | InsufficientForRental _ _ \<Rightarrow> Http 402
      | KeyLimit _ \<Rightarrow> Http 403 | NoCapacity \<Rightarrow> Http 503 | ControlErr NotFound \<Rightarrow> Http 404 | Http n \<Rightarrow> Http n | _ \<Rightarrow> Http 500)"

definition create_deployment_once ::
  "gateway_env \<Rightarrow> (deployment \<Rightarrow> string) \<Rightarrow> deployment_request \<Rightarrow> api_key \<Rightarrow> gateway \<Rightarrow> string gated" where
  "create_deployment_once env shown req key s =
     (if enforce_key_limits env key True s then (Inl (Http 403), s)
      else case create_deployment_for env req (ak_user key) (ak_admin key) (Some (ak_id key)) s of
             (Inl e, s1) \<Rightarrow> (Inl (create_error e), s1)
           | (Inr d, s1) \<Rightarrow> (Inr (shown d), s1))"

definition create_deployment_route ::
  "gateway_env \<Rightarrow> (deployment \<Rightarrow> string) \<Rightarrow> string option \<Rightarrow> string option \<Rightarrow> string option \<Rightarrow> string \<Rightarrow> deployment_request \<Rightarrow>
   gateway \<Rightarrow> string gated" where
  "create_deployment_route env shown authorization x_api_key idempotency_key request_hash req s =
     (case require_api_key env authorization x_api_key False s of
        (Inl e, s1) \<Rightarrow> (Inl e, s1)
      | (Inr key, s1) \<Rightarrow>
          (case enforce_rate_limit env ''create_deployment'' (ak_id key) 30 60 s1 of
             (Inl e, s2) \<Rightarrow> (Inl e, s2)
           | (Inr _, s2) \<Rightarrow>
               with_idempotency env key ''create_deployment'' idempotency_key request_hash
                 (create_deployment_once env shown req key) s2))"

end
