(* ===== verification/Access_Properties.thy ===== *)
theory Access_Properties
  imports Access
begin

text \<open>
  What the gateway guarantees about keys, limits and creations: a key made with a key is never broader
  (\<open>minted_key_never_broader\<close>), bursts are bounded (\<open>rate_limit_bounds_bursts\<close>), a rental starts only with its first
  hour covered (\<open>gate_covers_first_hour\<close>), and a creation under an idempotency key runs once (\<open>creation_runs_once\<close>).
\<close>

section \<open>Keys\<close>

lemma check_scopes_subset:
  assumes "ak_scopes caller \<noteq> [] \<longrightarrow> ak_scopes k \<noteq> [] \<and> set (ak_scopes k) \<subseteq> set (ak_scopes caller)"
    and "\<not> ak_admin k" "check_scopes env k"
  shows "check_scopes env caller"
proof (cases "ak_scopes caller = []")
  case True
  then show ?thesis by (simp add: check_scopes_def)
next
  case False
  with assms have k: "ak_scopes k \<noteq> []" "set (ak_scopes k) \<subseteq> set (ak_scopes caller)" by auto
  show ?thesis
  proof (cases "gv_route env")
    case None
    then show ?thesis by (simp add: check_scopes_def)
  next
    case (Some route)
    have "scope_allows k route" using assms(2,3) k(1) Some by (simp add: check_scopes_def)
    then have "scope_allows caller route"
      using k(2) by (auto simp: scope_allows_def split: needed.splits)
    then show ?thesis by (simp add: check_scopes_def Some)
  qed
qed

definition no_looser :: "('n :: linorder) option \<Rightarrow> 'n option \<Rightarrow> bool" where
  "no_looser new callers \<longleftrightarrow> (case callers of None \<Rightarrow> True | Some c \<Rightarrow> (case new of None \<Rightarrow> False | Some n \<Rightarrow> n \<le> c))"

lemma inherit_limit_no_looser: "inherit_limit callers asked = Some l \<Longrightarrow> no_looser l callers"
  by (auto simp: inherit_limit_def no_looser_def split: option.splits if_splits)

definition no_broader :: "api_key \<Rightarrow> api_key \<Rightarrow> bool" where
  "no_broader k caller \<longleftrightarrow>
     ak_user k = ak_user caller \<and> \<not> ak_admin k \<and> no_looser (ak_max_active k) (ak_max_active caller) \<and>
     no_looser (ak_daily_limit k) (ak_daily_limit caller) \<and>
     (\<forall>env. check_scopes env k \<longrightarrow> check_scopes env caller)"

lemma self_service_cases:
  assumes "self_service_key env req caller s = (Inr k, s')"
  shows "no_broader k caller \<and> s' = snd (mint k s)"
proof -
  obtain scopes where scopes: "normalize_scopes (kr_scopes req) = Some scopes"
    using assms by (cases "normalize_scopes (kr_scopes req)") (auto simp: self_service_key_def)
  have sub: "ak_scopes caller \<noteq> [] \<longrightarrow> scopes \<noteq> [] \<and> set scopes \<subseteq> set (ak_scopes caller)"
    using assms scopes by (auto simp: self_service_key_def split: if_splits)
  obtain m d where lims: "inherit_limit (ak_max_active caller) (kr_max_active req) = Some m"
      "inherit_limit (ak_daily_limit caller) (kr_daily_limit req) = Some d"
    using assms scopes by (auto simp: self_service_key_def split: if_splits option.splits)
  have k: "k = new_key env req (ak_user caller) False scopes m d s" "s' = snd (mint k s)"
    using assms scopes lims by (auto simp: self_service_key_def mint_def split: if_splits)
  then have "ak_scopes k = scopes" "\<not> ak_admin k" "ak_user k = ak_user caller" "ak_max_active k = m" "ak_daily_limit k = d"
    by (simp_all add: new_key_def)
  with sub lims k(2) show ?thesis
    by (auto simp: no_broader_def inherit_limit_no_looser intro: check_scopes_subset)
qed

lemma require_frame: "gt_keys (snd (require_api_key env a x adm s)) = gt_keys s"
  by (simp add: require_api_key_def auth_failure_def Let_def case_prod_beta split: option.splits)

lemma provision_refuses:
  assumes "extract_api_key_secret a x = Some secret" "secret \<noteq> []" "secret \<noteq> gv_provision_secret env"
    "secret \<noteq> gv_master_key env" "get_api_key_by_secret secret s = Some caller" "\<not> ak_admin caller"
  shows "\<exists>e t. require_provision_or_admin env a x s = (Inl e, t) \<and> gt_keys t = gt_keys s"
  using assms by (simp add: require_provision_or_admin_def auth_failure_def Let_def case_prod_beta split: option.split)

lemma require_knows:
  assumes "extract_api_key_secret a x = Some secret" "secret \<noteq> gv_master_key env" "get_api_key_by_secret secret s = Some caller"
    and "require_api_key env a x False s = (Inr k, t)"
  shows "k = caller \<and> t = s \<and> check_scopes env caller"
  using assms by (cases "secret = []") (auto simp: require_api_key_def auth_failure_def Let_def split: if_splits option.splits prod.splits)

text \<open>(C9) A key that a customer mints with a key of his own is never broader than it: it belongs to the same
  user, is no admin key, carries limits at least as tight, and whatever request it would be let through for, the
  key it was made with would be let through for too; the other keys stay as they were.\<close>

theorem minted_key_never_broader:
  assumes "extract_api_key_secret a x = Some secret" "secret \<noteq> []" "secret \<noteq> gv_provision_secret env"
    "secret \<noteq> gv_master_key env" "get_api_key_by_secret secret s = Some caller" "\<not> ak_admin caller"
    and "create_api_key_route env a x req s = (Inr k, s')"
  shows "no_broader k caller \<and> check_scopes env caller \<and> gt_keys s' = put_row ak_id (stored_key k) (gt_keys s)"
proof -
  obtain e t where refused: "require_provision_or_admin env a x s = (Inl e, t)" "gt_keys t = gt_keys s"
    using provision_refuses [OF assms(1-6)] by blast
  obtain k1 t1 where own: "require_api_key env a x False t = (Inr k1, t1)"
      "self_service_key env req k1 t1 = (Inr k, s')"
    using assms(7) refused(1)
    by (auto simp: create_api_key_route_def create_api_key_as_def split: if_splits prod.splits sum.splits)
  have "get_api_key_by_secret secret t = Some caller"
    using assms(5) refused(2) by (simp add: get_api_key_by_secret_def)
  from require_knows [OF assms(1,4) this own(1)] have caller: "k1 = caller" "t1 = t" "check_scopes env caller" by simp_all
  from self_service_cases [OF own(2)] caller refused(2) show ?thesis
    by (simp add: mint_def save_api_key_def)
qed

section \<open>Rate limits\<close>

text \<open>A series of calls, each with its time and bucket, as the limiter answers them.\<close>

fun rate_answers :: "int \<Rightarrow> int \<Rightarrow> (time \<times> (string \<times> string)) list \<Rightarrow> rate_window list \<Rightarrow> bool list" where
  "rate_answers limit wsec [] ws = []"
| "rate_answers limit wsec ((now, b) # calls) ws =
     (let (ok, ws') = rate_check now b limit wsec ws in ok # rate_answers limit wsec calls ws')"

definition admitted_calls :: "(string \<times> string) \<Rightarrow> (time \<times> (string \<times> string)) list \<Rightarrow> bool list \<Rightarrow> int" where
  "admitted_calls b calls answers = int (length (filter (\<lambda>((now, b'), ok). ok \<and> b' = b) (zip calls answers)))"

lemma window_of_put_row: "window_of b (put_row rw_bucket w ws) = (if rw_bucket w = b then w else window_of b ws)"
  by (simp add: window_of_def row_simps)

lemma window_bucket [simp]: "rw_bucket (window_of b ws) = b"
  by (auto simp: window_of_def split: option.split dest: get_row_SomeD)

lemma rate_check_other: "b' \<noteq> b \<Longrightarrow> window_of b (snd (rate_check now b' l w ws)) = window_of b ws"
  by (simp add: rate_check_def Let_def window_of_put_row)

lemma rate_check_own:
  "rate_check now b limit wsec ws = (ok, ws') \<Longrightarrow>
     (let w = window_of b ws; w1 = (if now \<ge> rw_start w + seconds wsec then w\<lparr>rw_start := now, rw_used := 0\<rparr> else w)
      in ok = (rw_used w1 < limit) \<and> window_of b ws' = (if ok then w1\<lparr>rw_used := rw_used w1 + 1\<rparr> else w))"
  by (auto simp: rate_check_def Let_def window_of_put_row split: if_splits)

lemma admitted_Cons:
  "admitted_calls b ((now, b') # calls) (ok # answers) = (if ok \<and> b' = b then 1 else 0) + admitted_calls b calls answers"
  by (simp add: admitted_calls_def)

lemma calls_in_window:
  assumes "list_all (\<lambda>c. fst c < rw_start (window_of b ws) + seconds wsec) calls"
  shows "admitted_calls b calls (rate_answers limit wsec calls ws) \<le> max 0 (limit - rw_used (window_of b ws))"
  using assms
proof (induction calls arbitrary: ws)
  case Nil
  then show ?case by (simp add: admitted_calls_def)
next
  case (Cons c calls)
  obtain now b' where c: "c = (now, b')" by (cases c)
  obtain ok ws' where r: "rate_check now b' limit wsec ws = (ok, ws')" by (cases "rate_check now b' limit wsec ws")
  show ?case
  proof (cases "b' = b")
    case False
    with rate_check_other [OF False, of now limit wsec ws] Cons.IH [of ws'] Cons.prems show ?thesis by (simp add: c r admitted_Cons)
  next
    case True
    with rate_check_own r Cons.prems
    have "ok = (rw_used (window_of b ws) < limit)"
      "window_of b ws' = (if ok then (window_of b ws)\<lparr>rw_used := rw_used (window_of b ws) + 1\<rparr> else window_of b ws)"
      by (fastforce simp: c Let_def)+
    with Cons.IH [of ws'] Cons.prems True show ?thesis by (auto simp: c r [unfolded True] admitted_Cons)
  qed
qed

lemma calls_in_span:
  assumes "list_all (\<lambda>c. t \<le> fst c \<and> fst c < t + seconds wsec) calls" and "0 \<le> rw_used (window_of b ws)" and "0 \<le> limit"
  shows "admitted_calls b calls (rate_answers limit wsec calls ws) \<le> max 0 (limit - rw_used (window_of b ws)) + limit"
  using assms(1,2)
proof (induction calls arbitrary: ws)
  case Nil
  then show ?case using assms(3) by (simp add: admitted_calls_def)
next
  case (Cons c calls)
  obtain now b' where c: "c = (now, b')" by (cases c)
  obtain ok ws' where r: "rate_check now b' limit wsec ws = (ok, ws')" by (cases "rate_check now b' limit wsec ws")
  show ?case
  proof (cases "b' = b")
    case False
    with rate_check_other [OF False, of now limit wsec ws] Cons.IH [of ws'] Cons.prems show ?thesis by (simp add: c r admitted_Cons)
  next
    case True
    note own = rate_check_own [OF r [unfolded True]]
    show ?thesis
    proof (cases "now \<ge> rw_start (window_of b ws) + seconds wsec")
      case False
      with own have "ok = (rw_used (window_of b ws) < limit)"
        "window_of b ws' = (if ok then (window_of b ws)\<lparr>rw_used := rw_used (window_of b ws) + 1\<rparr> else window_of b ws)"
        by (simp_all add: Let_def)
      with Cons.IH [of ws'] Cons.prems True show ?thesis by (auto simp: c r [unfolded True] admitted_Cons)
    next
      case late: True
      with own have "ok = (0 < limit)" and w: "window_of b ws' = (if ok then (window_of b ws)\<lparr>rw_start := now, rw_used := 1\<rparr>
          else window_of b ws)"
        by (simp_all add: Let_def)
      show ?thesis
      proof (cases "0 < limit")
        case False
        with \<open>ok = (0 < limit)\<close> w Cons.IH [of ws'] Cons.prems show ?thesis by (simp add: c r admitted_Cons)
      next
        case True
        then have "window_of b ws' = (window_of b ws)\<lparr>rw_start := now, rw_used := 1\<rparr>" using w \<open>ok = (0 < limit)\<close> by simp
        moreover have "list_all (\<lambda>c. fst c < now + seconds wsec) calls"
          using Cons.prems(1) unfolding c by (auto simp: list_all_iff)
        ultimately have "admitted_calls b calls (rate_answers limit wsec calls ws') \<le> max 0 (limit - 1)"
          using calls_in_window [of b ws' wsec calls limit] by simp
        with True show ?thesis by (simp add: c r admitted_Cons max_def)
      qed
    qed
  qed
qed

text \<open>(C32) The rate limiter bounds bursts: within any stretch of one window length, however the calls of different
  keys mix, at most twice the limit of calls of one key are let through, and only as many as the limit if the key's
  window started within it.\<close>

theorem rate_limit_bounds_bursts:
  assumes "list_all (\<lambda>c. t \<le> fst c \<and> fst c < t + seconds wsec) calls"
    and "list_all (\<lambda>w. 0 \<le> rw_used w) ws" and "0 \<le> limit"
  shows "admitted_calls b calls (rate_answers limit wsec calls ws) \<le> 2 * limit \<and>
    (t \<le> rw_start (window_of b ws) \<longrightarrow>
       admitted_calls b calls (rate_answers limit wsec calls ws) \<le> limit)"
proof -
  have used: "0 \<le> rw_used (window_of b ws)"
    using assms(2) by (auto simp: window_of_def list_all_iff split: option.split dest: get_row_SomeD)
  have "admitted_calls b calls (rate_answers limit wsec calls ws) \<le> 2 * limit"
    using calls_in_span [OF assms(1) used assms(3)] used assms(3) by linarith
  moreover have "admitted_calls b calls (rate_answers limit wsec calls ws) \<le> limit"
    if "t \<le> rw_start (window_of b ws)"
  proof -
    have "list_all (\<lambda>c. fst c < rw_start (window_of b ws) + seconds wsec) calls"
      using assms(1) that by (auto simp: list_all_iff)
    from calls_in_window [OF this, of limit] used assms(3) show ?thesis by linarith
  qed
  ultimately show ?thesis by blast
qed

section \<open>The gate in front of a rental\<close>

text \<open>The gate's rate is the control plane's quote.\<close>

lemma max_rate_is_quote:
  "max_rate_cents cenv now w db = quoted_hourly_rate_cents cenv w (online_gpu_models cenv now db)"
  by (simp add: max_rate_cents_def quoted_hourly_rate_cents_def Let_def)

text \<open>(C10) The gate covers the first hour.  When a customer's request creates a rental, it is his, of a workload
  that he may use and that the platform does not run itself, and his balance covers one hour at the rate quoted to
  it for all its GPUs; a request that is refused leaves the gateway, the control plane and his money as they were.\<close>

theorem gate_covers_first_hour:
  "case create_deployment_for env req (Some u) False key s of
     (Inl e, t) \<Rightarrow> t = s
   | (Inr d, t) \<Rightarrow>
       (\<exists>w. get_workload (dq_workload_id req) (gdb s) = Some w \<and> d_workload_id d = dq_workload_id req \<and> d_owner d = Some u \<and>
          user_can_access_workload w (Some u) s \<and> \<not> managed_by_flux w \<and>
          d_hourly_rate_cents d * billed_gpus w \<le> get_balance u (wd_billing (gt_world s))) \<and>
       wd_billing (gt_world t) = wd_billing (gt_world s) \<and>
       cd_deployments (gdb t) = cd_deployments (gdb s) @
         [\<lparr>dr_dep = d, dr_metering_remainder = 0, dr_storage_remainder = 0, dr_billable_since = None, dr_multi_node = None\<rparr>]"
proof (cases "dq_resume_on_topup req \<and> \<not> dq_save_on_exhaustion req")
  case True
  then show ?thesis by (simp add: create_deployment_for_def)
next
  case False
  show ?thesis
  proof (cases "get_workload (dq_workload_id req) (gdb s)")
    case None
    with False show ?thesis by (simp add: create_deployment_for_def)
  next
    case (Some w)
    show ?thesis
    proof (cases "rental_gate env w (Some u) False key s")
      case (Some e)
      with False \<open>get_workload _ _ = Some w\<close> show ?thesis by (simp add: create_deployment_for_def)
    next
      case None
      then have gate: "user_can_access_workload w (Some u) s" "\<not> managed_by_flux w"
          "max_rate_cents (gv_control env) (gv_now env) w (gdb s) * billed_gpus w \<le> get_balance u (wd_billing (gt_world s))"
        by (auto simp: rental_gate_def Let_def split: if_splits option.splits)
      show ?thesis
        using False \<open>get_workload _ _ = Some w\<close> None gate
        by (simp add: create_deployment_for_def with_control_def create_deployment_def Let_def emit_def on_db_def
            insert_deployment_def max_rate_is_quote [symmetric])
    qed
  qed
qed

section \<open>Idempotent creation\<close>

text \<open>A request under an idempotency key, and a run of such requests: each has its own key, endpoint, body and
  creation.\<close>

record attempt =
  at_env :: gateway_env
  at_key :: api_key
  at_endpoint :: string
  at_idem :: "string option"
  at_hash :: string
  at_run :: "gateway \<Rightarrow> string gated"

definition tried :: "attempt \<Rightarrow> gateway \<Rightarrow> string gated" where
  "tried x s = with_idempotency (at_env x) (at_key x) (at_endpoint x) (at_idem x) (at_hash x) (at_run x) s"

definition run_attempts :: "attempt list \<Rightarrow> gateway \<Rightarrow> gateway" where
  "run_attempts xs s = foldl (\<lambda>s x. snd (tried x s)) s xs"

definition keeps_records :: "(gateway \<Rightarrow> string gated) \<Rightarrow> bool" where
  "keeps_records run \<longleftrightarrow> (\<forall>s. gt_idem (snd (run s)) = gt_idem s)"

definition account_scope :: "api_key \<Rightarrow> string" where
  "account_scope key = the (str_or (ak_user key) (Some (ak_id key)))"

definition done_row :: "string \<Rightarrow> string \<Rightarrow> time \<Rightarrow> string \<Rightarrow> gateway \<Rightarrow> bool" where
  "done_row k h t r s \<longleftrightarrow> get_row id_key k (gt_idem s) = Some \<lparr>id_key = k, id_hash = h, id_at = t, id_state = IdemDone r\<rparr>"

lemma begin_done:
  assumes "done_row (idempotency_row_key env scope ep ik) h t r s" "gv_now env \<le> t + IDEMPOTENCY_TTL"
  shows "idempotency_begin env scope ep ik h' s = (if h' = h then IdemReplay r else IdemMismatch, s)"
  using assms by (auto simp: idempotency_begin_def Let_def done_row_def)

lemma done_row_frame: "gt_idem s' = gt_idem s \<Longrightarrow> done_row k h t r s' = done_row k h t r s"
  by (simp add: done_row_def)

lemma tried_keeps_done:
  assumes "done_row k h t r s" "gv_now (at_env x) \<le> t + IDEMPOTENCY_TTL" "keeps_records (at_run x)"
  shows "done_row k h t r (snd (tried x s))"
proof (cases "at_idem x")
  case None
  with assms show ?thesis by (simp add: tried_def with_idempotency_def keeps_records_def done_row_def)
next
  case (Some given)
  let ?k = "idempotency_row_key (at_env x) (account_scope (at_key x)) (at_endpoint x) (strip given)"
  show ?thesis
  proof (cases "strip given = [] \<or> length (strip given) > 255")
    case True
    with Some assms(1) show ?thesis by (simp add: tried_def with_idempotency_def Let_def)
  next
    case False
    show ?thesis
    proof (cases "?k = k")
      case True
      with assms(1) have "done_row ?k h t r s" by simp
      from begin_done [OF this assms(2), of "at_hash x"] Some False assms(1) show ?thesis
        by (simp add: tried_def with_idempotency_def Let_def account_scope_def)
    next
      case other: False
      have begin_other: "get_row id_key k (gt_idem (snd (idempotency_begin (at_env x) (account_scope (at_key x)) (at_endpoint x)
          (strip given) (at_hash x) s))) = get_row id_key k (gt_idem s)"
        using other by (auto simp: idempotency_begin_def Let_def row_simps split: option.splits idem_state.splits)
      obtain ans s1 where b: "idempotency_begin (at_env x) (account_scope (at_key x)) (at_endpoint x) (strip given) (at_hash x) s
          = (ans, s1)" by fastforce
      obtain res s2 where run: "at_run x s1 = (res, s2)" by fastforce
      have same: "gt_idem s2 = gt_idem s1" using assms(3) run by (metis keeps_records_def snd_conv)
      have s1: "done_row k h t r s1" using begin_other b assms(1) by (simp add: done_row_def)
      have "snd (tried x s) = (case ans of IdemNew \<Rightarrow>
          (case res of Inl e \<Rightarrow> idempotency_release (at_env x) (account_scope (at_key x)) (at_endpoint x) (strip given) s2
           | Inr v \<Rightarrow> idempotency_complete (at_env x) (account_scope (at_key x)) (at_endpoint x) (strip given) (at_hash x) v s2)
          | _ \<Rightarrow> s1)"
        using Some False b run unfolding tried_def with_idempotency_def account_scope_def [symmetric] Let_def
        by (simp split: idem_answer.splits sum.splits)
      moreover have "done_row k h t r (idempotency_release (at_env x) (account_scope (at_key x)) (at_endpoint x) (strip given) s2)"
        "done_row k h t r (idempotency_complete (at_env x) (account_scope (at_key x)) (at_endpoint x) (strip given) (at_hash x) v s2)"
        for v using s1 same other
        by (simp_all add: done_row_def idempotency_release_def idempotency_complete_def row_simps)
      ultimately show ?thesis using s1 by (simp split: idem_answer.splits sum.splits)
    qed
  qed
qed

lemma run_attempts_keep_done:
  assumes "done_row k h t r s" "list_all (\<lambda>x. gv_now (at_env x) \<le> t + IDEMPOTENCY_TTL \<and> keeps_records (at_run x)) xs"
  shows "done_row k h t r (run_attempts xs s)"
  using assms
proof (induction xs arbitrary: s)
  case (Cons x xs)
  then show ?case using tried_keeps_done [of k h t r s x] by (simp add: run_attempts_def)
qed (simp add: run_attempts_def)

definition same_request :: "attempt \<Rightarrow> attempt \<Rightarrow> bool" where
  "same_request x y \<longleftrightarrow> account_scope (at_key y) = account_scope (at_key x) \<and> at_endpoint y = at_endpoint x \<and>
     at_idem y = at_idem x \<and> at_hash y = at_hash x \<and> gv_sha256 (at_env y) = gv_sha256 (at_env x)"

definition begin_of :: "attempt \<Rightarrow> gateway \<Rightarrow> idem_answer \<times> gateway" where
  "begin_of x s =
     idempotency_begin (at_env x) (account_scope (at_key x)) (at_endpoint x) (strip (the (at_idem x))) (at_hash x) s"

lemma begin_new:
  "fst (idempotency_begin env scope ep ik h s) = IdemNew \<Longrightarrow>
   snd (idempotency_begin env scope ep ik h s) = s\<lparr>gt_idem := put_row id_key
     \<lparr>id_key = idempotency_row_key env scope ep ik, id_hash = h, id_at = gv_now env, id_state = IdemPending\<rparr> (gt_idem s)\<rparr>"
  by (auto simp: idempotency_begin_def Let_def split: option.splits if_splits idem_state.splits)

lemma tried_result:
  assumes "tried x s = (Inr r, s1)" "at_idem x = Some given" "fst (begin_of x s) = IdemNew"
  shows "strip given \<noteq> [] \<and> length (strip given) \<le> 255 \<and>
    done_row (idempotency_row_key (at_env x) (account_scope (at_key x)) (at_endpoint x) (strip given)) (at_hash x)
      (gv_now (at_env x)) r s1"
proof -
  obtain t where b: "idempotency_begin (at_env x) (account_scope (at_key x)) (at_endpoint x) (strip given) (at_hash x) s
      = (IdemNew, t)"
    using assms(2,3) by (simp add: begin_of_def) (metis prod.collapse)
  obtain res t2 where run: "at_run x t = (res, t2)" by fastforce
  have len: "\<not> (strip given = [] \<or> length (strip given) > 255)"
    using assms(1,2) by (auto simp: tried_def with_idempotency_def Let_def split: if_splits)
  have "tried x s = (case res of
      Inl e \<Rightarrow> (Inl e, idempotency_release (at_env x) (account_scope (at_key x)) (at_endpoint x) (strip given) t2)
    | Inr v \<Rightarrow> (Inr v, idempotency_complete (at_env x) (account_scope (at_key x)) (at_endpoint x) (strip given) (at_hash x) v t2))"
    using assms(2) len b run unfolding tried_def with_idempotency_def account_scope_def [symmetric] Let_def
    by (simp split: sum.splits)
  then have "s1 = idempotency_complete (at_env x) (account_scope (at_key x)) (at_endpoint x) (strip given) (at_hash x) r t2"
    using assms(1) by (cases res) simp_all
  then show ?thesis using len by (simp add: idempotency_complete_def done_row_def row_simps)
qed

lemma same_request_key: "same_request x y \<Longrightarrow>
    idempotency_row_key (at_env y) (account_scope (at_key y)) (at_endpoint y) k =
    idempotency_row_key (at_env x) (account_scope (at_key x)) (at_endpoint x) k"
  by (simp add: same_request_def idempotency_row_key_def)

text \<open>(C11) A creation under an idempotency key is run once.  Once it has succeeded, the same request of the same
  account sent again within twenty-four hours gets the first response and changes nothing, whatever other creations were
  asked for in between; and while the first is still running, for two minutes, a repetition is told so.\<close>

theorem creation_runs_once:
  assumes "tried x s = (Inr r, s1)" and "at_idem x = Some given" and "fst (begin_of x s) = IdemNew" and "same_request x y"
    and "list_all (\<lambda>z. gv_now (at_env z) \<le> gv_now (at_env x) + IDEMPOTENCY_TTL \<and> keeps_records (at_run z)) between"
    and "gv_now (at_env y) \<le> gv_now (at_env x) + IDEMPOTENCY_TTL"
  shows "tried y (run_attempts between s1) = (Inr r, run_attempts between s1) \<and>
    (gv_now (at_env y) \<le> gv_now (at_env x) + IDEMPOTENCY_STALE \<longrightarrow>
       begin_of y (snd (begin_of x s)) = (IdemInProgress, snd (begin_of x s)))"
proof
  let ?k = "idempotency_row_key (at_env x) (account_scope (at_key x)) (at_endpoint x) (strip given)"
  from tried_result [OF assms(1-3)] have len: "\<not> (strip given = [] \<or> length (strip given) > 255)"
    and "done_row ?k (at_hash x) (gv_now (at_env x)) r s1" by simp_all
  then have "done_row ?k (at_hash x) (gv_now (at_env x)) r (run_attempts between s1)"
    using run_attempts_keep_done assms(5) by blast
  then have "done_row (idempotency_row_key (at_env y) (account_scope (at_key y)) (at_endpoint y) (strip given)) (at_hash x)
      (gv_now (at_env x)) r (run_attempts between s1)"
    using same_request_key [OF assms(4)] by simp
  from begin_done [OF this assms(6), of "at_hash y"] assms(2,4) len
  show "tried y (run_attempts between s1) = (Inr r, run_attempts between s1)"
    unfolding tried_def with_idempotency_def same_request_def account_scope_def [symmetric] Let_def by simp
next
  have claimed: "get_row id_key (idempotency_row_key (at_env x) (account_scope (at_key x)) (at_endpoint x) (strip given))
      (gt_idem (snd (begin_of x s))) = Some \<lparr>id_key = idempotency_row_key (at_env x) (account_scope (at_key x)) (at_endpoint x)
        (strip given), id_hash = at_hash x, id_at = gv_now (at_env x), id_state = IdemPending\<rparr>"
    using assms(2) begin_new [OF assms(3) [unfolded begin_of_def]] by (simp add: begin_of_def row_simps)
  have "IDEMPOTENCY_STALE \<le> IDEMPOTENCY_TTL" by (simp add: IDEMPOTENCY_STALE_def IDEMPOTENCY_TTL_def seconds_def)
  then show "gv_now (at_env y) \<le> gv_now (at_env x) + IDEMPOTENCY_STALE \<longrightarrow>
       begin_of y (snd (begin_of x s)) = (IdemInProgress, snd (begin_of x s))"
    using claimed assms(2,4) same_request_key [OF assms(4)]
    by (auto simp: begin_of_def [of y] idempotency_begin_def Let_def same_request_def)
qed
section \<open>Runs\<close>

definition demo_key :: api_key where
  "demo_key =
     \<lparr>ak_id = ''k1'', ak_user = Some ''ann'', ak_name = ''ci'', ak_admin = False, ak_scopes = [''keys'', ''read'', ''rentals''],
      ak_secret = ''sk-1'', ak_created_at = 0, ak_max_active = Some 3, ak_daily_limit = None\<rparr>"

definition demo_gateway :: gateway where
  "demo_gateway =
     \<lparr>gt_world = demo_world, gt_profiles = [], gt_keys = [demo_key], gt_admins = [], gt_shares = [], gt_windows = [], gt_idem = [],
      gt_draws = 0\<rparr>"

definition demo_gateway_env :: "time \<Rightarrow> gateway_env" where
  "demo_gateway_env now =
     \<lparr>gv_control = demo_env, gv_now = now, gv_uuid = (\<lambda>n. ''k-'' @ show_nat n), gv_secret = (\<lambda>n. ''sk-'' @ show_nat n),
      gv_master_key = ''master'', gv_provision_secret = ''provision'', gv_sha256 = (\<lambda>t. t), gv_client_ip = None,
      gv_route = Some (''POST'', ''/platform/api-keys'')\<rparr>"

definition demo_key_request :: key_request where
  "demo_key_request =
     \<lparr>kr_name = ''reader'', kr_user = Some ''bob'', kr_admin = True, kr_scopes = [''Read''], kr_max_active = None,
      kr_daily_limit = Some 5\<rparr>"

lemma demo_minted:
  "case fst (create_api_key_route (demo_gateway_env 0) None (Some ''sk-1'') demo_key_request demo_gateway) of
     Inl _ \<Rightarrow> False | Inr k \<Rightarrow> ak_scopes k = [''read''] \<and> ak_max_active k = Some 3"
  by code_simp

theorem minted_key_never_broader_witness:
  "\<exists>k t. create_api_key_route (demo_gateway_env 0) None (Some ''sk-1'') demo_key_request demo_gateway = (Inr k, t) \<and>
     ak_scopes k = [''read''] \<and> no_broader k demo_key"
proof -
  define out where "out = create_api_key_route (demo_gateway_env 0) None (Some ''sk-1'') demo_key_request demo_gateway"
  obtain k where "fst out = Inr k" "ak_scopes k = [''read'']"
    using demo_minted unfolding out_def [symmetric] by (cases "fst out") auto
  then obtain t where k: "create_api_key_route (demo_gateway_env 0) None (Some ''sk-1'') demo_key_request demo_gateway = (Inr k, t)"
    "ak_scopes k = [''read'']"
    unfolding out_def by (metis prod.collapse)
  have "get_api_key_by_secret ''sk-1'' demo_gateway = Some demo_key" "\<not> ak_admin demo_key" by code_simp+
  from minted_key_never_broader [OF _ _ _ _ this k(1)] k show ?thesis
    by (auto simp: extract_api_key_secret_def demo_gateway_env_def)
qed

definition demo_calls :: "(time \<times> (string \<times> string)) list" where
  "demo_calls = map (\<lambda>i. (seconds 1 + i, (''a'', if i mod 2 = 0 then ''k1'' else ''k2''))) [0 .. 9]"

theorem rate_limit_bounds_bursts_witness:
  "admitted_calls (''a'', ''k1'') demo_calls (rate_answers 3 60 demo_calls []) = 3 \<and>
   admitted_calls (''a'', ''k1'') demo_calls (rate_answers 3 60 demo_calls []) \<le> 2 * 3"
proof -
  have "list_all (\<lambda>c. seconds 1 \<le> fst c \<and> fst c < seconds 1 + seconds 60) demo_calls" by code_simp
  moreover have "admitted_calls (''a'', ''k1'') demo_calls (rate_answers 3 60 demo_calls []) = 3" by code_simp
  ultimately show ?thesis using rate_limit_bounds_bursts [of "seconds 1" 60 demo_calls "[]" 3 "(''a'', ''k1'')"] by simp
qed

definition demo_attempt :: "time \<Rightarrow> string \<Rightarrow> attempt" where
  "demo_attempt now h =
     \<lparr>at_env = demo_gateway_env now, at_key = demo_key, at_endpoint = ''create_deployment'', at_idem = Some '' order-7 '',
      at_hash = h, at_run = (\<lambda>s. (Inr (show_nat (gt_draws s)), s\<lparr>gt_draws := Suc (gt_draws s)\<rparr>))\<rparr>"

lemma demo_attempt_keeps: "keeps_records (at_run (demo_attempt now h))"
  by (simp add: keeps_records_def demo_attempt_def)

theorem creation_runs_once_witness:
  "tried (demo_attempt (seconds 3600) ''h'')
     (run_attempts [demo_attempt (seconds 60) ''other'', demo_attempt (seconds 600) ''h''] (snd (tried (demo_attempt 0 ''h'') demo_gateway)))
   = (Inr ''0'',
      run_attempts [demo_attempt (seconds 60) ''other'', demo_attempt (seconds 600) ''h''] (snd (tried (demo_attempt 0 ''h'') demo_gateway)))"
proof -
  have run: "tried (demo_attempt 0 ''h'') demo_gateway = (Inr ''0'', snd (tried (demo_attempt 0 ''h'') demo_gateway))"
    by (rule prod_eqI) (simp_all, code_simp)
  have new: "fst (begin_of (demo_attempt 0 ''h'') demo_gateway) = IdemNew" by code_simp
  have same: "same_request (demo_attempt 0 ''h'') (demo_attempt (seconds 3600) ''h'')"
    by (simp add: same_request_def demo_attempt_def demo_gateway_env_def)
  have near: "list_all (\<lambda>z. gv_now (at_env z) \<le> gv_now (at_env (demo_attempt 0 ''h'')) + IDEMPOTENCY_TTL \<and> keeps_records (at_run z))
      [demo_attempt (seconds 60) ''other'', demo_attempt (seconds 600) ''h'']"
    "gv_now (at_env (demo_attempt (seconds 3600) ''h'')) \<le> gv_now (at_env (demo_attempt 0 ''h'')) + IDEMPOTENCY_TTL"
    using demo_attempt_keeps
    by (simp_all add: IDEMPOTENCY_TTL_def seconds_def) (simp_all add: demo_attempt_def demo_gateway_env_def)
  have idem: "at_idem (demo_attempt 0 ''h'') = Some '' order-7 ''" by (simp add: demo_attempt_def)
  show ?thesis
    using creation_runs_once [OF run idem new same near] by blast
qed

section \<open>Where the code falls short\<close>

text \<open>A debit that lands between the two transactions of \<^verbatim>\<open>update_user_profile\<close> is undone: saving the edited row
  writes back the balance that was read.\<close>

lemma profile_edit_undoes_debit:
  "get_user_record uid s = Some u \<Longrightarrow>
     get_balance uid (wd_billing (gt_world (save_user (edit_profile req u) s'))) = get_balance uid (wd_billing (gt_world s))"
  by (auto simp: get_user_record_def user_record_of_def save_user_def edit_profile_def on_billing_def put_balance_def
      get_balance_def row_simps dest: get_row_SomeD)

text \<open>A key that belongs to no user is shown every other such key, an admin's with full access included.\<close>

lemma userless_key_sees_userless_keys:
  "k \<in> set (gt_keys s) \<Longrightarrow> ak_user k = None \<Longrightarrow> k \<in> set (list_api_keys None False s)"
  by (simp add: list_api_keys_def)

text \<open>The throttle on failed attempts changes the answer of a failure only: a right secret is let in however many wrong
  ones came before it.\<close>

lemma throttle_admits_right_secret:
  assumes "secret \<noteq> []" "secret = gv_master_key env"
  shows "require_api_key env None (Some secret) True s = (Inr (master_admin_record env secret), s)"
  using assms by (simp add: require_api_key_def extract_api_key_secret_def)

end
