(* ===== verification/Inference.thy ===== *)
theory Inference
  imports Access "HOL-Library.Char_ord" "HOL-Library.List_Lexorder" "HOL-Library.Product_Lexorder"
begin

text \<open>
  Inference requests at the gateway: \<^verbatim>\<open>GatewayService.invoke_chat_completion\<close> and \<^verbatim>\<open>stream_chat_completion\<close> of
  \<^verbatim>\<open>gateway/application/services.py\<close> with routing, replica selection, failover, reservation and billing, the accrual
  and demand tables of \<^verbatim>\<open>billing_repository.py\<close>, and the route \<^verbatim>\<open>POST /v1/chat/completions\<close>.

  \<^item> The state \<open>inference\<close> adds to the gateway the service's in-memory latencies, round-robin counter and routing log,
    and the accrual and demand tables.
  \<^item> \<open>infer_env\<close> holds what is not in the repository: the price of tokens, the health checks and answers of the
    upstream servers (one per replica, since a request asks each at most once), and the settings.
  \<^item> A stream is the list of its lines and how it ends; a client that disconnects does so at the last line
    it received.
\<close>

section \<open>Requests and state\<close>

record content_block =
  cb_type :: string
  cb_text :: "string option"

datatype message_content = PlainText string | Blocks "content_block list"

record chat_request =
  cq_model :: string
  cq_messages :: "message_content list"
  cq_max_tokens :: "int option"
  cq_max_completion_tokens :: "int option"

datatype upstream_error = UpstreamTimeout | UpstreamConnection | UpstreamBadResponse | UpstreamOther | UnknownModel

datatype upstream_answer = Fails upstream_error | Answers "(int \<times> int) option"

text \<open>A line of a stream: a \<^verbatim>\<open>data:\<close> line that carries content or not and perhaps a usage block (\<open>Some None\<close> is an empty
  one), a line that is not \<^verbatim>\<open>data:\<close>, or one whose JSON cannot be read.\<close>

datatype stream_line = DataLine bool "(int \<times> int) option option" | PlainLine | BadLine

datatype stream_end = Finishes | BreaksOff upstream_error | ClientLeaves

datatype match_basis = ByExternal | ByHost | ById | ByAlias | ByName

record routing =
  ro_matched_by :: match_basis
  ro_host :: "string option"
  ro_model :: string

record routing_decision =
  rd_routing :: routing
  rd_workload :: "ident option"
  rd_deployment :: "ident option"
  rd_decision :: string
  rd_reason :: string

record accrual =
  ac_hotkey :: ident
  ac_deployment :: ident
  ac_workload :: ident
  ac_request :: ident
  ac_model :: string
  ac_prompt_tokens :: int
  ac_completion_tokens :: int
  ac_cents :: int

record demand_row =
  dm_key :: "string \<times> time"
  dm_invocations :: int
  dm_prompt_tokens :: int
  dm_completion_tokens :: int
  dm_latency_ms :: int

record inference =
  if_gate :: gateway
  if_latency :: "(ident \<times> rat) list"
  if_turn :: nat
  if_log :: "routing_decision list"
  if_accruals :: "accrual list"
  if_demand :: "demand_row list"

record infer_env =
  iv_gate :: gateway_env
  iv_zone :: string
  iv_external :: string
  iv_cost :: "int \<Rightarrow> int \<Rightarrow> string \<Rightarrow> int"
  iv_healthy :: "deployment \<Rightarrow> bool"
  iv_answer :: "deployment \<Rightarrow> string \<Rightarrow> upstream_answer"
  iv_lines :: "deployment \<Rightarrow> string \<Rightarrow> stream_line list \<times> stream_end"
  iv_says :: "deployment \<Rightarrow> upstream_error \<Rightarrow> string"
  iv_elapsed :: "deployment \<Rightarrow> rat"

datatype infer_error =
    NoReadyDeployment
  | InsufficientForInference int
  | Upstream upstream_error
  | Control control_error
  | BadChunk
  | Disconnected

type_synonym 'a inferred = "(infer_error + 'a) \<times> inference"

abbreviation iworld :: "inference \<Rightarrow> world" where
  "iworld s \<equiv> gt_world (if_gate s)"

abbreviation idb :: "inference \<Rightarrow> control_db" where
  "idb s \<equiv> gdb (if_gate s)"

definition at_control :: "(control \<Rightarrow> control) \<Rightarrow> inference \<Rightarrow> inference" where
  "at_control f s =
     s\<lparr>if_gate := (if_gate s)\<lparr>gt_world := (iworld s)\<lparr>wd_control := f (wd_control (iworld s))\<rparr>\<rparr>\<rparr>"

definition at_billing :: "(billing_db \<Rightarrow> billing_db) \<Rightarrow> inference \<Rightarrow> inference" where
  "at_billing f s = s\<lparr>if_gate := on_billing f (if_gate s)\<rparr>"

definition inow :: "infer_env \<Rightarrow> time" where
  "inow env = gv_now (iv_gate env)"

definition icontrol :: "infer_env \<Rightarrow> env" where
  "icontrol env = gv_control (iv_gate env)"

section \<open>Which model a request means\<close>

text \<open>\<^verbatim>\<open>GREENCOMPUTE_EXTERNAL_MODEL_UPSTREAMS\<close>: \<^verbatim>\<open>id=url,id2=url2\<close>; a later entry replaces an earlier one.\<close>

definition external_entry :: "string \<Rightarrow> (string \<times> string) option" where
  "external_entry raw =
     (let item = strip raw; model_id = lower (strip (takeWhile (\<lambda>c. c \<noteq> CHR ''='') item));
          url = rstrip_slashes (strip (drop 1 (dropWhile (\<lambda>c. c \<noteq> CHR ''='') item)))
      in if item = [] \<or> CHR ''='' \<notin> set item \<or> model_id = [] \<or> url = [] then None else Some (model_id, url))"

definition external_model_upstreams :: "infer_env \<Rightarrow> (string \<times> string) list" where
  "external_model_upstreams env =
     foldl (\<lambda>out e. put_row fst e out) [] (List.map_filter external_entry (split_on (CHR '','') (iv_external env)))"

definition external_upstream :: "infer_env \<Rightarrow> string \<Rightarrow> string option" where
  "external_upstream env model = map_of (external_model_upstreams env) (lower (strip model))"

text \<open>\<^verbatim>\<open>urlsplit("//" + host).hostname\<close>: the network location without user and port; in brackets, an IPv6 address.\<close>

definition after_last :: "char \<Rightarrow> string \<Rightarrow> string" where
  "after_last c s = last (split_on c s)"

definition url_hostname :: "string \<Rightarrow> string" where
  "url_hostname s =
     (let netloc = takeWhile (\<lambda>c. c \<notin> {CHR ''/'', CHR ''?'', CHR ''#''}) s; host = after_last (CHR ''@'') netloc
      in if CHR ''['' \<in> set host then takeWhile (\<lambda>c. c \<noteq> CHR '']'') (drop 1 (dropWhile (\<lambda>c. c \<noteq> CHR ''['') host))
         else takeWhile (\<lambda>c. c \<noteq> CHR '':'') host)"

definition normalize_host :: "string option \<Rightarrow> string option" where
  "normalize_host host =
     (case host of
        None \<Rightarrow> None
      | Some h \<Rightarrow>
          let stripped = lower (strip h)
          in if stripped = [] then None
             else Some (if url_hostname stripped = [] then stripped else url_hostname stripped))"

definition in_zone :: "infer_env \<Rightarrow> string \<Rightarrow> bool" where
  "in_zone env host \<longleftrightarrow> starts_with (rev (''.'' @ iv_zone env)) (rev host)"

definition access_rank :: "workload \<Rightarrow> ident option \<Rightarrow> bool \<Rightarrow> gateway \<Rightarrow> nat" where
  "access_rank w user admin s =
     (if admin \<or> owned_by (wl_owner w) user then 0 else if user_can_access_workload w user s then 1 else 2)"

definition name_rank :: "ident option \<Rightarrow> bool \<Rightarrow> gateway \<Rightarrow> workload \<Rightarrow> nat \<times> nat \<times> int" where
  "name_rank user admin s w =
     (access_rank w user admin s, if ready_rows (wl_id w) (gdb s) = [] then 1 else 0, - wl_created_at w)"

definition pick_named_workload :: "string \<Rightarrow> ident option \<Rightarrow> bool \<Rightarrow> gateway \<Rightarrow> workload option" where
  "pick_named_workload name user admin s =
     (case list_workloads_by_name name (gdb s) of
        [] \<Rightarrow> None
      | w # ws \<Rightarrow> Some (foldl (\<lambda>best x. if name_rank user admin s x < name_rank user admin s best then x else best) w ws))"

definition hosted_workload :: "infer_env \<Rightarrow> string option \<Rightarrow> gateway \<Rightarrow> workload option" where
  "hosted_workload env host s =
     (case host of None \<Rightarrow> None | Some h \<Rightarrow> if in_zone env h then find_workload_by_ingress_host h (gdb s) else None)"

definition resolve_workload_reference ::
  "infer_env \<Rightarrow> string \<Rightarrow> string option \<Rightarrow> ident option \<Rightarrow> bool \<Rightarrow> gateway \<Rightarrow> (workload \<times> routing) option" where
  "resolve_workload_reference env model routed_host user admin s =
     (let host = normalize_host routed_host; matched = (\<lambda>basis. \<lparr>ro_matched_by = basis, ro_host = host, ro_model = model\<rparr>)
      in case hosted_workload env host s of
           Some w \<Rightarrow> Some (w, matched ByHost)
         | None \<Rightarrow>
             (case get_workload model (gdb s) of
                Some w \<Rightarrow> Some (w, matched ById)
              | None \<Rightarrow>
                  (case find_workload_by_alias model (gdb s) of
                     Some w \<Rightarrow> Some (w, matched ByAlias)
                   | None \<Rightarrow>
                       (case pick_named_workload model user admin s of
                          Some w \<Rightarrow> Some (w, matched ByName) | None \<Rightarrow> None))))"

section \<open>Which replicas answer it\<close>

definition log_routing :: "routing_decision \<Rightarrow> inference \<Rightarrow> inference" where
  "log_routing r s = s\<lparr>if_log := take 200 (r # if_log s)\<rparr>"

definition decision :: "routing \<Rightarrow> ident option \<Rightarrow> ident option \<Rightarrow> string \<Rightarrow> string \<Rightarrow> routing_decision" where
  "decision ro wid did what why =
     \<lparr>rd_routing = ro, rd_workload = wid, rd_deployment = did, rd_decision = what, rd_reason = why\<rparr>"

definition is_external :: "deployment \<Rightarrow> bool" where
  "is_external d \<longleftrightarrow> starts_with ''external:'' (d_workload_id d)"

definition external_deployment :: "infer_env \<Rightarrow> string \<Rightarrow> string \<Rightarrow> deployment" where
  "external_deployment env model url =
     (blank_deployment (icontrol env))
       \<lparr>d_workload_id := ''external:'' @ model, d_state := READY, d_ready_instances := 1, d_endpoint := Some url\<rparr>"

text \<open>A call of the control plane that raises leaves the request with that error.\<close>

definition on_outcome :: "(control \<Rightarrow> 'a outcome) \<Rightarrow> inference \<Rightarrow> control_error option \<times> inference" where
  "on_outcome f s =
     (let r = f (wd_control (iworld s))
      in (case fst r of Inl e \<Rightarrow> Some e | Inr _ \<Rightarrow> None, at_control (\<lambda>_. snd r) s))"

definition health_failure :: "infer_env \<Rightarrow> ident \<Rightarrow> string \<Rightarrow> inference \<Rightarrow> control_error option \<times> inference" where
  "health_failure env did why = on_outcome (record_deployment_health_failure (icontrol env) (inow env) did why)"

fun healthy_deployments ::
  "infer_env \<Rightarrow> routing \<Rightarrow> ident \<Rightarrow> deployment list \<Rightarrow> inference \<Rightarrow> deployment list inferred" where
  "healthy_deployments env ro wid [] s = (Inr [], s)"
| "healthy_deployments env ro wid (d # ds) s =
     (if iv_healthy env d
      then (case healthy_deployments env ro wid ds
                   (log_routing (decision ro (Some wid) (Some (d_id d)) ''selected'' ''ready_and_healthy'') s) of
              (Inl e, t) \<Rightarrow> (Inl e, t)
            | (Inr hs, t) \<Rightarrow> (Inr (d # hs), t))
      else case health_failure env (d_id d) (''deployment endpoint unhealthy: '' @ the (d_endpoint d)) s of
             (Some e, t) \<Rightarrow> (Inl (Control e), t)
           | (None, t) \<Rightarrow>
               healthy_deployments env ro wid ds
                 (log_routing (decision ro (Some wid) (Some (d_id d)) ''skipped'' ''endpoint_unhealthy'') t))"

definition latency_of :: "inference \<Rightarrow> deployment \<Rightarrow> rat" where
  "latency_of s d = (case map_of (if_latency s) (d_id d) of None \<Rightarrow> 0 | Some l \<Rightarrow> l)"

definition rotated :: "nat \<Rightarrow> 'a list \<Rightarrow> 'a list" where
  "rotated turn xs = drop (turn mod length xs) xs @ take (turn mod length xs) xs"

definition reachable_replicas :: "infer_env \<Rightarrow> workload \<Rightarrow> inference \<Rightarrow> deployment list" where
  "reachable_replicas env w s =
     filter (\<lambda>d. d_endpoint d \<noteq> None) (list_ready_deployments (icontrol env) (inow env) (wl_id w) (idb s))"

definition select_from ::
  "infer_env \<Rightarrow> workload \<Rightarrow> routing \<Rightarrow> inference \<Rightarrow> (deployment list \<times> routing) inferred" where
  "select_from env w ro s =
     (let wid = wl_id w;
          candidates = reachable_replicas env w s;
          refuse = (\<lambda>why t. (Inl NoReadyDeployment, log_routing (decision ro (Some wid) None ''rejected'' why) t))
      in if candidates = [] then refuse ''no_ready_deployment'' s
         else case healthy_deployments env ro wid candidates s of
                (Inl e, t) \<Rightarrow> (Inl e, t)
              | (Inr healthy, t) \<Rightarrow>
                  if healthy = [] then refuse ''no_healthy_deployment'' t
                  else (Inr (rotated (if_turn t) (sort_key (latency_of t) healthy), ro), t\<lparr>if_turn := Suc (if_turn t)\<rparr>))"

definition select_healthy_deployments ::
  "infer_env \<Rightarrow> chat_request \<Rightarrow> string option \<Rightarrow> ident option \<Rightarrow> bool \<Rightarrow> inference \<Rightarrow> (deployment list \<times> routing) inferred" where
  "select_healthy_deployments env req routed_host user admin s =
     (case external_upstream env (cq_model req) of
        Some url \<Rightarrow>
          (Inr ([external_deployment env (cq_model req) url],
                \<lparr>ro_matched_by = ByExternal, ro_host = normalize_host routed_host, ro_model = cq_model req\<rparr>), s)
      | None \<Rightarrow>
          (case resolve_workload_reference env (cq_model req) routed_host user admin (if_gate s) of
             None \<Rightarrow> (Inl NoReadyDeployment, s)
           | Some (w, ro) \<Rightarrow>
               if \<not> admin \<and> \<not> user_can_access_workload w user (if_gate s) then (Inl NoReadyDeployment, s)
               else select_from env w ro s))"

text \<open>\<^verbatim>\<open>_rewrite_model_for_upstream\<close>; \<open>None\<close> is its \<^verbatim>\<open>NoReadyDeploymentError\<close>.\<close>

definition upstream_model :: "infer_env \<Rightarrow> chat_request \<Rightarrow> deployment \<Rightarrow> inference \<Rightarrow> string option" where
  "upstream_model env req d s =
     (if is_external d then Some (cq_model req)
      else let found = (case get_workload (d_workload_id d) (idb s) of
                          Some w \<Rightarrow> Some w
                        | None \<Rightarrow> map_option fst (resolve_workload_reference env (cq_model req) None None False (if_gate s)))
           in map_option (\<lambda>w. the (str_or (wl_model_identifier w) (Some (cq_model req)))) found)"

section \<open>What it costs\<close>

definition BILLED_COMPLETION_TOKENS_CEILING :: int where "BILLED_COMPLETION_TOKENS_CEILING = 131072"
definition BILLED_PROMPT_TOKENS_PER_IMAGE :: int where "BILLED_PROMPT_TOKENS_PER_IMAGE = 16384"
definition BILLED_PROMPT_TOKENS_PER_MESSAGE :: int where "BILLED_PROMPT_TOKENS_PER_MESSAGE = 32"
definition BILLED_PROMPT_TOKENS_BASE :: int where "BILLED_PROMPT_TOKENS_BASE = 256"

definition content_chars :: "message_content \<Rightarrow> int" where
  "content_chars c =
     (case c of PlainText t \<Rightarrow> int (length t)
      | Blocks bs \<Rightarrow> sum_list (map (\<lambda>b. case cb_text b of None \<Rightarrow> 0 | Some t \<Rightarrow> int (length t)) bs))"

definition content_images :: "message_content \<Rightarrow> int" where
  "content_images c = (case c of PlainText _ \<Rightarrow> 0 | Blocks bs \<Rightarrow> int (length (filter (\<lambda>b. cb_type b = ''image_url'') bs)))"

definition prompt_token_bound :: "chat_request \<Rightarrow> int" where
  "prompt_token_bound req =
     sum_list (map content_chars (cq_messages req)) +
     sum_list (map content_images (cq_messages req)) * BILLED_PROMPT_TOKENS_PER_IMAGE +
     int (length (cq_messages req)) * BILLED_PROMPT_TOKENS_PER_MESSAGE + BILLED_PROMPT_TOKENS_BASE"

definition requested_max :: "chat_request \<Rightarrow> int" where
  "requested_max req =
     (let m = (case cq_max_tokens req of None \<Rightarrow> 0 | Some n \<Rightarrow> n)
      in case cq_max_completion_tokens req of None \<Rightarrow> m | Some n \<Rightarrow> if n > 0 then max m n else m)"

definition completion_token_bound :: "chat_request \<Rightarrow> int" where
  "completion_token_bound req =
     (if requested_max req = 0 then BILLED_COMPLETION_TOKENS_CEILING
      else min (requested_max req) BILLED_COMPLETION_TOKENS_CEILING)"

definition clamp_reported_usage :: "chat_request \<Rightarrow> int \<Rightarrow> int \<Rightarrow> int \<times> int" where
  "clamp_reported_usage req prompt_tokens completion_tokens =
     (min (max prompt_tokens 0) (prompt_token_bound req), min (max completion_tokens 0) (completion_token_bound req))"

definition billed_privately :: "deployment \<Rightarrow> inference \<Rightarrow> bool" where
  "billed_privately d s \<longleftrightarrow> truthy (d_owner d) \<and> deployment_is_private_model d None (idb s)"

definition bills_per_token ::
  "infer_env \<Rightarrow> chat_request \<Rightarrow> string option \<Rightarrow> ident option \<Rightarrow> bool \<Rightarrow> inference \<Rightarrow> bool" where
  "bills_per_token env req routed_host user admin s \<longleftrightarrow>
     external_upstream env (cq_model req) \<noteq> None \<or>
     (case resolve_workload_reference env (cq_model req) routed_host user admin (if_gate s) of
        None \<Rightarrow> True
      | Some (w, ro) \<Rightarrow>
          \<not> admin \<and> \<not> user_can_access_workload w user (if_gate s) \<or>
          (case ready_rows (wl_id w) (idb s) of [] \<Rightarrow> True | d # _ \<Rightarrow> \<not> billed_privately d s))"

definition worst_case_cents :: "infer_env \<Rightarrow> chat_request \<Rightarrow> int" where
  "worst_case_cents env req = iv_cost env (prompt_token_bound req) (completion_token_bound req) (cq_model req)"

definition HOLD_TTL_SECONDS :: int where "HOLD_TTL_SECONDS = 300"

definition reserve_inference_budget :: "infer_env \<Rightarrow> ident \<Rightarrow> ident \<Rightarrow> chat_request \<Rightarrow> inference \<Rightarrow> unit inferred" where
  "reserve_inference_budget env user reference req s =
     (let (reserved, db) = reserve_inference_hold (inow env) user (worst_case_cents env req) reference HOLD_TTL_SECONDS
                             (wd_billing (iworld s));
          s1 = at_billing (\<lambda>_. db) s
      in if reserved then (Inr (), s1) else (Inl (InsufficientForInference (get_balance user db)), s1))"

definition release_inference_budget :: "ident \<Rightarrow> inference \<Rightarrow> inference" where
  "release_inference_budget reference s = at_billing (release_inference_hold reference) s"

text \<open>A second accrual for a request violates its unique key and is dropped.\<close>

definition accrue_miner_payout :: "accrual \<Rightarrow> inference \<Rightarrow> inference" where
  "accrue_miner_payout a s =
     (if get_row ac_request (ac_request a) (if_accruals s) = None then s\<lparr>if_accruals := if_accruals s @ [a]\<rparr> else s)"

definition inference_charge_text :: "string \<Rightarrow> int \<Rightarrow> int \<Rightarrow> string" where
  "inference_charge_text model p c = ''Inference '' @ model @ '': '' @ show_int p @ '' in + '' @ show_int c @ '' out tokens''"

definition charge_inference_tokens ::
  "infer_env \<Rightarrow> ident \<Rightarrow> ident \<Rightarrow> string \<Rightarrow> int \<Rightarrow> int \<Rightarrow> deployment \<Rightarrow> inference \<Rightarrow> inference" where
  "charge_inference_tokens env user reference model p c d s =
     (if billed_privately d s then s
      else let cents = iv_cost env p c model
           in case debit_user_to_floor (inow env) user cents ''inference'' (Some reference) (inference_charge_text model p c)
                     (wd_billing (iworld s)) of
                Inl _ \<Rightarrow> s
              | Inr (_, db) \<Rightarrow>
                  let s1 = at_billing (\<lambda>_. db) s
                  in if truthy (d_hotkey d)
                     then accrue_miner_payout
                            \<lparr>ac_hotkey = the (d_hotkey d), ac_deployment = d_id d, ac_workload = d_workload_id d,
                             ac_request = reference, ac_model = model, ac_prompt_tokens = p, ac_completion_tokens = c,
                             ac_cents = cents\<rparr> s1
                     else s1)"

definition demand_minute :: "time \<Rightarrow> time" where
  "demand_minute now = now - now mod seconds 60"

definition record_demand_tick :: "infer_env \<Rightarrow> string \<Rightarrow> int \<Rightarrow> int \<Rightarrow> rat \<Rightarrow> inference \<Rightarrow> inference" where
  "record_demand_tick env model p c latency s =
     (let key = (model, demand_minute (inow env)); lat = \<lfloor>max 0 latency\<rfloor>;
          row = (case get_row dm_key key (if_demand s) of
                   None \<Rightarrow> \<lparr>dm_key = key, dm_invocations = 1, dm_prompt_tokens = p, dm_completion_tokens = c,
                            dm_latency_ms = lat\<rparr>
                 | Some r \<Rightarrow> r\<lparr>dm_invocations := dm_invocations r + 1, dm_prompt_tokens := dm_prompt_tokens r + p,
                              dm_completion_tokens := dm_completion_tokens r + c, dm_latency_ms := dm_latency_ms r + lat\<rparr>)
      in s\<lparr>if_demand := put_row dm_key row (if_demand s)\<rparr>)"

definition track_latency :: "ident \<Rightarrow> rat \<Rightarrow> inference \<Rightarrow> inference" where
  "track_latency did ms s =
     (let value = (case map_of (if_latency s) did of None \<Rightarrow> ms | Some prev \<Rightarrow> 3 / 10 * ms + 7 / 10 * prev)
      in s\<lparr>if_latency := put_row fst (did, value) (if_latency s)\<rparr>)"

section \<open>Serving a request\<close>

record call =
  ca_stream :: bool
  ca_request_id :: ident
  ca_key :: "ident option"
  ca_user :: "ident option"
  ca_routing :: routing

definition classify_inference_error :: "upstream_error \<Rightarrow> string" where
  "classify_inference_error e =
     (case e of
        UpstreamTimeout \<Rightarrow> ''upstream_timeout'' | UpstreamConnection \<Rightarrow> ''upstream_connection_failure''
      | UpstreamBadResponse \<Rightarrow> ''upstream_bad_response'' | _ \<Rightarrow> ''upstream_failure'')"

definition handle_upstream_success :: "infer_env \<Rightarrow> deployment \<Rightarrow> routing \<Rightarrow> inference \<Rightarrow> control_error option \<times> inference" where
  "handle_upstream_success env d ro s =
     (let (err, s1) = (if is_external d then (None, s) else on_outcome (clear_deployment_health_failures (inow env) (d_id d)) s)
      in if err \<noteq> None then (err, s1)
         else (None, log_routing (decision ro None (Some (d_id d)) ''completed'' ''upstream_succeeded'') s1))"

definition handle_upstream_failure ::
  "infer_env \<Rightarrow> deployment \<Rightarrow> routing \<Rightarrow> upstream_error \<Rightarrow> inference \<Rightarrow> control_error option \<times> inference" where
  "handle_upstream_failure env d ro e s =
     (let why = classify_inference_error e;
          (err, s1) = (if is_external d then (None, s) else health_failure env (d_id d) (iv_says env d e) s)
      in if err \<noteq> None then (err, s1) else (None, log_routing (decision ro None (Some (d_id d)) ''failed'' why) s1))"

definition hotkey_or_unknown :: "deployment \<Rightarrow> ident" where
  "hotkey_or_unknown d = the (str_or (d_hotkey d) (Some ''unknown''))"

definition record_usage_for :: "infer_env \<Rightarrow> deployment \<Rightarrow> bool \<Rightarrow> nat \<Rightarrow> inference \<Rightarrow> inference" where
  "record_usage_for env d stream chunks s =
     at_control (record_usage (icontrol env) (inow env)
       \<lparr>ur_deployment_id = d_id d, ur_workload_id = d_workload_id d, ur_hotkey = hotkey_or_unknown d,
        ur_request_count = (if stream then 0 else 1), ur_streamed_request_count = (if stream then 1 else 0),
        ur_stream_chunk_count = int chunks, ur_compute_seconds = 1 / 4, ur_latency_ms_p95 = 42, ur_occupancy_seconds = 1 / 4,
        ur_measured_at = inow env\<rparr>) s"

definition record_invocation_for ::
  "infer_env \<Rightarrow> deployment \<Rightarrow> chat_request \<Rightarrow> call \<Rightarrow> string \<Rightarrow> string option \<Rightarrow> inference \<Rightarrow> inference" where
  "record_invocation_for env d req ca status error_class s =
     (let g = if_gate s
      in at_control (record_invocation (icontrol env) (inow env)
           \<lparr>in_invocation_id = gv_uuid (iv_gate env) (gt_draws g), in_request_id = Some (ca_request_id ca),
            in_deployment_id = d_id d, in_workload_id = d_workload_id d, in_hotkey = Some (hotkey_or_unknown d),
            in_model = cq_model req, in_api_key_id = ca_key ca, in_stream = ca_stream ca, in_status = status,
            in_error_class = error_class, in_latency_ms = iv_elapsed env d, in_created_at = inow env\<rparr>)
           (s\<lparr>if_gate := g\<lparr>gt_draws := Suc (gt_draws g)\<rparr>\<rparr>))"

text \<open>An upstream that failed: its health, the log and the invocation; \<open>Some\<close> if the control plane raised.\<close>

definition failed_attempt ::
  "infer_env \<Rightarrow> chat_request \<Rightarrow> call \<Rightarrow> deployment \<Rightarrow> upstream_error \<Rightarrow> inference \<Rightarrow> control_error option \<times> inference" where
  "failed_attempt env req ca d e s =
     (case handle_upstream_failure env d (ca_routing ca) e s of
        (Some err, t) \<Rightarrow> (Some err, t)
      | (None, t) \<Rightarrow> (None, record_invocation_for env d req ca ''failed'' (Some (classify_inference_error e)) t))"

definition charge_user :: "infer_env \<Rightarrow> chat_request \<Rightarrow> call \<Rightarrow> deployment \<Rightarrow> int \<times> int \<Rightarrow> inference \<Rightarrow> inference" where
  "charge_user env req ca d billed s =
     (if truthy (ca_user ca)
      then charge_inference_tokens env (the (ca_user ca)) (ca_request_id ca) (cq_model req) (fst billed) (snd billed) d s else s)"

definition answered :: "infer_env \<Rightarrow> chat_request \<Rightarrow> call \<Rightarrow> deployment \<Rightarrow> (int \<times> int) option \<Rightarrow> inference \<Rightarrow> inference" where
  "answered env req ca d usage s =
     (let s1 = track_latency (d_id d) (iv_elapsed env d) (record_usage_for env d False 0 s);
          s2 = (case usage of
                  None \<Rightarrow> s1
                | Some (p, c) \<Rightarrow>
                    let billed = clamp_reported_usage req p c
                    in charge_user env req ca d billed
                         (record_demand_tick env (cq_model req) (fst billed) (snd billed) (iv_elapsed env d) s1))
      in record_invocation_for env d req ca ''succeeded'' None s2)"

definition upstream_call :: "infer_env \<Rightarrow> chat_request \<Rightarrow> deployment \<Rightarrow> inference \<Rightarrow> upstream_answer" where
  "upstream_call env req d s =
     (case upstream_model env req d s of None \<Rightarrow> Fails UnknownModel | Some m \<Rightarrow> iv_answer env d m)"

fun invoke_from_candidates ::
  "infer_env \<Rightarrow> chat_request \<Rightarrow> call \<Rightarrow> upstream_error \<Rightarrow> deployment list \<Rightarrow> inference \<Rightarrow> deployment inferred" where
  "invoke_from_candidates env req ca last_error [] s = (Inl (Upstream last_error), s)"
| "invoke_from_candidates env req ca last_error (d # ds) s =
     (case upstream_call env req d s of
        Fails e \<Rightarrow>
          (case failed_attempt env req ca d e s of
             (Some err, t) \<Rightarrow> (Inl (Control err), t)
           | (None, t) \<Rightarrow> invoke_from_candidates env req ca e ds t)
      | Answers usage \<Rightarrow>
          (case handle_upstream_success env d (ca_routing ca) s of
             (Some err, t) \<Rightarrow> (Inl (Control err), t)
           | (None, t) \<Rightarrow> (Inr d, answered env req ca d usage t)))"

text \<open>Routing and the reservation, in front of both ways of answering.\<close>

definition open_call ::
  "infer_env \<Rightarrow> bool \<Rightarrow> chat_request \<Rightarrow> ident option \<Rightarrow> ident option \<Rightarrow> string option \<Rightarrow> bool \<Rightarrow> inference \<Rightarrow>
   (deployment list \<times> call) inferred" where
  "open_call env stream req key user routed_host admin s =
     (let g = if_gate s; rid = gv_uuid (iv_gate env) (gt_draws g);
          s0 = s\<lparr>if_gate := g\<lparr>gt_draws := Suc (gt_draws g)\<rparr>\<rparr>
      in case select_healthy_deployments env req routed_host user admin s0 of
           (Inl e, t) \<Rightarrow> (Inl e, t)
         | (Inr (ds, ro), t) \<Rightarrow>
             let ca = \<lparr>ca_stream = stream, ca_request_id = rid, ca_key = key, ca_user = user, ca_routing = ro\<rparr>
             in if truthy user \<and> \<not> admin \<and> \<not> billed_privately (hd ds) t
                then (case reserve_inference_budget env (the user) rid req t of
                        (Inl e, t1) \<Rightarrow> (Inl e, t1)
                      | (Inr _, t1) \<Rightarrow> (Inr (ds, ca), t1))
                else (Inr (ds, ca), t))"

definition close_call :: "call \<Rightarrow> inference \<Rightarrow> inference" where
  "close_call ca s = (if truthy (ca_user ca) then release_inference_budget (ca_request_id ca) s else s)"

definition invoke_chat_completion ::
  "infer_env \<Rightarrow> chat_request \<Rightarrow> ident option \<Rightarrow> ident option \<Rightarrow> string option \<Rightarrow> bool \<Rightarrow> inference \<Rightarrow> deployment inferred" where
  "invoke_chat_completion env req key user routed_host admin s =
     (case open_call env False req key user routed_host admin s of
        (Inl e, t) \<Rightarrow> (Inl e, t)
      | (Inr (ds, ca), t) \<Rightarrow>
          let (r, t1) = invoke_from_candidates env req ca UpstreamOther ds t in (r, close_call ca t1))"

section \<open>Streams\<close>

text \<open>What the gateway has seen of a stream: content chunks, the last usage block, and the lines passed on.\<close>

record seen =
  se_chunks :: nat
  se_usage :: "(int \<times> int) option option"
  se_lines :: nat

fun read_lines :: "stream_line list \<Rightarrow> seen \<Rightarrow> bool \<times> seen" where
  "read_lines [] x = (True, x)"
| "read_lines (PlainLine # ls) x = read_lines ls (x\<lparr>se_lines := Suc (se_lines x)\<rparr>)"
| "read_lines (BadLine # ls) x = (False, x)"
| "read_lines (DataLine content usage # ls) x =
     read_lines ls
       (x\<lparr>se_chunks := (if content then Suc (se_chunks x) else se_chunks x),
          se_usage := (if usage = None then se_usage x else usage), se_lines := Suc (se_lines x)\<rparr>)"

definition nothing_seen :: seen where
  "nothing_seen = \<lparr>se_chunks = 0, se_usage = None, se_lines = 0\<rparr>"

definition billed_tokens :: "chat_request \<Rightarrow> seen \<Rightarrow> int \<times> int" where
  "billed_tokens req x =
     (case se_usage x of
        Some (Some (p, c)) \<Rightarrow> clamp_reported_usage req p c
      | _ \<Rightarrow> if se_chunks x > 0 then (prompt_token_bound req, min (int (se_chunks x)) (completion_token_bound req)) else (0, 0))"

definition finalize_stream ::
  "infer_env \<Rightarrow> chat_request \<Rightarrow> call \<Rightarrow> deployment \<Rightarrow> seen \<Rightarrow> string \<Rightarrow> inference \<Rightarrow> control_error option \<times> inference" where
  "finalize_stream env req ca d x status s =
     (case handle_upstream_success env d (ca_routing ca) s of
        (Some err, t) \<Rightarrow> (Some err, t)
      | (None, t) \<Rightarrow>
          let billed = billed_tokens req x; due = (fst billed \<noteq> 0 \<or> snd billed \<noteq> 0);
              t1 = record_usage_for env d True (se_chunks x) t;
              t2 = (if due then charge_user env req ca d billed t1 else t1);
              t3 = track_latency (d_id d) (iv_elapsed env d) t2;
              t4 = (if due then record_demand_tick env (cq_model req) (fst billed) (snd billed) (iv_elapsed env d) t3 else t3)
          in (None, record_invocation_for env d req ca status None t4))"

definition upstream_stream :: "infer_env \<Rightarrow> chat_request \<Rightarrow> deployment \<Rightarrow> inference \<Rightarrow> stream_line list \<times> stream_end" where
  "upstream_stream env req d s =
     (case upstream_model env req d s of None \<Rightarrow> ([], BreaksOff UnknownModel) | Some m \<Rightarrow> iv_lines env d m)"

text \<open>The generator run to its end: an error, or the replica, what it sent and whether the client
  stayed to the end.\<close>

fun stream_from_candidates ::
  "infer_env \<Rightarrow> chat_request \<Rightarrow> call \<Rightarrow> upstream_error \<Rightarrow> deployment list \<Rightarrow> inference \<Rightarrow> (deployment \<times> seen \<times> bool) inferred" where
  "stream_from_candidates env req ca last_error [] s = (Inl (Upstream last_error), s)"
| "stream_from_candidates env req ca last_error (d # ds) s =
     (let (ls, how) = upstream_stream env req d s; (readable, x) = read_lines ls nothing_seen
      in if \<not> readable then (Inl BadChunk, s)
         else case how of
                Finishes \<Rightarrow>
                  (case finalize_stream env req ca d x ''succeeded'' s of
                     (Some err, t) \<Rightarrow> (Inl (Control err), t) | (None, t) \<Rightarrow> (Inr (d, x, True), t))
              | ClientLeaves \<Rightarrow>
                  if se_lines x = 0 then (Inl Disconnected, s)
                  else (case finalize_stream env req ca d x ''client_disconnected'' s of
                          (Some err, t) \<Rightarrow> (Inl (Control err), t) | (None, t) \<Rightarrow> (Inr (d, x, False), t))
              | BreaksOff e \<Rightarrow>
                  (case failed_attempt env req ca d e s of
                     (Some err, t) \<Rightarrow> (Inl (Control err), t)
                   | (None, t) \<Rightarrow> if se_chunks x > 0 then (Inl (Upstream e), t)
                                  else stream_from_candidates env req ca e ds t))"

definition stream_chat_completion ::
  "infer_env \<Rightarrow> chat_request \<Rightarrow> ident option \<Rightarrow> ident option \<Rightarrow> string option \<Rightarrow> bool \<Rightarrow> inference \<Rightarrow>
   (deployment \<times> seen \<times> bool) inferred" where
  "stream_chat_completion env req key user routed_host admin s =
     (case open_call env True req key user routed_host admin s of
        (Inl e, t) \<Rightarrow> (Inl e, t)
      | (Inr (ds, ca), t) \<Rightarrow>
          let (r, t1) = stream_from_candidates env req ca UpstreamOther ds t in (r, close_call ca t1))"

section \<open>The route\<close>

definition infer_http :: "infer_error \<Rightarrow> int" where
  "infer_http e =
     (case e of
        InsufficientForInference _ \<Rightarrow> 402 | NoReadyDeployment \<Rightarrow> 409 | Upstream UnknownModel \<Rightarrow> 409
      | Upstream UpstreamTimeout \<Rightarrow> 504 | Upstream _ \<Rightarrow> 502
      | _ \<Rightarrow> 500)"

definition pre_flight :: "infer_env \<Rightarrow> chat_request \<Rightarrow> api_key \<Rightarrow> string option \<Rightarrow> inference \<Rightarrow> bool" where
  "pre_flight env req key host s \<longleftrightarrow>
     ak_user key = None \<or> ak_admin key \<or> get_balance (the (ak_user key)) (wd_billing (iworld s)) > 0 \<or>
     \<not> bills_per_token env req host (ak_user key) (ak_admin key) s"

definition at_gate :: "inference \<Rightarrow> gateway \<Rightarrow> inference" where
  "at_gate s g = s\<lparr>if_gate := g\<rparr>"

text \<open>\<^verbatim>\<open>POST /v1/chat/completions\<close> without streaming; an error of the upstream client that it does not name is 502.\<close>

definition chat_completions ::
  "infer_env \<Rightarrow> string option \<Rightarrow> string option \<Rightarrow> string option \<Rightarrow> chat_request \<Rightarrow> inference \<Rightarrow> (int + deployment) \<times> inference" where
  "chat_completions env authorization x_api_key host req s =
     (case require_api_key (iv_gate env) authorization x_api_key False (if_gate s) of
        (Inl e, g) \<Rightarrow> (Inl (case e of Http n \<Rightarrow> n | _ \<Rightarrow> 500), at_gate s g)
      | (Inr key, g) \<Rightarrow>
          (case enforce_rate_limit (iv_gate env) ''chat_completions'' (ak_id key) 60 60 g of
             (Inl e, g1) \<Rightarrow> (Inl 429, at_gate s g1)
           | (Inr _, g1) \<Rightarrow>
               if enforce_key_limits (iv_gate env) key False g1 then (Inl 403, at_gate s g1)
               else if \<not> pre_flight env req key host (at_gate s g1) then (Inl 402, at_gate s g1)
               else case invoke_chat_completion env req (Some (ak_id key)) (ak_user key) host (ak_admin key) (at_gate s g1) of
                      (Inl e, t) \<Rightarrow> (Inl (infer_http e), t)
                    | (Inr d, t) \<Rightarrow> (Inr d, t)))"

end
