(* ===== verification/Inference_Properties.thy ===== *)
theory Inference_Properties
  imports Inference Access_Properties
begin

text \<open>
  What the gateway guarantees about inference requests: they are answered only by models the caller may use
  (\<open>answered_by_accessible_model\<close>), cost at most what was reserved, leave no hold behind and cost nothing when they
  fail (\<open>request_costs_at_most_its_bound\<close>), and a stream is paid for by what it delivered even if the client leaves
  (\<open>delivered_stream_is_paid\<close>).  The money part is a chain of lemmas on the billing tables: every step but
  the charge leaves them alone, so a request is \<open>bill_settled\<close>.
\<close>

section \<open>What moves money\<close>

lemma at_control_billing [simp]: "wd_billing (iworld (at_control f s)) = wd_billing (iworld s)"
  by (simp add: at_control_def)

lemma at_billing_billing [simp]: "wd_billing (iworld (at_billing f s)) = f (wd_billing (iworld s))"
  by (simp add: at_billing_def on_billing_def)

lemma steps_billing [simp]:
  "wd_billing (iworld (log_routing r s)) = wd_billing (iworld s)"
  "wd_billing (iworld (snd (on_outcome g s))) = wd_billing (iworld s)"
  "wd_billing (iworld (snd (health_failure env did why s))) = wd_billing (iworld s)"
  "wd_billing (iworld (track_latency did ms s)) = wd_billing (iworld s)"
  "wd_billing (iworld (record_demand_tick env m p c l s)) = wd_billing (iworld s)"
  "wd_billing (iworld (record_usage_for env d str n s)) = wd_billing (iworld s)"
  "wd_billing (iworld (record_invocation_for env d req ca st ec s)) = wd_billing (iworld s)"
  "wd_billing (iworld (accrue_miner_payout a s)) = wd_billing (iworld s)"
  by (simp_all add: log_routing_def on_outcome_def health_failure_def track_latency_def record_demand_tick_def
      record_usage_for_def record_invocation_for_def accrue_miner_payout_def Let_def)

lemma upstream_steps_billing [simp]:
  "wd_billing (iworld (snd (handle_upstream_success env d ro s))) = wd_billing (iworld s)"
  "wd_billing (iworld (snd (handle_upstream_failure env d ro e s))) = wd_billing (iworld s)"
  by (simp_all add: handle_upstream_success_def handle_upstream_failure_def Let_def case_prod_beta)

lemma failed_attempt_billing [simp]: "wd_billing (iworld (snd (failed_attempt env req ca d e s))) = wd_billing (iworld s)"
  using upstream_steps_billing(2) [of env d "ca_routing ca" e s]
  by (auto simp: failed_attempt_def simp del: upstream_steps_billing split: prod.split option.split)

definition charged_for :: "infer_env \<Rightarrow> chat_request \<Rightarrow> call \<Rightarrow> int \<times> int \<Rightarrow> billing_db \<Rightarrow> billing_db \<Rightarrow> bool" where
  "charged_for env req ca billed b b' \<longleftrightarrow>
     (\<exists>dr. truthy (ca_user ca) \<and>
        debit_user_to_floor (inow env) (the (ca_user ca)) (iv_cost env (fst billed) (snd billed) (cq_model req)) ''inference''
          (Some (ca_request_id ca)) (inference_charge_text (cq_model req) (fst billed) (snd billed)) b = Inr (dr, b'))"

lemma charge_user_billing:
  "wd_billing (iworld (charge_user env req ca d billed s)) = wd_billing (iworld s) \<or>
   charged_for env req ca billed (wd_billing (iworld s)) (wd_billing (iworld (charge_user env req ca d billed s)))"
  by (cases "debit_user_to_floor (inow env) (the (ca_user ca)) (iv_cost env (fst billed) (snd billed) (cq_model req)) ''inference''
        (Some (ca_request_id ca)) (inference_charge_text (cq_model req) (fst billed) (snd billed)) (wd_billing (iworld s))")
     (auto simp: charge_user_def charge_inference_tokens_def Let_def charged_for_def split: prod.splits)

definition in_bounds :: "chat_request \<Rightarrow> int \<times> int \<Rightarrow> bool" where
  "in_bounds req billed \<longleftrightarrow> fst billed \<le> prompt_token_bound req \<and> snd billed \<le> completion_token_bound req"

lemma clamp_in_bounds: "in_bounds req (clamp_reported_usage req p c)"
  by (simp add: in_bounds_def clamp_reported_usage_def)

text \<open>A request leaves the billing tables alone, or charges its user once for tokens within its bounds.\<close>

definition bill_settled :: "infer_env \<Rightarrow> chat_request \<Rightarrow> call \<Rightarrow> billing_db \<Rightarrow> billing_db \<Rightarrow> bool" where
  "bill_settled env req ca b b' \<longleftrightarrow> b' = b \<or> (\<exists>billed. in_bounds req billed \<and> charged_for env req ca billed b b')"

lemma charge_user_settled:
  "in_bounds req billed \<Longrightarrow>
     bill_settled env req ca (wd_billing (iworld s)) (wd_billing (iworld (charge_user env req ca d billed s)))"
  using charge_user_billing [of env req ca d billed s] unfolding bill_settled_def by blast

lemma answered_settled:
  "bill_settled env req ca (wd_billing (iworld s)) (wd_billing (iworld (answered env req ca d usage s)))"
proof (cases usage)
  case None
  then show ?thesis by (simp add: answered_def Let_def bill_settled_def)
next
  case (Some pc)
  define billed where "billed = clamp_reported_usage req (fst pc) (snd pc)"
  define s1 where "s1 = record_demand_tick env (cq_model req) (fst billed) (snd billed) (iv_elapsed env d)
    (track_latency (d_id d) (iv_elapsed env d) (record_usage_for env d False 0 s))"
  have "answered env req ca d usage s = record_invocation_for env d req ca ''succeeded'' None (charge_user env req ca d billed s1)"
    by (simp add: answered_def Let_def Some case_prod_beta billed_def s1_def)
  moreover have "wd_billing (iworld s1) = wd_billing (iworld s)" by (simp add: s1_def)
  ultimately show ?thesis
    using charge_user_settled [OF clamp_in_bounds, of env req ca s1 d "fst pc" "snd pc"] by (simp add: billed_def)
qed

lemma invoke_settles:
  "(\<exists>e. fst (invoke_from_candidates env req ca le ds s) = Inl e) \<and>
     wd_billing (iworld (snd (invoke_from_candidates env req ca le ds s))) = wd_billing (iworld s) \<or>
   (\<exists>d. fst (invoke_from_candidates env req ca le ds s) = Inr d) \<and>
     bill_settled env req ca (wd_billing (iworld s)) (wd_billing (iworld (snd (invoke_from_candidates env req ca le ds s))))"
proof (induction ds arbitrary: le s)
  case (Cons d ds)
  show ?case
  proof (cases "upstream_call env req d s")
    case (Fails e)
    obtain err t where f: "failed_attempt env req ca d e s = (err, t)" by (cases "failed_attempt env req ca d e s")
    have t: "wd_billing (iworld t) = wd_billing (iworld s)"
      using failed_attempt_billing [of env req ca d e s] by (simp add: f)
    show ?thesis using Cons.IH [of e t] t by (cases err) (simp_all add: Fails f)
  next
    case (Answers usage)
    obtain err t where h: "handle_upstream_success env d (ca_routing ca) s = (err, t)"
      by (cases "handle_upstream_success env d (ca_routing ca) s")
    have t: "wd_billing (iworld t) = wd_billing (iworld s)"
      using upstream_steps_billing(1) [of env d "ca_routing ca" s] by (simp add: h)
    show ?thesis using answered_settled [of env req ca t d usage] t by (cases err) (simp_all add: Answers h)
  qed
qed simp

section \<open>Reservations\<close>

lemma reserve_effect:
  fixes b :: billing_db and now u amount r ttl
  defines "b' \<equiv> snd (reserve_inference_hold now u amount r ttl b)"
  shows "bd_users b' = bd_users b \<and> bd_ledger b' = bd_ledger b \<and>
    {h \<in> set (bd_holds b'). h_reference h \<noteq> r} \<subseteq> set (bd_holds b) \<and>
    (\<not> fst (reserve_inference_hold now u amount r ttl b) \<longrightarrow> set (bd_holds b') \<subseteq> set (bd_holds b))"
proof (cases "get_row u_id u (bd_users b)")
  case None
  then show ?thesis by (auto simp: b'_def reserve_inference_hold_def Let_def)
next
  case (Some row)
  define b1 where "b1 = b\<lparr>bd_holds := filter (\<lambda>h. \<not> (h_user h = u \<and> h_expires_at h \<le> now)) (bd_holds b)\<rparr>"
  have b1: "bd_users b1 = bd_users b" "bd_ledger b1 = bd_ledger b" "set (bd_holds b1) \<subseteq> set (bd_holds b)"
    by (auto simp: b1_def)
  have "\<not> fst (reserve_inference_hold now u amount r ttl b) \<Longrightarrow> b' = b1"
    using Some unfolding b'_def reserve_inference_hold_def Let_def b1_def [symmetric] by (auto split: if_splits option.splits)
  with b1 have refused: "\<not> fst (reserve_inference_hold now u amount r ttl b) \<Longrightarrow> set (bd_holds b') \<subseteq> set (bd_holds b)" by simp
  have b': "b' = b1 \<or> (\<exists>x. h_reference x = r \<and>
      (b' = b1\<lparr>bd_holds := bd_holds b1 @ [x]\<rparr> \<or> b' = b1\<lparr>bd_holds := put_row h_reference x (bd_holds b1)\<rparr>))"
  proof (cases "get_row h_reference r (bd_holds b1)")
    case None
    define x where "x = \<lparr>h_reference = r, h_user = u, h_amount = max 0 amount, h_created_at = now,
        h_expires_at = now + seconds (max 1 ttl)\<rparr>"
    have "b' = b1 \<or> b' = b1\<lparr>bd_holds := bd_holds b1 @ [x]\<rparr>"
      using Some None unfolding b'_def reserve_inference_hold_def Let_def b1_def [symmetric] x_def by simp
    moreover have "h_reference x = r" by (simp add: x_def)
    ultimately show ?thesis by blast
  next
    case (Some old)
    define x where "x = old\<lparr>h_amount := max 0 amount, h_expires_at := now + seconds (max 1 ttl)\<rparr>"
    have "b' = b1 \<or> b' = b1\<lparr>bd_holds := put_row h_reference x (bd_holds b1)\<rparr>"
      using Some \<open>get_row u_id u (bd_users b) = Some row\<close>
      unfolding b'_def reserve_inference_hold_def Let_def b1_def [symmetric] x_def by simp
    moreover have "h_reference x = r" using get_row_SomeD [OF Some] by (simp add: x_def)
    ultimately show ?thesis by blast
  qed
  then show ?thesis
  proof (elim disjE exE conjE)
    fix x
    assume "h_reference x = r" "b' = b1\<lparr>bd_holds := put_row h_reference x (bd_holds b1)\<rparr>"
    with b1 refused set_put_row_subset [of h_reference x "bd_holds b1"] show ?thesis by auto
  qed (use b1 refused in auto)
qed

lemma debit_effect:
  assumes "debit_user_to_floor now u a k r d b = Inr (dr, b')"
  shows "bd_holds b' = bd_holds b \<and>
    get_balance v b' = (if v = u then get_balance u b - min (max 0 a) (max 0 (get_balance u b)) else get_balance v b)"
proof (cases "get_row u_id u (bd_users b)")
  case None
  with assms show ?thesis by (simp add: debit_user_to_floor_def)
next
  case (Some row)
  then have id: "u_id row = u" by (auto dest: get_row_SomeD)
  define n where "n = min (max 0 a) (max 0 (u_balance row))"
  have take: "min (max 0 a) (max 0 (u_balance row)) = n" by (simp add: n_def)
  have "b' = (if n > 0 then snd (book now row (- n) k r None d b) else b)"
    using assms Some by (simp add: debit_user_to_floor_def Let_def take split: if_splits del: min_less_iff_conj)
  moreover have "0 \<le> n" by (simp add: n_def)
  moreover have "get_balance u b = u_balance row" by (simp add: get_balance_def Some)
  ultimately show ?thesis
    using Some id by (cases "n > 0") (simp_all add: n_def [symmetric] book_def set_balance_def Let_def get_balance_def row_simps)
qed

section \<open>Selection\<close>

lemma healthy_deployments_spec:
  "wd_billing (iworld (snd (healthy_deployments env ro wid ds s))) = wd_billing (iworld s) \<and>
   (\<forall>hs. fst (healthy_deployments env ro wid ds s) = Inr hs \<longrightarrow> hs = filter (iv_healthy env) ds)"
proof (induction ds arbitrary: s)
  case (Cons d ds)
  show ?case
  proof (cases "iv_healthy env d")
    case True
    define s1 where "s1 = log_routing (decision ro (Some wid) (Some (d_id d)) ''selected'' ''ready_and_healthy'') s"
    obtain r t where r: "healthy_deployments env ro wid ds s1 = (r, t)" by fastforce
    with Cons.IH [of s1] True show ?thesis by (cases r) (simp_all add: s1_def)
  next
    case False
    define why where "why = ''deployment endpoint unhealthy: '' @ the (d_endpoint d)"
    obtain err t where h: "health_failure env (d_id d) why s = (err, t)" by fastforce
    have "wd_billing (iworld t) = wd_billing (iworld s)" using steps_billing(3) [of env "d_id d" why s] by (simp add: h)
    with Cons.IH [of "log_routing (decision ro (Some wid) (Some (d_id d)) ''skipped'' ''endpoint_unhealthy'') t"] False h
    show ?thesis by (cases err) (simp_all add: why_def)
  qed
qed simp

lemma set_rotated [simp]: "set (rotated n xs) = set xs"
  unfolding rotated_def by (metis Un_commute append_take_drop_id set_append)

lemma sort_key_Nil [simp]: "sort_key f xs = [] \<longleftrightarrow> xs = []"
  by (metis set_empty set_sort)

lemma rotated_Nil [simp]: "rotated n xs = [] \<longleftrightarrow> xs = []"
  by (metis set_empty set_rotated)

definition replicas_of :: "infer_env \<Rightarrow> workload \<Rightarrow> inference \<Rightarrow> deployment list" where
  "replicas_of env w s = filter (iv_healthy env) (reachable_replicas env w s)"

lemma select_from_spec:
  "wd_billing (iworld (snd (select_from env w ro s))) = wd_billing (iworld s) \<and>
   (\<forall>ds ro'. fst (select_from env w ro s) = Inr (ds, ro') \<longrightarrow> ds \<noteq> [] \<and> set ds = set (replicas_of env w s))"
proof -
  obtain r t where r: "healthy_deployments env ro (wl_id w) (reachable_replicas env w s) s = (r, t)" by fastforce
  from healthy_deployments_spec [of env ro "wl_id w" "reachable_replicas env w s" s] r
  have spec: "wd_billing (iworld t) = wd_billing (iworld s)" "\<And>hs. r = Inr hs \<Longrightarrow> hs = replicas_of env w s"
    by (simp_all add: replicas_of_def)
  show ?thesis
  proof (cases "reachable_replicas env w s = []")
    case True
    then show ?thesis by (simp add: select_from_def Let_def)
  next
    case False
    with spec r show ?thesis by (cases r) (auto simp: select_from_def Let_def)
  qed
qed

lemma select_spec:
  "wd_billing (iworld (snd (select_healthy_deployments env req host user admin s))) = wd_billing (iworld s) \<and>
   (\<forall>ds ro. fst (select_healthy_deployments env req host user admin s) = Inr (ds, ro) \<longrightarrow> ds \<noteq> [] \<and>
      (case external_upstream env (cq_model req) of
         Some url \<Rightarrow> ds = [external_deployment env (cq_model req) url]
       | None \<Rightarrow> \<exists>w ro. resolve_workload_reference env (cq_model req) host user admin (if_gate s) = Some (w, ro) \<and>
           (admin \<or> user_can_access_workload w user (if_gate s)) \<and> set ds = set (replicas_of env w s)))"
proof (cases "external_upstream env (cq_model req)")
  case (Some url)
  then show ?thesis by (simp add: select_healthy_deployments_def)
next
  case None
  show ?thesis
  proof (cases "resolve_workload_reference env (cq_model req) host user admin (if_gate s)")
    case None
    with \<open>external_upstream env (cq_model req) = None\<close> show ?thesis by (simp add: select_healthy_deployments_def)
  next
    case (Some p)
    with None select_from_spec [of env "fst p" "snd p" s] show ?thesis
      by (cases p) (auto simp: select_healthy_deployments_def)
  qed
qed

lemma invoke_answers_candidate:
  "fst (invoke_from_candidates env req ca le ds s) = Inr d \<Longrightarrow> d \<in> set ds"
proof (induction ds arbitrary: le s)
  case (Cons x ds)
  then show ?case by (auto split: upstream_answer.splits prod.splits option.splits)
qed simp

lemma open_call_selects:
  assumes "fst (open_call env str req key user host admin s) = Inr (ds, ca)"
  shows "\<exists>ro t. select_healthy_deployments env req host user admin
      (s\<lparr>if_gate := (if_gate s)\<lparr>gt_draws := Suc (gt_draws (if_gate s))\<rparr>\<rparr>) = (Inr (ds, ro), t)"
  using assms
  by (auto simp: open_call_def Let_def split: sum.splits prod.splits if_splits)

lemma stream_answers_candidate:
  "fst (stream_from_candidates env req ca le ds s) = Inr (d, x, fin) \<Longrightarrow> d \<in> set ds"
proof (induction ds arbitrary: le s)
  case (Cons c ds)
  then show ?case by (auto split: prod.splits if_splits stream_end.splits option.splits)
qed simp

lemma draws_frame [simp]:
  "user_can_access_workload w user (g\<lparr>gt_draws := n\<rparr>) = user_can_access_workload w user g"
  "replicas_of env w (s\<lparr>if_gate := (if_gate s)\<lparr>gt_draws := n\<rparr>\<rparr>) = replicas_of env w s"
  by (simp_all add: user_can_access_workload_def list_workload_shares_def replicas_of_def reachable_replicas_def)

lemma resolve_draws [simp]:
  "resolve_workload_reference env model host user admin (g\<lparr>gt_draws := n\<rparr>) =
     resolve_workload_reference env model host user admin g"
proof -
  have rank: "name_rank user admin (g\<lparr>gt_draws := n\<rparr>) = name_rank user admin g"
    by (rule ext) (simp add: name_rank_def access_rank_def)
  have world: "gt_world (g\<lparr>gt_draws := n\<rparr>) = gt_world g" by simp
  have "pick_named_workload model user admin (g\<lparr>gt_draws := n\<rparr>) = pick_named_workload model user admin g"
    unfolding pick_named_workload_def rank world ..
  moreover have "hosted_workload env h (g\<lparr>gt_draws := n\<rparr>) = hosted_workload env h g" for h
    unfolding hosted_workload_def world ..
  ultimately show ?thesis unfolding resolve_workload_reference_def world by (simp only:)
qed

text \<open>A replica a request may be sent to, in the terms of the tables.\<close>

definition fit_replica :: "infer_env \<Rightarrow> workload \<Rightarrow> inference \<Rightarrow> deployment \<Rightarrow> bool" where
  "fit_replica env w s d \<longleftrightarrow>
     d \<in> set (list_deployments (idb s)) \<and> d_workload_id d = wl_id w \<and> d_state d = READY \<and>
     d_endpoint d \<noteq> None \<and> iv_healthy env d \<and>
     (\<exists>nid node. d_node_id d = Some nid \<and> find_node nid (idb s) = Some node \<and>
        \<not> is_node_stale (icontrol env) (inow env) node)"

lemma replica_fit: "d \<in> set (replicas_of env w s) \<Longrightarrow> fit_replica env w s d"
  by (auto simp: fit_replica_def replicas_of_def reachable_replicas_def list_ready_deployments_def ready_rows_def
      split: option.splits)

text \<open>(C22) A request is answered only by the model it names, and only if its caller may use it.  Whoever the caller is and
  whether the answer comes in one piece or as a stream that he receives to its end or leaves: if the model is one
  configured as hosted outside the fleet, it is that upstream that answers.  Otherwise it is a replica of the workload
  that the request's host, identifier, alias or name resolves to, the caller is an administrator or that workload is
  public, his own or shared with him, and the replica is ready, has an endpoint, passed its health check, and is on a
  node that is not silent.\<close>

theorem answered_by_accessible_model:
  assumes "fst (invoke_chat_completion env req key user host admin s) = Inr d \<or>
    (\<exists>x fin. fst (stream_chat_completion env req key user host admin s) = Inr (d, x, fin))"
  shows "case external_upstream env (cq_model req) of
      Some url \<Rightarrow> d = external_deployment env (cq_model req) url
    | None \<Rightarrow> \<exists>w ro. resolve_workload_reference env (cq_model req) host user admin (if_gate s) = Some (w, ro) \<and>
        (admin \<or> user_can_access_workload w user (if_gate s)) \<and> fit_replica env w s d"
proof -
  obtain str ds ca t where o: "open_call env str req key user host admin s = (Inr (ds, ca), t)" and d: "d \<in> set ds"
  proof -
    from assms consider (whole) "fst (invoke_chat_completion env req key user host admin s) = Inr d"
      | (streamed) x fin where "fst (stream_chat_completion env req key user host admin s) = Inr (d, x, fin)" by blast
    then show thesis
    proof cases
      case whole
      obtain y t where o: "open_call env False req key user host admin s = (y, t)" by fastforce
      from whole o obtain ds ca where "y = Inr (ds, ca)" by (cases y) (auto simp: invoke_chat_completion_def)
      with whole o have "d \<in> set ds"
        using invoke_answers_candidate [of env req ca UpstreamOther ds t d]
        by (simp add: invoke_chat_completion_def Let_def case_prod_beta)
      with o \<open>y = Inr (ds, ca)\<close> show thesis by (auto intro: that)
    next
      case streamed
      obtain y t where o: "open_call env True req key user host admin s = (y, t)" by fastforce
      from streamed o obtain ds ca where "y = Inr (ds, ca)" by (cases y) (auto simp: stream_chat_completion_def)
      with streamed o have "d \<in> set ds"
        using stream_answers_candidate [of env req ca UpstreamOther ds t d x fin]
        by (simp add: stream_chat_completion_def Let_def case_prod_beta)
      with o \<open>y = Inr (ds, ca)\<close> show thesis by (auto intro: that)
    qed
  qed
  from open_call_selects [of env str req key user host admin s ds ca] o
  have sel: "\<exists>ro. fst (select_healthy_deployments env req host user admin
      (s\<lparr>if_gate := (if_gate s)\<lparr>gt_draws := Suc (gt_draws (if_gate s))\<rparr>\<rparr>)) = Inr (ds, ro)" by auto
  from select_spec [of env req host user admin "s\<lparr>if_gate := (if_gate s)\<lparr>gt_draws := Suc (gt_draws (if_gate s))\<rparr>\<rparr>"] sel d
  show ?thesis by (auto simp: replica_fit split: option.splits)
qed

section \<open>Money\<close>

lemma open_call_billing:
  fixes env str req key user host admin s
  defines "r \<equiv> open_call env str req key user host admin s"
    and "rid \<equiv> gv_uuid (iv_gate env) (gt_draws (if_gate s))"
  shows "bd_users (wd_billing (iworld (snd r))) = bd_users (wd_billing (iworld s)) \<and>
    bd_ledger (wd_billing (iworld (snd r))) = bd_ledger (wd_billing (iworld s)) \<and>
    {h \<in> set (bd_holds (wd_billing (iworld (snd r)))). h_reference h \<noteq> rid} \<subseteq> set (bd_holds (wd_billing (iworld s))) \<and>
    (\<forall>ds ca. fst r = Inr (ds, ca) \<longrightarrow> ca_request_id ca = rid \<and> ca_user ca = user) \<and>
    (\<not> truthy user \<or> (\<exists>e. fst r = Inl e) \<longrightarrow> set (bd_holds (wd_billing (iworld (snd r)))) \<subseteq> set (bd_holds (wd_billing (iworld s))))"
proof -
  define s0 where "s0 = s\<lparr>if_gate := (if_gate s)\<lparr>gt_draws := Suc (gt_draws (if_gate s))\<rparr>\<rparr>"
  obtain x t where sel: "select_healthy_deployments env req host user admin s0 = (x, t)" by fastforce
  have t: "wd_billing (iworld t) = wd_billing (iworld s)"
    using select_spec [of env req host user admin s0] by (simp add: sel) (simp add: s0_def)
  show ?thesis
  proof (cases x)
    case (Inl e)
    with sel t show ?thesis by (auto simp: r_def open_call_def Let_def s0_def [symmetric])
  next
    case (Inr p)
    obtain ds ro where p: "p = (ds, ro)" by (cases p)
    define b' where "b' = snd (reserve_inference_hold (inow env) (the user) (worst_case_cents env req) rid HOLD_TTL_SECONDS
        (wd_billing (iworld t)))"
    have res: "wd_billing (iworld (snd (reserve_inference_budget env (the user) rid req t))) = b'"
      by (simp add: reserve_inference_budget_def Let_def case_prod_beta b'_def)
    obtain y t1 where rb: "reserve_inference_budget env (the user) rid req t = (y, t1)" by fastforce
    from reserve_effect [of "inow env" "the user" "worst_case_cents env req" rid HOLD_TTL_SECONDS "wd_billing (iworld s)"]
    have eff: "bd_users b' = bd_users (wd_billing (iworld s)) \<and> bd_ledger b' = bd_ledger (wd_billing (iworld s)) \<and>
        {h \<in> set (bd_holds b'). h_reference h \<noteq> rid} \<subseteq> set (bd_holds (wd_billing (iworld s))) \<and>
        ((\<exists>e. y = Inl e) \<longrightarrow> set (bd_holds b') \<subseteq> set (bd_holds (wd_billing (iworld s))))"
      using rb by (auto simp: b'_def t reserve_inference_budget_def Let_def case_prod_beta split: if_splits)
    have t1: "wd_billing (iworld t1) = b'" using res rb by simp
    show ?thesis
      using sel t Inr p eff t1 rb
      by (cases y) (auto simp: r_def rid_def open_call_def Let_def s0_def [symmetric])
  qed
qed

definition price_monotone :: "infer_env \<Rightarrow> string \<Rightarrow> bool" where
  "price_monotone env model \<longleftrightarrow> (\<forall>p p' c c'. p \<le> p' \<and> c \<le> c' \<longrightarrow> iv_cost env p c model \<le> iv_cost env p' c' model)"

lemma settled_effect:
  assumes "bill_settled env req ca b b'" "price_monotone env (cq_model req)"
  shows "bd_holds b' = bd_holds b \<and>
    (get_balance v b' = get_balance v b \<or>
     ca_user ca = Some v \<and> get_balance v b - max 0 (worst_case_cents env req) \<le> get_balance v b' \<and> get_balance v b' \<le> get_balance v b)"
proof (cases "b' = b")
  case True
  then show ?thesis by simp
next
  case False
  with assms(1) obtain billed dr where "in_bounds req billed" "truthy (ca_user ca)"
    and debit: "debit_user_to_floor (inow env) (the (ca_user ca)) (iv_cost env (fst billed) (snd billed) (cq_model req)) ''inference''
          (Some (ca_request_id ca)) (inference_charge_text (cq_model req) (fst billed) (snd billed)) b = Inr (dr, b')"
    by (auto simp: bill_settled_def charged_for_def)
  then have "iv_cost env (fst billed) (snd billed) (cq_model req) \<le> worst_case_cents env req" and "ca_user ca = Some (the (ca_user ca))"
    using assms(2) by (auto simp: price_monotone_def in_bounds_def worst_case_cents_def truthy_iff)
  with debit_effect [OF debit, of v] show ?thesis by (cases "v = the (ca_user ca)") auto
qed

lemma billed_in_bounds: "billed_tokens req x \<noteq> (0, 0) \<Longrightarrow> in_bounds req (billed_tokens req x)"
  by (auto simp: billed_tokens_def in_bounds_def clamp_reported_usage_def split: option.splits if_splits)

lemma finalize_settles:
  assumes "finalize_stream env req ca d x status s = (err, t)"
  shows "bill_settled env req ca (wd_billing (iworld s)) (wd_billing (iworld t)) \<and>
    (err \<noteq> None \<longrightarrow> wd_billing (iworld t) = wd_billing (iworld s))"
proof -
  obtain e0 t0 where h: "handle_upstream_success env d (ca_routing ca) s = (e0, t0)" by fastforce
  then have t0: "wd_billing (iworld t0) = wd_billing (iworld s)"
    using upstream_steps_billing(1) [of env d "ca_routing ca" s] by simp
  define t1 where "t1 = record_usage_for env d True (se_chunks x) t0"
  have t1: "wd_billing (iworld t1) = wd_billing (iworld s)" by (simp add: t1_def t0)
  show ?thesis
  proof (cases e0)
    case None
    have "err = None" and bill: "wd_billing (iworld t) = wd_billing (iworld
        (if fst (billed_tokens req x) \<noteq> 0 \<or> snd (billed_tokens req x) \<noteq> 0 then charge_user env req ca d (billed_tokens req x) t1 else t1))"
      using assms h None by (auto simp: finalize_stream_def Let_def t1_def)
    moreover have "bill_settled env req ca (wd_billing (iworld s)) (wd_billing (iworld (charge_user env req ca d (billed_tokens req x) t1)))"
      if "billed_tokens req x \<noteq> (0, 0)"
      using charge_user_settled [OF billed_in_bounds [OF that], of env ca t1 d] t1 by simp
    ultimately show ?thesis by (cases "billed_tokens req x") (auto simp: t1 bill_settled_def)
  next
    case (Some e)
    with assms h t0 show ?thesis by (auto simp: finalize_stream_def bill_settled_def)
  qed
qed

lemma stream_settles:
  assumes "stream_from_candidates env req ca le ds s = (r, t)"
  shows "bill_settled env req ca (wd_billing (iworld s)) (wd_billing (iworld t)) \<and>
    ((\<exists>e. r = Inl e) \<longrightarrow> wd_billing (iworld t) = wd_billing (iworld s))"
  using assms
proof (induction ds arbitrary: le s)
  case Nil
  then show ?case by (simp add: bill_settled_def)
next
  case (Cons c ds)
  obtain ls how where u: "upstream_stream env req c s = (ls, how)" by fastforce
  obtain ok y where y: "read_lines ls nothing_seen = (ok, y)" by fastforce
  have same: "bill_settled env req ca b b" for b by (simp add: bill_settled_def)
  show ?case
  proof (cases "ok")
    case False
    with Cons.prems u y show ?thesis by (auto simp: same)
  next
    case ok: True
    show ?thesis
    proof (cases how)
      case Finishes
      obtain err t' where f: "finalize_stream env req ca c y ''succeeded'' s = (err, t')" by fastforce
      from Cons.prems u y ok Finishes f finalize_settles [OF f] show ?thesis by (cases err) auto
    next
      case (BreaksOff e)
      obtain err t' where f: "failed_attempt env req ca c e s = (err, t')" by fastforce
      have t': "wd_billing (iworld t') = wd_billing (iworld s)"
        using failed_attempt_billing [of env req ca c e s] by (simp add: f)
      show ?thesis
      proof (cases "err = None \<and> se_chunks y = 0")
        case True
        then have "stream_from_candidates env req ca e ds t' = (r, t)"
          using Cons.prems u y ok BreaksOff f by simp
        from Cons.IH [OF this] t' show ?thesis by simp
      next
        case False
        with Cons.prems u y ok BreaksOff f t' show ?thesis by (cases err) (auto simp: same)
      qed
    next
      case ClientLeaves
      obtain err t' where f: "finalize_stream env req ca c y ''client_disconnected'' s = (err, t')" by fastforce
      from Cons.prems u y ok ClientLeaves f finalize_settles [OF f] show ?thesis
        by (cases "se_lines y = 0"; cases err) (auto simp: same)
    qed
  qed
qed

text \<open>What every call that was opened leaves when it is closed, whatever went on in between.\<close>

lemma closed_call_effect:
  assumes "price_monotone env (cq_model req)"
    and "gv_uuid (iv_gate env) (gt_draws (if_gate s)) \<notin> h_reference ` set (bd_holds (wd_billing (iworld s)))"
    and o: "open_call env str req key user host admin s = (Inr (ds, ca), t0)"
    and b: "bill_settled env req ca (wd_billing (iworld t0)) (wd_billing (iworld t1))"
    and failed: "delivered \<or> wd_billing (iworld t1) = wd_billing (iworld t0)"
  shows "set (bd_holds (wd_billing (iworld (close_call ca t1)))) \<subseteq> set (bd_holds (wd_billing (iworld s))) \<and>
    (get_balance v (wd_billing (iworld (close_call ca t1))) = get_balance v (wd_billing (iworld s)) \<or>
     user = Some v \<and> delivered \<and>
       get_balance v (wd_billing (iworld s)) - max 0 (worst_case_cents env req) \<le> get_balance v (wd_billing (iworld (close_call ca t1))) \<and>
       get_balance v (wd_billing (iworld (close_call ca t1))) \<le> get_balance v (wd_billing (iworld s)))"
proof -
  define rid where "rid = gv_uuid (iv_gate env) (gt_draws (if_gate s))"
  note ob = open_call_billing [of env str req key user host admin s, unfolded o fst_conv snd_conv, folded rid_def]
  have same: "get_balance v (wd_billing (iworld t0)) = get_balance v (wd_billing (iworld s))"
    using ob by (simp add: get_balance_def)
  have ca: "ca_request_id ca = rid" "ca_user ca = user" using ob by simp_all
  note eff = settled_effect [OF b assms(1), of v]
  have bal: "get_balance v (wd_billing (iworld (close_call ca t1))) = get_balance v (wd_billing (iworld t1))"
    by (simp add: close_call_def release_inference_budget_def release_inference_hold_def get_balance_def)
  have "set (bd_holds (wd_billing (iworld (close_call ca t1)))) \<subseteq> set (bd_holds (wd_billing (iworld s)))"
  proof (cases "truthy user")
    case True
    then have "set (bd_holds (wd_billing (iworld (close_call ca t1)))) =
        {h \<in> set (bd_holds (wd_billing (iworld t0))). h_reference h \<noteq> rid}"
      using eff ca by (auto simp: close_call_def release_inference_budget_def release_inference_hold_def delete_row_def)
    with ob show ?thesis by simp
  next
    case False
    then have "bd_holds (wd_billing (iworld (close_call ca t1))) = bd_holds (wd_billing (iworld t0))"
      using eff ca by (simp add: close_call_def)
    with ob False show ?thesis by simp
  qed
  with eff failed bal same ca show ?thesis by auto
qed

lemma unopened_call_effect:
  assumes "open_call env str req key user host admin s = (Inl e, t)"
  shows "set (bd_holds (wd_billing (iworld t))) \<subseteq> set (bd_holds (wd_billing (iworld s))) \<and>
    get_balance v (wd_billing (iworld t)) = get_balance v (wd_billing (iworld s))"
  using open_call_billing [of env str req key user host admin s, unfolded assms fst_conv snd_conv]
  by (simp add: get_balance_def)

text \<open>Whether a request was answered, without what it answered.\<close>

definition served :: "'a inferred \<Rightarrow> unit inferred" where
  "served = map_prod (map_sum id (\<lambda>_. ())) id"

text \<open>(C7) A request costs its caller at most what it may cost.  It is about a request answered in one piece and about a
  stream whose generator runs to its end or is left by the client, with a request id no hold has yet and a price that does
  not fall when the tokens rise.  Whatever upstreams do or report, it leaves no hold of its own behind, touches no other
  account, takes from its caller at most the price of the most tokens it could use, and takes nothing if it fails.  Not
  covered: a stream whose client is gone before the generator is first advanced, which keeps its hold until that expires.\<close>

theorem request_costs_at_most_its_bound:
  assumes "price_monotone env (cq_model req)"
    and "gv_uuid (iv_gate env) (gt_draws (if_gate s)) \<notin> h_reference ` set (bd_holds (wd_billing (iworld s)))"
    and "served (invoke_chat_completion env req key user host admin s) = (r, t) \<or>
         served (stream_chat_completion env req key user host admin s) = (r, t)"
  shows "set (bd_holds (wd_billing (iworld t))) \<subseteq> set (bd_holds (wd_billing (iworld s))) \<and>
    (get_balance v (wd_billing (iworld t)) = get_balance v (wd_billing (iworld s)) \<or>
     user = Some v \<and> r = Inr () \<and>
       get_balance v (wd_billing (iworld s)) - max 0 (worst_case_cents env req) \<le> get_balance v (wd_billing (iworld t)) \<and>
       get_balance v (wd_billing (iworld t)) \<le> get_balance v (wd_billing (iworld s)))"
proof -
  have "(\<exists>str e. open_call env str req key user host admin s = (Inl e, t)) \<or>
    (\<exists>str ds ca t0 t1. open_call env str req key user host admin s = (Inr (ds, ca), t0) \<and> t = close_call ca t1 \<and>
       bill_settled env req ca (wd_billing (iworld t0)) (wd_billing (iworld t1)) \<and>
       (r = Inr () \<or> wd_billing (iworld t1) = wd_billing (iworld t0)))"
    using assms(3)
  proof
    assume run: "served (invoke_chat_completion env req key user host admin s) = (r, t)"
    obtain x t0 where o: "open_call env False req key user host admin s = (x, t0)" by fastforce
    show ?thesis
    proof (cases x)
      case (Inl e)
      with run o show ?thesis by (auto simp: served_def invoke_chat_completion_def)
    next
      case (Inr p)
      obtain ds ca where p: "p = (ds, ca)" by (cases p)
      obtain y t1 where i: "invoke_from_candidates env req ca UpstreamOther ds t0 = (y, t1)" by fastforce
      from run o Inr p i have "t = close_call ca t1" "r = map_sum id (\<lambda>_. ()) y"
        by (simp_all add: served_def invoke_chat_completion_def)
      with o Inr p i invoke_settles [of env req ca UpstreamOther ds t0] show ?thesis
        by (intro disjI2 exI [of _ False] exI [of _ ds] exI [of _ ca] exI [of _ t0] exI [of _ t1])
          (auto simp: bill_settled_def)
    qed
  next
    assume run: "served (stream_chat_completion env req key user host admin s) = (r, t)"
    obtain x t0 where o: "open_call env True req key user host admin s = (x, t0)" by fastforce
    show ?thesis
    proof (cases x)
      case (Inl e)
      with run o show ?thesis by (auto simp: served_def stream_chat_completion_def)
    next
      case (Inr p)
      obtain ds ca where p: "p = (ds, ca)" by (cases p)
      obtain y t1 where i: "stream_from_candidates env req ca UpstreamOther ds t0 = (y, t1)" by fastforce
      from run o Inr p i have "t = close_call ca t1" "r = map_sum id (\<lambda>_. ()) y"
        by (simp_all add: served_def stream_chat_completion_def)
      with o Inr p stream_settles [OF i] show ?thesis
        by (intro disjI2 exI [of _ True] exI [of _ ds] exI [of _ ca] exI [of _ t0] exI [of _ t1]) (cases y; auto)
    qed
  qed
  then show ?thesis
  proof (elim disjE exE conjE)
    fix str e assume "open_call env str req key user host admin s = (Inl e, t)"
    from unopened_call_effect [OF this, of v] show ?thesis by simp
  next
    fix str ds ca t0 t1
    assume o: "open_call env str req key user host admin s = (Inr (ds, ca), t0)" and t: "t = close_call ca t1"
      and b: "bill_settled env req ca (wd_billing (iworld t0)) (wd_billing (iworld t1))" and r: "r = Inr ()"
    show ?thesis unfolding t by (rule closed_call_effect [OF assms(1,2) o b]) (simp add: r)
  next
    fix str ds ca t0 t1
    assume o: "open_call env str req key user host admin s = (Inr (ds, ca), t0)" and t: "t = close_call ca t1"
      and b: "bill_settled env req ca (wd_billing (iworld t0)) (wd_billing (iworld t1))"
      and same: "wd_billing (iworld t1) = wd_billing (iworld t0)"
    show ?thesis unfolding t by (rule closed_call_effect [OF assms(1,2) o b]) (simp add: same)
  qed
qed

section \<open>Streams\<close>

text \<open>The charge of a finished stream, when there is something to charge.\<close>

lemma charge_unowned:
  assumes "\<not> truthy (d_owner d)" "ca_user ca = Some u" "u \<noteq> []" "get_row u_id u (bd_users (wd_billing (iworld s))) \<noteq> None"
  shows "get_balance u (wd_billing (iworld (charge_user env req ca d billed s))) =
    get_balance u (wd_billing (iworld s)) -
      min (max 0 (iv_cost env (fst billed) (snd billed) (cq_model req))) (max 0 (get_balance u (wd_billing (iworld s))))"
proof -
  have "truthy (ca_user ca)" "\<not> billed_privately d s"
    using assms(1-3) by (auto simp: truthy_iff billed_privately_def neq_Nil_conv)
  then obtain dr db where "debit_user_to_floor (inow env) u (iv_cost env (fst billed) (snd billed) (cq_model req)) ''inference''
      (Some (ca_request_id ca)) (inference_charge_text (cq_model req) (fst billed) (snd billed)) (wd_billing (iworld s)) = Inr (dr, db)"
    using assms(4) by (auto simp: debit_user_to_floor_def Let_def)
  with \<open>truthy (ca_user ca)\<close> \<open>\<not> billed_privately d s\<close> assms(2) debit_effect [OF this, of u] show ?thesis
    by (auto simp: charge_user_def charge_inference_tokens_def Let_def)
qed

text \<open>What a stream owes, from its lines alone: the usage it reported last, cut to the bounds of the request; without a
  report, the whole prompt bound and one token per content line.\<close>

definition line_report :: "stream_line \<Rightarrow> (int \<times> int) option option" where
  "line_report l = (case l of DataLine _ usage \<Rightarrow> usage | _ \<Rightarrow> None)"

definition last_report :: "stream_line list \<Rightarrow> (int \<times> int) option" where
  "last_report ls = (case rev (List.map_filter line_report ls) of [] \<Rightarrow> None | u # _ \<Rightarrow> u)"

definition content_lines :: "stream_line list \<Rightarrow> nat" where
  "content_lines ls = length (filter (\<lambda>l. case l of DataLine content _ \<Rightarrow> content | _ \<Rightarrow> False) ls)"

definition token_price :: "infer_env \<Rightarrow> chat_request \<Rightarrow> int \<Rightarrow> int \<Rightarrow> int" where
  "token_price env req p c = (if p = 0 \<and> c = 0 then 0 else max 0 (iv_cost env p c (cq_model req)))"

definition stream_owes :: "infer_env \<Rightarrow> chat_request \<Rightarrow> stream_line list \<Rightarrow> int" where
  "stream_owes env req ls =
     (case last_report ls of
        Some (p, c) \<Rightarrow> token_price env req (min (max p 0) (prompt_token_bound req)) (min (max c 0) (completion_token_bound req))
      | None \<Rightarrow> if content_lines ls = 0 then 0
                else token_price env req (prompt_token_bound req) (min (int (content_lines ls)) (completion_token_bound req)))"

lemma read_lines_sees:
  "read_lines ls x = (True, y) \<Longrightarrow>
     se_chunks y = se_chunks x + content_lines ls \<and> se_lines y = se_lines x + length ls \<and>
     se_usage y = (case rev (List.map_filter line_report ls) of [] \<Rightarrow> se_usage x | u # _ \<Rightarrow> Some u)"
proof (induction ls x rule: read_lines.induct)
  case (4 content usage ls x)
  then show ?case
    by (cases usage) (auto simp: content_lines_def List.map_filter_def line_report_def split: list.splits if_splits)
qed (auto simp: content_lines_def List.map_filter_def line_report_def split: list.splits)

lemma billed_owes:
  assumes "read_lines ls nothing_seen = (True, x)" and "billed_tokens req x = (p, c)"
  shows "token_price env req p c = stream_owes env req ls"
proof -
  note seen = read_lines_sees [OF assms(1), unfolded nothing_seen_def]
  show ?thesis
  proof (cases "last_report ls")
    case (Some pc)
    then have "se_usage x = Some (Some pc)" using seen by (auto simp: last_report_def split: list.splits)
    with assms(2) Some show ?thesis
      by (cases pc) (auto simp: billed_tokens_def clamp_reported_usage_def stream_owes_def)
  next
    case None
    then have "se_usage x = None \<or> se_usage x = Some None" using seen by (auto simp: last_report_def split: list.splits)
    with assms(2) None seen show ?thesis
      by (auto simp: billed_tokens_def stream_owes_def token_price_def split: if_splits)
  qed
qed

lemma finalize_charges:
  assumes "finalize_stream env req ca d x status s = (None, t)" and "\<not> truthy (d_owner d)" "ca_user ca = Some u" "u \<noteq> []"
    and "get_row u_id u (bd_users (wd_billing (iworld s))) \<noteq> None" and "read_lines ls nothing_seen = (True, x)"
  shows "get_balance u (wd_billing (iworld t)) =
    get_balance u (wd_billing (iworld s)) - min (stream_owes env req ls) (max 0 (get_balance u (wd_billing (iworld s))))"
proof -
  obtain t0 where h: "handle_upstream_success env d (ca_routing ca) s = (None, t0)"
    using assms(1) by (auto simp: finalize_stream_def split: prod.splits option.splits)
  then have t0: "wd_billing (iworld t0) = wd_billing (iworld s)"
    using upstream_steps_billing(1) [of env d "ca_routing ca" s] by simp
  define t1 where "t1 = record_usage_for env d True (se_chunks x) t0"
  have t1: "wd_billing (iworld t1) = wd_billing (iworld s)" by (simp add: t1_def t0)
  obtain p c where billed: "billed_tokens req x = (p, c)" by fastforce
  have "wd_billing (iworld t) = wd_billing (iworld
      (if p \<noteq> 0 \<or> c \<noteq> 0 then charge_user env req ca d (p, c) t1 else t1))"
    using assms(1) h by (auto simp: finalize_stream_def Let_def t1_def billed)
  then show ?thesis
    using charge_unowned [OF assms(2-4), of t1 env req "(p, c)"] assms(5) t1 billed_owes [OF assms(6) billed, of env]
    by (auto simp: token_price_def)
qed

text \<open>How a run over the candidates ends: with a stream that came to its end or was left after at least one line, closed by
  \<open>finalize_stream\<close>; or with an error, which is a disconnection only if nothing had been received.\<close>

definition closed_stream ::
  "infer_env \<Rightarrow> chat_request \<Rightarrow> call \<Rightarrow> billing_db \<Rightarrow> deployment \<Rightarrow> seen \<Rightarrow> bool \<Rightarrow> inference \<Rightarrow> bool" where
  "closed_stream env req ca b d x fin t \<longleftrightarrow>
     (\<exists>s1 status m ls. wd_billing (iworld s1) = b \<and>
        iv_lines env d m = (ls, if fin then Finishes else ClientLeaves) \<and> (\<not> fin \<longrightarrow> ls \<noteq> []) \<and>
        read_lines ls nothing_seen = (True, x) \<and> finalize_stream env req ca d x status s1 = (None, t))"

lemma stream_ends_in_finalize:
  assumes "stream_from_candidates env req ca le ds s = (r, t)"
  shows "case r of
     Inr (d, x, fin) \<Rightarrow> closed_stream env req ca (wd_billing (iworld s)) d x fin t
   | Inl e \<Rightarrow> e = Disconnected \<longrightarrow> (\<exists>d m. iv_lines env d m = ([], ClientLeaves))"
  using assms
proof (induction ds arbitrary: le s)
  case (Cons c ds)
  obtain ls how where u: "upstream_stream env req c s = (ls, how)" by fastforce
  obtain ok y where y: "read_lines ls nothing_seen = (ok, y)" by fastforce
  have known: "\<exists>m. iv_lines env c m = (ls, how)" if "how = Finishes \<or> how = ClientLeaves"
    using u that by (auto simp: upstream_stream_def split: option.splits)
  have len: "ok \<Longrightarrow> se_lines y = length ls"
    using read_lines_sees [of ls nothing_seen y] y by (simp add: nothing_seen_def)
  have fin: ?case if run: "(case finalize_stream env req ca c y status s of
        (Some err, t) \<Rightarrow> (Inl (Control err), t) | (None, t) \<Rightarrow> (Inr (c, y, b), t)) = (r, t)"
      and m: "\<exists>m. iv_lines env c m = (ls, if b then Finishes else ClientLeaves)" and "ok" and "\<not> b \<longrightarrow> ls \<noteq> []" for status b
  proof (cases "finalize_stream env req ca c y status s")
    case (Pair err t')
    show ?thesis
    proof (cases err)
      case None
      from None run Pair have r: "r = Inr (c, y, b)" and "finalize_stream env req ca c y status s = (None, t)" by simp_all
      moreover have "read_lines ls nothing_seen = (True, y)" using y \<open>ok\<close> by simp
      ultimately have "closed_stream env req ca (wd_billing (iworld s)) c y b t"
        unfolding closed_stream_def using m \<open>\<not> b \<longrightarrow> ls \<noteq> []\<close> by blast
      with r show ?thesis by simp
    next
      case (Some e)
      with run Pair show ?thesis by auto
    qed
  qed
  show ?case
  proof (cases "ok")
    case False
    with Cons.prems u y show ?thesis by auto
  next
    case ok: True
    show ?thesis
    proof (cases how)
      case Finishes
      show ?thesis
        by (rule fin [where status = "''succeeded''" and b = True]) (use Cons.prems u y ok Finishes known in simp_all)
    next
      case (BreaksOff e)
      obtain err t0 where f: "failed_attempt env req ca c e s = (err, t0)" by fastforce
      have t0: "wd_billing (iworld t0) = wd_billing (iworld s)"
        using failed_attempt_billing [of env req ca c e s] by (simp add: f)
      show ?thesis
      proof (cases "err = None \<and> se_chunks y = 0")
        case True
        then have "stream_from_candidates env req ca e ds t0 = (r, t)"
          using Cons.prems u y ok BreaksOff f by simp
        from Cons.IH [OF this] t0 show ?thesis by (auto split: sum.splits)
      next
        case False
        with Cons.prems u y ok BreaksOff f show ?thesis by (cases err) auto
      qed
    next
      case ClientLeaves
      show ?thesis
      proof (cases "ls = []")
        case True
        then have "\<exists>d m. iv_lines env d m = ([], ClientLeaves)" using known ClientLeaves by blast
        moreover from True Cons.prems u y ok ClientLeaves len have "r = Inl Disconnected" by auto
        ultimately show ?thesis by simp
      next
        case False
        show ?thesis
          by (rule fin [where status = "''client_disconnected''" and b = False]) (use Cons.prems u y ok ClientLeaves known len False in simp_all)
      qed
    qed
  qed
qed auto

lemma healthy_not_disconnected: "fst (healthy_deployments env ro wid ds s) \<noteq> Inl Disconnected"
proof (induction ds arbitrary: s)
  case (Cons d ds)
  then show ?case by (simp split: prod.split sum.split option.split) (metis fst_conv)
qed simp

lemma open_not_disconnected: "fst (open_call env str req key user host admin s) \<noteq> Inl Disconnected"
proof -
  have "fst (select_from env w ro t) \<noteq> Inl Disconnected" for w ro t
    using healthy_not_disconnected [of env ro "wl_id w" "reachable_replicas env w t" t]
    by (auto simp: select_from_def Let_def split: prod.split sum.split)
  then have "fst (select_healthy_deployments env req host user admin t) \<noteq> Inl Disconnected" for t
    by (auto simp: select_healthy_deployments_def split: option.split)
  moreover have "fst (reserve_inference_budget env u rid req t) \<noteq> Inl Disconnected" for u rid t
    by (simp add: reserve_inference_budget_def Let_def case_prod_beta)
  ultimately show ?thesis
    by (simp add: open_call_def Let_def split: prod.split sum.split) (metis fst_conv)
qed

text \<open>(C8) A stream is paid for whether or not the client waits for its end.  For a user with an account: if the request ends
  with a replica's stream, that stream came to its end or the client left it after at least one line, and, unless the
  replica is of a private model, the balance drops by what the lines received owe (\<open>stream_owes\<close>): the price of the
  last usage the upstream reported, cut to the bounds of the request, or without a report of the bound of the prompt and one
  token per content line; it stops at zero.  If the request ends in an error nothing is charged, and the error is the
  client's leaving only if he had received nothing.\<close>

theorem delivered_stream_is_paid:
  assumes "stream_chat_completion env req key (Some u) host admin s = (r, t)" and "u \<noteq> []"
    and "get_row u_id u (bd_users (wd_billing (iworld s))) \<noteq> None"
  shows "case r of
     Inr (d, x, fin) \<Rightarrow>
       \<exists>m ls. iv_lines env d m = (ls, if fin then Finishes else ClientLeaves) \<and> (\<not> fin \<longrightarrow> ls \<noteq> []) \<and>
         (\<not> truthy (d_owner d) \<longrightarrow> get_balance u (wd_billing (iworld t)) =
            get_balance u (wd_billing (iworld s)) - min (stream_owes env req ls) (max 0 (get_balance u (wd_billing (iworld s)))))
   | Inl e \<Rightarrow> get_balance u (wd_billing (iworld t)) = get_balance u (wd_billing (iworld s)) \<and>
       (e = Disconnected \<longrightarrow> (\<exists>d m. iv_lines env d m = ([], ClientLeaves)))"
proof -
  obtain y t0 where o: "open_call env True req key (Some u) host admin s = (y, t0)" by fastforce
  note ob = open_call_billing [of env True req key "Some u" host admin s, unfolded o fst_conv snd_conv]
  show ?thesis
  proof (cases y)
    case (Inl e)
    have "e \<noteq> Disconnected"
      using o Inl open_not_disconnected [of env True req key "Some u" host admin s] by auto
    with Inl o assms(1) ob show ?thesis by (auto simp: stream_chat_completion_def get_balance_def)
  next
    case (Inr p)
    obtain ds ca where p: "p = (ds, ca)" by (cases p)
    obtain r1 t1 where run: "stream_from_candidates env req ca UpstreamOther ds t0 = (r1, t1)" by fastforce
    have r: "r1 = r" and t: "t = close_call ca t1"
      using assms(1) o Inr p run by (auto simp: stream_chat_completion_def)
    have ca: "ca_user ca = Some u" using ob Inr p by simp
    have users: "bd_users (wd_billing (iworld t0)) = bd_users (wd_billing (iworld s))" using ob by simp
    have bal: "get_balance u (wd_billing (iworld t)) = get_balance u (wd_billing (iworld t1))"
      by (simp add: t close_call_def release_inference_budget_def release_inference_hold_def get_balance_def)
    note ends = stream_ends_in_finalize [OF run, unfolded r]
    show ?thesis
    proof (cases r)
      case (Inl e)
      with stream_settles [OF run] r users have "get_balance u (wd_billing (iworld t1)) = get_balance u (wd_billing (iworld s))"
        by (simp add: get_balance_def)
      with Inl bal ends show ?thesis by auto
    next
      case (Inr q)
      obtain d x fin where q: "q = (d, x, fin)" by (cases q)
      from ends Inr q obtain s1 status m ls where e: "wd_billing (iworld s1) = wd_billing (iworld t0)"
        "iv_lines env d m = (ls, if fin then Finishes else ClientLeaves)" "\<not> fin \<longrightarrow> ls \<noteq> []"
        "read_lines ls nothing_seen = (True, x)" "finalize_stream env req ca d x status s1 = (None, t1)" by (auto simp: closed_stream_def)
      have start: "get_balance u (wd_billing (iworld s1)) = get_balance u (wd_billing (iworld s))"
        "get_row u_id u (bd_users (wd_billing (iworld s1))) \<noteq> None"
        using e(1) users assms(3) by (simp_all add: get_balance_def)
      have paid: "\<not> truthy (d_owner d) \<longrightarrow> get_balance u (wd_billing (iworld t)) =
          get_balance u (wd_billing (iworld s)) - min (stream_owes env req ls) (max 0 (get_balance u (wd_billing (iworld s))))"
        using finalize_charges [OF e(5) _ ca assms(2) start(2) e(4)] bal start(1) by simp
      show ?thesis unfolding Inr q sum.case prod.case
        by (rule exI [of _ m], rule exI [of _ ls], intro conjI, rule e(2), rule e(3), rule paid)
    qed
  qed
qed

section \<open>Runs\<close>

definition demo_llama :: workload where
  "demo_llama = (demo_workload ''m'' 1)
     \<lparr>wl_name := ''m'', wl_kind := INFERENCE, wl_owner := None, wl_public := True, wl_metadata := [(''managed_by'', ''flux'')]\<rparr>"

definition demo_replica :: deployment where
  "demo_replica = (demo_deployment ''r1'' READY)
     \<lparr>d_owner := None, d_hotkey := Some ''hk'', d_node_id := Some ''n1'', d_endpoint := Some ''http://n1''\<rparr>"

definition demo_infer :: inference where
  "demo_infer =
     \<lparr>if_gate = demo_gateway\<lparr>gt_world := \<lparr>wd_control = on_db (insert_deployment demo_replica) (on_db (upsert_workload demo_llama) demo_fleet),
                                       wd_billing = opening_db demo_users\<rparr>\<rparr>,
      if_latency = [], if_turn = 0, if_log = [], if_accruals = [], if_demand = []\<rparr>"

definition demo_infer_env :: infer_env where
  "demo_infer_env =
     \<lparr>iv_gate = demo_gateway_env 5, iv_zone = ''models.example'', iv_external = [], iv_cost = (\<lambda>p c m. (max 0 p + 20 * max 0 c) div 12),
      iv_healthy = (\<lambda>d. True), iv_answer = (\<lambda>d m. Answers (Some (4, 3))),
      iv_lines = (\<lambda>d m. ([DataLine True None, PlainLine, DataLine True None, DataLine False (Some (Some (4, 3)))], ClientLeaves)),
      iv_says = (\<lambda>d e. []), iv_elapsed = (\<lambda>d. 20)\<rparr>"

definition demo_chat :: chat_request where
  "demo_chat = \<lparr>cq_model = ''m'', cq_messages = [], cq_max_tokens = Some 4, cq_max_completion_tokens = None\<rparr>"

lemma infer_open: "external_upstream demo_infer_env ''m'' = None" "price_monotone demo_infer_env ''m''"
  by (code_simp, auto simp: price_monotone_def demo_infer_env_def intro!: zdiv_mono1 add_mono)

text \<open>The first candidate that answers is the one that serves.\<close>

lemma first_answers:
  "upstream_call env req d s = Answers usage \<Longrightarrow> fst (handle_upstream_success env d (ca_routing ca) s) = None \<Longrightarrow>
     fst (invoke_from_candidates env req ca le (d # ds) s) = Inr d"
  by (cases "handle_upstream_success env d (ca_routing ca) s") simp

lemma first_streams:
  "upstream_stream env req d s = (ls, ClientLeaves) \<Longrightarrow> read_lines ls nothing_seen = (True, x) \<Longrightarrow> 0 < se_lines x \<Longrightarrow>
     fst (handle_upstream_success env d (ca_routing ca) s) = None \<Longrightarrow>
     fst (stream_from_candidates env req ca le (d # ds) s) = Inr (d, x, False)"
  by (auto simp: finalize_stream_def Let_def split: prod.splits)

lemma healthy_all:
  "(\<And>d. iv_healthy env d) \<Longrightarrow> \<exists>log. healthy_deployments env ro wid ds s = (Inr ds, s\<lparr>if_log := log\<rparr>)"
proof (induction ds arbitrary: s)
  case Nil
  show ?case by (rule exI [of _ "if_log s"]) simp
next
  case (Cons d ds)
  define s1 where "s1 = log_routing (decision ro (Some wid) (Some (d_id d)) ''selected'' ''ready_and_healthy'') s"
  obtain log where "healthy_deployments env ro wid ds s1 = (Inr ds, s1\<lparr>if_log := log\<rparr>)" using Cons by blast
  then show ?case using Cons.prems by (intro exI [of _ log]) (simp add: s1_def log_routing_def)
qed

definition infer_start :: inference where
  "infer_start = demo_infer\<lparr>if_gate := (if_gate demo_infer)\<lparr>gt_draws := 1\<rparr>\<rparr>"

lemma demo_rows: "cd_deployments (idb demo_infer) =
    [\<lparr>dr_dep = demo_replica, dr_metering_remainder = 0, dr_storage_remainder = 0, dr_billable_since = None, dr_multi_node = None\<rparr>]"
proof -
  have "cd_deployments (c_db demo_fleet) = []" by code_simp
  then show ?thesis by (simp add: demo_infer_def on_db_def insert_deployment_def upsert_workload_def)
qed

lemma demo_ready: "list_ready_deployments demo_env 5 ''w'' (idb demo_infer) = [demo_replica]"
proof -
  have "map d_id (list_ready_deployments demo_env 5 ''w'' (idb demo_infer)) = [''r1'']" by code_simp
  then obtain d where d: "list_ready_deployments demo_env 5 ''w'' (idb demo_infer) = [d]"
    by (cases "list_ready_deployments demo_env 5 ''w'' (idb demo_infer)") auto
  then have "d \<in> set (list_deployments (idb demo_infer))"
    by (metis (no_types, lifting) filter_is_subset in_mono list.set_intros(1) list_ready_deployments_def ready_rows_def set_sort)
  with d show ?thesis by (simp add: list_deployments_def demo_rows)
qed

lemma demo_selected:
  "\<exists>ro log. select_healthy_deployments demo_infer_env demo_chat None None False infer_start
     = (Inr ([demo_replica], ro), infer_start\<lparr>if_log := log, if_turn := 1\<rparr>)"
proof -
  have "map_option (\<lambda>p. wl_id (fst p)) (resolve_workload_reference demo_infer_env ''m'' None None False (if_gate infer_start))
      = Some ''w''" unfolding infer_start_def by code_simp
  then obtain w ro where r: "resolve_workload_reference demo_infer_env ''m'' None None False (if_gate infer_start) = Some (w, ro)"
      "wl_id w = ''w''" by auto
  have "map_option (\<lambda>p. wl_public (fst p)) (resolve_workload_reference demo_infer_env ''m'' None None False (if_gate infer_start))
      = Some True" unfolding infer_start_def by code_simp
  then have pub: "user_can_access_workload w None (if_gate infer_start)" using r by (simp add: user_can_access_workload_def)
  have ready: "reachable_replicas demo_infer_env w infer_start = [demo_replica]"
    using demo_ready r(2)
    by (simp add: reachable_replicas_def icontrol_def inow_def demo_infer_env_def demo_gateway_env_def infer_start_def demo_replica_def)
  obtain log where "healthy_deployments demo_infer_env ro ''w'' [demo_replica] infer_start
      = (Inr [demo_replica], infer_start\<lparr>if_log := log\<rparr>)"
    using healthy_all [of demo_infer_env ro "''w''" "[demo_replica]" infer_start] by (auto simp: demo_infer_env_def)
  then have "select_from demo_infer_env w ro infer_start = (Inr ([demo_replica], ro), infer_start\<lparr>if_log := log, if_turn := 1\<rparr>)"
    by (simp add: select_from_def r(2) ready rotated_def Let_def) (simp add: infer_start_def demo_infer_def)
  then show ?thesis
    using infer_open(1) r(1) pub by (auto simp: select_healthy_deployments_def demo_chat_def)
qed

lemma demo_invoked: "fst (invoke_chat_completion demo_infer_env demo_chat None None None False demo_infer) = Inr demo_replica"
proof -
  obtain ro log where sel: "select_healthy_deployments demo_infer_env demo_chat None None False infer_start
     = (Inr ([demo_replica], ro), infer_start\<lparr>if_log := log, if_turn := 1\<rparr>)" using demo_selected by blast
  define t where "t = infer_start\<lparr>if_log := log, if_turn := 1\<rparr>"
  define ca where "ca = \<lparr>ca_stream = False, ca_request_id = gv_uuid (iv_gate demo_infer_env) 0, ca_key = None, ca_user = None, ca_routing = ro\<rparr>"
  have start: "demo_infer\<lparr>if_gate := (if_gate demo_infer)\<lparr>gt_draws := Suc (gt_draws (if_gate demo_infer))\<rparr>\<rparr> = infer_start"
    "gt_draws (if_gate demo_infer) = 0"
    by (simp_all add: infer_start_def demo_infer_def demo_gateway_def)
  have o: "open_call demo_infer_env False demo_chat None None None False demo_infer = (Inr ([demo_replica], ca), t)"
    unfolding open_call_def Let_def start(1) sel by (simp add: t_def ca_def truthy_iff start(2))
  have "get_workload ''w'' (idb demo_infer) = Some demo_llama"
    by (simp add: demo_infer_def on_db_def insert_deployment_def upsert_workload_def row_simps)
       (simp add: demo_llama_def demo_workload_def)
  then have "upstream_call demo_infer_env demo_chat demo_replica t = Answers (Some (4, 3))"
    by (auto simp: upstream_call_def upstream_model_def t_def infer_start_def demo_infer_env_def demo_replica_def demo_deployment_def
        is_external_def)
  moreover have "fst (handle_upstream_success demo_infer_env demo_replica ro t) = None"
  proof -
    have "get_deployment (d_id demo_replica) (idb t) = Some demo_replica"
      by (simp add: t_def infer_start_def get_deployment_def demo_rows)
    then show ?thesis
      by (simp add: handle_upstream_success_def on_outcome_def clear_deployment_health_failures_def)
         (simp add: demo_replica_def demo_deployment_def)
  qed
  ultimately show ?thesis
    using first_answers [of demo_infer_env demo_chat demo_replica t "Some (4, 3)" ca UpstreamOther "[]"]
    by (simp add: invoke_chat_completion_def o Let_def case_prod_beta ca_def)
qed

theorem answered_by_accessible_model_witness:
  "fst (invoke_chat_completion demo_infer_env demo_chat None None None False demo_infer) = Inr demo_replica \<and>
   (\<exists>w. user_can_access_workload w None (if_gate demo_infer) \<and> fit_replica demo_infer_env w demo_infer demo_replica)"
  using answered_by_accessible_model [OF disjI1 [OF demo_invoked]] infer_open(1) demo_invoked by (auto simp: demo_chat_def)

text \<open>The same model hosted outside the fleet.\<close>

definition demo_outside :: infer_env where
  "demo_outside = demo_infer_env\<lparr>iv_external := ''m=u'',
     iv_gate := (demo_gateway_env 5)\<lparr>gv_control := demo_env\<lparr>blank_deployment := (demo_deployment ''x'' PENDING)\<lparr>d_owner := None\<rparr>\<rparr>\<rparr>\<rparr>"

definition outside_replica :: deployment where
  "outside_replica = external_deployment demo_outside ''m'' ''u''"

lemma outside_url: "external_upstream demo_outside ''m'' = Some ''u''"
proof -
  have "List.map_filter external_entry (split_on (CHR '','') ''m=u'') = [(''m'', ''u'')]" "lower (strip ''m'') = ''m''"
    by code_simp+
  then show ?thesis by (simp add: external_upstream_def external_model_upstreams_def demo_outside_def)
qed

lemma outside_price: "price_monotone demo_outside ''m''"
  using infer_open(2) by (simp add: price_monotone_def demo_outside_def)

lemma outside_selects:
  "select_healthy_deployments demo_outside demo_chat None user admin s =
     (Inr ([outside_replica], \<lparr>ro_matched_by = ByExternal, ro_host = None, ro_model = ''m''\<rparr>), s)"
  using outside_url
  by (simp add: select_healthy_deployments_def demo_chat_def outside_replica_def normalize_host_def)

definition outside_call :: "bool \<Rightarrow> call" where
  "outside_call stream = \<lparr>ca_stream = stream, ca_request_id = gv_uuid (iv_gate demo_outside) 0, ca_key = None, ca_user = Some ''ann'',
     ca_routing = \<lparr>ro_matched_by = ByExternal, ro_host = None, ro_model = ''m''\<rparr>\<rparr>"

lemma outside_facts:
  "is_external outside_replica" "d_owner outside_replica = None"
  "upstream_call demo_outside demo_chat outside_replica t = Answers (Some (4, 3))"
  "upstream_stream demo_outside demo_chat outside_replica t =
     ([DataLine True None, PlainLine, DataLine True None, DataLine False (Some (Some (4, 3)))], ClientLeaves)"
proof -
  show "is_external outside_replica" "d_owner outside_replica = None"
    by (simp_all add: outside_replica_def is_external_def external_deployment_def icontrol_def demo_outside_def)
  then show "upstream_call demo_outside demo_chat outside_replica t = Answers (Some (4, 3))"
    "upstream_stream demo_outside demo_chat outside_replica t =
      ([DataLine True None, PlainLine, DataLine True None, DataLine False (Some (Some (4, 3)))], ClientLeaves)"
    by (simp_all add: upstream_call_def upstream_stream_def upstream_model_def demo_outside_def demo_infer_env_def)
qed

definition outside_lines :: "stream_line list" where
  "outside_lines = [DataLine True None, PlainLine, DataLine True None, DataLine False (Some (Some (4, 3)))]"

definition outside_seen :: seen where
  "outside_seen = \<lparr>se_chunks = 2, se_usage = Some (Some (4, 3)), se_lines = 4\<rparr>"

lemma outside_start:
  "bd_holds (wd_billing (iworld demo_infer)) = []" "get_balance ''ann'' (wd_billing (iworld demo_infer)) = 30"
  "get_row u_id ''ann'' (bd_users (wd_billing (iworld demo_infer))) = Some \<lparr>u_id = ''ann'', u_balance = 30\<rparr>"
  by (simp_all add: demo_infer_def opening_db_def demo_users_def get_balance_def)

lemma outside_costs: "worst_case_cents demo_outside demo_chat = 28" "stream_owes demo_outside demo_chat outside_lines = 5"
  by (simp_all add: worst_case_cents_def stream_owes_def token_price_def last_report_def line_report_def List.map_filter_def
      prompt_token_bound_def completion_token_bound_def requested_max_def BILLED_PROMPT_TOKENS_BASE_def
      BILLED_COMPLETION_TOKENS_CEILING_def outside_lines_def demo_outside_def demo_infer_env_def demo_chat_def)

lemma outside_reserves:
  "fst (reserve_inference_budget demo_outside ''ann'' (gv_uuid (iv_gate demo_outside) 0) demo_chat infer_start) = Inr ()"
  by (simp add: reserve_inference_budget_def reserve_inference_hold_def outside_costs infer_start_def outside_start Let_def
      sum_rows_def)

lemma outside_opens:
  "\<exists>t. open_call demo_outside stream demo_chat None (Some ''ann'') None admin demo_infer = (Inr ([outside_replica], outside_call stream), t)"
proof -
  have start: "demo_infer\<lparr>if_gate := (if_gate demo_infer)\<lparr>gt_draws := Suc (gt_draws (if_gate demo_infer))\<rparr>\<rparr> = infer_start"
    "gt_draws (if_gate demo_infer) = 0"
    by (simp_all add: infer_start_def demo_infer_def demo_gateway_def)
  obtain t where r: "reserve_inference_budget demo_outside ''ann'' (gv_uuid (iv_gate demo_outside) 0) demo_chat infer_start = (Inr (), t)"
    using outside_reserves by (metis prod.collapse)
  show ?thesis
    unfolding open_call_def Let_def start(1) outside_selects
    using r by (cases "\<not> admin \<and> \<not> billed_privately outside_replica infer_start") (simp_all add: start(2) outside_call_def)
qed

lemma outside_success: "fst (handle_upstream_success demo_outside outside_replica ro t) = None"
  by (simp add: handle_upstream_success_def outside_facts(1))

lemma outside_streamed:
  "fst (stream_chat_completion demo_outside demo_chat None (Some ''ann'') None admin demo_infer) = Inr (outside_replica, outside_seen, False)"
proof -
  obtain t where o: "open_call demo_outside True demo_chat None (Some ''ann'') None admin demo_infer
      = (Inr ([outside_replica], outside_call True), t)" using outside_opens by blast
  have "fst (stream_from_candidates demo_outside demo_chat (outside_call True) UpstreamOther [outside_replica] t)
      = Inr (outside_replica, outside_seen, False)"
    by (rule first_streams [OF outside_facts(4) _ _ outside_success]) (simp_all add: nothing_seen_def outside_seen_def)
  then show ?thesis by (simp add: stream_chat_completion_def o Let_def case_prod_beta)
qed

lemma outside_invoked:
  "fst (invoke_chat_completion demo_outside demo_chat None (Some ''ann'') None False demo_infer) = Inr outside_replica"
proof -
  obtain t where o: "open_call demo_outside False demo_chat None (Some ''ann'') None False demo_infer
      = (Inr ([outside_replica], outside_call False), t)" using outside_opens by blast
  show ?thesis
    using first_answers [OF outside_facts(3) outside_success, of "outside_call False" UpstreamOther "[]"]
    by (simp add: invoke_chat_completion_def o Let_def case_prod_beta)
qed

text \<open>A client of a model hosted outside leaves after four lines, the last of which reports the usage: five cents.\<close>

theorem delivered_stream_is_paid_witness:
  "\<exists>x. fst (stream_chat_completion demo_outside demo_chat None (Some ''ann'') None False demo_infer) = Inr (outside_replica, x, False) \<and>
   get_balance ''ann'' (wd_billing (iworld (snd
     (stream_chat_completion demo_outside demo_chat None (Some ''ann'') None False demo_infer)))) = 25"
proof -
  define out where "out = stream_chat_completion demo_outside demo_chat None (Some ''ann'') None False demo_infer"
  have run: "out = (Inr (outside_replica, outside_seen, False), snd out)"
    using outside_streamed [of False] unfolding out_def [symmetric] by (metis prod.collapse)
  have lines: "iv_lines demo_outside d m = (outside_lines, ClientLeaves)" for d m
    by (simp add: demo_outside_def demo_infer_env_def outside_lines_def)
  from delivered_stream_is_paid [OF run [unfolded out_def], folded out_def]
  have "get_balance ''ann'' (wd_billing (iworld (snd out))) = 25"
    by (auto simp: outside_start outside_costs outside_facts(2) truthy_iff lines)
  with run show ?thesis unfolding out_def [symmetric] by (metis fst_conv)
qed

theorem request_costs_at_most_its_bound_witness:
  "\<exists>t. invoke_chat_completion demo_outside demo_chat None (Some ''ann'') None False demo_infer = (Inr outside_replica, t) \<and>
     bd_holds (wd_billing (iworld t)) = [] \<and> 2 \<le> get_balance ''ann'' (wd_billing (iworld t))"
proof -
  define out where "out = invoke_chat_completion demo_outside demo_chat None (Some ''ann'') None False demo_infer"
  have out: "out = (Inr outside_replica, snd out)" using outside_invoked unfolding out_def [symmetric] by (metis prod.collapse)
  have mono: "price_monotone demo_outside (cq_model demo_chat)" using outside_price by (simp add: demo_chat_def)
  have fresh: "gv_uuid (iv_gate demo_outside) (gt_draws (if_gate demo_infer)) \<notin> h_reference ` set (bd_holds (wd_billing (iworld demo_infer)))"
    by (simp add: outside_start)
  note request_costs_at_most_its_bound [OF mono fresh, where key = None and user = "Some ''ann''" and host = None
      and admin = False and r = "Inr ()" and t = "snd out" and v = "''ann''", folded out_def]
  moreover have "served out = (Inr (), snd out)" by (subst out) (simp add: served_def)
  ultimately have "set (bd_holds (wd_billing (iworld (snd out)))) \<subseteq> {} \<and> 2 \<le> get_balance ''ann'' (wd_billing (iworld (snd out)))"
    by (auto simp: outside_start outside_costs)
  with out show ?thesis unfolding out_def [symmetric] by auto
qed
end
