(* ===== verification/Spec2Isabelle.thy ===== *)
theory Spec2Isabelle
  imports Prelude Bus Billing Billing_Properties Scheduler Control_Repository Control_Plane
    Control_Properties Control_Guarantees Metering Numbers_Text Grouping Statements Webhooks
    Flux Base58 Managed_Wallet Custody_Properties Multinode Payment_Decisions Payments Invoice_Amounts
    Payment_Properties Builder Builder_Invariant Builder_Properties Scoring Scoring_Properties Probing
    Probing_Properties Access Access_Properties Inference Inference_Properties
begin

text \<open>
  \<^bold>\<open>Green Compute API: a verification development.\<close>

  \<^bold>\<open>The program.\<close>  Green Compute rents GPUs.  Miners register machines and report their
  capacity; customers pay in by crypto transfer or Stripe and start deployments (pods, VMs, model
  replicas).  Four Python services share one SQL database: the gateway (accounts, payments,
  inference requests), the control plane (inventory, scheduling, lifecycle, metering), the
  validator (scoring, chain weights) and the builder (images).  They talk through tables and
  through an event bus that is itself two tables.  This development models the parts that move
  money and GPUs: the bus, the billing repository, the whole control plane down to its
  repository, the metering pass that ties the last two together, the gateway's payments, statements
  and webhooks, its keys, scopes, limits and rentals, its inference requests from routing to billing,
  the builder, and of the validator the scoring, probes, weights and audit reports, the GPU
  allocation, the distributed replicas and the custody of providers' wallets.

  \<^bold>\<open>Theories.\<close>
  \<^item> \<open>Prelude\<close>: identifiers and time, the string operations of Python the code uses, rounding
    half to even, tables as lists of rows with a key, and the locales \<open>invariant_step\<close> and
    \<open>invariant_system\<close> from which every reachability argument is drawn.
  \<^item> \<open>Bus\<close>: \<^verbatim>\<open>packages/persistence/.../bus.py\<close> (\<^verbatim>\<open>SubjectBus\<close>) and \<^verbatim>\<open>workflow.py\<close>.  State: the event
    and the delivery table.  Locale \<open>work_queue\<close> is the contract a worker relies on (what was
    claimed is not claimed again before it is finished or retried); \<open>bus_step\<close> is the state
    machine of all operations, \<open>undisturbed_step\<close> its part in which nobody retries the delivery or
    requeues what is old.
  \<^item> \<open>Billing\<close>: \<^verbatim>\<open>gateway/infrastructure/billing_repository.py\<close>.  State: users, ledger, holds,
    crypto invoices, deposits, verified wallets, Stripe sessions.  One definition per method;
    \<open>billing_step\<close> has one rule for each.  \<open>Billing_Properties\<close> proves that the ledger explains
    every balance, that a payment is booked once under one deposit reference whichever path books
    it, that draining debits are exact (locale \<open>floor_debit\<close>), that holds are covered, and that wallets have one owner.
  \<^item> \<open>Scheduler\<close>: \<^verbatim>\<open>control-plane/domain/scheduler.py\<close>.  Eligibility, score, ranking, lease.
  \<^item> \<open>Control_Repository\<close>: \<^verbatim>\<open>control-plane/infrastructure/repository.py\<close>, \<^verbatim>\<open>domain/state.py\<close> and
    \<^verbatim>\<open>packages/persistence/.../account_events.py\<close>.  State: the record \<open>control_db\<close> of all tables.
    Locale \<open>gpu_ledger\<close> is the contract of the reservation table (a reservation is granted within
    the capacity passed or not at all, a release gives back what was held); locale \<open>accumulator\<close>
    that of the millicent accumulators (nothing is lost or invented by carrying).
  \<^item> \<open>Control_Plane\<close>: \<^verbatim>\<open>control-plane/application/services.py\<close> without metering.  State: the database,
    the bus and the count of random identifiers drawn.  One definition per method: capacity
    reports, creation, placement, status reports, health failures, requeue, resume, forced
    failure, clean-up, lease time-outs, silent machines, idle models, crash recovery and the
    worker's event loop.
  \<^item> \<open>Control_Properties\<close>: the state machine \<open>control_step\<close> of these calls, its invariant \<open>safe\<close>
    (reservations well formed and within the GPUs of each node), no double booking, and the
    lifecycle rules.  \<open>Control_Guarantees\<close>: what each operation promises the customer.
  \<^item> \<open>Metering\<close>: \<^verbatim>\<open>meter_usage\<close>, \<^verbatim>\<open>meter_pod_storage\<close>, \<^verbatim>\<open>reap_exhausted_pods\<close>,
    \<^verbatim>\<open>stop_expired_runtimes\<close>, \<^verbatim>\<open>stop_rentals_over_key_limits\<close> of the service, \<^verbatim>\<open>domain/metering.py\<close> and
    \<^verbatim>\<open>packages/persistence/.../key_limits.py\<close>, over the record \<open>world\<close> that joins the control plane
    and the billing state.  Locale \<open>deadline_pass\<close> is the contract of the passes that end
    deployments.
  \<^item> \<open>Numbers_Text\<close>, \<open>Grouping\<close>: rounding to decimals, formatted numbers, and grouping a list into a
    dictionary in order of first use.
  \<^item> \<open>Statements\<close>: \<^verbatim>\<open>gateway/application/statements.py\<close> and \<^verbatim>\<open>BillingRepository.spending_rows\<close> over the
    billing and control-plane tables: summaries, monthly statements, CSV.  They add up to the cent,
    consecutive months chain, and the rates \<open>Metering\<close> writes into charge texts are read back.
  \<^item> \<open>Webhooks\<close>: \<^verbatim>\<open>gateway/application/webhooks.py\<close>.  State: account events and webhooks.  The delivery
    loop takes as arguments what others do between its transactions; the machine \<open>hook_step\<close> has
    events, turns and the owner's changes.  Acknowledged deliveries refine the filtered feed.
  \<^item> \<open>Flux\<close>: \<^verbatim>\<open>validator/domain/flux.py\<close>, \<^verbatim>\<open>demand.py\<close>, \<^verbatim>\<open>wait_estimator.py\<close>, \<^verbatim>\<open>metagraph.py\<close>.  The packing
    loop may in principle not end, so it is a partial function with a proof that it returns.
  \<^item> \<open>Base58\<close>, \<open>Managed_Wallet\<close>, \<open>Custody_Properties\<close>: \<^verbatim>\<open>validator/domain/managed_wallet.py\<close>,
    \<^verbatim>\<open>application/managed_wallets.py\<close> and the wallet tables of \<^verbatim>\<open>infrastructure/repository.py\<close>.  State
    \<open>custody\<close>: wallets, payouts, whitelist and an arbitrary chain state; the chain, the key factory
    and the secret box are the record \<open>custody_env\<close>.  \<open>custody_step\<close> is the machine of all changes; beside the
    state it remembers the hotkeys that the admin routes whitelisted, which may be managed ones.
  \<^item> \<open>Multinode\<close>: \<^verbatim>\<open>validator/domain/multinode.py\<close>, the deployment rows of the fleet and the reconciler of
    \<^verbatim>\<open>validator/application/services.py\<close> for models that span several nodes.

  \<^item> \<open>Payment_Decisions\<close>, \<open>Payments\<close>: \<^verbatim>\<open>gateway/domain/payment_decisions.py\<close>, \<^verbatim>\<open>application/billing_service.py\<close>
    and the Stripe webhook of \<^verbatim>\<open>transport/routes.py\<close>.  State \<open>payments\<close>: the billing tables, the e-mails and
    alerts sent.  A rule of \<open>resolve_deposit\<close> is a function of that state; the rules are tried in the
    code's order by \<open>or_else\<close>.  \<open>Invoice_Amounts\<close> shows, by an interpretation of \<open>invariant_step\<close> on
    \<open>billing_step\<close>, that open invoices at one address ask for different amounts; \<open>Payment_Properties\<close>
    what each resolution of a transfer books and for whom, and which payments under one transaction hash
    are recognised as the same; the findings among its lemmas show the two ways round that.
  \<^item> \<open>Builder\<close>: \<^verbatim>\<open>builder/application/services.py\<close>, \<^verbatim>\<open>infrastructure/repository.py\<close> and the runner and
    simulated adapters of \<^verbatim>\<open>infrastructure/execution.py\<close>.  State: the tables, the bus, the ids drawn.
    \<open>Builder_Invariant\<close> has the typing of jobs and shows for each operation that it \<open>goes\<close> (keeps the
    invariant, closed jobs and settled builds); \<open>Builder_Properties\<close> has the machine \<open>builder_step\<close> of
    all calls and what follows from it.
  \<^item> \<open>Scoring\<close>: \<^verbatim>\<open>validator/domain/scoring.py\<close> and the weight arithmetic of \<^verbatim>\<open>domain/chain.py\<close>, over real
    numbers (a standard deviation is a square root).  \<open>Scoring_Properties\<close>: every factor in its range, monotonicity
    in the evidence, what rounding the weights to integers loses.
  \<^item> \<open>Probing\<close>: probes, scorecards, weight snapshots, the inference canary and the audit reports of
    \<^verbatim>\<open>validator/application/services.py\<close> (\<^verbatim>\<open>ValidatorService\<close>) with their tables of \<^verbatim>\<open>infrastructure/repository.py\<close>
    and the epoch hook of \<^verbatim>\<open>main.py\<close>.  State \<open>validator\<close>.  \<open>Probing_Properties\<close> has the machine
    \<open>validator_step\<close>, and shows that each result answers a challenge once, that weights are the admitted miners'
    scores, which epochs a worker publishes, and what the report of one carries.  The failures of the two writes
    that the code handles (the score history, the report) are flags of \<open>validator_env\<close>.
  \<^item> \<open>Access\<close>: \<^verbatim>\<open>gateway/domain/scopes.py\<close>, \<^verbatim>\<open>transport/security.py\<close>, \<^verbatim>\<open>persistence/rate_limit.py\<close>, the tables and
    idempotency records of \<^verbatim>\<open>gateway/infrastructure/repository.py\<close>, the accounts, keys, shares and deployment gates of
    \<^verbatim>\<open>gateway/application/services.py\<close>, and the key and deployment routes of \<^verbatim>\<open>transport/routes.py\<close>.  State
    \<open>gateway\<close>: its own tables beside the \<open>world\<close> of \<open>Metering\<close>, so a rental created here is the deployment that the
    control plane places and meters.  \<open>Access_Properties\<close>: a key minted with a key is never broader, bursts are
    bounded, the gate covers the first hour, a creation under an idempotency key runs once.
  \<^item> \<open>Inference\<close>: \<^verbatim>\<open>invoke_chat_completion\<close> and \<^verbatim>\<open>stream_chat_completion\<close> of the same service with model
    resolution, replica selection, failover, reservation, the bounds on reported usage, billing and payouts.  State
    \<open>inference\<close> around \<open>gateway\<close>; the upstream servers are functions of \<open>infer_env\<close>.  \<open>Inference_Properties\<close>: only a
    model the caller may use answers, a request costs at most what was reserved and leaves no hold behind, and a
    stream that ran is paid by its last usage report or by the chunks delivered.

  \<^bold>\<open>Conventions.\<close>  A \<open>datetime\<close> is an \<open>int\<close> of microseconds; an operation that reads the clock takes
  it as \<open>now\<close>, read once per call.  A table is a list of rows in insertion order, and rows that
  tie in an ORDER BY keep it.  Each \<^verbatim>\<open>session_scope\<close> is one transaction: a repository method is one
  atomic function on the tables, and an exception it raises is \<open>Inl\<close> with the tables unchanged.
  A service method makes several transactions, so it returns both an error or value and the state
  that its completed transactions leave behind.  UNIQUE constraints that decide a result are
  written out in the operation.  Python integers are \<open>int\<close>; floats are the exact rationals they
  stand for (amounts of money are rounded by \<open>py_round\<close> at the point where the code calls \<open>round\<close>).
  A JSON column holds the value it serialises.  Text is the bytes of its UTF-8 form; where the code
  cuts a text at a number of characters the model cuts bytes, which is the same for ASCII.  The random
  ids of \<open>uuid4\<close> are drawn from the function \<open>new_uuid\<close> of the record \<open>env\<close>, or left out where
  nothing reads them.  The protocol package, which is not part of the repository, enters as
  fields of \<open>env\<close> (rates, card memory, storage price, the defaults of a fresh deployment); the
  settings of \<^verbatim>\<open>config.py\<close> are the other fields.  Every loop of the code runs over a list read
  before it starts, so each is structural recursion and total; no fuel is used.  The exceptions are the worker loops,
  which claim until nothing is due or their limit is used up and recurse on what is left of it.

  \<^bold>\<open>Reachability.\<close>  The theorems on \<open>billing_step\<close>, \<open>bus_step\<close> and \<open>control_step\<close> hold after any finite
  sequence of calls with any arguments, in any interleaving of whole transactions (billing, bus)
  or of whole service calls (control plane).  The rules of \<open>control_step\<close> assume that a capacity
  report states for each node the number of GPUs it physically has (the function \<open>gpus\<close>) and that a
  workload does not ask for a negative number of GPUs; the free GPUs reported are arbitrary.

  \<^bold>\<open>Not modelled.\<close>  The other HTTP routes and all request schemas; the NATS transport; clients of
  chains, price feeds, mail, docker, object stores, registries and the node agents; logs, metrics and
  notifications; workload creation and its validation, fleets, credit warnings, account deletion, secrets and
  provider inquiries of the gateway; the scan loops of the deposit watcher; the validator's per-node reconciling of
  the shared catalogue, demand series, dashboard and spec checks; operator reports; schema migrations.

  \<^bold>\<open>What could follow.\<close>  In this order: fleets and credit warnings over the control plane; the scan cursors of
  the deposit watcher; the per-node reconciling of the shared catalogue; workload validation.
\<close>

end
